(* ===== verification/Greens_Prelude.thy ===== *)
theory Greens_Prelude
  imports "HOL-Library.Word" "HOL-Library.Monad_Syntax"
begin

unbundle bit_operations_syntax

text \<open>
  The shared vocabulary of the development: the Rust integer types, the two ways a Rust call can
  fail to return a value, the byte representation of integers, and the list, option and word
  lemmas that the component theories use.

  Conventions, for all theories:
  \<^item> \<open>u8\<close>, \<open>u16\<close>, \<open>u32\<close> and \<open>u64\<close> are words of that width. \<open>usize\<close> values are indices, lengths
    and offsets into slices and are natural numbers; where the code calls \<open>checked_add\<close> on one,
    or where an overflowing addition is not followed by an access that panics anyway, the bound
    \<open>2 ^ 64\<close> is written out.
  \<^item> \<open>None\<close> of an \<open>option\<close> is a panic (an out-of-range slice, a failed assertion, an overflow with
    overflow checks on) or a loop that does not return; a call that cannot panic has no \<open>option\<close>.
  \<^item> \<open>Inl e\<close> of a sum is \<open>Err(e)\<close> and \<open>Inr v\<close> is \<open>Ok(v)\<close>. A method on \<open>&mut self\<close> returns the new
    state beside its result, also when the result is an error.
\<close>

section \<open>Rust integer types\<close>

type_synonym u8 = "8 word"
type_synonym u16 = "16 word"
type_synonym u32 = "32 word"
type_synonym u64 = "64 word"
type_synonym usize = nat
type_synonym bytes = "u8 list"

named_theorems option_simps \<open>when an operation that may panic returns\<close>
named_theorems bit_views \<open>the bits of arrays, slices and words read from them\<close>

section \<open>Results\<close>

text \<open>The question mark operator on a call that threads a state.\<close>

definition bind_result ::
    "(('e + 'a) \<times> 's) option \<Rightarrow> ('a \<Rightarrow> 's \<Rightarrow> (('e + 'b) \<times> 's) option) \<Rightarrow> (('e + 'b) \<times> 's) option" where
  "bind_result m f =
     (case m of
        None \<Rightarrow> None
      | Some (Inl e, s) \<Rightarrow> Some (Inl e, s)
      | Some (Inr a, s) \<Rightarrow> f a s)"

text \<open>The question mark operator on a pure result.\<close>

definition try_result :: "('e + 'a) \<Rightarrow> ('a \<Rightarrow> 'e + 'b) \<Rightarrow> 'e + 'b" where
  "try_result r f = (case r of Inl e \<Rightarrow> Inl e | Inr a \<Rightarrow> f a)"

lemma bind_result_simps [simp]:
  "bind_result None f = None"
  "bind_result (Some (Inl e, s)) f = Some (Inl e, s)"
  "bind_result (Some (Inr a, s)) f = f a s"
  by (simp_all add: bind_result_def)

lemma try_result_simps [simp]:
  "try_result (Inl e) f = Inl e"
  "try_result (Inr a) f = f a"
  by (simp_all add: try_result_def)

lemma bind_result_SomeE:
  assumes "bind_result m f = Some (r, s')"
  obtains e where "m = Some (Inl e, s')" and "r = Inl e"
  | a s where "m = Some (Inr a, s)" and "f a s = Some (r, s')"
  using assms by (auto simp: bind_result_def split: option.splits sum.splits prod.splits)

lemma try_result_InrE:
  assumes "try_result r f = Inr b"
  obtains a where "r = Inr a" and "f a = Inr b"
  using assms by (cases r) auto

section \<open>Slices\<close>

text \<open>Reading \<open>arr[offset..offset + n]\<close> and copying \<open>data\<close> over it.\<close>

definition slice_read :: "'a list \<Rightarrow> nat \<Rightarrow> nat \<Rightarrow> 'a list option" where
  "slice_read arr offset n =
     (if offset + n \<le> length arr then Some (take n (drop offset arr)) else None)"

definition patch :: "'a list \<Rightarrow> nat \<Rightarrow> 'a list \<Rightarrow> 'a list" where
  "patch arr offset data = take offset arr @ data @ drop (offset + length data) arr"

definition slice_set :: "'a list \<Rightarrow> nat \<Rightarrow> 'a list \<Rightarrow> 'a list option" where
  "slice_set arr offset data =
     (if offset + length data \<le> length arr then Some (patch arr offset data) else None)"

lemma slice_read_Some [option_simps]:
  "offset + n \<le> length arr \<Longrightarrow> slice_read arr offset n = Some (take n (drop offset arr))"
  by (simp add: slice_read_def)

lemma slice_set_Some [option_simps]:
  "offset + length data \<le> length arr \<Longrightarrow> slice_set arr offset data = Some (patch arr offset data)"
  by (simp add: slice_set_def)

lemma length_patch [simp]:
  "offset + length data \<le> length arr \<Longrightarrow> length (patch arr offset data) = length arr"
  by (simp add: patch_def)

lemma nth_patch:
  assumes "offset + length data \<le> length arr" and "i < length arr"
  shows "patch arr offset data ! i =
     (if offset \<le> i \<and> i < offset + length data then data ! (i - offset) else arr ! i)"
  using assms by (auto simp: patch_def nth_append)

lemma take_drop_patch:
  assumes "offset + length data \<le> length arr"
  shows "take (length data) (drop offset (patch arr offset data)) = data"
  using assms by (simp add: patch_def)

lemma take_drop_patch_disjoint:
  assumes "offset + length data \<le> length arr" and "p + n \<le> length arr"
    and "p + n \<le> offset \<or> offset + length data \<le> p"
  shows "take n (drop p (patch arr offset data)) = take n (drop p arr)"
  using assms by (auto intro!: nth_equalityI simp: nth_patch)

lemma patch_self: "offset + n \<le> length arr \<Longrightarrow> patch arr offset (take n (drop offset arr)) = arr"
  by (rule nth_equalityI) (auto simp: nth_patch)

section \<open>Bytes of machine integers\<close>

definition byte_of :: "'a::len word \<Rightarrow> nat \<Rightarrow> u8" where
  "byte_of w i = ucast (drop_bit (8 * i) w)"

definition to_le_bytes :: "'a::len word \<Rightarrow> bytes" where
  "to_le_bytes w = map (byte_of w) [0..<LENGTH('a) div 8]"

primrec from_le_bytes :: "bytes \<Rightarrow> 'a::len word" where
  "from_le_bytes [] = 0"
| "from_le_bytes (b # bs) = ucast b OR push_bit 8 (from_le_bytes bs)"

lemma length_to_le_bytes [simp]: "length (to_le_bytes (w :: 'a::len word)) = LENGTH('a) div 8"
  by (simp add: to_le_bytes_def)

lemma bit_byte_of [bit_views]: "bit (byte_of w i) j \<longleftrightarrow> j < 8 \<and> bit w (8 * i + j)"
  by (auto simp: byte_of_def bit_simps)

lemma bit_from_le_bytes [bit_views]:
  "bit (from_le_bytes bs :: 'a::len word) k \<longleftrightarrow>
     k < LENGTH('a) \<and> k < 8 * length bs \<and> bit (bs ! (k div 8)) (k mod 8)"
proof (induction bs arbitrary: k)
  case Nil
  then show ?case by simp
next
  case (Cons b bs)
  show ?case
  proof (cases "k < 8")
    case True
    then show ?thesis by (auto simp: bit_simps)
  next
    case False
    then have "k div 8 = Suc ((k - 8) div 8)" and "k mod 8 = (k - 8) mod 8"
      by (simp_all add: div_if mod_if)
    moreover from False have "\<not> bit b k"
      using bit_imp_le_length [of b k] by auto
    ultimately show ?thesis using False Cons.IH [of "k - 8"]
      by (auto simp: bit_simps)
  qed
qed

lemma nth_to_le_bytes:
  "i < LENGTH('a) div 8 \<Longrightarrow> to_le_bytes (w :: 'a::len word) ! i = byte_of w i"
  by (simp add: to_le_bytes_def)

lemma from_to_le_bytes:
  assumes "8 dvd LENGTH('a)"
  shows "from_le_bytes (to_le_bytes w) = (w :: 'a::len word)"
proof (rule bit_word_eqI)
  fix k assume k: "k < LENGTH('a)"
  with assms have "k div 8 < LENGTH('a) div 8"
    by (auto elim!: dvdE)
  with assms k show "bit (from_le_bytes (to_le_bytes w) :: 'a word) k = bit w k"
    by (auto simp: bit_views nth_to_le_bytes)
qed

lemma to_from_le_bytes:
  assumes "length bs = LENGTH('a) div 8" and "8 dvd LENGTH('a)"
  shows "to_le_bytes (from_le_bytes bs :: 'a::len word) = bs"
proof (rule nth_equalityI)
  show "length (to_le_bytes (from_le_bytes bs :: 'a word)) = length bs"
    using assms by simp
next
  fix i assume "i < length (to_le_bytes (from_le_bytes bs :: 'a word))"
  then have i: "i < LENGTH('a) div 8" by simp
  show "to_le_bytes (from_le_bytes bs :: 'a word) ! i = bs ! i"
  proof (rule bit_word_eqI)
    fix j assume "j < LENGTH(8)"
    then have j: "j < 8" by simp
    have "8 * i + j < LENGTH('a)" using i j assms(2) by (auto elim!: dvdE)
    moreover have "(8 * i + j) div 8 = i" and "(8 * i + j) mod 8 = j" using j by simp_all
    ultimately show "bit (to_le_bytes (from_le_bytes bs :: 'a word) ! i) j = bit (bs ! i) j"
      using i j assms by (auto simp: nth_to_le_bytes bit_views)
  qed
qed

section \<open>The bit view of an array\<close>

text \<open>Bit \<open>k\<close> of an array of bytes, counted from the least significant bit of byte 0.\<close>

definition array_bit :: "bytes \<Rightarrow> nat \<Rightarrow> bool" where
  "array_bit arr k = bit (arr ! (k div 8)) (k mod 8)"

lemma array_bit_le_bytes [bit_views]:
  assumes "k < 8 * (LENGTH('a) div 8)"
  shows "array_bit (to_le_bytes (w :: 'a::len word)) k = bit w k"
proof -
  have "k div 8 < LENGTH('a) div 8" using assms by simp
  then show ?thesis by (simp add: array_bit_def nth_to_le_bytes bit_views)
qed

lemma bit_word_at [bit_views]:
  assumes "off + n \<le> length arr"
  shows "bit (from_le_bytes (take n (drop off arr)) :: 'a::len word) k \<longleftrightarrow>
     k < LENGTH('a) \<and> k < 8 * n \<and> array_bit arr (8 * off + k)"
proof -
  have "(8 * off + k) div 8 = off + k div 8" and "(8 * off + k) mod 8 = k mod 8" by simp_all
  moreover have "take n (drop off arr) ! (k div 8) = arr ! (off + k div 8)" if "k < 8 * n"
  proof -
    from that have "k div 8 < n" by simp
    with assms show ?thesis by simp
  qed
  ultimately show ?thesis using assms by (auto simp: bit_views array_bit_def)
qed

lemma array_bit_patch [bit_views]:
  assumes "off + length data \<le> length arr" and "k < 8 * length arr"
  shows "array_bit (patch arr off data) k =
     (if 8 * off \<le> k \<and> k < 8 * (off + length data) then array_bit data (k - 8 * off)
      else array_bit arr k)"
proof -
  have i: "k div 8 < length arr" using assms(2) by simp
  have iff: "off \<le> k div 8 \<and> k div 8 < off + length data \<longleftrightarrow>
      8 * off \<le> k \<and> k < 8 * (off + length data)" by auto
  have "(k - 8 * off) div 8 = k div 8 - off" and "(k - 8 * off) mod 8 = k mod 8"
    if "8 * off \<le> k"
    using that by (simp_all add: le_iff_add) (auto simp: le_iff_add)
  then show ?thesis
    unfolding array_bit_def nth_patch [OF assms(1) i] using iff by auto
qed

lemma bytes_eq_by_bits:
  assumes "length xs = length ys" and "\<And>k. k < 8 * length ys \<Longrightarrow> array_bit xs k = array_bit ys k"
  shows "xs = ys"
proof (rule nth_equalityI)
  fix i assume i: "i < length xs"
  show "xs ! i = ys ! i"
  proof (rule bit_word_eqI)
    fix j assume "j < LENGTH(8)"
    then have "(8 * i + j) div 8 = i" and "(8 * i + j) mod 8 = j" by simp_all
    with i assms(1) assms(2) [of "8 * i + j"] \<open>j < LENGTH(8)\<close>
    show "bit (xs ! i) j = bit (ys ! i) j" by (simp add: array_bit_def)
  qed
qed (rule assms(1))

lemma and_exp_eq_0_iff:
  assumes "n < LENGTH('a)"
  shows "(w :: 'a::len word) AND 2 ^ n = 0 \<longleftrightarrow> \<not> bit w n"
proof -
  have "w AND 2 ^ n = (if bit w n then 2 ^ n else 0)"
    by (rule bit_word_eqI) (use assms in \<open>auto simp: bit_simps\<close>)
  moreover have "(2 ^ n :: 'a word) \<noteq> 0"
    using assms by (metis bit_0_eq bit_exp_iff bot_apply bot_bool_def possible_bit_word)
  ultimately show ?thesis by simp
qed

end
