(* ===== verification/Pci_Types.thy ===== *)
theory Pci_Types
  imports Greens_Prelude
begin

text \<open>
  The types every part of the PCI crate shares: the error type, MSI messages and the interrupt
  controller interface of \<open>greens-pci/src/lib.rs\<close>, the register constants of \<open>registers.rs\<close>, the
  base address registers of \<open>bar.rs\<close> and the capability interface of \<open>capability.rs\<close>.
\<close>

section \<open>Errors\<close>

datatype error =
    BarInUse usize
  | BarNotFound u64 u64
  | BarRegionOverflow u64 u64
  | InvalidBarAlignment u64 u64
  | InvalidBarIndex usize
  | InvalidBarSize u64
  | InvalidBarAddress u64
  | InvalidIoSize usize
  | InvalidAccessAlignment u64 u64
  | AccessBounds usize usize
  | NoInterruptError
  | UnsupportedHeader u8
  | NotSupported
  | CapabilityNotFound u8
  | ConfigurationSpaceBounds usize
  | DeviceAreaBounds usize usize
  | InvalidMsiVector u8
  | InvalidMultipleMessageValue u16
  | MsiDisabled
  | NotBusMaster
  | InvalidFunction usize
  | InvalidMsiXVector usize
  | InterruptTypeMismatch
  | InvalidMsiXTableOffset u64
  | InvalidMsiXTableSize usize
  | InvalidMsiXBarSize u64
  | VectorNotMasked usize

type_synonym 'a result = "error + 'a"

text \<open>A method on \<open>&mut self\<close> that returns a \<open>Result\<close>: a panic, or the result and the new state.\<close>

type_synonym ('s, 'a) call = "('a result \<times> 's) option"

section \<open>Messages and the interrupt controller\<close>

record PciMsiMessage =
  msg_address :: u64
  msg_data :: u32

datatype PciInterruptLineState = Low | High

definition line_state_of_bool :: "bool \<Rightarrow> PciInterruptLineState" where
  "line_state_of_bool state = (case state of True \<Rightarrow> High | False \<Rightarrow> Low)"

type_synonym PciInterruptLine = usize

text \<open>
  Both methods of \<open>PciInterruptController\<close> return nothing, so a controller is characterised by
  the sequence of calls it receives, oldest first.
\<close>

datatype controller_call =
    SetInterrupt PciInterruptLine PciInterruptLineState
  | SendMsi PciMsiMessage

type_synonym controller = "controller_call list"

definition set_interrupt :: "controller \<Rightarrow> PciInterruptLine \<Rightarrow> PciInterruptLineState \<Rightarrow> controller" where
  "set_interrupt c line state = c @ [SetInterrupt line state]"

definition send_msi :: "controller \<Rightarrow> PciMsiMessage \<Rightarrow> controller" where
  "send_msi c message = c @ [SendMsi message]"

section \<open>Register constants\<close>

text \<open>The configuration space has 256 bytes: the crate is built without its \<open>pcie\<close> feature.\<close>

definition PCI_CONFIGURATION_SPACE_SIZE :: usize where [simp]: "PCI_CONFIGURATION_SPACE_SIZE = 256"
definition PCI_CONFIGURATION_SPACE_MAX_IO_SIZE :: usize where [simp]: "PCI_CONFIGURATION_SPACE_MAX_IO_SIZE = 4"
definition PCI_MAX_DEVICE_FUNCTIONS :: usize where [simp]: "PCI_MAX_DEVICE_FUNCTIONS = 7"
definition PCI_TYPE0_NUM_BARS :: usize where [simp]: "PCI_TYPE0_NUM_BARS = 6"
definition PCI_TYPE1_NUM_BARS :: usize where [simp]: "PCI_TYPE1_NUM_BARS = 2"
definition NUM_BAR_REGS :: usize where [simp]: "NUM_BAR_REGS = PCI_TYPE0_NUM_BARS"
definition PCI_VENDOR_ID :: usize where [simp]: "PCI_VENDOR_ID = 0x0"
definition PCI_DEVICE_ID :: usize where [simp]: "PCI_DEVICE_ID = 0x2"
definition PCI_COMMAND :: usize where [simp]: "PCI_COMMAND = 0x4"
definition PCI_COMMAND_IO_SPACE_MASK :: u16 where [simp]: "PCI_COMMAND_IO_SPACE_MASK = 0x1"
definition PCI_COMMAND_MEM_SPACE_MASK :: u16 where [simp]: "PCI_COMMAND_MEM_SPACE_MASK = 0x2"
definition PCI_COMMAND_BUS_MASTER_MASK :: u16 where [simp]: "PCI_COMMAND_BUS_MASTER_MASK = 0x4"
definition PCI_COMMAND_INTERRUPT_DISABLE_MASK :: u16 where [simp]: "PCI_COMMAND_INTERRUPT_DISABLE_MASK = 0x400"
definition PCI_STATUS :: usize where [simp]: "PCI_STATUS = 0x6"
definition PCI_STATUS_INTERRUPT_STATUS_MASK :: u16 where [simp]: "PCI_STATUS_INTERRUPT_STATUS_MASK = 0x8"
definition PCI_STATUS_CAP_LIST_MASK :: u16 where [simp]: "PCI_STATUS_CAP_LIST_MASK = 0x10"
definition PCI_REVISION_ID :: usize where [simp]: "PCI_REVISION_ID = 0x8"
definition PCI_CLASS_CODE_PI :: usize where [simp]: "PCI_CLASS_CODE_PI = 0x9"
definition PCI_CLASS_CODE_SUB :: usize where [simp]: "PCI_CLASS_CODE_SUB = 0xA"
definition PCI_CLASS_CODE_BASE :: usize where [simp]: "PCI_CLASS_CODE_BASE = 0xB"
definition PCI_CACHE_LINE_SIZE :: usize where [simp]: "PCI_CACHE_LINE_SIZE = 0xC"
definition PCI_HEADER_TYPE :: usize where [simp]: "PCI_HEADER_TYPE = 0xE"
definition PCI_HEADER_TYPE_MULTIFUNCTION :: u8 where [simp]: "PCI_HEADER_TYPE_MULTIFUNCTION = 0x80"
definition PCI_BAR0 :: usize where [simp]: "PCI_BAR0 = 0x10"
definition PCI_BAR_IO_MIN_SIZE :: u64 where [simp]: "PCI_BAR_IO_MIN_SIZE = 16"
definition PCI_BAR_IO_MAX_SIZE :: u64 where [simp]: "PCI_BAR_IO_MAX_SIZE = 256"
definition PCI_BAR_IO_INDICATOR_MASK :: u32 where [simp]: "PCI_BAR_IO_INDICATOR_MASK = 0x01"
definition PCI_BAR_IO_BASE_ADDRESS_MASK :: u32 where [simp]: "PCI_BAR_IO_BASE_ADDRESS_MASK = 0xFFFFFFFC"
definition PCI_BAR_MEM_MIN_SIZE :: u64 where [simp]: "PCI_BAR_MEM_MIN_SIZE = 128"
definition PCI_BAR_MEM_32_MAX_SIZE :: u64 where [simp]: "PCI_BAR_MEM_32_MAX_SIZE = 0x80000000"
definition PCI_BAR_MEM_64_MAX_SIZE :: u64 where [simp]: "PCI_BAR_MEM_64_MAX_SIZE = 0x4000000000"
definition PCI_BAR_MEM_32_BASE_ADDRESS_MASK :: u32 where [simp]: "PCI_BAR_MEM_32_BASE_ADDRESS_MASK = 0xFFFFFFF0"
definition PCI_BAR_MEM_32_INDICATOR_MASK :: u32 where [simp]: "PCI_BAR_MEM_32_INDICATOR_MASK = 0x00"
definition PCI_BAR_MEM_64_INDICATOR_MASK :: u32 where [simp]: "PCI_BAR_MEM_64_INDICATOR_MASK = 0x04"
definition PCI_BAR_MEM_PREFETCHABLE_MASK :: u32 where [simp]: "PCI_BAR_MEM_PREFETCHABLE_MASK = 0x08"
definition PCI_SUBSYSTEM_VENDOR_ID :: usize where [simp]: "PCI_SUBSYSTEM_VENDOR_ID = 0x2C"
definition PCI_SUBSYSTEM_ID :: usize where [simp]: "PCI_SUBSYSTEM_ID = 0x2E"
definition PCI_CAP_POINTER :: usize where [simp]: "PCI_CAP_POINTER = 0x34"
definition PCI_CAP_POINTER_RSVD_MASK :: u8 where [simp]: "PCI_CAP_POINTER_RSVD_MASK = 0x3"
definition PCI_CAP_HEADER_ID :: usize where [simp]: "PCI_CAP_HEADER_ID = 0x0"
definition PCI_CAP_HEADER_NEXT :: usize where [simp]: "PCI_CAP_HEADER_NEXT = 0x1"
definition PCI_CAP_DATA_START :: usize where [simp]: "PCI_CAP_DATA_START = 0x2"
definition PCI_INTERRUPT_LINE :: usize where [simp]: "PCI_INTERRUPT_LINE = 0x3C"
definition PCI_INTERRUPT_PIN :: usize where [simp]: "PCI_INTERRUPT_PIN = 0x3D"
definition PCI_HEADER_END :: usize where [simp]: "PCI_HEADER_END = 0x3F"
definition PCI_DEVICE_SPECIFIC_START :: usize where [simp]: "PCI_DEVICE_SPECIFIC_START = PCI_HEADER_END + 1"
definition PCI_DEVICE_SPECIFIC_END :: usize where [simp]: "PCI_DEVICE_SPECIFIC_END = 0xFF"

section \<open>Base address registers\<close>

datatype PciBarPrefetchable = NotPrefetchable | Prefetchable

definition prefetchable_u32 :: "PciBarPrefetchable \<Rightarrow> u32" where
  "prefetchable_u32 p = (case p of NotPrefetchable \<Rightarrow> 0 | Prefetchable \<Rightarrow> PCI_BAR_MEM_PREFETCHABLE_MASK)"

datatype PciBarType = Io | Memory32Bit PciBarPrefetchable | Memory64Bit PciBarPrefetchable

fun bar_type_bits :: "PciBarType \<Rightarrow> u32" where
  "bar_type_bits Io = PCI_BAR_IO_INDICATOR_MASK"
| "bar_type_bits (Memory32Bit p) = PCI_BAR_MEM_32_INDICATOR_MASK OR prefetchable_u32 p"
| "bar_type_bits (Memory64Bit p) = PCI_BAR_MEM_64_INDICATOR_MASK OR prefetchable_u32 p"

definition is_memory64 :: "PciBarType \<Rightarrow> bool" where
  "is_memory64 t = (case t of Memory64Bit _ \<Rightarrow> True | _ \<Rightarrow> False)"

lemma is_memory64_simps [simp]:
  "\<not> is_memory64 Io" "\<not> is_memory64 (Memory32Bit p)" "is_memory64 (Memory64Bit p)"
  by (simp_all add: is_memory64_def)

datatype PciBarIndex = PciBarIndex (into_inner: usize)

record PciBar =
  bar_address :: "u64 option"
  bar_size :: u64
  bar_index :: PciBarIndex
  bar_region_type :: PciBarType

definition bar_is_mem :: "PciBar \<Rightarrow> bool" where
  "bar_is_mem b = (case bar_region_type b of Io \<Rightarrow> False | _ \<Rightarrow> True)"

definition bar_is_io :: "PciBar \<Rightarrow> bool" where
  "bar_is_io b = (\<not> bar_is_mem b)"

definition bar_set_address :: "PciBar \<Rightarrow> u64 option \<Rightarrow> PciBar" where
  "bar_set_address b a = b\<lparr>bar_address := a\<rparr>"

definition bar_index_default :: PciBarIndex where
  "bar_index_default = PciBarIndex 0"

definition bar_index_max :: PciBarIndex where
  "bar_index_max = PciBarIndex (NUM_BAR_REGS - 1)"

definition bar_index_add :: "PciBarIndex \<Rightarrow> PciBarIndex \<Rightarrow> PciBarIndex result" where
  "bar_index_add a b =
     (let val = into_inner a + into_inner b
      in if val < NUM_BAR_REGS then Inr (PciBarIndex val) else Inl (InvalidBarIndex val))"

text \<open>
  \<open>ok_or\<close> evaluates its argument, so the error value is computed, and its addition overflows, even
  before \<open>checked_add\<close> decides: a sum of \<open>2 ^ 64\<close> or more panics.
\<close>

definition bar_index_add_usize :: "PciBarIndex \<Rightarrow> usize \<Rightarrow> PciBarIndex result option" where
  "bar_index_add_usize a rhs =
     (let val = into_inner a + rhs
      in if 2 ^ 64 \<le> val then None
         else if val < NUM_BAR_REGS then Some (Inr (PciBarIndex val))
         else Some (Inl (InvalidBarIndex val)))"

definition bar_index_try_from :: "usize \<Rightarrow> PciBarIndex result" where
  "bar_index_try_from index =
     (if index < NUM_BAR_REGS then Inr (PciBarIndex index) else Inl (InvalidBarIndex index))"

text \<open>\<open>PciBarIndex\<close> derives \<open>Ord\<close>: it is ordered by its number.\<close>

instantiation PciBarIndex :: linorder
begin

definition less_eq_PciBarIndex :: "PciBarIndex \<Rightarrow> PciBarIndex \<Rightarrow> bool" where
  "less_eq_PciBarIndex a b \<longleftrightarrow> into_inner a \<le> into_inner b"

definition less_PciBarIndex :: "PciBarIndex \<Rightarrow> PciBarIndex \<Rightarrow> bool" where
  "less_PciBarIndex a b \<longleftrightarrow> into_inner a < into_inner b"

instance
  by standard (auto simp: less_eq_PciBarIndex_def less_PciBarIndex_def intro: PciBarIndex.expand)

end

section \<open>Capabilities\<close>

datatype PciCapabilityId =
    NullCap | PciPMInterface | Agp | Vpd | SlotId | MsiCapId | CompactPciHotSwap | PciX
  | HyperTransport | VendorSpecific | DebugPort | CompactPciResCtrl | PciHopPlug
  | PciBridgeVendorId | Agp8x | SecureDevice | PciExpress | MsiXCapId | SerialAtaConfig
  | AdvancedFeatures | EnhancedAllocation | FlatteningPortalBridge | OthersCapId

fun capability_id_u8 :: "PciCapabilityId \<Rightarrow> u8" where
  "capability_id_u8 NullCap = 0x00"
| "capability_id_u8 PciPMInterface = 0x01"
| "capability_id_u8 Agp = 0x02"
| "capability_id_u8 Vpd = 0x03"
| "capability_id_u8 SlotId = 0x04"
| "capability_id_u8 MsiCapId = 0x05"
| "capability_id_u8 CompactPciHotSwap = 0x06"
| "capability_id_u8 PciX = 0x07"
| "capability_id_u8 HyperTransport = 0x08"
| "capability_id_u8 VendorSpecific = 0x09"
| "capability_id_u8 DebugPort = 0x0A"
| "capability_id_u8 CompactPciResCtrl = 0x0B"
| "capability_id_u8 PciHopPlug = 0x0C"
| "capability_id_u8 PciBridgeVendorId = 0x0D"
| "capability_id_u8 Agp8x = 0x0E"
| "capability_id_u8 SecureDevice = 0x0F"
| "capability_id_u8 PciExpress = 0x10"
| "capability_id_u8 MsiXCapId = 0x11"
| "capability_id_u8 SerialAtaConfig = 0x12"
| "capability_id_u8 AdvancedFeatures = 0x13"
| "capability_id_u8 EnhancedAllocation = 0x14"
| "capability_id_u8 FlatteningPortalBridge = 0x15"
| "capability_id_u8 OthersCapId = 0xFF"

text \<open>
  The trait \<open>PciCapability\<close>: an implementation is the four methods. \<open>registers\<close> and
  \<open>writable_bits\<close> fill a slice in place; they are functions on the slice's bytes, \<open>None\<close> when they
  panic. A slice has a fixed length, which the contract below states.
\<close>

record pci_capability =
  cap_id :: PciCapabilityId
  cap_size :: usize
  cap_registers :: "bytes \<Rightarrow> bytes option"
  cap_writable_bits :: "bytes \<Rightarrow> bytes option"

locale capability_contract =
  fixes cap :: pci_capability
  assumes registers_fill:
      "length area = cap_size cap \<Longrightarrow> \<exists>regs. cap_registers cap area = Some regs \<and> length regs = cap_size cap"
    and writable_bits_fill:
      "length area = cap_size cap \<Longrightarrow>
        \<exists>bits. cap_writable_bits cap area = Some bits \<and> length bits = cap_size cap"

end
