(* ===== verification/Pci_Utils.thy ===== *)
theory Pci_Utils
  imports Pci_Types
begin

text \<open>
  The helpers of \<open>greens-pci/src/utils/mod.rs\<close>: ranges, bounds-checked access to byte arrays,
  registers with read-only bits, endianness conversion and access windows.
\<close>

section \<open>Ranges\<close>

text \<open>
  The range tests are generic over the unsigned types; \<open>w\<close> is the width of the type they are used
  at, where \<open>checked_add\<close> fails from \<open>2 ^ w\<close> on.
\<close>

definition checked_add :: "nat \<Rightarrow> nat \<Rightarrow> nat \<Rightarrow> nat option" where
  "checked_add w a b = (if a + b < 2 ^ w then Some (a + b) else None)"

definition range_contains :: "nat \<Rightarrow> nat \<Rightarrow> nat \<Rightarrow> nat \<Rightarrow> nat \<Rightarrow> bool" where
  "range_contains w start1 size1 start2 size2 =
     (if size1 = 0 \<or> size2 = 0 then False
      else case checked_add w start1 size1 of
        None \<Rightarrow> False
      | Some end1 \<Rightarrow>
         (case checked_add w start2 size2 of
            None \<Rightarrow> False
          | Some end2 \<Rightarrow> start1 \<le> start2 \<and> end2 \<le> end1))"

definition range_overlaps :: "nat \<Rightarrow> nat \<Rightarrow> nat \<Rightarrow> nat \<Rightarrow> nat \<Rightarrow> bool" where
  "range_overlaps w start1 size1 start2 size2 =
     (case checked_add w start1 size1 of
        None \<Rightarrow> False
      | Some end1 \<Rightarrow>
         (case checked_add w start2 size2 of
            None \<Rightarrow> False
          | Some end2 \<Rightarrow> \<not> (end2 \<le> start1 \<or> end1 \<le> start2)))"

section \<open>Bounds\<close>

text \<open>The addition is not a checked one: a sum of \<open>2 ^ 64\<close> or more panics.\<close>

definition validate_bounds :: "bytes \<Rightarrow> usize \<Rightarrow> usize \<Rightarrow> unit result option" where
  "validate_bounds registers offset sz =
     (if 2 ^ 64 \<le> offset + sz then None
      else if offset + sz \<le> length registers then Some (Inr ())
      else Some (Inl (AccessBounds offset sz)))"

definition validate_access :: "bytes \<Rightarrow> usize \<Rightarrow> bytes \<Rightarrow> unit result option" where
  "validate_access arr offset data = validate_bounds arr offset (length data)"

section \<open>Checked access to byte arrays\<close>

text \<open>
  \<open>to_ne_bytes\<close> and \<open>from_ne_bytes\<close> are those of the little-endian targets the program is built for.
\<close>

definition utils_set :: "bytes \<Rightarrow> usize \<Rightarrow> bytes \<Rightarrow> (bytes, unit) call" where
  "utils_set arr offset data = do {
     r \<leftarrow> validate_access arr offset data;
     case r of
       Inl e \<Rightarrow> Some (Inl e, arr)
     | Inr _ \<Rightarrow> do { arr' \<leftarrow> slice_set arr offset data; Some (Inr (), arr') }
   }"

definition utils_set_byte :: "bytes \<Rightarrow> usize \<Rightarrow> u8 \<Rightarrow> (bytes, unit) call" where
  "utils_set_byte arr offset data = utils_set arr offset (to_le_bytes data)"

definition utils_set_word :: "bytes \<Rightarrow> usize \<Rightarrow> u16 \<Rightarrow> (bytes, unit) call" where
  "utils_set_word arr offset data = utils_set arr offset (to_le_bytes data)"

definition utils_set_dword :: "bytes \<Rightarrow> usize \<Rightarrow> u32 \<Rightarrow> (bytes, unit) call" where
  "utils_set_dword arr offset data = utils_set arr offset (to_le_bytes data)"

text \<open>A read fills the caller's buffer, whose content is the state of the call.\<close>

definition utils_read :: "bytes \<Rightarrow> usize \<Rightarrow> bytes \<Rightarrow> (bytes, unit) call" where
  "utils_read arr offset data = do {
     r \<leftarrow> validate_access arr offset data;
     case r of
       Inl e \<Rightarrow> Some (Inl e, data)
     | Inr _ \<Rightarrow> do { data' \<leftarrow> slice_read arr offset (length data); Some (Inr (), data') }
   }"

definition utils_read_byte :: "bytes \<Rightarrow> usize \<Rightarrow> u8 result option" where
  "utils_read_byte arr offset = do {
     (r, data) \<leftarrow> utils_read arr offset [0xFF];
     Some (try_result r (\<lambda>_. Inr (data ! 0)))
   }"

definition utils_read_word :: "bytes \<Rightarrow> usize \<Rightarrow> u16 result option" where
  "utils_read_word arr offset = do {
     (r, data) \<leftarrow> utils_read arr offset [0xFF, 0xFF];
     Some (try_result r (\<lambda>_. Inr (from_le_bytes data)))
   }"

definition utils_read_dword :: "bytes \<Rightarrow> usize \<Rightarrow> u32 result option" where
  "utils_read_dword arr offset = do {
     (r, data) \<leftarrow> utils_read arr offset [0xFF, 0xFF, 0xFF, 0xFF];
     Some (try_result r (\<lambda>_. Inr (from_le_bytes data)))
   }"

definition update_register :: "'a::len word \<Rightarrow> 'a word \<Rightarrow> 'a word \<Rightarrow> 'a word" where
  "update_register current new writable_bits =
     (let preserved = current AND NOT writable_bits;
          changed = new AND writable_bits
      in preserved OR changed)"

text \<open>The three zipped slices of \<open>write\<close>: the current bytes, the new ones, their writable bits.\<close>

fun update_zip :: "bytes \<Rightarrow> bytes \<Rightarrow> bytes \<Rightarrow> bytes" where
  "update_zip (c # cs) (n # ns) (b # bs) = update_register c n b # update_zip cs ns bs"
| "update_zip cs _ _ = cs"

definition utils_write :: "bytes \<Rightarrow> bytes \<Rightarrow> usize \<Rightarrow> bytes \<Rightarrow> (bytes, unit) call" where
  "utils_write arr writable_bits offset data = do {
     r \<leftarrow> validate_access arr offset data;
     case r of
       Inl e \<Rightarrow> Some (Inl e, arr)
     | Inr _ \<Rightarrow> do {
         r \<leftarrow> validate_access writable_bits offset data;
         case r of
           Inl e \<Rightarrow> Some (Inl e, arr)
         | Inr _ \<Rightarrow> do {
             current \<leftarrow> slice_read arr offset (length data);
             bits \<leftarrow> slice_read writable_bits offset (length data);
             arr' \<leftarrow> slice_set arr offset (update_zip current data bits);
             Some (Inr (), arr')
           }
       }
   }"

definition utils_write_byte :: "bytes \<Rightarrow> bytes \<Rightarrow> usize \<Rightarrow> u8 \<Rightarrow> (bytes, unit) call" where
  "utils_write_byte arr writable_bits offset data = utils_write arr writable_bits offset (to_le_bytes data)"

definition utils_write_word :: "bytes \<Rightarrow> bytes \<Rightarrow> usize \<Rightarrow> u16 \<Rightarrow> (bytes, unit) call" where
  "utils_write_word arr writable_bits offset data = utils_write arr writable_bits offset (to_le_bytes data)"

definition utils_write_dword :: "bytes \<Rightarrow> bytes \<Rightarrow> usize \<Rightarrow> u32 \<Rightarrow> (bytes, unit) call" where
  "utils_write_dword arr writable_bits offset data = utils_write arr writable_bits offset (to_le_bytes data)"

section \<open>Endianness\<close>

text \<open>The byte order of the target. The rest of the development is at \<open>Little\<close>.\<close>

datatype endian = Little | Big

definition to_ne_bytes :: "endian \<Rightarrow> 'a::len word \<Rightarrow> bytes" where
  "to_ne_bytes e w = (case e of Little \<Rightarrow> to_le_bytes w | Big \<Rightarrow> rev (to_le_bytes w))"

definition from_ne_bytes :: "endian \<Rightarrow> bytes \<Rightarrow> 'a::len word" where
  "from_ne_bytes e bs = (case e of Little \<Rightarrow> from_le_bytes bs | Big \<Rightarrow> from_le_bytes (rev bs))"

datatype EndianSwapSize = SwapWord | SwapDword | SwapQword

definition swap_size :: "EndianSwapSize \<Rightarrow> usize" where
  "swap_size s = (case s of SwapWord \<Rightarrow> 2 | SwapDword \<Rightarrow> 4 | SwapQword \<Rightarrow> 8)"

definition from_little_endian :: "endian \<Rightarrow> bytes \<Rightarrow> EndianSwapSize \<Rightarrow> unit result \<times> bytes" where
  "from_little_endian e data max_size =
     (if length data > swap_size max_size then (Inl (InvalidIoSize (length data)), data)
      else if length data = 1 then (Inr (), data)
      else if length data = 2 then (Inr (), to_ne_bytes e (from_le_bytes data :: u16))
      else if length data = 4 then (Inr (), to_ne_bytes e (from_le_bytes data :: u32))
      else if length data = 8 then (Inr (), to_ne_bytes e (from_le_bytes data :: u64))
      else (Inl (InvalidIoSize (length data)), data))"

definition to_little_endian :: "endian \<Rightarrow> bytes \<Rightarrow> EndianSwapSize \<Rightarrow> unit result \<times> bytes" where
  "to_little_endian e data max_size =
     (if length data > swap_size max_size then (Inl (InvalidIoSize (length data)), data)
      else if length data = 1 then (Inr (), data)
      else if length data = 2 then (Inr (), to_le_bytes (from_ne_bytes e data :: u16))
      else if length data = 4 then (Inr (), to_le_bytes (from_ne_bytes e data :: u32))
      else if length data = 8 then (Inr (), to_le_bytes (from_ne_bytes e data :: u64))
      else (Inl (InvalidIoSize (length data)), data))"

section \<open>Access windows\<close>

definition access_data_window :: "usize \<Rightarrow> usize \<Rightarrow> usize \<Rightarrow> usize \<Rightarrow> (usize \<times> usize) option" where
  "access_data_window access_offset access_size cap_offset cap_sz =
     (case checked_add 64 access_offset access_size of
        None \<Rightarrow> None
      | Some access_end \<Rightarrow>
         (case checked_add 64 cap_offset cap_sz of
            None \<Rightarrow> None
          | Some cap_end \<Rightarrow>
              if cap_end \<le> access_offset then None
              else let start = cap_offset - access_offset
                   in if access_size \<le> start then None
                      else let end = (if cap_end \<le> access_end then access_end - cap_end else access_size);
                               end = (if end = 0 then access_size else end)
                           in Some (start, end)))"

definition offset_within_range :: "usize \<Rightarrow> usize \<Rightarrow> usize \<Rightarrow> usize option" where
  "offset_within_range addr range_start range_size =
     (if addr < range_start then None
      else let offset = addr - range_start
           in if range_size \<le> offset then None else Some offset)"

section \<open>Lemmas\<close>

lemma checked_add_Some [option_simps]: "a + b < 2 ^ w \<Longrightarrow> checked_add w a b = Some (a + b)"
  by (simp add: checked_add_def)

lemma range_contains_iff:
  "range_contains w s1 n1 s2 n2 \<longleftrightarrow>
     0 < n1 \<and> 0 < n2 \<and> s1 + n1 < 2 ^ w \<and> s2 + n2 < 2 ^ w \<and> s1 \<le> s2 \<and> s2 + n2 \<le> s1 + n1"
  by (auto simp: range_contains_def checked_add_def)

lemma range_overlaps_iff:
  "range_overlaps w s1 n1 s2 n2 \<longleftrightarrow>
     s1 + n1 < 2 ^ w \<and> s2 + n2 < 2 ^ w \<and> s1 < s2 + n2 \<and> s2 < s1 + n1"
  by (auto simp: range_overlaps_def checked_add_def)

lemma validate_bounds_Ok [option_simps]:
  "offset + sz \<le> length registers \<Longrightarrow> offset + sz < 2 ^ 64 \<Longrightarrow>
     validate_bounds registers offset sz = Some (Inr ())"
  by (simp add: validate_bounds_def)

lemma bit_update_register [bit_views]:
  "bit (update_register current new writable :: 'a::len word) n \<longleftrightarrow>
     (if bit writable n then bit new n else bit current n)"
proof (cases "n < LENGTH('a)")
  case True
  then show ?thesis by (simp add: update_register_def bit_simps)
next
  case False
  then show ?thesis by (metis bit_imp_le_length)
qed

lemma length_update_zip [simp]: "length (update_zip cs ns bs) = length cs"
  by (induction cs ns bs rule: update_zip.induct) simp_all

lemma nth_update_zip:
  "i < length cs \<Longrightarrow> i < length ns \<Longrightarrow> i < length bs \<Longrightarrow>
     update_zip cs ns bs ! i = update_register (cs ! i) (ns ! i) (bs ! i)"
proof (induction cs ns bs arbitrary: i rule: update_zip.induct)
  case (1 c cs n ns b bs)
  then show ?case by (cases i) simp_all
qed simp_all

lemma array_bit_update_zip [bit_views]:
  assumes "length ns = length cs" and "length bs = length cs" and "k < 8 * length cs"
  shows "array_bit (update_zip cs ns bs) k = (if array_bit bs k then array_bit ns k else array_bit cs k)"
proof -
  have "k div 8 < length cs" using assms(3) by simp
  then show ?thesis using assms(1,2) by (simp add: array_bit_def nth_update_zip bit_views)
qed

lemma array_bit_take_drop [bit_views]:
  assumes "off + n \<le> length arr" and "k < 8 * n"
  shows "array_bit (take n (drop off arr)) k = array_bit arr (8 * off + k)"
proof -
  have "k div 8 < n" using assms(2) by simp
  moreover have "(8 * off + k) div 8 = off + k div 8" and "(8 * off + k) mod 8 = k mod 8" by simp_all
  ultimately show ?thesis using assms(1) by (simp add: array_bit_def)
qed

end
