(* ===== verification/Register_Block.thy ===== *)
theory Register_Block
  imports Pci_Utils
begin

text \<open>
  Register blocks, \<open>greens-pci/src/utils/register_block.rs\<close>: the unchecked accessors, which panic
  out of range, and the traits whose default methods read, set and write the registers of an
  object. A trait's required methods are arguments of its default methods: \<open>regs\<close> for
  \<open>registers(&self)\<close>, \<open>upd\<close> for a store through \<open>registers_mut(&mut self)\<close>, \<open>wbits\<close> for
  \<open>writable_bits(&self)\<close> and \<open>validate\<close> for \<open>validate_access\<close>.
\<close>

section \<open>Unchecked access\<close>

definition rb_set :: "bytes \<Rightarrow> usize \<Rightarrow> bytes \<Rightarrow> bytes option" where
  "rb_set arr offset data = slice_set arr offset data"

definition rb_set_byte :: "bytes \<Rightarrow> usize \<Rightarrow> u8 \<Rightarrow> bytes option" where
  "rb_set_byte arr offset data = rb_set arr offset (to_le_bytes data)"

definition rb_set_word :: "bytes \<Rightarrow> usize \<Rightarrow> u16 \<Rightarrow> bytes option" where
  "rb_set_word arr offset data = rb_set arr offset (to_le_bytes data)"

definition rb_set_dword :: "bytes \<Rightarrow> usize \<Rightarrow> u32 \<Rightarrow> bytes option" where
  "rb_set_dword arr offset data = rb_set arr offset (to_le_bytes data)"

definition rb_set_qword :: "bytes \<Rightarrow> usize \<Rightarrow> u64 \<Rightarrow> bytes option" where
  "rb_set_qword arr offset data = rb_set arr offset (to_le_bytes data)"

definition rb_read :: "bytes \<Rightarrow> usize \<Rightarrow> bytes \<Rightarrow> bytes option" where
  "rb_read arr offset data = slice_read arr offset (length data)"

definition rb_read_byte :: "bytes \<Rightarrow> usize \<Rightarrow> u8 option" where
  "rb_read_byte arr offset = do { data \<leftarrow> rb_read arr offset (replicate 1 0xFF); Some (data ! 0) }"

definition rb_read_word :: "bytes \<Rightarrow> usize \<Rightarrow> u16 option" where
  "rb_read_word arr offset = do { data \<leftarrow> rb_read arr offset (replicate 2 0xFF); Some (from_le_bytes data) }"

definition rb_read_dword :: "bytes \<Rightarrow> usize \<Rightarrow> u32 option" where
  "rb_read_dword arr offset = do { data \<leftarrow> rb_read arr offset (replicate 4 0xFF); Some (from_le_bytes data) }"

definition rb_read_qword :: "bytes \<Rightarrow> usize \<Rightarrow> u64 option" where
  "rb_read_qword arr offset = do { data \<leftarrow> rb_read arr offset (replicate 8 0xFF); Some (from_le_bytes data) }"

definition rb_write :: "bytes \<Rightarrow> bytes \<Rightarrow> usize \<Rightarrow> bytes \<Rightarrow> bytes option" where
  "rb_write arr writable_bits offset data = do {
     current \<leftarrow> slice_read arr offset (length data);
     bits \<leftarrow> slice_read writable_bits offset (length data);
     slice_set arr offset (update_zip current data bits)
   }"

definition rb_write_byte :: "bytes \<Rightarrow> bytes \<Rightarrow> usize \<Rightarrow> u8 \<Rightarrow> bytes option" where
  "rb_write_byte arr writable_bits offset data = rb_write arr writable_bits offset (to_le_bytes data)"

definition rb_write_word :: "bytes \<Rightarrow> bytes \<Rightarrow> usize \<Rightarrow> u16 \<Rightarrow> bytes option" where
  "rb_write_word arr writable_bits offset data = rb_write arr writable_bits offset (to_le_bytes data)"

definition rb_write_dword :: "bytes \<Rightarrow> bytes \<Rightarrow> usize \<Rightarrow> u32 \<Rightarrow> bytes option" where
  "rb_write_dword arr writable_bits offset data = rb_write arr writable_bits offset (to_le_bytes data)"

definition rb_write_qword :: "bytes \<Rightarrow> bytes \<Rightarrow> usize \<Rightarrow> u64 \<Rightarrow> bytes option" where
  "rb_write_qword arr writable_bits offset data = rb_write arr writable_bits offset (to_le_bytes data)"

section \<open>Default methods of the register block traits\<close>

text \<open>Trait \<open>RegisterBlockReader\<close> and its 64-bit extension.\<close>

definition read_register :: "('s \<Rightarrow> bytes) \<Rightarrow> 's \<Rightarrow> usize \<Rightarrow> bytes \<Rightarrow> bytes option" where
  "read_register regs s offset data = rb_read (regs s) offset data"

definition read_register_byte :: "('s \<Rightarrow> bytes) \<Rightarrow> 's \<Rightarrow> usize \<Rightarrow> u8 option" where
  "read_register_byte regs s offset = do {
     data \<leftarrow> read_register regs s offset (replicate 1 0xFF); Some (data ! 0) }"

definition read_register_word :: "('s \<Rightarrow> bytes) \<Rightarrow> 's \<Rightarrow> usize \<Rightarrow> u16 option" where
  "read_register_word regs s offset = do {
     data \<leftarrow> read_register regs s offset (replicate 2 0xFF); Some (from_le_bytes data) }"

definition read_register_dword :: "('s \<Rightarrow> bytes) \<Rightarrow> 's \<Rightarrow> usize \<Rightarrow> u32 option" where
  "read_register_dword regs s offset = do {
     data \<leftarrow> read_register regs s offset (replicate 4 0xFF); Some (from_le_bytes data) }"

definition read_register_qword :: "('s \<Rightarrow> bytes) \<Rightarrow> 's \<Rightarrow> usize \<Rightarrow> u64 option" where
  "read_register_qword regs s offset = do {
     data \<leftarrow> read_register regs s offset (replicate 8 0xFF); Some (from_le_bytes data) }"

text \<open>Trait \<open>RegisterBlockSetter\<close> and its 64-bit extension.\<close>

definition set_register ::
    "('s \<Rightarrow> bytes) \<Rightarrow> (bytes \<Rightarrow> 's \<Rightarrow> 's) \<Rightarrow> 's \<Rightarrow> usize \<Rightarrow> bytes \<Rightarrow> 's option" where
  "set_register regs upd s offset data = do { r \<leftarrow> slice_set (regs s) offset data; Some (upd r s) }"

definition set_register_byte ::
    "('s \<Rightarrow> bytes) \<Rightarrow> (bytes \<Rightarrow> 's \<Rightarrow> 's) \<Rightarrow> 's \<Rightarrow> usize \<Rightarrow> u8 \<Rightarrow> 's option" where
  "set_register_byte regs upd s offset data = set_register regs upd s offset (to_le_bytes data)"

definition set_register_word ::
    "('s \<Rightarrow> bytes) \<Rightarrow> (bytes \<Rightarrow> 's \<Rightarrow> 's) \<Rightarrow> 's \<Rightarrow> usize \<Rightarrow> u16 \<Rightarrow> 's option" where
  "set_register_word regs upd s offset data = set_register regs upd s offset (to_le_bytes data)"

definition set_register_dword ::
    "('s \<Rightarrow> bytes) \<Rightarrow> (bytes \<Rightarrow> 's \<Rightarrow> 's) \<Rightarrow> 's \<Rightarrow> usize \<Rightarrow> u32 \<Rightarrow> 's option" where
  "set_register_dword regs upd s offset data = set_register regs upd s offset (to_le_bytes data)"

definition set_register_qword ::
    "('s \<Rightarrow> bytes) \<Rightarrow> (bytes \<Rightarrow> 's \<Rightarrow> 's) \<Rightarrow> 's \<Rightarrow> usize \<Rightarrow> u64 \<Rightarrow> 's option" where
  "set_register_qword regs upd s offset data = set_register regs upd s offset (to_le_bytes data)"

text \<open>Trait \<open>RegisterBlockWriter\<close> and its 64-bit extension; the assertion panics when it fails.\<close>

definition write_register ::
    "('s \<Rightarrow> bytes) \<Rightarrow> (bytes \<Rightarrow> 's \<Rightarrow> 's) \<Rightarrow> ('s \<Rightarrow> bytes) \<Rightarrow> 's \<Rightarrow> usize \<Rightarrow> bytes \<Rightarrow> 's option" where
  "write_register regs upd wbits s offset data =
     (if length (regs s) \<noteq> length (wbits s) then None
      else do { r \<leftarrow> rb_write (regs s) (wbits s) offset data; Some (upd r s) })"

definition write_register_byte ::
    "('s \<Rightarrow> bytes) \<Rightarrow> (bytes \<Rightarrow> 's \<Rightarrow> 's) \<Rightarrow> ('s \<Rightarrow> bytes) \<Rightarrow> 's \<Rightarrow> usize \<Rightarrow> u8 \<Rightarrow> 's option" where
  "write_register_byte regs upd wbits s offset data =
     write_register regs upd wbits s offset (to_le_bytes data)"

definition write_register_word ::
    "('s \<Rightarrow> bytes) \<Rightarrow> (bytes \<Rightarrow> 's \<Rightarrow> 's) \<Rightarrow> ('s \<Rightarrow> bytes) \<Rightarrow> 's \<Rightarrow> usize \<Rightarrow> u16 \<Rightarrow> 's option" where
  "write_register_word regs upd wbits s offset data =
     write_register regs upd wbits s offset (to_le_bytes data)"

definition write_register_dword ::
    "('s \<Rightarrow> bytes) \<Rightarrow> (bytes \<Rightarrow> 's \<Rightarrow> 's) \<Rightarrow> ('s \<Rightarrow> bytes) \<Rightarrow> 's \<Rightarrow> usize \<Rightarrow> u32 \<Rightarrow> 's option" where
  "write_register_dword regs upd wbits s offset data =
     write_register regs upd wbits s offset (to_le_bytes data)"

definition write_register_qword ::
    "('s \<Rightarrow> bytes) \<Rightarrow> (bytes \<Rightarrow> 's \<Rightarrow> 's) \<Rightarrow> ('s \<Rightarrow> bytes) \<Rightarrow> 's \<Rightarrow> usize \<Rightarrow> u64 \<Rightarrow> 's option" where
  "write_register_qword regs upd wbits s offset data =
     write_register regs upd wbits s offset (to_le_bytes data)"

text \<open>The validators and the checked accessors.\<close>

definition rb_validate_access :: "('s \<Rightarrow> bytes) \<Rightarrow> 's \<Rightarrow> usize \<Rightarrow> bytes \<Rightarrow> unit result option" where
  "rb_validate_access regs s offset data = validate_bounds (regs s) offset (length data)"

definition read_register_checked ::
    "('s \<Rightarrow> bytes) \<Rightarrow> ('s \<Rightarrow> usize \<Rightarrow> bytes \<Rightarrow> unit result option) \<Rightarrow> 's \<Rightarrow> usize \<Rightarrow> bytes
      \<Rightarrow> (bytes, unit) call" where
  "read_register_checked regs validate s offset data = do {
     r \<leftarrow> validate s offset data;
     case r of
       Inl e \<Rightarrow> Some (Inl e, data)
     | Inr _ \<Rightarrow> do { data' \<leftarrow> rb_read (regs s) offset data; Some (Inr (), data') }
   }"

definition set_register_checked ::
    "('s \<Rightarrow> bytes) \<Rightarrow> (bytes \<Rightarrow> 's \<Rightarrow> 's) \<Rightarrow> ('s \<Rightarrow> usize \<Rightarrow> bytes \<Rightarrow> unit result option)
      \<Rightarrow> 's \<Rightarrow> usize \<Rightarrow> bytes \<Rightarrow> ('s, unit) call" where
  "set_register_checked regs upd validate s offset data = do {
     r \<leftarrow> validate s offset data;
     case r of
       Inl e \<Rightarrow> Some (Inl e, s)
     | Inr _ \<Rightarrow> do { regs' \<leftarrow> rb_set (regs s) offset data; Some (Inr (), upd regs' s) }
   }"

definition validate_write_access ::
    "('s \<Rightarrow> bytes) \<Rightarrow> ('s \<Rightarrow> bytes) \<Rightarrow> 's \<Rightarrow> usize \<Rightarrow> bytes \<Rightarrow> unit result option" where
  "validate_write_access regs wbits s offset data = do {
     r \<leftarrow> validate_bounds (regs s) offset (length data);
     case r of
       Inl e \<Rightarrow> Some (Inl e)
     | Inr _ \<Rightarrow> validate_bounds (wbits s) offset (length data)
   }"

definition write_register_checked ::
    "('s \<Rightarrow> bytes) \<Rightarrow> (bytes \<Rightarrow> 's \<Rightarrow> 's) \<Rightarrow> ('s \<Rightarrow> bytes)
      \<Rightarrow> ('s \<Rightarrow> usize \<Rightarrow> bytes \<Rightarrow> unit result option) \<Rightarrow> 's \<Rightarrow> usize \<Rightarrow> bytes \<Rightarrow> ('s, unit) call" where
  "write_register_checked regs upd wbits validate s offset data = do {
     r \<leftarrow> validate s offset data;
     case r of
       Inl e \<Rightarrow> Some (Inl e, s)
     | Inr _ \<Rightarrow> do { regs' \<leftarrow> rb_write (regs s) (wbits s) offset data; Some (Inr (), upd regs' s) }
   }"

text \<open>The checked accessors of single registers.\<close>

definition read_register_byte_checked ::
    "('s \<Rightarrow> bytes) \<Rightarrow> ('s \<Rightarrow> usize \<Rightarrow> bytes \<Rightarrow> unit result option) \<Rightarrow> 's \<Rightarrow> usize \<Rightarrow> u8 result option" where
  "read_register_byte_checked regs validate s offset = do {
     (r, data) \<leftarrow> read_register_checked regs validate s offset (replicate 1 0xFF);
     Some (case r of Inl e \<Rightarrow> Inl e | Inr _ \<Rightarrow> Inr (data ! 0)) }"

definition read_register_word_checked ::
    "('s \<Rightarrow> bytes) \<Rightarrow> ('s \<Rightarrow> usize \<Rightarrow> bytes \<Rightarrow> unit result option) \<Rightarrow> 's \<Rightarrow> usize \<Rightarrow> u16 result option" where
  "read_register_word_checked regs validate s offset = do {
     (r, data) \<leftarrow> read_register_checked regs validate s offset (replicate 2 0xFF);
     Some (case r of Inl e \<Rightarrow> Inl e | Inr _ \<Rightarrow> Inr (from_le_bytes data)) }"

definition read_register_dword_checked ::
    "('s \<Rightarrow> bytes) \<Rightarrow> ('s \<Rightarrow> usize \<Rightarrow> bytes \<Rightarrow> unit result option) \<Rightarrow> 's \<Rightarrow> usize \<Rightarrow> u32 result option" where
  "read_register_dword_checked regs validate s offset = do {
     (r, data) \<leftarrow> read_register_checked regs validate s offset (replicate 4 0xFF);
     Some (case r of Inl e \<Rightarrow> Inl e | Inr _ \<Rightarrow> Inr (from_le_bytes data)) }"

definition read_register_qword_checked ::
    "('s \<Rightarrow> bytes) \<Rightarrow> ('s \<Rightarrow> usize \<Rightarrow> bytes \<Rightarrow> unit result option) \<Rightarrow> 's \<Rightarrow> usize \<Rightarrow> u64 result option" where
  "read_register_qword_checked regs validate s offset = do {
     (r, data) \<leftarrow> read_register_checked regs validate s offset (replicate 8 0xFF);
     Some (case r of Inl e \<Rightarrow> Inl e | Inr _ \<Rightarrow> Inr (from_le_bytes data)) }"

definition set_register_byte_checked ::
    "('s \<Rightarrow> bytes) \<Rightarrow> (bytes \<Rightarrow> 's \<Rightarrow> 's) \<Rightarrow> ('s \<Rightarrow> usize \<Rightarrow> bytes \<Rightarrow> unit result option)
      \<Rightarrow> 's \<Rightarrow> usize \<Rightarrow> u8 \<Rightarrow> ('s, unit) call" where
  "set_register_byte_checked regs upd validate s offset data =
     set_register_checked regs upd validate s offset (to_le_bytes data)"

definition set_register_word_checked ::
    "('s \<Rightarrow> bytes) \<Rightarrow> (bytes \<Rightarrow> 's \<Rightarrow> 's) \<Rightarrow> ('s \<Rightarrow> usize \<Rightarrow> bytes \<Rightarrow> unit result option)
      \<Rightarrow> 's \<Rightarrow> usize \<Rightarrow> u16 \<Rightarrow> ('s, unit) call" where
  "set_register_word_checked regs upd validate s offset data =
     set_register_checked regs upd validate s offset (to_le_bytes data)"

definition set_register_dword_checked ::
    "('s \<Rightarrow> bytes) \<Rightarrow> (bytes \<Rightarrow> 's \<Rightarrow> 's) \<Rightarrow> ('s \<Rightarrow> usize \<Rightarrow> bytes \<Rightarrow> unit result option)
      \<Rightarrow> 's \<Rightarrow> usize \<Rightarrow> u32 \<Rightarrow> ('s, unit) call" where
  "set_register_dword_checked regs upd validate s offset data =
     set_register_checked regs upd validate s offset (to_le_bytes data)"

definition set_register_qword_checked ::
    "('s \<Rightarrow> bytes) \<Rightarrow> (bytes \<Rightarrow> 's \<Rightarrow> 's) \<Rightarrow> ('s \<Rightarrow> usize \<Rightarrow> bytes \<Rightarrow> unit result option)
      \<Rightarrow> 's \<Rightarrow> usize \<Rightarrow> u64 \<Rightarrow> ('s, unit) call" where
  "set_register_qword_checked regs upd validate s offset data =
     set_register_checked regs upd validate s offset (to_le_bytes data)"

definition write_register_byte_checked ::
    "('s \<Rightarrow> bytes) \<Rightarrow> (bytes \<Rightarrow> 's \<Rightarrow> 's) \<Rightarrow> ('s \<Rightarrow> bytes)
      \<Rightarrow> ('s \<Rightarrow> usize \<Rightarrow> bytes \<Rightarrow> unit result option) \<Rightarrow> 's \<Rightarrow> usize \<Rightarrow> u8 \<Rightarrow> ('s, unit) call" where
  "write_register_byte_checked regs upd wbits validate s offset data =
     write_register_checked regs upd wbits validate s offset (to_le_bytes data)"

definition write_register_word_checked ::
    "('s \<Rightarrow> bytes) \<Rightarrow> (bytes \<Rightarrow> 's \<Rightarrow> 's) \<Rightarrow> ('s \<Rightarrow> bytes)
      \<Rightarrow> ('s \<Rightarrow> usize \<Rightarrow> bytes \<Rightarrow> unit result option) \<Rightarrow> 's \<Rightarrow> usize \<Rightarrow> u16 \<Rightarrow> ('s, unit) call" where
  "write_register_word_checked regs upd wbits validate s offset data =
     write_register_checked regs upd wbits validate s offset (to_le_bytes data)"

definition write_register_dword_checked ::
    "('s \<Rightarrow> bytes) \<Rightarrow> (bytes \<Rightarrow> 's \<Rightarrow> 's) \<Rightarrow> ('s \<Rightarrow> bytes)
      \<Rightarrow> ('s \<Rightarrow> usize \<Rightarrow> bytes \<Rightarrow> unit result option) \<Rightarrow> 's \<Rightarrow> usize \<Rightarrow> u32 \<Rightarrow> ('s, unit) call" where
  "write_register_dword_checked regs upd wbits validate s offset data =
     write_register_checked regs upd wbits validate s offset (to_le_bytes data)"

definition write_register_qword_checked ::
    "('s \<Rightarrow> bytes) \<Rightarrow> (bytes \<Rightarrow> 's \<Rightarrow> 's) \<Rightarrow> ('s \<Rightarrow> bytes)
      \<Rightarrow> ('s \<Rightarrow> usize \<Rightarrow> bytes \<Rightarrow> unit result option) \<Rightarrow> 's \<Rightarrow> usize \<Rightarrow> u64 \<Rightarrow> ('s, unit) call" where
  "write_register_qword_checked regs upd wbits validate s offset data =
     write_register_checked regs upd wbits validate s offset (to_le_bytes data)"

section \<open>Views of an array\<close>

text \<open>The values an in-range read returns, as total functions.\<close>

definition word_at :: "bytes \<Rightarrow> nat \<Rightarrow> u16" where
  "word_at arr off = from_le_bytes (take 2 (drop off arr))"

definition dword_at :: "bytes \<Rightarrow> nat \<Rightarrow> u32" where
  "dword_at arr off = from_le_bytes (take 4 (drop off arr))"

definition patch_masked :: "bytes \<Rightarrow> bytes \<Rightarrow> nat \<Rightarrow> bytes \<Rightarrow> bytes" where
  "patch_masked arr bits off data =
     patch arr off (update_zip (take (length data) (drop off arr)) data (take (length data) (drop off bits)))"

lemma bit_word_at' [bit_views]:
  "off + 2 \<le> length arr \<Longrightarrow> bit (word_at arr off) k \<longleftrightarrow> k < 16 \<and> array_bit arr (8 * off + k)"
  by (auto simp: word_at_def bit_word_at)

lemma bit_dword_at [bit_views]:
  "off + 4 \<le> length arr \<Longrightarrow> bit (dword_at arr off) k \<longleftrightarrow> k < 32 \<and> array_bit arr (8 * off + k)"
  by (auto simp: dword_at_def bit_word_at)

lemma length_patch_masked [simp]:
  "off + length data \<le> length arr \<Longrightarrow> length (patch_masked arr bits off data) = length arr"
  by (simp add: patch_masked_def)

lemma array_bit_patch_masked [bit_views]:
  assumes "off + length data \<le> length arr" and "off + length data \<le> length bits"
    and "k < 8 * length arr"
  shows "array_bit (patch_masked arr bits off data) k =
     (if 8 * off \<le> k \<and> k < 8 * (off + length data) \<and> array_bit bits k
      then array_bit data (k - 8 * off) else array_bit arr k)"
proof (cases "8 * off \<le> k \<and> k < 8 * (off + length data)")
  case True
  then have j: "k - 8 * off < 8 * length data" and eq: "8 * off + (k - 8 * off) = k"
    using assms by auto
  with True assms show ?thesis
    by (simp add: patch_masked_def array_bit_patch array_bit_update_zip array_bit_take_drop)
next
  case False
  with assms show ?thesis by (auto simp: patch_masked_def array_bit_patch)
qed

text \<open>Words in patched arrays.\<close>

lemma dword_at_patch [simp]:
  "off + 4 \<le> length arr \<Longrightarrow> dword_at (patch arr off (to_le_bytes v)) off = v"
proof -
  assume "off + 4 \<le> length arr"
  then have "take 4 (drop off (patch arr off (to_le_bytes v))) = to_le_bytes v"
    using take_drop_patch [of off "to_le_bytes v" arr] by simp
  then show ?thesis by (simp add: dword_at_def from_to_le_bytes)
qed

lemma word_at_patch [simp]:
  "off + 2 \<le> length arr \<Longrightarrow> word_at (patch arr off (to_le_bytes v)) off = v"
proof -
  assume "off + 2 \<le> length arr"
  then have "take 2 (drop off (patch arr off (to_le_bytes v))) = to_le_bytes v"
    using take_drop_patch [of off "to_le_bytes v" arr] by simp
  then show ?thesis by (simp add: word_at_def from_to_le_bytes)
qed

lemma dword_at_patch_other [simp]:
  "off + length data \<le> length arr \<Longrightarrow> p + 4 \<le> length arr \<Longrightarrow>
     p + 4 \<le> off \<or> off + length data \<le> p \<Longrightarrow> dword_at (patch arr off data) p = dword_at arr p"
  by (simp add: dword_at_def take_drop_patch_disjoint)

lemma word_at_patch_other [simp]:
  "off + length data \<le> length arr \<Longrightarrow> p + 2 \<le> length arr \<Longrightarrow>
     p + 2 \<le> off \<or> off + length data \<le> p \<Longrightarrow> word_at (patch arr off data) p = word_at arr p"
  by (simp add: word_at_def take_drop_patch_disjoint)

lemma dword_at_patch_masked [simp]:
  assumes "off + 4 \<le> length arr" and "length bits = length arr"
  shows "dword_at (patch_masked arr bits off (to_le_bytes v)) off =
     update_register (dword_at arr off) v (dword_at bits off)"
  by (rule bit_word_eqI) (use assms in \<open>auto simp: bit_views\<close>)

lemma word_at_patch_masked [simp]:
  assumes "off + 2 \<le> length arr" and "length bits = length arr"
  shows "word_at (patch_masked arr bits off (to_le_bytes v)) off =
     update_register (word_at arr off) v (word_at bits off)"
  by (rule bit_word_eqI) (use assms in \<open>auto simp: bit_views\<close>)

lemma dword_at_patch_masked_other [simp]:
  "off + length data \<le> length arr \<Longrightarrow> p + 4 \<le> length arr \<Longrightarrow>
     p + 4 \<le> off \<or> off + length data \<le> p \<Longrightarrow> dword_at (patch_masked arr bits off data) p = dword_at arr p"
  by (simp add: patch_masked_def)

lemma word_at_patch_masked_other [simp]:
  "off + length data \<le> length arr \<Longrightarrow> p + 2 \<le> length arr \<Longrightarrow>
     p + 2 \<le> off \<or> off + length data \<le> p \<Longrightarrow> word_at (patch_masked arr bits off data) p = word_at arr p"
  by (simp add: patch_masked_def)

text \<open>Or-ing bits into an array, what \<open>add_writable_bits\<close> does.\<close>

definition or_patch :: "bytes \<Rightarrow> nat \<Rightarrow> bytes \<Rightarrow> bytes" where
  "or_patch arr off data = patch arr off (map2 (OR) (take (length data) (drop off arr)) data)"

lemma length_or_patch [simp]: "off + length data \<le> length arr \<Longrightarrow> length (or_patch arr off data) = length arr"
  by (simp add: or_patch_def)

lemma array_bit_map2_or:
  assumes "length xs = length ys" and "k < 8 * length ys"
  shows "array_bit (map2 (OR) xs ys) k \<longleftrightarrow> array_bit xs k \<or> array_bit ys k"
proof -
  have "k div 8 < length ys" using assms(2) by simp
  with assms(1) show ?thesis by (simp add: array_bit_def bit_simps)
qed

lemma array_bit_or_patch [bit_views]:
  assumes "off + length data \<le> length arr" and "k < 8 * length arr"
  shows "array_bit (or_patch arr off data) k \<longleftrightarrow>
     array_bit arr k \<or> (8 * off \<le> k \<and> k < 8 * (off + length data) \<and> array_bit data (k - 8 * off))"
proof (cases "8 * off \<le> k \<and> k < 8 * (off + length data)")
  case True
  then have "k - 8 * off < 8 * length data" and "8 * off + (k - 8 * off) = k" by auto
  with True assms show ?thesis
    by (simp add: or_patch_def array_bit_patch array_bit_map2_or array_bit_take_drop)
next
  case False
  with assms show ?thesis by (auto simp: or_patch_def array_bit_patch)
qed

lemma word_at_or_patch [simp]:
  assumes "off + 2 \<le> length arr"
  shows "word_at (or_patch arr off (to_le_bytes v)) off = word_at arr off OR v"
  by (rule bit_word_eqI) (use assms in \<open>auto simp: bit_views bit_or_iff\<close>)

lemma dword_at_or_patch_other [simp]:
  "off + length data \<le> length arr \<Longrightarrow> p + 4 \<le> length arr \<Longrightarrow>
     p + 4 \<le> off \<or> off + length data \<le> p \<Longrightarrow> dword_at (or_patch arr off data) p = dword_at arr p"
  by (simp add: or_patch_def)

lemma nth_or_patch_other:
  "off + length data \<le> length arr \<Longrightarrow> k < length arr \<Longrightarrow> k < off \<or> off + length data \<le> k \<Longrightarrow>
     or_patch arr off data ! k = arr ! k"
  by (auto simp: or_patch_def nth_patch)

lemma nth_patch_masked_other:
  "off + length data \<le> length arr \<Longrightarrow> k < length arr \<Longrightarrow> k < off \<or> off + length data \<le> k \<Longrightarrow>
     patch_masked arr bits off data ! k = arr ! k"
  by (auto simp: patch_masked_def nth_patch)

lemma rb_write_Some [option_simps]:
  assumes "off + length data \<le> length arr" and "off + length data \<le> length bits"
  shows "rb_write arr bits off data = Some (patch_masked arr bits off data)"
  using assms by (simp add: rb_write_def option_simps patch_masked_def)

lemma rb_read_word_Some [option_simps]:
  "off + 2 \<le> length arr \<Longrightarrow> rb_read_word arr off = Some (word_at arr off)"
  by (simp add: rb_read_word_def rb_read_def option_simps word_at_def)

lemma to_le_bytes_u8 [simp]: "to_le_bytes (b :: u8) = [b]"
  by (simp add: to_le_bytes_def byte_of_def)

section \<open>The contract of a register block\<close>

text \<open>
  What the default methods rely on: a store through \<open>registers_mut\<close>, which keeps the length of the
  slice, is what \<open>registers\<close> reads back, stores overwrite each other, and storing the current registers changes nothing.
\<close>

locale register_block =
  fixes regs :: "'s \<Rightarrow> bytes" and upd :: "bytes \<Rightarrow> 's \<Rightarrow> 's"
  assumes regs_upd [simp]: "length r = length (regs s) \<Longrightarrow> regs (upd r s) = r"
    and upd_upd [simp]: "length r = length (regs s) \<Longrightarrow> upd r' (upd r s) = upd r' s"
    and upd_regs [simp]: "upd (regs s) s = s"
begin

lemma read_register_word_Some:
  "off + 2 \<le> length (regs s) \<Longrightarrow> read_register_word regs s off = Some (word_at (regs s) off)"
  by (simp add: read_register_word_def read_register_def rb_read_def option_simps word_at_def)

lemma read_register_dword_Some:
  "off + 4 \<le> length (regs s) \<Longrightarrow> read_register_dword regs s off = Some (dword_at (regs s) off)"
  by (simp add: read_register_dword_def read_register_def rb_read_def option_simps dword_at_def)

lemma read_register_byte_Some:
  "off + 1 \<le> length (regs s) \<Longrightarrow> read_register_byte regs s off = Some (regs s ! off)"
  by (simp add: read_register_byte_def read_register_def rb_read_def option_simps hd_drop_conv_nth
      take_Suc_conv_app_nth)

lemma set_register_Some:
  "off + length data \<le> length (regs s) \<Longrightarrow>
     set_register regs upd s off data = Some (upd (patch (regs s) off data) s)"
  by (simp add: set_register_def option_simps)

lemma read_after_set:
  assumes "set_register regs upd s off data = Some s'" and "length buf = length data"
  shows "read_register regs s' off buf = Some data"
proof -
  have "off + length data \<le> length (regs s)" and "s' = upd (patch (regs s) off data) s"
    using assms(1) by (auto simp: set_register_def slice_set_def split: if_splits)
  with assms(2) show ?thesis
    by (simp add: read_register_def rb_read_def option_simps take_drop_patch)
qed

lemma set_checked_Ok:
  assumes "off + length data \<le> length (regs s)" and "off + length data < 2 ^ 64"
  shows "set_register_checked regs upd (rb_validate_access regs) s off data =
     Some (Inr (), upd (patch (regs s) off data) s)"
  using assms by (simp add: set_register_checked_def rb_validate_access_def rb_set_def option_simps)

lemma set_checked_Err:
  assumes "length (regs s) < off + length data" and "off + length data < 2 ^ 64"
  shows "set_register_checked regs upd (rb_validate_access regs) s off data =
     Some (Inl (AccessBounds off (length data)), s)"
  using assms by (simp add: set_register_checked_def rb_validate_access_def validate_bounds_def)

lemma read_checked_Ok:
  assumes "off + length data \<le> length (regs s)" and "off + length data < 2 ^ 64"
  shows "read_register_checked regs (rb_validate_access regs) s off data =
     Some (Inr (), take (length data) (drop off (regs s)))"
  using assms by (simp add: read_register_checked_def rb_validate_access_def rb_read_def option_simps)

lemma set_checked_total:
  "off + length data < 2 ^ 64 \<Longrightarrow>
     \<exists>r s'. set_register_checked regs upd (rb_validate_access regs) s off data = Some (r, s')"
  by (cases "off + length data \<le> length (regs s)") (simp_all add: set_checked_Ok set_checked_Err)

lemma read_checked_total:
  "off + length data < 2 ^ 64 \<Longrightarrow>
     \<exists>r data'. read_register_checked regs (rb_validate_access regs) s off data = Some (r, data') \<and>
       length data' = length data"
  by (cases "off + length data \<le> length (regs s)")
    (simp_all add: read_checked_Ok, simp add: read_register_checked_def rb_validate_access_def validate_bounds_def)

text \<open>A register set by a checked access is what a checked read of it returns.\<close>

lemma set_checked_InrE:
  assumes "set_register_checked regs upd (rb_validate_access regs) s off data = Some (Inr (), s')" and "off + length data < 2 ^ 64"
  shows "off + length data \<le> length (regs s)" and "s' = upd (patch (regs s) off data) s"
proof -
  show fit: "off + length data \<le> length (regs s)"
    using assms set_checked_Err [of s off data] by (cases "off + length data \<le> length (regs s)") auto
  show "s' = upd (patch (regs s) off data) s" using assms(1) set_checked_Ok [OF fit assms(2)] by simp
qed

lemma checked_read_after_set:
  assumes "set_register_checked regs upd (rb_validate_access regs) s off data = Some (Inr (), s')" and "off + length data < 2 ^ 64"
    and "length buf = length data"
  shows "read_register_checked regs (rb_validate_access regs) s' off buf = Some (Inr (), data)"
  using set_checked_InrE [OF assms(1,2)] read_checked_Ok [of off buf s'] assms(2,3) by (simp add: take_drop_patch)

lemma checked_register_roundtrip:
  assumes "off + 8 < 2 ^ 64"
  shows "set_register_byte_checked regs upd (rb_validate_access regs) s off b = Some (Inr (), s') \<Longrightarrow>
      read_register_byte_checked regs (rb_validate_access regs) s' off = Some (Inr b)"
    and "set_register_word_checked regs upd (rb_validate_access regs) s off w = Some (Inr (), s') \<Longrightarrow>
      read_register_word_checked regs (rb_validate_access regs) s' off = Some (Inr w)"
    and "set_register_dword_checked regs upd (rb_validate_access regs) s off d = Some (Inr (), s') \<Longrightarrow>
      read_register_dword_checked regs (rb_validate_access regs) s' off = Some (Inr d)"
    and "set_register_qword_checked regs upd (rb_validate_access regs) s off q = Some (Inr (), s') \<Longrightarrow>
      read_register_qword_checked regs (rb_validate_access regs) s' off = Some (Inr q)"
  using assms checked_read_after_set [of s off "to_le_bytes b" s' "replicate 1 0xFF"]
    checked_read_after_set [of s off "to_le_bytes w" s' "replicate 2 0xFF"]
    checked_read_after_set [of s off "to_le_bytes d" s' "replicate 4 0xFF"]
    checked_read_after_set [of s off "to_le_bytes q" s' "replicate 8 0xFF"]
  by (simp_all add: set_register_byte_checked_def read_register_byte_checked_def set_register_word_checked_def
      read_register_word_checked_def set_register_dword_checked_def read_register_dword_checked_def
      set_register_qword_checked_def read_register_qword_checked_def from_to_le_bytes)

end

locale writable_register_block = register_block +
  fixes wbits :: "'s \<Rightarrow> bytes"
  assumes wbits_upd [simp]: "wbits (upd r s) = wbits s"
begin

lemma write_register_Some:
  assumes "length (wbits s) = length (regs s)" and "off + length data \<le> length (regs s)"
  shows "write_register regs upd wbits s off data =
     Some (upd (patch_masked (regs s) (wbits s) off data) s)"
  using assms by (simp add: write_register_def option_simps)

text \<open>A write touches the writable bits of its window and no others.\<close>

lemma write_register_bits:
  assumes "write_register regs upd wbits s off data = Some s'" and "k < 8 * length (regs s)"
  shows "array_bit (regs s') k =
     (if 8 * off \<le> k \<and> k < 8 * (off + length data) \<and> array_bit (wbits s) k
      then array_bit data (k - 8 * off) else array_bit (regs s) k)"
proof -
  have len: "length (wbits s) = length (regs s)" "off + length data \<le> length (regs s)"
    using assms(1)
    by (auto simp: write_register_def rb_write_def slice_read_def bind_eq_Some_conv split: if_splits)
  then have "s' = upd (patch_masked (regs s) (wbits s) off data) s"
    using assms(1) by (simp add: write_register_Some)
  then show ?thesis using len assms(2) by (simp add: array_bit_patch_masked)
qed

end

end
