(* ===== verification/Config_Space.thy ===== *)
theory Config_Space
  imports Register_Block
begin

text \<open>
  The PCI configuration space, \<open>greens-pci/src/configuration_space.rs\<close>: registers with their
  writable bits, base address registers and the capability list. This theory holds the state, every
  operation and the laws of register access; \<open>Config_Bars\<close> and \<open>Config_Caps\<close> hold the properties
  of the base address registers and of the capability list.
\<close>

section \<open>State and register access\<close>

record config_space =
  cs_registers :: bytes
  cs_writable_bits :: bytes
  cs_bars :: "PciBar option list"
  cs_last_cap_size :: usize

abbreviation cs_store :: "bytes \<Rightarrow> config_space \<Rightarrow> config_space" where
  "cs_store r c \<equiv> c\<lparr>cs_registers := r\<rparr>"

definition cs_read :: "config_space \<Rightarrow> usize \<Rightarrow> bytes \<Rightarrow> bytes option" where
  "cs_read c offset data = read_register cs_registers c offset data"

definition cs_read_byte :: "config_space \<Rightarrow> usize \<Rightarrow> u8 option" where
  "cs_read_byte c offset = read_register_byte cs_registers c offset"

definition cs_read_word :: "config_space \<Rightarrow> usize \<Rightarrow> u16 option" where
  "cs_read_word c offset = read_register_word cs_registers c offset"

definition cs_read_dword :: "config_space \<Rightarrow> usize \<Rightarrow> u32 option" where
  "cs_read_dword c offset = read_register_dword cs_registers c offset"

definition cs_set :: "config_space \<Rightarrow> usize \<Rightarrow> bytes \<Rightarrow> config_space option" where
  "cs_set c offset data = set_register cs_registers cs_store c offset data"

definition cs_set_byte :: "config_space \<Rightarrow> usize \<Rightarrow> u8 \<Rightarrow> config_space option" where
  "cs_set_byte c offset data = set_register_byte cs_registers cs_store c offset data"

definition cs_set_word :: "config_space \<Rightarrow> usize \<Rightarrow> u16 \<Rightarrow> config_space option" where
  "cs_set_word c offset data = set_register_word cs_registers cs_store c offset data"

definition cs_set_dword :: "config_space \<Rightarrow> usize \<Rightarrow> u32 \<Rightarrow> config_space option" where
  "cs_set_dword c offset data = set_register_dword cs_registers cs_store c offset data"

definition cs_write :: "config_space \<Rightarrow> usize \<Rightarrow> bytes \<Rightarrow> config_space option" where
  "cs_write c offset data = write_register cs_registers cs_store cs_writable_bits c offset data"

definition cs_write_byte :: "config_space \<Rightarrow> usize \<Rightarrow> u8 \<Rightarrow> config_space option" where
  "cs_write_byte c offset data = write_register_byte cs_registers cs_store cs_writable_bits c offset data"

definition cs_write_word :: "config_space \<Rightarrow> usize \<Rightarrow> u16 \<Rightarrow> config_space option" where
  "cs_write_word c offset data = write_register_word cs_registers cs_store cs_writable_bits c offset data"

definition cs_write_dword :: "config_space \<Rightarrow> usize \<Rightarrow> u32 \<Rightarrow> config_space option" where
  "cs_write_dword c offset data = write_register_dword cs_registers cs_store cs_writable_bits c offset data"

definition config_new :: "config_space option" where
  "config_new =
     cs_set_word
       \<lparr>cs_registers = replicate PCI_CONFIGURATION_SPACE_SIZE 0,
        cs_writable_bits = replicate PCI_CONFIGURATION_SPACE_SIZE 0,
        cs_bars = replicate NUM_BAR_REGS None,
        cs_last_cap_size = 0\<rparr>
       PCI_VENDOR_ID 0xFFFF"

section \<open>Checked access\<close>

definition validate_access_size :: "usize \<Rightarrow> unit result" where
  "validate_access_size sz = (if sz = 1 \<or> sz = 2 \<or> sz = 4 then Inr () else Inl (InvalidIoSize sz))"

text \<open>A remainder by zero panics.\<close>

definition validate_access_alignment :: "usize \<Rightarrow> usize \<Rightarrow> unit result option" where
  "validate_access_alignment offset sz =
     (if sz = 0 then None
      else if offset mod sz = 0 then Some (Inr ())
      else Some (Inl (InvalidAccessAlignment (of_nat offset) (of_nat sz))))"

definition cs_validate_access :: "config_space \<Rightarrow> usize \<Rightarrow> bytes \<Rightarrow> unit result option" where
  "cs_validate_access c offset data =
     (case validate_access_size (length data) of
        Inl e \<Rightarrow> Some (Inl e)
      | Inr _ \<Rightarrow> do {
          r \<leftarrow> validate_access_alignment offset (length data);
          case r of
            Inl e \<Rightarrow> Some (Inl e)
          | Inr _ \<Rightarrow> validate_bounds (cs_registers c) offset (length data)
        })"

definition cs_validate_write_access :: "config_space \<Rightarrow> usize \<Rightarrow> bytes \<Rightarrow> unit result option" where
  "cs_validate_write_access c offset data = do {
     r \<leftarrow> cs_validate_access c offset data;
     case r of
       Inl e \<Rightarrow> Some (Inl e)
     | Inr _ \<Rightarrow> validate_bounds (cs_writable_bits c) offset (length data)
   }"

text \<open>An access out of bounds fills the buffer with ones before it fails.\<close>

definition cs_read_checked :: "config_space \<Rightarrow> usize \<Rightarrow> bytes \<Rightarrow> (bytes, unit) call" where
  "cs_read_checked c offset data = do {
     r \<leftarrow> cs_validate_access c offset data;
     case r of
       Inl e \<Rightarrow>
         (case e of
            AccessBounds _ _ \<Rightarrow> Some (Inl e, replicate (length data) 0xFF)
          | _ \<Rightarrow> Some (Inl e, data))
     | Inr _ \<Rightarrow> do { data' \<leftarrow> cs_read c offset data; Some (Inr (), data') }
   }"

definition cs_set_checked :: "config_space \<Rightarrow> usize \<Rightarrow> bytes \<Rightarrow> (config_space, unit) call" where
  "cs_set_checked c offset data =
     set_register_checked cs_registers cs_store cs_validate_access c offset data"

definition cs_write_checked :: "config_space \<Rightarrow> usize \<Rightarrow> bytes \<Rightarrow> (config_space, unit) call" where
  "cs_write_checked c offset data = do {
     r \<leftarrow> cs_validate_write_access c offset data;
     case r of
       Inl e \<Rightarrow> Some (Inl e, c)
     | Inr _ \<Rightarrow> do {
         regs \<leftarrow> rb_write (cs_registers c) (cs_writable_bits c) offset data;
         Some (Inr (), cs_store regs c)
       }
   }"

section \<open>Writable bits\<close>

definition set_writable_bits :: "config_space \<Rightarrow> usize \<Rightarrow> bytes \<Rightarrow> config_space option" where
  "set_writable_bits c offset bits = do {
     w \<leftarrow> slice_set (cs_writable_bits c) offset bits;
     Some (c\<lparr>cs_writable_bits := w\<rparr>)
   }"

definition set_writable_byte :: "config_space \<Rightarrow> usize \<Rightarrow> u8 \<Rightarrow> config_space option" where
  "set_writable_byte c offset bits = set_writable_bits c offset (to_le_bytes bits)"

definition set_writable_word :: "config_space \<Rightarrow> usize \<Rightarrow> u16 \<Rightarrow> config_space option" where
  "set_writable_word c offset bits = set_writable_bits c offset (to_le_bytes bits)"

definition set_writable_dword :: "config_space \<Rightarrow> usize \<Rightarrow> u32 \<Rightarrow> config_space option" where
  "set_writable_dword c offset bits = set_writable_bits c offset (to_le_bytes bits)"

definition add_writable_bits :: "config_space \<Rightarrow> usize \<Rightarrow> bytes \<Rightarrow> config_space option" where
  "add_writable_bits c offset bits = do {
     current \<leftarrow> slice_read (cs_writable_bits c) offset (length bits);
     w \<leftarrow> slice_set (cs_writable_bits c) offset (map2 (OR) current bits);
     Some (c\<lparr>cs_writable_bits := w\<rparr>)
   }"

definition add_writable_byte :: "config_space \<Rightarrow> usize \<Rightarrow> u8 \<Rightarrow> config_space option" where
  "add_writable_byte c offset bits = add_writable_bits c offset (to_le_bytes bits)"

definition add_writable_word :: "config_space \<Rightarrow> usize \<Rightarrow> u16 \<Rightarrow> config_space option" where
  "add_writable_word c offset bits = add_writable_bits c offset (to_le_bytes bits)"

definition add_writable_dword :: "config_space \<Rightarrow> usize \<Rightarrow> u32 \<Rightarrow> config_space option" where
  "add_writable_dword c offset bits = add_writable_bits c offset (to_le_bytes bits)"

definition allow_bus_master :: "config_space \<Rightarrow> config_space option" where
  "allow_bus_master c = add_writable_word c PCI_COMMAND PCI_COMMAND_BUS_MASTER_MASK"

definition is_bus_master :: "config_space \<Rightarrow> bool option" where
  "is_bus_master c = do {
     command \<leftarrow> cs_read_word c PCI_COMMAND;
     Some (command AND PCI_COMMAND_BUS_MASTER_MASK = PCI_COMMAND_BUS_MASTER_MASK)
   }"

section \<open>Base address registers\<close>

definition count_ones :: "'a::len word \<Rightarrow> nat" where
  "count_ones w = length (filter (bit w) [0..<LENGTH('a)])"

definition is_power_of_two :: "'a::len word \<Rightarrow> bool" where
  "is_power_of_two w = (count_ones w = 1)"

definition validate_bar_size :: "PciBar \<Rightarrow> unit result" where
  "validate_bar_size bar =
     (if \<not> is_power_of_two (bar_size bar) then Inl (InvalidBarSize (bar_size bar))
      else let min_size = (case bar_region_type bar of Io \<Rightarrow> PCI_BAR_IO_MIN_SIZE | _ \<Rightarrow> PCI_BAR_MEM_MIN_SIZE)
      in if bar_size bar < min_size then Inl (InvalidBarSize (bar_size bar))
      else let max_size = (case bar_region_type bar of
                 Io \<Rightarrow> PCI_BAR_IO_MAX_SIZE
               | Memory32Bit _ \<Rightarrow> PCI_BAR_MEM_32_MAX_SIZE
               | Memory64Bit _ \<Rightarrow> PCI_BAR_MEM_64_MAX_SIZE)
      in if max_size < bar_size bar then Inl (InvalidBarSize (bar_size bar))
      else Inr ())"

definition validate_bar_region :: "PciBar \<Rightarrow> unit result" where
  "validate_bar_region bar =
     try_result (validate_bar_size bar) (\<lambda>_.
       case bar_address bar of
         None \<Rightarrow> Inr ()
       | Some address \<Rightarrow>
          let sz = bar_size bar in
          if address = 0 then Inl (InvalidBarAddress address)
          else if address mod sz \<noteq> 0 then Inl (InvalidBarAlignment address sz)
          else (case checked_add 64 (unat address) (unat sz) of
              None \<Rightarrow> Inl (BarRegionOverflow address sz)
            | Some end_address \<Rightarrow>
                if \<not> is_memory64 (bar_region_type bar) \<and> 0xFFFFFFFF < end_address
                then Inl (BarRegionOverflow address sz)
                else Inr ()))"

definition max_num_bars :: "config_space \<Rightarrow> usize result option" where
  "max_num_bars c = do {
     header_type \<leftarrow> cs_read_byte c PCI_HEADER_TYPE;
     Some (if header_type = 0 then Inr PCI_TYPE0_NUM_BARS
           else if header_type = 1 then Inr PCI_TYPE1_NUM_BARS
           else Inl (UnsupportedHeader header_type))
   }"

definition validate_header_support :: "config_space \<Rightarrow> PciBarIndex \<Rightarrow> unit result option" where
  "validate_header_support c index = do {
     n \<leftarrow> max_num_bars c;
     Some (try_result n (\<lambda>n. if into_inner index < n then Inr () else Inl (InvalidBarIndex (into_inner index))))
   }"

definition bars_get :: "config_space \<Rightarrow> usize \<Rightarrow> PciBar option option" where
  "bars_get c index = (if index < length (cs_bars c) then Some (cs_bars c ! index) else None)"

text \<open>
  The match on the region type in \<open>add_bar\<close>: it makes the space bit of the command register
  writable, prepares the upper half of a 64-bit register, and yields the mask of the lower one.
\<close>

definition add_bar_mask :: "config_space \<Rightarrow> PciBar \<Rightarrow> usize \<Rightarrow> u64 \<Rightarrow> (config_space, u32) call" where
  "add_bar_mask c bar index address =
     (case bar_region_type bar of
        Io \<Rightarrow> do {
          c \<leftarrow> add_writable_word c PCI_COMMAND PCI_COMMAND_IO_SPACE_MASK;
          Some (Inr PCI_BAR_IO_BASE_ADDRESS_MASK, c)
        }
      | Memory32Bit _ \<Rightarrow> do {
          c \<leftarrow> add_writable_word c PCI_COMMAND PCI_COMMAND_MEM_SPACE_MASK;
          Some (Inr PCI_BAR_MEM_32_BASE_ADDRESS_MASK, c)
        }
      | Memory64Bit _ \<Rightarrow>
          let next_index = index + 1 in
          (case bars_get c next_index of
             None \<Rightarrow> Some (Inl (InvalidBarIndex index), c)
           | Some (Some _) \<Rightarrow> Some (Inl (BarInUse index), c)
           | Some None \<Rightarrow> do {
               let next_bar = PCI_BAR0 + next_index * 4;
               c \<leftarrow> set_writable_dword c next_bar (ucast (NOT (drop_bit 32 (bar_size bar - 1))));
               c \<leftarrow> cs_set_dword c next_bar (ucast (drop_bit 32 address));
               c \<leftarrow> add_writable_word c PCI_COMMAND PCI_COMMAND_MEM_SPACE_MASK;
               Some (Inr PCI_BAR_MEM_32_BASE_ADDRESS_MASK, c)
             }))"

definition prev_bar_is_64bit :: "config_space \<Rightarrow> usize \<Rightarrow> bool option" where
  "prev_bar_is_64bit c index =
     (if index = 0 then Some False
      else do {
        prev \<leftarrow> bars_get c (index - 1);
        Some (case prev of None \<Rightarrow> False | Some bar \<Rightarrow> is_memory64 (bar_region_type bar))
      })"

definition add_bar :: "config_space \<Rightarrow> PciBar \<Rightarrow> (config_space, unit) call" where
  "add_bar c bar =
     bind_result (map_option (\<lambda>r. (r, c)) (validate_header_support c (bar_index bar))) (\<lambda>_ c.
     bind_result (Some (validate_bar_size bar, c)) (\<lambda>_ c.
     bind_result (Some (validate_bar_region bar, c)) (\<lambda>_ c.
     let index = into_inner (bar_index bar) in
     (case bars_get c index of
        None \<Rightarrow> Some (Inl (InvalidBarIndex index), c)
      | Some (Some _) \<Rightarrow> Some (Inl (BarInUse index), c)
      | Some None \<Rightarrow> do {
          occupied \<leftarrow> prev_bar_is_64bit c index;
          if occupied then Some (Inl (BarInUse index), c)
          else do {
            let address = (case bar_address bar of None \<Rightarrow> 0 | Some a \<Rightarrow> a);
            let bar_offset = PCI_BAR0 + index * 4;
            bind_result (add_bar_mask c bar index address) (\<lambda>bar_mask c. do {
              c \<leftarrow> set_writable_dword c bar_offset (ucast (NOT (bar_size bar - 1)) AND bar_mask);
              c \<leftarrow> cs_set_dword c bar_offset
                    ((ucast address AND bar_mask) OR bar_type_bits (bar_region_type bar));
              Some (Inr (), c\<lparr>cs_bars := (cs_bars c)[index := Some bar]\<rparr>)
            })
          }
        }))))"

definition get_bar_masks :: "PciBar \<Rightarrow> u16 \<times> u32" where
  "get_bar_masks bar =
     (case bar_region_type bar of
        Io \<Rightarrow> (PCI_COMMAND_IO_SPACE_MASK, PCI_BAR_IO_BASE_ADDRESS_MASK)
      | _ \<Rightarrow> (PCI_COMMAND_MEM_SPACE_MASK, PCI_BAR_MEM_32_BASE_ADDRESS_MASK))"

definition get_bar :: "config_space \<Rightarrow> PciBarIndex \<Rightarrow> PciBar option option" where
  "get_bar c index =
     (case bars_get c (into_inner index) of
        None \<Rightarrow> Some None
      | Some None \<Rightarrow> Some None
      | Some (Some bar) \<Rightarrow> do {
          command \<leftarrow> cs_read_word c PCI_COMMAND;
          let (command_mask, bar_mask) = get_bar_masks bar;
          if command AND command_mask = 0 then Some None
          else do {
            let bar_offset = PCI_BAR0 + into_inner index * 4;
            low \<leftarrow> cs_read_dword c bar_offset;
            let address = (ucast (low AND bar_mask) :: u64);
            address \<leftarrow>
              (if is_memory64 (bar_region_type bar)
               then do {
                 high \<leftarrow> cs_read_dword c (bar_offset + 4);
                 Some (address OR push_bit 32 (ucast high))
               }
               else Some address);
            if address = 0 then Some None
            else if address = NOT (bar_size bar - 1) AND ucast bar_mask then Some None
            else Some (Some (bar_set_address bar (Some address)))
          }
        })"

definition bar_update_for_write :: "config_space \<Rightarrow> usize \<Rightarrow> PciBar option option" where
  "bar_update_for_write c offset =
     (let bar_end = PCI_BAR0 + NUM_BAR_REGS * 4 in
      if offset < PCI_BAR0 \<or> bar_end \<le> offset then Some None
      else let reg_index = (offset - PCI_BAR0) div 4 in
        do {
          slot \<leftarrow> bars_get c reg_index;
          case slot of
            Some bar \<Rightarrow>
              if is_memory64 (bar_region_type bar) then Some None
              else (case bar_index_try_from reg_index of Inl _ \<Rightarrow> Some None | Inr i \<Rightarrow> get_bar c i)
          | None \<Rightarrow> do {
              upper \<leftarrow> prev_bar_is_64bit c reg_index;
              if upper
              then (case bar_index_try_from (reg_index - 1) of Inl _ \<Rightarrow> Some None | Inr i \<Rightarrow> get_bar c i)
              else Some None
            }
        })"

section \<open>The capability list\<close>

record PciCapHeader =
  hdr_cap_id :: u8
  hdr_next_pointer :: u8

definition cap_header_from :: "bytes \<Rightarrow> PciCapHeader option" where
  "cap_header_from registers =
     (if 2 \<le> length registers
      then Some \<lparr>hdr_cap_id = registers ! PCI_CAP_HEADER_ID, hdr_next_pointer = registers ! PCI_CAP_HEADER_NEXT\<rparr>
      else None)"

definition cap_id_offset :: "usize \<Rightarrow> usize" where
  "cap_id_offset cap_start = cap_start"

definition cap_next_pointer_offset :: "usize \<Rightarrow> usize" where
  "cap_next_pointer_offset cap_start = cap_start + PCI_CAP_HEADER_NEXT"

definition cap_data_offset :: "usize \<Rightarrow> usize" where
  "cap_data_offset cap_start = cap_start + PCI_CAP_DATA_START"

text \<open>A subtraction below zero panics.\<close>

definition cap_start_from_data_start :: "usize \<Rightarrow> usize option" where
  "cap_start_from_data_start data_start =
     (if data_start < PCI_CAP_DATA_START then None else Some (data_start - PCI_CAP_DATA_START))"

definition next_cap :: "config_space \<Rightarrow> usize \<Rightarrow> usize option" where
  "next_cap c pointer = do {
     b \<leftarrow> cs_read_byte c pointer;
     let next = unat (b AND NOT PCI_CAP_POINTER_RSVD_MASK);
     Some (if next < PCI_DEVICE_SPECIFIC_START then 0 else next)
   }"

text \<open>
  \<open>PciCapabilitiesList::next\<close> from the pointer \<open>p\<close>: the item and the iterator's new pointer, or
  \<open>None\<close> inside when the iteration is over.
\<close>

definition cap_iter_next :: "config_space \<Rightarrow> usize \<Rightarrow> ((PciCapHeader \<times> usize) \<times> usize) option option" where
  "cap_iter_next c p = do {
     cap \<leftarrow> next_cap c p;
     if cap \<noteq> 0 then do {
       area \<leftarrow> slice_read (cs_registers c) cap (length (cs_registers c) - cap);
       header \<leftarrow> cap_header_from area;
       let next_pointer = unat (hdr_next_pointer header);
       if cap_next_pointer_offset next_pointer = p then Some None
       else Some (Some ((header, cap_data_offset cap), cap_next_pointer_offset cap))
     } else Some None
   }"

text \<open>
  \<open>capability_iter().last()\<close> and \<open>capability_iter().find(..)\<close>. The list is in memory a driver may
  have corrupted, so the loops need not end: \<open>None\<close> also stands for an iteration that goes on forever.
\<close>

partial_function (option) cap_iter_last ::
    "config_space \<Rightarrow> usize \<Rightarrow> (PciCapHeader \<times> usize) option \<Rightarrow> (PciCapHeader \<times> usize) option option" where
  "cap_iter_last c p acc = do {
     step \<leftarrow> cap_iter_next c p;
     case step of
       None \<Rightarrow> Some acc
     | Some (item, p') \<Rightarrow> cap_iter_last c p' (Some item)
   }"

partial_function (option) cap_iter_find ::
    "(PciCapHeader \<times> usize \<Rightarrow> bool) \<Rightarrow> config_space \<Rightarrow> usize \<Rightarrow> (PciCapHeader \<times> usize) option option" where
  "cap_iter_find pred c p = do {
     step \<leftarrow> cap_iter_next c p;
     case step of
       None \<Rightarrow> Some None
     | Some (item, p') \<Rightarrow> (if pred item then Some (Some item) else cap_iter_find pred c p')
   }"

definition capability_last :: "config_space \<Rightarrow> (PciCapHeader \<times> usize) option option" where
  "capability_last c = cap_iter_last c PCI_CAP_POINTER None"

definition capability_find ::
    "config_space \<Rightarrow> (PciCapHeader \<times> usize \<Rightarrow> bool) \<Rightarrow> (PciCapHeader \<times> usize) option option" where
  "capability_find c pred = cap_iter_find pred c PCI_CAP_POINTER"

definition cap_end_offset :: "pci_capability \<Rightarrow> usize \<Rightarrow> usize result" where
  "cap_end_offset cap cap_start =
     (case checked_add 64 cap_start (cap_size cap) of
        None \<Rightarrow> Inl (ConfigurationSpaceBounds PCI_CONFIGURATION_SPACE_SIZE)
      | Some cap_end \<Rightarrow>
          if PCI_DEVICE_SPECIFIC_END < cap_end then Inl (DeviceAreaBounds cap_end PCI_DEVICE_SPECIFIC_END)
          else Inr cap_end)"

definition set_capability_data :: "config_space \<Rightarrow> pci_capability \<Rightarrow> usize \<Rightarrow> (config_space, unit) call" where
  "set_capability_data c cap cap_start =
     bind_result (Some (cap_end_offset cap cap_start, c)) (\<lambda>cap_end c. do {
       area \<leftarrow> slice_read (cs_registers c) cap_start (cap_end - cap_start);
       regs \<leftarrow> cap_registers cap area;
       registers \<leftarrow> slice_set (cs_registers c) cap_start regs;
       area \<leftarrow> slice_read (cs_writable_bits c) cap_start (cap_end - cap_start);
       bits \<leftarrow> cap_writable_bits cap area;
       writable_bits \<leftarrow> slice_set (cs_writable_bits c) cap_start bits;
       Some (Inr (), c\<lparr>cs_registers := registers, cs_writable_bits := writable_bits\<rparr>)
     })"

text \<open>Where a new capability goes: its start (before alignment) and the start of the last one, or 0.\<close>

definition cap_insert_position :: "config_space \<Rightarrow> (usize \<times> usize) option" where
  "cap_insert_position c = do {
     last \<leftarrow> capability_last c;
     case last of
       Some (_, offset) \<Rightarrow> do {
         last_start \<leftarrow> cap_start_from_data_start offset;
         Some (offset + cs_last_cap_size c, last_start)
       }
     | None \<Rightarrow> Some (PCI_DEVICE_SPECIFIC_START, 0)
   }"

definition align_dword :: "usize \<Rightarrow> usize" where
  "align_dword n = (n + 3) div 4 * 4"

definition add_capability :: "config_space \<Rightarrow> pci_capability \<Rightarrow> (config_space, usize) call" where
  "add_capability c cap = do {
     (cap_start, last_start) \<leftarrow> cap_insert_position c;
     let cap_start = align_dword cap_start;
     let cap_data = cap_data_offset cap_start;
     bind_result (set_capability_data c cap cap_data) (\<lambda>_ c. do {
       c \<leftarrow> cs_set_byte c (cap_id_offset cap_start) (capability_id_u8 (cap_id cap));
       c \<leftarrow> cs_set_byte c (cap_next_pointer_offset cap_start) 0;
       let c = c\<lparr>cs_last_cap_size := cap_size cap\<rparr>;
       c \<leftarrow> (if last_start = 0 then do {
                c \<leftarrow> cs_set_byte c PCI_CAP_POINTER (of_nat PCI_DEVICE_SPECIFIC_START);
                status \<leftarrow> cs_read_word c PCI_STATUS;
                cs_set_word c PCI_STATUS (status OR PCI_STATUS_CAP_LIST_MASK)
              } else cs_set_byte c (cap_next_pointer_offset last_start) (of_nat cap_start));
       Some (Inr cap_data, c)
     })
   }"

definition update_capability :: "config_space \<Rightarrow> pci_capability \<Rightarrow> usize \<Rightarrow> (config_space, unit) call" where
  "update_capability c cap cap_start = do {
     found \<leftarrow> capability_find c (\<lambda>(header, offset).
                hdr_cap_id header = capability_id_u8 (cap_id cap) \<and> cap_start = offset);
     case found of
       None \<Rightarrow> Some (Inl (CapabilityNotFound (capability_id_u8 (cap_id cap))), c)
     | Some _ \<Rightarrow> set_capability_data c cap cap_start
   }"

section \<open>Well-formed configuration spaces\<close>

text \<open>The lengths of the arrays, which the code fixes in their types.\<close>

definition config_wf :: "config_space \<Rightarrow> bool" where
  "config_wf c \<longleftrightarrow>
     length (cs_registers c) = PCI_CONFIGURATION_SPACE_SIZE \<and>
     length (cs_writable_bits c) = PCI_CONFIGURATION_SPACE_SIZE \<and>
     length (cs_bars c) = NUM_BAR_REGS"

lemma config_wf_lengths [simp]:
  assumes "config_wf c"
  shows "length (cs_registers c) = 256" "length (cs_writable_bits c) = 256" "length (cs_bars c) = 6"
  using assms by (simp_all add: config_wf_def)

text \<open>The registers of the configuration space are a writable register block.\<close>

interpretation cs_block: writable_register_block cs_registers cs_store cs_writable_bits
  by unfold_locales simp_all

lemmas cs_access_defs =
  cs_read_def cs_read_byte_def cs_read_word_def cs_read_dword_def
  cs_set_def cs_set_byte_def cs_set_word_def cs_set_dword_def
  cs_write_def cs_write_byte_def cs_write_word_def cs_write_dword_def
  set_register_byte_def set_register_word_def set_register_dword_def
  write_register_byte_def write_register_word_def write_register_dword_def

lemma cs_read_byte_Some [option_simps]:
  "config_wf c \<Longrightarrow> off < 256 \<Longrightarrow>
     cs_read_byte c off = Some (cs_registers c ! off)"
  by (simp add: cs_access_defs cs_block.read_register_byte_Some)

lemma cs_read_word_Some [option_simps]:
  "config_wf c \<Longrightarrow> off + 2 \<le> 256 \<Longrightarrow>
     cs_read_word c off = Some (word_at (cs_registers c) off)"
  by (simp add: cs_access_defs cs_block.read_register_word_Some)

lemma cs_read_dword_Some [option_simps]:
  "config_wf c \<Longrightarrow> off + 4 \<le> 256 \<Longrightarrow>
     cs_read_dword c off = Some (dword_at (cs_registers c) off)"
  by (simp add: cs_access_defs cs_block.read_register_dword_Some)

lemma cs_set_byte_Some [option_simps]:
  "config_wf c \<Longrightarrow> off + 1 \<le> 256 \<Longrightarrow>
     cs_set_byte c off v = Some (cs_store (patch (cs_registers c) off (to_le_bytes v)) c)"
  by (simp add: cs_access_defs cs_block.set_register_Some)

lemma cs_set_word_Some [option_simps]:
  "config_wf c \<Longrightarrow> off + 2 \<le> 256 \<Longrightarrow>
     cs_set_word c off v = Some (cs_store (patch (cs_registers c) off (to_le_bytes v)) c)"
  by (simp add: cs_access_defs cs_block.set_register_Some)

lemma cs_set_dword_Some [option_simps]:
  "config_wf c \<Longrightarrow> off + 4 \<le> 256 \<Longrightarrow>
     cs_set_dword c off v = Some (cs_store (patch (cs_registers c) off (to_le_bytes v)) c)"
  by (simp add: cs_access_defs cs_block.set_register_Some)

lemma cs_write_byte_Some [option_simps]:
  "config_wf c \<Longrightarrow> off + 1 \<le> 256 \<Longrightarrow>
     cs_write_byte c off v =
       Some (cs_store (patch_masked (cs_registers c) (cs_writable_bits c) off (to_le_bytes v)) c)"
  by (simp add: cs_access_defs cs_block.write_register_Some)

lemma cs_write_word_Some [option_simps]:
  "config_wf c \<Longrightarrow> off + 2 \<le> 256 \<Longrightarrow>
     cs_write_word c off v =
       Some (cs_store (patch_masked (cs_registers c) (cs_writable_bits c) off (to_le_bytes v)) c)"
  by (simp add: cs_access_defs cs_block.write_register_Some)

lemma cs_write_dword_Some [option_simps]:
  "config_wf c \<Longrightarrow> off + 4 \<le> 256 \<Longrightarrow>
     cs_write_dword c off v =
       Some (cs_store (patch_masked (cs_registers c) (cs_writable_bits c) off (to_le_bytes v)) c)"
  by (simp add: cs_access_defs cs_block.write_register_Some)

lemma set_writable_bits_Some [option_simps]:
  "config_wf c \<Longrightarrow> off + length bits \<le> 256 \<Longrightarrow>
     set_writable_bits c off bits = Some (c\<lparr>cs_writable_bits := patch (cs_writable_bits c) off bits\<rparr>)"
  by (simp add: set_writable_bits_def option_simps)

lemma add_writable_bits_Some [option_simps]:
  "config_wf c \<Longrightarrow> off + length bits \<le> 256 \<Longrightarrow>
     add_writable_bits c off bits =
       Some (c\<lparr>cs_writable_bits := or_patch (cs_writable_bits c) off bits\<rparr>)"
  by (simp add: add_writable_bits_def option_simps or_patch_def)

lemma config_wf_store [simp]: "config_wf c \<Longrightarrow> length r = 256 \<Longrightarrow> config_wf (cs_store r c)"
  by (simp add: config_wf_def del: config_wf_lengths)

lemma config_wf_writable [simp]:
  "config_wf c \<Longrightarrow> length w = 256 \<Longrightarrow> config_wf (c\<lparr>cs_writable_bits := w\<rparr>)"
  by (simp add: config_wf_def del: config_wf_lengths)

lemma config_wf_last_cap_size [simp]: "config_wf (c\<lparr>cs_last_cap_size := n\<rparr>) = config_wf c"
  by (simp add: config_wf_def del: config_wf_lengths)

lemma config_wf_bars [simp]: "config_wf c \<Longrightarrow> length bs = 6 \<Longrightarrow> config_wf (c\<lparr>cs_bars := bs\<rparr>)"
  by (simp add: config_wf_def del: config_wf_lengths)

lemma config_wf_new: "\<exists>c. config_new = Some c \<and> config_wf c"
  by (simp add: config_new_def cs_access_defs cs_block.set_register_Some config_wf_def del: config_wf_lengths)

section \<open>Guest access\<close>

text \<open>The accesses a driver may make: one, two or four bytes, naturally aligned, inside the space.\<close>

definition access_ok :: "nat \<Rightarrow> nat \<Rightarrow> bool" where
  "access_ok offset n \<longleftrightarrow> n \<in> {1, 2, 4} \<and> n dvd offset \<and> offset + n \<le> 256"

lemma cs_validate_access_Ok:
  assumes "config_wf c" and "access_ok offset (length data)"
  shows "cs_validate_access c offset data = Some (Inr ())"
  using assms
  by (auto simp: access_ok_def cs_validate_access_def validate_access_size_def
      validate_access_alignment_def validate_bounds_def mod_eq_0_iff_dvd)

lemma cs_validate_access_Err:
  assumes "config_wf c" and "\<not> access_ok offset (length data)" and "offset + length data < 2 ^ 64"
  shows "\<exists>e. cs_validate_access c offset data = Some (Inl e)"
  using assms
  by (auto simp: access_ok_def cs_validate_access_def validate_access_size_def
      validate_access_alignment_def validate_bounds_def mod_eq_0_iff_dvd)

lemma cs_write_checked_Ok [option_simps]:
  assumes "config_wf c" and "access_ok offset (length data)"
  shows "cs_write_checked c offset data =
     Some (Inr (), cs_store (patch_masked (cs_registers c) (cs_writable_bits c) offset data) c)"
proof -
  have "offset + length data \<le> 256" using assms(2) by (simp add: access_ok_def)
  then show ?thesis using assms
    by (simp add: cs_write_checked_def cs_validate_write_access_def cs_validate_access_Ok option_simps)
qed

lemma cs_write_checked_Err:
  assumes "config_wf c" and "\<not> access_ok offset (length data)" and "offset + length data < 2 ^ 64"
  shows "\<exists>e. cs_write_checked c offset data = Some (Inl e, c)"
  using cs_validate_access_Err [OF assms]
  by (auto simp: cs_write_checked_def cs_validate_write_access_def)

lemma cs_write_checked_wf:
  assumes "config_wf c" and "cs_write_checked c offset data = Some (r, c')"
  shows "config_wf c'"
proof -
  obtain v where "cs_validate_write_access c offset data = Some v"
    using assms(2) by (auto simp: cs_write_checked_def bind_eq_Some_conv)
  then show ?thesis using assms
    by (cases v)
      (auto simp: cs_write_checked_def rb_write_def slice_read_def slice_set_def bind_eq_Some_conv
        split: if_splits)
qed

text \<open>A configuration space with no capability and no BAR, used by the examples.\<close>

definition blank_config :: config_space where
  "blank_config =
     \<lparr>cs_registers = replicate 256 0, cs_writable_bits = replicate 256 0,
      cs_bars = replicate 6 None, cs_last_cap_size = 0\<rparr>"

lemma config_wf_blank [simp]: "config_wf blank_config"
  by (simp add: config_wf_def blank_config_def)

text \<open>
  C6: A guest write to the configuration space never panics at an offset that fits the address
  space. It succeeds exactly for an aligned access of 1, 2 or 4 bytes inside the 256 bytes, and then
  changes exactly the writable bits of its window to the written ones; a refused write changes
  nothing. Writable bits, BAR slots and the array sizes stay as they are.
\<close>

theorem guest_write_masked:
  assumes "config_wf c" and "offset + length data < 2 ^ 64"
  shows "\<exists>r c'. cs_write_checked c offset data = Some (r, c') \<and> config_wf c' \<and>
     (r = Inr () \<longleftrightarrow> access_ok offset (length data)) \<and>
     (\<not> access_ok offset (length data) \<longrightarrow> c' = c) \<and>
     cs_writable_bits c' = cs_writable_bits c \<and> cs_bars c' = cs_bars c \<and>
     cs_last_cap_size c' = cs_last_cap_size c \<and>
     (\<forall>k < 8 * 256. array_bit (cs_registers c') k =
        (if access_ok offset (length data) \<and> 8 * offset \<le> k \<and> k < 8 * (offset + length data) \<and>
            array_bit (cs_writable_bits c) k
         then array_bit data (k - 8 * offset) else array_bit (cs_registers c) k))"
proof (cases "access_ok offset (length data)")
  case True
  then have "offset + length data \<le> 256" by (simp add: access_ok_def)
  with True assms(1) show ?thesis by (auto simp: cs_write_checked_Ok array_bit_patch_masked)
next
  case False
  with assms obtain e where "cs_write_checked c offset data = Some (Inl e, c)"
    using cs_write_checked_Err by blast
  with False assms(1) show ?thesis by auto
qed

lemma guest_write_masked_witness:
  "\<exists>r c'. cs_write_checked (blank_config\<lparr>cs_writable_bits := replicate 256 0x0F\<rparr>) 4 [0xFF, 0x01] = Some (r, c') \<and>
     r = Inr () \<and> array_bit (cs_registers c') 35 \<and> \<not> array_bit (cs_registers c') 36"
proof -
  let ?c = "blank_config\<lparr>cs_writable_bits := replicate 256 0x0F\<rparr>"
  have wf: "config_wf ?c" by simp
  have ok: "access_ok 4 (length [0xFF :: u8, 0x01])"
    by (simp add: access_ok_def flip: numeral_2_eq_2)
  from guest_write_masked [OF wf, of 4 "[0xFF, 0x01]"] ok obtain r c' where
    res: "cs_write_checked ?c 4 [0xFF, 0x01] = Some (r, c')" "r = Inr ()"
    and bits: "\<forall>k < 8 * 256. array_bit (cs_registers c') k =
      (if 8 * 4 \<le> k \<and> k < 8 * (4 + length [0xFF :: u8, 0x01]) \<and> array_bit (cs_writable_bits ?c) k
       then array_bit [0xFF, 0x01] (k - 8 * 4) else array_bit (cs_registers ?c) k)"
    by auto
  have "array_bit (cs_registers c') 35" and "\<not> array_bit (cs_registers c') 36"
    using bits [rule_format, of 35] bits [rule_format, of 36]
    by (simp_all add: array_bit_def blank_config_def)
  with res show ?thesis by blast
qed

text \<open>
  C7: A guest read succeeds exactly for an aligned access of 1, 2 or 4 bytes inside the space and
  then returns the register bytes; past the end of the space it returns all ones with the error
  \<open>AccessBounds\<close>; any other refused read leaves the buffer as it was.
\<close>

theorem guest_read_result:
  assumes "config_wf c" and "offset + length data < 2 ^ 64"
  shows "cs_read_checked c offset data =
     (if access_ok offset (length data) then Some (Inr (), take (length data) (drop offset (cs_registers c)))
      else if length data \<notin> {1, 2, 4} then Some (Inl (InvalidIoSize (length data)), data)
      else if \<not> length data dvd offset
        then Some (Inl (InvalidAccessAlignment (of_nat offset) (of_nat (length data))), data)
      else Some (Inl (AccessBounds offset (length data)), replicate (length data) 0xFF))"
proof (cases "access_ok offset (length data)")
  case True
  then have "offset + length data \<le> 256" by (simp add: access_ok_def)
  with True assms show ?thesis
    by (simp add: cs_read_checked_def cs_validate_access_Ok cs_access_defs read_register_def rb_read_def
        option_simps)
next
  case False
  with assms show ?thesis
    by (auto simp: access_ok_def cs_read_checked_def cs_validate_access_def validate_access_size_def
        validate_access_alignment_def validate_bounds_def mod_eq_0_iff_dvd)
qed

lemma guest_read_result_witness:
  "cs_read_checked blank_config 300 [0x12, 0x34] = Some (Inl (AccessBounds 300 2), replicate 2 0xFF)"
  by (subst guest_read_result) (simp_all add: access_ok_def flip: numeral_2_eq_2)

end
