(* ===== verification/Config_Bars.thy ===== *)
theory Config_Bars
  imports Config_Space
begin

text \<open>
  The base address registers of the configuration space: which BARs \<open>add_bar\<close> accepts, how the
  slots are kept apart, the size probe, and the address \<open>get_bar\<close> decodes.
\<close>

section \<open>Powers of two and alignment\<close>

lemma power_of_two_bits:
  assumes "is_power_of_two (w :: 'a::len word)"
  obtains n where "n < LENGTH('a)" and "w = 2 ^ n"
proof -
  from assms obtain n where n: "filter (bit w) [0..<LENGTH('a)] = [n]"
    by (auto simp: is_power_of_two_def count_ones_def length_Suc_conv)
  have "{k. k < LENGTH('a) \<and> bit w k} = set (filter (bit w) [0..<LENGTH('a)])" by auto
  then have set: "{k. k < LENGTH('a) \<and> bit w k} = {n}" by (simp add: n)
  have "w = 2 ^ n"
  proof (rule bit_word_eqI)
    fix k assume k: "k < LENGTH('a)"
    then have "bit w k \<longleftrightarrow> k = n" using set by blast
    with k show "bit w k = bit (2 ^ n :: 'a word) k" by (auto simp: bit_simps)
  qed
  moreover have "n < LENGTH('a)" using set by blast
  ultimately show thesis using that by blast
qed

lemma unat_two_power: "n < LENGTH('a) \<Longrightarrow> unat (2 ^ n :: 'a::len word) = 2 ^ n"
  using unsigned_of_nat [of "2 ^ n", where 'a = nat and 'b = 'a]
  by (simp add: take_bit_nat_eq_self)

lemma ucast_two_power: "n < LENGTH('a) \<Longrightarrow> ucast (2 ^ n :: 'a::len word) = (2 ^ n :: 'b::len word)"
  by (rule bit_word_eqI) (auto simp: bit_simps)

lemma all_ones_u32 [simp]: "(0xFFFFFFFF :: u32) AND m = m"
proof -
  have "(0xFFFFFFFF :: u32) = - 1" by simp
  then show ?thesis by (simp only: and.left_neutral)
qed

lemma bit_size_mask:
  assumes "n < LENGTH('a)"
  shows "bit (NOT (2 ^ n - 1) :: 'a::len word) k \<longleftrightarrow> k < LENGTH('a) \<and> n \<le> k"
proof -
  have "(2 ^ n - 1 :: 'a word) = mask n" by (simp add: mask_eq_exp_minus_1)
  then show ?thesis by (auto simp: bit_simps)
qed

lemma aligned_low_bits:
  assumes "n < LENGTH('a)" and "(a :: 'a::len word) mod 2 ^ n = 0" and "k < n"
  shows "\<not> bit a k"
proof -
  have "take_bit n a = 0" using assms(2) by (simp add: take_bit_eq_mod)
  then have "bit (take_bit n a) k = False" by simp
  with assms(3) show ?thesis by (simp add: bit_take_bit_iff)
qed

section \<open>What add_bar does\<close>

text \<open>
  The offset of the register of slot \<open>i\<close>, and the writable bits of a BAR's register and of the upper
  half of a 64-bit one.
\<close>

definition bar_reg :: "nat \<Rightarrow> nat" where
  "bar_reg i = 0x10 + i * 4"

definition bar_lo_mask :: "PciBar \<Rightarrow> u32" where
  "bar_lo_mask bar = ucast (NOT (bar_size bar - 1)) AND snd (get_bar_masks bar)"

definition bar_hi_mask :: "PciBar \<Rightarrow> u32" where
  "bar_hi_mask bar = ucast (NOT (drop_bit 32 (bar_size bar - 1)))"

lemma validate_header_support_Ok:
  assumes "config_wf c" and "validate_header_support c index = Some (Inr u)"
  shows "into_inner index < 6"
  using assms
  by (auto simp: validate_header_support_def max_num_bars_def option_simps split: if_splits)

lemma bars_get_Some [option_simps]: "config_wf c \<Longrightarrow> i < 6 \<Longrightarrow> bars_get c i = Some (cs_bars c ! i)"
  by (simp add: bars_get_def)

text \<open>The effect of the match on the region type.\<close>

lemma add_bar_mask_Ok:
  assumes "config_wf c" and "i < 6" and "add_bar_mask c bar i a = Some (Inr m, c')"
  shows "m = snd (get_bar_masks bar)"
    and "\<not> is_memory64 (bar_region_type bar) \<Longrightarrow>
      c' = c\<lparr>cs_writable_bits := or_patch (cs_writable_bits c) 4 (to_le_bytes (fst (get_bar_masks bar)))\<rparr>"
    and "is_memory64 (bar_region_type bar) \<Longrightarrow> i + 1 < 6 \<and> cs_bars c ! (i + 1) = None \<and>
      c' = c\<lparr>cs_writable_bits :=
               or_patch (patch (cs_writable_bits c) (bar_reg (i + 1))
                   (to_le_bytes (bar_hi_mask bar)))
                 4 (to_le_bytes (fst (get_bar_masks bar))),
             cs_registers := patch (cs_registers c) (bar_reg (i + 1)) (to_le_bytes (ucast (drop_bit 32 a) :: u32))\<rparr>"
  using assms
  by (auto simp: add_bar_mask_def add_writable_word_def set_writable_dword_def get_bar_masks_def Let_def
      bar_reg_def bar_hi_mask_def option_simps bars_get_def split: PciBarType.splits option.splits if_splits)

text \<open>A successful \<open>add_bar\<close>, decomposed.\<close>

lemma add_bar_OkE:
  assumes "config_wf c" and "add_bar c bar = Some (Inr (), c')"
  obtains i c1 where "i = into_inner (bar_index bar)" and "i < 6" and "validate_bar_region bar = Inr ()"
    and "validate_bar_size bar = Inr ()"
    and "cs_bars c ! i = None" and "prev_bar_is_64bit c i = Some False"
    and "add_bar_mask c bar i (case bar_address bar of None \<Rightarrow> 0 | Some a \<Rightarrow> a) =
           Some (Inr (snd (get_bar_masks bar)), c1)" and "config_wf c1"
    and "c' = c1\<lparr>cs_writable_bits := patch (cs_writable_bits c1) (bar_reg i)
                   (to_le_bytes (bar_lo_mask bar)),
                 cs_registers := patch (cs_registers c1) (bar_reg i)
                   (to_le_bytes ((ucast (case bar_address bar of None \<Rightarrow> 0 | Some a \<Rightarrow> a) AND snd (get_bar_masks bar))
                      OR bar_type_bits (bar_region_type bar))),
                 cs_bars := (cs_bars c1)[i := Some bar]\<rparr>"
proof -
  let ?i = "into_inner (bar_index bar)"
  let ?a = "case bar_address bar of None \<Rightarrow> 0 | Some a \<Rightarrow> a"
  obtain u where hdr: "validate_header_support c (bar_index bar) = Some (Inr u)"
    using assms(2) by (auto simp: add_bar_def elim!: bind_result_SomeE)
  with assms(1) have i: "?i < 6" by (rule validate_header_support_Ok)
  from assms(2) hdr i have sz: "validate_bar_size bar = Inr ()" "validate_bar_region bar = Inr ()"
    by (auto simp: add_bar_def elim!: bind_result_SomeE)
  have slot: "cs_bars c ! ?i = None" and prev: "prev_bar_is_64bit c ?i = Some False"
    and rest: "bind_result (add_bar_mask c bar ?i ?a) (\<lambda>bar_mask c. do {
              c \<leftarrow> set_writable_dword c (bar_reg ?i) (ucast (NOT (bar_size bar - 1)) AND bar_mask);
              c \<leftarrow> cs_set_dword c (bar_reg ?i)
                    ((ucast ?a AND bar_mask) OR bar_type_bits (bar_region_type bar));
              Some (Inr (), c\<lparr>cs_bars := (cs_bars c)[?i := Some bar]\<rparr>)
            }) = Some (Inr (), c')"
    using assms hdr sz i
    by (auto simp: add_bar_def Let_def option_simps bind_eq_Some_conv bar_reg_def split: option.splits if_splits)
  from rest obtain m c1 where mask: "add_bar_mask c bar ?i ?a = Some (Inr m, c1)"
    by (auto elim!: bind_result_SomeE)
  note eff = add_bar_mask_Ok [OF assms(1) i mask]
  have wf1: "config_wf c1"
    using eff(2,3) assms(1) by (cases "is_memory64 (bar_region_type bar)") (auto simp: bar_reg_def)
  from rest mask eff(1) wf1 i
  have "c' = c1\<lparr>cs_writable_bits := patch (cs_writable_bits c1) (bar_reg ?i)
                   (to_le_bytes (bar_lo_mask bar)),
                 cs_registers := patch (cs_registers c1) (bar_reg ?i)
                   (to_le_bytes ((ucast ?a AND snd (get_bar_masks bar)) OR bar_type_bits (bar_region_type bar))),
                 cs_bars := (cs_bars c1)[?i := Some bar]\<rparr>"
    by (auto simp: set_writable_dword_def option_simps bar_reg_def bar_lo_mask_def)
  with i sz slot prev mask eff(1) wf1 show thesis using that by blast
qed

lemma validate_bar_size_OkE:
  assumes "validate_bar_size bar = Inr ()"
  obtains n where "n < 64" and "bar_size bar = 2 ^ n" and "4 \<le> n"
    and "bar_region_type bar \<noteq> Io \<Longrightarrow> 7 \<le> n"
    and "\<not> is_memory64 (bar_region_type bar) \<Longrightarrow> n < 32"
proof -
  have "is_power_of_two (bar_size bar)"
    using assms by (auto simp: validate_bar_size_def split: if_splits)
  then obtain n where n: "n < 64" "bar_size bar = 2 ^ n"
    using power_of_two_bits [of "bar_size bar"] by auto
  have val: "unat (bar_size bar) = 2 ^ n" using n by (simp add: unat_two_power)
  have "unat (bar_size bar) \<ge> (case bar_region_type bar of Io \<Rightarrow> 16 | _ \<Rightarrow> 128)"
    and "unat (bar_size bar) \<le> (case bar_region_type bar of
           Io \<Rightarrow> 256 | Memory32Bit _ \<Rightarrow> 0x80000000 | Memory64Bit _ \<Rightarrow> 0x4000000000)"
    using assms
    by (auto simp: validate_bar_size_def Let_def word_less_nat_alt split: if_splits PciBarType.splits)
  then have lo: "bar_region_type bar = Io \<Longrightarrow> (2::nat) ^ 4 \<le> 2 ^ n"
      "bar_region_type bar \<noteq> Io \<Longrightarrow> (2::nat) ^ 7 \<le> 2 ^ n"
    and hi: "\<not> is_memory64 (bar_region_type bar) \<Longrightarrow> (2::nat) ^ n \<le> 2 ^ 31"
    unfolding val by (auto split: PciBarType.splits)
  have mem: "7 \<le> n" if "bar_region_type bar \<noteq> Io"
    using lo(2) [OF that] by (subst (asm) power_increasing_iff) simp_all
  have "4 \<le> n"
  proof (cases "bar_region_type bar = Io")
    case True
    from lo(1) [OF this] show ?thesis by (subst (asm) power_increasing_iff) simp_all
  qed (use mem in simp)
  moreover have "n < 32" if "\<not> is_memory64 (bar_region_type bar)"
    using hi [OF that] by (subst (asm) power_increasing_iff) simp_all
  ultimately show thesis using n mem that by blast
qed

text \<open>The state after a successful \<open>add_bar\<close>, as the registers read it.\<close>

lemma add_bar_effect:
  assumes "config_wf c" and "add_bar c bar = Some (Inr (), c')" and "i = into_inner (bar_index bar)"
  defines "a \<equiv> case bar_address bar of None \<Rightarrow> 0 | Some a \<Rightarrow> a"
  shows "i < 6" and "config_wf c'" and "cs_bars c' = (cs_bars c)[i := Some bar]"
    and "cs_last_cap_size c' = cs_last_cap_size c"
    and "dword_at (cs_registers c') (bar_reg i) =
      (ucast a AND snd (get_bar_masks bar)) OR bar_type_bits (bar_region_type bar)"
    and "dword_at (cs_writable_bits c') (bar_reg i) = bar_lo_mask bar"
    and "word_at (cs_writable_bits c') 4 = word_at (cs_writable_bits c) 4 OR fst (get_bar_masks bar)"
    and "word_at (cs_registers c') 4 = word_at (cs_registers c) 4"
    and "is_memory64 (bar_region_type bar) \<Longrightarrow> i + 1 < 6 \<and> cs_bars c ! (i + 1) = None \<and>
      dword_at (cs_registers c') (bar_reg (i + 1)) = ucast (drop_bit 32 a) \<and>
      dword_at (cs_writable_bits c') (bar_reg (i + 1)) = bar_hi_mask bar"
    and "j < 6 \<Longrightarrow> j \<noteq> i \<Longrightarrow> is_memory64 (bar_region_type bar) \<longrightarrow> j \<noteq> i + 1 \<Longrightarrow>
      dword_at (cs_registers c') (bar_reg j) = dword_at (cs_registers c) (bar_reg j) \<and>
      dword_at (cs_writable_bits c') (bar_reg j) = dword_at (cs_writable_bits c) (bar_reg j)"
    and "k < 256 \<Longrightarrow> k < 0x10 \<or> 0x28 \<le> k \<Longrightarrow> cs_registers c' ! k = cs_registers c ! k"
    and "k < 256 \<Longrightarrow> k < 4 \<or> 6 \<le> k \<and> k < 0x10 \<or> 0x28 \<le> k \<Longrightarrow>
      cs_writable_bits c' ! k = cs_writable_bits c ! k"
proof -
  obtain q c1 where "q = into_inner (bar_index bar)" and "q < 6" and "validate_bar_region bar = Inr ()"
    and "validate_bar_size bar = Inr ()"
    and "cs_bars c ! q = None" and "prev_bar_is_64bit c q = Some False"
    and mask_j: "add_bar_mask c bar q a = Some (Inr (snd (get_bar_masks bar)), c1)" and wf1: "config_wf c1"
    and c'_j: "c' = c1\<lparr>cs_writable_bits := patch (cs_writable_bits c1) (bar_reg q)
                   (to_le_bytes (bar_lo_mask bar)),
                 cs_registers := patch (cs_registers c1) (bar_reg q)
                   (to_le_bytes ((ucast a AND snd (get_bar_masks bar)) OR bar_type_bits (bar_region_type bar))),
                 cs_bars := (cs_bars c1)[q := Some bar]\<rparr>"
    unfolding a_def by (rule add_bar_OkE [OF assms(1,2)])
  then have i: "i < 6" and ji: "q = i" using assms(3) by simp_all
  note mask = mask_j [unfolded ji] and c' = c'_j [unfolded ji]
  note eff = add_bar_mask_Ok [OF assms(1) i mask]
  show "i < 6" by (rule i)
  show "config_wf c'" using wf1 i by (simp add: c' bar_reg_def)
  show "cs_bars c' = (cs_bars c)[i := Some bar]" "cs_last_cap_size c' = cs_last_cap_size c"
    using eff(2,3) by (cases "is_memory64 (bar_region_type bar)"; simp add: c' bar_reg_def)+
  show "dword_at (cs_registers c') (bar_reg i) =
      (ucast a AND snd (get_bar_masks bar)) OR bar_type_bits (bar_region_type bar)"
    "dword_at (cs_writable_bits c') (bar_reg i) = bar_lo_mask bar"
    using wf1 i by (simp_all add: c' bar_reg_def)
  show "word_at (cs_writable_bits c') 4 = word_at (cs_writable_bits c) 4 OR fst (get_bar_masks bar)"
    "word_at (cs_registers c') 4 = word_at (cs_registers c) 4"
    using eff(2,3) assms(1) i by (cases "is_memory64 (bar_region_type bar)"; simp add: c' bar_reg_def)+
  show "i + 1 < 6 \<and> cs_bars c ! (i + 1) = None \<and>
      dword_at (cs_registers c') (bar_reg (i + 1)) = ucast (drop_bit 32 a) \<and>
      dword_at (cs_writable_bits c') (bar_reg (i + 1)) = bar_hi_mask bar"
    if "is_memory64 (bar_region_type bar)"
    using eff(3) [OF that] assms(1) i by (simp add: c' bar_reg_def)
  show "dword_at (cs_registers c') (bar_reg j) = dword_at (cs_registers c) (bar_reg j) \<and>
      dword_at (cs_writable_bits c') (bar_reg j) = dword_at (cs_writable_bits c) (bar_reg j)"
    if "j < 6" "j \<noteq> i" "is_memory64 (bar_region_type bar) \<longrightarrow> j \<noteq> i + 1"
  proof -
    have "j < i \<or> i < j" using that by auto
    moreover have "is_memory64 (bar_region_type bar) \<Longrightarrow> j < i + 1 \<or> i + 1 < j" using that by auto
    ultimately show ?thesis using eff(2,3) assms(1) i that(1)
      by (cases "is_memory64 (bar_region_type bar)") (auto simp: c' bar_reg_def)
  qed
  show "cs_registers c' ! k = cs_registers c ! k" if "k < 256" "k < 0x10 \<or> 0x28 \<le> k"
    using eff(2,3) assms(1) i that
    by (cases "is_memory64 (bar_region_type bar)") (auto simp: c' nth_patch bar_reg_def)
  show "cs_writable_bits c' ! k = cs_writable_bits c ! k"
    if "k < 256" "k < 4 \<or> 6 \<le> k \<and> k < 0x10 \<or> 0x28 \<le> k"
    using eff(2,3) assms(1) i that
    by (cases "is_memory64 (bar_region_type bar)") (auto simp: c' nth_patch nth_or_patch_other bar_reg_def)
qed

section \<open>The invariant of the BAR slots\<close>

text \<open>
  What holds of a slot with a BAR at all times: its register's writable bits are the address bits
  above the size, the other bits are the BAR's type bits (for the upper half of a 64-bit BAR: zero),
  its space bit in the command register is writable, and a 64-bit BAR has the next slot to itself.
\<close>

definition fixed_bits :: "config_space \<Rightarrow> nat \<Rightarrow> u32" where
  "fixed_bits c r = dword_at (cs_registers c) r AND NOT (dword_at (cs_writable_bits c) r)"

definition bar_slot_inv :: "config_space \<Rightarrow> nat \<Rightarrow> PciBar \<Rightarrow> bool" where
  "bar_slot_inv c i bar \<longleftrightarrow>
     into_inner (bar_index bar) = i \<and> validate_bar_size bar = Inr () \<and>
     fst (get_bar_masks bar) AND NOT (word_at (cs_writable_bits c) 4) = 0 \<and>
     dword_at (cs_writable_bits c) (bar_reg i) = bar_lo_mask bar \<and>
     fixed_bits c (bar_reg i) =
       bar_type_bits (bar_region_type bar) \<and>
     (is_memory64 (bar_region_type bar) \<longrightarrow>
        i + 1 < 6 \<and> cs_bars c ! (i + 1) = None \<and>
        dword_at (cs_writable_bits c) (bar_reg (i + 1)) = bar_hi_mask bar \<and>
        fixed_bits c (bar_reg (i + 1)) = 0)"

definition bars_inv :: "config_space \<Rightarrow> bool" where
  "bars_inv c \<longleftrightarrow>
     config_wf c \<and> (\<forall>i < 6. case cs_bars c ! i of None \<Rightarrow> True | Some bar \<Rightarrow> bar_slot_inv c i bar)"

lemma bars_invD:
  assumes "bars_inv c" and "i < 6" and "cs_bars c ! i = Some bar"
  shows "bar_slot_inv c i bar"
  using assms by (auto simp: bars_inv_def split: option.splits)

lemma bars_invI:
  assumes "config_wf c" and "\<And>i bar. i < 6 \<Longrightarrow> cs_bars c ! i = Some bar \<Longrightarrow> bar_slot_inv c i bar"
  shows "bars_inv c"
  using assms by (auto simp: bars_inv_def split: option.splits)

lemma bars_inv_wf [simp]: "bars_inv c \<Longrightarrow> config_wf c"
  by (simp add: bars_inv_def)

text \<open>The address bits of a BAR register, for a size of \<open>2 ^ n\<close> bytes.\<close>

lemma bit_bar_mask:
  assumes "validate_bar_size bar = Inr ()"
  obtains n where "n < 64" and "bar_size bar = 2 ^ n"
    and "\<And>k. bit (bar_lo_mask bar) k \<longleftrightarrow> k < 32 \<and> n \<le> k"
    and "\<not> is_memory64 (bar_region_type bar) \<Longrightarrow> n < 32" and "4 \<le> n"
proof -
  from assms obtain n where n: "n < 64" "bar_size bar = 2 ^ n" "4 \<le> n"
    and n32: "\<not> is_memory64 (bar_region_type bar) \<Longrightarrow> n < 32"
    by (rule validate_bar_size_OkE) blast
  have m: "snd (get_bar_masks bar) \<in> {NOT (mask 2), NOT (mask 4)}"
    by (auto simp: get_bar_masks_def mask_eq_exp_minus_1 split: PciBarType.splits)
  have "bit (bar_lo_mask bar) k \<longleftrightarrow> k < 32 \<and> n \<le> k" for k
    using m n by (auto simp: bar_lo_mask_def bit_simps simp flip: mask_eq_exp_minus_1)
  with n n32 show thesis using that by blast
qed

lemma bar_type_bits_low: "bit (bar_type_bits t) k \<Longrightarrow> k < (if t = Io then 2 else 4)"
proof (rule ccontr)
  let ?m = "mask (if t = Io then 2 else 4) :: u32"
  assume b: "bit (bar_type_bits t) k" and k: "\<not> k < (if t = Io then 2 else 4)"
  have "bar_type_bits t AND NOT ?m = 0"
    by (cases t; cases "case t of Io \<Rightarrow> NotPrefetchable | Memory32Bit p \<Rightarrow> p | Memory64Bit p \<Rightarrow> p")
      (simp_all add: prefetchable_u32_def mask_eq_exp_minus_1)
  then have "\<not> bit (bar_type_bits t AND NOT ?m) k" by simp
  with b k bit_imp_le_length [OF b] show False by (simp add: bit_simps split: if_splits)
qed

lemma and_not_and_not [simp]: "m AND NOT w AND NOT m = (0 :: 'a::len word)"
  by (rule bit_word_eqI) (auto simp: bit_simps)

lemma sub_mask_trans:
  assumes "m AND NOT w = 0" and "w AND NOT v = (0 :: 'a::len word)"
  shows "m AND NOT v = 0"
proof (rule bit_word_eqI)
  fix k assume k: "k < LENGTH('a)"
  have "\<not> bit (m AND NOT w) k" and "\<not> bit (w AND NOT v) k" using assms by simp_all
  then show "bit (m AND NOT v) k = bit (0 :: 'a word) k" using k by (auto simp: bit_and_iff bit_not_iff)
qed

lemma sub_mask_or: "m AND NOT w = 0 \<Longrightarrow> m AND NOT (w OR v) = (0 :: 'a::len word)"
  by (erule sub_mask_trans) (rule bit_word_eqI, simp add: bit_simps)

text \<open>The invariant of a slot depends on these parts of the state only.\<close>

lemma bar_slot_inv_frame:
  assumes inv: "bar_slot_inv c i bar"
    and "fst (get_bar_masks bar) AND NOT (word_at (cs_writable_bits c') 4) = 0"
    and "dword_at (cs_writable_bits c') (bar_reg i) = dword_at (cs_writable_bits c) (bar_reg i)"
    and "fixed_bits c' (bar_reg i) = fixed_bits c (bar_reg i)"
    and upper: "is_memory64 (bar_region_type bar) \<Longrightarrow> i + 1 < 6 \<Longrightarrow>
      cs_bars c' ! (i + 1) = cs_bars c ! (i + 1) \<and>
      dword_at (cs_writable_bits c') (bar_reg (i + 1)) = dword_at (cs_writable_bits c) (bar_reg (i + 1)) \<and>
      fixed_bits c' (bar_reg (i + 1)) = fixed_bits c (bar_reg (i + 1))"
  shows "bar_slot_inv c' i bar"
  unfolding bar_slot_inv_def
proof (intro conjI impI)
  note parts = inv [unfolded bar_slot_inv_def]
  show "into_inner (bar_index bar) = i" "validate_bar_size bar = Inr ()" using parts by blast+
  show "fst (get_bar_masks bar) AND NOT (word_at (cs_writable_bits c') 4) = 0" by fact
  show "dword_at (cs_writable_bits c') (bar_reg i) = bar_lo_mask bar"
    unfolding assms(3) using parts by blast
  show "fixed_bits c' (bar_reg i) =
      bar_type_bits (bar_region_type bar)"
    unfolding assms(4) using parts by blast
  assume m: "is_memory64 (bar_region_type bar)"
  show i: "i + 1 < 6" using parts m by blast
  show "cs_bars c' ! (i + 1) = None" "dword_at (cs_writable_bits c') (bar_reg (i + 1)) = bar_hi_mask bar"
    "fixed_bits c' (bar_reg (i + 1)) = 0"
    using parts m by (simp_all only: upper [OF m i] simp_thms)
qed

lemma bars_inv_no_bars: "config_wf c \<Longrightarrow> (\<And>i. i < 6 \<Longrightarrow> cs_bars c ! i = None) \<Longrightarrow> bars_inv c"
  by (simp add: bars_inv_def)

text \<open>Operations that leave the BAR registers, the slots and the writable command bits alone.\<close>

lemma bars_inv_frame:
  assumes "bars_inv c" and "config_wf c'" and "cs_bars c' = cs_bars c"
    and "\<And>i. i < 6 \<Longrightarrow> dword_at (cs_writable_bits c') (bar_reg i) = dword_at (cs_writable_bits c) (bar_reg i)"
    and fixed: "\<And>i. i < 6 \<Longrightarrow> fixed_bits c' (bar_reg i) = fixed_bits c (bar_reg i)"
    and "word_at (cs_writable_bits c) 4 AND NOT (word_at (cs_writable_bits c') 4) = 0"
  shows "bars_inv c'"
proof -
  have "bar_slot_inv c' i bar" if i: "i < 6" "cs_bars c ! i = Some bar" for i bar
  proof -
    have inv: "bar_slot_inv c i bar" using assms(1) i by (rule bars_invD)
    have mask: "fst (get_bar_masks bar) AND NOT (word_at (cs_writable_bits c') 4) = 0"
      by (rule sub_mask_trans [OF _ assms(6)]) (use inv in \<open>simp add: bar_slot_inv_def\<close>)
    show ?thesis by (rule bar_slot_inv_frame [OF inv mask assms(4) [OF i(1)] fixed [OF i(1)]])
        (simp only: assms(3,4) fixed simp_thms)
  qed
  with assms(2,3) show ?thesis by (intro bars_invI) simp_all
qed

lemma dword_at_patch_masked_fixed:
  assumes "off + length data \<le> length arr" and "length bits = length arr" and "r + 4 \<le> length arr"
  shows "dword_at (patch_masked arr bits off data) r AND NOT (dword_at bits r) =
     dword_at arr r AND NOT (dword_at bits r)"
  by (rule bit_word_eqI) (use assms in \<open>auto simp: bit_views bit_and_iff bit_not_iff\<close>)

lemma bars_inv_guest_write:
  assumes "bars_inv c" and "cs_write_checked c offset data = Some (r, c')"
  shows "bars_inv c'"
proof (cases "access_ok offset (length data)")
  case True
  then have "offset + length data \<le> 256" by (simp add: access_ok_def)
  with True assms show ?thesis
    by (intro bars_inv_frame [OF assms(1)]) (auto simp: cs_write_checked_Ok fixed_bits_def dword_at_patch_masked_fixed bar_reg_def)
next
  case False
  have "offset + length data < 2 ^ 64 \<or> length data \<notin> {1, 2, 4} \<or> \<not> length data dvd offset"
    using assms(2) by (auto simp: cs_write_checked_def cs_validate_write_access_def cs_validate_access_def
        validate_access_size_def validate_access_alignment_def validate_bounds_def mod_eq_0_iff_dvd)
  then have "\<exists>e. cs_validate_access c offset data = Some (Inl e)"
    using False assms(1)
    by (auto simp: access_ok_def cs_validate_access_def validate_access_size_def
        validate_access_alignment_def validate_bounds_def mod_eq_0_iff_dvd)
  then show ?thesis using assms by (auto simp: cs_write_checked_def cs_validate_write_access_def)
qed

lemma bar_fixed_bits:
  assumes "validate_bar_region bar = Inr ()"
  defines "a \<equiv> case bar_address bar of None \<Rightarrow> 0 | Some a \<Rightarrow> a"
  shows "((ucast a AND snd (get_bar_masks bar)) OR bar_type_bits (bar_region_type bar)) AND
       NOT (bar_lo_mask bar) = bar_type_bits (bar_region_type bar)"
    and "ucast (drop_bit 32 a) AND NOT (bar_hi_mask bar) = 0"
proof -
  have sz: "validate_bar_size bar = Inr ()"
    using assms(1) by (auto simp: validate_bar_region_def elim!: try_result_InrE)
  then obtain n where n: "n < 64" "bar_size bar = 2 ^ n" "4 \<le> n"
    and M: "\<And>k. bit (bar_lo_mask bar) k \<longleftrightarrow> k < 32 \<and> n \<le> k"
    by (rule bit_bar_mask) blast
  have "a mod 2 ^ n = 0"
    using assms(1) sz n
    by (auto simp: validate_bar_region_def a_def Let_def split: option.splits if_splits)
  then have low: "\<not> bit a k" if "k < n" for k
    using that n(1) by (intro aligned_low_bits) simp_all
  show "((ucast a AND snd (get_bar_masks bar)) OR bar_type_bits (bar_region_type bar)) AND
       NOT (bar_lo_mask bar) = bar_type_bits (bar_region_type bar)"
    (is "_ AND NOT ?M = _")
  proof (rule bit_word_eqI)
    fix k assume k: "k < LENGTH(32)"
    have "bit (NOT ?M) k \<longleftrightarrow> k < n" using k M [of k] by (auto simp: bit_not_iff)
    then show "bit (((ucast a AND snd (get_bar_masks bar)) OR bar_type_bits (bar_region_type bar)) AND NOT ?M) k =
        bit (bar_type_bits (bar_region_type bar)) k"
      using k low n(3) bar_type_bits_low [of "bar_region_type bar" k]
      by (auto simp: bit_and_iff bit_or_iff bit_ucast_iff split: if_splits)
  qed
  show "ucast (drop_bit 32 a) AND NOT (bar_hi_mask bar) = 0"
    by (rule bit_word_eqI)
      (use low n in \<open>auto simp: bar_hi_mask_def bit_simps simp flip: mask_eq_exp_minus_1\<close>)
qed

lemma bars_inv_add_bar:
  assumes inv: "bars_inv c" and ok: "add_bar c bar = Some (Inr (), c')"
  shows "bars_inv c'"
proof -
  let ?i = "into_inner (bar_index bar)"
  have wf: "config_wf c" using inv by simp
  note eff = add_bar_effect [OF wf ok refl]
  from add_bar_OkE [OF wf ok] have
    val: "validate_bar_region bar = Inr ()" "validate_bar_size bar = Inr ()"
    and prev: "prev_bar_is_64bit c ?i = Some False" by blast+
  have new: "bar_slot_inv c' ?i bar"
    using eff(1,3,5-7,9) bar_fixed_bits [OF val(1)] val(2) wf
    by (auto simp: bar_slot_inv_def fixed_bits_def)
  have old: "bar_slot_inv c' j b" if j: "j < 6" "j \<noteq> ?i" "cs_bars c ! j = Some b" for j b
  proof -
    have slot: "bar_slot_inv c j b" using inv j(1,3) by (rule bars_invD)
    have upper: "j + 1 \<noteq> ?i" if "is_memory64 (bar_region_type b)"
    proof
      assume eq: "j + 1 = ?i"
      then have "prev_bar_is_64bit c ?i = Some True"
        using that j eff(1) wf by (auto simp: prev_bar_is_64bit_def option_simps simp flip: eq)
      with prev show False by simp
    qed
    have j1: "is_memory64 (bar_region_type bar) \<longrightarrow> j \<noteq> ?i + 1" using eff(9) j(3) by auto
    have same: "dword_at (cs_registers c') (bar_reg j) = dword_at (cs_registers c) (bar_reg j) \<and>
      dword_at (cs_writable_bits c') (bar_reg j) = dword_at (cs_writable_bits c) (bar_reg j)"
      using eff(10) [OF j(1,2) j1] .
    have same1: "dword_at (cs_registers c') (bar_reg (j + 1)) = dword_at (cs_registers c) (bar_reg (j + 1)) \<and>
      dword_at (cs_writable_bits c') (bar_reg (j + 1)) = dword_at (cs_writable_bits c) (bar_reg (j + 1)) \<and>
      cs_bars c' ! (j + 1) = cs_bars c ! (j + 1)"
      if "is_memory64 (bar_region_type b)" "j + 1 < 6"
      using eff(10) [of "j + 1"] eff(3) upper [OF that(1)] that(2) j(2) by auto
    have "fst (get_bar_masks b) AND NOT (word_at (cs_writable_bits c') 4) = 0"
      unfolding eff(7) using slot by (intro sub_mask_or) (simp add: bar_slot_inv_def)
    then show ?thesis by (rule bar_slot_inv_frame [OF slot]) (simp_all only: same same1 fixed_bits_def simp_thms)
  qed
  show ?thesis
  proof (rule bars_invI)
    fix j b assume "j < 6" "cs_bars c' ! j = Some b"
    then show "bar_slot_inv c' j b"
      using eff(1,3) new old wf by (cases "j = ?i") simp_all
  qed (rule eff(2))
qed

section \<open>Programming and probing a BAR\<close>

text \<open>
  The address a driver has programmed into the register(s) of \<open>bar\<close> at slot \<open>i\<close>: the bits above the
  size of the region, of 32 or of 64 bits.
\<close>

definition programmed_address :: "config_space \<Rightarrow> nat \<Rightarrow> PciBar \<Rightarrow> u64" where
  "programmed_address c i bar = NOT (bar_size bar - 1) AND
     (ucast (dword_at (cs_registers c) (bar_reg i)) OR
      (if is_memory64 (bar_region_type bar)
       then push_bit 32 (ucast (dword_at (cs_registers c) (bar_reg (i + 1)))) else 0))"

lemma fixed_bits_low:
  assumes "bar_slot_inv c i bar" and "bar_size bar = 2 ^ n"
    and "\<And>k. bit (bar_lo_mask bar) k \<longleftrightarrow> k < 32 \<and> n \<le> k"
    and "(if bar_region_type bar = Io then 2 else 4) \<le> k" and "k < n" and "k < 32"
  shows "\<not> bit (dword_at (cs_registers c) (bar_reg i)) k"
proof
  assume b: "bit (dword_at (cs_registers c) (bar_reg i)) k"
  have "bit (fixed_bits c (bar_reg i)) k"
    unfolding fixed_bits_def using assms b by (simp add: bit_and_iff bit_not_iff bar_slot_inv_def)
  then have "bit (bar_type_bits (bar_region_type bar)) k" using assms(1) by (simp add: bar_slot_inv_def)
  with assms(4) bar_type_bits_low [of "bar_region_type bar" k] show False by simp
qed

lemma upper_bits_low:
  assumes "bar_slot_inv c i bar" and "bar_size bar = 2 ^ n" and "is_memory64 (bar_region_type bar)"
    and "k < 32" and "k + 32 < n" and "n < 64"
  shows "\<not> bit (dword_at (cs_registers c) (bar_reg (i + 1))) k"
proof
  assume b: "bit (dword_at (cs_registers c) (bar_reg (i + 1))) k"
  have "\<not> bit (bar_hi_mask bar) k"
    using assms by (auto simp: bar_hi_mask_def bit_simps simp flip: mask_eq_exp_minus_1)
  with b have "bit (fixed_bits c (bar_reg (i + 1))) k"
    unfolding fixed_bits_def using assms by (simp add: bit_and_iff bit_not_iff bar_slot_inv_def)
  then show False using assms(1,3) by (simp add: bar_slot_inv_def)
qed

lemma bit_masks_bar: "bit (snd (get_bar_masks bar)) k \<longleftrightarrow>
    k < 32 \<and> (if bar_region_type bar = Io then 2 else 4) \<le> k"
proof -
  have "snd (get_bar_masks bar) = NOT (mask (if bar_region_type bar = Io then 2 else 4))"
    by (auto simp: get_bar_masks_def mask_eq_exp_minus_1 split: PciBarType.splits)
  then show ?thesis by (auto simp: bit_simps)
qed

lemma register_address:
  assumes inv: "bar_slot_inv c i bar"
  shows "ucast (dword_at (cs_registers c) (bar_reg i) AND snd (get_bar_masks bar)) OR
      (if is_memory64 (bar_region_type bar)
       then push_bit 32 (ucast (dword_at (cs_registers c) (bar_reg (i + 1)))) else 0) =
    programmed_address c i bar" (is "?l = _")
proof -
  have "validate_bar_size bar = Inr ()" using inv by (simp add: bar_slot_inv_def)
  then obtain n where n: "n < 64" "bar_size bar = 2 ^ n" "4 \<le> n"
    and M: "\<And>k. bit (bar_lo_mask bar) k \<longleftrightarrow> k < 32 \<and> n \<le> k"
    and n32: "\<not> is_memory64 (bar_region_type bar) \<Longrightarrow> n < 32"
    by (rule bit_bar_mask) blast
  show ?thesis
  proof (rule bit_word_eqI)
    fix k assume k: "k < LENGTH(64)"
    have lo: "bit (dword_at (cs_registers c) (bar_reg i)) k \<Longrightarrow> k < 32 \<Longrightarrow>
        n \<le> k \<or> k < (if bar_region_type bar = Io then 2 else 4)"
      using fixed_bits_low [OF inv n(2) M, of k] by (meson not_le)
    have hi: "is_memory64 (bar_region_type bar) \<Longrightarrow> 32 \<le> k \<Longrightarrow>
        bit (dword_at (cs_registers c) (bar_reg (i + 1))) (k - 32) \<Longrightarrow> n \<le> k"
      using upper_bits_low [OF inv n(2), of "k - 32"] n(1) k by (cases "k < n") auto
    have mask: "bit (NOT (bar_size bar - 1)) k \<longleftrightarrow> n \<le> k"
      using bit_size_mask [of n k, where 'a = 64] n k by simp
    have len: "bit (dword_at (cs_registers c) (bar_reg i)) k \<Longrightarrow> k < 32"
      by (drule bit_imp_le_length) simp
    show "bit ?l k = bit (programmed_address c i bar) k"
      unfolding programmed_address_def bit_and_iff mask
      using k n lo hi n32 len
      by (auto simp: bit_or_iff bit_and_iff bit_ucast_iff bit_push_bit_iff bit_masks_bar split: if_splits)
  qed
qed

text \<open>\<open>get_bar\<close> on a slot that holds a BAR.\<close>

lemma get_bar_eq:
  assumes "bars_inv c" and i: "i < 6" and bar: "cs_bars c ! i = Some bar"
  shows "get_bar c (bar_index bar) = Some
    (if word_at (cs_registers c) 4 AND fst (get_bar_masks bar) = 0 \<or> programmed_address c i bar = 0 \<or>
        programmed_address c i bar = NOT (bar_size bar - 1) AND ucast (snd (get_bar_masks bar))
     then None else Some (bar_set_address bar (Some (programmed_address c i bar))))"
proof -
  have inv: "bar_slot_inv c i bar" using assms by (rule bars_invD)
  have idx: "into_inner (bar_index bar) = i" using inv by (simp add: bar_slot_inv_def)
  show ?thesis
    using assms(1) i bar register_address [OF inv] inv
    by (cases "is_memory64 (bar_region_type bar)")
      (auto simp: get_bar_def idx option_simps bar_reg_def Let_def bar_slot_inv_def split: prod.splits)
qed

lemma probe_constant: "NOT (bar_size bar - 1) AND ucast (snd (get_bar_masks bar)) = (ucast (bar_lo_mask bar) :: u64)"
  by (rule bit_word_eqI) (auto simp: bar_lo_mask_def bit_simps dest: bit_imp_le_length)

lemma access_ok_bar_reg [simp]: "access_ok (bar_reg i) 4 \<longleftrightarrow> i < 60"
  by (auto simp: access_ok_def bar_reg_def)

text \<open>A driver writes the 32-bit register \<open>j\<close> of the BAR area.\<close>

lemma write_bar_reg:
  assumes "bars_inv c" and "j < 6"
  obtains c' where "cs_write_checked c (bar_reg j) (to_le_bytes (w :: u32)) = Some (Inr (), c')"
    and "bars_inv c'" and "cs_bars c' = cs_bars c" and "cs_writable_bits c' = cs_writable_bits c"
    and "dword_at (cs_registers c') (bar_reg j) =
      fixed_bits c (bar_reg j) OR (w AND dword_at (cs_writable_bits c) (bar_reg j))"
    and "\<And>i. i \<noteq> j \<Longrightarrow> i < 6 \<Longrightarrow> dword_at (cs_registers c') (bar_reg i) = dword_at (cs_registers c) (bar_reg i)"
    and "word_at (cs_registers c') 4 = word_at (cs_registers c) 4"
proof -
  let ?c = "cs_store (patch_masked (cs_registers c) (cs_writable_bits c) (bar_reg j) (to_le_bytes w)) c"
  have wf: "config_wf c" and off: "bar_reg j + 4 \<le> 256" using assms by (simp_all add: bar_reg_def)
  have ok: "cs_write_checked c (bar_reg j) (to_le_bytes w) = Some (Inr (), ?c)"
    using wf assms(2) by (intro cs_write_checked_Ok) simp_all
  moreover have "bars_inv ?c" using assms(1) ok by (rule bars_inv_guest_write)
  moreover have "dword_at (cs_registers ?c) (bar_reg i) = dword_at (cs_registers c) (bar_reg i)"
    if "i \<noteq> j" "i < 6" for i
  proof -
    have "i < j \<or> j < i" using that(1) by auto
    then show ?thesis using wf that(2) assms(2) by (auto simp: bar_reg_def)
  qed
  ultimately show thesis using that [of ?c] wf off
    by (simp add: fixed_bits_def bar_reg_def update_register_def)
qed

lemma programmed_address_32:
  assumes "bar_slot_inv c i bar" and "\<not> is_memory64 (bar_region_type bar)"
    and reg: "dword_at (cs_registers c) (bar_reg i) = bar_type_bits (bar_region_type bar) OR (w AND bar_lo_mask bar)"
  shows "programmed_address c i bar = ucast (w AND bar_lo_mask bar)"
proof -
  have "validate_bar_size bar = Inr ()" using assms(1) by (simp add: bar_slot_inv_def)
  then obtain n where n: "n < 64" "bar_size bar = 2 ^ n" "4 \<le> n"
    and M: "\<And>k. bit (bar_lo_mask bar) k \<longleftrightarrow> k < 32 \<and> n \<le> k"
    by (rule bit_bar_mask) blast
  show ?thesis
  proof (rule bit_word_eqI)
    fix k assume k: "k < LENGTH(64)"
    have mask: "bit (NOT (bar_size bar - 1)) k \<longleftrightarrow> n \<le> k"
      using bit_size_mask [of n k, where 'a = 64] n k by simp
    show "bit (programmed_address c i bar) k = bit (ucast (w AND bar_lo_mask bar) :: u64) k"
      unfolding programmed_address_def bit_and_iff mask reg
      using k n(3) assms(2) bar_type_bits_low [of "bar_region_type bar" k]
      by (auto simp: M bit_or_iff bit_and_iff bit_ucast_iff split: if_splits)
  qed
qed

lemma ucast_u64_eq_iff [simp]: "(ucast (x :: u32) :: u64) = ucast y \<longleftrightarrow> x = y"
proof
  assume eq: "(ucast x :: u64) = ucast y"
  have "bit x k = bit y k" if "k < LENGTH(32)" for k
    using arg_cong [OF eq, of "\<lambda>w. bit w k"] that by (simp add: bit_ucast_iff)
  then show "x = y" by (rule bit_word_eqI)
qed simp

lemma programmed_address_64:
  assumes "bar_slot_inv c i bar" and "is_memory64 (bar_region_type bar)"
    and reg: "dword_at (cs_registers c) (bar_reg i) = bar_type_bits (bar_region_type bar) OR (lo AND bar_lo_mask bar)"
    and upper: "dword_at (cs_registers c) (bar_reg (i + 1)) = hi AND bar_hi_mask bar"
  shows "programmed_address c i bar = NOT (bar_size bar - 1) AND (ucast lo OR push_bit 32 (ucast hi))"
proof -
  have "validate_bar_size bar = Inr ()" using assms(1) by (simp add: bar_slot_inv_def)
  then obtain n where n: "n < 64" "bar_size bar = 2 ^ n" "4 \<le> n"
    and M: "\<And>k. bit (bar_lo_mask bar) k \<longleftrightarrow> k < 32 \<and> n \<le> k"
    by (rule bit_bar_mask) blast
  have H: "bit (bar_hi_mask bar) k \<longleftrightarrow> n \<le> k + 32" if "k < 32" for k
    using n that by (auto simp: bar_hi_mask_def bit_simps simp flip: mask_eq_exp_minus_1)
  show ?thesis
  proof (rule bit_word_eqI)
    fix k assume k: "k < LENGTH(64)"
    have mask: "bit (NOT (bar_size bar - 1)) k \<longleftrightarrow> n \<le> k"
      using bit_size_mask [of n k, where 'a = 64] n k by simp
    have len: "bit lo k \<Longrightarrow> k < 32" by (drule bit_imp_le_length) simp
    show "bit (programmed_address c i bar) k =
        bit (NOT (bar_size bar - 1) AND (ucast lo OR push_bit 32 (ucast hi))) k"
      unfolding programmed_address_def bit_and_iff mask reg upper
      using k n(3) assms(2) bar_type_bits_low [of "bar_region_type bar" k] H [of "k - 32"] len
      by (auto simp: M bit_or_iff bit_and_iff bit_ucast_iff bit_push_bit_iff split: if_splits)
  qed
qed

text \<open>A driver write to the register of a 32-bit or I/O BAR.\<close>

lemma write_bar32:
  assumes "bars_inv c" and "i < 6" and "cs_bars c ! i = Some bar" and "\<not> is_memory64 (bar_region_type bar)"
  shows "\<exists>c'. cs_write_checked c (bar_reg i) (to_le_bytes (w :: u32)) = Some (Inr (), c') \<and> bars_inv c' \<and>
    cs_read_dword c' (bar_reg i) = Some (bar_type_bits (bar_region_type bar) OR (w AND bar_lo_mask bar)) \<and>
    get_bar c' (bar_index bar) = Some
      (if word_at (cs_registers c) 4 AND fst (get_bar_masks bar) = 0 \<or> w AND bar_lo_mask bar \<in> {0, bar_lo_mask bar}
       then None else Some (bar_set_address bar (Some (ucast (w AND bar_lo_mask bar)))))"
proof -
  obtain c' where w: "cs_write_checked c (bar_reg i) (to_le_bytes w) = Some (Inr (), c')" "bars_inv c'"
      "cs_bars c' = cs_bars c"
    and reg: "dword_at (cs_registers c') (bar_reg i) =
      fixed_bits c (bar_reg i) OR (w AND dword_at (cs_writable_bits c) (bar_reg i))"
    and cmd: "word_at (cs_registers c') 4 = word_at (cs_registers c) 4"
    using write_bar_reg [OF assms(1,2)] by metis
  have slot: "bar_slot_inv c i bar" "bar_slot_inv c' i bar"
    using bars_invD [OF assms(1-3)] bars_invD [OF w(2) assms(2)] w(3) assms(3) by simp_all
  have reg': "dword_at (cs_registers c') (bar_reg i) =
      bar_type_bits (bar_region_type bar) OR (w AND bar_lo_mask bar)"
    using reg slot(1) by (simp add: bar_slot_inv_def)
  have "programmed_address c' i bar = ucast (w AND bar_lo_mask bar)"
    by (rule programmed_address_32 [OF slot(2) assms(4) reg'])
  then have "get_bar c' (bar_index bar) = Some
      (if word_at (cs_registers c) 4 AND fst (get_bar_masks bar) = 0 \<or> w AND bar_lo_mask bar \<in> {0, bar_lo_mask bar}
       then None else Some (bar_set_address bar (Some (ucast (w AND bar_lo_mask bar)))))"
    using get_bar_eq [OF w(2) assms(2), of bar] w(3) assms(3) cmd ucast_u64_eq_iff [of _ 0]
    by (simp add: probe_constant)
  moreover have "bar_reg i + 4 \<le> 256" using assms(2) by (simp add: bar_reg_def)
  ultimately show ?thesis using w(1,2) reg' by (auto simp: option_simps)
qed

text \<open>A configuration space with both spaces enabled, and BARs of each kind for the witnesses.\<close>

definition enabled_config :: config_space where
  "enabled_config = blank_config\<lparr>cs_registers := (replicate 256 0)[4 := 3]\<rparr>"

definition sample_bar32 :: PciBar where
  "sample_bar32 = \<lparr>bar_address = None, bar_size = 0x1000, bar_index = PciBarIndex 0,
     bar_region_type = Memory32Bit NotPrefetchable\<rparr>"

definition sample_bar64 :: PciBar where
  "sample_bar64 = \<lparr>bar_address = None, bar_size = 0x4000, bar_index = PciBarIndex 2,
     bar_region_type = Memory64Bit NotPrefetchable\<rparr>"

lemma sample_bar_fields [simp]:
  "bar_index sample_bar32 = PciBarIndex 0" "bar_index sample_bar64 = PciBarIndex 2"
  "bar_region_type sample_bar32 = Memory32Bit NotPrefetchable"
  "bar_region_type sample_bar64 = Memory64Bit NotPrefetchable"
  "bar_size sample_bar32 = 0x1000" "bar_size sample_bar64 = 0x4000"
  "bar_lo_mask sample_bar32 = 0xFFFFF000"
  "get_bar_masks sample_bar32 = (2, 0xFFFFFFF0)" "get_bar_masks sample_bar64 = (2, 0xFFFFFFF0)"
  by (simp_all add: sample_bar32_def sample_bar64_def bar_lo_mask_def get_bar_masks_def)

lemma config_wf_enabled [simp]: "config_wf enabled_config"
  by (simp add: config_wf_def enabled_config_def blank_config_def)

lemma bars_inv_enabled: "bars_inv enabled_config"
  by (rule bars_inv_no_bars [OF config_wf_enabled]) (simp add: enabled_config_def blank_config_def)

lemma sample_bar32_added:
  obtains c where "add_bar enabled_config sample_bar32 = Some (Inr (), c)"
proof -
  have "map_option fst (add_bar enabled_config sample_bar32) = Some (Inr ())" by code_simp
  then show thesis using that by (auto simp: split_paired_all)
qed

lemma sample_bar64_added:
  obtains c where "add_bar enabled_config sample_bar64 = Some (Inr (), c)"
proof -
  have "map_option fst (add_bar enabled_config sample_bar64) = Some (Inr ())" by code_simp
  then show thesis using that by (auto simp: split_paired_all)
qed

lemma added_bar_slot:
  assumes "bars_inv c" and "add_bar c bar = Some (Inr (), c')"
  shows "bars_inv c'" and "into_inner (bar_index bar) < 6"
    and "cs_bars c' ! into_inner (bar_index bar) = Some bar"
    and "word_at (cs_registers c') 4 = word_at (cs_registers c) 4"
  using bars_inv_add_bar [OF assms] add_bar_effect [OF bars_inv_wf [OF assms(1)] assms(2) refl]
    bars_inv_wf [OF assms(1)] by simp_all

lemma enabled_command [simp]: "word_at (cs_registers enabled_config) 4 = 3"
  by code_simp

text \<open>
  C8: Programming a 32-bit or I/O BAR. A driver that writes \<open>w\<close> into the register of a BAR reads back the
  address bits above the size with the type bits of the BAR, and the device sees the BAR at that
  address when its space is enabled in the command register; an address of zero and the size probe
  (all ones) leave the BAR unmapped.
\<close>

theorem bar_programmed:
  assumes "bars_inv c" and "i < 6" and "cs_bars c ! i = Some bar" and "\<not> is_memory64 (bar_region_type bar)"
  shows "\<exists>c'. cs_write_checked c (bar_reg i) (to_le_bytes (w :: u32)) = Some (Inr (), c') \<and> bars_inv c' \<and>
    cs_read_dword c' (bar_reg i) = Some (bar_type_bits (bar_region_type bar) OR (w AND bar_lo_mask bar)) \<and>
    get_bar c' (bar_index bar) = Some
      (if word_at (cs_registers c) 4 AND fst (get_bar_masks bar) = 0 \<or> w AND bar_lo_mask bar \<in> {0, bar_lo_mask bar}
       then None else Some (bar_set_address bar (Some (ucast (w AND bar_lo_mask bar)))))"
  by (rule write_bar32 [OF assms])

lemma bar_programmed_witness:
  "\<exists>c c'. add_bar enabled_config sample_bar32 = Some (Inr (), c) \<and>
     cs_write_checked c (bar_reg 0) (to_le_bytes (0xFEBC0123 :: u32)) = Some (Inr (), c') \<and>
     get_bar c' (PciBarIndex 0) = Some (Some (sample_bar32\<lparr>bar_address := Some 0xFEBC0000\<rparr>))"
proof -
  obtain c where c: "add_bar enabled_config sample_bar32 = Some (Inr (), c)" by (rule sample_bar32_added)
  note slot = added_bar_slot [OF bars_inv_enabled c]
  show ?thesis
    using bar_programmed [OF slot(1-3), where w = "0xFEBC0123"] c slot(4)
    by (auto simp: bar_set_address_def)
qed

text \<open>
  C9: The size probe. Writing all ones to a 32-bit or I/O BAR and reading it back gives the size of the
  region, as the two's complement of the address bits, and the probe is never taken for a mapping.
\<close>

theorem bar_size_probe:
  assumes "bars_inv c" and "i < 6" and "cs_bars c ! i = Some bar" and "\<not> is_memory64 (bar_region_type bar)"
  shows "\<exists>c' v. cs_write_checked c (bar_reg i) (to_le_bytes (0xFFFFFFFF :: u32)) = Some (Inr (), c') \<and>
    cs_read_dword c' (bar_reg i) = Some v \<and>
    ucast (NOT (v AND snd (get_bar_masks bar)) + 1) = bar_size bar \<and>
    get_bar c' (bar_index bar) = Some None"
proof -
  let ?v = "bar_type_bits (bar_region_type bar) OR bar_lo_mask bar"
  have "validate_bar_size bar = Inr ()"
    using bars_invD [OF assms(1-3)] by (simp add: bar_slot_inv_def)
  then obtain n where n: "n < 64" "bar_size bar = 2 ^ n" "4 \<le> n"
    and M: "\<And>k. bit (bar_lo_mask bar) k \<longleftrightarrow> k < 32 \<and> n \<le> k" and n32: "n < 32"
    using assms(4) by (elim bit_bar_mask) blast
  have "?v AND snd (get_bar_masks bar) = NOT (mask n)"
    by (rule bit_word_eqI)
      (use n(3) in \<open>auto simp: M bit_masks_bar bit_simps dest!: bar_type_bits_low split: if_splits\<close>)
  then have "ucast (NOT (?v AND snd (get_bar_masks bar)) + 1) = bar_size bar"
    using n32 n(2) by (simp add: mask_eq_exp_minus_1 ucast_two_power)
  then show ?thesis
    using write_bar32 [OF assms, where w = "0xFFFFFFFF"] by auto
qed

lemma bar_size_probe_witness:
  "\<exists>c c' v. add_bar enabled_config sample_bar32 = Some (Inr (), c) \<and>
     cs_write_checked c (bar_reg 0) (to_le_bytes (0xFFFFFFFF :: u32)) = Some (Inr (), c') \<and>
     cs_read_dword c' (bar_reg 0) = Some v \<and> ucast (NOT (v AND 0xFFFFFFF0) + 1) = (0x1000 :: u64) \<and>
     get_bar c' (PciBarIndex 0) = Some None"
proof -
  obtain c where c: "add_bar enabled_config sample_bar32 = Some (Inr (), c)" by (rule sample_bar32_added)
  note slot = added_bar_slot [OF bars_inv_enabled c]
  show ?thesis using bar_size_probe [OF slot(1-3)] c by auto
qed

text \<open>A driver writes both registers of a 64-bit BAR.\<close>

lemma write_bar64:
  assumes "bars_inv c" and "i < 6" and "cs_bars c ! i = Some bar" and m64: "is_memory64 (bar_region_type bar)"
  defines "a \<equiv> \<lambda>(lo :: u32) (hi :: u32). NOT (bar_size bar - 1) AND (ucast lo OR push_bit 32 (ucast hi))"
  shows "\<exists>c1 c2. cs_write_checked c (bar_reg i) (to_le_bytes lo) = Some (Inr (), c1) \<and>
    cs_write_checked c1 (bar_reg (i + 1)) (to_le_bytes hi) = Some (Inr (), c2) \<and> bars_inv c2 \<and>
    cs_bars c2 = cs_bars c \<and> programmed_address c2 i bar = a lo hi \<and>
    word_at (cs_registers c2) 4 = word_at (cs_registers c) 4"
proof -
  obtain c1 where w1: "cs_write_checked c (bar_reg i) (to_le_bytes lo) = Some (Inr (), c1)" "bars_inv c1"
      "cs_bars c1 = cs_bars c"
    and reg1: "dword_at (cs_registers c1) (bar_reg i) =
      fixed_bits c (bar_reg i) OR (lo AND dword_at (cs_writable_bits c) (bar_reg i))"
    and cmd1: "word_at (cs_registers c1) 4 = word_at (cs_registers c) 4"
    using write_bar_reg [OF assms(1,2)] by metis
  have slot: "bar_slot_inv c i bar" "bar_slot_inv c1 i bar" and i1: "i + 1 < 6"
    using bars_invD [OF assms(1-3)] bars_invD [OF w1(2) assms(2)] w1(3) assms(3) m64
    by (simp_all add: bar_slot_inv_def)
  obtain c2 where w2: "cs_write_checked c1 (bar_reg (i + 1)) (to_le_bytes hi) = Some (Inr (), c2)" "bars_inv c2"
      "cs_bars c2 = cs_bars c1"
    and reg2: "dword_at (cs_registers c2) (bar_reg (i + 1)) =
      fixed_bits c1 (bar_reg (i + 1)) OR (hi AND dword_at (cs_writable_bits c1) (bar_reg (i + 1)))"
    and same: "\<And>j. j \<noteq> i + 1 \<Longrightarrow> j < 6 \<Longrightarrow>
      dword_at (cs_registers c2) (bar_reg j) = dword_at (cs_registers c1) (bar_reg j)"
    and cmd2: "word_at (cs_registers c2) 4 = word_at (cs_registers c1) 4"
    using write_bar_reg [OF w1(2) i1] by metis
  have slot2: "bar_slot_inv c2 i bar" using bars_invD [OF w2(2) assms(2)] w1(3) w2(3) assms(3) by simp
  have "dword_at (cs_registers c2) (bar_reg i) = bar_type_bits (bar_region_type bar) OR (lo AND bar_lo_mask bar)"
    using same [of i] assms(2) reg1 slot(1) by (simp add: bar_slot_inv_def)
  moreover have "dword_at (cs_registers c2) (bar_reg (i + 1)) = hi AND bar_hi_mask bar"
    using reg2 slot(2) m64 by (simp add: bar_slot_inv_def)
  ultimately have "programmed_address c2 i bar = a lo hi"
    unfolding a_def by (rule programmed_address_64 [OF slot2 m64])
  with w1 w2 cmd1 cmd2 show ?thesis by auto
qed

text \<open>
  C10: Programming a 64-bit BAR. After a driver writes \<open>lo\<close> and \<open>hi\<close> into the two registers, the device
  sees the BAR at the 64-bit address above the size when memory space is enabled; it stays unmapped
  at address zero and at the 32-bit probe constant.
\<close>

theorem bar_programmed_64:
  assumes "bars_inv c" and "i < 6" and "cs_bars c ! i = Some bar" and "is_memory64 (bar_region_type bar)"
    and "address = NOT (bar_size bar - 1) AND (ucast (lo :: u32) OR push_bit 32 (ucast (hi :: u32)))"
  shows "\<exists>c1 c2. cs_write_checked c (bar_reg i) (to_le_bytes lo) = Some (Inr (), c1) \<and>
    cs_write_checked c1 (bar_reg (i + 1)) (to_le_bytes hi) = Some (Inr (), c2) \<and> bars_inv c2 \<and>
    get_bar c2 (bar_index bar) = Some
      (if word_at (cs_registers c) 4 AND fst (get_bar_masks bar) = 0 \<or> address \<in> {0, ucast (bar_lo_mask bar)}
       then None else Some (bar_set_address bar (Some address)))"
proof -
  obtain c1 c2 where "cs_write_checked c (bar_reg i) (to_le_bytes lo) = Some (Inr (), c1)"
    "cs_write_checked c1 (bar_reg (i + 1)) (to_le_bytes hi) = Some (Inr (), c2)" "bars_inv c2"
    "cs_bars c2 = cs_bars c" "programmed_address c2 i bar = address"
    "word_at (cs_registers c2) 4 = word_at (cs_registers c) 4"
    using write_bar64 [OF assms(1-4)] unfolding assms(5) by metis
  then show ?thesis
    using get_bar_eq [of c2 i bar] assms(2,3) by (auto simp: probe_constant)
qed

lemma bar_programmed_64_witness:
  "\<exists>c c1 c2. add_bar enabled_config sample_bar64 = Some (Inr (), c) \<and>
     cs_write_checked c (bar_reg 2) (to_le_bytes (0xFEBC4123 :: u32)) = Some (Inr (), c1) \<and>
     cs_write_checked c1 (bar_reg 3) (to_le_bytes (0x8 :: u32)) = Some (Inr (), c2) \<and>
     get_bar c2 (PciBarIndex 2) = Some (Some (sample_bar64\<lparr>bar_address := Some 0x8FEBC4000\<rparr>))"
proof -
  obtain c where c: "add_bar enabled_config sample_bar64 = Some (Inr (), c)" by (rule sample_bar64_added)
  note slot = added_bar_slot [OF bars_inv_enabled c]
  have "(0x8FEBC4000 :: u64) = NOT (bar_size sample_bar64 - 1) AND
      (ucast (0xFEBC4123 :: u32) OR push_bit 32 (ucast (0x8 :: u32)))" by code_simp
  from bar_programmed_64 [OF slot(1-3) _ this] c slot(4) show ?thesis
    by (auto simp: bar_set_address_def bar_lo_mask_def)
qed

text \<open>
  C11: The size probe of a 64-bit BAR. With all ones in both registers a driver reads back the size of
  the region, but \<open>get_bar\<close> compares the address with a constant cut to 32 bits and so, unlike for a
  32-bit BAR, reports the probe as a mapping at \<open>!(size - 1)\<close> when memory space is enabled.
\<close>

theorem bar_size_probe_64:
  assumes "bars_inv c" and "i < 6" and "cs_bars c ! i = Some bar" and "is_memory64 (bar_region_type bar)"
    and "word_at (cs_registers c) 4 AND fst (get_bar_masks bar) \<noteq> 0"
  shows "\<exists>c1 c2 lo hi. cs_write_checked c (bar_reg i) (to_le_bytes (0xFFFFFFFF :: u32)) = Some (Inr (), c1) \<and>
    cs_write_checked c1 (bar_reg (i + 1)) (to_le_bytes (0xFFFFFFFF :: u32)) = Some (Inr (), c2) \<and>
    cs_read_dword c2 (bar_reg i) = Some lo \<and> cs_read_dword c2 (bar_reg (i + 1)) = Some hi \<and>
    NOT (ucast (lo AND snd (get_bar_masks bar)) OR push_bit 32 (ucast hi)) + 1 = bar_size bar \<and>
    get_bar c2 (bar_index bar) = Some (Some (bar_set_address bar (Some (NOT (bar_size bar - 1)))))"
proof -
  have all: "(ucast (0xFFFFFFFF :: u32) OR push_bit 32 (ucast (0xFFFFFFFF :: u32))) = (- 1 :: u64)"
    by code_simp
  obtain c1 c2 where w: "cs_write_checked c (bar_reg i) (to_le_bytes (0xFFFFFFFF :: u32)) = Some (Inr (), c1)"
    "cs_write_checked c1 (bar_reg (i + 1)) (to_le_bytes (0xFFFFFFFF :: u32)) = Some (Inr (), c2)"
    and inv: "bars_inv c2" "cs_bars c2 ! i = Some bar"
    and addr: "programmed_address c2 i bar = NOT (bar_size bar - 1)"
    and cmd: "word_at (cs_registers c2) 4 = word_at (cs_registers c) 4"
    using write_bar64 [OF assms(1-4), of "0xFFFFFFFF" "0xFFFFFFFF"] assms(3) unfolding all by auto
  have slot: "bar_slot_inv c2 i bar" using inv(1) assms(2) inv(2) by (rule bars_invD)
  have regs: "bar_reg i + 4 \<le> 256" "bar_reg (i + 1) + 4 \<le> 256" using assms(2) by (simp_all add: bar_reg_def)
  obtain n where n: "n < 64" "bar_size bar = 2 ^ n" "4 \<le> n"
    and M: "\<And>k. bit (bar_lo_mask bar) k \<longleftrightarrow> k < 32 \<and> n \<le> k"
    using slot by (auto simp: bar_slot_inv_def elim!: bit_bar_mask)
  have top: "bit (NOT (bar_size bar - 1)) 63" using n bit_size_mask [of n 63, where 'a = 64] by simp
  have "\<not> bit (ucast (bar_lo_mask bar) :: u64) 63" by (simp add: bit_ucast_iff M)
  with top have "NOT (bar_size bar - 1) \<noteq> ucast (bar_lo_mask bar)" by metis
  moreover from top have "NOT (bar_size bar - 1) \<noteq> 0" by (metis bit_0_eq bot_apply bot_bool_def)
  ultimately have "get_bar c2 (bar_index bar) = Some (Some (bar_set_address bar (Some (NOT (bar_size bar - 1)))))"
    using get_bar_eq [OF inv(1) assms(2) inv(2)] assms(5) by (simp add: addr cmd probe_constant)
  moreover have "NOT (ucast (dword_at (cs_registers c2) (bar_reg i) AND snd (get_bar_masks bar)) OR
      push_bit 32 (ucast (dword_at (cs_registers c2) (bar_reg (i + 1))))) + 1 = bar_size bar"
    using register_address [OF slot] assms(4) by (simp add: addr)
  ultimately show ?thesis using w inv(1) regs by (auto simp: option_simps)
qed

lemma bar_size_probe_64_witness:
  "\<exists>c c1 c2. add_bar enabled_config sample_bar64 = Some (Inr (), c) \<and>
     cs_write_checked c (bar_reg 2) (to_le_bytes (0xFFFFFFFF :: u32)) = Some (Inr (), c1) \<and>
     cs_write_checked c1 (bar_reg 3) (to_le_bytes (0xFFFFFFFF :: u32)) = Some (Inr (), c2) \<and>
     get_bar c2 (PciBarIndex 2) = Some (Some (sample_bar64\<lparr>bar_address := Some 0xFFFFFFFFFFFFC000\<rparr>))"
proof -
  obtain c where c: "add_bar enabled_config sample_bar64 = Some (Inr (), c)" by (rule sample_bar64_added)
  note slot = added_bar_slot [OF bars_inv_enabled c]
  from bar_size_probe_64 [OF slot(1-3)] c slot(4) show ?thesis
    by (auto simp: bar_set_address_def)
qed

end
