(* ===== verification/Config_Caps.thy ===== *)
theory Config_Caps
  imports Config_Bars
begin

text \<open>
  The capability list of the configuration space: an abstract list of entries, the invariant that
  ties it to the registers, and that \<open>add_capability\<close> appends to it, that iteration visits it in
  order, and that nothing a driver writes changes it.
\<close>

section \<open>The abstract list\<close>

record cap_entry =
  ent_id :: u8
  ent_start :: nat
  ent_size :: nat

text \<open>
  The entries follow one another inside the device specific area without overlap, each starting at a
  multiple of four; a header takes two bytes.
\<close>

fun caps_layout :: "nat \<Rightarrow> cap_entry list \<Rightarrow> bool" where
  "caps_layout lb [] = True"
| "caps_layout lb (e # es) \<longleftrightarrow>
     lb \<le> ent_start e \<and> 4 dvd ent_start e \<and> ent_start e + 2 + ent_size e \<le> 255 \<and>
     caps_layout (ent_start e + 2 + ent_size e) es"

text \<open>The registers link the entries, from the pointer at \<open>p\<close>.\<close>

fun cap_chain :: "bytes \<Rightarrow> nat \<Rightarrow> cap_entry list \<Rightarrow> bool" where
  "cap_chain r p [] \<longleftrightarrow> r ! p = 0"
| "cap_chain r p (e # es) \<longleftrightarrow>
     r ! p = of_nat (ent_start e) \<and> r ! ent_start e = ent_id e \<and> cap_chain r (ent_start e + 1) es"

definition caps_end :: "cap_entry list \<Rightarrow> nat" where
  "caps_end es = (if es = [] then 0x40 else ent_start (last es) + 2 + ent_size (last es))"

definition caps_inv :: "config_space \<Rightarrow> cap_entry list \<Rightarrow> bool" where
  "caps_inv c es \<longleftrightarrow> config_wf c \<and> caps_layout 0x40 es \<and> cap_chain (cs_registers c) 0x34 es \<and>
     (es \<noteq> [] \<longrightarrow> cs_last_cap_size c = ent_size (last es) \<and> bit (cs_registers c ! 6) 4) \<and>
     cs_writable_bits c ! 0x34 = 0 \<and> \<not> bit (cs_writable_bits c ! 6) 4 \<and>
     (\<forall>e \<in> set es. cs_writable_bits c ! ent_start e = 0 \<and> cs_writable_bits c ! (ent_start e + 1) = 0) \<and>
     (\<forall>k. caps_end es \<le> k \<longrightarrow> k < 256 \<longrightarrow> cs_writable_bits c ! k = 0)"

text \<open>What adding a capability does to the list, or \<open>None\<close> when it does not fit.\<close>

definition caps_add :: "cap_entry list \<Rightarrow> u8 \<Rightarrow> nat \<Rightarrow> cap_entry list option" where
  "caps_add es cid n =
     (let s = align_dword (caps_end es) in
      if s + 2 + n \<le> 255 then Some (es @ [\<lparr>ent_id = cid, ent_start = s, ent_size = n\<rparr>]) else None)"

text \<open>What the iterator yields for the list.\<close>

definition cap_items :: "bytes \<Rightarrow> cap_entry list \<Rightarrow> (PciCapHeader \<times> usize) list" where
  "cap_items r es =
     map (\<lambda>e. (\<lparr>hdr_cap_id = ent_id e, hdr_next_pointer = r ! (ent_start e + 1)\<rparr>, ent_start e + 2)) es"

section \<open>Iteration\<close>

lemma caps_layout_mono: "caps_layout lb es \<Longrightarrow> lb' \<le> lb \<Longrightarrow> caps_layout lb' es"
  by (cases es) auto

lemma caps_layout_entry:
  assumes "caps_layout lb es" and "e \<in> set es"
  shows "lb \<le> ent_start e" and "4 dvd ent_start e" and "ent_start e + 2 + ent_size e \<le> 255"
proof -
  have "lb \<le> ent_start e \<and> 4 dvd ent_start e \<and> ent_start e + 2 + ent_size e \<le> 255"
    using assms
  proof (induction es arbitrary: lb)
    case (Cons a es)
    show ?case
    proof (cases "e = a")
      case False
      with Cons.prems have "e \<in> set es" by simp
      with Cons.IH [of "ent_start a + 2 + ent_size a"] Cons.prems(1) show ?thesis by auto
    qed (use Cons.prems in simp)
  qed simp
  then show "lb \<le> ent_start e" "4 dvd ent_start e" "ent_start e + 2 + ent_size e \<le> 255" by simp_all
qed

lemma unat_pointer:
  assumes "4 dvd s" and "s < 256"
  shows "unat ((of_nat s :: u8) AND NOT 3) = s"
proof -
  obtain q where "s = 4 * q" using assms(1) by (rule dvdE)
  then have s: "s = push_bit 2 q" by (simp add: push_bit_eq_mult)
  have "(of_nat s :: u8) AND NOT (mask 2) = of_nat s"
    by (rule bit_word_eqI) (auto simp: s bit_simps)
  then have "unat ((of_nat s :: u8) AND NOT 3) = unat (of_nat s :: u8)"
    by (simp add: mask_eq_exp_minus_1)
  also have "\<dots> = s" using assms(2) by (simp add: unat_of_nat)
  finally show ?thesis .
qed

lemma cap_iter_next_end:
  assumes "config_wf c" and "p < 256" and "cap_chain (cs_registers c) p []"
  shows "cap_iter_next c p = Some None"
  using assms by (simp add: cap_iter_next_def next_cap_def option_simps)

lemma chain_next_pointer:
  assumes "cap_chain r q es" and "caps_layout lb es" and "p \<le> lb" and "0x34 \<le> p" and "lb \<le> 255"
  shows "unat (r ! q) + 1 \<noteq> p"
proof (cases es)
  case (Cons e es')
  then have "unat (r ! q) = ent_start e" using assms(1,2) by (simp add: unat_of_nat)
  then show ?thesis using assms Cons by auto
qed (use assms in auto)

lemma cap_iter_next_entry:
  assumes "config_wf c" and "cap_chain (cs_registers c) p (e # es)" and "caps_layout lb (e # es)"
    and "p < lb" and "0x34 \<le> p" and "0x40 \<le> lb"
  shows "cap_iter_next c p =
    Some (Some ((\<lparr>hdr_cap_id = ent_id e, hdr_next_pointer = cs_registers c ! (ent_start e + 1)\<rparr>, ent_start e + 2),
      ent_start e + 1))"
proof -
  let ?s = "ent_start e"
  have s: "4 dvd ?s" "?s + 2 \<le> 255" "p < ?s" "0x40 \<le> ?s" using assms by auto
  have ptr: "unat (cs_registers c ! p AND NOT 3) = ?s" using assms(2) s unat_pointer [of ?s] by simp
  have nxt: "next_cap c p = Some ?s" using assms(1) s ptr by (simp add: next_cap_def option_simps)
  have "unat (cs_registers c ! Suc ?s) + 1 \<noteq> p"
    using chain_next_pointer [of "cs_registers c" "?s + 1" es "?s + 2 + ent_size e" p] assms(2,3) s assms(5)
    by simp
  then have cyc: "Suc (unat (cs_registers c ! Suc ?s)) \<noteq> p" by simp
  have len: "2 \<le> 256 - ?s" using s by simp
  show ?thesis
    using assms(1,2) s nxt cyc len
    by (simp add: cap_iter_next_def slice_read_Some cap_header_from_def cap_next_pointer_offset_def
        cap_data_offset_def min_def)
qed

lemma cap_iter_last_eq:
  assumes "config_wf c" and "cap_chain (cs_registers c) p es" and "caps_layout lb es"
    and "p < lb" and "0x34 \<le> p" and "0x40 \<le> lb" and "lb \<le> 255"
  shows "cap_iter_last c p acc =
    Some (if es = [] then acc else Some (last (cap_items (cs_registers c) es)))"
  using assms
proof (induction es arbitrary: p lb acc)
  case Nil
  then show ?case by (subst cap_iter_last.simps) (simp add: cap_iter_next_end)
next
  case (Cons e es)
  have step: "cap_iter_next c p =
    Some (Some ((\<lparr>hdr_cap_id = ent_id e, hdr_next_pointer = cs_registers c ! (ent_start e + 1)\<rparr>, ent_start e + 2),
      ent_start e + 1))"
    by (rule cap_iter_next_entry [OF Cons.prems(1-6)])
  have IH: "cap_iter_last c (ent_start e + 1) acc' =
      Some (if es = [] then acc' else Some (last (cap_items (cs_registers c) es)))" for acc'
    by (rule Cons.IH [where lb = "ent_start e + 2 + ent_size e"]) (use Cons.prems in auto)
  show ?case
    by (subst cap_iter_last.simps) (simp add: step IH [simplified] cap_items_def last_map)
qed

lemma cap_iter_find_eq:
  assumes "config_wf c" and "cap_chain (cs_registers c) p es" and "caps_layout lb es"
    and "p < lb" and "0x34 \<le> p" and "0x40 \<le> lb" and "lb \<le> 255"
  shows "cap_iter_find P c p = Some (List.find P (cap_items (cs_registers c) es))"
  using assms
proof (induction es arbitrary: p lb)
  case Nil
  then show ?case by (subst cap_iter_find.simps) (simp add: cap_iter_next_end cap_items_def)
next
  case (Cons e es)
  have step: "cap_iter_next c p =
    Some (Some ((\<lparr>hdr_cap_id = ent_id e, hdr_next_pointer = cs_registers c ! (ent_start e + 1)\<rparr>, ent_start e + 2),
      ent_start e + 1))"
    by (rule cap_iter_next_entry [OF Cons.prems(1-6)])
  have IH: "cap_iter_find P c (ent_start e + 1) = Some (List.find P (cap_items (cs_registers c) es))"
    by (rule Cons.IH [where lb = "ent_start e + 2 + ent_size e"]) (use Cons.prems in auto)
  show ?case
    by (subst cap_iter_find.simps) (simp add: step IH [simplified] cap_items_def)
qed

lemma capability_last_eq:
  assumes "caps_inv c es"
  shows "capability_last c = Some (if es = [] then None else Some (last (cap_items (cs_registers c) es)))"
  unfolding capability_last_def using assms
  by (subst cap_iter_last_eq [where lb = "0x40" and es = es]) (simp_all add: caps_inv_def)

lemma capability_find_eq:
  assumes "caps_inv c es"
  shows "capability_find c P = Some (List.find P (cap_items (cs_registers c) es))"
  unfolding capability_find_def using assms
  by (subst cap_iter_find_eq [where lb = "0x40" and es = es]) (simp_all add: caps_inv_def)

section \<open>Adding a capability\<close>

definition tail_ptr :: "nat \<Rightarrow> cap_entry list \<Rightarrow> nat" where
  "tail_ptr p es = (if es = [] then p else ent_start (last es) + 1)"

lemma tail_ptr_simps [simp]:
  "tail_ptr p [] = p" "tail_ptr p (e # es) = tail_ptr (ent_start e + 1) es"
  by (simp_all add: tail_ptr_def)

lemma tail_ptr_lower: "caps_layout lb es \<Longrightarrow> p \<le> lb \<Longrightarrow> p \<le> tail_ptr p es"
  by (induction es arbitrary: lb p) (auto simp: tail_ptr_def dest: caps_layout_entry(1) [OF _ last_in_set])

lemma cap_chain_cong:
  assumes "r' ! p = r ! p"
    and "\<And>e. e \<in> set es \<Longrightarrow> r' ! ent_start e = r ! ent_start e \<and> r' ! (ent_start e + 1) = r ! (ent_start e + 1)"
  shows "cap_chain r' p es = cap_chain r p es"
  using assms by (induction es arbitrary: p) auto

lemma cap_chain_snoc:
  assumes "cap_chain r p es" and "caps_layout lb es" and "p < lb"
    and "r' ! tail_ptr p es = of_nat (ent_start e)" and "r' ! ent_start e = ent_id e"
    and "r' ! (ent_start e + 1) = 0"
    and "\<And>k. k < ent_start e \<Longrightarrow> p \<le> k \<Longrightarrow> k \<noteq> tail_ptr p es \<Longrightarrow> k = p \<or> (\<exists>a \<in> set es. k = ent_start a \<or> k = ent_start a + 1)
      \<Longrightarrow> r' ! k = r ! k"
    and "\<And>a. a \<in> set es \<Longrightarrow> ent_start a + 1 < ent_start e" and "p < ent_start e"
  shows "cap_chain r' p (es @ [e])"
  using assms
proof (induction es arbitrary: p lb)
  case (Cons a es)
  let ?q = "ent_start a + 1"
  have p: "p < ent_start a" using Cons.prems(2,3) by auto
  have lay: "caps_layout (ent_start a + 2 + ent_size a) es" using Cons.prems(2) by simp
  have t: "?q \<le> tail_ptr ?q es" using tail_ptr_lower [OF lay, of ?q] by simp
  have "cap_chain r' ?q (es @ [e])"
  proof (rule Cons.IH [OF _ lay])
    fix k assume k: "k < ent_start e" "?q \<le> k" "k \<noteq> tail_ptr ?q es"
      "k = ?q \<or> (\<exists>b \<in> set es. k = ent_start b \<or> k = ent_start b + 1)"
    show "r' ! k = r ! k" by (rule Cons.prems(7)) (use k p in auto)
  qed (use Cons.prems in auto)
  moreover have "r' ! p = r ! p" "r' ! ent_start a = r ! ent_start a"
    using Cons.prems(7) [of p] Cons.prems(7) [of "ent_start a"] Cons.prems(8) [of a] Cons.prems(9) p t by auto
  ultimately show ?case using Cons.prems(1) by simp
qed simp

lemma caps_layout_snoc:
  assumes "caps_layout lb es" and "caps_end es \<le> ent_start e" and "lb \<le> ent_start e"
    and "4 dvd ent_start e" and "ent_start e + 2 + ent_size e \<le> 255" and "0x40 \<le> lb"
  shows "caps_layout lb (es @ [e])"
  using assms
proof (induction es arbitrary: lb)
  case (Cons a es)
  have "caps_layout (ent_start a + 2 + ent_size a) (es @ [e])"
    by (rule Cons.IH) (use Cons.prems in \<open>auto simp: caps_end_def split: if_splits
        dest: caps_layout_entry [OF _ last_in_set]\<close>)
  with Cons.prems show ?case by simp
qed simp

lemma layout_below_end:
  assumes "caps_layout lb es" and "a \<in> set es"
  shows "ent_start a + 2 + ent_size a \<le> caps_end es"
  using assms
proof (induction es arbitrary: lb)
  case (Cons e es)
  show ?case
  proof (cases "a \<in> set es")
    case True
    then show ?thesis using Cons.IH [of "ent_start e + 2 + ent_size e"] Cons.prems(1)
      by (auto simp: caps_end_def split: if_splits)
  next
    case False
    then have "a = e" using Cons.prems(2) by simp
    then show ?thesis using Cons.prems(1) caps_layout_entry(1) [of "ent_start e + 2 + ent_size e" es "last es"]
      by (auto simp: caps_end_def)
  qed
qed simp

lemma layout_apart:
  assumes "caps_layout lb es" and "e \<in> set es" and "a \<in> set es"
  shows "a = e \<or> ent_start a + 2 + ent_size a \<le> ent_start e \<or> ent_start e + 2 + ent_size e \<le> ent_start a"
  using assms
proof (induction es arbitrary: lb)
  case (Cons x es)
  show ?case
    using Cons.IH [of "ent_start x + 2 + ent_size x"] Cons.prems
      caps_layout_entry(1) [of "ent_start x + 2 + ent_size x" es] by auto
qed simp

lemma caps_end_ge: "caps_layout 0x40 es \<Longrightarrow> 0x40 \<le> caps_end es"
  using caps_layout_entry(1) [of "0x40" es "last es"] by (auto simp: caps_end_def)

lemma align_dword_props: "n \<le> align_dword n" "4 dvd align_dword n" "align_dword n < n + 4"
  by (simp_all add: align_dword_def)

lemma insert_position:
  assumes "caps_inv c es"
  shows "cap_insert_position c = Some (caps_end es, if es = [] then 0 else ent_start (last es))"
proof -
  have "es \<noteq> [] \<Longrightarrow> cs_last_cap_size c = ent_size (last es)" using assms by (simp add: caps_inv_def)
  then show ?thesis
    by (simp add: cap_insert_position_def capability_last_eq [OF assms] cap_items_def last_map caps_end_def
        cap_start_from_data_start_def)
qed

lemma set_capability_data_Ok:
  assumes "config_wf c" and "off + cap_size cap \<le> 255"
    and "cap_registers cap (take (cap_size cap) (drop off (cs_registers c))) = Some regs"
    and "cap_writable_bits cap (take (cap_size cap) (drop off (cs_writable_bits c))) = Some bits"
    and "length regs = cap_size cap" and "length bits = cap_size cap"
  shows "set_capability_data c cap off = Some (Inr (), c\<lparr>cs_registers := patch (cs_registers c) off regs,
    cs_writable_bits := patch (cs_writable_bits c) off bits\<rparr>)"
  using assms
  by (simp add: set_capability_data_def cap_end_offset_def checked_add_def option_simps)

lemma set_capability_data_Err:
  assumes "255 < off + cap_size cap"
  shows "\<exists>e. set_capability_data c cap off = Some (Inl e, c)"
  using assms by (auto simp: set_capability_data_def cap_end_offset_def checked_add_def split: option.splits)

text \<open>The registers after a capability is added: the header, the data, the link and the status bit.\<close>

definition linked_registers :: "bytes \<Rightarrow> cap_entry list \<Rightarrow> u8 \<Rightarrow> bytes \<Rightarrow> bytes" where
  "linked_registers r es cid regs =
     (let s = align_dword (caps_end es);
          r = patch (patch (patch r (s + 2) regs) s [cid]) (s + 1) [0]
      in if es = [] then patch (patch r 0x34 [0x40]) 6 (to_le_bytes (word_at r 6 OR 0x10))
         else patch r (ent_start (last es) + 1) [of_nat s])"

lemma add_capability_Ok:
  assumes inv: "caps_inv c es" and fit: "align_dword (caps_end es) + 2 + cap_size cap \<le> 255"
    and "cap_registers cap (take (cap_size cap) (drop (align_dword (caps_end es) + 2) (cs_registers c))) = Some regs"
    and "cap_writable_bits cap (take (cap_size cap) (drop (align_dword (caps_end es) + 2) (cs_writable_bits c))) = Some bits"
    and len: "length regs = cap_size cap" "length bits = cap_size cap"
  shows "add_capability c cap = Some (Inr (align_dword (caps_end es) + 2),
    c\<lparr>cs_registers := linked_registers (cs_registers c) es (capability_id_u8 (cap_id cap)) regs,
      cs_writable_bits := patch (cs_writable_bits c) (align_dword (caps_end es) + 2) bits,
      cs_last_cap_size := cap_size cap\<rparr>)"
proof -
  let ?s = "align_dword (caps_end es)"
  have wf: "config_wf c" and lay: "caps_layout 0x40 es" using inv by (simp_all add: caps_inv_def)
  have start: "0x40 \<le> ent_start (last es) \<and> ent_start (last es) + 2 \<le> 255" if "es \<noteq> []"
    using caps_layout_entry [OF lay last_in_set [OF that]] by simp
  have data: "set_capability_data c cap (Suc (Suc ?s)) = Some (Inr (), c\<lparr>cs_registers := patch (cs_registers c) (?s + 2) regs,
    cs_writable_bits := patch (cs_writable_bits c) (?s + 2) bits\<rparr>)"
    using set_capability_data_Ok [OF wf _ assms(3-6)] fit by simp
  show ?thesis
  proof (cases "es = []")
    case True
    show ?thesis using wf fit len True
      by (simp add: add_capability_def insert_position [OF inv] data [unfolded True] option_simps cap_id_offset_def
          cap_next_pointer_offset_def cap_data_offset_def linked_registers_def Let_def)
  next
    case False
    show ?thesis using wf fit len False start [OF False]
      by (simp add: add_capability_def insert_position [OF inv] data option_simps cap_id_offset_def
          cap_next_pointer_offset_def cap_data_offset_def linked_registers_def Let_def)
  qed
qed

lemma bit_status_mask: "bit (0x10 :: 'a::semiring_bits) k \<longleftrightarrow> possible_bit TYPE('a) k \<and> k = 4"
proof -
  have "(0x10 :: 'a) = 2 ^ 4" by simp
  then show ?thesis by (auto simp only: bit_exp_iff)
qed

lemma status_high_byte:
  assumes "length r = 256"
  shows "to_le_bytes (word_at r 6 OR 0x10) ! 1 = r ! 7"
proof (rule bit_word_eqI)
  fix k assume k: "k < LENGTH(8)"
  then have "k < 8" by simp
  then have "(56 + k) div 8 = 7" "(56 + k) mod 8 = k" by presburger+
  then show "bit (to_le_bytes (word_at r 6 OR 0x10) ! 1) k = bit (r ! 7) k"
    using k assms by (auto simp: nth_to_le_bytes bit_views array_bit_def bit_or_iff bit_status_mask)
qed

lemma nth_linked:
  assumes "length r = 256" and "caps_layout 0x40 es" and "align_dword (caps_end es) + 2 + length regs \<le> 255"
    and "s = align_dword (caps_end es)"
  shows "length (linked_registers r es cid regs) = 256"
    and "linked_registers r es cid regs ! s = cid" and "linked_registers r es cid regs ! (s + 1) = 0"
    and "take (length regs) (drop (s + 2) (linked_registers r es cid regs)) = regs"
    and "linked_registers r es cid regs ! tail_ptr 0x34 es = of_nat s"
    and "bit (linked_registers r es cid regs ! 6) k \<longleftrightarrow> bit (r ! 6) k \<or> (es = [] \<and> k = 4)"
    and "k < 256 \<Longrightarrow> k \<noteq> 6 \<Longrightarrow> k \<noteq> tail_ptr 0x34 es \<Longrightarrow> k < s \<or> s + 2 + length regs \<le> k \<Longrightarrow>
      linked_registers r es cid regs ! k = r ! k"
proof -
  have s: "0x40 \<le> s" "s + 2 + length regs \<le> 255" and last: "es \<noteq> [] \<Longrightarrow> 0x40 \<le> ent_start (last es) \<and> ent_start (last es) + 2 \<le> s"
    using caps_layout_entry(1) [OF assms(2) last_in_set] assms(3,4) align_dword_props(1) [of "caps_end es"]
    by (auto simp: caps_end_def split: if_splits)
  define r3 where "r3 = patch (patch (patch r (s + 2) regs) s [cid]) (s + 1) [0]"
  have len3: "length r3 = 256" using assms(1) s by (simp add: r3_def)
  have r3: "r3 ! k = (if k = s then cid else if k = s + 1 then 0
      else if s + 2 \<le> k \<and> k < s + 2 + length regs then regs ! (k - s - 2) else r ! k)" if "k < 256" for k
    using assms(1) s that by (auto simp: r3_def nth_patch)
  have w3: "word_at r3 6 = word_at r 6" using assms(1) s by (simp add: r3_def)
  have linked: "linked_registers r es cid regs =
      (if es = [] then patch (patch r3 0x34 [0x40]) 6 (to_le_bytes (word_at r 6 OR 0x10))
       else patch r3 (tail_ptr 0x34 es) [of_nat s])"
    unfolding linked_registers_def Let_def assms(4) [symmetric] r3_def [symmetric] by (simp add: w3 tail_ptr_def)
  have tail: "es = [] \<and> tail_ptr 0x34 es = 0x34 \<and> s = 0x40 \<or> es \<noteq> [] \<and> 0x40 < tail_ptr 0x34 es \<and> tail_ptr 0x34 es < s"
    using last assms(4) by (auto simp: tail_ptr_def caps_end_def align_dword_def)
  show len: "length (linked_registers r es cid regs) = 256" using len3 tail s by (auto simp: linked)
  have frame: "linked_registers r es cid regs ! k = r3 ! k" if "k < 256" "k \<notin> {6, 7, tail_ptr 0x34 es}" for k
    using tail s len3 that by (auto simp: linked nth_patch)
  show "linked_registers r es cid regs ! s = cid" "linked_registers r es cid regs ! (s + 1) = 0"
    using frame [of s] frame [of "s + 1"] r3 tail s by auto
  show "linked_registers r es cid regs ! tail_ptr 0x34 es = of_nat s"
    using tail s len3 by (auto simp: linked nth_patch)
  show "take (length regs) (drop (s + 2) (linked_registers r es cid regs)) = regs"
  proof (rule nth_equalityI)
    fix i assume "i < length (take (length regs) (drop (s + 2) (linked_registers r es cid regs)))"
    then have "i < length regs" by simp
    then show "take (length regs) (drop (s + 2) (linked_registers r es cid regs)) ! i = regs ! i"
      using frame [of "s + 2 + i"] r3 [of "s + 2 + i"] tail s len by auto
  qed (use s len in simp)
  have six: "linked_registers r es cid regs ! 6 = (if es = [] then to_le_bytes (word_at r 6 OR 0x10) ! 0 else r ! 6)"
    using tail s len3 r3 [of 6] by (auto simp: linked nth_patch)
  have seven: "linked_registers r es cid regs ! 7 = r ! 7"
    using tail s len3 r3 [of 7] status_high_byte [OF assms(1)] by (auto simp: linked nth_patch)
  show "bit (linked_registers r es cid regs ! 6) k \<longleftrightarrow> bit (r ! 6) k \<or> (es = [] \<and> k = 4)"
  proof (cases "k < 8")
    case True
    then have "(48 + k) div 8 = 6" "(48 + k) mod 8 = k" by presburger+
    with True show ?thesis using assms(1)
      by (auto simp: six nth_to_le_bytes bit_views array_bit_def bit_or_iff bit_status_mask)
  next
    case False
    then have "\<not> bit (b :: u8) k" for b using bit_imp_le_length [of b k] by auto
    with False show ?thesis by auto
  qed
  show "linked_registers r es cid regs ! k = r ! k"
    if "k < 256" "k \<noteq> 6" "k \<noteq> tail_ptr 0x34 es" "k < s \<or> s + 2 + length regs \<le> k"
    using frame [of k] r3 [of k] seven that by (cases "k = 7") auto
qed

lemma caps_inv_linked:
  assumes inv: "caps_inv c es" and fit: "s + 2 + length regs \<le> 255" and s: "s = align_dword (caps_end es)"
    and "length bits = length regs"
    and c': "c' = c\<lparr>cs_registers := linked_registers (cs_registers c) es cid regs,
      cs_writable_bits := patch (cs_writable_bits c) (s + 2) bits, cs_last_cap_size := length regs\<rparr>"
  shows "caps_inv c' (es @ [\<lparr>ent_id = cid, ent_start = s, ent_size = length regs\<rparr>])"
proof -
  let ?e = "\<lparr>ent_id = cid, ent_start = s, ent_size = length regs\<rparr>"
  have wf: "config_wf c" and lay: "caps_layout 0x40 es" and chain: "cap_chain (cs_registers c) 0x34 es"
    and wb: "cs_writable_bits c ! 0x34 = 0" "\<not> bit (cs_writable_bits c ! 6) 4"
      "\<And>e. e \<in> set es \<Longrightarrow> cs_writable_bits c ! ent_start e = 0 \<and> cs_writable_bits c ! (ent_start e + 1) = 0"
      "\<And>k. caps_end es \<le> k \<Longrightarrow> k < 256 \<Longrightarrow> cs_writable_bits c ! k = 0"
    and st: "es \<noteq> [] \<Longrightarrow> bit (cs_registers c ! 6) 4"
    using inv by (auto simp: caps_inv_def)
  have end_s: "caps_end es \<le> s" "4 dvd s" using align_dword_props [of "caps_end es"] s by simp_all
  have below: "ent_start a + 2 \<le> s" if "a \<in> set es" for a
    using layout_below_end [OF lay that] end_s by simp
  have s40: "0x40 \<le> s" using end_s caps_end_ge [OF lay] by simp
  have regs: "length (cs_registers c) = 256" using wf by simp
  note linked = nth_linked [OF regs lay, of regs s, folded s, OF fit refl]
  have chain': "cap_chain (linked_registers (cs_registers c) es cid regs) 0x34 (es @ [?e])"
  proof (rule cap_chain_snoc [OF chain lay])
    fix k assume k: "k < ent_start ?e" "0x34 \<le> k" "k \<noteq> tail_ptr 0x34 es"
    then show "linked_registers (cs_registers c) es cid regs ! k = cs_registers c ! k"
      using linked(7) [of k] fit by simp
  next
    fix a assume "a \<in> set es"
    then show "ent_start a + 1 < ent_start ?e" using below [of a] by simp
  qed (use linked(2,3,5) s40 in simp_all)
  have lay': "caps_layout 0x40 (es @ [?e])" by (rule caps_layout_snoc [OF lay]) (use end_s s40 fit in simp_all)
  have bits': "cs_writable_bits c' ! k = cs_writable_bits c ! k" if "k < s + 2 \<or> s + 2 + length regs \<le> k" "k < 256" for k
    using that wf assms(4) fit by (auto simp: c' nth_patch)
  have "config_wf c'" using wf linked(1) assms(4) fit by (simp add: c')
  moreover have "cs_writable_bits c' ! ent_start e = 0 \<and> cs_writable_bits c' ! (ent_start e + 1) = 0"
    if "e \<in> set (es @ [?e])" for e
    using that bits' [of "ent_start e"] bits' [of "ent_start e + 1"] below [of e] wb(3) [of e] wb(4) end_s s40 fit
    by auto
  moreover have "cs_writable_bits c' ! k = 0" if "caps_end (es @ [?e]) \<le> k" "k < 256" for k
    using that bits' [of k] wb(4) [of k] end_s by (auto simp: caps_end_def)
  moreover have "bit (cs_registers c' ! 6) 4" using linked(6) [of _ 4] st by (auto simp: c')
  moreover have "cs_writable_bits c' ! 0x34 = 0" "\<not> bit (cs_writable_bits c' ! 6) 4"
    using bits' [of "0x34"] bits' [of 6] wb(1,2) s40 by simp_all
  ultimately show ?thesis using lay' chain' unfolding caps_inv_def by (simp add: c')
qed

text \<open>The effect of \<open>add_capability\<close>, for a capability that keeps its contract.\<close>

lemma add_capability_effect:
  assumes "caps_inv c es" and "capability_contract cap"
    and "cid = capability_id_u8 (cap_id cap)" and "s = align_dword (caps_end es)"
  shows "(caps_add es cid (cap_size cap) = None \<longrightarrow> (\<exists>e. add_capability c cap = Some (Inl e, c))) \<and>
    (\<forall>es'. caps_add es cid (cap_size cap) = Some es' \<longrightarrow>
      (\<exists>c'. add_capability c cap = Some (Inr (s + 2), c') \<and> caps_inv c' es' \<and>
        cap_registers cap (take (cap_size cap) (drop (s + 2) (cs_registers c))) =
          Some (take (cap_size cap) (drop (s + 2) (cs_registers c'))) \<and>
        cs_bars c' = cs_bars c \<and>
        (\<forall>k < 256. k \<notin> {6, tail_ptr 0x34 es} \<and> (k < s \<or> s + 2 + cap_size cap \<le> k) \<longrightarrow>
           cs_registers c' ! k = cs_registers c ! k \<and> cs_writable_bits c' ! k = cs_writable_bits c ! k)))"
proof (cases "s + 2 + cap_size cap \<le> 255")
  case True
  obtain regs bits where data: "cap_registers cap (take (cap_size cap) (drop (s + 2) (cs_registers c))) = Some regs"
      "cap_writable_bits cap (take (cap_size cap) (drop (s + 2) (cs_writable_bits c))) = Some bits"
    and len: "length regs = cap_size cap" "length bits = cap_size cap"
    using capability_contract.registers_fill [OF assms(2), of "take (cap_size cap) (drop (s + 2) (cs_registers c))"]
      capability_contract.writable_bits_fill [OF assms(2), of "take (cap_size cap) (drop (s + 2) (cs_writable_bits c))"]
      assms(1) True by (auto simp: caps_inv_def)
  define c' where "c' = c\<lparr>cs_registers := linked_registers (cs_registers c) es cid regs,
      cs_writable_bits := patch (cs_writable_bits c) (s + 2) bits, cs_last_cap_size := cap_size cap\<rparr>"
  have add: "add_capability c cap = Some (Inr (s + 2), c')"
    using add_capability_Ok [OF assms(1) _ data [unfolded assms(4)] len] True
    by (simp add: assms(3,4) c'_def)
  note linked = nth_linked [of "cs_registers c" es regs s, folded assms(4)]
  have wf: "config_wf c" "caps_layout 0x40 es" using assms(1) by (simp_all add: caps_inv_def)
  have "caps_add es cid (cap_size cap) = Some (es @ [\<lparr>ent_id = cid, ent_start = s, ent_size = length regs\<rparr>])"
    using True len by (simp add: caps_add_def Let_def assms(4))
  moreover have "caps_inv c' (es @ [\<lparr>ent_id = cid, ent_start = s, ent_size = length regs\<rparr>])"
    by (rule caps_inv_linked [OF assms(1) _ assms(4)]) (use True len in \<open>simp_all add: c'_def\<close>)
  moreover have "take (cap_size cap) (drop (s + 2) (cs_registers c')) = regs"
    using linked(4) wf True len by (simp add: c'_def)
  moreover have "cs_registers c' ! k = cs_registers c ! k \<and> cs_writable_bits c' ! k = cs_writable_bits c ! k"
    if "k < 256" "k \<notin> {6, tail_ptr 0x34 es}" "k < s \<or> s + 2 + cap_size cap \<le> k" for k
    using linked(7) [of k] wf True len that by (auto simp: c'_def nth_patch)
  ultimately show ?thesis using add data(1) by (auto simp: c'_def)
next
  case False
  then have "caps_add es cid (cap_size cap) = None" using assms(4) by (simp add: caps_add_def)
  moreover have "\<exists>e. set_capability_data c cap (s + 2) = Some (Inl e, c)"
    by (rule set_capability_data_Err) (use False in simp)
  ultimately show ?thesis
    by (auto simp: add_capability_def insert_position [OF assms(1)] Let_def cap_data_offset_def assms(4))
qed

section \<open>Guest writes and updates\<close>

lemma bit_patch_masked_readonly:
  assumes "off + length data \<le> length arr" and "length bits = length arr" and "k < length arr"
    and "\<not> bit (bits ! k) j" and "j < 8"
  shows "bit (patch_masked arr bits off data ! k) j = bit (arr ! k) j"
proof -
  have d: "(8 * k + j) div 8 = k" "(8 * k + j) mod 8 = j" using assms(5) by presburger+
  have "array_bit (patch_masked arr bits off data) (8 * k + j) = array_bit arr (8 * k + j)"
    using assms d by (subst array_bit_patch_masked) (auto simp: array_bit_def)
  then show ?thesis using assms(5) by (simp add: array_bit_def)
qed

lemma nth_patch_masked_readonly:
  assumes "off + length data \<le> length arr" and "length bits = length arr" and "k < length arr" and "bits ! k = 0"
  shows "patch_masked arr bits off data ! k = arr ! k"
  by (rule bit_word_eqI) (use assms bit_patch_masked_readonly in simp)

text \<open>Which parts of the state the capability list depends on.\<close>

lemma caps_inv_frame:
  assumes "caps_inv c es" and "config_wf c'" and "cs_last_cap_size c' = cs_last_cap_size c"
    and "\<And>k. k < 256 \<Longrightarrow> k = 0x34 \<or> k = 6 \<or> (\<exists>e \<in> set es. k = ent_start e \<or> k = ent_start e + 1) \<or> caps_end es \<le> k \<Longrightarrow>
      cs_writable_bits c' ! k = cs_writable_bits c ! k"
    and "\<And>k. k < 256 \<Longrightarrow> k = 0x34 \<or> (\<exists>e \<in> set es. k = ent_start e \<or> k = ent_start e + 1) \<Longrightarrow>
      cs_registers c' ! k = cs_registers c ! k"
    and "bit (cs_registers c' ! 6) 4 = bit (cs_registers c ! 6) 4"
  shows "caps_inv c' es"
proof -
  have lay: "caps_layout 0x40 es" using assms(1) by (simp add: caps_inv_def)
  have small: "ent_start e + 1 < 256" if "e \<in> set es" for e using caps_layout_entry(3) [OF lay that] by simp
  have "cap_chain (cs_registers c') 0x34 es = cap_chain (cs_registers c) 0x34 es"
  proof (rule cap_chain_cong)
    fix e assume e: "e \<in> set es"
    show "cs_registers c' ! ent_start e = cs_registers c ! ent_start e \<and>
        cs_registers c' ! (ent_start e + 1) = cs_registers c ! (ent_start e + 1)"
      using assms(5) [of "ent_start e"] assms(5) [of "ent_start e + 1"] small [OF e] e by auto
  qed (use assms(5) in simp)
  moreover have "cs_writable_bits c' ! ent_start e = cs_writable_bits c ! ent_start e \<and>
      cs_writable_bits c' ! (ent_start e + 1) = cs_writable_bits c ! (ent_start e + 1)" if "e \<in> set es" for e
    using assms(4) [of "ent_start e"] assms(4) [of "ent_start e + 1"] small [OF that] that by auto
  ultimately show ?thesis using assms by (simp add: caps_inv_def)
qed

lemma caps_inv_guest_write:
  assumes inv: "caps_inv c es" and w: "cs_write_checked c offset data = Some (r, c')" "offset + length data < 2 ^ 64"
  shows "caps_inv c' es"
proof (cases "access_ok offset (length data)")
  case True
  have wf: "config_wf c" and lay: "caps_layout 0x40 es" using inv by (simp_all add: caps_inv_def)
  have c': "c' = cs_store (patch_masked (cs_registers c) (cs_writable_bits c) offset data) c"
    using w(1) cs_write_checked_Ok [OF wf True] by simp
  have fit: "offset + length data \<le> 256" using True by (simp add: access_ok_def)
  have zero: "cs_writable_bits c ! k = 0"
    if "k = 0x34 \<or> (\<exists>e \<in> set es. k = ent_start e \<or> k = ent_start e + 1)" for k
    using that inv by (auto simp: caps_inv_def)
  have "\<not> bit (cs_writable_bits c ! 6) 4" using inv by (simp add: caps_inv_def)
  then show ?thesis using wf fit
    by (intro caps_inv_frame [OF inv])
      (simp_all add: c' nth_patch_masked_readonly bit_patch_masked_readonly zero)
next
  case False
  have "config_wf c" using inv by (simp add: caps_inv_def)
  then obtain e where "cs_write_checked c offset data = Some (Inl e, c)"
    using cs_write_checked_Err [OF _ False w(2)] by blast
  with w(1) inv show ?thesis by simp
qed

lemma caps_inv_update:
  assumes inv: "caps_inv c es" and e: "e \<in> set es"
    and len: "length regs \<le> ent_size e" "length bits \<le> ent_size e"
  shows "caps_inv (c\<lparr>cs_registers := patch (cs_registers c) (ent_start e + 2) regs,
    cs_writable_bits := patch (cs_writable_bits c) (ent_start e + 2) bits\<rparr>) es" (is "caps_inv ?c es")
proof -
  have wf: "config_wf c" and lay: "caps_layout 0x40 es" using inv by (simp_all add: caps_inv_def)
  have fit: "0x40 \<le> ent_start e" "ent_start e + 2 + ent_size e \<le> 255" using caps_layout_entry [OF lay e] by simp_all
  have apart: "ent_start a + 2 \<le> ent_start e + 2 \<or> ent_start e + 2 + ent_size e \<le> ent_start a" if "a \<in> set es" for a
    using layout_apart [OF lay e that] by auto
  have same: "cs_writable_bits ?c ! k = cs_writable_bits c ! k \<and> cs_registers ?c ! k = cs_registers c ! k"
    if "k < ent_start e + 2 \<or> ent_start e + 2 + ent_size e \<le> k" "k < 256" for k
    using that wf len fit by (auto simp: nth_patch)
  have keep: "k < ent_start e + 2 \<or> ent_start e + 2 + ent_size e \<le> k"
    if "k = 0x34 \<or> k = 6 \<or> (\<exists>a \<in> set es. k = ent_start a \<or> k = ent_start a + 1) \<or> caps_end es \<le> k" for k
    using that apart fit layout_below_end [OF lay e] by fastforce
  show ?thesis
    by (rule caps_inv_frame [OF inv]) (use wf len fit same keep in auto)
qed

end
