(* ===== verification/Config_Steps.thy ===== *)
theory Config_Steps
  imports Config_Caps
begin

text \<open>
  The life of a configuration space: the states its operations reach from \<open>new()\<close>, by whatever
  sequence of BAR and capability registrations and guest writes, and what holds in all of them.
\<close>

lemma take_drop_cong:
  assumes "length a = length b" and "r + n \<le> length b" and "\<And>k. r \<le> k \<Longrightarrow> k < r + n \<Longrightarrow> a ! k = b ! k"
  shows "take n (drop r a) = take n (drop r b)"
  by (rule nth_equalityI) (use assms in auto)

lemma dword_at_cong:
  assumes "length a = length b" and "r + 4 \<le> length b" and "\<And>k. r \<le> k \<Longrightarrow> k < r + 4 \<Longrightarrow> a ! k = b ! k"
  shows "dword_at a r = dword_at b r"
  unfolding dword_at_def using take_drop_cong [OF assms] by simp

lemma word_at_cong:
  assumes "length a = length b" and "r + 2 \<le> length b" and "\<And>k. r \<le> k \<Longrightarrow> k < r + 2 \<Longrightarrow> a ! k = b ! k"
  shows "word_at a r = word_at b r"
  unfolding word_at_def using take_drop_cong [OF assms] by simp

text \<open>The BARs do not depend on the bytes from offset 0x28 on, nor on the status register.\<close>

lemma bars_inv_upper:
  assumes "bars_inv c" and "config_wf c'" and "cs_bars c' = cs_bars c"
    and "\<And>k. 4 \<le> k \<Longrightarrow> k < 0x28 \<Longrightarrow> k \<noteq> 6 \<Longrightarrow> cs_registers c' ! k = cs_registers c ! k"
    and "\<And>k. 4 \<le> k \<Longrightarrow> k < 0x28 \<Longrightarrow> k \<noteq> 6 \<Longrightarrow> cs_writable_bits c' ! k = cs_writable_bits c ! k"
  shows "bars_inv c'"
proof -
  have wf: "config_wf c" using assms(1) by simp
  have bar: "dword_at (cs_writable_bits c') (bar_reg i) = dword_at (cs_writable_bits c) (bar_reg i)"
    "dword_at (cs_registers c') (bar_reg i) = dword_at (cs_registers c) (bar_reg i)" if "i < 6" for i
    using that wf assms(2) by (intro dword_at_cong assms(4,5); simp add: bar_reg_def)+
  have cmd: "word_at (cs_writable_bits c') 4 = word_at (cs_writable_bits c) 4"
    using wf assms(2) by (intro word_at_cong assms(5)) simp_all
  show ?thesis
    by (rule bars_inv_frame [OF assms(1-3)]) (simp_all add: bar fixed_bits_def cmd)
qed

lemma bars_inv_add_capability:
  assumes "bars_inv c" and inv: "caps_inv c es" and con: "capability_contract cap"
    and "add_capability c cap = Some (r, c')"
  shows "bars_inv c'"
proof -
  let ?s = "align_dword (caps_end es)"
  let ?cid = "capability_id_u8 (cap_id cap)"
  have lay: "caps_layout 0x40 es" using inv by (simp add: caps_inv_def)
  have s: "0x40 \<le> ?s" using caps_end_ge [OF lay] align_dword_props(1) [of "caps_end es"] by simp
  have t: "0x34 \<le> tail_ptr 0x34 es" by (rule tail_ptr_lower [OF lay]) simp
  note eff = add_capability_effect [OF inv con refl refl]
  show ?thesis
  proof (cases "caps_add es ?cid (cap_size cap)")
    case None
    then show ?thesis using eff assms(1,4) by auto
  next
    case (Some es')
    with eff assms(4) have c': "config_wf c'" "cs_bars c' = cs_bars c"
      and same: "\<And>k. k < 256 \<Longrightarrow> k \<notin> {6, tail_ptr 0x34 es} \<Longrightarrow> k < ?s \<or> ?s + 2 + cap_size cap \<le> k \<Longrightarrow>
           cs_registers c' ! k = cs_registers c ! k \<and> cs_writable_bits c' ! k = cs_writable_bits c ! k"
      by (auto simp: caps_inv_def)
    show ?thesis
      by (rule bars_inv_upper [OF assms(1) c']; use same s t in force)
  qed
qed

text \<open>A refused \<open>add_bar\<close> leaves the space alone.\<close>

lemma add_bar_Err:
  assumes "config_wf c" and "add_bar c bar = Some (Inl e, c')"
  shows "c' = c"
  using assms
  by (auto simp: add_bar_def add_bar_mask_def Let_def option_simps bind_eq_Some_conv bind_result_def
      add_writable_word_def set_writable_dword_def
      split: option.splits if_splits sum.splits PciBarType.splits prod.splits)

lemma caps_inv_add_bar:
  assumes inv: "caps_inv c es" and ok: "add_bar c bar = Some (Inr (), c')"
  shows "caps_inv c' es"
proof -
  have wf: "config_wf c" and lay: "caps_layout 0x40 es" using inv by (simp_all add: caps_inv_def)
  note eff = add_bar_effect [OF wf ok refl]
  have start: "0x40 \<le> ent_start e" if "e \<in> set es" for e using caps_layout_entry(1) [OF lay that] .
  have far: "k < 4 \<or> 6 \<le> k \<and> k < 0x10 \<or> 0x28 \<le> k"
    if "k = 0x34 \<or> k = 6 \<or> (\<exists>e \<in> set es. k = ent_start e \<or> k = ent_start e + 1) \<or> caps_end es \<le> k" for k
    using that start caps_end_ge [OF lay] by fastforce
  have far': "k < 0x10 \<or> 0x28 \<le> k" if "k = 0x34 \<or> (\<exists>e \<in> set es. k = ent_start e \<or> k = ent_start e + 1)" for k
    using that start by fastforce
  show ?thesis
    by (rule caps_inv_frame [OF inv eff(2) eff(4)]) (use eff(11,12) far far' in \<open>simp_all only:, simp\<close>)
qed

section \<open>Reachable states\<close>

text \<open>
  The operations on a configuration space, with the list of the capabilities registered so far. The
  one restriction is on \<open>update_capability\<close>, which does not compare sizes: data longer than those the
  capability was added with would overwrite the header of the next one, so they are left out here.
\<close>

inductive config_reach :: "config_space \<Rightarrow> cap_entry list \<Rightarrow> bool" where
  reach_new: "config_new = Some c \<Longrightarrow> config_reach c []"
| reach_guest_write: "config_reach c es \<Longrightarrow> offset + length data < 2 ^ 64 \<Longrightarrow>
    cs_write_checked c offset data = Some (r, c') \<Longrightarrow> config_reach c' es"
| reach_add_bar: "config_reach c es \<Longrightarrow> add_bar c bar = Some (r, c') \<Longrightarrow> config_reach c' es"
| reach_add_capability: "config_reach c es \<Longrightarrow> capability_contract cap \<Longrightarrow>
    caps_add es (capability_id_u8 (cap_id cap)) (cap_size cap) = Some es' \<Longrightarrow>
    add_capability c cap = Some (Inr offset, c') \<Longrightarrow> config_reach c' es'"
| reach_update_capability: "config_reach c es \<Longrightarrow> capability_contract cap \<Longrightarrow>
    \<forall>e \<in> set es. ent_start e + 2 = offset \<longrightarrow> cap_size cap \<le> ent_size e \<Longrightarrow>
    update_capability c cap offset = Some (r, c') \<Longrightarrow> config_reach c' es"
| reach_allow_bus_master: "config_reach c es \<Longrightarrow> allow_bus_master c = Some c' \<Longrightarrow> config_reach c' es"

lemma update_capability_found:
  assumes inv: "caps_inv c es" and con: "capability_contract cap" and e: "e \<in> set es"
    and "ent_id e = capability_id_u8 (cap_id cap)" and "cap_size cap \<le> ent_size e"
  obtains regs bits where
    "cap_registers cap (take (cap_size cap) (drop (ent_start e + 2) (cs_registers c))) = Some regs"
    "cap_writable_bits cap (take (cap_size cap) (drop (ent_start e + 2) (cs_writable_bits c))) = Some bits"
    "length regs = cap_size cap" "length bits = cap_size cap"
    "update_capability c cap (ent_start e + 2) = Some (Inr (),
      c\<lparr>cs_registers := patch (cs_registers c) (ent_start e + 2) regs,
        cs_writable_bits := patch (cs_writable_bits c) (ent_start e + 2) bits\<rparr>)"
proof -
  have wf: "config_wf c" and lay: "caps_layout 0x40 es" using inv by (simp_all add: caps_inv_def)
  have fit: "ent_start e + 2 + cap_size cap \<le> 255" using caps_layout_entry(3) [OF lay e] assms(5) by simp
  obtain regs bits where data:
    "cap_registers cap (take (cap_size cap) (drop (ent_start e + 2) (cs_registers c))) = Some regs"
    "cap_writable_bits cap (take (cap_size cap) (drop (ent_start e + 2) (cs_writable_bits c))) = Some bits"
    "length regs = cap_size cap" "length bits = cap_size cap"
    using capability_contract.registers_fill [OF con, of "take (cap_size cap) (drop (ent_start e + 2) (cs_registers c))"]
      capability_contract.writable_bits_fill [OF con, of "take (cap_size cap) (drop (ent_start e + 2) (cs_writable_bits c))"]
      wf fit by auto
  let ?P = "\<lambda>(header, offset). hdr_cap_id header = capability_id_u8 (cap_id cap) \<and> ent_start e + 2 = offset"
  let ?x = "(\<lparr>hdr_cap_id = ent_id e, hdr_next_pointer = cs_registers c ! (ent_start e + 1)\<rparr>, ent_start e + 2)"
  have "?x \<in> set (cap_items (cs_registers c) es)" unfolding cap_items_def using e by (simp only: set_map image_eqI)
  moreover have "?P ?x" using assms(4) by simp
  ultimately have "List.find ?P (cap_items (cs_registers c) es) \<noteq> None" unfolding find_None_iff by blast
  then obtain x where "List.find ?P (cap_items (cs_registers c) es) = Some x" by auto
  then have "update_capability c cap (ent_start e + 2) = set_capability_data c cap (ent_start e + 2)"
    by (simp add: update_capability_def capability_find_eq [OF inv])
  with set_capability_data_Ok [OF wf fit data] data show thesis using that by auto
qed

lemma update_capability_missing:
  assumes "caps_inv c es" and "\<forall>e \<in> set es. ent_id e \<noteq> capability_id_u8 (cap_id cap) \<or> ent_start e + 2 \<noteq> offset"
  shows "update_capability c cap offset = Some (Inl (CapabilityNotFound (capability_id_u8 (cap_id cap))), c)"
proof -
  have "List.find (\<lambda>(header, off). hdr_cap_id header = capability_id_u8 (cap_id cap) \<and> offset = off) (cap_items (cs_registers c) es) = None"
    using assms(2) unfolding find_None_iff cap_items_def by auto
  then show ?thesis by (simp add: update_capability_def capability_find_eq [OF assms(1)])
qed

lemma caps_inv_new:
  assumes "config_new = Some c"
  shows "caps_inv c []"
proof -
  have "config_wf c" using config_wf_new assms by (metis option.inject)
  moreover have "cs_registers c = patch (replicate 256 0) 0 (to_le_bytes (0xFFFF :: u16))"
    "cs_writable_bits c = replicate 256 0"
    using assms by (auto simp: config_new_def cs_access_defs cs_block.set_register_Some)
  ultimately show ?thesis by (simp add: caps_inv_def nth_patch del: config_wf_lengths)
qed

lemma bars_inv_new:
  assumes "config_new = Some c"
  shows "bars_inv c"
proof -
  have "config_wf c" using config_wf_new assms by (metis option.inject)
  moreover have "cs_bars c = replicate 6 None"
    using assms by (auto simp: config_new_def cs_access_defs cs_block.set_register_Some)
  ultimately show ?thesis by (intro bars_inv_no_bars) simp_all
qed

lemma allow_bus_master_effect:
  assumes "config_wf c"
  shows "allow_bus_master c = Some (c\<lparr>cs_writable_bits := or_patch (cs_writable_bits c) 4 (to_le_bytes (4 :: u16))\<rparr>)"
  using assms by (simp add: allow_bus_master_def add_writable_word_def option_simps)

lemma bars_inv_allow_bus_master:
  assumes "bars_inv c" and "allow_bus_master c = Some c'"
  shows "bars_inv c'"
proof -
  have c': "c' = c\<lparr>cs_writable_bits := or_patch (cs_writable_bits c) 4 (to_le_bytes (4 :: u16))\<rparr>"
    using assms allow_bus_master_effect [of c] by simp
  have "word_at (cs_writable_bits c) 4 AND NOT (word_at (cs_writable_bits c) 4 OR 4) = 0"
    by (rule sub_mask_or) simp
  then show ?thesis
    by (intro bars_inv_frame [OF assms(1)])
      (use assms(1) in \<open>simp_all add: c' bar_reg_def fixed_bits_def del: bit.de_Morgan_disj\<close>)
qed

lemma caps_inv_allow_bus_master:
  assumes "caps_inv c es" and "allow_bus_master c = Some c'"
  shows "caps_inv c' es"
proof -
  have wf: "config_wf c" and lay: "caps_layout 0x40 es" using assms(1) by (simp_all add: caps_inv_def)
  have start: "0x40 \<le> ent_start e" if "e \<in> set es" for e using caps_layout_entry(1) [OF lay that] .
  have far: "6 \<le> k"
    if "k = 0x34 \<or> k = 6 \<or> (\<exists>e \<in> set es. k = ent_start e \<or> k = ent_start e + 1) \<or> caps_end es \<le> k" for k
    using that start caps_end_ge [OF lay] by fastforce
  have c': "c' = c\<lparr>cs_writable_bits := or_patch (cs_writable_bits c) 4 (to_le_bytes (4 :: u16))\<rparr>"
    using assms(2) allow_bus_master_effect [OF wf] by simp
  show ?thesis
  proof (rule caps_inv_frame [OF assms(1)])
    fix k assume "k < 256"
      "k = 0x34 \<or> k = 6 \<or> (\<exists>e \<in> set es. k = ent_start e \<or> k = ent_start e + 1) \<or> caps_end es \<le> k"
    then show "cs_writable_bits c' ! k = cs_writable_bits c ! k"
      using far [of k] wf by (simp add: c' nth_or_patch_other)
  qed (use wf in \<open>simp_all add: c'\<close>)
qed

lemma config_reach_inv:
  assumes "config_reach c es"
  shows "bars_inv c \<and> caps_inv c es"
  using assms
proof (induction rule: config_reach.induct)
  case (reach_add_bar c es bar r c')
  then show ?case
    using add_bar_Err [of c bar _ c'] bars_inv_add_bar [of c bar c'] caps_inv_add_bar [of c es bar c']
    by (cases r) (auto simp: old.unit.exhaust)
next
  case (reach_add_capability c es cap es' offset c')
  then show ?case
    using add_capability_effect [of c es cap, OF _ _ refl refl] bars_inv_add_capability [of c es cap _ c'] by force
next
  case (reach_update_capability c es cap offset r c')
  then have inv: "bars_inv c" "caps_inv c es" by simp_all
  show ?case
  proof (cases "\<exists>e \<in> set es. ent_id e = capability_id_u8 (cap_id cap) \<and> ent_start e + 2 = offset")
    case True
    then obtain e where e: "e \<in> set es" "ent_id e = capability_id_u8 (cap_id cap)" "ent_start e + 2 = offset" by blast
    with reach_update_capability have sz: "cap_size cap \<le> ent_size e" by blast
    from update_capability_found [OF inv(2) reach_update_capability.hyps(2) e(1,2) sz] obtain regs bits where
      len: "length regs = cap_size cap" "length bits = cap_size cap"
      and c': "c' = c\<lparr>cs_registers := patch (cs_registers c) (ent_start e + 2) regs,
        cs_writable_bits := patch (cs_writable_bits c) (ent_start e + 2) bits\<rparr>"
      using reach_update_capability.hyps(4) e(3) by (metis Pair_inject option.inject)
    have caps: "caps_inv c' es"
      unfolding c' by (rule caps_inv_update) (use inv e(1) sz len in simp_all)
    have fit: "0x40 \<le> ent_start e" "ent_start e + 2 + cap_size cap \<le> 255"
      using inv(2) sz caps_layout_entry [of "0x40" es e] e(1) by (auto simp: caps_inv_def)
    have "bars_inv c'"
      by (rule bars_inv_upper [of c]) (use inv caps fit len in \<open>auto simp: c' nth_patch caps_inv_def\<close>)
    with caps show ?thesis by blast
  next
    case False
    with update_capability_missing [OF inv(2), of cap offset] reach_update_capability.hyps(4) have "c' = c" by auto
    with inv show ?thesis by simp
  qed
qed (auto intro: bars_inv_new caps_inv_new bars_inv_guest_write caps_inv_guest_write
      bars_inv_allow_bus_master caps_inv_allow_bus_master)

section \<open>Properties\<close>

text \<open>A capability of two bytes for the witnesses, and the space that has it and a BAR.\<close>

definition sample_cap :: pci_capability where
  "sample_cap = \<lparr>cap_id = VendorSpecific, cap_size = 2, cap_registers = (\<lambda>_. Some [0xAA, 0xBB]),
     cap_writable_bits = (\<lambda>_. Some [0, 0xFF])\<rparr>"

interpretation sample_contract: capability_contract sample_cap
  by unfold_locales (simp_all add: sample_cap_def)

lemma sample_cap_added:
  obtains c0 c1 c where "config_new = Some c0" and "add_bar c0 sample_bar32 = Some (Inr (), c1)"
    and "add_capability c1 sample_cap = Some (Inr 0x42, c)"
    and "config_reach c1 []" and "config_reach c [\<lparr>ent_id = 9, ent_start = 0x40, ent_size = 2\<rparr>]"
proof -
  obtain c0 where c0: "config_new = Some c0" using config_wf_new by blast
  have "map_option fst (Option.bind config_new (\<lambda>c. add_bar c sample_bar32)) = Some (Inr ())" by code_simp
  then obtain c1 where c1: "add_bar c0 sample_bar32 = Some (Inr (), c1)" unfolding c0 by auto
  have r1: "config_reach c1 []" by (rule reach_add_bar [OF reach_new [OF c0] c1])
  have caps: "caps_add [] (capability_id_u8 (cap_id sample_cap)) (cap_size sample_cap) =
      Some [\<lparr>ent_id = 9, ent_start = 0x40, ent_size = 2\<rparr>]"
    by (simp add: caps_add_def caps_end_def align_dword_def sample_cap_def)
  have "caps_inv c1 []" using config_reach_inv [OF r1] by blast
  from add_capability_effect [OF this sample_contract.capability_contract_axioms refl refl] caps
  obtain c where c: "add_capability c1 sample_cap = Some (Inr 0x42, c)"
    by (auto simp: caps_end_def align_dword_def)
  have "config_reach c [\<lparr>ent_id = 9, ent_start = 0x40, ent_size = 2\<rparr>]"
    by (rule reach_add_capability [OF r1 sample_contract.capability_contract_axioms caps c])
  with c0 c1 c r1 show thesis using that by blast
qed

text \<open>
  C12: In every state a configuration space reaches from \<open>new()\<close> by registering BARs and capabilities,
  updating them and guest writes, each BAR slot keeps its size mask, its type bits and (for 64 bits)
  its second register, and the registers hold exactly the list of the registered capabilities, linked
  in order, aligned, disjoint and inside the device specific area, with read-only headers.
\<close>

theorem config_invariant:
  assumes "config_reach c es"
  shows "bars_inv c \<and> caps_inv c es"
  using assms by (rule config_reach_inv)

lemma config_invariant_witness:
  "\<exists>c0 c1 c. config_new = Some c0 \<and> add_bar c0 sample_bar32 = Some (Inr (), c1) \<and>
     add_capability c1 sample_cap = Some (Inr 0x42, c) \<and>
     bars_inv c \<and> caps_inv c [\<lparr>ent_id = 9, ent_start = 0x40, ent_size = 2\<rparr>]"
  by (rule sample_cap_added) (use config_invariant in blast)

text \<open>
  C13: Adding a capability appends it to the list. It succeeds exactly when header and data fit below
  the end of the device specific area; then the list the registers hold is the old list with the new
  entry, its data is what the capability provides, its offset is returned, and every other byte keeps
  its value but the link of the previous entry and the status bit. When it does not fit the space is
  unchanged.
\<close>

theorem add_capability_appends:
  assumes "caps_inv c es" and "capability_contract cap"
    and "cid = capability_id_u8 (cap_id cap)" and "s = align_dword (caps_end es)"
  shows "(caps_add es cid (cap_size cap) = None \<longrightarrow> (\<exists>e. add_capability c cap = Some (Inl e, c))) \<and>
    (\<forall>es'. caps_add es cid (cap_size cap) = Some es' \<longrightarrow>
      (\<exists>c'. add_capability c cap = Some (Inr (s + 2), c') \<and> caps_inv c' es' \<and>
        cap_registers cap (take (cap_size cap) (drop (s + 2) (cs_registers c))) =
          Some (take (cap_size cap) (drop (s + 2) (cs_registers c'))) \<and>
        cs_bars c' = cs_bars c \<and>
        (\<forall>k < 256. k \<notin> {6, tail_ptr 0x34 es} \<and> (k < s \<or> s + 2 + cap_size cap \<le> k) \<longrightarrow>
           cs_registers c' ! k = cs_registers c ! k \<and> cs_writable_bits c' ! k = cs_writable_bits c ! k)))"
  by (rule add_capability_effect [OF assms])

lemma add_capability_appends_witness:
  "\<exists>c c'. config_reach c [] \<and> add_capability c sample_cap = Some (Inr 0x42, c') \<and>
     caps_inv c' [\<lparr>ent_id = 9, ent_start = 0x40, ent_size = 2\<rparr>]"
proof -
  obtain c where c: "config_reach c []" by (rule sample_cap_added)
  then have "caps_inv c []" using config_reach_inv by blast
  from add_capability_appends [OF this sample_contract.capability_contract_axioms refl refl] c show ?thesis
    by (auto simp: caps_add_def caps_end_def align_dword_def sample_cap_def)
qed

text \<open>
  C14: Iterating over the capabilities of a reachable configuration space ends, and visits the
  registered capabilities in order: \<open>last\<close> is the one added last and \<open>find\<close> is the first that
  satisfies the predicate, whatever the driver wrote.
\<close>

theorem capability_iteration:
  assumes "config_reach c es"
  shows "capability_last c = Some (if es = [] then None else Some (last (cap_items (cs_registers c) es))) \<and>
    capability_find c P = Some (List.find P (cap_items (cs_registers c) es))"
  using config_reach_inv [OF assms] capability_last_eq capability_find_eq by blast

lemma capability_iteration_witness:
  "\<exists>c. config_reach c [\<lparr>ent_id = 9, ent_start = 0x40, ent_size = 2\<rparr>] \<and>
     map_option (map_option snd) (capability_last c) = Some (Some 0x42)"
proof -
  obtain c where c: "config_reach c [\<lparr>ent_id = 9, ent_start = 0x40, ent_size = 2\<rparr>]" by (rule sample_cap_added)
  with capability_iteration [OF c] show ?thesis by (auto simp: cap_items_def)
qed

text \<open>
  Updating a capability rewrites its data and nothing else: registers and writable bits outside
  the data keep their values and the list is the same. An offset that is not the data of a registered
  capability with this id is refused with \<open>CapabilityNotFound\<close> and changes nothing.
\<close>

theorem update_capability_data:
  assumes "config_reach c es" and "capability_contract cap" and "cid = capability_id_u8 (cap_id cap)"
  shows "(\<forall>e \<in> set es. ent_id e = cid \<and> ent_size e = cap_size cap \<longrightarrow>
      (\<exists>c'. update_capability c cap (ent_start e + 2) = Some (Inr (), c') \<and> caps_inv c' es \<and>
        cap_registers cap (take (cap_size cap) (drop (ent_start e + 2) (cs_registers c))) =
          Some (take (cap_size cap) (drop (ent_start e + 2) (cs_registers c'))) \<and>
        (\<forall>k < 256. k < ent_start e + 2 \<or> ent_start e + 2 + cap_size cap \<le> k \<longrightarrow>
           cs_registers c' ! k = cs_registers c ! k \<and> cs_writable_bits c' ! k = cs_writable_bits c ! k))) \<and>
    (\<forall>offset. (\<forall>e \<in> set es. ent_id e \<noteq> cid \<or> ent_start e + 2 \<noteq> offset) \<longrightarrow>
      update_capability c cap offset = Some (Inl (CapabilityNotFound cid), c))"
proof (intro conjI ballI allI impI)
  have inv: "caps_inv c es" using config_reach_inv [OF assms(1)] by blast
  then have wf: "config_wf c" and lay: "caps_layout 0x40 es" by (simp_all add: caps_inv_def)
  fix e assume e: "e \<in> set es" "ent_id e = cid \<and> ent_size e = cap_size cap"
  obtain regs bits where data:
    "cap_registers cap (take (cap_size cap) (drop (ent_start e + 2) (cs_registers c))) = Some regs"
    "length regs = ent_size e" "length bits = ent_size e"
    and upd: "update_capability c cap (ent_start e + 2) = Some (Inr (),
      c\<lparr>cs_registers := patch (cs_registers c) (ent_start e + 2) regs,
        cs_writable_bits := patch (cs_writable_bits c) (ent_start e + 2) bits\<rparr>)"
    using update_capability_found [OF inv assms(2) e(1)] e(2) assms(3) by (metis order_refl)
  have "ent_start e + 2 + ent_size e \<le> 255" using caps_layout_entry(3) [OF lay e(1)] .
  then show "\<exists>c'. update_capability c cap (ent_start e + 2) = Some (Inr (), c') \<and> caps_inv c' es \<and>
        cap_registers cap (take (cap_size cap) (drop (ent_start e + 2) (cs_registers c))) =
          Some (take (cap_size cap) (drop (ent_start e + 2) (cs_registers c'))) \<and>
        (\<forall>k < 256. k < ent_start e + 2 \<or> ent_start e + 2 + cap_size cap \<le> k \<longrightarrow>
           cs_registers c' ! k = cs_registers c ! k \<and> cs_writable_bits c' ! k = cs_writable_bits c ! k)"
    using upd data wf e caps_inv_update [OF inv e(1) eq_refl [OF data(2)] eq_refl [OF data(3)]] take_drop_patch [of "ent_start e + 2" regs]
    by (auto simp: nth_patch)
next
  fix offset assume "\<forall>e \<in> set es. ent_id e \<noteq> cid \<or> ent_start e + 2 \<noteq> offset"
  then show "update_capability c cap offset = Some (Inl (CapabilityNotFound cid), c)"
    using update_capability_missing [of c es cap offset] config_reach_inv [OF assms(1)] assms(3) by simp
qed

lemma update_capability_data_witness:
  "\<exists>c c'. config_reach c [\<lparr>ent_id = 9, ent_start = 0x40, ent_size = 2\<rparr>] \<and>
     update_capability c sample_cap 0x42 = Some (Inr (), c') \<and>
     update_capability c sample_cap 0x46 = Some (Inl (CapabilityNotFound 9), c)"
proof -
  obtain c where c: "config_reach c [\<lparr>ent_id = 9, ent_start = 0x40, ent_size = 2\<rparr>]" by (rule sample_cap_added)
  with update_capability_data [OF c sample_contract.capability_contract_axioms refl] show ?thesis
    by (auto simp: sample_cap_def)
qed

section \<open>A cycle of three headers\<close>

text \<open>
  The iterator stops at a header that points back to the previous one. A longer cycle, which a device
  can set up with \<open>set_byte\<close> (no sequence of the operations above does), is not noticed.
\<close>

definition cyclic_config :: config_space where
  "cyclic_config = blank_config\<lparr>cs_registers :=
     (replicate 256 0)[0x34 := 0x40, 0x41 := 0x44, 0x45 := 0x48, 0x49 := 0x40]\<rparr>"

lemma cyclic_steps:
  "\<exists>i. cap_iter_next cyclic_config 0x34 = Some (Some (i, 0x41))"
  "\<exists>i. cap_iter_next cyclic_config 0x41 = Some (Some (i, 0x45))"
  "\<exists>i. cap_iter_next cyclic_config 0x45 = Some (Some (i, 0x49))"
  "\<exists>i. cap_iter_next cyclic_config 0x49 = Some (Some (i, 0x41))"
proof -
  have "map_option (map_option snd) (cap_iter_next cyclic_config 0x34) = Some (Some 0x41)"
    "map_option (map_option snd) (cap_iter_next cyclic_config 0x41) = Some (Some 0x45)"
    "map_option (map_option snd) (cap_iter_next cyclic_config 0x45) = Some (Some 0x49)"
    "map_option (map_option snd) (cap_iter_next cyclic_config 0x49) = Some (Some 0x41)"
    by code_simp+
  then show "\<exists>i. cap_iter_next cyclic_config 0x34 = Some (Some (i, 0x41))"
    "\<exists>i. cap_iter_next cyclic_config 0x41 = Some (Some (i, 0x45))"
    "\<exists>i. cap_iter_next cyclic_config 0x45 = Some (Some (i, 0x49))"
    "\<exists>i. cap_iter_next cyclic_config 0x49 = Some (Some (i, 0x41))"
    by (auto simp: split_paired_all)
qed

lemma cyclic_step:
  assumes "p \<in> {0x34, 0x41, 0x45, 0x49}"
  obtains i p' where "cap_iter_next cyclic_config p = Some (Some (i, p'))" and "p' \<in> {0x34, 0x41, 0x45, 0x49}"
  using assms cyclic_steps by fastforce

text \<open>
  Iterating over a capability list with a cycle of three headers never ends, although the iterator
  is written to avoid recursion: it only compares a header with the one before it.
\<close>

theorem capability_cycle_diverges: "capability_last cyclic_config = None"
proof -
  have "c = cyclic_config \<longrightarrow> p \<notin> {0x34, 0x41, 0x45, 0x49}" if "cap_iter_last c p acc = Some y" for c p acc y
  proof (rule cap_iter_last.raw_induct
      [where P = "\<lambda>c p acc y. c = cyclic_config \<longrightarrow> p \<notin> {0x34, 0x41, 0x45, 0x49}", OF _ that])
    fix iter c p acc y
    assume IH: "\<And>c p acc y. iter c p acc = Some y \<Longrightarrow> c = cyclic_config \<longrightarrow> p \<notin> {0x34, 0x41, 0x45, 0x49}"
      and run: "Option.bind (cap_iter_next c p) (\<lambda>step. case step of None \<Rightarrow> Some acc
        | Some (item, p') \<Rightarrow> iter c p' (Some item)) = Some y"
    show "c = cyclic_config \<longrightarrow> p \<notin> {0x34, 0x41, 0x45, 0x49}"
    proof (intro impI notI)
      assume c: "c = cyclic_config" and "p \<in> {0x34, 0x41, 0x45, 0x49}"
      then obtain i p' where "cap_iter_next c p = Some (Some (i, p'))" "p' \<in> {0x34, 0x41, 0x45, 0x49}"
        using cyclic_step by metis
      then show False using IH [of c p' "Some i" y] run c by simp
    qed
  qed
  then show ?thesis by (cases "capability_last cyclic_config") (auto simp: capability_last_def)
qed

end
