(* ===== verification/Bar_Region.thy ===== *)
theory Bar_Region
  imports Config_Space
begin

text \<open>
  Regions of a BAR and the traits that route an access to them (\<open>bar_region.rs\<close>), the default
  methods of the configuration space handlers (\<open>config_handler.rs\<close>), and the results and events
  the handlers report (\<open>function.rs\<close>).
\<close>

section \<open>Results and events of handlers\<close>

datatype 'r PciHandlerResult = Handled 'r | Unhandled

fun handled :: "'r PciHandlerResult \<Rightarrow> bool" where
  "handled (Handled _) = True"
| "handled Unhandled = False"

datatype PciConfigurationUpdate =
    MsiMessage PciMsiMessage
  | MsiXMessage usize PciMsiMessage
  | BarUpdate PciBar
  | SpaceChanged

text \<open>The default methods of \<open>PciConfigurationSpaceIoHandler\<close>; \<open>'s\<close> is the handler and its context.\<close>

definition default_prepare_read_config ::
    "'s \<times> config_space \<Rightarrow> usize \<Rightarrow> usize \<Rightarrow> ('s \<times> config_space, 'r PciHandlerResult) call" where
  "default_prepare_read_config s offset sz = Some (Inr Unhandled, s)"

definition default_on_write_config ::
    "'s \<times> config_space \<Rightarrow> usize \<Rightarrow> usize \<Rightarrow> ('s \<times> config_space, 'r PciHandlerResult) call" where
  "default_on_write_config s offset sz = Some (Inr Unhandled, s)"

section \<open>Regions\<close>

record PciBarRegionInfo =
  region_bar :: PciBarIndex
  region_offset :: u64
  region_length :: u64

definition access_targets_region :: "PciBarRegionInfo \<Rightarrow> PciBarIndex \<Rightarrow> u64 \<Rightarrow> usize \<Rightarrow> bool" where
  "access_targets_region info bar offset sz \<longleftrightarrow>
     region_bar info = bar \<and>
     range_contains 64 (unat (region_offset info)) (unat (region_length info)) (unat offset) sz"

definition offset_within_region :: "PciBarRegionInfo \<Rightarrow> PciBarIndex \<Rightarrow> u64 \<Rightarrow> usize \<Rightarrow> u64 option" where
  "offset_within_region info bar offset sz =
     (if access_targets_region info bar offset sz then Some (offset - region_offset info) else None)"

section \<open>Handlers of a region\<close>

text \<open>
  The provided methods of \<open>SimplePciBarRegionHandler\<close>: the required ones, \<open>info\<close>, \<open>read_bar\<close> and
  \<open>write_bar\<close>, are arguments. A read also changes the caller's buffer, so it returns it.
\<close>

definition simple_handle_read_bar ::
    "('s \<Rightarrow> PciBarRegionInfo) \<Rightarrow> ('s \<Rightarrow> u64 \<Rightarrow> bytes \<Rightarrow> ('s \<times> bytes, 'r) call) \<Rightarrow>
     's \<Rightarrow> PciBarIndex \<Rightarrow> u64 \<Rightarrow> bytes \<Rightarrow> ('s \<times> bytes, 'r PciHandlerResult) call" where
  "simple_handle_read_bar info read_bar self bar offset data =
     (case offset_within_region (info self) bar offset (length data) of
        None \<Rightarrow> Some (Inr Unhandled, (self, data))
      | Some offset \<Rightarrow> bind_result (read_bar self offset data) (\<lambda>r s. Some (Inr (Handled r), s)))"

definition simple_handle_write_bar ::
    "('s \<Rightarrow> PciBarRegionInfo) \<Rightarrow> ('s \<Rightarrow> u64 \<Rightarrow> bytes \<Rightarrow> ('s, 'r) call) \<Rightarrow>
     's \<Rightarrow> PciBarIndex \<Rightarrow> u64 \<Rightarrow> bytes \<Rightarrow> ('s, 'r PciHandlerResult) call" where
  "simple_handle_write_bar info write_bar self bar offset data =
     (case offset_within_region (info self) bar offset (length data) of
        None \<Rightarrow> Some (Inr Unhandled, self)
      | Some offset \<Rightarrow> bind_result (write_bar self offset data) (\<lambda>r s. Some (Inr (Handled r), s)))"

text \<open>\<open>PciBarRegionHandler\<close>, whose methods also change a context.\<close>

definition region_handle_read_bar ::
    "('s \<Rightarrow> PciBarRegionInfo) \<Rightarrow> ('s \<Rightarrow> u64 \<Rightarrow> bytes \<Rightarrow> 'c \<Rightarrow> ('s \<times> bytes \<times> 'c, 'r) call) \<Rightarrow>
     's \<Rightarrow> PciBarIndex \<Rightarrow> u64 \<Rightarrow> bytes \<Rightarrow> 'c \<Rightarrow> ('s \<times> bytes \<times> 'c, 'r PciHandlerResult) call" where
  "region_handle_read_bar info read_bar self bar offset data context =
     (case offset_within_region (info self) bar offset (length data) of
        None \<Rightarrow> Some (Inr Unhandled, (self, data, context))
      | Some offset \<Rightarrow> bind_result (read_bar self offset data context) (\<lambda>r s. Some (Inr (Handled r), s)))"

definition region_handle_write_bar ::
    "('s \<Rightarrow> PciBarRegionInfo) \<Rightarrow> ('s \<Rightarrow> u64 \<Rightarrow> bytes \<Rightarrow> 'c \<Rightarrow> ('s \<times> 'c, 'r) call) \<Rightarrow>
     's \<Rightarrow> PciBarIndex \<Rightarrow> u64 \<Rightarrow> bytes \<Rightarrow> 'c \<Rightarrow> ('s \<times> 'c, 'r PciHandlerResult) call" where
  "region_handle_write_bar info write_bar self bar offset data context =
     (case offset_within_region (info self) bar offset (length data) of
        None \<Rightarrow> Some (Inr Unhandled, (self, context))
      | Some offset \<Rightarrow> bind_result (write_bar self offset data context) (\<lambda>r s. Some (Inr (Handled r), s)))"

section \<open>Handlers of several regions\<close>

text \<open>
  \<open>PciBarRegionSetHandler\<close>: \<open>info_iter\<close> lists the regions with their identifiers, and the first one
  the access is inside of handles it.
\<close>

definition set_handle_read_bar ::
    "('s \<Rightarrow> ('i \<times> PciBarRegionInfo) list) \<Rightarrow>
     ('s \<Rightarrow> 'i \<Rightarrow> u64 \<Rightarrow> bytes \<Rightarrow> 'c \<Rightarrow> ('s \<times> bytes \<times> 'c, 'r) call) \<Rightarrow>
     's \<Rightarrow> PciBarIndex \<Rightarrow> u64 \<Rightarrow> bytes \<Rightarrow> 'c \<Rightarrow> ('s \<times> bytes \<times> 'c, 'r PciHandlerResult) call" where
  "set_handle_read_bar info_iter read_bar self bar offset data context =
     (case List.find (\<lambda>(_, info). offset_within_region info bar offset (length data) \<noteq> None) (info_iter self) of
        Some (rid, info) \<Rightarrow> do {
          offset \<leftarrow> offset_within_region info bar offset (length data);
          bind_result (read_bar self rid offset data context) (\<lambda>r s. Some (Inr (Handled r), s))
        }
      | None \<Rightarrow> Some (Inr Unhandled, (self, data, context)))"

definition set_handle_write_bar ::
    "('s \<Rightarrow> ('i \<times> PciBarRegionInfo) list) \<Rightarrow>
     ('s \<Rightarrow> 'i \<Rightarrow> u64 \<Rightarrow> bytes \<Rightarrow> 'c \<Rightarrow> ('s \<times> 'c, 'r) call) \<Rightarrow>
     's \<Rightarrow> PciBarIndex \<Rightarrow> u64 \<Rightarrow> bytes \<Rightarrow> 'c \<Rightarrow> ('s \<times> 'c, 'r PciHandlerResult) call" where
  "set_handle_write_bar info_iter write_bar self bar offset data context =
     (case List.find (\<lambda>(_, info). offset_within_region info bar offset (length data) \<noteq> None) (info_iter self) of
        Some (rid, info) \<Rightarrow> do {
          offset \<leftarrow> offset_within_region info bar offset (length data);
          bind_result (write_bar self rid offset data context) (\<lambda>r s. Some (Inr (Handled r), s))
        }
      | None \<Rightarrow> Some (Inr Unhandled, (self, context)))"

section \<open>Lemmas\<close>

lemma offset_within_region_Some:
  "offset_within_region info bar offset sz = Some off \<longleftrightarrow>
     region_bar info = bar \<and> 0 < sz \<and> off = offset - region_offset info \<and>
     region_offset info \<le> offset \<and> unat off + sz \<le> unat (region_length info) \<and>
     unat (region_offset info) + unat (region_length info) < 2 ^ 64"
proof (cases "region_offset info \<le> offset")
  case True
  then have "unat (offset - region_offset info) = unat offset - unat (region_offset info)"
    and "unat (region_offset info) \<le> unat offset" by (simp_all add: unat_sub word_le_nat_alt)
  then show ?thesis using True
    by (auto simp: offset_within_region_def access_targets_region_def range_contains_iff)
next
  case False
  then show ?thesis
    by (auto simp: offset_within_region_def access_targets_region_def range_contains_iff word_le_nat_alt)
qed

text \<open>
  An access is routed into a region exactly when it is not empty and lies wholly inside the region
  on the region's BAR; the region then sees an offset such that the access stays inside its length.
  An access that straddles an end of the region is not routed to it.
\<close>

theorem region_offset_sound:
  "(\<exists>off. offset_within_region info bar offset sz = Some off \<and> unat off + sz \<le> unat (region_length info) \<and>
      offset = region_offset info + off) \<longleftrightarrow>
   region_bar info = bar \<and> 0 < sz \<and> unat (region_offset info) + unat (region_length info) < 2 ^ 64 \<and>
   unat (region_offset info) \<le> unat offset \<and>
   unat offset + sz \<le> unat (region_offset info) + unat (region_length info)"
proof
  assume "\<exists>off. offset_within_region info bar offset sz = Some off \<and> unat off + sz \<le> unat (region_length info) \<and>
      offset = region_offset info + off"
  then show "region_bar info = bar \<and> 0 < sz \<and> unat (region_offset info) + unat (region_length info) < 2 ^ 64 \<and>
   unat (region_offset info) \<le> unat offset \<and>
   unat offset + sz \<le> unat (region_offset info) + unat (region_length info)"
    by (auto simp: offset_within_region_def access_targets_region_def range_contains_iff split: if_splits)
next
  assume r: "region_bar info = bar \<and> 0 < sz \<and> unat (region_offset info) + unat (region_length info) < 2 ^ 64 \<and>
   unat (region_offset info) \<le> unat offset \<and>
   unat offset + sz \<le> unat (region_offset info) + unat (region_length info)"
  then have "unat (offset - region_offset info) = unat offset - unat (region_offset info)"
    by (simp add: unat_sub word_le_nat_alt)
  with r show "\<exists>off. offset_within_region info bar offset sz = Some off \<and> unat off + sz \<le> unat (region_length info) \<and>
      offset = region_offset info + off"
    by (auto simp: offset_within_region_def access_targets_region_def range_contains_iff)
qed

end
