(* ===== verification/Intx.thy ===== *)
theory Intx
  imports Bar_Region
begin

text \<open>
  Legacy interrupts (\<open>intx.rs\<close>): the interrupt line follows the Interrupt Status bit of the status
  register while the Interrupt Disable bit of the command register is clear.
\<close>

section \<open>Model\<close>

datatype PciIntxPin = IntA | IntB | IntC | IntD

fun intx_pin_u8 :: "PciIntxPin \<Rightarrow> u8" where
  "intx_pin_u8 IntA = 1"
| "intx_pin_u8 IntB = 2"
| "intx_pin_u8 IntC = 3"
| "intx_pin_u8 IntD = 4"

datatype PciInterruptLineConfig = LineRegister | LineFixed PciInterruptLine

record PciIntxConfig =
  ixc_pin :: PciIntxPin
  ixc_line_config :: PciInterruptLineConfig

record PciIntx =
  ix_line_config :: PciInterruptLineConfig
  ix_disabled :: bool

definition init_intx :: "config_space \<Rightarrow> PciIntxPin \<Rightarrow> config_space option" where
  "init_intx c pin = do {
     c \<leftarrow> cs_set_byte c PCI_INTERRUPT_PIN (intx_pin_u8 pin);
     c \<leftarrow> add_writable_word c PCI_COMMAND PCI_COMMAND_INTERRUPT_DISABLE_MASK;
     set_writable_byte c PCI_INTERRUPT_LINE 0xFF
   }"

definition intx_build :: "PciIntxConfig \<Rightarrow> config_space \<Rightarrow> (PciIntx \<times> config_space) option" where
  "intx_build self c = do {
     c \<leftarrow> init_intx c (ixc_pin self);
     Some (\<lparr>ix_line_config = ixc_line_config self, ix_disabled = True\<rparr>, c)
   }"

definition interrupts_disabled :: "config_space \<Rightarrow> bool option" where
  "interrupts_disabled c = do {
     command \<leftarrow> cs_read_word c PCI_COMMAND;
     Some (command AND PCI_COMMAND_INTERRUPT_DISABLE_MASK \<noteq> 0)
   }"

definition interrupt_pending :: "config_space \<Rightarrow> bool option" where
  "interrupt_pending c = do {
     status \<leftarrow> cs_read_word c PCI_STATUS;
     Some (status AND PCI_STATUS_INTERRUPT_STATUS_MASK \<noteq> 0)
   }"

definition interrupt_line :: "config_space \<Rightarrow> PciInterruptLineConfig \<Rightarrow> PciInterruptLine option" where
  "interrupt_line c line_config =
     (case line_config of
        LineFixed l \<Rightarrow> Some l
      | LineRegister \<Rightarrow> map_option unat (cs_read_byte c PCI_INTERRUPT_LINE))"

definition update_interrupt_status :: "config_space \<Rightarrow> PciInterruptLineState \<Rightarrow> (bool \<times> config_space) option" where
  "update_interrupt_status c level = do {
     current \<leftarrow> cs_read_word c PCI_STATUS;
     let new = (case level of
                  Low \<Rightarrow> current AND NOT PCI_STATUS_INTERRUPT_STATUS_MASK
                | High \<Rightarrow> current OR PCI_STATUS_INTERRUPT_STATUS_MASK);
     c \<leftarrow> cs_set_word c PCI_STATUS new;
     Some (current \<noteq> new, c)
   }"

definition signal_intx ::
    "config_space \<Rightarrow> controller \<Rightarrow> PciIntx \<Rightarrow> PciInterruptLineState \<Rightarrow> (config_space \<times> controller) option" where
  "signal_intx c ic intx level = do {
     (changed, c) \<leftarrow> update_interrupt_status c level;
     disabled \<leftarrow> interrupts_disabled c;
     if \<not> disabled \<and> changed
     then do {
       line \<leftarrow> interrupt_line c (ix_line_config intx);
       Some (c, set_interrupt ic line level)
     }
     else Some (c, ic)
   }"

definition intx_on_write_config ::
    "config_space \<Rightarrow> controller \<Rightarrow> PciIntx \<Rightarrow> usize \<Rightarrow> usize \<Rightarrow> (controller \<times> PciIntx) option" where
  "intx_on_write_config c ic intx offset sz =
     (if \<not> range_overlaps 64 PCI_COMMAND 2 offset sz then Some (ic, intx)
      else do {
        disabled \<leftarrow> interrupts_disabled c;
        pending \<leftarrow> interrupt_pending c;
        if disabled \<noteq> ix_disabled intx \<and> pending
        then do {
          line \<leftarrow> interrupt_line c (ix_line_config intx);
          let intx = intx\<lparr>ix_disabled := disabled\<rparr>;
          Some (if disabled then set_interrupt ic line Low else set_interrupt ic line High, intx)
        }
        else Some (ic, intx)
      })"

section \<open>The level of the line\<close>

text \<open>The level the controller last set a line to; a line starts low.\<close>

definition line_level :: "controller \<Rightarrow> PciInterruptLine \<Rightarrow> bool" where
  "line_level ic line = foldl (\<lambda>level call. case call of
       SetInterrupt l state \<Rightarrow> if l = line then state = High else level
     | SendMsi _ \<Rightarrow> level) False ic"

lemma line_level_set [simp]:
  "line_level (set_interrupt ic l state) line = (if l = line then state = High else line_level ic line)"
  by (simp add: set_interrupt_def line_level_def)

text \<open>The two bits the line depends on.\<close>

definition disable_bit :: "config_space \<Rightarrow> bool" where
  "disable_bit c \<longleftrightarrow> bit (word_at (cs_registers c) 4) 10"

definition status_bit :: "config_space \<Rightarrow> bool" where
  "status_bit c \<longleftrightarrow> bit (word_at (cs_registers c) 6) 3"

lemma bit_status_mask_3: "bit (8 :: 'a::semiring_bits) k \<longleftrightarrow> possible_bit TYPE('a) k \<and> k = 3"
proof -
  have "(8 :: 'a) = 2 ^ 3" by simp
  then show ?thesis by (auto simp only: bit_exp_iff)
qed

lemma interrupts_disabled_eq: "config_wf c \<Longrightarrow> interrupts_disabled c = Some (disable_bit c)"
  using and_exp_eq_0_iff [of 10 "word_at (cs_registers c) 4"]
  by (simp add: interrupts_disabled_def option_simps disable_bit_def)

lemma interrupt_pending_eq: "config_wf c \<Longrightarrow> interrupt_pending c = Some (status_bit c)"
  using and_exp_eq_0_iff [of 3 "word_at (cs_registers c) 6"]
  by (simp add: interrupt_pending_def option_simps status_bit_def)

lemma interrupt_line_Some: "config_wf c \<Longrightarrow> \<exists>line. interrupt_line c lc = Some line"
  by (cases lc) (simp_all add: interrupt_line_def option_simps)

lemma update_interrupt_status_effect:
  assumes "config_wf c"
  obtains c' where "update_interrupt_status c level = Some (status_bit c \<noteq> (level = High), c')"
    and "config_wf c'" and "status_bit c' = (level = High)" and "disable_bit c' = disable_bit c"
    and "\<And>lc. interrupt_line c' lc = interrupt_line c lc"
    and "cs_writable_bits c' = cs_writable_bits c" and "cs_bars c' = cs_bars c"
    and "\<And>k. k < 256 \<Longrightarrow> k \<notin> {6, 7} \<Longrightarrow> cs_registers c' ! k = cs_registers c ! k"
proof -
  let ?w = "word_at (cs_registers c) 6"
  let ?new = "case level of Low \<Rightarrow> ?w AND NOT (2 ^ 3) | High \<Rightarrow> ?w OR 2 ^ 3"
  let ?c = "cs_store (patch (cs_registers c) 6 (to_le_bytes ?new)) c"
  have bit3: "bit ?new 3 = (level = High)" by (cases level) (simp_all add: bit_simps)
  have changed: "(?w \<noteq> ?new) = (status_bit c \<noteq> (level = High))"
  proof (cases "bit ?w 3 = (level = High)")
    case True
    have "?new = ?w" by (rule bit_word_eqI) (use True in \<open>cases level; auto simp: bit_simps bit_status_mask_3\<close>)
    with True show ?thesis by (simp add: status_bit_def)
  next
    case False
    with bit3 have "?w \<noteq> ?new" by metis
    with False show ?thesis by (simp add: status_bit_def)
  qed
  have "update_interrupt_status c level = Some (?w \<noteq> ?new, ?c)"
    using assms by (cases level) (simp_all add: update_interrupt_status_def option_simps Let_def)
  then have "update_interrupt_status c level = Some (status_bit c \<noteq> (level = High), ?c)"
    by (simp only: changed)
  moreover have "interrupt_line ?c lc = interrupt_line c lc" for lc
    using assms by (cases lc) (simp_all add: interrupt_line_def option_simps nth_patch)
  moreover have "cs_registers ?c ! k = cs_registers c ! k" if "k < 256" "k \<notin> {6, 7}" for k
    using that assms by (auto simp: nth_patch)
  moreover have "config_wf ?c" "status_bit ?c = (level = High)" "disable_bit ?c = disable_bit c"
    using assms bit3 by (simp_all add: status_bit_def disable_bit_def)
  ultimately show thesis by (intro that [of ?c]) simp_all
qed

text \<open>The space a new INTx leaves: its disable bit can be written, and the status register is untouched.\<close>

lemma intx_build_effect:
  assumes "config_wf c" and "intx_build cfg c = Some (intx, c')"
  shows "intx = \<lparr>ix_line_config = ixc_line_config cfg, ix_disabled = True\<rparr>" and "config_wf c'"
    and "status_bit c' = status_bit c" and "disable_bit c' = disable_bit c"
    and "bit (word_at (cs_writable_bits c') 4) 10"
    and "word_at (cs_writable_bits c') 6 = word_at (cs_writable_bits c) 6"
proof -
  let ?c = "cs_store (patch (cs_registers c) 0x3D (to_le_bytes (intx_pin_u8 (ixc_pin cfg)))) c"
  have "intx = \<lparr>ix_line_config = ixc_line_config cfg, ix_disabled = True\<rparr> \<and>
      c' = ?c\<lparr>cs_writable_bits := patch (or_patch (cs_writable_bits c) 4 (to_le_bytes (0x400 :: u16))) 0x3C (to_le_bytes (0xFF :: u8))\<rparr>"
    using assms by (simp add: intx_build_def init_intx_def add_writable_word_def set_writable_byte_def option_simps)
  moreover have "bit (0x400 :: u16) 10" by code_simp
  moreover have "word_at (or_patch (cs_writable_bits c) 4 (to_le_bytes (0x400 :: u16))) 6 = word_at (cs_writable_bits c) 6"
    by (rule bit_word_eqI) (use assms(1) in \<open>simp add: bit_word_at' array_bit_or_patch\<close>)
  ultimately show "intx = \<lparr>ix_line_config = ixc_line_config cfg, ix_disabled = True\<rparr>" and "config_wf c'"
    and "status_bit c' = status_bit c" and "disable_bit c' = disable_bit c"
    and "bit (word_at (cs_writable_bits c') 4) 10"
    and "word_at (cs_writable_bits c') 6 = word_at (cs_writable_bits c) 6"
    using assms(1) by (simp_all add: status_bit_def disable_bit_def bit_or_iff)
qed

section \<open>Runs\<close>

text \<open>
  What happens to an INTx: the device signals a level, or the guest writes to the configuration space and the
  write is handed on when it succeeds, as in \<open>write_config\<close> of the function.
\<close>

datatype intx_event = Signal PciInterruptLineState | GuestWrite usize bytes

type_synonym intx_state = "config_space \<times> controller \<times> PciIntx"

fun intx_step :: "intx_state \<Rightarrow> intx_event \<Rightarrow> intx_state option" where
  "intx_step (c, ic, intx) (Signal level) = do {
     (c, ic) \<leftarrow> signal_intx c ic intx level;
     Some (c, ic, intx)
   }"
| "intx_step (c, ic, intx) (GuestWrite offset data) = do {
     (r, c) \<leftarrow> cs_write_checked c offset data;
     case r of
       Inl _ \<Rightarrow> Some (c, ic, intx)
     | Inr _ \<Rightarrow> do { (ic, intx) \<leftarrow> intx_on_write_config c ic intx offset (length data); Some (c, ic, intx) }
   }"

fun line_right :: "PciInterruptLine \<Rightarrow> intx_state \<Rightarrow> bool" where
  "line_right line (c, ic, _) \<longleftrightarrow> line_level ic line = (status_bit c \<and> \<not> disable_bit c)"

text \<open>A step that changes Interrupt Disable under a pending interrupt while the cached bit is out of date.\<close>

fun missed_change :: "intx_state \<Rightarrow> intx_state \<Rightarrow> bool" where
  "missed_change (c, _, intx) (c', _, _) \<longleftrightarrow>
     status_bit c \<and> disable_bit c' \<noteq> disable_bit c \<and> ix_disabled intx \<noteq> disable_bit c"

fun line_follows :: "PciInterruptLine \<Rightarrow> intx_state \<Rightarrow> intx_event list \<Rightarrow> bool" where
  "line_follows line s [] = line_right line s"
| "line_follows line s (e # es) \<longleftrightarrow> line_right line s \<and>
     (case intx_step s e of None \<Rightarrow> False | Some s' \<Rightarrow> line_follows line s' es)"

fun misses_change :: "intx_state \<Rightarrow> intx_event list \<Rightarrow> bool" where
  "misses_change s [] = False"
| "misses_change s (e # es) \<longleftrightarrow>
     (case intx_step s e of None \<Rightarrow> False | Some s' \<Rightarrow> missed_change s s' \<or> misses_change s' es)"

fun event_fits :: "intx_event \<Rightarrow> bool" where
  "event_fits (Signal _) = True"
| "event_fits (GuestWrite offset data) \<longleftrightarrow> offset + length data < 2 ^ 64"

fun intx_inv :: "PciInterruptLine \<Rightarrow> intx_state \<Rightarrow> bool" where
  "intx_inv line (c, _, intx) \<longleftrightarrow> config_wf c \<and> \<not> bit (word_at (cs_writable_bits c) 6) 3 \<and> ix_line_config intx = LineFixed line"

lemma guest_write_bits:
  assumes "config_wf c" and "offset + length data < 2 ^ 64" and "\<not> bit (word_at (cs_writable_bits c) 6) 3"
  obtains r c' where "cs_write_checked c offset data = Some (r, c')" and "config_wf c'" and "status_bit c' = status_bit c"
    and "cs_writable_bits c' = cs_writable_bits c"
    and "disable_bit c' \<noteq> disable_bit c \<longrightarrow> \<not> isl r \<and> range_overlaps 64 4 2 offset (length data)"
proof (cases "access_ok offset (length data)")
  case True
  let ?c = "cs_store (patch_masked (cs_registers c) (cs_writable_bits c) offset data) c"
  have fit: "offset + length data \<le> 256" using True by (simp add: access_ok_def)
  have "status_bit ?c = status_bit c" using assms fit
    by (simp add: status_bit_def bit_word_at' array_bit_patch_masked)
  moreover have "range_overlaps 64 4 2 offset (length data)" if "disable_bit ?c \<noteq> disable_bit c"
    using that assms fit by (auto simp: disable_bit_def bit_word_at' array_bit_patch_masked range_overlaps_iff split: if_splits)
  ultimately show thesis using assms(1) fit by (intro that [OF cs_write_checked_Ok [OF assms(1) True]]) simp_all
next
  case False
  with cs_write_checked_Err [OF assms(1) _ assms(2)] obtain e where "cs_write_checked c offset data = Some (Inl e, c)" by blast
  from that [OF this assms(1)] show thesis by simp
qed

text \<open>A step from a state with the right line leads to one, unless it is such a change; then the line is wrong.\<close>

lemma intx_step_right:
  assumes "intx_inv line s" and "event_fits e" and "line_right line s"
  shows "\<exists>s'. intx_step s e = Some s' \<and> intx_inv line s' \<and> line_right line s' = (\<not> missed_change s s')"
proof -
  obtain c ic intx where s: "s = (c, ic, intx)" by (cases s)
  with assms(1,3) have wf: "config_wf c" "\<not> bit (word_at (cs_writable_bits c) 6) 3"
    and line: "ix_line_config intx = LineFixed line" and right: "line_level ic line = (status_bit c \<and> \<not> disable_bit c)" by simp_all
  show ?thesis
  proof (cases e)
    case (Signal level)
    obtain c' where "update_interrupt_status c level = Some (status_bit c \<noteq> (level = High), c')" "config_wf c'"
      "status_bit c' = (level = High)" "disable_bit c' = disable_bit c" "cs_writable_bits c' = cs_writable_bits c"
      using update_interrupt_status_effect [OF wf(1)] by metis
    with s wf line right Signal show ?thesis
      by (auto simp: signal_intx_def interrupts_disabled_eq interrupt_line_def)
  next
    case (GuestWrite offset data)
    with assms(2) have "offset + length data < 2 ^ 64" by simp
    from guest_write_bits [OF wf(1) this wf(2)] obtain r c' where w: "cs_write_checked c offset data = Some (r, c')" "config_wf c'"
      "status_bit c' = status_bit c" "cs_writable_bits c' = cs_writable_bits c"
      "disable_bit c' \<noteq> disable_bit c \<longrightarrow> \<not> isl r \<and> range_overlaps 64 4 2 offset (length data)" .
    show ?thesis
    proof (cases r)
      case (Inl err)
      with s wf line right GuestWrite w show ?thesis by auto
    next
      case (Inr u)
      show ?thesis
      proof (cases "range_overlaps 64 4 2 offset (length data)")
        case False
        with s wf line right GuestWrite w Inr show ?thesis by (auto simp: intx_on_write_config_def)
      next
        case True
        with s wf line right GuestWrite w Inr show ?thesis
          by (auto simp: intx_on_write_config_def interrupts_disabled_eq interrupt_pending_eq interrupt_line_def Let_def)
      qed
    qed
  qed
qed

lemma intx_run_right:
  assumes "intx_inv line s" and "list_all event_fits es" and "line_right line s"
  shows "line_follows line s es \<longleftrightarrow> \<not> misses_change s es"
  using assms
proof (induction es arbitrary: s)
  case (Cons e es)
  have "event_fits e" using Cons.prems(2) by simp
  from intx_step_right [OF Cons.prems(1) this Cons.prems(3)] obtain s' where
    s': "intx_step s e = Some s'" "intx_inv line s'" "line_right line s' = (\<not> missed_change s s')" by blast
  show ?case
  proof (cases "missed_change s s'")
    case True
    with s' have "\<not> line_follows line s' es" by (cases es) simp_all
    with True s'(1) show ?thesis by simp
  next
    case False
    with s' Cons.IH [of s'] Cons.prems show ?thesis by simp
  qed
qed simp

lemma signals_never_miss:
  assumes "config_wf c"
  shows "\<not> misses_change (c, ic, intx) (map Signal levels)"
  using assms
proof (induction levels arbitrary: c ic)
  case (Cons level levels)
  obtain c' where c': "update_interrupt_status c level = Some (status_bit c \<noteq> (level = High), c')" "config_wf c'"
    "disable_bit c' = disable_bit c"
    using update_interrupt_status_effect [OF Cons.prems] by metis
  obtain line where "interrupt_line c' (ix_line_config intx) = Some line" using interrupt_line_Some [OF c'(2)] by blast
  with c' Cons.IH [OF c'(2)] show ?case by (auto simp: signal_intx_def interrupts_disabled_eq)
qed simp

section \<open>Properties\<close>

text \<open>
  C15: The line of an INTx through its life. Take a new INTx with a fixed line, in a space where no interrupt is
  pending and a driver cannot write the Interrupt Status bit, and any sequence of levels signalled by
  the device and of configuration writes by the driver. All of them return, and after each the line is
  high exactly while an interrupt is pending and not disabled, if and only if no write of the sequence
  changes the Interrupt Disable bit under a pending interrupt while the cached copy of the bit is out of date.
\<close>

theorem intx_line_follows:
  assumes "config_wf c0" and "\<not> status_bit c0" and "\<not> bit (word_at (cs_writable_bits c0) 6) 3"
    and "intx_build cfg c0 = Some (intx, c)" and "ixc_line_config cfg = LineFixed line" and "list_all event_fits events"
  shows "line_follows line (c, [], intx) events \<longleftrightarrow> \<not> misses_change (c, [], intx) events"
proof (rule intx_run_right [OF _ assms(6)])
  note built = intx_build_effect [OF assms(1,4)]
  show "intx_inv line (c, [], intx)" using built assms(3,5) by simp
  show "line_right line (c, [], intx)" using built(3) assms(2) by (simp add: line_level_def)
qed

lemma intx_line_follows_witness:
  "\<exists>intx c. intx_build \<lparr>ixc_pin = IntA, ixc_line_config = LineFixed 7\<rparr> blank_config = Some (intx, c) \<and>
     line_follows 7 (c, [], intx) (map Signal [High, Low, High])"
proof -
  let ?cfg = "\<lparr>ixc_pin = IntA, ixc_line_config = LineFixed 7\<rparr>"
  have "intx_build ?cfg blank_config \<noteq> None" by code_simp
  then obtain intx c where built: "intx_build ?cfg blank_config = Some (intx, c)" by auto
  have start: "\<not> status_bit blank_config" "\<not> bit (word_at (cs_writable_bits blank_config) 6) 3" by code_simp+
  have fits: "list_all event_fits (map Signal [High, Low, High])" by simp
  from intx_line_follows [OF config_wf_blank start built _ fits, of 7]
    signals_never_miss [OF intx_build_effect(2) [OF config_wf_blank built], of "[]" intx "[High, Low, High]"]
  have "line_follows 7 (c, [], intx) (map Signal [High, Low, High])" by simp
  with built show ?thesis by blast
qed



text \<open>
  C17: The cached disable bit starts out set and is only updated while an interrupt is pending. So for every new
  INTx, whatever its pin and its line, in a space where interrupts are enabled and none is pending: once
  the device has raised the interrupt, no write of the command register that sets Interrupt Disable
  forces the line low, although the interrupt is then both pending and disabled; and when the device
  lowers its interrupt after that, the line still stays high.
\<close>

theorem intx_first_disable_missed:
  assumes "config_wf c0" and "\<not> status_bit c0" and "\<not> disable_bit c0" and "\<not> bit (word_at (cs_writable_bits c0) 6) 3"
    and "intx_build cfg c0 = Some (intx, c)" and "interrupt_line c (ixc_line_config cfg) = Some line"
    and "bit (command :: u16) 10"
  shows "\<exists>c1 ic1 c2 c3. signal_intx c ic intx High = Some (c1, ic1) \<and> line_level ic1 line \<and>
     cs_write_checked c1 4 (to_le_bytes command) = Some (Inr (), c2) \<and> disable_bit c2 \<and> status_bit c2 \<and>
     intx_on_write_config c2 ic1 intx 4 2 = Some (ic1, intx) \<and>
     signal_intx c2 ic1 intx Low = Some (c3, ic1) \<and> \<not> status_bit c3"
proof -
  note built = intx_build_effect [OF assms(1,5)]
  obtain c1 where c1: "update_interrupt_status c High = Some (True, c1)" "config_wf c1" "status_bit c1" "\<not> disable_bit c1"
    "cs_writable_bits c1 = cs_writable_bits c" "interrupt_line c1 (ixc_line_config cfg) = Some line"
    using update_interrupt_status_effect [OF built(2), of High] built(3,4) assms(2,3,6) by (metis (full_types))
  have signal: "signal_intx c ic intx High = Some (c1, set_interrupt ic line High)"
    using c1 built(1) by (simp add: signal_intx_def interrupts_disabled_eq)
  let ?c2 = "cs_store (patch_masked (cs_registers c1) (cs_writable_bits c1) 4 (to_le_bytes command)) c1"
  have acc: "access_ok 4 (length (to_le_bytes command))" by (simp add: access_ok_def)
  have c2: "config_wf ?c2" "disable_bit ?c2" using c1 built(2,5) assms(7)
    by (simp_all add: disable_bit_def bit_views)
  have "status_bit ?c2" using c1 built(6) by (simp add: status_bit_def bit_word_at' array_bit_patch_masked)
  moreover obtain c3 where "update_interrupt_status ?c2 Low = Some (status_bit ?c2 \<noteq> (Low = High), c3)" "config_wf c3"
    "\<not> status_bit c3" "disable_bit c3"
    using update_interrupt_status_effect [OF c2(1), of Low] c2(2) by (metis PciInterruptLineState.distinct(1))
  ultimately show ?thesis using signal c2 cs_write_checked_Ok [OF c1(2) acc] built(1)
    by (intro exI [of _ c1] exI [of _ "set_interrupt ic line High"] exI [of _ ?c2] exI [of _ c3])
      (simp add: intx_on_write_config_def signal_intx_def interrupts_disabled_eq interrupt_pending_eq)
qed

lemma intx_first_disable_missed_witness:
  "\<exists>intx c c1 ic1. intx_build \<lparr>ixc_pin = IntA, ixc_line_config = LineFixed 7\<rparr> blank_config = Some (intx, c) \<and>
     signal_intx c [] intx High = Some (c1, ic1) \<and> line_level ic1 7 \<and>
     (\<exists>c2. cs_write_checked c1 4 (to_le_bytes (0x400 :: u16)) = Some (Inr (), c2) \<and> intx_on_write_config c2 ic1 intx 4 2 = Some (ic1, intx))"
proof -
  let ?cfg = "\<lparr>ixc_pin = IntA, ixc_line_config = LineFixed 7\<rparr>"
  have "intx_build ?cfg blank_config \<noteq> None" by code_simp
  then obtain intx c where built: "intx_build ?cfg blank_config = Some (intx, c)" by auto
  have start: "\<not> status_bit blank_config" "\<not> disable_bit blank_config" "\<not> bit (word_at (cs_writable_bits blank_config) 6) 3" by code_simp+
  have "bit (0x400 :: u16) 10" by code_simp
  from intx_first_disable_missed [OF config_wf_blank start built _ this, of 7 "[]"] built show ?thesis
    by (simp add: interrupt_line_def) blast
qed

end
