(* ===== verification/Msi.thy ===== *)
theory Msi
  imports Bar_Region
begin

text \<open>
  Message signalled interrupts (\<open>msi.rs\<close>): the trait of message sources, the MSI capability, the
  registers of the capability in the configuration space, and the evaluation of pending vectors.
\<close>

section \<open>Message sources\<close>

datatype PciMsiGenerationResult = Masked | Generated PciMsiMessage

text \<open>
  The provided method of \<open>PciMsiMessageSource\<close>. The required methods are arguments: \<open>'s\<close> is the
  source itself, which has no interior state in the case of MSI and the two tables in that of MSI-X.
\<close>

definition try_generate_message ::
    "('s \<Rightarrow> config_space \<Rightarrow> bool option) \<Rightarrow>
     ('s \<Rightarrow> config_space \<Rightarrow> usize \<Rightarrow> bool option) \<Rightarrow>
     ('s \<Rightarrow> config_space \<Rightarrow> usize \<Rightarrow> bool \<Rightarrow> ('s \<times> config_space, unit) call) \<Rightarrow>
     ('s \<Rightarrow> config_space \<Rightarrow> usize \<Rightarrow> ('s, PciMsiMessage) call) \<Rightarrow>
     's \<Rightarrow> config_space \<Rightarrow> usize \<Rightarrow> ('s \<times> config_space, PciMsiGenerationResult) call" where
  "try_generate_message is_enabled is_masked set_pending_bit get_message_for self c vector = do {
     master \<leftarrow> is_bus_master c;
     if \<not> master then Some (Inl NotBusMaster, (self, c))
     else do {
       enabled \<leftarrow> is_enabled self c;
       if \<not> enabled then Some (Inl MsiDisabled, (self, c))
       else do {
         masked \<leftarrow> is_masked self c vector;
         if masked
         then bind_result (set_pending_bit self c vector True) (\<lambda>_ s. Some (Inr Masked, s))
         else bind_result (set_pending_bit self c vector False) (\<lambda>_ (self, c). do {
                (r, self) \<leftarrow> get_message_for self c vector;
                Some (case r of Inl e \<Rightarrow> Inl e | Inr m \<Rightarrow> Inr (Generated m), (self, c))
              })
       }
     }
   }"

section \<open>Bits\<close>

text \<open>\<open>trailing_zeros\<close>, and \<open>!1.checked_shl(since).unwrap_or(0).checked_sub(1).unwrap_or(MAX)\<close>.\<close>

definition trailing_zeros :: "'a::len word \<Rightarrow> nat" where
  "trailing_zeros w = (case List.find (bit w) [0..<LENGTH('a)] of Some i \<Rightarrow> i | None \<Rightarrow> LENGTH('a))"

definition bits_since :: "nat \<Rightarrow> 'a::len word" where
  "bits_since since =
     (let shift = since mod 2 ^ 32;
          shl = (if shift < LENGTH('a) then push_bit shift 1 else 0)
      in NOT (if shl = 0 then - 1 else shl - 1))"

text \<open>\<open>1 << vector\<close> panics from the width of the type on.\<close>

definition one_shl :: "nat \<Rightarrow> 'a::len word option" where
  "one_shl vector = (if vector < LENGTH('a) then Some (push_bit vector 1) else None)"

section \<open>The capability\<close>

definition MSI_MESSAGE_CONTROL :: usize where [simp]: "MSI_MESSAGE_CONTROL = 0"
definition MSI_CONTROL_VECTOR_MASKING :: u16 where [simp]: "MSI_CONTROL_VECTOR_MASKING = 0x100"
definition MSI_CONTROL_64BIT :: u16 where [simp]: "MSI_CONTROL_64BIT = 0x80"
definition MSI_CONTROL_MULTIPLE_MSG_EN_SHIFT :: nat where [simp]: "MSI_CONTROL_MULTIPLE_MSG_EN_SHIFT = 4"
definition MSI_CONTROL_MULTIPLE_MSG_EN :: u16 where [simp]: "MSI_CONTROL_MULTIPLE_MSG_EN = 0x70"
definition MSI_CONTROL_MULTIPLE_MSG_CAP_SHIFT :: nat where [simp]: "MSI_CONTROL_MULTIPLE_MSG_CAP_SHIFT = 1"
definition MSI_CONTROL_MSI_EN :: u16 where [simp]: "MSI_CONTROL_MSI_EN = 1"
definition MSI_ADDRESS :: usize where [simp]: "MSI_ADDRESS = 2"
definition MSI_ADDRESS_MASK :: u32 where [simp]: "MSI_ADDRESS_MASK = 0xFFFFFFFC"
definition MSI_ADDRESS_UPPER :: usize where [simp]: "MSI_ADDRESS_UPPER = 6"
definition MSI_ADDRESS_UPPER_MASK :: u32 where [simp]: "MSI_ADDRESS_UPPER_MASK = 0xFFFFFFFF"
definition MSI_DATA_32BIT :: usize where [simp]: "MSI_DATA_32BIT = 6"
definition MSI_DATA_64BIT :: usize where [simp]: "MSI_DATA_64BIT = 10"
definition MSI_DATA_MASK :: u16 where [simp]: "MSI_DATA_MASK = 0xFFFF"
definition MSI_MASK_BITS_32BIT :: usize where [simp]: "MSI_MASK_BITS_32BIT = 10"
definition MSI_MASK_BITS_64BIT :: usize where [simp]: "MSI_MASK_BITS_64BIT = 14"
definition MSI_MASK_BITS_MASK :: u32 where [simp]: "MSI_MASK_BITS_MASK = 0xFFFFFFFF"
definition MSI_PENDING_BITS_32BIT :: usize where [simp]: "MSI_PENDING_BITS_32BIT = 14"
definition MSI_PENDING_BITS_64BIT :: usize where [simp]: "MSI_PENDING_BITS_64BIT = 18"
definition MSI_PENDING_BITS_MASK :: u32 where [simp]: "MSI_PENDING_BITS_MASK = 0xFFFFFFFF"

datatype MsiMultipleMessage = One | Two | Four | Eight | Sixteen | ThirtyTwo

fun encode :: "MsiMultipleMessage \<Rightarrow> u16" where
  "encode One = 0"
| "encode Two = 1"
| "encode Four = 2"
| "encode Eight = 3"
| "encode Sixteen = 4"
| "encode ThirtyTwo = 5"

definition multiple_message_try_from :: "u16 \<Rightarrow> MsiMultipleMessage result" where
  "multiple_message_try_from value =
     (if value > encode ThirtyTwo then Inl (InvalidMultipleMessageValue value)
      else Inr ([One, Two, Four, Eight, Sixteen, ThirtyTwo] ! unat value))"

definition decode :: "u16 \<Rightarrow> MsiMultipleMessage option" where
  "decode val = (case multiple_message_try_from (val AND 7) of Inl _ \<Rightarrow> None | Inr m \<Rightarrow> Some m)"

definition to_capable :: "MsiMultipleMessage \<Rightarrow> u16" where
  "to_capable m = push_bit MSI_CONTROL_MULTIPLE_MSG_CAP_SHIFT (encode m)"

definition from_capable :: "u16 \<Rightarrow> MsiMultipleMessage option" where
  "from_capable message_control = decode (drop_bit MSI_CONTROL_MULTIPLE_MSG_CAP_SHIFT message_control)"

definition to_enable :: "MsiMultipleMessage \<Rightarrow> u16" where
  "to_enable m = push_bit MSI_CONTROL_MULTIPLE_MSG_EN_SHIFT (encode m)"

definition from_enable :: "u16 \<Rightarrow> MsiMultipleMessage option" where
  "from_enable message_control = decode (drop_bit MSI_CONTROL_MULTIPLE_MSG_EN_SHIFT message_control)"

definition max_vectors :: "MsiMultipleMessage \<Rightarrow> u16" where
  "max_vectors m = push_bit (unat (encode m)) 1"

datatype MsiAddressWidth = Address32Bit | Address64Bit

fun address_width_u16 :: "MsiAddressWidth \<Rightarrow> u16" where
  "address_width_u16 Address32Bit = 0"
| "address_width_u16 Address64Bit = MSI_CONTROL_64BIT"

datatype MsiPerVectorMasking = MaskingDisabled | MaskingEnabled

fun per_vector_masking_u16 :: "MsiPerVectorMasking \<Rightarrow> u16" where
  "per_vector_masking_u16 MaskingDisabled = 0"
| "per_vector_masking_u16 MaskingEnabled = MSI_CONTROL_VECTOR_MASKING"

record PciMsiCapability =
  mc_address_width :: MsiAddressWidth
  mc_per_vector_masking :: MsiPerVectorMasking
  mc_vectors :: MsiMultipleMessage

definition to_message_control :: "PciMsiCapability \<Rightarrow> u16" where
  "to_message_control self =
     address_width_u16 (mc_address_width self) OR to_capable (mc_vectors self) OR
     per_vector_masking_u16 (mc_per_vector_masking self)"

definition msi_control_enabled :: "u16 \<Rightarrow> bool" where
  "msi_control_enabled control \<longleftrightarrow> control AND MSI_CONTROL_MSI_EN = MSI_CONTROL_MSI_EN"

definition is_64bit :: "u16 \<Rightarrow> bool" where
  "is_64bit control \<longleftrightarrow> control AND MSI_CONTROL_64BIT = MSI_CONTROL_64BIT"

definition per_vector_masking_enabled :: "u16 \<Rightarrow> bool" where
  "per_vector_masking_enabled control \<longleftrightarrow>
     control AND MSI_CONTROL_VECTOR_MASKING = MSI_CONTROL_VECTOR_MASKING"

definition msi_cap_size :: "u16 \<Rightarrow> usize" where
  "msi_cap_size control =
     8 + (if per_vector_masking_enabled control then 10 else 0) + (if is_64bit control then 4 else 0)"

definition message_data_offset :: "u16 \<Rightarrow> usize" where
  "message_data_offset control = (if is_64bit control then MSI_DATA_64BIT else MSI_DATA_32BIT)"

definition mask_bits_offset :: "u16 \<Rightarrow> usize option" where
  "mask_bits_offset control =
     (if per_vector_masking_enabled control
      then Some (if is_64bit control then MSI_MASK_BITS_64BIT else MSI_MASK_BITS_32BIT) else None)"

definition pending_bits_offset :: "u16 \<Rightarrow> usize option" where
  "pending_bits_offset control =
     (if per_vector_masking_enabled control
      then Some (if is_64bit control then MSI_PENDING_BITS_64BIT else MSI_PENDING_BITS_32BIT) else None)"

definition capable_vectors :: "u16 \<Rightarrow> MsiMultipleMessage" where
  "capable_vectors control = (case from_capable control of None \<Rightarrow> One | Some m \<Rightarrow> m)"

definition num_capable_vectors :: "u16 \<Rightarrow> u16" where
  "num_capable_vectors control = max_vectors (capable_vectors control)"

definition enabled_vectors :: "u16 \<Rightarrow> MsiMultipleMessage" where
  "enabled_vectors control = (case from_enable control of None \<Rightarrow> One | Some m \<Rightarrow> m)"

text \<open>The implementation of \<open>PciCapability\<close>: the methods fill the data area.\<close>

definition msi_registers :: "PciMsiCapability \<Rightarrow> bytes \<Rightarrow> bytes option" where
  "msi_registers self registers =
     rb_set_word (replicate (length registers) 0) MSI_MESSAGE_CONTROL (to_message_control self)"

definition msi_writable_bits :: "PciMsiCapability \<Rightarrow> bytes \<Rightarrow> bytes option" where
  "msi_writable_bits self writable_bits = do {
     let control = to_message_control self;
     bits \<leftarrow> rb_set_word writable_bits MSI_MESSAGE_CONTROL (MSI_CONTROL_MULTIPLE_MSG_EN OR MSI_CONTROL_MSI_EN);
     bits \<leftarrow> rb_set_dword bits MSI_ADDRESS MSI_ADDRESS_MASK;
     bits \<leftarrow> (if is_64bit control then rb_set_dword bits MSI_ADDRESS_UPPER MSI_ADDRESS_UPPER_MASK else Some bits);
     bits \<leftarrow> rb_set_word bits (message_data_offset control) MSI_DATA_MASK;
     bits \<leftarrow> (case mask_bits_offset control of None \<Rightarrow> Some bits | Some off \<Rightarrow> rb_set_dword bits off MSI_MASK_BITS_MASK);
     (case pending_bits_offset control of None \<Rightarrow> Some bits | Some off \<Rightarrow> rb_set_dword bits off MSI_PENDING_BITS_MASK)
   }"

definition msi_capability :: "PciMsiCapability \<Rightarrow> pci_capability" where
  "msi_capability self =
     \<lparr>cap_id = MsiCapId, cap_size = msi_cap_size (to_message_control self),
      cap_registers = msi_registers self, cap_writable_bits = msi_writable_bits self\<rparr>"

section \<open>The registers of a function\<close>

text \<open>\<open>PciMsi\<close> is the offset of the capability data; \<open>PhantomData\<close> has no value.\<close>

record PciMsi =
  msi_offset :: usize

definition msi_is_valid_vector :: "PciMsi \<Rightarrow> config_space \<Rightarrow> usize \<Rightarrow> bool option" where
  "msi_is_valid_vector self c vector = do {
     control \<leftarrow> cs_read_word c (msi_offset self);
     Some (vector < unat (num_capable_vectors control))
   }"

definition get_message_data_for :: "PciMsi \<Rightarrow> config_space \<Rightarrow> usize \<Rightarrow> u16 option option" where
  "get_message_data_for self c vector = do {
     valid \<leftarrow> msi_is_valid_vector self c vector;
     if \<not> valid then Some None
     else do {
       control \<leftarrow> cs_read_word c (msi_offset self);
       message_data \<leftarrow> cs_read_word c (msi_offset self + message_data_offset control);
       let modifiable_mask = push_bit (unat (encode (enabled_vectors control))) 1 - 1;
       Some (Some ((message_data AND NOT modifiable_mask) OR of_nat vector))
     }
   }"

definition should_handle_access :: "PciMsi \<Rightarrow> config_space \<Rightarrow> usize \<Rightarrow> usize \<Rightarrow> bool option" where
  "should_handle_access self c offset sz = do {
     control \<leftarrow> cs_read_word c (msi_offset self);
     Some (range_overlaps 64 offset sz (msi_offset self) (msi_cap_size control))
   }"

definition msi_is_enabled :: "PciMsi \<Rightarrow> config_space \<Rightarrow> bool option" where
  "msi_is_enabled self c = map_option msi_control_enabled (cs_read_word c (msi_offset self))"

definition msi_is_masked :: "PciMsi \<Rightarrow> config_space \<Rightarrow> usize \<Rightarrow> bool option" where
  "msi_is_masked self c vector = do {
     control \<leftarrow> cs_read_word c (msi_offset self);
     case mask_bits_offset control of
       None \<Rightarrow> Some False
     | Some offset \<Rightarrow> do {
         bits \<leftarrow> cs_read_dword c (msi_offset self + offset);
         one \<leftarrow> one_shl vector;
         Some (bits AND one \<noteq> 0)
       }
   }"

definition msi_is_pending :: "PciMsi \<Rightarrow> config_space \<Rightarrow> usize \<Rightarrow> bool option" where
  "msi_is_pending self c vector = do {
     control \<leftarrow> cs_read_word c (msi_offset self);
     case pending_bits_offset control of
       None \<Rightarrow> Some False
     | Some offset \<Rightarrow> do {
         bits \<leftarrow> cs_read_dword c (msi_offset self + offset);
         one \<leftarrow> one_shl vector;
         Some (bits AND one \<noteq> 0)
       }
   }"

definition msi_set_pending_bit ::
    "PciMsi \<Rightarrow> config_space \<Rightarrow> usize \<Rightarrow> bool \<Rightarrow> (PciMsi \<times> config_space, unit) call" where
  "msi_set_pending_bit self c vector pending = do {
     control \<leftarrow> cs_read_word c (msi_offset self);
     case pending_bits_offset control of
       None \<Rightarrow> Some (Inl NotSupported, (self, c))
     | Some offset \<Rightarrow> do {
         refused \<leftarrow> (if pending then map_option Not (msi_is_masked self c vector) else Some False);
         if refused then Some (Inl (VectorNotMasked vector), (self, c))
         else do {
           let offset = msi_offset self + offset;
           bits \<leftarrow> cs_read_dword c offset;
           one \<leftarrow> one_shl vector;
           c \<leftarrow> cs_write_dword c offset (if pending then bits OR one else bits AND NOT one);
           Some (Inr (), (self, c))
         }
       }
   }"

definition msi_get_message_for :: "PciMsi \<Rightarrow> config_space \<Rightarrow> usize \<Rightarrow> (PciMsi, PciMsiMessage) call" where
  "msi_get_message_for self c vector = do {
     control \<leftarrow> cs_read_word c (msi_offset self);
     low \<leftarrow> cs_read_dword c (msi_offset self + MSI_ADDRESS);
     address \<leftarrow> (if is_64bit control
        then do {
          high \<leftarrow> cs_read_dword c (msi_offset self + MSI_ADDRESS_UPPER);
          Some (ucast low OR push_bit 32 (ucast high))
        } else Some (ucast low));
     data \<leftarrow> get_message_data_for self c vector;
     case data of
       None \<Rightarrow> Some (Inl (InvalidMsiVector (of_nat vector)), self)
     | Some data \<Rightarrow> Some (Inr \<lparr>msg_address = address, msg_data = ucast data\<rparr>, self)
   }"

definition msi_try_generate :: "PciMsi \<Rightarrow> config_space \<Rightarrow> usize \<Rightarrow> (PciMsi \<times> config_space, PciMsiGenerationResult) call" where
  "msi_try_generate = try_generate_message msi_is_enabled msi_is_masked msi_set_pending_bit msi_get_message_for"

section \<open>Pending vectors\<close>

definition next_pending_vector :: "config_space \<Rightarrow> usize \<Rightarrow> usize \<Rightarrow> usize option option" where
  "next_pending_vector c offset since = do {
     control \<leftarrow> cs_read_word c offset;
     case pending_bits_offset control of
       None \<Rightarrow> Some None
     | Some pending_offset \<Rightarrow> do {
         bits \<leftarrow> cs_read_dword c (offset + pending_offset);
         let pending = bits AND bits_since since;
         let vector = trailing_zeros pending;
         Some (if vector < unat (num_capable_vectors control) then Some vector else None)
       }
   }"

text \<open>
  The loop that sends the messages of the pending vectors. Nothing in the types bounds \<open>start\<close>, so the
  loop is a partial function; that it returns is proved below.
\<close>

partial_function (option) msi_evaluate_from ::
    "PciMsi \<Rightarrow> config_space \<Rightarrow> controller \<Rightarrow> usize \<Rightarrow> (config_space \<times> controller) option" where
  "msi_evaluate_from self c ic start = do {
     next \<leftarrow> next_pending_vector c (msi_offset self) start;
     case next of
       None \<Rightarrow> Some (c, ic)
     | Some vector \<Rightarrow> do {
         (r, _, c) \<leftarrow> msi_try_generate self c vector;
         msi_evaluate_from self c (case r of Inr (Generated message) \<Rightarrow> send_msi ic message | _ \<Rightarrow> ic) (vector + 1)
       }
   }"

definition msi_evaluate_pending_interrupts ::
    "PciMsi \<Rightarrow> config_space \<Rightarrow> controller \<Rightarrow> (config_space \<times> controller) option" where
  "msi_evaluate_pending_interrupts self c ic = msi_evaluate_from self c ic 0"

section \<open>Configuration accesses\<close>

definition msi_normalise_control :: "PciMsi \<Rightarrow> config_space \<Rightarrow> u16 \<Rightarrow> (u16 \<times> config_space) option" where
  "msi_normalise_control self c control =
     (let cleared = control AND NOT MSI_CONTROL_MULTIPLE_MSG_EN in
      case from_enable control of
        Some vectors_en \<Rightarrow>
          if encode vectors_en > encode (capable_vectors control)
          then map_option (Pair cleared) (cs_write_word c (msi_offset self) cleared)
          else Some (control, c)
      | None \<Rightarrow> map_option (Pair cleared) (cs_write_word c (msi_offset self) cleared))"

definition msi_on_write_config ::
    "PciMsi \<Rightarrow> config_space \<Rightarrow> controller \<Rightarrow> usize \<Rightarrow> usize \<Rightarrow>
     (config_space \<times> controller, PciConfigurationUpdate option PciHandlerResult) call" where
  "msi_on_write_config self c ic offset sz = do {
     handle \<leftarrow> should_handle_access self c offset sz;
     if \<not> handle then Some (Inr Unhandled, (c, ic))
     else do {
       control \<leftarrow> cs_read_word c (msi_offset self);
       let writes_control = range_overlaps 64 offset sz (msi_offset self) 2;
       (control, c) \<leftarrow> (if writes_control then msi_normalise_control self c control else Some (control, c));
       let mask = MSI_CONTROL_MSI_EN OR MSI_CONTROL_VECTOR_MASKING;
       let writes_mask = (case mask_bits_offset control of
              None \<Rightarrow> False
            | Some masking_offset \<Rightarrow> range_overlaps 64 offset sz (msi_offset self + masking_offset) 4);
       let evaluate_interrupts = (writes_control \<and> control AND mask = mask \<or> writes_mask);
       (c, ic) \<leftarrow> (if evaluate_interrupts then msi_evaluate_pending_interrupts self c ic else Some (c, ic));
       let address_width = (if is_64bit control then 8 else 4);
       if range_overlaps 64 offset sz (msi_offset self + MSI_ADDRESS) address_width \<or>
          range_overlaps 64 offset sz (msi_offset self + message_data_offset control) 2
       then do {
         (r, _) \<leftarrow> msi_get_message_for self c 0;
         Some (case r of Inl e \<Rightarrow> Inl e | Inr msi \<Rightarrow> Inr (Handled (Some (MsiMessage msi))), (c, ic))
       }
       else Some (Inr (Handled None), (c, ic))
     }
   }"

definition msi_prepare_read_config ::
    "PciMsi \<Rightarrow> config_space \<Rightarrow> usize \<Rightarrow> usize \<Rightarrow> (config_space, PciConfigurationUpdate option PciHandlerResult) call" where
  "msi_prepare_read_config self c offset sz = do {
     handle \<leftarrow> should_handle_access self c offset sz;
     Some (Inr (if handle then Handled None else Unhandled), c)
   }"

section \<open>The contract of a message source\<close>

text \<open>
  What a source of MSI messages promises: in a state where the vector is usable, enabled, masked and
  pending are what the abstract predicates say, the pending bit can be set (cleared) while the vector
  is masked (at any time), which changes no other bit, and the message of the vector is available.
\<close>

locale msi_source =
  fixes is_enabled :: "'s \<Rightarrow> config_space \<Rightarrow> bool option"
    and is_masked :: "'s \<Rightarrow> config_space \<Rightarrow> usize \<Rightarrow> bool option"
    and set_pending_bit :: "'s \<Rightarrow> config_space \<Rightarrow> usize \<Rightarrow> bool \<Rightarrow> ('s \<times> config_space, unit) call"
    and get_message_for :: "'s \<Rightarrow> config_space \<Rightarrow> usize \<Rightarrow> ('s, PciMsiMessage) call"
    and usable :: "'s \<Rightarrow> config_space \<Rightarrow> usize \<Rightarrow> bool"
    and enabled :: "'s \<Rightarrow> config_space \<Rightarrow> bool"
    and masked :: "'s \<Rightarrow> config_space \<Rightarrow> usize \<Rightarrow> bool"
    and pending :: "'s \<Rightarrow> config_space \<Rightarrow> usize \<Rightarrow> bool"
    and message :: "'s \<Rightarrow> config_space \<Rightarrow> usize \<Rightarrow> PciMsiMessage"
  assumes usable_wf: "usable s c v \<Longrightarrow> config_wf c"
    and enabled_law: "usable s c v \<Longrightarrow> is_enabled s c = Some (enabled s c)"
    and masked_law: "usable s c v \<Longrightarrow> is_masked s c v = Some (masked s c v)"
    and pending_law: "usable s c v \<Longrightarrow> b \<longrightarrow> masked s c v \<Longrightarrow>
      \<exists>s' c'. set_pending_bit s c v b = Some (Inr (), (s', c')) \<and> pending s' c' v = b \<and>
        (\<forall>u. u \<noteq> v \<longrightarrow> pending s' c' u = pending s c u) \<and>
        (\<forall>u. usable s' c' u = usable s c u) \<and> enabled s' c' = enabled s c \<and>
        (\<forall>u. masked s' c' u = masked s c u) \<and> (\<forall>u. message s' c' u = message s c u) \<and>
        is_bus_master c' = is_bus_master c"
    and message_law: "usable s c v \<Longrightarrow> get_message_for s c v = Some (Inr (message s c v), s)"
begin

lemma generate_not_master:
  assumes "is_bus_master c = Some False"
  shows "try_generate_message is_enabled is_masked set_pending_bit get_message_for s c v =
    Some (Inl NotBusMaster, (s, c))"
  using assms by (simp add: try_generate_message_def)

lemma generate_disabled:
  assumes "is_bus_master c = Some True" and "usable s c v" and "\<not> enabled s c"
  shows "try_generate_message is_enabled is_masked set_pending_bit get_message_for s c v =
    Some (Inl MsiDisabled, (s, c))"
  using assms by (simp add: try_generate_message_def enabled_law)

lemma generate_enabled:
  assumes "is_bus_master c = Some True" and "usable s c v" and "enabled s c"
  shows "\<exists>s' c'. try_generate_message is_enabled is_masked set_pending_bit get_message_for s c v =
      Some (Inr (if masked s c v then Masked else Generated (message s c v)), (s', c')) \<and>
    pending s' c' v = masked s c v \<and> (\<forall>u. u \<noteq> v \<longrightarrow> pending s' c' u = pending s c u) \<and>
    (\<forall>u. usable s' c' u = usable s c u) \<and> enabled s' c' = enabled s c \<and>
    (\<forall>u. masked s' c' u = masked s c u) \<and> (\<forall>u. message s' c' u = message s c u) \<and>
    is_bus_master c' = is_bus_master c"
proof (cases "masked s c v")
  case True
  then show ?thesis using assms pending_law [of s c v True]
    by (auto simp: try_generate_message_def enabled_law masked_law)
next
  case False
  from pending_law [of s c v False, OF assms(2)] obtain s' c' where
    set: "set_pending_bit s c v False = Some (Inr (), (s', c'))"
    and eff: "\<not> pending s' c' v" "\<forall>u. u \<noteq> v \<longrightarrow> pending s' c' u = pending s c u"
      "\<forall>u. usable s' c' u = usable s c u" "enabled s' c' = enabled s c"
      "\<forall>u. masked s' c' u = masked s c u" "\<forall>u. message s' c' u = message s c u"
      "is_bus_master c' = is_bus_master c" by auto
  have "get_message_for s' c' v = Some (Inr (message s c v), s')"
    using message_law [of s' c' v] assms(2) eff by simp
  then show ?thesis using assms False set eff
    by (auto simp: try_generate_message_def enabled_law masked_law)
qed

end

section \<open>The contract of the evaluation loop\<close>

lemma find_upt_split:
  assumes "List.find P [m..<n] = Some v"
  shows "m \<le> v" "v < n" "P v" "filter Q [m..<n] = filter Q [m..<v] @ filter Q (v # [Suc v..<n])"
    and "\<And>u. m \<le> u \<Longrightarrow> u < v \<Longrightarrow> \<not> P u"
proof -
  from assms obtain i where i: "i < n - m" "v = m + i" "P v" "\<And>j. j < i \<Longrightarrow> \<not> P (m + j)"
    by (auto simp: find_Some_iff)
  then show b: "m \<le> v" "v < n" "P v" by auto
  then have "[m..<n] = [m..<v] @ v # [Suc v..<n]" by (metis le_add_diff_inverse less_imp_le_nat upt_add_eq_append upt_conv_Cons)
  then show "filter Q [m..<n] = filter Q [m..<v] @ filter Q (v # [Suc v..<n])" by simp
  show "\<not> P u" if "m \<le> u" "u < v" for u using i(4) [of "u - m"] that i(2) by auto
qed

text \<open>
  A source whose vectors are the first \<open>count\<close> numbers, with a search for the next pending vector and
  a loop that generates the message of each pending vector in turn. MSI and MSI-X each have their own.
\<close>

locale msi_pending_loop = msi_source +
  fixes count :: "'a \<Rightarrow> config_space \<Rightarrow> nat"
    and next_pending :: "'a \<Rightarrow> config_space \<Rightarrow> usize \<Rightarrow> usize option option"
    and evaluate :: "'a \<Rightarrow> config_space \<Rightarrow> controller \<Rightarrow> usize \<Rightarrow> ('a \<times> config_space \<times> controller) option"
  assumes count_law: "usable s c v \<Longrightarrow> usable s c u \<longleftrightarrow> u < count s c"
    and next_law: "usable s c v \<Longrightarrow> start \<le> count s c \<Longrightarrow>
      next_pending s c start = Some (List.find (pending s c) [start..<count s c])"
    and evaluate_unfold: "evaluate s c ic start = Option.bind (next_pending s c start) (\<lambda>nxt.
      case nxt of None \<Rightarrow> Some (s, c, ic)
      | Some v \<Rightarrow> Option.bind (try_generate_message is_enabled is_masked set_pending_bit get_message_for s c v)
          (\<lambda>(r, s, c). evaluate s c (case r of Inr (Generated m) \<Rightarrow> send_msi ic m | _ \<Rightarrow> ic) (v + 1)))"
begin

lemma evaluate_eq:
  assumes "is_bus_master c = Some True" and "usable s c 0" and "enabled s c" and "n = count s c" and "start \<le> n"
  shows "\<exists>s' c'. evaluate s c ic start =
      Some (s', c', ic @ map (\<lambda>v. SendMsi (message s c v)) (filter (\<lambda>v. pending s c v \<and> \<not> masked s c v) [start..<n])) \<and>
    (\<forall>u. pending s' c' u = (pending s c u \<and> (u < start \<or> n \<le> u \<or> masked s c u)))"
  using assms
proof (induction "n - start" arbitrary: s c ic start rule: less_induct)
  case less
  let ?fire = "\<lambda>v. pending s c v \<and> \<not> masked s c v"
  have nxt: "next_pending s c start = Some (List.find (pending s c) [start..<n])"
    using next_law [OF less.prems(2)] less.prems(4,5) by simp
  show ?case
  proof (cases "List.find (pending s c) [start..<n]")
    case None
    then have none: "\<And>v. start \<le> v \<Longrightarrow> v < n \<Longrightarrow> \<not> pending s c v" by (auto simp: find_None_iff)
    then have "filter ?fire [start..<n] = []" by (auto simp: filter_empty_conv)
    moreover have "pending s c u = (pending s c u \<and> (u < start \<or> n \<le> u \<or> masked s c u))" for u
      using none [of u] by (cases "start \<le> u \<and> u < n") auto
    ultimately show ?thesis using None nxt by (subst evaluate_unfold) auto
  next
    case (Some v)
    note split = find_upt_split [OF Some]
    have u: "usable s c v" using count_law [OF less.prems(2)] split(2) less.prems(4) by simp
    from generate_enabled [OF less.prems(1) u less.prems(3)] obtain s' c' where
      gen: "try_generate_message is_enabled is_masked set_pending_bit get_message_for s c v =
        Some (Inr (if masked s c v then Masked else Generated (message s c v)), (s', c'))"
      and eff: "pending s' c' v = masked s c v" "\<And>u. u \<noteq> v \<Longrightarrow> pending s' c' u = pending s c u"
        "\<And>u. usable s' c' u = usable s c u" "enabled s' c' = enabled s c"
        "\<And>u. masked s' c' u = masked s c u" "\<And>u. message s' c' u = message s c u"
        "is_bus_master c' = is_bus_master c"
      by blast
    have count: "count s' c' = n"
    proof (rule ccontr)
      assume "count s' c' \<noteq> n"
      then have "min (count s' c') n < count s' c' \<longleftrightarrow> \<not> min (count s' c') n < n" by auto
      then show False
        using count_law [OF less.prems(2), of "min (count s' c') n"] count_law [of s' c' 0 "min (count s' c') n"]
          eff(3) less.prems(2,4) by simp
    qed
    let ?ic = "if masked s c v then ic else send_msi ic (message s c v)"
    have "n - Suc v < n - start" using split(1,2) by simp
    from less.hyps [OF this, of c' s' ?ic] less.prems eff count split(2)
    obtain s'' c'' where run: "evaluate s' c' ?ic (Suc v) = Some (s'', c'', ?ic @ map (\<lambda>u. SendMsi (message s c u))
        (filter (\<lambda>u. pending s' c' u \<and> \<not> masked s c u) [Suc v..<n]))"
      and pend: "\<And>u. pending s'' c'' u = (pending s' c' u \<and> (u < Suc v \<or> n \<le> u \<or> masked s c u))"
      by auto
    have same: "filter (\<lambda>u. pending s' c' u \<and> \<not> masked s c u) [Suc v..<n] = filter ?fire [Suc v..<n]"
      by (rule filter_cong) (use eff(2) in auto)
    have before: "filter ?fire [start..<v] = []" using split(5) by (auto simp: filter_empty_conv)
    have "filter ?fire [start..<n] = (if masked s c v then [] else [v]) @ filter ?fire [Suc v..<n]"
      using split(3) split(4) [of ?fire] before by simp
    moreover have "evaluate s c ic start = evaluate s' c' ?ic (Suc v)"
      by (subst evaluate_unfold) (auto simp: nxt Some gen)
    moreover have "pending s'' c'' u = (pending s c u \<and> (u < start \<or> n \<le> u \<or> masked s c u))" for u
      using pend [of u] eff(1,2) split(1-3,5) by (cases "u = v") (auto simp: not_less)
    ultimately show ?thesis using run same by (auto simp: send_msi_def)
  qed
qed

end

section \<open>Lemmas on bits\<close>

lemma find_upt_bounds:
  assumes "List.find P [0..<n] = Some i"
  shows "P i" and "i < n" and "\<And>j. j < i \<Longrightarrow> \<not> P j"
  using assms by (auto simp: find_Some_iff)

lemma trailing_zeros_bit: "trailing_zeros (w :: 'a::len word) < LENGTH('a) \<Longrightarrow> bit w (trailing_zeros w)"
  by (auto simp: trailing_zeros_def split: option.splits dest: find_upt_bounds)

lemma trailing_zeros_below: "j < trailing_zeros (w :: 'a::len word) \<Longrightarrow> \<not> bit w j"
  by (auto simp: trailing_zeros_def find_None_iff split: option.splits dest: find_upt_bounds bit_imp_le_length)

lemma trailing_zeros_le: "trailing_zeros (w :: 'a::len word) \<le> LENGTH('a)"
  by (auto simp: trailing_zeros_def split: option.splits dest: find_upt_bounds)

lemma bit_bits_since:
  assumes "since < 2 ^ 32"
  shows "bit (bits_since since :: 'a::len word) k \<longleftrightarrow> k < LENGTH('a) \<and> since \<le> k"
proof (cases "since < LENGTH('a)")
  case True
  have "push_bit since (1 :: 'a word) \<noteq> 0"
    by (metis True bit_0_eq bit_exp_iff bot_apply bot_bool_def possible_bit_word push_bit_of_1)
  then have "bits_since since = (NOT (mask since) :: 'a word)"
    using True assms by (simp add: bits_since_def push_bit_of_1 mask_eq_exp_minus_1)
  then show ?thesis by (auto simp: bit_simps)
next
  case False
  then have "bits_since since = (0 :: 'a word)" using assms by (simp add: bits_since_def)
  with False show ?thesis by auto
qed

section \<open>MSI is a message source\<close>

text \<open>
  A vector of an MSI capability with per-vector masking, at an offset where the capability fits and
  with writable pending bits.
\<close>

definition msi_control :: "PciMsi \<Rightarrow> config_space \<Rightarrow> u16" where
  "msi_control self c = word_at (cs_registers c) (msi_offset self)"

definition msi_num_vectors :: "PciMsi \<Rightarrow> config_space \<Rightarrow> nat" where
  "msi_num_vectors self c = unat (num_capable_vectors (msi_control self c))"

definition msi_pending_reg :: "PciMsi \<Rightarrow> config_space \<Rightarrow> nat" where
  "msi_pending_reg self c = msi_offset self + (if is_64bit (msi_control self c) then 18 else 14)"

definition msi_mask_reg :: "PciMsi \<Rightarrow> config_space \<Rightarrow> nat" where
  "msi_mask_reg self c = msi_offset self + (if is_64bit (msi_control self c) then 14 else 10)"

definition msi_usable :: "PciMsi \<Rightarrow> config_space \<Rightarrow> usize \<Rightarrow> bool" where
  "msi_usable self c v \<longleftrightarrow> config_wf c \<and> 0x40 \<le> msi_offset self \<and> msi_offset self + 22 \<le> 256 \<and>
     per_vector_masking_enabled (msi_control self c) \<and> v < msi_num_vectors self c \<and>
     dword_at (cs_writable_bits c) (msi_pending_reg self c) = 0xFFFFFFFF"

definition msi_enabled :: "PciMsi \<Rightarrow> config_space \<Rightarrow> bool" where
  "msi_enabled self c = msi_control_enabled (msi_control self c)"

definition msi_masked :: "PciMsi \<Rightarrow> config_space \<Rightarrow> usize \<Rightarrow> bool" where
  "msi_masked self c v = bit (dword_at (cs_registers c) (msi_mask_reg self c)) v"

definition msi_pending :: "PciMsi \<Rightarrow> config_space \<Rightarrow> usize \<Rightarrow> bool" where
  "msi_pending self c v = bit (dword_at (cs_registers c) (msi_pending_reg self c)) v"

definition msi_message :: "PciMsi \<Rightarrow> config_space \<Rightarrow> usize \<Rightarrow> PciMsiMessage" where
  "msi_message self c v =
     \<lparr>msg_address = ucast (dword_at (cs_registers c) (msi_offset self + 2)) OR
        (if is_64bit (msi_control self c) then push_bit 32 (ucast (dword_at (cs_registers c) (msi_offset self + 6))) else 0),
      msg_data = ucast ((word_at (cs_registers c) (msi_offset self + message_data_offset (msi_control self c)) AND
        NOT (mask (unat (encode (enabled_vectors (msi_control self c)))))) OR (of_nat v :: u16))\<rparr>"

lemma num_capable_le: "unat (num_capable_vectors control) \<le> 32"
  by (cases "capable_vectors control") (simp_all add: num_capable_vectors_def max_vectors_def push_bit_eq_mult)

lemma msi_usable_vector: "msi_usable self c v \<Longrightarrow> v < 32"
  using num_capable_le [of "msi_control self c"] by (simp add: msi_usable_def msi_num_vectors_def)

lemma and_one_shl: "v < LENGTH('a) \<Longrightarrow> ((w :: 'a::len word) AND push_bit v 1 \<noteq> 0) = bit w v"
  using and_exp_eq_0_iff [of v w] by (simp add: push_bit_of_1)

lemma msi_is_masked_eq: "msi_usable self c v \<Longrightarrow> msi_is_masked self c v = Some (msi_masked self c v)"
  using msi_usable_vector [of self c v] and_one_shl [of v "dword_at (cs_registers c) (msi_mask_reg self c)"]
  by (auto simp: msi_is_masked_def msi_usable_def option_simps mask_bits_offset_def msi_control_def one_shl_def
      msi_masked_def msi_mask_reg_def)

lemma update_register_ones: "update_register w v (0xFFFFFFFF :: u32) = v"
proof -
  have "(0xFFFFFFFF :: u32) = - 1" by simp
  then show ?thesis by (simp only: update_register_def Let_def) simp
qed

lemma msi_set_pending_eq:
  assumes u: "msi_usable self c v" and "b \<longrightarrow> msi_masked self c v"
  defines "bits \<equiv> dword_at (cs_registers c) (msi_pending_reg self c)"
  shows "msi_set_pending_bit self c v b = Some (Inr (), (self,
    cs_store (patch_masked (cs_registers c) (cs_writable_bits c) (msi_pending_reg self c)
      (to_le_bytes (if b then bits OR push_bit v 1 else bits AND NOT (push_bit v 1)))) c))"
  using assms(2) msi_is_masked_eq [OF u] msi_usable_vector [OF u] u
  by (auto simp: msi_set_pending_bit_def msi_usable_def option_simps pending_bits_offset_def msi_control_def
      one_shl_def msi_pending_reg_def bits_def Let_def)

lemma msi_views_after_pending:
  assumes u: "msi_usable self c v"
    and c': "c' = cs_store (patch_masked (cs_registers c) (cs_writable_bits c) (msi_pending_reg self c) (to_le_bytes (w :: u32))) c"
  shows "msi_control self c' = msi_control self c" and "msi_pending_reg self c' = msi_pending_reg self c"
    and "msi_mask_reg self c' = msi_mask_reg self c"
    and "\<And>u. msi_masked self c' u = msi_masked self c u" and "\<And>u. msi_pending self c' u = bit w u"
    and "\<And>u. msi_usable self c' u = msi_usable self c u" and "\<And>u. msi_message self c' u = msi_message self c u"
    and "is_bus_master c' = is_bus_master c"
proof -
  have wf: "config_wf c" "msi_offset self + 22 \<le> 256" "0x40 \<le> msi_offset self"
    and bits: "dword_at (cs_writable_bits c) (msi_pending_reg self c) = 0xFFFFFFFF"
    using u by (simp_all add: msi_usable_def)
  show ctl: "msi_control self c' = msi_control self c"
    using wf by (simp add: c' msi_control_def msi_pending_reg_def)
  then show pr: "msi_pending_reg self c' = msi_pending_reg self c" and mr: "msi_mask_reg self c' = msi_mask_reg self c"
    by (simp_all add: msi_pending_reg_def msi_mask_reg_def)
  show "msi_masked self c' u = msi_masked self c u" for u
    using wf by (simp add: msi_masked_def mr) (simp add: c' msi_mask_reg_def msi_pending_reg_def)
  have "msi_pending_reg self c + 4 \<le> 256" using wf by (simp add: msi_pending_reg_def)
  then show "msi_pending self c' u = bit w u" for u
    using wf by (simp add: msi_pending_def pr) (simp add: c' bits update_register_ones)
  show "msi_usable self c' u = msi_usable self c u" for u
    using wf \<open>msi_pending_reg self c + 4 \<le> 256\<close>
    by (simp add: msi_usable_def ctl pr msi_num_vectors_def) (simp add: c')
  show "msi_message self c' u = msi_message self c u" for u
    using wf by (simp add: msi_message_def ctl)
      (auto simp: c' msi_pending_reg_def message_data_offset_def msi_control_def)
  show "is_bus_master c' = is_bus_master c"
    using wf by (simp add: is_bus_master_def option_simps c' msi_pending_reg_def)
qed

lemma msi_pending_law:
  assumes u: "msi_usable self c v" and "b \<longrightarrow> msi_masked self c v"
  shows "\<exists>s' c'. msi_set_pending_bit self c v b = Some (Inr (), (s', c')) \<and> msi_pending s' c' v = b \<and>
        (\<forall>u. u \<noteq> v \<longrightarrow> msi_pending s' c' u = msi_pending self c u) \<and>
        (\<forall>u. msi_usable s' c' u = msi_usable self c u) \<and> msi_enabled s' c' = msi_enabled self c \<and>
        (\<forall>u. msi_masked s' c' u = msi_masked self c u) \<and> (\<forall>u. msi_message s' c' u = msi_message self c u) \<and>
        is_bus_master c' = is_bus_master c"
proof -
  let ?w = "dword_at (cs_registers c) (msi_pending_reg self c)"
  let ?w' = "if b then ?w OR push_bit v 1 else ?w AND NOT (push_bit v 1)"
  have len: "\<not> bit (x :: u32) k" if "\<not> k < 32" for x k using bit_imp_le_length [of x k] that by auto
  have "bit ?w' k = (if k = v then b else bit ?w k)" for k
    using msi_usable_vector [OF u] len [of k] by (cases "k < 32") (auto simp: push_bit_of_1 bit_simps)
  then show ?thesis
    using msi_set_pending_eq [OF assms] msi_views_after_pending [OF u refl, of ?w']
    by (auto simp: msi_enabled_def msi_pending_def [of self c])
qed

lemma msi_message_law:
  assumes "msi_usable self c v"
  shows "msi_get_message_for self c v = Some (Inr (msi_message self c v), self)"
proof -
  have "message_data_offset (msi_control self c) \<le> 10" by (simp add: message_data_offset_def)
  moreover have "msi_offset self + 22 \<le> 256" using assms by (simp add: msi_usable_def)
  ultimately have "msi_offset self + message_data_offset (msi_control self c) + 2 \<le> 256" by linarith
  then show ?thesis using assms
    by (simp add: msi_get_message_for_def get_message_data_for_def msi_is_valid_vector_def option_simps
        msi_usable_def msi_message_def msi_control_def msi_num_vectors_def push_bit_of_1 mask_eq_exp_minus_1 Let_def)
qed

interpretation msi: msi_source msi_is_enabled msi_is_masked msi_set_pending_bit msi_get_message_for
  msi_usable msi_enabled msi_masked msi_pending msi_message
proof unfold_locales
  fix self c v
  assume u: "msi_usable self c v"
  show "config_wf c" using u by (simp add: msi_usable_def)
  show "msi_is_enabled self c = Some (msi_enabled self c)"
    using u by (simp add: msi_is_enabled_def msi_usable_def option_simps msi_enabled_def msi_control_def)
  show "msi_is_masked self c v = Some (msi_masked self c v)" by (rule msi_is_masked_eq [OF u])
  show "msi_get_message_for self c v = Some (Inr (msi_message self c v), self)" by (rule msi_message_law [OF u])
qed (rule msi_pending_law)

section \<open>Evaluation of the pending vectors\<close>

lemma next_pending_eq:
  assumes "msi_usable self c v" and "start \<le> 32"
  shows "next_pending_vector c (msi_offset self) start =
    Some (List.find (msi_pending self c) [start..<msi_num_vectors self c])"
proof -
  let ?n = "msi_num_vectors self c"
  let ?p = "dword_at (cs_registers c) (msi_pending_reg self c) AND bits_since start"
  let ?t = "trailing_zeros ?p"
  have n: "?n \<le> 32" using num_capable_le by (simp add: msi_num_vectors_def)
  have p: "bit ?p k \<longleftrightarrow> msi_pending self c k \<and> start \<le> k" if "k < 32" for k
    using that assms(2) by (simp add: bit_and_iff bit_bits_since msi_pending_def)
  have "next_pending_vector c (msi_offset self) start = Some (if ?t < ?n then Some ?t else None)"
    using assms by (auto simp: next_pending_vector_def option_simps msi_usable_def pending_bits_offset_def
        msi_control_def msi_pending_reg_def msi_num_vectors_def Let_def)
  also have "(if ?t < ?n then Some ?t else None) = List.find (msi_pending self c) [start..<?n]"
  proof (cases "?t < ?n")
    case True
    then have t: "msi_pending self c ?t" "start \<le> ?t" using trailing_zeros_bit [of ?p] p [of ?t] n by auto
    have "\<not> msi_pending self c (start + j)" if "j < ?t - start" for j
      using trailing_zeros_below [of "start + j" ?p] p [of "start + j"] that True n by auto
    then have "List.find (msi_pending self c) [start..<?n] = Some ?t"
      unfolding find_Some_iff using t True by (intro exI [of _ "?t - start"]) auto
    with True show ?thesis by simp
  next
    case False
    have "\<not> msi_pending self c k" if "k \<in> set [start..<?n]" for k
      using trailing_zeros_below [of k ?p] p [of k] that False n by auto
    then have "List.find (msi_pending self c) [start..<?n] = None" by (auto simp: find_None_iff)
    with False show ?thesis by simp
  qed
  finally show ?thesis .
qed

text \<open>The loop of \<open>evaluate_pending_interrupts\<close>, with the source in the state.\<close>

definition msi_evaluate :: "PciMsi \<Rightarrow> config_space \<Rightarrow> controller \<Rightarrow> usize \<Rightarrow> (PciMsi \<times> config_space \<times> controller) option" where
  "msi_evaluate self c ic start = map_option (Pair self) (msi_evaluate_from self c ic start)"

lemma msi_try_generate_self:
  assumes "msi_try_generate self c v = Some (r, (s', c'))"
  shows "s' = self"
  using assms
  by (auto simp: msi_try_generate_def try_generate_message_def msi_set_pending_bit_def msi_get_message_for_def
      bind_eq_Some_conv Let_def elim!: bind_result_SomeE split: if_splits option.splits prod.splits)

lemma map_option_bind_Pair:
  "(\<And>x. m = Some x \<Longrightarrow> map_option f (g x) = h x) \<Longrightarrow> map_option f (Option.bind m g) = Option.bind m h"
  by (cases m) auto

interpretation msi_loop: msi_pending_loop msi_is_enabled msi_is_masked msi_set_pending_bit msi_get_message_for
  msi_usable msi_enabled msi_masked msi_pending msi_message msi_num_vectors
  "\<lambda>self c. next_pending_vector c (msi_offset self)" msi_evaluate
proof unfold_locales
  fix self c v u start ic
  assume usable: "msi_usable self c v"
  then show "msi_usable self c u \<longleftrightarrow> u < msi_num_vectors self c" by (simp add: msi_usable_def)
  assume "start \<le> msi_num_vectors self c"
  with num_capable_le [of "msi_control self c"] have "start \<le> 32" by (simp add: msi_num_vectors_def)
  with usable show "next_pending_vector c (msi_offset self) start =
      Some (List.find (msi_pending self c) [start..<msi_num_vectors self c])" by (rule next_pending_eq)
next
  fix self c ic start
  show "msi_evaluate self c ic start = Option.bind (next_pending_vector c (msi_offset self) start) (\<lambda>nxt.
      case nxt of None \<Rightarrow> Some (self, c, ic)
      | Some v \<Rightarrow> Option.bind (try_generate_message msi_is_enabled msi_is_masked msi_set_pending_bit msi_get_message_for self c v)
          (\<lambda>(r, s, c). msi_evaluate s c (case r of Inr (Generated m) \<Rightarrow> send_msi ic m | _ \<Rightarrow> ic) (v + 1)))"
    unfolding msi_evaluate_def msi_try_generate_def [symmetric]
    by (subst msi_evaluate_from.simps)
      (auto intro!: map_option_bind_Pair split: option.splits dest: msi_try_generate_self)
qed

section \<open>Properties\<close>

lemma msi_control_roundtrip_aux:
  "is_64bit (to_message_control m) = (mc_address_width m = Address64Bit)"
  "per_vector_masking_enabled (to_message_control m) = (mc_per_vector_masking m = MaskingEnabled)"
  "capable_vectors (to_message_control m) = mc_vectors m"
  by (cases "mc_address_width m"; cases "mc_per_vector_masking m"; cases "mc_vectors m";
      simp add: to_message_control_def to_capable_def is_64bit_def per_vector_masking_enabled_def
        capable_vectors_def from_capable_def decode_def multiple_message_try_from_def)+

lemma msi_cap_size_le: "msi_cap_size control \<le> 22"
  by (simp add: msi_cap_size_def)

lemma msi_capability_contract: "capability_contract (msi_capability m)"
proof (unfold_locales, goal_cases)
  case (1 area)
  then show ?case by (auto simp: msi_capability_def msi_registers_def rb_set_word_def rb_set_def option_simps msi_cap_size_def)
next
  case (2 area)
  then show ?case
    by (simp add: msi_capability_def msi_writable_bits_def rb_set_word_def rb_set_dword_def rb_set_def option_simps
        msi_cap_size_def message_data_offset_def mask_bits_offset_def pending_bits_offset_def Let_def)
qed

interpretation msi_cap: capability_contract "msi_capability m" for m
  by (rule msi_capability_contract)

text \<open>
  A space with an MSI capability at 0x42 for the witnesses: four vectors, per-vector masking, enabled
  on a bus master, vector 1 masked and vectors 0, 1 and 2 pending.
\<close>

definition sample_msi :: PciMsi where
  "sample_msi = \<lparr>msi_offset = 0x42\<rparr>"

definition msi_config :: config_space where
  "msi_config = blank_config\<lparr>
     cs_registers := (replicate 256 0)[4 := 4, 0x42 := 5, 0x43 := 1, 0x46 := 0xE0, 0x47 := 0xFE, 0x48 := 0x20,
       0x4C := 2, 0x50 := 7],
     cs_writable_bits := (replicate 256 0)[0x50 := 0xFF, 0x51 := 0xFF, 0x52 := 0xFF, 0x53 := 0xFF]\<rparr>"

lemma msi_config_facts:
  "is_bus_master msi_config = Some True" "msi_usable sample_msi msi_config 0" "msi_usable sample_msi msi_config 1"
  "msi_usable sample_msi msi_config 2" "msi_enabled sample_msi msi_config" "msi_masked sample_msi msi_config 1"
  "\<not> msi_masked sample_msi msi_config 2" "msi_num_vectors sample_msi msi_config = 4"
  by code_simp+

lemma msi_usable_below: "msi_usable self c v \<Longrightarrow> u < msi_num_vectors self c \<Longrightarrow> msi_usable self c u"
  by (simp add: msi_usable_def)

text \<open>
  C18: Generating an MSI for a vector of a capability with per-vector masking. Without bus mastering or
  with MSI disabled nothing changes and the error says so. Otherwise a masked vector becomes pending
  and no message is produced; an unmasked one produces the programmed message and is no longer
  pending. No other vector changes.
\<close>

theorem msi_generation:
  assumes "msi_usable self c v"
  shows "(is_bus_master c = Some False \<longrightarrow> msi_try_generate self c v = Some (Inl NotBusMaster, (self, c))) \<and>
    (is_bus_master c = Some True \<and> \<not> msi_enabled self c \<longrightarrow>
       msi_try_generate self c v = Some (Inl MsiDisabled, (self, c))) \<and>
    (is_bus_master c = Some True \<and> msi_enabled self c \<longrightarrow>
       (\<exists>c'. msi_try_generate self c v =
          Some (Inr (if msi_masked self c v then Masked else Generated (msi_message self c v)), (self, c')) \<and>
        msi_pending self c' v = msi_masked self c v \<and>
        (\<forall>u. u \<noteq> v \<longrightarrow> msi_pending self c' u = msi_pending self c u) \<and>
        (\<forall>u. msi_masked self c' u = msi_masked self c u)))"
proof (intro conjI impI)
  assume on: "is_bus_master c = Some True \<and> msi_enabled self c"
  with msi.generate_enabled [of c self v] assms obtain s' c' where
    "msi_try_generate self c v =
      Some (Inr (if msi_masked self c v then Masked else Generated (msi_message self c v)), (s', c'))"
    "msi_pending s' c' v = msi_masked self c v \<and> (\<forall>u. u \<noteq> v \<longrightarrow> msi_pending s' c' u = msi_pending self c u) \<and>
     (\<forall>u. msi_masked s' c' u = msi_masked self c u)"
    unfolding msi_try_generate_def by blast
  moreover from this(1) have "s' = self" by (rule msi_try_generate_self)
  ultimately show "\<exists>c'. msi_try_generate self c v =
          Some (Inr (if msi_masked self c v then Masked else Generated (msi_message self c v)), (self, c')) \<and>
        msi_pending self c' v = msi_masked self c v \<and>
        (\<forall>u. u \<noteq> v \<longrightarrow> msi_pending self c' u = msi_pending self c u) \<and>
        (\<forall>u. msi_masked self c' u = msi_masked self c u)" by blast
qed (use assms msi.generate_not_master msi.generate_disabled in \<open>auto simp: msi_try_generate_def\<close>)

lemma msi_generation_witness:
  "\<exists>c1 c2. msi_try_generate sample_msi msi_config 1 = Some (Inr Masked, (sample_msi, c1)) \<and>
     msi_pending sample_msi c1 1 \<and>
     msi_try_generate sample_msi msi_config 2 = Some (Inr (Generated (msi_message sample_msi msi_config 2)), (sample_msi, c2)) \<and>
     \<not> msi_pending sample_msi c2 2"
  using msi_generation [OF msi_config_facts(3)] msi_generation [OF msi_config_facts(4)]
  by (auto simp: msi_config_facts msi_config_facts(6) [simplified])

text \<open>
  C19: Evaluating the pending interrupts returns, sends the messages of exactly the vectors that are
  pending and not masked, once each and in ascending order, and leaves pending exactly those that were
  pending and are masked.
\<close>

theorem msi_evaluate_pending:
  assumes "msi_usable self c 0" and "is_bus_master c = Some True" and "msi_enabled self c"
    and "n = msi_num_vectors self c"
  shows "\<exists>c'. msi_evaluate_pending_interrupts self c ic =
      Some (c', ic @ map (\<lambda>v. SendMsi (msi_message self c v))
        (filter (\<lambda>v. msi_pending self c v \<and> \<not> msi_masked self c v) [0..<n])) \<and>
    (\<forall>u < n. msi_pending self c' u = (msi_pending self c u \<and> msi_masked self c u))"
proof -
  from msi_loop.evaluate_eq [OF assms(2,1,3,4), of 0 ic] obtain s' c' where
    run: "msi_evaluate self c ic 0 = Some (s', c', ic @ map (\<lambda>v. SendMsi (msi_message self c v))
        (filter (\<lambda>v. msi_pending self c v \<and> \<not> msi_masked self c v) [0..<n]))"
    and pend: "\<And>u. msi_pending s' c' u = (msi_pending self c u \<and> (n \<le> u \<or> msi_masked self c u))" by auto
  from run have "s' = self" by (auto simp: msi_evaluate_def)
  with run pend show ?thesis by (auto simp: msi_evaluate_def msi_evaluate_pending_interrupts_def)
qed

lemma msi_evaluate_pending_witness:
  "\<exists>c'. msi_evaluate_pending_interrupts sample_msi msi_config [] =
      Some (c', [SendMsi (msi_message sample_msi msi_config 0), SendMsi (msi_message sample_msi msi_config 2)]) \<and>
    msi_pending sample_msi c' 1 \<and> \<not> msi_pending sample_msi c' 2"
proof -
  have fire: "filter (\<lambda>v. msi_pending sample_msi msi_config v \<and> \<not> msi_masked sample_msi msi_config v) [0..<4] = [0, 2]"
    and p: "msi_pending sample_msi msi_config 1" by code_simp+
  from msi_evaluate_pending [OF msi_config_facts(2,1,5) refl, of "[]"] show ?thesis
    using msi_config_facts msi_config_facts(6) [simplified] p by (auto simp: fire)
qed

text \<open>
  A capability without per-vector masking never generates a message: clearing the pending bit is
  not supported there, and the error ends the generation before the message is built.
\<close>

theorem msi_without_masking:
  assumes "config_wf c" and "msi_offset self + 2 \<le> 256" and "\<not> per_vector_masking_enabled (msi_control self c)"
    and "is_bus_master c = Some True" and "msi_enabled self c"
  shows "msi_try_generate self c v = Some (Inl NotSupported, (self, c))"
  using assms
  by (simp add: msi_try_generate_def try_generate_message_def msi_is_enabled_def msi_enabled_def msi_control_def
      msi_is_masked_def msi_set_pending_bit_def option_simps mask_bits_offset_def pending_bits_offset_def)

lemma msi_without_masking_witness:
  "msi_try_generate sample_msi (msi_config\<lparr>cs_registers := (cs_registers msi_config)[0x43 := 0]\<rparr>) 0 =
     Some (Inl NotSupported, (sample_msi, msi_config\<lparr>cs_registers := (cs_registers msi_config)[0x43 := 0]\<rparr>))"
  by (rule msi_without_masking; code_simp)

text \<open>
  Message data of a vector beyond the enabled ones. The comment in \<open>get_message_data_for\<close> lets the
  function change only as many low bits of the data as Multiple Message Enable says, but a vector that
  is valid for the capable count is put in whole: with one vector enabled out of four, vector 2 changes
  bit 1 of the programmed data.
\<close>

theorem msi_data_beyond_enabled:
  "msi_num_vectors sample_msi msi_config = 4 \<and> enabled_vectors (msi_control sample_msi msi_config) = One \<and>
   get_message_data_for sample_msi msi_config 0 = Some (Some 0x20) \<and>
   get_message_data_for sample_msi msi_config 2 = Some (Some 0x22)"
  by code_simp

text \<open>
  The message control word of an MSI capability decodes to the parameters it was built from.
\<close>

theorem msi_control_roundtrip:
  "is_64bit (to_message_control m) = (mc_address_width m = Address64Bit) \<and>
   per_vector_masking_enabled (to_message_control m) = (mc_per_vector_masking m = MaskingEnabled) \<and>
   capable_vectors (to_message_control m) = mc_vectors m \<and>
   from_enable (to_enable e) = Some e \<and> \<not> msi_control_enabled (to_message_control m) \<and>
   unat (num_capable_vectors (to_message_control m)) = 2 ^ unat (encode (mc_vectors m))"
proof -
  have "from_enable (to_enable e) = Some e"
    by (cases e) (simp_all add: to_enable_def from_enable_def decode_def multiple_message_try_from_def)
  moreover have "\<not> msi_control_enabled (to_message_control m)"
    by (cases "mc_address_width m"; cases "mc_per_vector_masking m"; cases "mc_vectors m";
      simp add: to_message_control_def to_capable_def msi_control_enabled_def)
  moreover have "unat (max_vectors e) = 2 ^ unat (encode e)" for e by (cases e) (simp_all add: max_vectors_def push_bit_eq_mult)
  ultimately show ?thesis by (simp add: msi_control_roundtrip_aux num_capable_vectors_def)
qed

end
