(* ===== verification/Msix.thy ===== *)
theory Msix
  imports Msi
begin

text \<open>
  MSI-X (\<open>msix.rs\<close>): the vector table and the pending bit array in a BAR, the capability that points
  at them, and the message source they are.
\<close>

section \<open>Constants and entries\<close>

definition MSIX_MESSAGE_CONTROL :: usize where [simp]: "MSIX_MESSAGE_CONTROL = 0"
definition MSIX_CONTROL_TABLE_SIZE :: u16 where [simp]: "MSIX_CONTROL_TABLE_SIZE = 0x7FF"
definition MSIX_CONTROL_FN_MASK :: u16 where [simp]: "MSIX_CONTROL_FN_MASK = 0x4000"
definition MSIX_CONTROL_MSIX_EN :: u16 where [simp]: "MSIX_CONTROL_MSIX_EN = 0x8000"
definition MSIX_TABLE_OFFSET :: usize where [simp]: "MSIX_TABLE_OFFSET = 2"
definition MSIX_PBA_OFFSET :: usize where [simp]: "MSIX_PBA_OFFSET = 6"
definition MSIX_OFFSET_MASK :: u32 where [simp]: "MSIX_OFFSET_MASK = 0xFFFFFFF8"
definition MSIX_CAP_SIZE :: usize where [simp]: "MSIX_CAP_SIZE = 10"
definition MSG_ADDR_LO_MASK :: u32 where [simp]: "MSG_ADDR_LO_MASK = 0xFFFFFFFC"
definition VECTOR_CONTROL_MASK :: u32 where [simp]: "VECTOR_CONTROL_MASK = 1"

record MsiXEntry =
  me_msg_addr :: u32
  me_msg_addr_hi :: u32
  me_msg_data :: u32
  me_vector_control :: u32

definition entry_msg_addr :: "MsiXEntry \<Rightarrow> u64" where
  "entry_msg_addr e = ucast (me_msg_addr e AND MSG_ADDR_LO_MASK) OR push_bit 32 (ucast (me_msg_addr_hi e))"

definition entry_is_masked :: "MsiXEntry \<Rightarrow> bool" where
  "entry_is_masked e \<longleftrightarrow> me_vector_control e AND VECTOR_CONTROL_MASK = 1"

definition entry_default :: MsiXEntry where
  "entry_default = \<lparr>me_msg_addr = 0, me_msg_addr_hi = 0, me_msg_data = 0, me_vector_control = VECTOR_CONTROL_MASK\<rparr>"

record PbaEntry =
  pba_pending_bits :: u64

section \<open>Tables\<close>

text \<open>
  The trait \<open>MsiXTableAccessor\<close> for arrays of entries. The structs are packed and the target is
  little-endian, so the raw bytes are the fields one after the other; a change of the raw bytes is
  read back as entries.
\<close>

definition entry_bytes :: "MsiXEntry \<Rightarrow> bytes" where
  "entry_bytes e = to_le_bytes (me_msg_addr e) @ to_le_bytes (me_msg_addr_hi e) @ to_le_bytes (me_msg_data e) @
     to_le_bytes (me_vector_control e)"

definition entry_of_bytes :: "bytes \<Rightarrow> MsiXEntry" where
  "entry_of_bytes b = \<lparr>me_msg_addr = from_le_bytes (take 4 b), me_msg_addr_hi = from_le_bytes (take 4 (drop 4 b)),
     me_msg_data = from_le_bytes (take 4 (drop 8 b)), me_vector_control = from_le_bytes (take 4 (drop 12 b))\<rparr>"

definition msix_raw_bytes :: "MsiXEntry list \<Rightarrow> bytes" where
  "msix_raw_bytes t = concat (map entry_bytes t)"

definition msix_store_raw :: "bytes \<Rightarrow> MsiXEntry list \<Rightarrow> MsiXEntry list" where
  "msix_store_raw b t = map (\<lambda>i. entry_of_bytes (take 16 (drop (16 * i) b))) [0..<length t]"

definition pba_raw_bytes :: "PbaEntry list \<Rightarrow> bytes" where
  "pba_raw_bytes t = concat (map (\<lambda>e. to_le_bytes (pba_pending_bits e)) t)"

definition pba_store_raw :: "bytes \<Rightarrow> PbaEntry list \<Rightarrow> PbaEntry list" where
  "pba_store_raw b t = map (\<lambda>i. \<lparr>pba_pending_bits = from_le_bytes (take 8 (drop (8 * i) b))\<rparr>) [0..<length t]"

definition table_at :: "'e list \<Rightarrow> usize \<Rightarrow> 'e option" where
  "table_at t index = (if index < length t then Some (t ! index) else None)"

definition pending_bit_for :: "usize \<Rightarrow> usize \<times> nat" where
  "pending_bit_for vector = (vector div 64, vector mod 64)"

definition pba_is_pending :: "PbaEntry list \<Rightarrow> usize \<Rightarrow> bool" where
  "pba_is_pending t vector =
     (let (index, shift) = pending_bit_for vector in
      case table_at t index of
        None \<Rightarrow> False
      | Some pba \<Rightarrow> let b = push_bit shift 1 in pba_pending_bits pba AND b = b)"

definition pba_set_pending_bit :: "PbaEntry list \<Rightarrow> usize \<Rightarrow> bool \<Rightarrow> unit result \<times> PbaEntry list" where
  "pba_set_pending_bit t vector pending =
     (let (index, shift) = pending_bit_for vector in
      case table_at t index of
        None \<Rightarrow> (Inl (InvalidMsiXVector vector), t)
      | Some pba \<Rightarrow>
          let b = push_bit shift 1;
              bits = (if pending then pba_pending_bits pba OR b else pba_pending_bits pba AND NOT b)
          in (Inr (), t[index := pba\<lparr>pba_pending_bits := bits\<rparr>]))"

section \<open>The capability\<close>

record PciMsiXCapability =
  xc_message_control :: u16
  xc_msix_offset :: u32
  xc_pba_offset :: u32

definition msix_cap_new ::
    "PciBarRegionInfo \<Rightarrow> MsiXEntry list \<Rightarrow> PciBarRegionInfo \<Rightarrow> PbaEntry list \<Rightarrow> PciMsiXCapability result" where
  "msix_cap_new msix_info msix_table pba_info pba_table =
     (let msix_bar = into_inner (region_bar msix_info);
          pba_bar = into_inner (region_bar pba_info);
          msix_offset = region_offset msix_info;
          pba_offset = region_offset pba_info;
          offset_mask = (ucast MSIX_OFFSET_MASK :: u64);
          num_vectors = length msix_table
      in if msix_offset OR offset_mask \<noteq> offset_mask then Inl (InvalidMsiXTableOffset msix_offset)
         else if 6 \<le> msix_bar then Inl (InvalidBarIndex msix_bar)
         else if pba_offset OR offset_mask \<noteq> offset_mask then Inl (InvalidMsiXTableOffset msix_offset)
         else if 6 \<le> pba_bar then Inl (InvalidBarIndex pba_bar)
         else if num_vectors = 0 \<or> num_vectors - 1 > unat MSIX_CONTROL_TABLE_SIZE
           then Inl (InvalidMsiXTableSize num_vectors)
         else if length (msix_raw_bytes msix_table) > unat (region_length msix_info)
           then Inl (InvalidMsiXBarSize (region_length msix_info))
         else if length (pba_raw_bytes pba_table) > unat (region_length pba_info)
           then Inl (InvalidMsiXBarSize (region_length pba_info))
         else Inr \<lparr>xc_message_control = of_nat (num_vectors - 1),
                    xc_msix_offset = ucast msix_offset OR of_nat msix_bar,
                    xc_pba_offset = ucast pba_offset OR of_nat pba_bar\<rparr>)"

definition msix_registers :: "PciMsiXCapability \<Rightarrow> bytes \<Rightarrow> bytes option" where
  "msix_registers self registers = do {
     r \<leftarrow> rb_set_word registers MSIX_MESSAGE_CONTROL (xc_message_control self);
     r \<leftarrow> rb_set_dword r MSIX_TABLE_OFFSET (xc_msix_offset self);
     rb_set_dword r MSIX_PBA_OFFSET (xc_pba_offset self)
   }"

definition msix_writable_bits :: "PciMsiXCapability \<Rightarrow> bytes \<Rightarrow> bytes option" where
  "msix_writable_bits self writable_bits =
     rb_set_word (replicate (length writable_bits) 0) MSIX_MESSAGE_CONTROL (MSIX_CONTROL_MSIX_EN OR MSIX_CONTROL_FN_MASK)"

definition msix_capability :: "PciMsiXCapability \<Rightarrow> pci_capability" where
  "msix_capability self =
     \<lparr>cap_id = MsiXCapId, cap_size = MSIX_CAP_SIZE, cap_registers = msix_registers self,
      cap_writable_bits = msix_writable_bits self\<rparr>"

record PciMsiX =
  mx_msix_info :: PciBarRegionInfo
  mx_pba_info :: PciBarRegionInfo
  mx_msix_table :: "MsiXEntry list"
  mx_pba_table :: "PbaEntry list"
  mx_cap_offset :: usize

record PciMsiXConfig =
  xcfg_msix_info :: PciBarRegionInfo
  xcfg_pba_info :: PciBarRegionInfo

definition msix_build ::
    "PciMsiXConfig \<Rightarrow> config_space \<Rightarrow> MsiXEntry list \<Rightarrow> PbaEntry list \<Rightarrow> (config_space, PciMsiX) call" where
  "msix_build self c msix_table pba_table = do {
     c \<leftarrow> allow_bus_master c;
     bind_result (Some (msix_cap_new (xcfg_msix_info self) msix_table (xcfg_pba_info self) pba_table, c)) (\<lambda>cap c.
     bind_result (add_capability c (msix_capability cap)) (\<lambda>cap_offset c.
     Some (Inr \<lparr>mx_msix_info = xcfg_msix_info self, mx_pba_info = xcfg_pba_info self, mx_msix_table = msix_table,
                 mx_pba_table = pba_table, mx_cap_offset = cap_offset\<rparr>, c)))
   }"

section \<open>The message source\<close>

definition msix_is_valid_vector :: "PciMsiX \<Rightarrow> config_space \<Rightarrow> usize \<Rightarrow> bool" where
  "msix_is_valid_vector self c vector \<longleftrightarrow> vector < length (mx_msix_table self)"

definition msix_is_enabled :: "PciMsiX \<Rightarrow> config_space \<Rightarrow> bool option" where
  "msix_is_enabled self c = do {
     control \<leftarrow> cs_read_word c (mx_cap_offset self + MSIX_MESSAGE_CONTROL);
     Some (control AND MSIX_CONTROL_MSIX_EN \<noteq> 0)
   }"

definition msix_is_pending :: "PciMsiX \<Rightarrow> config_space \<Rightarrow> usize \<Rightarrow> bool" where
  "msix_is_pending self c vector = pba_is_pending (mx_pba_table self) vector"

definition msix_set_pending_bit ::
    "PciMsiX \<Rightarrow> config_space \<Rightarrow> usize \<Rightarrow> bool \<Rightarrow> (PciMsiX \<times> config_space, unit) call" where
  "msix_set_pending_bit self c vector pending =
     (let (r, t) = pba_set_pending_bit (mx_pba_table self) vector pending
      in Some (r, (self\<lparr>mx_pba_table := t\<rparr>, c)))"

definition msix_control_fn_masked :: "u16 \<Rightarrow> bool" where
  "msix_control_fn_masked control \<longleftrightarrow> control AND MSIX_CONTROL_FN_MASK \<noteq> 0"

definition msix_is_fn_masked :: "PciMsiX \<Rightarrow> config_space \<Rightarrow> bool option" where
  "msix_is_fn_masked self c = do {
     control \<leftarrow> cs_read_word c (mx_cap_offset self + MSIX_MESSAGE_CONTROL);
     Some (control AND MSIX_CONTROL_FN_MASK \<noteq> 0)
   }"

definition msix_is_masked :: "PciMsiX \<Rightarrow> config_space \<Rightarrow> usize \<Rightarrow> bool option" where
  "msix_is_masked self c vector =
     (case table_at (mx_msix_table self) vector of
        None \<Rightarrow> Some False
      | Some entry \<Rightarrow> do {
          fn_masked \<leftarrow> msix_is_fn_masked self c;
          Some (fn_masked \<or> entry_is_masked entry)
        })"

definition msix_get_message_for :: "PciMsiX \<Rightarrow> config_space \<Rightarrow> usize \<Rightarrow> (PciMsiX, PciMsiMessage) call" where
  "msix_get_message_for self c vector =
     (case table_at (mx_msix_table self) vector of
        None \<Rightarrow> Some (Inl (InvalidMsiXVector vector), self)
      | Some entry \<Rightarrow> Some (Inr \<lparr>msg_address = entry_msg_addr entry, msg_data = me_msg_data entry\<rparr>, self))"

definition msix_try_generate :: "PciMsiX \<Rightarrow> config_space \<Rightarrow> usize \<Rightarrow> (PciMsiX \<times> config_space, PciMsiGenerationResult) call" where
  "msix_try_generate = try_generate_message msix_is_enabled msix_is_masked msix_set_pending_bit msix_get_message_for"

section \<open>Pending vectors\<close>

text \<open>The loop over the entries from \<open>i\<close> on; \<open>b\<close> is the bit of the vector the search starts at.\<close>

fun find_pending_in :: "PbaEntry list \<Rightarrow> nat \<Rightarrow> nat \<Rightarrow> usize option" where
  "find_pending_in [] i b = None"
| "find_pending_in (pba # pbas) i b =
     (let pending = pba_pending_bits pba AND bits_since b;
          t = trailing_zeros pending
      in if t < 64 then Some (i * 64 + t) else find_pending_in pbas (i + 1) b)"

definition find_pending_vector :: "PbaEntry list \<Rightarrow> usize \<Rightarrow> usize option" where
  "find_pending_vector pba_table since =
     (let (entry, b) = pending_bit_for since in find_pending_in (drop entry pba_table) entry b)"

partial_function (option) msix_evaluate_from ::
    "PciMsiX \<Rightarrow> config_space \<Rightarrow> controller \<Rightarrow> usize \<Rightarrow> (PciMsiX \<times> config_space \<times> controller) option" where
  "msix_evaluate_from self c ic start =
     (case find_pending_vector (mx_pba_table self) start of
        None \<Rightarrow> Some (self, c, ic)
      | Some vector \<Rightarrow> do {
          (r, self, c) \<leftarrow> msix_try_generate self c vector;
          msix_evaluate_from self c (case r of Inr (Generated message) \<Rightarrow> send_msi ic message | _ \<Rightarrow> ic) (vector + 1)
        })"

definition msix_evaluate_pending_interrupts ::
    "PciMsiX \<Rightarrow> config_space \<Rightarrow> controller \<Rightarrow> (PciMsiX \<times> config_space \<times> controller) option" where
  "msix_evaluate_pending_interrupts self c ic = msix_evaluate_from self c ic 0"

section \<open>Accesses\<close>

definition msix_control_offset :: "PciMsiX \<Rightarrow> usize" where
  "msix_control_offset self = mx_cap_offset self + MSIX_MESSAGE_CONTROL"

definition msix_on_write_config ::
    "PciMsiX \<Rightarrow> config_space \<Rightarrow> controller \<Rightarrow> usize \<Rightarrow> usize \<Rightarrow>
     (PciMsiX \<times> config_space \<times> controller, unit PciHandlerResult) call" where
  "msix_on_write_config self c ic offset sz = do {
     let control = msix_control_offset self;
     if range_overlaps 64 offset sz control 2
     then do {
       value \<leftarrow> cs_read_word c control;
       if \<not> msix_control_fn_masked value
       then do {
         s \<leftarrow> msix_evaluate_pending_interrupts self c ic;
         Some (Inr (Handled ()), s)
       }
       else Some (Inr Unhandled, (self, c, ic))
     }
     else Some (Inr Unhandled, (self, c, ic))
   }"

datatype MsiXBarRegion = MsiXTable | PbaTable

definition msix_info_iter :: "PciMsiX \<Rightarrow> (MsiXBarRegion \<times> PciBarRegionInfo) list" where
  "msix_info_iter self = [(MsiXTable, mx_msix_info self), (PbaTable, mx_pba_info self)]"

definition entry_size :: nat where [simp]: "entry_size = 16"

definition targets_vector_control :: "u64 \<Rightarrow> usize \<Rightarrow> bool" where
  "targets_vector_control offset sz = range_overlaps 64 (unat offset mod entry_size) sz (entry_size - 4) 4"

definition targets_message_data :: "u64 \<Rightarrow> usize \<Rightarrow> bool" where
  "targets_message_data offset sz = range_overlaps 64 (unat offset mod entry_size) sz (entry_size - 4 - 4) 4"

definition targets_message_address :: "u64 \<Rightarrow> usize \<Rightarrow> bool" where
  "targets_message_address offset sz = range_overlaps 64 (unat offset mod entry_size) sz 0 8"

definition targets_message_info :: "u64 \<Rightarrow> usize \<Rightarrow> bool" where
  "targets_message_info offset sz \<longleftrightarrow> targets_message_address offset sz \<or> targets_message_data offset sz"

definition offset_to_vector :: "u64 \<Rightarrow> usize" where
  "offset_to_vector offset = unat offset div entry_size"

text \<open>The context of a BAR access is the configuration space and the controller.\<close>

definition msix_region_read ::
    "PciMsiX \<Rightarrow> MsiXBarRegion \<Rightarrow> u64 \<Rightarrow> bytes \<Rightarrow> config_space \<times> controller \<Rightarrow>
     (PciMsiX \<times> bytes \<times> config_space \<times> controller, PciConfigurationUpdate option) call" where
  "msix_region_read self rid offset data context = do {
     (r, data) \<leftarrow> (case rid of
        MsiXTable \<Rightarrow> read_register_checked msix_raw_bytes (rb_validate_access msix_raw_bytes) (mx_msix_table self) (unat offset) data
      | PbaTable \<Rightarrow> read_register_checked pba_raw_bytes (rb_validate_access pba_raw_bytes) (mx_pba_table self) (unat offset) data);
     let data = (case r of Inr _ \<Rightarrow> data | Inl _ \<Rightarrow> replicate (length data) 0);
     Some (Inr None, (self, data, context))
   }"

definition msix_region_write ::
    "PciMsiX \<Rightarrow> MsiXBarRegion \<Rightarrow> u64 \<Rightarrow> bytes \<Rightarrow> config_space \<times> controller \<Rightarrow>
     (PciMsiX \<times> config_space \<times> controller, PciConfigurationUpdate option) call" where
  "msix_region_write self rid offset data context =
     (case rid of
        PbaTable \<Rightarrow> Some (Inr None, (self, context))
      | MsiXTable \<Rightarrow> do {
          (r, t) \<leftarrow> set_register_checked msix_raw_bytes msix_store_raw (rb_validate_access msix_raw_bytes)
                     (mx_msix_table self) (unat offset) data;
          case r of
            Inl _ \<Rightarrow> Some (Inr None, (self\<lparr>mx_msix_table := t\<rparr>, context))
          | Inr _ \<Rightarrow> do {
              let self = self\<lparr>mx_msix_table := t\<rparr>;
              (self, c, ic) \<leftarrow> (if targets_vector_control offset (length data)
                 then msix_evaluate_pending_interrupts self (fst context) (snd context)
                 else Some (self, context));
              if targets_message_info offset (length data)
              then do {
                let vector = offset_to_vector offset;
                (r, self) \<leftarrow> msix_get_message_for self c vector;
                Some (case r of Inl e \<Rightarrow> Inl e | Inr msg \<Rightarrow> Inr (Some (MsiXMessage vector msg)), (self, c, ic))
              }
              else Some (Inr None, (self, c, ic))
            }
        })"

definition msix_handle_read_bar ::
    "PciMsiX \<Rightarrow> PciBarIndex \<Rightarrow> u64 \<Rightarrow> bytes \<Rightarrow> config_space \<times> controller \<Rightarrow>
     (PciMsiX \<times> bytes \<times> config_space \<times> controller, PciConfigurationUpdate option PciHandlerResult) call" where
  "msix_handle_read_bar = set_handle_read_bar msix_info_iter msix_region_read"

definition msix_handle_write_bar ::
    "PciMsiX \<Rightarrow> PciBarIndex \<Rightarrow> u64 \<Rightarrow> bytes \<Rightarrow> config_space \<times> controller \<Rightarrow>
     (PciMsiX \<times> config_space \<times> controller, PciConfigurationUpdate option PciHandlerResult) call" where
  "msix_handle_write_bar = set_handle_write_bar msix_info_iter msix_region_write"

section \<open>The tables as register blocks\<close>

lemma take_drop_concat:
  assumes "\<And>e. e \<in> set t \<Longrightarrow> length (f e) = k" and "i < length t"
  shows "take k (drop (k * i) (concat (map f t))) = f (t ! i)"
  using assms
proof (induction t arbitrary: i)
  case (Cons e t)
  show ?case
  proof (cases i)
    case (Suc j)
    then have "drop (k * i) (concat (map f (e # t))) = drop (k * j) (concat (map f t))"
      using Cons.prems(1) [of e] by simp
    with Cons Suc show ?thesis by simp
  qed (use Cons.prems in simp)
qed simp

lemma concat_chunks: "length b = k * n \<Longrightarrow> concat (map (\<lambda>i. take k (drop (k * i) b)) [0..<n]) = b"
proof (induction n arbitrary: b)
  case (Suc n)
  have "concat (map (\<lambda>i. take k (drop (k * i) b)) [0..<Suc n]) =
      concat (map (\<lambda>i. take k (drop (k * i) (take (k * n) b))) [0..<n]) @ take k (drop (k * n) b)"
  proof -
    have "take k (drop (k * i) b) = take k (drop (k * i) (take (k * n) b))" if "i < n" for i
    proof -
      have "k * i + k \<le> k * n" using that by (metis Suc_leI mult_Suc_right add.commute mult_le_mono2)
      then show ?thesis by (simp add: drop_take min_absorb1 le_diff_conv2)
    qed
    then have "map (\<lambda>i. take k (drop (k * i) b)) [0..<n] = map (\<lambda>i. take k (drop (k * i) (take (k * n) b))) [0..<n]"
      by (intro map_cong refl) simp
    then show ?thesis by (simp only: upt_Suc_append [OF le0] map_append concat_append) simp
  qed
  also have "\<dots> = take (k * n) b @ take k (drop (k * n) b)" using Suc by simp
  also have "\<dots> = b" using Suc.prems by simp
  finally show ?case .
qed simp

lemma length_concat_const: "(\<And>e. e \<in> set t \<Longrightarrow> length (f e) = k) \<Longrightarrow> length (concat (map f t)) = k * length t"
  by (induction t) auto

lemma length_entry_bytes [simp]: "length (entry_bytes e) = 16"
  by (simp add: entry_bytes_def)

lemma entry_of_entry_bytes [simp]: "entry_of_bytes (entry_bytes e) = e"
  by (simp add: entry_of_bytes_def entry_bytes_def from_to_le_bytes)

lemma entry_bytes_of_bytes:
  assumes "length b = 16"
  shows "entry_bytes (entry_of_bytes b) = b"
proof -
  have "entry_bytes (entry_of_bytes b) = take 4 b @ take 4 (drop 4 b) @ take 4 (drop 8 b) @ take 4 (drop 12 b)"
    using assms by (simp add: entry_of_bytes_def entry_bytes_def to_from_le_bytes)
  also have "\<dots> = b"
    using assms concat_chunks [of b 4 4] by (simp add: upt_rec numeral_eq_Suc)
  finally show ?thesis .
qed

lemma length_msix_raw [simp]: "length (msix_raw_bytes t) = 16 * length t"
  unfolding msix_raw_bytes_def by (rule length_concat_const) simp

lemma length_pba_raw [simp]: "length (pba_raw_bytes t) = 8 * length t"
  unfolding pba_raw_bytes_def by (rule length_concat_const) simp

interpretation msix_block: register_block msix_raw_bytes msix_store_raw
proof unfold_locales
  fix r :: bytes and t :: "MsiXEntry list"
  assume len: "length r = length (msix_raw_bytes t)"
  have "msix_raw_bytes (msix_store_raw r t) =
      concat (map (\<lambda>i. entry_bytes (entry_of_bytes (take 16 (drop (16 * i) r)))) [0..<length t])"
    by (simp add: msix_raw_bytes_def msix_store_raw_def comp_def)
  also have "\<dots> = concat (map (\<lambda>i. take 16 (drop (16 * i) r)) [0..<length t])"
    using len by (intro arg_cong [where f = concat] map_cong refl entry_bytes_of_bytes) auto
  also have "\<dots> = r" using len by (intro concat_chunks) simp
  finally show "msix_raw_bytes (msix_store_raw r t) = r" .
  show "msix_store_raw r' (msix_store_raw r t) = msix_store_raw r' t" for r'
    by (simp add: msix_store_raw_def)
next
  fix t :: "MsiXEntry list"
  show "msix_store_raw (msix_raw_bytes t) t = t"
    by (rule nth_equalityI) (simp_all add: msix_store_raw_def msix_raw_bytes_def take_drop_concat)
qed

interpretation pba_block: register_block pba_raw_bytes pba_store_raw
proof unfold_locales
  fix r :: bytes and t :: "PbaEntry list"
  assume len: "length r = length (pba_raw_bytes t)"
  have "pba_raw_bytes (pba_store_raw r t) =
      concat (map (\<lambda>i. to_le_bytes (from_le_bytes (take 8 (drop (8 * i) r)) :: u64)) [0..<length t])"
    by (simp add: pba_raw_bytes_def pba_store_raw_def comp_def)
  also have "\<dots> = concat (map (\<lambda>i. take 8 (drop (8 * i) r)) [0..<length t])"
    using len by (intro arg_cong [where f = concat] map_cong refl to_from_le_bytes) auto
  also have "\<dots> = r" using len by (intro concat_chunks) simp
  finally show "pba_raw_bytes (pba_store_raw r t) = r" .
  show "pba_store_raw r' (pba_store_raw r t) = pba_store_raw r' t" for r'
    by (simp add: pba_store_raw_def)
next
  fix t :: "PbaEntry list"
  show "pba_store_raw (pba_raw_bytes t) t = t"
    by (rule nth_equalityI) (simp_all add: pba_store_raw_def pba_raw_bytes_def take_drop_concat from_to_le_bytes)
qed

section \<open>The pending bit array\<close>

lemma and_bit_eq:
  assumes "k < LENGTH('a)"
  shows "(w :: 'a::len word) AND 2 ^ k = 2 ^ k \<longleftrightarrow> bit w k"
proof
  assume "w AND 2 ^ k = 2 ^ k"
  then have "bit (w AND 2 ^ k) k = bit (2 ^ k :: 'a word) k" by simp
  with assms show "bit w k" by (simp add: bit_simps)
next
  assume "bit w k"
  then show "w AND 2 ^ k = 2 ^ k" by (intro bit_word_eqI) (auto simp: bit_simps)
qed

lemma pba_is_pending_iff:
  "pba_is_pending t v \<longleftrightarrow> v < 64 * length t \<and> bit (pba_pending_bits (t ! (v div 64))) (v mod 64)"
proof -
  have "v div 64 < length t \<longleftrightarrow> v < 64 * length t" by (simp add: div_less_iff_less_mult mult.commute)
  then show ?thesis by (simp add: pba_is_pending_def pending_bit_for_def table_at_def and_bit_eq Let_def)
qed

lemma pba_set_pending_Ok:
  assumes "v < 64 * length t"
  shows "\<exists>t'. pba_set_pending_bit t v b = (Inr (), t') \<and> length t' = length t \<and>
    (\<forall>u. pba_is_pending t' u = (if u = v then b else pba_is_pending t u))"
proof -
  let ?i = "v div 64" and ?k = "v mod 64"
  let ?bits = "if b then pba_pending_bits (t ! ?i) OR 2 ^ ?k else pba_pending_bits (t ! ?i) AND NOT (2 ^ ?k)"
  let ?t = "t[?i := (t ! ?i)\<lparr>pba_pending_bits := ?bits\<rparr>]"
  have i: "?i < length t" using assms by simp
  have bits: "bit ?bits k \<longleftrightarrow> (if k = ?k then b else bit (pba_pending_bits (t ! ?i)) k)" if "k < 64" for k
    using that by (auto simp: bit_simps)
  have "pba_is_pending ?t u = (if u = v then b else pba_is_pending t u)" for u
  proof (cases "u div 64 = ?i")
    case True
    then have "u = v \<longleftrightarrow> u mod 64 = ?k" by (metis mult_div_mod_eq)
    with True i assms bits [of "u mod 64"] show ?thesis
      by (auto simp: pba_is_pending_iff div_less_iff_less_mult mult.commute)
  qed (auto simp: pba_is_pending_iff)
  then show ?thesis using i by (simp add: pba_set_pending_bit_def pending_bit_for_def table_at_def Let_def)
qed

lemma find_append_case: "List.find P (xs @ ys) = (case List.find P xs of None \<Rightarrow> List.find P ys | Some x \<Rightarrow> Some x)"
  by (induction xs) auto

lemma find_map_comp: "List.find P (map f xs) = map_option f (List.find (\<lambda>x. P (f x)) xs)"
  by (induction xs) auto

lemma find_cong_set: "(\<And>x. x \<in> set xs \<Longrightarrow> P x = Q x) \<Longrightarrow> List.find P xs = List.find Q xs"
  by (induction xs) auto

lemma trailing_zeros_find:
  "(if trailing_zeros (w :: 'a::len word) < LENGTH('a) then Some (f (trailing_zeros w)) else None) =
     map_option f (List.find (bit w) [0..<LENGTH('a)])"
  by (auto simp: trailing_zeros_def split: option.splits dest: find_upt_bounds(2))

lemma find_pending_in_eq:
  assumes "b < 64"
  shows "find_pending_in (drop i t) i b =
    List.find (\<lambda>v. pba_is_pending t v \<and> b \<le> v mod 64) [64 * i..<64 * length t]"
proof (induction "length t - i" arbitrary: i)
  case (Suc n)
  let ?w = "pba_pending_bits (t ! i) AND bits_since b"
  let ?P = "\<lambda>v. pba_is_pending t v \<and> b \<le> v mod 64"
  from Suc(2) have i: "i < length t" by simp
  have "[64 * i..<64 * i + 64] = map ((+) (64 * i)) [0..<64]" by (rule nth_equalityI) simp_all
  then have "List.find ?P [64 * i..<64 * i + 64] =
      map_option ((+) (64 * i)) (List.find (\<lambda>k. ?P (64 * i + k)) [0..<64])"
    by (simp only: find_map_comp)
  also have "List.find (\<lambda>k. ?P (64 * i + k)) [0..<64] = List.find (bit ?w) [0..<64]"
    using i assms by (intro find_cong_set) (auto simp: pba_is_pending_iff bit_and_iff bit_bits_since)
  finally have entry: "List.find ?P [64 * i..<64 * i + 64] =
      (if trailing_zeros ?w < 64 then Some (64 * i + trailing_zeros ?w) else None)"
    using trailing_zeros_find [of ?w "(+) (64 * i)"] by simp
  have "[64 * i..<64 * length t] = [64 * i..<64 * i + 64] @ [64 * Suc i..<64 * length t]"
    using i upt_add_eq_append [of "64 * i" "64 * i + 64" "64 * length t - (64 * i + 64)"] by (simp add: add.commute)
  then have "List.find ?P [64 * i..<64 * length t] =
      (if trailing_zeros ?w < 64 then Some (64 * i + trailing_zeros ?w) else List.find ?P [64 * Suc i..<64 * length t])"
    by (simp only: find_append_case entry) simp
  also have "\<dots> = find_pending_in (drop i t) i b"
    using Suc i by (simp add: Cons_nth_drop_Suc [symmetric] Let_def mult.commute)
  finally show ?case by simp
qed simp

lemma find_pending_vector_eq:
  "find_pending_vector t since =
     List.find (\<lambda>v. pba_is_pending t v \<and> since mod 64 \<le> v mod 64) [since..<64 * length t]"
proof -
  let ?P = "\<lambda>v. pba_is_pending t v \<and> since mod 64 \<le> v mod 64" and ?i = "since div 64"
  have eq: "find_pending_vector t since = List.find ?P [64 * ?i..<64 * length t]"
    using find_pending_in_eq [of "since mod 64" ?i t] by (simp add: find_pending_vector_def pending_bit_for_def)
  show ?thesis
  proof (cases "since \<le> 64 * length t")
    case True
    have "64 * ?i \<le> since" by simp
    then have "[64 * ?i..<64 * length t] = [64 * ?i..<since] @ [since..<64 * length t]"
      using True by (metis le_add_diff_inverse upt_add_eq_append)
    moreover have "\<not> ?P v" if "v \<in> set [64 * ?i..<since]" for v
    proof -
      from that have "64 * ?i \<le> v" "v < since" by auto
      then have "v div 64 = ?i" by (metis div_le_mono div_mult_self1_is_m less_imp_le_nat order_antisym zero_less_numeral)
      then show ?thesis using \<open>v < since\<close> by (metis div_mult_mod_eq nat_add_left_cancel_le not_less)
    qed
    then have "List.find ?P [64 * ?i..<since] = None" by (auto simp: find_None_iff)
    ultimately show ?thesis by (simp only: eq find_append_case) simp
  next
    case False
    then have "64 * length t \<le> 64 * ?i" by simp
    with False show ?thesis by (simp add: eq)
  qed
qed

section \<open>MSI-X is a message source\<close>

definition msix_control :: "PciMsiX \<Rightarrow> config_space \<Rightarrow> u16" where
  "msix_control self c = word_at (cs_registers c) (mx_cap_offset self)"

definition msix_usable :: "PciMsiX \<Rightarrow> config_space \<Rightarrow> usize \<Rightarrow> bool" where
  "msix_usable self c v \<longleftrightarrow> config_wf c \<and> mx_cap_offset self + 10 \<le> 256 \<and> v < length (mx_msix_table self) \<and>
     v < 64 * length (mx_pba_table self)"

definition msix_enabled :: "PciMsiX \<Rightarrow> config_space \<Rightarrow> bool" where
  "msix_enabled self c \<longleftrightarrow> bit (msix_control self c) 15"

definition msix_masked :: "PciMsiX \<Rightarrow> config_space \<Rightarrow> usize \<Rightarrow> bool" where
  "msix_masked self c v \<longleftrightarrow> bit (msix_control self c) 14 \<or> bit (me_vector_control (mx_msix_table self ! v)) 0"

definition msix_message :: "PciMsiX \<Rightarrow> config_space \<Rightarrow> usize \<Rightarrow> PciMsiMessage" where
  "msix_message self c v =
     \<lparr>msg_address = entry_msg_addr (mx_msix_table self ! v), msg_data = me_msg_data (mx_msix_table self ! v)\<rparr>"

lemma control_bits:
  "(w :: u16) AND 0x8000 \<noteq> 0 \<longleftrightarrow> bit w 15" "(w :: u16) AND 0x4000 \<noteq> 0 \<longleftrightarrow> bit w 14"
  using and_exp_eq_0_iff [of 15 w] and_exp_eq_0_iff [of 14 w] by simp_all

lemma entry_is_masked_iff: "entry_is_masked e \<longleftrightarrow> bit (me_vector_control e) 0"
  by (simp add: entry_is_masked_def and_one_eq odd_iff_mod_2_eq_one bit_0)

lemma msix_control_read:
  "config_wf c \<Longrightarrow> mx_cap_offset self + 10 \<le> 256 \<Longrightarrow>
     cs_read_word c (mx_cap_offset self) = Some (msix_control self c)"
  by (simp add: option_simps msix_control_def)

lemma msix_is_masked_eq: "msix_usable self c v \<Longrightarrow> msix_is_masked self c v = Some (msix_masked self c v)"
  by (simp add: msix_is_masked_def msix_usable_def table_at_def msix_is_fn_masked_def msix_control_read
      control_bits msix_masked_def entry_is_masked_iff)

lemma msix_set_pending_Ok:
  assumes "v < 64 * length (mx_pba_table self)"
  shows "\<exists>t. msix_set_pending_bit self c v b = Some (Inr (), (self\<lparr>mx_pba_table := t\<rparr>, c)) \<and>
    length t = length (mx_pba_table self) \<and>
    (\<forall>u. pba_is_pending t u = (if u = v then b else msix_is_pending self c u))"
  using pba_set_pending_Ok [OF assms, of b] by (auto simp: msix_set_pending_bit_def msix_is_pending_def)

lemma msix_views_pba [simp]:
  "msix_control (self\<lparr>mx_pba_table := t\<rparr>) c = msix_control self c"
  "msix_enabled (self\<lparr>mx_pba_table := t\<rparr>) c = msix_enabled self c"
  "msix_masked (self\<lparr>mx_pba_table := t\<rparr>) c v = msix_masked self c v"
  "msix_message (self\<lparr>mx_pba_table := t\<rparr>) c v = msix_message self c v"
  "msix_is_pending (self\<lparr>mx_pba_table := t\<rparr>) c v = pba_is_pending t v"
  by (simp_all add: msix_control_def msix_enabled_def msix_masked_def msix_message_def msix_is_pending_def)

interpretation msix: msi_source msix_is_enabled msix_is_masked msix_set_pending_bit msix_get_message_for
  msix_usable msix_enabled msix_masked msix_is_pending msix_message
proof unfold_locales
  fix self c v b
  assume u: "msix_usable self c v"
  then show "config_wf c" by (simp add: msix_usable_def)
  show "msix_is_enabled self c = Some (msix_enabled self c)"
    using u by (simp add: msix_is_enabled_def msix_usable_def msix_control_read msix_enabled_def control_bits)
  show "msix_is_masked self c v = Some (msix_masked self c v)" using u by (rule msix_is_masked_eq)
  show "msix_get_message_for self c v = Some (Inr (msix_message self c v), self)"
    using u by (simp add: msix_get_message_for_def msix_usable_def table_at_def msix_message_def)
  from u obtain t where t: "msix_set_pending_bit self c v b = Some (Inr (), (self\<lparr>mx_pba_table := t\<rparr>, c))"
    "length t = length (mx_pba_table self)" "\<forall>u. pba_is_pending t u = (if u = v then b else msix_is_pending self c u)"
    using msix_set_pending_Ok [of v self c b] by (auto simp: msix_usable_def)
  show "\<exists>s' c'. msix_set_pending_bit self c v b = Some (Inr (), (s', c')) \<and> msix_is_pending s' c' v = b \<and>
        (\<forall>u. u \<noteq> v \<longrightarrow> msix_is_pending s' c' u = msix_is_pending self c u) \<and>
        (\<forall>u. msix_usable s' c' u = msix_usable self c u) \<and> msix_enabled s' c' = msix_enabled self c \<and>
        (\<forall>u. msix_masked s' c' u = msix_masked self c u) \<and> (\<forall>u. msix_message s' c' u = msix_message self c u) \<and>
        is_bus_master c' = is_bus_master c"
    by (intro exI [of _ "self\<lparr>mx_pba_table := t\<rparr>"] exI [of _ c]) (use t in \<open>simp add: msix_usable_def\<close>)
qed

text \<open>
  With at most 64 vectors, and a one-entry array that has no bit set beyond them, the search is exact
  and the loop is the one of the contract.
\<close>

definition msix_one_entry :: "PciMsiX \<Rightarrow> config_space \<Rightarrow> usize \<Rightarrow> bool" where
  "msix_one_entry self c v \<longleftrightarrow> msix_usable self c v \<and> length (mx_pba_table self) = 1 \<and>
     length (mx_msix_table self) \<le> 64 \<and> (\<forall>u. msix_is_pending self c u \<longrightarrow> u < length (mx_msix_table self))"

definition msix_evaluate ::
    "PciMsiX \<Rightarrow> config_space \<Rightarrow> controller \<Rightarrow> usize \<Rightarrow> (PciMsiX \<times> config_space \<times> controller) option" where
  "msix_evaluate = msix_evaluate_from"

lemma find_pending_one_entry:
  assumes "msix_one_entry self c v" and "start \<le> length (mx_msix_table self)"
  shows "find_pending_vector (mx_pba_table self) start =
    List.find (msix_is_pending self c) [start..<length (mx_msix_table self)]"
proof -
  let ?n = "length (mx_msix_table self)" and ?P = "msix_is_pending self c"
  have n: "?n \<le> 64" "length (mx_pba_table self) = 1" and beyond: "\<And>u. ?P u \<Longrightarrow> u < ?n"
    using assms(1) by (auto simp: msix_one_entry_def)
  have "find_pending_vector (mx_pba_table self) start = List.find ?P [start..<64]"
  proof (cases "start = 64")
    case False
    with n assms(2) show ?thesis
      by (simp only: find_pending_vector_eq) (auto intro!: find_cong_set simp: msix_is_pending_def)
  qed (simp add: find_pending_vector_eq n)
  also have "[start..<64] = [start..<?n] @ [?n..<64]"
    using n assms(2) upt_add_eq_append [of start ?n "64 - ?n"] by simp
  also have "List.find ?P \<dots> = List.find ?P [start..<?n]"
  proof -
    have "List.find ?P [?n..<64] = None" using beyond by (force simp: find_None_iff)
    then show ?thesis by (simp add: find_append_case split: option.split)
  qed
  finally show ?thesis .
qed

interpretation msix_loop: msi_pending_loop msix_is_enabled msix_is_masked msix_set_pending_bit msix_get_message_for
  msix_one_entry msix_enabled msix_masked msix_is_pending msix_message "\<lambda>self c. length (mx_msix_table self)"
  "\<lambda>self c start. Some (find_pending_vector (mx_pba_table self) start)" msix_evaluate
proof unfold_locales
  fix self c v u start b
  assume one: "msix_one_entry self c v"
  then have usable: "msix_usable self c v" by (simp add: msix_one_entry_def)
  show "config_wf c" by (rule msix.usable_wf [OF usable])
  show "msix_is_enabled self c = Some (msix_enabled self c)" by (rule msix.enabled_law [OF usable])
  show "msix_is_masked self c v = Some (msix_masked self c v)" by (rule msix.masked_law [OF usable])
  show "msix_get_message_for self c v = Some (Inr (msix_message self c v), self)" by (rule msix.message_law [OF usable])
  show "msix_one_entry self c u \<longleftrightarrow> u < length (mx_msix_table self)"
    using one by (auto simp: msix_one_entry_def msix_usable_def)
  from usable obtain t where t: "msix_set_pending_bit self c v b = Some (Inr (), (self\<lparr>mx_pba_table := t\<rparr>, c))"
    "length t = length (mx_pba_table self)" "\<forall>u. pba_is_pending t u = (if u = v then b else msix_is_pending self c u)"
    using msix_set_pending_Ok [of v self c b] by (auto simp: msix_usable_def)
  have "msix_one_entry (self\<lparr>mx_pba_table := t\<rparr>) c u = msix_one_entry self c u" for u
    using one t by (auto simp: msix_one_entry_def msix_usable_def)
  with t show "\<exists>s' c'. msix_set_pending_bit self c v b = Some (Inr (), (s', c')) \<and> msix_is_pending s' c' v = b \<and>
        (\<forall>u. u \<noteq> v \<longrightarrow> msix_is_pending s' c' u = msix_is_pending self c u) \<and>
        (\<forall>u. msix_one_entry s' c' u = msix_one_entry self c u) \<and> msix_enabled s' c' = msix_enabled self c \<and>
        (\<forall>u. msix_masked s' c' u = msix_masked self c u) \<and> (\<forall>u. msix_message s' c' u = msix_message self c u) \<and>
        is_bus_master c' = is_bus_master c"
    by (intro exI [of _ "self\<lparr>mx_pba_table := t\<rparr>"] exI [of _ c]) simp
  assume "start \<le> length (mx_msix_table self)"
  with one show "Some (find_pending_vector (mx_pba_table self) start) =
      Some (List.find (msix_is_pending self c) [start..<length (mx_msix_table self)])"
    by (simp add: find_pending_one_entry)
next
  fix self c ic start
  show "msix_evaluate self c ic start = Option.bind (Some (find_pending_vector (mx_pba_table self) start)) (\<lambda>nxt.
      case nxt of None \<Rightarrow> Some (self, c, ic)
      | Some v \<Rightarrow> Option.bind (try_generate_message msix_is_enabled msix_is_masked msix_set_pending_bit msix_get_message_for self c v)
          (\<lambda>(r, s, c). msix_evaluate s c (case r of Inr (Generated m) \<Rightarrow> send_msi ic m | _ \<Rightarrow> ic) (v + 1)))"
    unfolding msix_evaluate_def msix_try_generate_def [symmetric]
    by (subst msix_evaluate_from.simps) (simp split: option.splits)
qed

lemma msix_capability_contract: "capability_contract (msix_capability x)"
  by unfold_locales
    (auto simp: msix_capability_def msix_registers_def msix_writable_bits_def rb_set_word_def rb_set_dword_def
      rb_set_def option_simps)

interpretation msix_cap: capability_contract "msix_capability x" for x
  by (rule msix_capability_contract)

section \<open>The evaluation returns\<close>

text \<open>Evaluation leaves everything but the pending bits and the controller alone, whatever the array.\<close>

lemma msix_try_generate_frame:
  assumes "config_wf c" and "mx_cap_offset self + 10 \<le> 256" and "v < 64 * length (mx_pba_table self)"
  shows "\<exists>r t. msix_try_generate self c v = Some (r, (self\<lparr>mx_pba_table := t\<rparr>, c)) \<and>
    length t = length (mx_pba_table self)"
proof -
  have en: "msix_is_enabled self c = Some (msix_enabled self c)"
    using assms by (simp add: msix_is_enabled_def msix_control_read msix_enabled_def control_bits)
  have "\<exists>m. msix_is_masked self c v = Some m"
    using assms by (cases "table_at (mx_msix_table self) v")
      (auto simp: msix_is_masked_def msix_is_fn_masked_def msix_control_read)
  then obtain m where m: "msix_is_masked self c v = Some m" ..
  obtain b where b: "is_bus_master c = Some b" using assms(1) by (simp add: is_bus_master_def option_simps)
  have same: "self\<lparr>mx_pba_table := mx_pba_table self\<rparr> = self" by simp
  obtain t where "msix_set_pending_bit self c v m = Some (Inr (), (self\<lparr>mx_pba_table := t\<rparr>, c))"
    "length t = length (mx_pba_table self)" using msix_set_pending_Ok [OF assms(3), of c m] by blast
  moreover have "\<exists>r. msix_get_message_for (self\<lparr>mx_pba_table := t\<rparr>) c v = Some (r, self\<lparr>mx_pba_table := t\<rparr>)"
    by (auto simp: msix_get_message_for_def split: option.split)
  ultimately show ?thesis
    using en m b same
    by (cases "b \<and> msix_enabled self c"; cases m)
      (auto simp: msix_try_generate_def try_generate_message_def bind_result_def split: sum.split
        intro: exI [of _ "mx_pba_table self"] exI [of _ t])
qed

lemma msix_evaluate_frame:
  assumes "config_wf c" and "mx_cap_offset self + 10 \<le> 256"
  shows "\<exists>t ic'. msix_evaluate_from self c ic start = Some (self\<lparr>mx_pba_table := t\<rparr>, c, ic') \<and>
    length t = length (mx_pba_table self)"
  using assms
proof (induction "64 * length (mx_pba_table self) - start" arbitrary: self ic start rule: less_induct)
  case less
  show ?case
  proof (cases "find_pending_vector (mx_pba_table self) start")
    case None
    then show ?thesis by (subst msix_evaluate_from.simps) (auto intro!: exI [of _ "mx_pba_table self"])
  next
    case (Some v)
    from find_upt_split(1,2) [OF Some [unfolded find_pending_vector_eq]]
    have v: "start \<le> v" "v < 64 * length (mx_pba_table self)" by auto
    from msix_try_generate_frame [OF less.prems v(2)] obtain r t where
      gen: "msix_try_generate self c v = Some (r, (self\<lparr>mx_pba_table := t\<rparr>, c))" "length t = length (mx_pba_table self)"
      by blast
    let ?ic = "case r of Inr (Generated message) \<Rightarrow> send_msi ic message | _ \<Rightarrow> ic"
    have "\<exists>t' ic'. msix_evaluate_from (self\<lparr>mx_pba_table := t\<rparr>) c ?ic (v + 1) =
        Some (self\<lparr>mx_pba_table := t'\<rparr>, c, ic') \<and> length t' = length (mx_pba_table self)"
      using less.hyps [of "self\<lparr>mx_pba_table := t\<rparr>" "v + 1" ?ic] less.prems v gen(2) by auto
    then show ?thesis by (subst msix_evaluate_from.simps) (simp add: Some gen(1))
  qed
qed

section \<open>Properties\<close>

text \<open>
  A function with an MSI-X capability at 0x42 for the witnesses: three vectors, enabled on a bus
  master, vector 1 masked and vectors 0, 1 and 2 pending. \<open>wide_msix\<close> has 65 vectors, of which 5 and 64
  are pending.
\<close>

definition sample_msix_entry :: "u32 \<Rightarrow> u32 \<Rightarrow> MsiXEntry" where
  "sample_msix_entry d ctl = \<lparr>me_msg_addr = 0xFEE00000, me_msg_addr_hi = 1, me_msg_data = d, me_vector_control = ctl\<rparr>"

definition sample_msix :: PciMsiX where
  "sample_msix =
     \<lparr>mx_msix_info = \<lparr>region_bar = PciBarIndex 1, region_offset = 0, region_length = 0x800\<rparr>,
      mx_pba_info = \<lparr>region_bar = PciBarIndex 1, region_offset = 0x800, region_length = 8\<rparr>,
      mx_msix_table = [sample_msix_entry 0x20 0, sample_msix_entry 0x21 1, sample_msix_entry 0x22 0],
      mx_pba_table = [\<lparr>pba_pending_bits = 7\<rparr>], mx_cap_offset = 0x42\<rparr>"

definition wide_pba :: "PbaEntry list" where
  "wide_pba = [\<lparr>pba_pending_bits = 0x20\<rparr>, \<lparr>pba_pending_bits = 1\<rparr>]"

definition wide_msix :: PciMsiX where
  "wide_msix = sample_msix\<lparr>mx_msix_table := replicate 65 (sample_msix_entry 0x20 0), mx_pba_table := wide_pba\<rparr>"

definition msix_config :: config_space where
  "msix_config = blank_config\<lparr>cs_registers := (replicate 256 0)[4 := 4, 0x42 := 2, 0x43 := 0x80]\<rparr>"

lemma msix_config_facts:
  "config_wf msix_config" "is_bus_master msix_config = Some True" "msix_enabled sample_msix msix_config"
  "mx_cap_offset sample_msix + 10 \<le> 256" "mx_cap_offset wide_msix + 10 \<le> 256"
  by code_simp+

lemma msix_sample_usable:
  "msix_usable sample_msix msix_config 0" "msix_usable sample_msix msix_config 1" "msix_usable sample_msix msix_config 2"
  by (simp_all add: msix_usable_def msix_config_facts) (simp_all add: sample_msix_def)

lemma msix_sample_masked:
  "\<not> msix_masked sample_msix msix_config 0" "msix_masked sample_msix msix_config 1"
  "\<not> msix_masked sample_msix msix_config 2"
  by code_simp+

lemma msix_sample_one_entry: "msix_one_entry sample_msix msix_config 0"
proof -
  have "(7 :: u64) = mask 3" by (simp add: mask_eq_exp_minus_1)
  then have "bit (7 :: u64) u \<Longrightarrow> u < 3" for u by (simp only: bit_mask_iff)
  then have "u < 3" if "pba_is_pending [\<lparr>pba_pending_bits = 7\<rparr>] u" for u
    using that by (auto simp: pba_is_pending_iff)
  then show ?thesis using msix_sample_usable(1)
    by (auto simp: msix_one_entry_def msix_is_pending_def sample_msix_def simp flip: numeral_3_eq_3)
qed

text \<open>
  C20: Generating an MSI-X message for a vector of the table. Without bus mastering or with MSI-X
  disabled nothing changes and the error says so. Otherwise a vector that is masked, by itself or by the
  function mask, becomes pending in the array and no message is produced; an unmasked one produces the
  message of its table entry and is no longer pending. No other vector, and nothing in the
  configuration space, changes.
\<close>

theorem msix_generation:
  assumes "msix_usable self c v"
  shows "(is_bus_master c = Some False \<longrightarrow> msix_try_generate self c v = Some (Inl NotBusMaster, (self, c))) \<and>
    (is_bus_master c = Some True \<and> \<not> msix_enabled self c \<longrightarrow>
       msix_try_generate self c v = Some (Inl MsiDisabled, (self, c))) \<and>
    (is_bus_master c = Some True \<and> msix_enabled self c \<longrightarrow>
       (\<exists>t. msix_try_generate self c v =
          Some (Inr (if msix_masked self c v then Masked else Generated (msix_message self c v)),
                (self\<lparr>mx_pba_table := t\<rparr>, c)) \<and>
        (\<forall>u. pba_is_pending t u = (if u = v then msix_masked self c v else msix_is_pending self c u))))"
proof (intro conjI impI)
  assume on: "is_bus_master c = Some True \<and> msix_enabled self c"
  have v: "config_wf c" "mx_cap_offset self + 10 \<le> 256" "v < 64 * length (mx_pba_table self)"
    using assms by (simp_all add: msix_usable_def)
  from msix_try_generate_frame [OF v] obtain r t where
    gen: "msix_try_generate self c v = Some (r, (self\<lparr>mx_pba_table := t\<rparr>, c))" by blast
  from on msix.generate_enabled [of c self v] assms gen
  have "r = Inr (if msix_masked self c v then Masked else Generated (msix_message self c v))"
    "\<forall>u. pba_is_pending t u = (if u = v then msix_masked self c v else msix_is_pending self c u)"
    by (auto simp flip: msix_try_generate_def)
  with gen show "\<exists>t. msix_try_generate self c v =
          Some (Inr (if msix_masked self c v then Masked else Generated (msix_message self c v)),
                (self\<lparr>mx_pba_table := t\<rparr>, c)) \<and>
        (\<forall>u. pba_is_pending t u = (if u = v then msix_masked self c v else msix_is_pending self c u))" by blast
qed (use assms msix.generate_not_master msix.generate_disabled in \<open>auto simp: msix_try_generate_def\<close>)

lemma msix_generation_witness:
  "\<exists>t1 t2. msix_try_generate sample_msix msix_config 1 = Some (Inr Masked, (sample_msix\<lparr>mx_pba_table := t1\<rparr>, msix_config)) \<and>
     pba_is_pending t1 1 \<and>
     msix_try_generate sample_msix msix_config 2 =
       Some (Inr (Generated (msix_message sample_msix msix_config 2)), (sample_msix\<lparr>mx_pba_table := t2\<rparr>, msix_config)) \<and>
     \<not> pba_is_pending t2 2"
proof -
  from msix_generation [OF msix_sample_usable(2)] obtain t1 where
    "msix_try_generate sample_msix msix_config 1 = Some (Inr Masked, (sample_msix\<lparr>mx_pba_table := t1\<rparr>, msix_config))"
    "pba_is_pending t1 1" using msix_config_facts(2,3) msix_sample_masked(2) by metis
  moreover from msix_generation [OF msix_sample_usable(3)] obtain t2 where
    "msix_try_generate sample_msix msix_config 2 =
       Some (Inr (Generated (msix_message sample_msix msix_config 2)), (sample_msix\<lparr>mx_pba_table := t2\<rparr>, msix_config))"
    "\<not> pba_is_pending t2 2" using msix_config_facts(2,3) msix_sample_masked(3) by metis
  ultimately show ?thesis by blast
qed

text \<open>
  C21: Evaluating the pending interrupts of a function with at most 64 vectors and a one-entry pending
  bit array sends the messages of exactly the vectors that are pending and not masked, once each and in
  ascending order, and leaves pending exactly the masked ones.
\<close>

theorem msix_evaluate_pending:
  assumes "msix_one_entry self c 0" and "is_bus_master c = Some True" and "msix_enabled self c"
    and "n = length (mx_msix_table self)"
  shows "\<exists>t. msix_evaluate_pending_interrupts self c ic =
      Some (self\<lparr>mx_pba_table := t\<rparr>, c, ic @ map (\<lambda>v. SendMsi (msix_message self c v))
        (filter (\<lambda>v. msix_is_pending self c v \<and> \<not> msix_masked self c v) [0..<n])) \<and>
    (\<forall>u < n. pba_is_pending t u = (msix_is_pending self c u \<and> msix_masked self c u))"
proof -
  have wf: "config_wf c" "mx_cap_offset self + 10 \<le> 256"
    using assms(1) by (simp_all add: msix_one_entry_def msix_usable_def)
  from msix_evaluate_frame [OF wf, of ic 0] obtain t ic' where
    frame: "msix_evaluate_from self c ic 0 = Some (self\<lparr>mx_pba_table := t\<rparr>, c, ic')" by blast
  with msix_loop.evaluate_eq [OF assms(2,1,3,4), of 0 ic]
  show ?thesis by (auto simp: msix_evaluate_def msix_evaluate_pending_interrupts_def)
qed

lemma msix_evaluate_pending_witness:
  "\<exists>t. msix_evaluate_pending_interrupts sample_msix msix_config [] =
      Some (sample_msix\<lparr>mx_pba_table := t\<rparr>, msix_config,
        [SendMsi (msix_message sample_msix msix_config 0), SendMsi (msix_message sample_msix msix_config 2)]) \<and>
    pba_is_pending t 1 \<and> \<not> pba_is_pending t 2"
proof -
  have fire: "filter (\<lambda>v. msix_is_pending sample_msix msix_config v \<and> \<not> msix_masked sample_msix msix_config v) [0..<3] = [0, 2]"
    and p: "msix_is_pending sample_msix msix_config 1" and n: "length (mx_msix_table sample_msix) = 3" by code_simp+
  from msix_evaluate_pending [OF msix_sample_one_entry msix_config_facts(2,3) refl, of "[]"] show ?thesis
    using n p msix_sample_masked msix_sample_masked(2) [simplified] by (auto simp: fire)
qed

text \<open>
  Evaluating the pending interrupts always returns, for any table and any pending bit array, and
  changes nothing but the pending bits and the controller.
\<close>

theorem msix_evaluate_returns:
  assumes "config_wf c" and "mx_cap_offset self + 10 \<le> 256"
  shows "\<exists>t ic'. msix_evaluate_pending_interrupts self c ic = Some (self\<lparr>mx_pba_table := t\<rparr>, c, ic') \<and>
    length t = length (mx_pba_table self)"
  using msix_evaluate_frame [OF assms] by (simp add: msix_evaluate_pending_interrupts_def)

lemma msix_evaluate_returns_witness:
  "\<exists>t ic'. msix_evaluate_pending_interrupts wide_msix msix_config [] = Some (wide_msix\<lparr>mx_pba_table := t\<rparr>, msix_config, ic') \<and>
    length t = length wide_pba"
  using msix_evaluate_returns [OF msix_config_facts(1,5), of "[]"] by (simp add: wide_msix_def)

lemma wide_pba_pending: "pba_is_pending wide_pba v \<longleftrightarrow> v = 5 \<or> v = 64"
proof -
  have "(0x20 :: int) = 2 ^ 5" by simp
  then have bits: "bit (0x20 :: int) k \<longleftrightarrow> k = 5" for k by (simp only: bit_exp_iff) auto
  show ?thesis
  proof (cases "v < 64")
    case True
    then show ?thesis by (auto simp: pba_is_pending_iff wide_pba_def bit_1_iff bits)
  next
    case False
    then obtain k where "v = 64 + k" by (metis le_Suc_ex not_less)
    then show ?thesis by (auto simp: pba_is_pending_iff wide_pba_def bit_1_iff bits)
  qed
qed

text \<open>
  C22: What the search for the next pending vector finds: the first pending vector from \<open>since\<close> on whose
  position inside its array entry is not below the one of \<open>since\<close>. The second condition is there because
  the mask built for the first entry is applied to every later entry too, so the search is exact for
  \<open>since = 0\<close>, but from vector 6 on it misses a pending vector 64.
\<close>

theorem msix_find_pending:
  "find_pending_vector t since =
     List.find (\<lambda>v. pba_is_pending t v \<and> since mod 64 \<le> v mod 64) [since..<64 * length t] \<and>
   find_pending_vector t 0 = List.find (pba_is_pending t) [0..<64 * length t] \<and>
   find_pending_vector wide_pba 0 = Some 5 \<and> find_pending_vector wide_pba 6 = None \<and> pba_is_pending wide_pba 64"
proof -
  have "find_pending_vector wide_pba 0 = Some 5" unfolding find_pending_vector_eq by code_simp
  moreover have "find_pending_vector wide_pba 6 = None" "pba_is_pending wide_pba 64"
    by (auto simp: find_pending_vector_eq wide_pba_pending find_None_iff)
  ultimately show ?thesis using find_pending_vector_eq [of t] by simp
qed

text \<open>
  C23: A write into the MSI-X table through its BAR is what a read of the same place returns, whatever
  interrupts the write releases, and it leaves the configuration space alone.
\<close>

theorem msix_table_roundtrip:
  assumes "config_wf c" and "mx_cap_offset self + 10 \<le> 256"
    and "offset_within_region (mx_msix_info self) bar offset (length data) = Some off"
    and "unat off + length data \<le> 16 * length (mx_msix_table self)" and "length buf = length data"
  shows "\<exists>self' ic' u. msix_handle_write_bar self bar offset data (c, ic) = Some (Inr (Handled u), (self', c, ic')) \<and>
    msix_handle_read_bar self' bar offset buf (c, ic') = Some (Inr (Handled None), (self', data, c, ic'))"
proof -
  define r where "r = patch (msix_raw_bytes (mx_msix_table self)) (unat off) data"
  let ?t = "msix_store_raw r (mx_msix_table self)"
  let ?self = "self\<lparr>mx_msix_table := ?t\<rparr>"
  have bound: "unat off + length data < 2 ^ 64" and pos: "0 < length data"
    using assms(3) unsigned_less [of "region_length (mx_msix_info self)", where ?'a = nat] by (auto simp: offset_within_region_Some)
  have r: "length r = length (msix_raw_bytes (mx_msix_table self))" "take (length data) (drop (unat off) r) = data"
    using assms(4) by (simp_all add: r_def take_drop_patch)
  have set: "set_register_checked msix_raw_bytes msix_store_raw (rb_validate_access msix_raw_bytes)
      (mx_msix_table self) (unat off) data = Some (Inr (), ?t)"
    unfolding r_def by (rule msix_block.set_checked_Ok) (use assms(4) bound in simp_all)
  have len: "length ?t = length (mx_msix_table self)" by (simp add: msix_store_raw_def)
  have raw: "msix_raw_bytes ?t = r" by (rule msix_block.regs_upd [OF r(1)])
  have ev: "\<exists>t ic'. (if targets_vector_control off (length data)
      then msix_evaluate_pending_interrupts ?self c ic else Some (?self, c, ic)) =
      Some (?self\<lparr>mx_pba_table := t\<rparr>, c, ic')"
    using msix_evaluate_frame [of c ?self ic 0] assms(1,2)
    by (auto simp: msix_evaluate_pending_interrupts_def intro: exI [of _ "mx_pba_table self"])
  then obtain t ic' where ev: "(if targets_vector_control off (length data)
      then msix_evaluate_pending_interrupts ?self c ic else Some (?self, c, ic)) =
      Some (?self\<lparr>mx_pba_table := t\<rparr>, c, ic')" by blast
  let ?self' = "?self\<lparr>mx_pba_table := t\<rparr>"
  have "unat off div 16 < length (mx_msix_table self)" 
    using assms(4) pos by (auto simp: div_less_iff_less_mult neq_Nil_conv)
  then have msg: "msix_get_message_for ?self' c (offset_to_vector off) =
      Some (Inr (msix_message ?self' c (offset_to_vector off)), ?self')"
    by (simp add: msix_get_message_for_def offset_to_vector_def table_at_def msix_message_def len)
  have "\<exists>u. msix_region_write self MsiXTable off data (c, ic) = Some (Inr u, (?self', c, ic'))"
    using set ev msg by (auto simp: msix_region_write_def Let_def)
  then obtain u where "msix_handle_write_bar self bar offset data (c, ic) = Some (Inr (Handled u), (?self', c, ic'))"
    using assms(3) by (auto simp: msix_handle_write_bar_def set_handle_write_bar_def msix_info_iter_def)
  moreover have "msix_region_read ?self' MsiXTable off buf (c, ic') = Some (Inr None, (?self', data, c, ic'))"
    using msix_block.read_checked_Ok [of "unat off" buf ?t] assms(4,5) bound
    by (simp add: msix_region_read_def len raw r)
  then have "msix_handle_read_bar ?self' bar offset buf (c, ic') = Some (Inr (Handled None), (?self', data, c, ic'))"
    using assms(3,5) by (simp add: msix_handle_read_bar_def set_handle_read_bar_def msix_info_iter_def)
  ultimately show ?thesis by blast
qed

lemma msix_table_roundtrip_witness:
  "\<exists>self' ic' u. msix_handle_write_bar sample_msix (PciBarIndex 1) 0x10 [1, 2, 3, 4] (msix_config, []) =
      Some (Inr (Handled u), (self', msix_config, ic')) \<and>
    msix_handle_read_bar self' (PciBarIndex 1) 0x10 [0, 0, 0, 0] (msix_config, ic') =
      Some (Inr (Handled None), (self', [1, 2, 3, 4], msix_config, ic'))"
  by (rule msix_table_roundtrip [OF msix_config_facts(1,4), where off = "0x10"])
    (simp_all add: offset_within_region_Some sample_msix_def)

end
