(* ===== verification/Interrupt.thy ===== *)
theory Interrupt
  imports Intx Msix
begin

text \<open>
  The interrupt mechanisms of a function behind one interface (\<open>interrupt.rs\<close>): the handlers for
  INTx, MSI, MSI-X and no interrupt at all, and the context that composes three of them by priority.
\<close>

section \<open>Handlers\<close>

datatype PciInterruptType = IntxType | MsiType | MsiXType | NoInterruptType

datatype PciInterrupt = IntxInterrupt PciInterruptLineState | MsiInterrupt usize

text \<open>
  The traits \<open>InterruptSignaler\<close>, \<open>InterruptConfigHandler\<close> and \<open>InterruptBarHandler\<close> as one record of
  methods; \<open>'i\<close> is the state of the handler.
\<close>

record 'i interrupt_handler =
  ih_is_enabled :: "'i \<Rightarrow> config_space \<Rightarrow> bool option"
  ih_active_interrupt :: "'i \<Rightarrow> config_space \<Rightarrow> PciInterruptType option"
  ih_signal :: "'i \<Rightarrow> config_space \<Rightarrow> controller \<Rightarrow> PciInterrupt \<Rightarrow> ('i \<times> config_space \<times> controller, unit) call"
  ih_on_write_config :: "'i \<Rightarrow> config_space \<Rightarrow> controller \<Rightarrow> usize \<Rightarrow> usize \<Rightarrow>
    ('i \<times> config_space \<times> controller, PciConfigurationUpdate option PciHandlerResult) call"
  ih_read_bar :: "'i \<Rightarrow> config_space \<Rightarrow> controller \<Rightarrow> PciBarIndex \<Rightarrow> u64 \<Rightarrow> bytes \<Rightarrow>
    ('i \<times> bytes \<times> config_space \<times> controller, unit PciHandlerResult) call"
  ih_write_bar :: "'i \<Rightarrow> config_space \<Rightarrow> controller \<Rightarrow> PciBarIndex \<Rightarrow> u64 \<Rightarrow> bytes \<Rightarrow>
    ('i \<times> config_space \<times> controller, PciConfigurationUpdate option PciHandlerResult) call"

text \<open>The default methods.\<close>

definition default_is_enabled :: "'i \<Rightarrow> config_space \<Rightarrow> bool option" where
  "default_is_enabled self c = Some False"

definition default_active_interrupt :: "'i \<Rightarrow> config_space \<Rightarrow> PciInterruptType option" where
  "default_active_interrupt self c = Some NoInterruptType"

definition default_signal ::
    "'i \<Rightarrow> config_space \<Rightarrow> controller \<Rightarrow> PciInterrupt \<Rightarrow> ('i \<times> config_space \<times> controller, unit) call" where
  "default_signal self c ic interrupt = Some (Inr (), (self, c, ic))"

definition default_interrupt_on_write_config ::
    "'i \<Rightarrow> config_space \<Rightarrow> controller \<Rightarrow> usize \<Rightarrow> usize \<Rightarrow>
     ('i \<times> config_space \<times> controller, PciConfigurationUpdate option PciHandlerResult) call" where
  "default_interrupt_on_write_config self c ic offset sz = Some (Inr Unhandled, (self, c, ic))"

definition default_interrupt_read_bar ::
    "'i \<Rightarrow> config_space \<Rightarrow> controller \<Rightarrow> PciBarIndex \<Rightarrow> u64 \<Rightarrow> bytes \<Rightarrow>
     ('i \<times> bytes \<times> config_space \<times> controller, unit PciHandlerResult) call" where
  "default_interrupt_read_bar self c ic bar offset data = Some (Inr Unhandled, (self, data, c, ic))"

definition default_interrupt_write_bar ::
    "'i \<Rightarrow> config_space \<Rightarrow> controller \<Rightarrow> PciBarIndex \<Rightarrow> u64 \<Rightarrow> bytes \<Rightarrow>
     ('i \<times> config_space \<times> controller, PciConfigurationUpdate option PciHandlerResult) call" where
  "default_interrupt_write_bar self c ic bar offset data = Some (Inr Unhandled, (self, c, ic))"

definition no_interrupt :: "unit interrupt_handler" where
  "no_interrupt =
     \<lparr>ih_is_enabled = default_is_enabled, ih_active_interrupt = default_active_interrupt, ih_signal = default_signal,
      ih_on_write_config = default_interrupt_on_write_config, ih_read_bar = default_interrupt_read_bar,
      ih_write_bar = default_interrupt_write_bar\<rparr>"

section \<open>INTx\<close>

definition handle_intx ::
    "config_space \<Rightarrow> controller \<Rightarrow> PciIntx \<Rightarrow> PciInterrupt \<Rightarrow> (PciIntx \<times> config_space \<times> controller, unit) call" where
  "handle_intx c ic intx interrupt =
     (case interrupt of
        IntxInterrupt level \<Rightarrow> do { (c, ic) \<leftarrow> signal_intx c ic intx level; Some (Inr (), (intx, c, ic)) }
      | MsiInterrupt _ \<Rightarrow> Some (Inl InterruptTypeMismatch, (intx, c, ic)))"

definition intx_is_enabled :: "PciIntx \<Rightarrow> config_space \<Rightarrow> bool option" where
  "intx_is_enabled self c = map_option Not (interrupts_disabled c)"

definition intx_active_interrupt :: "PciIntx \<Rightarrow> config_space \<Rightarrow> PciInterruptType option" where
  "intx_active_interrupt self c = do {
     disabled \<leftarrow> interrupts_disabled c;
     Some (if \<not> disabled then IntxType else NoInterruptType)
   }"

definition intx_handle_write_config ::
    "PciIntx \<Rightarrow> config_space \<Rightarrow> controller \<Rightarrow> usize \<Rightarrow> usize \<Rightarrow>
     (PciIntx \<times> config_space \<times> controller, PciConfigurationUpdate option PciHandlerResult) call" where
  "intx_handle_write_config self c ic offset sz = do {
     (ic, self) \<leftarrow> intx_on_write_config c ic self offset sz;
     Some (Inr (Handled None), (self, c, ic))
   }"

definition intx_handler :: "PciIntx interrupt_handler" where
  "intx_handler =
     \<lparr>ih_is_enabled = intx_is_enabled, ih_active_interrupt = intx_active_interrupt,
      ih_signal = (\<lambda>self c ic. handle_intx c ic self), ih_on_write_config = intx_handle_write_config,
      ih_read_bar = default_interrupt_read_bar, ih_write_bar = default_interrupt_write_bar\<rparr>"

section \<open>MSI and MSI-X\<close>

definition handle_msi_generation :: "PciMsiGenerationResult \<Rightarrow> controller \<Rightarrow> controller" where
  "handle_msi_generation r ic = (case r of Generated message \<Rightarrow> send_msi ic message | Masked \<Rightarrow> ic)"

text \<open>The message source enters through its \<open>try_generate_message\<close>.\<close>

definition handle_msi ::
    "('s \<Rightarrow> config_space \<Rightarrow> usize \<Rightarrow> ('s \<times> config_space, PciMsiGenerationResult) call) \<Rightarrow>
     config_space \<Rightarrow> controller \<Rightarrow> 's \<Rightarrow> PciInterrupt \<Rightarrow> ('s \<times> config_space \<times> controller, unit) call" where
  "handle_msi try_generate c ic source interrupt =
     (case interrupt of
        MsiInterrupt vector \<Rightarrow> do {
          (r, source, c) \<leftarrow> try_generate source c vector;
          case r of
            Inl e \<Rightarrow> Some (Inl e, (source, c, ic))
          | Inr g \<Rightarrow> Some (Inr (), (source, c, handle_msi_generation g ic))
        }
      | IntxInterrupt _ \<Rightarrow> Some (Inl InterruptTypeMismatch, (source, c, ic)))"

definition msi_handle_write_config ::
    "PciMsi \<Rightarrow> config_space \<Rightarrow> controller \<Rightarrow> usize \<Rightarrow> usize \<Rightarrow>
     (PciMsi \<times> config_space \<times> controller, PciConfigurationUpdate option PciHandlerResult) call" where
  "msi_handle_write_config self c ic offset sz = do {
     (r, c, ic) \<leftarrow> msi_on_write_config self c ic offset sz;
     Some (r, (self, c, ic))
   }"

definition msi_handler :: "PciMsi interrupt_handler" where
  "msi_handler =
     \<lparr>ih_is_enabled = msi_is_enabled, ih_active_interrupt = default_active_interrupt,
      ih_signal = (\<lambda>self c ic. handle_msi msi_try_generate c ic self), ih_on_write_config = msi_handle_write_config,
      ih_read_bar = default_interrupt_read_bar, ih_write_bar = default_interrupt_write_bar\<rparr>"

definition msix_active_interrupt :: "PciMsiX \<Rightarrow> config_space \<Rightarrow> PciInterruptType option" where
  "msix_active_interrupt self c = do {
     enabled \<leftarrow> msix_is_enabled self c;
     Some (if enabled then MsiXType else NoInterruptType)
   }"

definition msix_handle_write_config ::
    "PciMsiX \<Rightarrow> config_space \<Rightarrow> controller \<Rightarrow> usize \<Rightarrow> usize \<Rightarrow>
     (PciMsiX \<times> config_space \<times> controller, PciConfigurationUpdate option PciHandlerResult) call" where
  "msix_handle_write_config self c ic offset sz =
     bind_result (msix_on_write_config self c ic offset sz) (\<lambda>r s.
       Some (Inr (case r of Handled _ \<Rightarrow> Handled None | Unhandled \<Rightarrow> Unhandled), s))"

definition msix_interrupt_read_bar ::
    "PciMsiX \<Rightarrow> config_space \<Rightarrow> controller \<Rightarrow> PciBarIndex \<Rightarrow> u64 \<Rightarrow> bytes \<Rightarrow>
     (PciMsiX \<times> bytes \<times> config_space \<times> controller, unit PciHandlerResult) call" where
  "msix_interrupt_read_bar self c ic bar offset data =
     bind_result (msix_handle_read_bar self bar offset data (c, ic)) (\<lambda>r s.
       Some (Inr (case r of Handled _ \<Rightarrow> Handled () | Unhandled \<Rightarrow> Unhandled), s))"

definition msix_interrupt_write_bar ::
    "PciMsiX \<Rightarrow> config_space \<Rightarrow> controller \<Rightarrow> PciBarIndex \<Rightarrow> u64 \<Rightarrow> bytes \<Rightarrow>
     (PciMsiX \<times> config_space \<times> controller, PciConfigurationUpdate option PciHandlerResult) call" where
  "msix_interrupt_write_bar self c ic bar offset data = msix_handle_write_bar self bar offset data (c, ic)"

definition msix_handler :: "PciMsiX interrupt_handler" where
  "msix_handler =
     \<lparr>ih_is_enabled = msix_is_enabled, ih_active_interrupt = msix_active_interrupt,
      ih_signal = (\<lambda>self c ic. handle_msi msix_try_generate c ic self), ih_on_write_config = msix_handle_write_config,
      ih_read_bar = msix_interrupt_read_bar, ih_write_bar = msix_interrupt_write_bar\<rparr>"

section \<open>The composition\<close>

record ('x, 'm, 'mx) PciInterruptContext =
  ctx_intx :: 'x
  ctx_msi :: 'm
  ctx_msix :: 'mx

definition context_is_enabled ::
    "'x interrupt_handler \<Rightarrow> 'm interrupt_handler \<Rightarrow> 'mx interrupt_handler \<Rightarrow>
     ('x, 'm, 'mx) PciInterruptContext \<Rightarrow> config_space \<Rightarrow> bool option" where
  "context_is_enabled hx hm hmx self c = do {
     msix \<leftarrow> ih_is_enabled hmx (ctx_msix self) c;
     if msix then Some True
     else do {
       msi \<leftarrow> ih_is_enabled hm (ctx_msi self) c;
       if msi then Some True else ih_is_enabled hx (ctx_intx self) c
     }
   }"

definition context_active_interrupt ::
    "'x interrupt_handler \<Rightarrow> 'm interrupt_handler \<Rightarrow> 'mx interrupt_handler \<Rightarrow>
     ('x, 'm, 'mx) PciInterruptContext \<Rightarrow> config_space \<Rightarrow> PciInterruptType option" where
  "context_active_interrupt hx hm hmx self c = do {
     msix \<leftarrow> ih_is_enabled hmx (ctx_msix self) c;
     if msix then Some MsiXType
     else do {
       msi \<leftarrow> ih_is_enabled hm (ctx_msi self) c;
       if msi then Some MsiType
       else do {
         intx \<leftarrow> ih_is_enabled hx (ctx_intx self) c;
         Some (if intx then IntxType else NoInterruptType)
       }
     }
   }"

text \<open>A call on one of the three parts, which leaves the other two as they are.\<close>

definition on_intx ::
    "('x \<times> 'w, 'a) call \<Rightarrow> ('x, 'm, 'mx) PciInterruptContext \<Rightarrow> (('x, 'm, 'mx) PciInterruptContext \<times> 'w, 'a) call" where
  "on_intx r self = map_option (\<lambda>(a, x, w). (a, (self\<lparr>ctx_intx := x\<rparr>, w))) r"

definition on_msi ::
    "('m \<times> 'w, 'a) call \<Rightarrow> ('x, 'm, 'mx) PciInterruptContext \<Rightarrow> (('x, 'm, 'mx) PciInterruptContext \<times> 'w, 'a) call" where
  "on_msi r self = map_option (\<lambda>(a, x, w). (a, (self\<lparr>ctx_msi := x\<rparr>, w))) r"

definition on_msix ::
    "('mx \<times> 'w, 'a) call \<Rightarrow> ('x, 'm, 'mx) PciInterruptContext \<Rightarrow> (('x, 'm, 'mx) PciInterruptContext \<times> 'w, 'a) call" where
  "on_msix r self = map_option (\<lambda>(a, x, w). (a, (self\<lparr>ctx_msix := x\<rparr>, w))) r"

definition context_signal ::
    "'x interrupt_handler \<Rightarrow> 'm interrupt_handler \<Rightarrow> 'mx interrupt_handler \<Rightarrow>
     ('x, 'm, 'mx) PciInterruptContext \<Rightarrow> config_space \<Rightarrow> controller \<Rightarrow> PciInterrupt \<Rightarrow>
     (('x, 'm, 'mx) PciInterruptContext \<times> config_space \<times> controller, unit) call" where
  "context_signal hx hm hmx self c ic interrupt = do {
     active \<leftarrow> context_active_interrupt hx hm hmx self c;
     case active of
       IntxType \<Rightarrow> on_intx (ih_signal hx (ctx_intx self) c ic interrupt) self
     | MsiType \<Rightarrow> on_msi (ih_signal hm (ctx_msi self) c ic interrupt) self
     | MsiXType \<Rightarrow> on_msix (ih_signal hmx (ctx_msix self) c ic interrupt) self
     | NoInterruptType \<Rightarrow> Some (Inr (), (self, c, ic))
   }"

definition context_on_write_config ::
    "'x interrupt_handler \<Rightarrow> 'm interrupt_handler \<Rightarrow> 'mx interrupt_handler \<Rightarrow>
     ('x, 'm, 'mx) PciInterruptContext \<Rightarrow> config_space \<Rightarrow> controller \<Rightarrow> usize \<Rightarrow> usize \<Rightarrow>
     (('x, 'm, 'mx) PciInterruptContext \<times> config_space \<times> controller, PciConfigurationUpdate option PciHandlerResult) call" where
  "context_on_write_config hx hm hmx self c ic offset sz =
     bind_result (on_intx (ih_on_write_config hx (ctx_intx self) c ic offset sz) self) (\<lambda>_ (self, c, ic).
     bind_result (on_msi (ih_on_write_config hm (ctx_msi self) c ic offset sz) self) (\<lambda>r (self, c, ic).
     case r of
       Handled (Some event) \<Rightarrow> Some (Inr (Handled (Some event)), (self, c, ic))
     | _ \<Rightarrow>
     bind_result (on_msix (ih_on_write_config hmx (ctx_msix self) c ic offset sz) self) (\<lambda>r (self, c, ic).
     case r of
       Handled (Some event) \<Rightarrow> Some (Inr (Handled (Some event)), (self, c, ic))
     | _ \<Rightarrow> Some (Inr (Handled None), (self, c, ic)))))"

definition context_read_bar ::
    "'mx interrupt_handler \<Rightarrow> ('x, 'm, 'mx) PciInterruptContext \<Rightarrow> config_space \<Rightarrow> controller \<Rightarrow>
     PciBarIndex \<Rightarrow> u64 \<Rightarrow> bytes \<Rightarrow>
     (('x, 'm, 'mx) PciInterruptContext \<times> bytes \<times> config_space \<times> controller, unit PciHandlerResult) call" where
  "context_read_bar hmx self c ic bar offset data = on_msix (ih_read_bar hmx (ctx_msix self) c ic bar offset data) self"

definition context_write_bar ::
    "'mx interrupt_handler \<Rightarrow> ('x, 'm, 'mx) PciInterruptContext \<Rightarrow> config_space \<Rightarrow> controller \<Rightarrow>
     PciBarIndex \<Rightarrow> u64 \<Rightarrow> bytes \<Rightarrow>
     (('x, 'm, 'mx) PciInterruptContext \<times> config_space \<times> controller, PciConfigurationUpdate option PciHandlerResult) call" where
  "context_write_bar hmx self c ic bar offset data = on_msix (ih_write_bar hmx (ctx_msix self) c ic bar offset data) self"

definition context_handler ::
    "'x interrupt_handler \<Rightarrow> 'm interrupt_handler \<Rightarrow> 'mx interrupt_handler \<Rightarrow>
     ('x, 'm, 'mx) PciInterruptContext interrupt_handler" where
  "context_handler hx hm hmx =
     \<lparr>ih_is_enabled = context_is_enabled hx hm hmx, ih_active_interrupt = context_active_interrupt hx hm hmx,
      ih_signal = context_signal hx hm hmx, ih_on_write_config = context_on_write_config hx hm hmx,
      ih_read_bar = context_read_bar hmx, ih_write_bar = context_write_bar hmx\<rparr>"

section \<open>The contract of a mechanism\<close>

text \<open>
  What a mechanism may do to the configuration space: change registers of the device-specific area and
  the status register, nothing else.
\<close>

definition mech_frame :: "config_space \<Rightarrow> config_space \<Rightarrow> bool" where
  "mech_frame c c' \<longleftrightarrow> config_wf c' \<and> cs_bars c' = cs_bars c \<and> cs_writable_bits c' = cs_writable_bits c \<and>
     cs_last_cap_size c' = cs_last_cap_size c \<and>
     (\<forall>k < 0x40. k \<notin> {6, 7} \<longrightarrow> cs_registers c' ! k = cs_registers c ! k)"

lemma mech_frame_refl [simp]: "mech_frame c c = config_wf c"
  by (simp add: mech_frame_def)

lemma mech_frame_wf: "mech_frame c c' \<Longrightarrow> config_wf c'"
  by (simp add: mech_frame_def)

lemma mech_frame_trans: "mech_frame c c' \<Longrightarrow> mech_frame c' c'' \<Longrightarrow> mech_frame c c''"
  by (simp add: mech_frame_def)

lemma mech_frame_write [simp]:
  assumes "config_wf c" and "0x40 \<le> off" and "off + length data \<le> 256"
  shows "mech_frame c (cs_store (patch_masked (cs_registers c) (cs_writable_bits c) off data) c)"
  using assms by (auto simp: mech_frame_def nth_patch_masked_other)

text \<open>A mechanism reports changed messages, never a changed BAR.\<close>

definition message_event :: "PciConfigurationUpdate option PciHandlerResult result \<Rightarrow> bool" where
  "message_event r \<longleftrightarrow> (\<forall>bar. r \<noteq> Inr (Handled (Some (BarUpdate bar))))"

lemma message_event_simps [simp]:
  "message_event (Inl e)" "message_event (Inr Unhandled)" "message_event (Inr (Handled None))"
  "message_event (Inr (Handled (Some (MsiMessage m))))" "message_event (Inr (Handled (Some (MsiXMessage v m))))"
  by (simp_all add: message_event_def)

text \<open>
  The methods of a handler return, for a handler in a valid state and interrupts it accepts, and
  keep to the frame.
\<close>

locale interrupt_mechanism =
  fixes h :: "'i interrupt_handler" and ok :: "'i \<Rightarrow> bool" and accepts :: "PciInterrupt \<Rightarrow> bool"
  assumes enabled_total: "config_wf c \<Longrightarrow> ok i \<Longrightarrow> ih_is_enabled h i c \<noteq> None"
    and active_total: "config_wf c \<Longrightarrow> ok i \<Longrightarrow> ih_active_interrupt h i c \<noteq> None"
    and signal_total: "config_wf c \<Longrightarrow> ok i \<Longrightarrow> accepts irq \<Longrightarrow>
      \<exists>r i' c' ic'. ih_signal h i c ic irq = Some (r, (i', c', ic')) \<and> ok i' \<and> mech_frame c c'"
    and write_config_total: "config_wf c \<Longrightarrow> ok i \<Longrightarrow>
      \<exists>r i' c' ic'. ih_on_write_config h i c ic offset sz = Some (r, (i', c', ic')) \<and> ok i' \<and> mech_frame c c' \<and>
        message_event r"
    and read_bar_total: "config_wf c \<Longrightarrow> ok i \<Longrightarrow>
      \<exists>r i' data' c' ic'. ih_read_bar h i c ic bar boff data = Some (r, (i', data', c', ic')) \<and> ok i' \<and>
        length data' = length data \<and> mech_frame c c'"
    and write_bar_total: "config_wf c \<Longrightarrow> ok i \<Longrightarrow>
      \<exists>r i' c' ic'. ih_write_bar h i c ic bar boff data = Some (r, (i', c', ic')) \<and> ok i' \<and> mech_frame c c' \<and>
        message_event r"

lemmas default_interrupt_defs = default_is_enabled_def default_active_interrupt_def default_signal_def
  default_interrupt_on_write_config_def default_interrupt_read_bar_def default_interrupt_write_bar_def

interpretation none: interrupt_mechanism no_interrupt "\<lambda>_. True" "\<lambda>_. True"
  by unfold_locales (simp_all add: no_interrupt_def default_interrupt_defs)

lemma update_status_frame:
  assumes "config_wf c"
  shows "\<exists>b c'. update_interrupt_status c level = Some (b, c') \<and> mech_frame c c'"
  using assms by (simp add: update_interrupt_status_def option_simps Let_def) (auto simp: mech_frame_def nth_patch)

lemma signal_intx_total:
  assumes "config_wf c"
  shows "\<exists>c' ic'. signal_intx c ic intx level = Some (c', ic') \<and> mech_frame c c'"
proof -
  from update_status_frame [OF assms] obtain b c' where
    up: "update_interrupt_status c level = Some (b, c')" "mech_frame c c'" by blast
  then have wf: "config_wf c'" by (simp add: mech_frame_def)
  obtain line where "interrupt_line c' (ix_line_config intx) = Some line" using interrupt_line_Some [OF wf] by blast
  with up wf show ?thesis by (simp add: signal_intx_def interrupts_disabled_eq)
qed

lemma intx_on_write_total:
  assumes "config_wf c"
  shows "\<exists>r. intx_on_write_config c ic intx offset sz = Some r"
proof -
  obtain line where "interrupt_line c (ix_line_config intx) = Some line" using interrupt_line_Some [OF assms] by blast
  then show ?thesis using assms
    by (simp add: intx_on_write_config_def interrupts_disabled_eq interrupt_pending_eq Let_def)
qed

interpretation intx_mech: interrupt_mechanism intx_handler "\<lambda>_. True" "\<lambda>_. True"
proof (unfold_locales, goal_cases)
  case (3 c i irq ic)
  show ?case
  proof (cases irq)
    case (IntxInterrupt level)
    with signal_intx_total [OF 3(1), of ic i level] show ?thesis by (auto simp: intx_handler_def handle_intx_def)
  qed (use 3 in \<open>simp add: intx_handler_def handle_intx_def\<close>)
next
  case (4 c i ic offset sz)
  then show ?case using intx_on_write_total [of c ic i offset sz]
    by (auto simp: intx_handler_def intx_handle_write_config_def)
qed (simp_all add: intx_handler_def intx_is_enabled_def intx_active_interrupt_def interrupts_disabled_eq default_interrupt_defs)

text \<open>MSI: any capability that fits the device area, whatever the guest has written into it.\<close>

definition msi_fits :: "PciMsi \<Rightarrow> bool" where
  "msi_fits self \<longleftrightarrow> 0x40 \<le> msi_offset self \<and> msi_offset self + 22 \<le> 256"

definition msi_accepts :: "PciInterrupt \<Rightarrow> bool" where
  "msi_accepts irq \<longleftrightarrow> (\<forall>v. irq = MsiInterrupt v \<longrightarrow> v < 32)"

lemma msi_offset_bounds:
  "mask_bits_offset control = Some off \<Longrightarrow> off + 4 \<le> 22" "pending_bits_offset control = Some off \<Longrightarrow> off + 4 \<le> 22"
  "message_data_offset control + 2 \<le> 22"
  by (auto simp: mask_bits_offset_def pending_bits_offset_def message_data_offset_def split: if_splits)

lemma msi_is_masked_total:
  assumes "config_wf c" and "msi_fits self" and "v < 32"
  shows "\<exists>b. msi_is_masked self c v = Some b"
  using assms msi_offset_bounds(1) [of "word_at (cs_registers c) (msi_offset self)"]
  by (cases "mask_bits_offset (word_at (cs_registers c) (msi_offset self))")
    (auto simp: msi_is_masked_def msi_fits_def option_simps one_shl_def)

lemma msi_set_pending_total:
  assumes "config_wf c" and "msi_fits self" and "v < 32"
  shows "\<exists>r c'. msi_set_pending_bit self c v b = Some (r, (self, c')) \<and> mech_frame c c'"
proof (cases "pending_bits_offset (word_at (cs_registers c) (msi_offset self))")
  case None
  with assms show ?thesis by (simp add: msi_set_pending_bit_def msi_fits_def option_simps)
next
  case (Some off)
  from msi_is_masked_total [OF assms] obtain m where "msi_is_masked self c v = Some m" ..
  with Some assms msi_offset_bounds(2) [OF Some] show ?thesis
    by (cases "b \<and> \<not> m") (auto simp: msi_set_pending_bit_def msi_fits_def option_simps one_shl_def Let_def)
qed

lemma msi_get_message_total:
  assumes "config_wf c" and "msi_fits self"
  shows "\<exists>r. msi_get_message_for self c v = Some (r, self)"
  using assms msi_offset_bounds(3) [of "word_at (cs_registers c) (msi_offset self)"]
  by (simp add: msi_get_message_for_def get_message_data_for_def msi_is_valid_vector_def msi_fits_def option_simps)

lemma msi_try_generate_total:
  assumes "config_wf c" and "msi_fits self" and "v < 32"
  shows "\<exists>r c'. msi_try_generate self c v = Some (r, (self, c')) \<and> mech_frame c c'"
proof -
  obtain b where b: "is_bus_master c = Some b" using assms(1) by (simp add: is_bus_master_def option_simps)
  obtain e where e: "msi_is_enabled self c = Some e" using assms by (simp add: msi_is_enabled_def msi_fits_def option_simps)
  obtain m where m: "msi_is_masked self c v = Some m" using msi_is_masked_total [OF assms] ..
  obtain r c' where r: "msi_set_pending_bit self c v m = Some (r, (self, c'))" "mech_frame c c'"
    using msi_set_pending_total [OF assms] by blast
  obtain msg where g: "msi_get_message_for self c' v = Some (msg, self)"
    using msi_get_message_total [OF mech_frame_wf [OF r(2)] assms(2)] ..
  show ?thesis
  proof (cases "b \<and> e")
    case True
    with b e m r g show ?thesis
      by (cases m; cases r) (auto simp: msi_try_generate_def try_generate_message_def)
  qed (use assms(1) b e in \<open>auto simp: msi_try_generate_def try_generate_message_def\<close>)
qed

lemma next_pending_total:
  assumes "config_wf c" and "msi_fits self" and "start \<le> 32"
  shows "\<exists>nxt. next_pending_vector c (msi_offset self) start = Some nxt \<and> (\<forall>v. nxt = Some v \<longrightarrow> start \<le> v \<and> v < 32)"
proof (cases "pending_bits_offset (word_at (cs_registers c) (msi_offset self))")
  case None
  with assms show ?thesis by (simp add: next_pending_vector_def msi_fits_def option_simps)
next
  case (Some off)
  let ?ctl = "word_at (cs_registers c) (msi_offset self)"
  let ?p = "dword_at (cs_registers c) (msi_offset self + off) AND bits_since start"
  have "start \<le> trailing_zeros ?p" if "trailing_zeros ?p < 32"
    using trailing_zeros_bit [of ?p] that assms(3) by (simp add: bit_and_iff bit_bits_since)
  with Some assms msi_offset_bounds(2) [OF Some] num_capable_le [of ?ctl] show ?thesis
    by (auto simp: next_pending_vector_def msi_fits_def option_simps Let_def)
qed

lemma msi_evaluate_total:
  assumes "config_wf c" and "msi_fits self" and "start \<le> 32"
  shows "\<exists>c' ic'. msi_evaluate_from self c ic start = Some (c', ic') \<and> mech_frame c c'"
  using assms
proof (induction "32 - start" arbitrary: c ic start rule: less_induct)
  case less
  from next_pending_total [OF less.prems] obtain nxt where
    nxt: "next_pending_vector c (msi_offset self) start = Some nxt" "\<And>v. nxt = Some v \<Longrightarrow> start \<le> v \<and> v < 32" by blast
  show ?case
  proof (cases nxt)
    case None
    with nxt less.prems(1) show ?thesis by (subst msi_evaluate_from.simps) simp
  next
    case (Some v)
    then have v: "start \<le> v" "v < 32" using nxt(2) by auto
    from msi_try_generate_total [OF less.prems(1,2) v(2)] obtain r c' where
      gen: "msi_try_generate self c v = Some (r, (self, c'))" "mech_frame c c'" by blast
    let ?ic = "case r of Inr (Generated message) \<Rightarrow> send_msi ic message | _ \<Rightarrow> ic"
    have "32 - (v + 1) < 32 - start" "v + 1 \<le> 32" using v by auto
    from less.hyps [OF this(1) mech_frame_wf [OF gen(2)] less.prems(2) this(2), of ?ic] obtain c'' ic'' where
      "msi_evaluate_from self c' ?ic (v + 1) = Some (c'', ic'')" "mech_frame c' c''" by blast
    with nxt(1) Some gen show ?thesis
      by (subst msi_evaluate_from.simps) (auto intro: mech_frame_trans)
  qed
qed

lemma msi_normalise_total:
  assumes "config_wf c" and "msi_fits self"
  shows "\<exists>control' c'. msi_normalise_control self c control = Some (control', c') \<and> mech_frame c c'"
  using assms by (auto simp: msi_normalise_control_def msi_fits_def option_simps Let_def split: option.split)

lemma msi_on_write_total:
  assumes "config_wf c" and "msi_fits self"
  shows "\<exists>r c' ic'. msi_on_write_config self c ic offset sz = Some (r, (c', ic')) \<and> mech_frame c c' \<and> message_event r"
proof -
  let ?ctl = "word_at (cs_registers c) (msi_offset self)"
  have read: "cs_read_word c (msi_offset self) = Some ?ctl" using assms by (simp add: option_simps msi_fits_def)
  show ?thesis
  proof (cases "range_overlaps 64 offset sz (msi_offset self) (msi_cap_size ?ctl)")
    case False
    with read assms(1) show ?thesis by (simp add: msi_on_write_config_def should_handle_access_def)
  next
    case True
    have "\<exists>control c1. (if range_overlaps 64 offset sz (msi_offset self) 2
        then msi_normalise_control self c ?ctl else Some (?ctl, c)) = Some (control, c1) \<and> mech_frame c c1"
      using msi_normalise_total [OF assms, of ?ctl] assms(1) by simp
    then obtain control c1 where n: "(if range_overlaps 64 offset sz (msi_offset self) 2
        then msi_normalise_control self c ?ctl else Some (?ctl, c)) = Some (control, c1)" "mech_frame c c1" by blast
    note wf1 = mech_frame_wf [OF n(2)]
    have "\<exists>c2 ic2. (if b then msi_evaluate_pending_interrupts self c1 ic else Some (c1, ic)) = Some (c2, ic2) \<and> mech_frame c1 c2" for b
      using msi_evaluate_total [OF wf1 assms(2), of 0 ic] wf1 by (simp add: msi_evaluate_pending_interrupts_def)
    then obtain c2 ic2 where ev: "\<And>b. (if b then msi_evaluate_pending_interrupts self c1 ic else Some (c1, ic)) =
        Some (c2 b, ic2 b)" "\<And>b. mech_frame c1 (c2 b)" by metis
    have frame: "mech_frame c (c2 b)" for b by (rule mech_frame_trans [OF n(2) ev(2)])
    have "\<exists>r. msi_get_message_for self (c2 b) 0 = Some (r, self)" for b
      by (rule msi_get_message_total [OF mech_frame_wf [OF frame] assms(2)])
    then obtain r where "\<And>b. msi_get_message_for self (c2 b) 0 = Some (r b, self)" by metis
    with True read n(1) ev(1) frame show ?thesis
      by (simp add: msi_on_write_config_def should_handle_access_def Let_def split: sum.split)
  qed
qed

interpretation msi_mech: interrupt_mechanism msi_handler msi_fits msi_accepts
proof (unfold_locales, goal_cases)
  case (1 c i)
  then show ?case by (simp add: msi_handler_def msi_is_enabled_def msi_fits_def option_simps)
next
  case (3 c i irq ic)
  show ?case
  proof (cases irq)
    case (MsiInterrupt v)
    then have "v < 32" using 3(3) by (simp add: msi_accepts_def)
    from msi_try_generate_total [OF 3(1,2) this] obtain r c' where
      "msi_try_generate i c v = Some (r, (i, c'))" "mech_frame c c'" by blast
    with 3 MsiInterrupt show ?thesis by (cases r) (auto simp: msi_handler_def handle_msi_def)
  qed (use 3 in \<open>simp add: msi_handler_def handle_msi_def\<close>)
next
  case (4 c i ic offset sz)
  with msi_on_write_total [OF 4, of ic offset sz] show ?case
    by (auto simp: msi_handler_def msi_handle_write_config_def)
qed (simp_all add: msi_handler_def default_interrupt_defs)

text \<open>MSI-X: any tables, whatever is in them.\<close>

definition msix_fits :: "PciMsiX \<Rightarrow> bool" where
  "msix_fits self \<longleftrightarrow> mx_cap_offset self + 10 \<le> 256"

lemma msix_fits_update [simp]:
  "msix_fits (self\<lparr>mx_pba_table := t\<rparr>) = msix_fits self" "msix_fits (self\<lparr>mx_msix_table := m\<rparr>) = msix_fits self"
  by (simp_all add: msix_fits_def)

lemma msix_try_generate_total:
  assumes "config_wf c" and "msix_fits self"
  shows "\<exists>r self'. msix_try_generate self c v = Some (r, (self', c)) \<and> msix_fits self'"
proof (cases "v < 64 * length (mx_pba_table self)")
  case True
  from msix_try_generate_frame [OF assms(1) _ True] assms(2) obtain r t where
    "msix_try_generate self c v = Some (r, (self\<lparr>mx_pba_table := t\<rparr>, c))" by (auto simp: msix_fits_def)
  with assms(2) show ?thesis by simp
next
  case False
  then have "\<not> v div 64 < length (mx_pba_table self)" by (simp add: div_less_iff_less_mult mult.commute)
  then have "msix_set_pending_bit self c v b = Some (Inl (InvalidMsiXVector v), (self, c))" for b
    by (simp add: msix_set_pending_bit_def pba_set_pending_bit_def pending_bit_for_def table_at_def)
  moreover have "\<exists>m. msix_is_masked self c v = Some m" "\<exists>e. msix_is_enabled self c = Some e"
    using assms by (auto simp: msix_is_masked_def msix_is_enabled_def msix_is_fn_masked_def msix_fits_def
        msix_control_read split: option.split)
  moreover have "\<exists>b. is_bus_master c = Some b" using assms(1) by (simp add: is_bus_master_def option_simps)
  ultimately show ?thesis using assms(2) by (auto simp: msix_try_generate_def try_generate_message_def)
qed

lemma msix_on_write_total:
  assumes "config_wf c" and "msix_fits self"
  shows "\<exists>r self' ic'. msix_on_write_config self c ic offset sz = Some (Inr r, (self', c, ic')) \<and> msix_fits self'"
proof -
  from msix_evaluate_frame [of c self ic 0] assms obtain t ic' where
    "msix_evaluate_pending_interrupts self c ic = Some (self\<lparr>mx_pba_table := t\<rparr>, c, ic')"
    by (auto simp: msix_evaluate_pending_interrupts_def msix_fits_def)
  moreover have "cs_read_word c (mx_cap_offset self) = Some (msix_control self c)"
    using assms by (simp add: msix_fits_def msix_control_read)
  ultimately show ?thesis using assms(2) by (simp add: msix_on_write_config_def msix_control_offset_def Let_def)
qed

lemma region_offset_bound: "offset_within_region info bar offset n = Some off \<Longrightarrow> unat off + n < 2 ^ 64"
  using unsigned_less [of "region_length info", where ?'a = nat] by (auto simp: offset_within_region_Some)

lemma msix_region_read_total:
  assumes "unat off + length data < 2 ^ 64"
  shows "\<exists>r data'. msix_region_read self rid off data (c, ic) = Some (Inr r, (self, data', c, ic)) \<and>
    length data' = length data"
proof (cases rid)
  case MsiXTable
  from msix_block.read_checked_total [OF assms, of "mx_msix_table self"] MsiXTable show ?thesis
    by (auto simp: msix_region_read_def Let_def split: sum.split)
next
  case PbaTable
  from pba_block.read_checked_total [OF assms, of "mx_pba_table self"] PbaTable show ?thesis
    by (auto simp: msix_region_read_def Let_def split: sum.split)
qed

lemma msix_region_write_total:
  assumes "config_wf c" and "msix_fits self" and "unat off + length data < 2 ^ 64"
  shows "\<exists>r self' ic'. msix_region_write self rid off data (c, ic) = Some (r, (self', c, ic')) \<and> msix_fits self' \<and>
    (\<forall>bar. r \<noteq> Inr (Some (BarUpdate bar)))"
proof (cases rid)
  case MsiXTable
  from msix_block.set_checked_total [OF assms(3), of "mx_msix_table self"] obtain r t where
    set: "set_register_checked msix_raw_bytes msix_store_raw (rb_validate_access msix_raw_bytes) (mx_msix_table self)
      (unat off) data = Some (r, t)" by blast
  let ?self = "self\<lparr>mx_msix_table := t\<rparr>"
  from msix_evaluate_frame [of c ?self ic 0] assms(1,2) obtain p ic' where
    ev: "msix_evaluate_pending_interrupts ?self c ic = Some (?self\<lparr>mx_pba_table := p\<rparr>, c, ic')"
    by (auto simp: msix_evaluate_pending_interrupts_def msix_fits_def)
  have "\<exists>m. msix_get_message_for s c v = Some (m, s)" for s v
    by (simp add: msix_get_message_for_def split: option.split)
  then obtain m where "\<And>s v. msix_get_message_for s c v = Some (m s v, s)" by metis
  with MsiXTable set ev assms(2) show ?thesis
    by (cases r) (simp_all add: msix_region_write_def Let_def split: sum.split)
qed (use assms(2) in \<open>simp add: msix_region_write_def\<close>)

interpretation msix_mech: interrupt_mechanism msix_handler msix_fits "\<lambda>_. True"
proof (unfold_locales, goal_cases)
  case (3 c i irq ic)
  show ?case
  proof (cases irq)
    case (MsiInterrupt v)
    from msix_try_generate_total [OF 3(1,2), of v] obtain r i' where
      "msix_try_generate i c v = Some (r, (i', c))" "msix_fits i'" by blast
    with 3 MsiInterrupt show ?thesis by (cases r) (simp_all add: msix_handler_def handle_msi_def)
  qed (use 3 in \<open>simp add: msix_handler_def handle_msi_def\<close>)
next
  case (4 c i ic offset sz)
  from msix_on_write_total [OF 4, of ic offset sz] 4(1) show ?case
    by (auto simp: msix_handler_def msix_handle_write_config_def split: PciHandlerResult.split)
next
  case (5 c i ic bar boff data)
  show ?case
  proof (cases "List.find (\<lambda>(_, info). offset_within_region info bar boff (length data) \<noteq> None) (msix_info_iter i)")
    case None
    with 5 show ?thesis
      by (simp add: msix_handler_def msix_interrupt_read_bar_def msix_handle_read_bar_def set_handle_read_bar_def)
  next
    case (Some x)
    obtain rid info where x: "x = (rid, info)" by (cases x)
    from Some x obtain off where off: "offset_within_region info bar boff (length data) = Some off"
      by (auto simp: find_Some_iff)
    from msix_region_read_total [OF region_offset_bound [OF off], of i rid c ic] Some x off 5 show ?thesis
      by (auto simp: msix_handler_def msix_interrupt_read_bar_def msix_handle_read_bar_def set_handle_read_bar_def)
  qed
next
  case (6 c i ic bar boff data)
  show ?case
  proof (cases "List.find (\<lambda>(_, info). offset_within_region info bar boff (length data) \<noteq> None) (msix_info_iter i)")
    case None
    with 6 show ?thesis
      by (simp add: msix_handler_def msix_interrupt_write_bar_def msix_handle_write_bar_def set_handle_write_bar_def)
  next
    case (Some x)
    obtain rid info where x: "x = (rid, info)" by (cases x)
    from Some x obtain off where off: "offset_within_region info bar boff (length data) = Some off"
      by (auto simp: find_Some_iff)
    from msix_region_write_total [OF 6 region_offset_bound [OF off], of rid ic] obtain r self' ic' where
      "msix_region_write i rid off data (c, ic) = Some (r, (self', c, ic'))" "msix_fits self'"
      "\<forall>bar. r \<noteq> Inr (Some (BarUpdate bar))" by blast
    with Some x off 6 show ?thesis
      by (cases r) (simp_all add: message_event_def msix_handler_def msix_interrupt_write_bar_def msix_handle_write_bar_def
          set_handle_write_bar_def)
  qed
qed (simp_all add: msix_handler_def msix_is_enabled_def msix_active_interrupt_def msix_fits_def msix_control_read)

section \<open>The composition is a mechanism\<close>

definition context_ok ::
    "('x \<Rightarrow> bool) \<Rightarrow> ('m \<Rightarrow> bool) \<Rightarrow> ('mx \<Rightarrow> bool) \<Rightarrow> ('x, 'm, 'mx) PciInterruptContext \<Rightarrow> bool" where
  "context_ok okx okm okmx self \<longleftrightarrow> okx (ctx_intx self) \<and> okm (ctx_msi self) \<and> okmx (ctx_msix self)"

lemma on_part_Some [simp]:
  "on_intx (Some (a, x, w)) self = Some (a, (self\<lparr>ctx_intx := x\<rparr>, w))"
  "on_msi (Some (a, m, w)) self = Some (a, (self\<lparr>ctx_msi := m\<rparr>, w))"
  "on_msix (Some (a, mx, w)) self = Some (a, (self\<lparr>ctx_msix := mx\<rparr>, w))"
  by (simp_all add: on_intx_def on_msi_def on_msix_def)

lemma context_ok_update:
  "context_ok okx okm okmx self \<Longrightarrow> okx x \<Longrightarrow> context_ok okx okm okmx (self\<lparr>ctx_intx := x\<rparr>)"
  "context_ok okx okm okmx self \<Longrightarrow> okm m \<Longrightarrow> context_ok okx okm okmx (self\<lparr>ctx_msi := m\<rparr>)"
  "context_ok okx okm okmx self \<Longrightarrow> okmx mx \<Longrightarrow> context_ok okx okm okmx (self\<lparr>ctx_msix := mx\<rparr>)"
  by (simp_all add: context_ok_def)

locale composed_mechanism =
  x: interrupt_mechanism hx okx vx + m: interrupt_mechanism hm okm vm + mx: interrupt_mechanism hmx okmx vmx
  for hx :: "'x interrupt_handler" and okx vx and hm :: "'m interrupt_handler" and okm vm
    and hmx :: "'mx interrupt_handler" and okmx vmx
begin

lemma parts_enabled:
  assumes "config_wf c" and "context_ok okx okm okmx self"
  obtains ex em emx where "ih_is_enabled hx (ctx_intx self) c = Some ex" "ih_is_enabled hm (ctx_msi self) c = Some em"
    "ih_is_enabled hmx (ctx_msix self) c = Some emx"
  using assms x.enabled_total [of c "ctx_intx self"] m.enabled_total [of c "ctx_msi self"]
    mx.enabled_total [of c "ctx_msix self"] by (auto simp: context_ok_def)

lemma context_signal_total:
  assumes "config_wf c" and "context_ok okx okm okmx self" and "vx irq \<and> vm irq \<and> vmx irq"
  shows "\<exists>r self' c' ic'. context_signal hx hm hmx self c ic irq = Some (r, (self', c', ic')) \<and>
    context_ok okx okm okmx self' \<and> mech_frame c c'"
proof -
  from parts_enabled [OF assms(1,2)] obtain ex em emx where
    en: "ih_is_enabled hx (ctx_intx self) c = Some ex" "ih_is_enabled hm (ctx_msi self) c = Some em"
      "ih_is_enabled hmx (ctx_msix self) c = Some emx" .
  have ok: "okx (ctx_intx self)" "okm (ctx_msi self)" "okmx (ctx_msix self)" using assms(2) by (simp_all add: context_ok_def)
  consider "emx" | "\<not> emx" "em" | "\<not> emx" "\<not> em" "ex" | "\<not> emx" "\<not> em" "\<not> ex" by blast
  then show ?thesis
  proof cases
    case 1
    with en mx.signal_total [OF assms(1) ok(3), of irq ic] assms(2,3) show ?thesis
      by (auto simp: context_signal_def context_active_interrupt_def intro: context_ok_update)
  next
    case 2
    with en m.signal_total [OF assms(1) ok(2), of irq ic] assms(2,3) show ?thesis
      by (auto simp: context_signal_def context_active_interrupt_def intro: context_ok_update)
  next
    case 3
    with en x.signal_total [OF assms(1) ok(1), of irq ic] assms(2,3) show ?thesis
      by (auto simp: context_signal_def context_active_interrupt_def intro: context_ok_update)
  next
    case 4
    with en assms(1,2) show ?thesis by (simp add: context_signal_def context_active_interrupt_def)
  qed
qed

lemma context_write_total:
  assumes "config_wf c" and "context_ok okx okm okmx self"
  shows "\<exists>r self' c' ic'. context_on_write_config hx hm hmx self c ic offset sz = Some (r, (self', c', ic')) \<and>
    context_ok okx okm okmx self' \<and> mech_frame c c' \<and> message_event r"
proof -
  have ok: "okx (ctx_intx self)" "okm (ctx_msi self)" "okmx (ctx_msix self)" using assms(2) by (simp_all add: context_ok_def)
  from x.write_config_total [OF assms(1) ok(1), of ic offset sz] obtain rx x' cx icx where
    x: "ih_on_write_config hx (ctx_intx self) c ic offset sz = Some (rx, (x', cx, icx))" "okx x'" "mech_frame c cx" by blast
  from m.write_config_total [OF mech_frame_wf [OF x(3)] ok(2), of icx offset sz] obtain rm m' cm icm where
    m: "ih_on_write_config hm (ctx_msi self) cx icx offset sz = Some (rm, (m', cm, icm))" "okm m'" "mech_frame cx cm"
    "message_event rm" by blast
  from mx.write_config_total [OF mech_frame_wf [OF m(3)] ok(3), of icm offset sz] obtain rmx mx' cmx icmx where
    mx: "ih_on_write_config hmx (ctx_msix self) cm icm offset sz = Some (rmx, (mx', cmx, icmx))" "okmx mx'" "mech_frame cm cmx"
    "message_event rmx" by blast
  note frames = x(3) mech_frame_trans [OF x(3) m(3)] mech_frame_trans [OF mech_frame_trans [OF x(3) m(3)] mx(3)]
  note parts = x(1,2) m(1,2,4) mx(1,2,4) ok frames
  show ?thesis
  proof (cases rx)
    case (Inr y)
    note [simp] = context_on_write_config_def context_ok_def
    show ?thesis
    proof (cases rm)
      case (Inr y')
      with parts \<open>rx = Inr y\<close> show ?thesis
        by (cases rmx) (auto split: PciHandlerResult.split option.split)
    qed (use parts Inr in auto)
  qed (use parts in \<open>auto simp: context_on_write_config_def context_ok_def\<close>)
qed

lemma context_bar_total:
  assumes "config_wf c" and "context_ok okx okm okmx self"
  shows "\<exists>r self' data' c' ic'. context_read_bar hmx self c ic bar off data = Some (r, (self', data', c', ic')) \<and>
      context_ok okx okm okmx self' \<and> length data' = length data \<and> mech_frame c c'"
    and "\<exists>r self' c' ic'. context_write_bar hmx self c ic bar off data = Some (r, (self', c', ic')) \<and>
      context_ok okx okm okmx self' \<and> mech_frame c c' \<and> message_event r"
proof -
  have ok: "okmx (ctx_msix self)" using assms(2) by (simp add: context_ok_def)
  show "\<exists>r self' data' c' ic'. context_read_bar hmx self c ic bar off data = Some (r, (self', data', c', ic')) \<and>
      context_ok okx okm okmx self' \<and> length data' = length data \<and> mech_frame c c'"
    using mx.read_bar_total [OF assms(1) ok, of ic bar off data] assms(2)
    by (auto simp: context_read_bar_def intro: context_ok_update)
  show "\<exists>r self' c' ic'. context_write_bar hmx self c ic bar off data = Some (r, (self', c', ic')) \<and>
      context_ok okx okm okmx self' \<and> mech_frame c c' \<and> message_event r"
    using mx.write_bar_total [OF assms(1) ok, of ic bar off data] assms(2)
    by (auto simp: context_write_bar_def intro: context_ok_update)
qed

end

sublocale composed_mechanism \<subseteq> ctx: interrupt_mechanism "context_handler hx hm hmx" "context_ok okx okm okmx"
  "\<lambda>irq. vx irq \<and> vm irq \<and> vmx irq"
proof (unfold_locales, goal_cases)
  case (1 c i)
  from parts_enabled [OF 1] obtain ex em emx where "ih_is_enabled hx (ctx_intx i) c = Some ex"
    "ih_is_enabled hm (ctx_msi i) c = Some em" "ih_is_enabled hmx (ctx_msix i) c = Some emx" .
  then show ?case by (auto simp: context_handler_def context_is_enabled_def)
next
  case (2 c i)
  from parts_enabled [OF 2] obtain ex em emx where "ih_is_enabled hx (ctx_intx i) c = Some ex"
    "ih_is_enabled hm (ctx_msi i) c = Some em" "ih_is_enabled hmx (ctx_msix i) c = Some emx" .
  then show ?case by (simp add: context_handler_def context_active_interrupt_def)
next
  case (3 c i irq ic)
  then show ?case by (simp only: context_handler_def interrupt_handler.simps) (rule context_signal_total)
next
  case (4 c i ic offset sz)
  then show ?case by (simp only: context_handler_def interrupt_handler.simps) (rule context_write_total)
next
  case (5 c i ic bar boff data)
  then show ?case by (simp only: context_handler_def interrupt_handler.simps) (rule context_bar_total(1))
next
  case (6 c i ic bar boff data)
  then show ?case by (simp only: context_handler_def interrupt_handler.simps) (rule context_bar_total(2))
qed

interpretation full: composed_mechanism intx_handler "\<lambda>_. True" "\<lambda>_. True" msi_handler msi_fits msi_accepts
  msix_handler msix_fits "\<lambda>_. True"
  by unfold_locales

section \<open>Properties\<close>

definition sample_context :: "(PciIntx, PciMsi, PciMsiX) PciInterruptContext" where
  "sample_context = \<lparr>ctx_intx = \<lparr>ix_line_config = LineFixed 7, ix_disabled = True\<rparr>, ctx_msi = \<lparr>msi_offset = 0x52\<rparr>,
     ctx_msix = sample_msix\<rparr>"

lemma sample_context_ok: "context_ok (\<lambda>_. True) msi_fits msix_fits sample_context"
  by code_simp

text \<open>The three mechanisms are enabled by a bit of their registers each.\<close>

lemma context_enabled_bits:
  assumes "config_wf c" and "context_ok (\<lambda>_. True) msi_fits msix_fits self"
  shows "ih_is_enabled intx_handler (ctx_intx self) c = Some (\<not> disable_bit c)"
    and "ih_is_enabled msi_handler (ctx_msi self) c = Some (msi_enabled (ctx_msi self) c)"
    and "ih_is_enabled msix_handler (ctx_msix self) c = Some (msix_enabled (ctx_msix self) c)"
  using assms
  by (simp_all add: intx_handler_def intx_is_enabled_def interrupts_disabled_eq msi_handler_def msi_is_enabled_def msi_enabled_def
      msi_control_def msix_handler_def msix_is_enabled_def msix_enabled_def msix_control_def msix_control_read control_bits
      context_ok_def msi_fits_def
      msix_fits_def option_simps)

lemma msix_signal_vector:
  assumes "msix_usable self c v" and "is_bus_master c = Some True" and "msix_enabled self c"
  shows "\<exists>t. ih_signal msix_handler self c ic (MsiInterrupt v) =
      Some (Inr (), (self\<lparr>mx_pba_table := t\<rparr>, c, if msix_masked self c v then ic else send_msi ic (msix_message self c v))) \<and>
    (\<forall>u. pba_is_pending t u = (if u = v then msix_masked self c v else msix_is_pending self c u))"
proof -
  from assms(1) have v: "config_wf c" "mx_cap_offset self + 10 \<le> 256" "v < 64 * length (mx_pba_table self)"
    by (simp_all add: msix_usable_def)
  from msix_try_generate_frame [OF v] obtain r t where
    gen: "msix_try_generate self c v = Some (r, (self\<lparr>mx_pba_table := t\<rparr>, c))" by blast
  with msix.generate_enabled [OF assms(2,1,3)]
  have "r = Inr (if msix_masked self c v then Masked else Generated (msix_message self c v))"
    "\<forall>u. pba_is_pending t u = (if u = v then msix_masked self c v else msix_is_pending self c u)"
    by (auto simp flip: msix_try_generate_def)
  with gen show ?thesis
    by (auto simp: msix_handler_def handle_msi_def handle_msi_generation_def)
qed

lemma msi_signal_vector:
  assumes "msi_usable self c v" and "is_bus_master c = Some True" and "msi_enabled self c"
  shows "\<exists>c'. ih_signal msi_handler self c ic (MsiInterrupt v) =
      Some (Inr (), (self, c', if msi_masked self c v then ic else send_msi ic (msi_message self c v))) \<and>
    (\<forall>u. msi_pending self c' u = (if u = v then msi_masked self c v else msi_pending self c u))"
proof -
  from msi.generate_enabled [OF assms(2,1,3)] obtain s' c' where
    gen: "msi_try_generate self c v =
      Some (Inr (if msi_masked self c v then Masked else Generated (msi_message self c v)), (s', c'))"
    "msi_pending s' c' v = msi_masked self c v \<and> (\<forall>u. u \<noteq> v \<longrightarrow> msi_pending s' c' u = msi_pending self c u)"
    unfolding msi_try_generate_def by blast
  moreover from gen(1) have "s' = self" by (rule msi_try_generate_self)
  ultimately show ?thesis
    by (auto simp: msi_handler_def handle_msi_def handle_msi_generation_def)
qed

lemma intx_signal_level:
  assumes "config_wf c" and "interrupt_line c (ix_line_config intx) = Some line" and "\<not> disable_bit c"
  shows "\<exists>c'. ih_signal intx_handler intx c ic (IntxInterrupt level) =
      Some (Inr (), (intx, c', if status_bit c = (level = High) then ic else set_interrupt ic line level)) \<and>
    status_bit c' = (level = High)"
proof -
  obtain c' where "update_interrupt_status c level = Some (status_bit c \<noteq> (level = High), c')" "config_wf c'"
    "status_bit c' = (level = High)" "disable_bit c' = disable_bit c" "\<And>lc. interrupt_line c' lc = interrupt_line c lc"
    using update_interrupt_status_effect [OF assms(1)] by metis
  with assms(2,3) show ?thesis by (auto simp: intx_handler_def handle_intx_def signal_intx_def interrupts_disabled_eq)
qed

text \<open>
  C24: What an interrupt of the device becomes, by the enable bits the driver has set. With MSI-X enabled, whatever
  the other bits are, a vector sends the message of its table entry, or becomes pending when it is
  masked; with only MSI enabled, it sends the message programmed for the vector, or becomes pending; a
  level is refused in both cases and changes nothing. With neither, and INTx not disabled, a level sets the
  status bit and, when that changes it, the line, and a vector is refused. With INTx disabled as
  well every interrupt is accepted and lost: a level does not even reach the status bit.
\<close>

theorem context_signal_outcome:
  assumes "config_wf c" and "context_ok (\<lambda>_. True) msi_fits msix_fits self"
    and "interrupt_line c (ix_line_config (ctx_intx self)) = Some line"
  shows "let signal = context_signal intx_handler msi_handler msix_handler self c ic; m = ctx_msi self; mx = ctx_msix self in
    (msix_enabled mx c \<and> is_bus_master c = Some True \<and> msix_usable mx c v \<longrightarrow>
      (\<exists>t. signal (MsiInterrupt v) = Some (Inr (), (self\<lparr>ctx_msix := mx\<lparr>mx_pba_table := t\<rparr>\<rparr>, c,
          if msix_masked mx c v then ic else send_msi ic (msix_message mx c v))) \<and>
        (\<forall>u. pba_is_pending t u = (if u = v then msix_masked mx c v else msix_is_pending mx c u)))) \<and>
    (\<not> msix_enabled mx c \<and> msi_enabled m c \<and> is_bus_master c = Some True \<and> msi_usable m c v \<longrightarrow>
      (\<exists>c'. signal (MsiInterrupt v) = Some (Inr (), (self, c', if msi_masked m c v then ic else send_msi ic (msi_message m c v))) \<and>
        (\<forall>u. msi_pending m c' u = (if u = v then msi_masked m c v else msi_pending m c u)))) \<and>
    (msix_enabled mx c \<or> msi_enabled m c \<longrightarrow> signal (IntxInterrupt level) = Some (Inl InterruptTypeMismatch, (self, c, ic))) \<and>
    (\<not> msix_enabled mx c \<and> \<not> msi_enabled m c \<and> \<not> disable_bit c \<longrightarrow>
      signal (MsiInterrupt v) = Some (Inl InterruptTypeMismatch, (self, c, ic)) \<and>
      (\<exists>c'. signal (IntxInterrupt level) =
          Some (Inr (), (self, c', if status_bit c = (level = High) then ic else set_interrupt ic line level)) \<and>
        status_bit c' = (level = High))) \<and>
    (\<not> msix_enabled mx c \<and> \<not> msi_enabled m c \<and> disable_bit c \<longrightarrow> signal irq = Some (Inr (), (self, c, ic)))"
proof -
  note active = context_signal_def context_active_interrupt_def context_enabled_bits [OF assms(1,2)]
  note mismatch = intx_handler_def handle_intx_def msi_handler_def msix_handler_def handle_msi_def
  show ?thesis unfolding Let_def
  proof (intro conjI impI, goal_cases)
    case 1
    with msix_signal_vector [of "ctx_msix self" c v ic] show ?case by (auto simp: active)
  next
    case 2
    with msi_signal_vector [of "ctx_msi self" c v ic] show ?case by (auto simp: active)
  next
    case 3
    then show ?case by (auto simp: active) (simp_all add: mismatch)
  next
    case 4
    then show ?case by (simp add: active) (simp add: mismatch)
  next
    case 5
    with intx_signal_level [OF assms(1,3), of ic level] show ?case by (auto simp: active)
  next
    case 6
    then show ?case by (simp add: active)
  qed
qed

lemma context_signal_outcome_witness:
  "\<exists>t. context_signal intx_handler msi_handler msix_handler sample_context msix_config [] (MsiInterrupt 2) =
     Some (Inr (), (sample_context\<lparr>ctx_msix := sample_msix\<lparr>mx_pba_table := t\<rparr>\<rparr>, msix_config, [SendMsi (msix_message sample_msix msix_config 2)]))"
proof -
  have line: "interrupt_line msix_config (ix_line_config (ctx_intx sample_context)) = Some 7"
    by (simp add: interrupt_line_def sample_context_def)
  have msix: "ctx_msix sample_context = sample_msix" by (simp add: sample_context_def)
  from context_signal_outcome [OF msix_config_facts(1) sample_context_ok line, where v = 2 and ic = "[]", unfolded Let_def, THEN conjunct1]
  show ?thesis using msix_config_facts msix_sample_usable(3) msix_sample_masked(3) by (auto simp: msix send_msi_def)
qed

text \<open>
  A mechanism refuses the wrong kind of interrupt and changes nothing: INTx an MSI vector, MSI and
  MSI-X a level. So a driver that signals levels gets an error as soon as the guest enables MSI-X.
\<close>

theorem interrupt_type_mismatch:
  "ih_signal intx_handler x c ic (MsiInterrupt v) = Some (Inl InterruptTypeMismatch, (x, c, ic)) \<and>
   ih_signal msi_handler m c ic (IntxInterrupt level) = Some (Inl InterruptTypeMismatch, (m, c, ic)) \<and>
   ih_signal msix_handler mx c ic (IntxInterrupt level) = Some (Inl InterruptTypeMismatch, (mx, c, ic)) \<and>
   (config_wf c \<and> context_ok (\<lambda>_. True) msi_fits msix_fits self \<and> msix_enabled (ctx_msix self) c \<longrightarrow>
     context_signal intx_handler msi_handler msix_handler self c ic (IntxInterrupt level) =
       Some (Inl InterruptTypeMismatch, (self, c, ic)))"
proof -
  have "msix_is_enabled (ctx_msix self) c = Some True"
    if "config_wf c \<and> context_ok (\<lambda>_. True) msi_fits msix_fits self \<and> msix_enabled (ctx_msix self) c"
    using that by (simp add: msix_is_enabled_def context_ok_def msix_fits_def msix_control_read control_bits msix_enabled_def)
  then show ?thesis
    by (auto simp: intx_handler_def msi_handler_def msix_handler_def handle_intx_def handle_msi_def context_signal_def
        context_active_interrupt_def)
qed

lemma interrupt_type_mismatch_witness:
  "context_signal intx_handler msi_handler msix_handler sample_context msix_config [] (IntxInterrupt High) =
     Some (Inl InterruptTypeMismatch, (sample_context, msix_config, []))"
proof -
  have "msix_enabled (ctx_msix sample_context) msix_config" by code_simp
  then show ?thesis
    using interrupt_type_mismatch [of _ msix_config "[]" _ _ _ _ sample_context] sample_context_ok msix_config_facts(1) by blast
qed

text \<open>
  C25: With INTx, MSI and MSI-X composed, a configuration write by the guest, whatever it is and
  whatever the guest has written before into the registers, the vector table and the mask and pending
  bits, is processed without a panic or an endless loop. The mechanisms keep valid and change nothing
  of the configuration space but the status register and the device-specific area.
\<close>

theorem context_write_safe:
  assumes "config_wf c" and "context_ok (\<lambda>_. True) msi_fits msix_fits self"
  shows "\<exists>r self' c' ic'. context_on_write_config intx_handler msi_handler msix_handler self c ic offset sz =
      Some (r, (self', c', ic')) \<and> context_ok (\<lambda>_. True) msi_fits msix_fits self' \<and> mech_frame c c'"
  using full.context_write_total [OF assms, of ic offset sz] by blast

lemma context_write_safe_witness:
  "\<exists>r self' c' ic'. context_on_write_config intx_handler msi_handler msix_handler sample_context msix_config [] 0x42 2 =
      Some (r, (self', c', ic')) \<and> mech_frame msix_config c'"
  using context_write_safe [OF msix_config_facts(1) sample_context_ok] by blast

end
