(* ===== verification/Pci_Function.thy ===== *)
theory Pci_Function
  imports Config_Caps Interrupt
begin

text \<open>
  PCI functions (\<open>function.rs\<close>): the provided methods of the trait \<open>PciFunction\<close>, which route accesses by
  address to a BAR, the wrapper that composes a device with an interrupt mechanism, and the builder.
\<close>

section \<open>Routing by address\<close>

text \<open>
  The provided methods of \<open>PciFunction\<close>. The required \<open>get_bar\<close>, \<open>read_bar\<close> and \<open>write_bar\<close> are
  arguments; \<open>'f\<close> is the function.
\<close>

type_synonym 'f bar_lookup = "'f \<Rightarrow> PciBarIndex \<Rightarrow> PciBar option option"

type_synonym 'f bar_read = "'f \<Rightarrow> PciBarIndex \<Rightarrow> u64 \<Rightarrow> bytes \<Rightarrow> ('f \<times> bytes, unit) call"

type_synonym 'f bar_write =
  "'f \<Rightarrow> PciBarIndex \<Rightarrow> u64 \<Rightarrow> bytes \<Rightarrow> ('f, PciConfigurationUpdate option) call"

definition get_matching_bar_address ::
    "'f bar_lookup \<Rightarrow> 'f \<Rightarrow> PciBarIndex \<Rightarrow> u64 \<Rightarrow> u64 \<Rightarrow> bool \<Rightarrow> u64 option option" where
  "get_matching_bar_address lookup function index address sz mem = do {
     bar \<leftarrow> lookup function index;
     case bar of
       None \<Rightarrow> Some None
     | Some bar \<Rightarrow>
         if mem \<noteq> bar_is_mem bar then Some None
         else (case bar_address bar of
             None \<Rightarrow> Some None
           | Some a \<Rightarrow>
               Some (if range_contains 64 (unat a) (unat (bar_size bar)) (unat address) (unat sz) then Some a else None))
   }"

text \<open>The loop over the indices that are left.\<close>

fun find_bar_from ::
    "'f bar_lookup \<Rightarrow> 'f \<Rightarrow> u64 \<Rightarrow> u64 \<Rightarrow> bool \<Rightarrow> nat list \<Rightarrow> (PciBarIndex \<times> u64) option option" where
  "find_bar_from lookup function address sz mem [] = Some None"
| "find_bar_from lookup function address sz mem (i # rest) =
     (case bar_index_try_from i of
        Inl _ \<Rightarrow> find_bar_from lookup function address sz mem rest
      | Inr index \<Rightarrow> do {
          matching \<leftarrow> get_matching_bar_address lookup function index address sz mem;
          case matching of
            Some a \<Rightarrow> Some (Some (index, address - a))
          | None \<Rightarrow> find_bar_from lookup function address sz mem rest
        })"

definition find_bar_and_offset ::
    "'f bar_lookup \<Rightarrow> 'f \<Rightarrow> u64 \<Rightarrow> u64 \<Rightarrow> bool \<Rightarrow> (PciBarIndex \<times> u64) option option" where
  "find_bar_and_offset lookup function address sz mem =
     find_bar_from lookup function address sz mem [0..<NUM_BAR_REGS]"

definition find_mmio_region :: "'f bar_lookup \<Rightarrow> 'f \<Rightarrow> u64 \<Rightarrow> u64 \<Rightarrow> (PciBarIndex \<times> u64) option option" where
  "find_mmio_region lookup function address sz = find_bar_and_offset lookup function address sz True"

definition find_pio_region :: "'f bar_lookup \<Rightarrow> 'f \<Rightarrow> u16 \<Rightarrow> u16 \<Rightarrow> (PciBarIndex \<times> u16) option option" where
  "find_pio_region lookup function address sz =
     map_option (map_option (\<lambda>(index, offset). (index, ucast offset)))
       (find_bar_and_offset lookup function (ucast address) (ucast sz) False)"

definition read_mmio :: "'f bar_lookup \<Rightarrow> 'f bar_read \<Rightarrow> 'f \<Rightarrow> u64 \<Rightarrow> bytes \<Rightarrow> ('f \<times> bytes, unit) call" where
  "read_mmio lookup read_bar self address data = do {
     let sz = (of_nat (length data) :: u64);
     region \<leftarrow> find_mmio_region lookup self address sz;
     case region of
       None \<Rightarrow> Some (Inl (BarNotFound address sz), (self, data))
     | Some (bar, offset) \<Rightarrow> read_bar self bar offset data
   }"

definition write_mmio ::
    "'f bar_lookup \<Rightarrow> 'f bar_write \<Rightarrow> 'f \<Rightarrow> u64 \<Rightarrow> bytes \<Rightarrow> ('f, PciConfigurationUpdate option) call" where
  "write_mmio lookup write_bar self address data = do {
     let sz = (of_nat (length data) :: u64);
     region \<leftarrow> find_mmio_region lookup self address sz;
     case region of
       None \<Rightarrow> Some (Inl (BarNotFound address sz), self)
     | Some (bar, offset) \<Rightarrow> write_bar self bar offset data
   }"

definition read_pio :: "'f bar_lookup \<Rightarrow> 'f bar_read \<Rightarrow> 'f \<Rightarrow> u16 \<Rightarrow> bytes \<Rightarrow> ('f \<times> bytes, unit) call" where
  "read_pio lookup read_bar self port data = do {
     region \<leftarrow> find_pio_region lookup self port (of_nat (length data));
     case region of
       None \<Rightarrow> Some (Inl (BarNotFound (ucast port) (of_nat (length data))), (self, data))
     | Some (bar, offset) \<Rightarrow> read_bar self bar (ucast offset) data
   }"

definition write_pio ::
    "'f bar_lookup \<Rightarrow> 'f bar_write \<Rightarrow> 'f \<Rightarrow> u16 \<Rightarrow> bytes \<Rightarrow> ('f, PciConfigurationUpdate option) call" where
  "write_pio lookup write_bar self port data = do {
     region \<leftarrow> find_pio_region lookup self port (of_nat (length data));
     case region of
       None \<Rightarrow> Some (Inl (BarNotFound (ucast port) (of_nat (length data))), self)
     | Some (bar, offset) \<Rightarrow> write_bar self bar (ucast offset) data
   }"

text \<open>The default BAR methods of a function.\<close>

definition default_function_read_bar :: "'f bar_read" where
  "default_function_read_bar self bar offset data = Some (Inl NotSupported, (self, data))"

definition default_function_write_bar :: "'f bar_write" where
  "default_function_write_bar self bar offset data = Some (Inl NotSupported, self)"

section \<open>Device handlers\<close>

text \<open>
  \<open>PciInterruptAccess\<close>: the active interrupt type and the closure that signals. The closure captures the
  interrupt mechanism and the controller, which are the environment \<open>'w\<close> here.
\<close>

record 'w PciInterruptAccess =
  ia_active :: PciInterruptType
  ia_signal :: "'w \<Rightarrow> config_space \<Rightarrow> PciInterrupt \<Rightarrow> ('w \<times> config_space, unit) call"

text \<open>The trait \<open>PciDeviceHandler\<close>; \<open>'d\<close> is the device, which owns the configuration space.\<close>

record ('d, 'w) device_handler =
  dh_config :: "'d \<Rightarrow> config_space"
  dh_set_config :: "config_space \<Rightarrow> 'd \<Rightarrow> 'd"
  dh_on_write_config :: "'d \<Rightarrow> usize \<Rightarrow> usize \<Rightarrow> ('d, unit) call"
  dh_prepare_read_config :: "'d \<Rightarrow> usize \<Rightarrow> usize \<Rightarrow> 'd option"
  dh_read_bar :: "'d \<Rightarrow> PciBarIndex \<Rightarrow> u64 \<Rightarrow> bytes \<Rightarrow> 'w PciInterruptAccess \<Rightarrow> 'w \<Rightarrow> ('d \<times> bytes \<times> 'w, unit) call"
  dh_write_bar :: "'d \<Rightarrow> PciBarIndex \<Rightarrow> u64 \<Rightarrow> bytes \<Rightarrow> 'w PciInterruptAccess \<Rightarrow> 'w \<Rightarrow> ('d \<times> 'w, unit) call"
  dh_on_config_update :: "'d \<Rightarrow> PciConfigurationUpdate \<Rightarrow> 'd option"

definition default_dh_on_write_config :: "'d \<Rightarrow> usize \<Rightarrow> usize \<Rightarrow> ('d, unit) call" where
  "default_dh_on_write_config self offset sz = Some (Inr (), self)"

definition default_dh_prepare_read_config :: "'d \<Rightarrow> usize \<Rightarrow> usize \<Rightarrow> 'd option" where
  "default_dh_prepare_read_config self offset sz = Some self"

definition default_dh_read_bar ::
    "'d \<Rightarrow> PciBarIndex \<Rightarrow> u64 \<Rightarrow> bytes \<Rightarrow> 'w PciInterruptAccess \<Rightarrow> 'w \<Rightarrow> ('d \<times> bytes \<times> 'w, unit) call" where
  "default_dh_read_bar self bar offset data irq w = Some (Inl NotSupported, (self, data, w))"

definition default_dh_write_bar ::
    "'d \<Rightarrow> PciBarIndex \<Rightarrow> u64 \<Rightarrow> bytes \<Rightarrow> 'w PciInterruptAccess \<Rightarrow> 'w \<Rightarrow> ('d \<times> 'w, unit) call" where
  "default_dh_write_bar self bar offset data irq w = Some (Inl NotSupported, (self, w))"

definition default_dh_on_config_update :: "'d \<Rightarrow> PciConfigurationUpdate \<Rightarrow> 'd option" where
  "default_dh_on_config_update self event = Some self"

section \<open>Functions with interrupts\<close>

record ('d, 'i) PciFunctionWithInterrupts =
  fn_controller :: controller
  fn_device :: 'd
  fn_interrupt :: 'i

definition fn_get_bar ::
    "('d, 'i \<times> controller) device_handler \<Rightarrow> ('d, 'i) PciFunctionWithInterrupts \<Rightarrow> PciBarIndex \<Rightarrow> PciBar option option" where
  "fn_get_bar dh self index = get_bar (dh_config dh (fn_device self)) index"

definition fn_active_interrupt ::
    "('d, 'i \<times> controller) device_handler \<Rightarrow> 'i interrupt_handler \<Rightarrow> ('d, 'i) PciFunctionWithInterrupts \<Rightarrow> PciInterruptType option" where
  "fn_active_interrupt dh ih self = ih_active_interrupt ih (fn_interrupt self) (dh_config dh (fn_device self))"

definition fn_signal_interrupt ::
    "('d, 'i \<times> controller) device_handler \<Rightarrow> 'i interrupt_handler \<Rightarrow> ('d, 'i) PciFunctionWithInterrupts \<Rightarrow> PciInterrupt \<Rightarrow>
     (('d, 'i) PciFunctionWithInterrupts, unit) call" where
  "fn_signal_interrupt dh ih self interrupt = do {
     let c = dh_config dh (fn_device self);
     enabled \<leftarrow> ih_is_enabled ih (fn_interrupt self) c;
     if enabled
     then do {
       (r, i, c, ic) \<leftarrow> ih_signal ih (fn_interrupt self) c (fn_controller self) interrupt;
       Some (r, \<lparr>fn_controller = ic, fn_device = dh_set_config dh c (fn_device self), fn_interrupt = i\<rparr>)
     }
     else Some (Inr (), self)
   }"

definition fn_read_config ::
    "('d, 'i \<times> controller) device_handler \<Rightarrow> ('d, 'i) PciFunctionWithInterrupts \<Rightarrow> usize \<Rightarrow> bytes \<Rightarrow>
     (('d, 'i) PciFunctionWithInterrupts \<times> bytes, unit) call" where
  "fn_read_config dh self offset data = do {
     device \<leftarrow> dh_prepare_read_config dh (fn_device self) offset (length data);
     (r, data) \<leftarrow> cs_read_checked (dh_config dh device) offset data;
     Some (r, (self\<lparr>fn_device := device\<rparr>, data))
   }"

text \<open>The notification of the device that ends a configuration write with an event.\<close>

definition fn_notify ::
    "('d, 'i \<times> controller) device_handler \<Rightarrow> ('d, 'i) PciFunctionWithInterrupts \<Rightarrow> PciConfigurationUpdate \<Rightarrow>
     (('d, 'i) PciFunctionWithInterrupts, PciConfigurationUpdate option) call" where
  "fn_notify dh self event = do {
     device \<leftarrow> dh_on_config_update dh (fn_device self) event;
     Some (Inr (Some event), self\<lparr>fn_device := device\<rparr>)
   }"

text \<open>The end of \<open>write_config\<close>: changes of BARs and of the space enable bits.\<close>

definition fn_handle_spaces ::
    "('d, 'i \<times> controller) device_handler \<Rightarrow> ('d, 'i) PciFunctionWithInterrupts \<Rightarrow> u16 \<Rightarrow> usize \<Rightarrow>
     (('d, 'i) PciFunctionWithInterrupts, PciConfigurationUpdate option) call" where
  "fn_handle_spaces dh self prev_command offset = do {
     bar \<leftarrow> bar_update_for_write (dh_config dh (fn_device self)) offset;
     case bar of
       Some bar \<Rightarrow> fn_notify dh self (BarUpdate bar)
     | None \<Rightarrow> do {
         new_command \<leftarrow> cs_read_word (dh_config dh (fn_device self)) PCI_COMMAND;
         let space_mask = PCI_COMMAND_IO_SPACE_MASK OR PCI_COMMAND_MEM_SPACE_MASK;
         if (prev_command XOR new_command) AND space_mask \<noteq> 0
         then fn_notify dh self SpaceChanged
         else Some (Inr None, self)
       }
   }"

definition fn_write_config ::
    "('d, 'i \<times> controller) device_handler \<Rightarrow> 'i interrupt_handler \<Rightarrow> ('d, 'i) PciFunctionWithInterrupts \<Rightarrow> usize \<Rightarrow> bytes \<Rightarrow>
     (('d, 'i) PciFunctionWithInterrupts, PciConfigurationUpdate option) call" where
  "fn_write_config dh ih self offset data = do {
     prev_command \<leftarrow> cs_read_word (dh_config dh (fn_device self)) PCI_COMMAND;
     (r, c) \<leftarrow> cs_write_checked (dh_config dh (fn_device self)) offset data;
     let self = self\<lparr>fn_device := dh_set_config dh c (fn_device self)\<rparr>;
     case r of
       Inl e \<Rightarrow> Some (Inl e, self)
     | Inr _ \<Rightarrow> do {
         (r, device) \<leftarrow> dh_on_write_config dh (fn_device self) offset (length data);
         let self = self\<lparr>fn_device := device\<rparr>;
         case r of
           Inl e \<Rightarrow> Some (Inl e, self)
         | Inr _ \<Rightarrow> do {
             (r, i, c, ic) \<leftarrow> ih_on_write_config ih (fn_interrupt self) (dh_config dh (fn_device self))
                (fn_controller self) offset (length data);
             let self = \<lparr>fn_controller = ic, fn_device = dh_set_config dh c (fn_device self), fn_interrupt = i\<rparr>;
             case r of
               Inl e \<Rightarrow> Some (Inl e, self)
             | Inr (Handled (Some event)) \<Rightarrow> fn_notify dh self event
             | Inr _ \<Rightarrow> fn_handle_spaces dh self prev_command offset
           }
       }
   }"

text \<open>The closure handed to the device during a BAR access.\<close>

definition fn_signal :: "'i interrupt_handler \<Rightarrow> 'i \<times> controller \<Rightarrow> config_space \<Rightarrow> PciInterrupt \<Rightarrow>
    (('i \<times> controller) \<times> config_space, unit) call" where
  "fn_signal ih w c irq = do {
     enabled \<leftarrow> ih_is_enabled ih (fst w) c;
     if enabled
     then do { (r, i, c, ic) \<leftarrow> ih_signal ih (fst w) c (snd w) irq; Some (r, ((i, ic), c)) }
     else Some (Inr (), (w, c))
   }"

definition fn_read_bar ::
    "('d, 'i \<times> controller) device_handler \<Rightarrow> 'i interrupt_handler \<Rightarrow> ('d, 'i) PciFunctionWithInterrupts bar_read" where
  "fn_read_bar dh ih self bar offset data = do {
     (r, i, data, c, ic) \<leftarrow> ih_read_bar ih (fn_interrupt self) (dh_config dh (fn_device self)) (fn_controller self) bar offset data;
     let self = \<lparr>fn_controller = ic, fn_device = dh_set_config dh c (fn_device self), fn_interrupt = i\<rparr>;
     case r of
       Inl e \<Rightarrow> Some (Inl e, (self, data))
     | Inr r \<Rightarrow>
         if handled r then Some (Inr (), (self, data))
         else do {
           active \<leftarrow> fn_active_interrupt dh ih self;
           (r, device, data, i, ic) \<leftarrow> dh_read_bar dh (fn_device self) bar offset data
              \<lparr>ia_active = active, ia_signal = fn_signal ih\<rparr> (fn_interrupt self, fn_controller self);
           Some (r, (\<lparr>fn_controller = ic, fn_device = device, fn_interrupt = i\<rparr>, data))
         }
   }"

definition fn_write_bar ::
    "('d, 'i \<times> controller) device_handler \<Rightarrow> 'i interrupt_handler \<Rightarrow> ('d, 'i) PciFunctionWithInterrupts bar_write" where
  "fn_write_bar dh ih self bar offset data = do {
     (r, i, c, ic) \<leftarrow> ih_write_bar ih (fn_interrupt self) (dh_config dh (fn_device self)) (fn_controller self) bar offset data;
     let self = \<lparr>fn_controller = ic, fn_device = dh_set_config dh c (fn_device self), fn_interrupt = i\<rparr>;
     case r of
       Inl e \<Rightarrow> Some (Inl e, self)
     | Inr (Handled (Some e)) \<Rightarrow> fn_notify dh self e
     | Inr (Handled None) \<Rightarrow> Some (Inr None, self)
     | Inr Unhandled \<Rightarrow> do {
         active \<leftarrow> fn_active_interrupt dh ih self;
         (r, device, i, ic) \<leftarrow> dh_write_bar dh (fn_device self) bar offset data
            \<lparr>ia_active = active, ia_signal = fn_signal ih\<rparr> (fn_interrupt self, fn_controller self);
         let self = \<lparr>fn_controller = ic, fn_device = device, fn_interrupt = i\<rparr>;
         Some (case r of Inl e \<Rightarrow> Inl e | Inr _ \<Rightarrow> Inr None, self)
       }
   }"

section \<open>The builder\<close>

record PciFunctionBuilder =
  fb_config :: config_space
  fb_multifunction :: bool

definition builder_new :: "PciFunctionBuilder option" where
  "builder_new = do { c \<leftarrow> config_new; Some \<lparr>fb_config = c, fb_multifunction = False\<rparr> }"

definition with_id :: "PciFunctionBuilder \<Rightarrow> u16 \<Rightarrow> u16 \<Rightarrow> u8 \<Rightarrow> PciFunctionBuilder option" where
  "with_id self vendor_id device_id rev_id = do {
     c \<leftarrow> cs_set_word (fb_config self) PCI_VENDOR_ID vendor_id;
     c \<leftarrow> cs_set_word c PCI_DEVICE_ID device_id;
     c \<leftarrow> cs_set_byte c PCI_REVISION_ID rev_id;
     Some (self\<lparr>fb_config := c\<rparr>)
   }"

definition with_class :: "PciFunctionBuilder \<Rightarrow> u8 \<Rightarrow> u8 \<Rightarrow> u8 \<Rightarrow> PciFunctionBuilder option" where
  "with_class self baseclass subclass programming_interface = do {
     c \<leftarrow> cs_set_byte (fb_config self) PCI_CLASS_CODE_BASE baseclass;
     c \<leftarrow> cs_set_byte c PCI_CLASS_CODE_SUB subclass;
     c \<leftarrow> cs_set_byte c PCI_CLASS_CODE_PI programming_interface;
     Some (self\<lparr>fb_config := c\<rparr>)
   }"

definition with_subsystem_id :: "PciFunctionBuilder \<Rightarrow> u16 \<Rightarrow> u16 \<Rightarrow> PciFunctionBuilder option" where
  "with_subsystem_id self subsystem_vendor_id subsystem_id = do {
     c \<leftarrow> cs_set_word (fb_config self) PCI_SUBSYSTEM_VENDOR_ID subsystem_vendor_id;
     c \<leftarrow> cs_set_word c PCI_SUBSYSTEM_ID subsystem_id;
     Some (self\<lparr>fb_config := c\<rparr>)
   }"

definition with_header_type :: "PciFunctionBuilder \<Rightarrow> u8 \<Rightarrow> PciFunctionBuilder option" where
  "with_header_type self header_type = do {
     c \<leftarrow> cs_set_byte (fb_config self) PCI_HEADER_TYPE header_type;
     Some (self\<lparr>fb_config := c\<rparr>)
   }"

definition with_multifunction :: "PciFunctionBuilder \<Rightarrow> PciFunctionBuilder" where
  "with_multifunction self = self\<lparr>fb_multifunction := True\<rparr>"

definition builder_build :: "PciFunctionBuilder \<Rightarrow> config_space option" where
  "builder_build self = do {
     c \<leftarrow> (if fb_multifunction self
          then do {
            header_type \<leftarrow> cs_read_byte (fb_config self) PCI_HEADER_TYPE;
            cs_set_byte (fb_config self) PCI_HEADER_TYPE (header_type OR PCI_HEADER_TYPE_MULTIFUNCTION)
          }
          else Some (fb_config self));
     set_writable_byte c PCI_CACHE_LINE_SIZE 0xFF
   }"

section \<open>Routing finds the first BAR that contains the access\<close>

definition bar_hit :: "PciBar option \<Rightarrow> bool \<Rightarrow> u64 \<Rightarrow> u64 \<Rightarrow> u64 \<Rightarrow> bool" where
  "bar_hit bar mem a address sz \<longleftrightarrow>
     (case bar of
        None \<Rightarrow> False
      | Some b \<Rightarrow> bar_is_mem b = mem \<and> bar_address b = Some a \<and> 0 < unat sz \<and> unat a \<le> unat address \<and>
          unat address + unat sz \<le> unat a + unat (bar_size b) \<and> unat a + unat (bar_size b) < 2 ^ 64)"

lemma bar_hit_unique: "bar_hit bar mem a address sz \<Longrightarrow> bar_hit bar mem a' address sz \<Longrightarrow> a = a'"
  by (auto simp: bar_hit_def split: option.splits)

lemma matching_bar_eq:
  assumes "lookup f index = Some bar"
  shows "get_matching_bar_address lookup f index address sz mem = Some None \<longleftrightarrow> (\<forall>a. \<not> bar_hit bar mem a address sz)"
    and "get_matching_bar_address lookup f index address sz mem = Some (Some a) \<longleftrightarrow> bar_hit bar mem a address sz"
    and "\<exists>r. get_matching_bar_address lookup f index address sz mem = Some r"
  using assms by (auto simp: get_matching_bar_address_def bar_hit_def range_contains_iff split: option.splits if_splits)

lemma find_bar_from_eq:
  assumes "\<And>i. i \<in> set is \<Longrightarrow> i < 6 \<and> lookup f (PciBarIndex i) = Some (bars i)"
  shows "find_bar_from lookup f address sz mem is =
    Some (map_option (\<lambda>i. (PciBarIndex i, address - (THE a. bar_hit (bars i) mem a address sz)))
      (List.find (\<lambda>i. \<exists>a. bar_hit (bars i) mem a address sz) is))"
  using assms
proof (induction "is")
  case (Cons i "is")
  then have i: "bar_index_try_from i = Inr (PciBarIndex i)" "lookup f (PciBarIndex i) = Some (bars i)"
    by (simp_all add: bar_index_try_from_def)
  show ?case
  proof (cases "\<exists>a. bar_hit (bars i) mem a address sz")
    case True
    then obtain a where a: "bar_hit (bars i) mem a address sz" ..
    then have "(THE a. bar_hit (bars i) mem a address sz) = a" using bar_hit_unique by blast
    with a i matching_bar_eq(2) [where lookup = lookup and f = f and index = "PciBarIndex i" and bar = "bars i", of address sz mem a]
    show ?thesis by auto
  next
    case False
    with i matching_bar_eq(1) [where lookup = lookup and f = f and index = "PciBarIndex i" and bar = "bars i", of address sz mem] Cons
    show ?thesis by simp
  qed
qed simp

text \<open>
  C28: An access is routed to the BAR with the lowest index whose programmed range contains all of it,
  at its distance from the start of the BAR, so that it stays inside the BAR's size; it is not found
  exactly when no BAR of the kind contains it. An empty access is never found.
\<close>

theorem bar_routing:
  assumes "\<And>i. i < 6 \<Longrightarrow> lookup f (PciBarIndex i) = Some (bars i)"
  shows "(find_bar_and_offset lookup f address sz mem = Some (Some (index, off)) \<longleftrightarrow>
      (\<exists>i < 6. index = PciBarIndex i \<and> bar_hit (bars i) mem (address - off) address sz \<and>
         (\<forall>j < i. \<forall>a. \<not> bar_hit (bars j) mem a address sz))) \<and>
    (find_bar_and_offset lookup f address sz mem = Some None \<longleftrightarrow> (\<forall>i < 6. \<forall>a. \<not> bar_hit (bars i) mem a address sz)) \<and>
    (find_bar_and_offset lookup f address sz mem = Some (Some (index, off)) \<longrightarrow>
       (\<exists>b. lookup f index = Some (Some b) \<and> unat off + unat sz \<le> unat (bar_size b)))"
proof -
  let ?P = "\<lambda>i. \<exists>a. bar_hit (bars i) mem a address sz"
  let ?A = "\<lambda>i. THE a. bar_hit (bars i) mem a address sz"
  have the: "?A i = a" if "bar_hit (bars i) mem a address sz" for i a using that bar_hit_unique by blast
  have eq: "find_bar_and_offset lookup f address sz mem =
      Some (map_option (\<lambda>i. (PciBarIndex i, address - ?A i)) (List.find ?P [0..<6]))"
    using find_bar_from_eq [of "[0..<6]" lookup f bars] assms by (simp add: find_bar_and_offset_def)
  have found: "find_bar_and_offset lookup f address sz mem = Some (Some (index, off)) \<longleftrightarrow>
      (\<exists>i < 6. index = PciBarIndex i \<and> bar_hit (bars i) mem (address - off) address sz \<and> (\<forall>j < i. \<not> ?P j))" (is "?L = ?R")
  proof
    assume ?L
    with eq obtain i where i: "List.find ?P [0..<6] = Some i" "index = PciBarIndex i" "off = address - ?A i"
      by (cases "List.find ?P [0..<6]") auto
    with find_upt_bounds [OF i(1)] obtain a where "bar_hit (bars i) mem a address sz" by auto
    with the i find_upt_bounds [OF i(1)] show ?R by (intro exI [of _ i]) auto
  next
    assume ?R
    then obtain i where i: "i < 6" "index = PciBarIndex i" "bar_hit (bars i) mem (address - off) address sz" "\<forall>j < i. \<not> ?P j"
      by blast
    then have "List.find ?P [0..<6] = Some i" unfolding find_Some_iff by (intro exI [of _ i]) auto
    with eq i the [OF i(3)] show ?L by simp
  qed
  moreover have "find_bar_and_offset lookup f address sz mem = Some None \<longleftrightarrow> (\<forall>i < 6. \<not> ?P i)"
    using eq by (auto simp: find_None_iff)
  moreover have "\<exists>b. lookup f index = Some (Some b) \<and> unat off + unat sz \<le> unat (bar_size b)"
    if i: "i < 6" "index = PciBarIndex i" "bar_hit (bars i) mem (address - off) address sz" for i
  proof -
    from i(3) obtain b where b: "bars i = Some b" "unat (address - off) \<le> unat address"
      "unat address + unat sz \<le> unat (address - off) + unat (bar_size b)" by (auto simp: bar_hit_def split: option.splits)
    then have "address - off \<le> address" by (simp add: word_le_nat_alt)
    then have "unat (address - (address - off)) = unat address - unat (address - off)" by (rule unat_sub)
    then have "unat off = unat address - unat (address - off)" by simp
    with b assms i show ?thesis by auto
  qed
  ultimately show ?thesis by blast
qed

definition mapped_config :: config_space where
  "mapped_config = enabled_config\<lparr>cs_registers := (replicate 256 0)[4 := 3, 0x11 := 0x20], cs_bars := (replicate 6 None)[0 := Some sample_bar32]\<rparr>"

lemma get_bar_mapped:
  "i < 6 \<Longrightarrow> get_bar mapped_config (PciBarIndex i) = Some (if i = 0 then Some (bar_set_address sample_bar32 (Some 0x2000)) else None)"
proof -
  have "\<forall>i \<in> set [0..<6]. get_bar mapped_config (PciBarIndex i) = Some (if i = 0 then Some (bar_set_address sample_bar32 (Some 0x2000)) else None)"
    by code_simp
  then show "i < 6 \<Longrightarrow> ?thesis" by simp
qed

lemma bar_routing_witness:
  "find_bar_and_offset get_bar mapped_config 0x2010 4 True = Some (Some (PciBarIndex 0, 0x10)) \<and>
   find_bar_and_offset get_bar mapped_config 0x2FFE 4 True = Some None"
proof -
  let ?bars = "\<lambda>i :: nat. if i = 0 then Some (bar_set_address sample_bar32 (Some 0x2000)) else None"
  have hit: "bar_hit (?bars 0) True (0x2010 - 0x10) 0x2010 4"
    by (simp add: bar_hit_def bar_set_address_def bar_is_mem_def sample_bar32_def)
  have miss: "\<not> bar_hit (?bars i) True a 0x2FFE 4" for i a
    by (auto simp: bar_hit_def bar_set_address_def bar_is_mem_def sample_bar32_def)
  note routing = bar_routing [where lookup = get_bar and f = mapped_config and bars = ?bars and sz = 4 and mem = True
    and index = "PciBarIndex 0", OF get_bar_mapped]
  have "\<exists>i < 6. PciBarIndex 0 = PciBarIndex i \<and> bar_hit (?bars i) True (0x2010 - 0x10) 0x2010 4 \<and>
      (\<forall>j < i. \<forall>a. \<not> bar_hit (?bars j) True a 0x2010 4)"
    using hit by (intro exI [of _ 0]) simp
  with routing [of "0x2010" "0x10"] have "find_bar_and_offset get_bar mapped_config 0x2010 4 True = Some (Some (PciBarIndex 0, 0x10))"
    by blast
  moreover have "find_bar_and_offset get_bar mapped_config 0x2FFE 4 True = Some None"
    using routing [of "0x2FFE"] miss by blast
  ultimately show ?thesis ..
qed

section \<open>The contract of a device\<close>

text \<open>
  What a function relies on: the configuration space of the device is a field of it, its hooks return,
  keep it valid and do not touch the configuration space. Validity may depend on the registered BARs
  but not on what the guest writes. A BAR event carries the BAR as \<open>get_bar\<close> reports it.
\<close>

definition event_of :: "config_space \<Rightarrow> PciConfigurationUpdate \<Rightarrow> bool" where
  "event_of c event \<longleftrightarrow> (\<forall>bar. event = BarUpdate bar \<longrightarrow> (\<exists>i. get_bar c i = Some (Some bar)))"

locale device_model =
  fixes dh :: "('d, 'w) device_handler" and okd :: "'d \<Rightarrow> bool"
  assumes config_set [simp]: "dh_config dh (dh_set_config dh c d) = c"
    and set_ok: "okd d \<Longrightarrow> config_wf c \<Longrightarrow> cs_bars c = cs_bars (dh_config dh d) \<Longrightarrow> okd (dh_set_config dh c d)"
    and on_write_total: "okd d \<Longrightarrow>
      \<exists>r d'. dh_on_write_config dh d offset sz = Some (r, d') \<and> okd d' \<and> dh_config dh d' = dh_config dh d"
    and update_total: "okd d \<Longrightarrow> bars_inv (dh_config dh d) \<Longrightarrow> event_of (dh_config dh d) event \<Longrightarrow>
      \<exists>d'. dh_on_config_update dh d event = Some d' \<and> okd d' \<and> dh_config dh d' = dh_config dh d"

lemma dword_at_frame:
  assumes "mech_frame c c'" and "config_wf c" and "8 \<le> off" and "off + 4 \<le> 0x40"
  shows "dword_at (cs_registers c') off = dword_at (cs_registers c) off"
proof -
  have "take 4 (drop off (cs_registers c')) = take 4 (drop off (cs_registers c))"
    using assms by (intro nth_equalityI) (auto simp: mech_frame_def)
  then show ?thesis by (simp add: dword_at_def)
qed

lemma bars_inv_mech_frame:
  assumes "bars_inv c" and "mech_frame c c'"
  shows "bars_inv c'"
  by (rule bars_inv_frame [OF assms(1)])
    (use assms in \<open>auto simp: mech_frame_def fixed_bits_def bar_reg_def dword_at_frame [OF assms(2)]\<close>)

lemma get_bar_total:
  assumes "bars_inv c" and "into_inner i < 6"
  shows "\<exists>b. get_bar c i = Some b"
proof (cases "cs_bars c ! into_inner i")
  case None
  with assms show ?thesis by (simp add: get_bar_def option_simps)
next
  case (Some bar)
  then have "into_inner (bar_index bar) = into_inner i" using bars_invD [OF assms] by (simp add: bar_slot_inv_def)
  then have "bar_index bar = i" by (cases "bar_index bar"; cases i) simp
  with get_bar_eq [OF assms Some] show ?thesis by simp
qed

lemma bar_update_total:
  assumes "bars_inv c"
  shows "\<exists>b. bar_update_for_write c offset = Some b \<and> (\<forall>bar. b = Some bar \<longrightarrow> event_of c (BarUpdate bar))"
proof (cases "offset < 0x10 \<or> 0x28 \<le> offset")
  case False
  define i where "i = (offset - 0x10) div 4"
  from False have i: "i < 6" by (auto simp: i_def)
  have get: "\<exists>b. get_bar c (PciBarIndex j) = Some b \<and> (\<forall>bar. b = Some bar \<longrightarrow> event_of c (BarUpdate bar))" if "j < 6" for j
    using get_bar_total [OF assms, of "PciBarIndex j"] that by (auto simp: event_of_def)
  have "\<exists>u. prev_bar_is_64bit c i = Some u" using i assms by (auto simp: prev_bar_is_64bit_def option_simps split: option.split)
  then show ?thesis using False i get [of i] get [of "i - 1"] assms
    by (auto simp: bar_update_for_write_def option_simps bar_index_try_from_def i_def [symmetric] split: option.split)
qed (simp add: bar_update_for_write_def)

section \<open>A device with an interrupt mechanism\<close>

definition fn_config :: "('d, 'w) device_handler \<Rightarrow> ('d, 'i) PciFunctionWithInterrupts \<Rightarrow> config_space" where
  "fn_config dh self = dh_config dh (fn_device self)"

definition fn_ok ::
    "('d, 'w) device_handler \<Rightarrow> ('d \<Rightarrow> bool) \<Rightarrow> ('i \<Rightarrow> bool) \<Rightarrow> ('d, 'i) PciFunctionWithInterrupts \<Rightarrow> bool" where
  "fn_ok dh okd oki self \<longleftrightarrow> bars_inv (fn_config dh self) \<and> okd (fn_device self) \<and> oki (fn_interrupt self)"

definition keeps_layout :: "config_space \<Rightarrow> config_space \<Rightarrow> bool" where
  "keeps_layout c c' \<longleftrightarrow> cs_bars c' = cs_bars c \<and> cs_writable_bits c' = cs_writable_bits c"

lemma keeps_layout_refl [simp]: "keeps_layout c c"
  by (simp add: keeps_layout_def)

locale pci_function = dm: device_model dh okd + im: interrupt_mechanism ih oki accepts
  for dh :: "('d, 'i \<times> controller) device_handler" and okd and ih :: "'i interrupt_handler" and oki accepts
begin

lemma notify_total:
  assumes "fn_ok dh okd oki self" and "event_of (fn_config dh self) event"
  shows "\<exists>self'. fn_notify dh self event = Some (Inr (Some event), self') \<and> fn_ok dh okd oki self' \<and>
    fn_config dh self' = fn_config dh self"
  using dm.update_total [of "fn_device self" event] assms
  by (auto simp: fn_ok_def fn_notify_def fn_config_def)

lemma handle_spaces_total:
  assumes "fn_ok dh okd oki self"
  shows "\<exists>r self'. fn_handle_spaces dh self prev offset = Some (Inr r, self') \<and> fn_ok dh okd oki self' \<and>
    fn_config dh self' = fn_config dh self"
proof -
  have inv: "bars_inv (fn_config dh self)" using assms by (simp add: fn_ok_def)
  from bar_update_total [OF inv] obtain b where b: "bar_update_for_write (fn_config dh self) offset = Some b"
    "\<And>bar. b = Some bar \<Longrightarrow> event_of (fn_config dh self) (BarUpdate bar)" by blast
  have read: "cs_read_word (fn_config dh self) 4 = Some (word_at (cs_registers (fn_config dh self)) 4)"
    using inv by (simp add: option_simps)
  show ?thesis
  proof (cases b)
    case None
    from notify_total [OF assms, of SpaceChanged] b read None assms show ?thesis
      by (auto simp: fn_handle_spaces_def event_of_def fn_config_def Let_def)
  next
    case (Some bar)
    with notify_total [OF assms b(2) [OF Some]] b show ?thesis
      by (auto simp: fn_handle_spaces_def fn_config_def)
  qed
qed

lemma write_config_safe:
  assumes ok: "fn_ok dh okd oki self" and bound: "offset + length data < 2 ^ 64"
  shows "\<exists>r self'. fn_write_config dh ih self offset data = Some (r, self') \<and> fn_ok dh okd oki self' \<and>
    keeps_layout (fn_config dh self) (fn_config dh self') \<and>
    (\<not> access_ok offset (length data) \<longrightarrow>
       (\<exists>e. r = Inl e) \<and> fn_config dh self' = fn_config dh self \<and> fn_interrupt self' = fn_interrupt self \<and>
       fn_controller self' = fn_controller self)"
proof -
  let ?c = "fn_config dh self"
  have inv: "bars_inv ?c" and okd: "okd (fn_device self)" and oki: "oki (fn_interrupt self)"
    using ok by (simp_all add: fn_ok_def)
  have read: "cs_read_word ?c 4 = Some (word_at (cs_registers ?c) 4)" using inv by (simp add: option_simps)
  show ?thesis
  proof (cases "access_ok offset (length data)")
    case False
    from cs_write_checked_Err [OF bars_inv_wf [OF inv] False bound] obtain e where
      "cs_write_checked ?c offset data = Some (Inl e, ?c)" ..
    with read dm.set_ok [OF okd, of ?c] inv oki show ?thesis
      by (auto simp: fn_write_config_def fn_config_def fn_ok_def Let_def)
  next
    case True
    let ?c1 = "cs_store (patch_masked (cs_registers ?c) (cs_writable_bits ?c) offset data) ?c"
    have w: "cs_write_checked ?c offset data = Some (Inr (), ?c1)" using inv True by (simp add: cs_write_checked_Ok)
    have inv1: "bars_inv ?c1" by (rule bars_inv_guest_write [OF inv w])
    let ?d1 = "dh_set_config dh ?c1 (fn_device self)"
    have okd1: "okd ?d1" by (rule dm.set_ok [OF okd]) (use inv1 in \<open>simp_all add: fn_config_def\<close>)
    from dm.on_write_total [OF okd1, of offset "length data"] obtain r2 d2 where
      h: "dh_on_write_config dh ?d1 offset (length data) = Some (r2, d2)" "okd d2" "dh_config dh d2 = ?c1" by auto
    from im.write_config_total [OF bars_inv_wf [OF inv1] oki, of "fn_controller self" offset "length data"]
    obtain r3 i3 c3 ic3 where
      m: "ih_on_write_config ih (fn_interrupt self) ?c1 (fn_controller self) offset (length data) = Some (r3, (i3, c3, ic3))"
        "oki i3" "mech_frame ?c1 c3" "message_event r3" by blast
    let ?self3 = "\<lparr>fn_controller = ic3, fn_device = dh_set_config dh c3 d2, fn_interrupt = i3\<rparr>"
    have inv3: "bars_inv c3" by (rule bars_inv_mech_frame [OF inv1 m(3)])
    have frame: "cs_bars c3 = cs_bars ?c" "cs_writable_bits c3 = cs_writable_bits ?c"
      using m(3) by (simp_all add: mech_frame_def)
    have okd3: "okd (dh_set_config dh c3 d2)" by (rule dm.set_ok [OF h(2)]) (use inv3 h(3) frame in simp_all)
    have ok3: "fn_ok dh okd oki ?self3" using inv3 okd3 m(2) by (simp add: fn_ok_def fn_config_def)
    have ok2: "fn_ok dh okd oki (self\<lparr>fn_device := d2\<rparr>)" using inv1 h oki by (simp add: fn_ok_def fn_config_def)
    have layout: "keeps_layout ?c c3" "keeps_layout ?c ?c1" using frame by (simp_all add: keeps_layout_def)
    have start: "fn_write_config dh ih self offset data = (case r2 of
        Inl e \<Rightarrow> Some (Inl e, self\<lparr>fn_device := d2\<rparr>)
      | Inr _ \<Rightarrow> (case r3 of
          Inl e \<Rightarrow> Some (Inl e, ?self3)
        | Inr (Handled (Some event)) \<Rightarrow> fn_notify dh ?self3 event
        | Inr _ \<Rightarrow> fn_handle_spaces dh ?self3 (word_at (cs_registers ?c) 4) offset))"
      using read w h(1,3) m(1)
      by (simp add: fn_write_config_def fn_config_def [symmetric] Let_def split: sum.split)
    show ?thesis
    proof (cases r2)
      case (Inl e)
      with start ok2 layout h(3) True show ?thesis by (simp add: fn_config_def)
    next
      case (Inr u)
      show ?thesis
      proof (cases "\<exists>event. r3 = Inr (Handled (Some event))")
        case ev: True
        then obtain event where event: "r3 = Inr (Handled (Some event))" ..
        with m(4) have "event_of (fn_config dh ?self3) event" by (auto simp: event_of_def message_event_def)
        from notify_total [OF ok3 this] start Inr event layout True show ?thesis by (auto simp: fn_config_def)
      next
        case False
        then have "fn_write_config dh ih self offset data = (case r3 of Inl e \<Rightarrow> Some (Inl e, ?self3)
            | Inr _ \<Rightarrow> fn_handle_spaces dh ?self3 (word_at (cs_registers ?c) 4) offset)"
          using start Inr by (auto split: sum.split PciHandlerResult.split option.split)
        with handle_spaces_total [OF ok3, of "word_at (cs_registers ?c) 4" offset] ok3 layout True show ?thesis
          by (cases r3) (auto simp: fn_config_def)
      qed
    qed
  qed
qed

lemma signal_safe:
  assumes ok: "fn_ok dh okd oki self" and "accepts irq"
  shows "\<exists>r self'. fn_signal_interrupt dh ih self irq = Some (r, self') \<and> fn_ok dh okd oki self' \<and>
    keeps_layout (fn_config dh self) (fn_config dh self')"
proof -
  have inv: "bars_inv (dh_config dh (fn_device self))" and okd: "okd (fn_device self)" and oki: "oki (fn_interrupt self)"
    using ok by (simp_all add: fn_ok_def fn_config_def)
  from im.signal_total [OF bars_inv_wf [OF inv] oki assms(2), of "fn_controller self"] obtain r i c ic where
    s: "ih_signal ih (fn_interrupt self) (dh_config dh (fn_device self)) (fn_controller self) irq = Some (r, (i, c, ic))"
      "oki i" "mech_frame (dh_config dh (fn_device self)) c" by blast
  have c: "bars_inv c" "cs_bars c = cs_bars (dh_config dh (fn_device self))"
      "cs_writable_bits c = cs_writable_bits (dh_config dh (fn_device self))"
    using bars_inv_mech_frame [OF inv s(3)] s(3) by (simp_all add: mech_frame_def)
  with dm.set_ok [OF okd, of c] s im.enabled_total [OF bars_inv_wf [OF inv] oki] ok show ?thesis
    by (auto simp: fn_signal_interrupt_def fn_ok_def fn_config_def keeps_layout_def Let_def)
qed

end

section \<open>The builder\<close>

definition build_function ::
    "u16 \<Rightarrow> u16 \<Rightarrow> u8 \<Rightarrow> u8 \<Rightarrow> u8 \<Rightarrow> u8 \<Rightarrow> u16 \<Rightarrow> u16 \<Rightarrow> bool \<Rightarrow> config_space option" where
  "build_function vendor device revision base sub prog subvendor subsystem multi = do {
     b \<leftarrow> builder_new;
     b \<leftarrow> with_id b vendor device revision;
     b \<leftarrow> with_class b base sub prog;
     b \<leftarrow> with_subsystem_id b subvendor subsystem;
     builder_build (if multi then with_multifunction b else b)
   }"

lemma build_function_Some:
  obtains c where "build_function vendor device revision base sub prog subvendor subsystem multi = Some c" and "bars_inv c"
    and "cs_bars c = replicate 6 None"
    and "word_at (cs_registers c) 0 = vendor \<and> word_at (cs_registers c) 2 = device \<and> cs_registers c ! 8 = revision \<and>
      cs_registers c ! 0xB = base \<and> cs_registers c ! 0xA = sub \<and> cs_registers c ! 9 = prog \<and>
      word_at (cs_registers c) 0x2C = subvendor \<and> word_at (cs_registers c) 0x2E = subsystem"
    and "cs_registers c ! 0xE = (if multi then 0x80 else 0)" and "cs_registers c ! 0x34 = 0"
    and "\<forall>k < 256. cs_writable_bits c ! k = (if k = 0xC then 0xFF else 0)"
proof -
  define c0 where "c0 = cs_store (patch (replicate 256 0) 0 (to_le_bytes (0xFFFF :: u16))) blank_config"
  have new: "builder_new = Some \<lparr>fb_config = c0, fb_multifunction = False\<rparr>"
    using cs_set_word_Some [OF config_wf_blank, of 0 "0xFFFF"]
    by (simp add: builder_new_def config_new_def blank_config_def c0_def)
  have c0: "config_wf c0" "cs_bars c0 = replicate 6 None" "cs_writable_bits c0 = replicate 256 0"
    "cs_registers c0 ! 0xE = 0" "cs_registers c0 ! 0x34 = 0"
    by (simp_all add: c0_def blank_config_def config_wf_def nth_patch)
  define r where "r = patch (patch (patch (patch (patch (patch (patch (patch (cs_registers c0) 0 (to_le_bytes vendor))
    2 (to_le_bytes device)) 8 [revision]) 0xB [base]) 0xA [sub]) 9 [prog]) 0x2C (to_le_bytes subvendor)) 0x2E (to_le_bytes subsystem)"
  define r' where "r' = (if multi then patch r 0xE [0x80] else r)"
  let ?c = "(cs_store r' c0)\<lparr>cs_writable_bits := patch (replicate 256 0) 0xC [0xFF]\<rparr>"
  have len: "length (cs_registers c0) = 256" "length r = 256" "length r' = 256" using c0(1) by (simp_all add: r_def r'_def)
  have zero: "r ! 0xE = 0" "r ! 0x34 = 0" using c0 len(1) by (simp_all add: r_def nth_patch)
  have wf: "config_wf (cs_store r c0)" using c0(1) len by simp
  have "with_id \<lparr>fb_config = c0, fb_multifunction = False\<rparr> vendor device revision \<bind> (\<lambda>b. with_class b base sub prog \<bind>
      (\<lambda>b. with_subsystem_id b subvendor subsystem)) = Some \<lparr>fb_config = cs_store r c0, fb_multifunction = False\<rparr>"
    using c0(1) by (simp add: with_id_def with_class_def with_subsystem_id_def option_simps r_def)
  moreover have "builder_build (if multi then with_multifunction b else b) = Some ?c"
    if "b = \<lparr>fb_config = cs_store r c0, fb_multifunction = False\<rparr>" for b
    using that wf zero c0(3) len by (simp add: builder_build_def with_multifunction_def option_simps set_writable_byte_def r'_def)
  ultimately have "build_function vendor device revision base sub prog subvendor subsystem multi = Some ?c"
    by (cases multi) (auto simp: build_function_def new bind_eq_Some_conv)
  moreover have "bars_inv ?c" by (rule bars_inv_no_bars) (use c0 len in simp_all)
  moreover have "word_at r' 0 = vendor" "word_at r' 2 = device" "word_at r' 0x2C = subvendor" "word_at r' 0x2E = subsystem"
    using len by (simp_all add: r'_def r_def)
  moreover have "r' ! 8 = revision" "r' ! 0xB = base" "r' ! 0xA = sub" "r' ! 9 = prog" "r' ! 0x34 = 0" "r' ! 0xE = (if multi then 0x80 else 0)"
    using len zero by (simp_all add: r'_def nth_patch) (simp_all add: r_def nth_patch)
  moreover have "\<forall>k < 256. patch (replicate 256 0) 0xC [0xFF] ! k = (if k = 0xC then 0xFF else (0 :: u8))"
    by (simp add: nth_patch)
  ultimately show thesis using that [of ?c] c0(2) by simp
qed

text \<open>
  A built configuration space shows the guest the identity it was built with, and the guest can
  change none of it: the only writable register is the cache line size. It has no BAR and no capability.
\<close>

theorem builder_identity:
  "\<exists>c. build_function vendor device revision base sub prog subvendor subsystem multi = Some c \<and> bars_inv c \<and>
    word_at (cs_registers c) 0 = vendor \<and> word_at (cs_registers c) 2 = device \<and> cs_registers c ! 8 = revision \<and>
    cs_registers c ! 0xB = base \<and> cs_registers c ! 0xA = sub \<and> cs_registers c ! 9 = prog \<and>
    word_at (cs_registers c) 0x2C = subvendor \<and> word_at (cs_registers c) 0x2E = subsystem \<and>
    bit (cs_registers c ! 0xE) 7 = multi \<and> cs_registers c ! 0x34 = 0 \<and>
    (\<forall>k < 256. cs_writable_bits c ! k = (if k = 0xC then 0xFF else 0))"
  by (rule build_function_Some [of vendor device revision base sub prog subvendor subsystem multi]) simp

lemma builder_identity_witness:
  "\<exists>c. build_function 0x1AF4 0x1041 1 2 0 0 0x1AF4 0x1041 True = Some c \<and> word_at (cs_registers c) 2 = 0x1041 \<and>
     bit (cs_registers c ! 0xE) 7 \<and> cs_writable_bits c ! 2 = 0"
  using builder_identity [of "0x1AF4" "0x1041" 1 2 0 0 "0x1AF4" "0x1041" True] by auto

end
