(* ===== verification/Pci_Device.thy ===== *)
theory Pci_Device
  imports Pci_Function
begin

text \<open>
  PCI devices (\<open>device.rs\<close>): the provided methods of the trait \<open>PciDevice\<close>, which split the address of a
  configuration access into a function and an offset, and convert the byte order of the access. The
  required methods are arguments; \<open>'p\<close> is the device.
\<close>

definition function_index_and_offset :: "usize \<Rightarrow> (usize \<times> usize) option" where
  "function_index_and_offset offset =
     (let function = offset div PCI_CONFIGURATION_SPACE_SIZE in
      if function > PCI_MAX_DEVICE_FUNCTIONS then None
      else Some (function, offset mod PCI_CONFIGURATION_SPACE_SIZE))"

definition dev_read_config ::
    "('p \<Rightarrow> usize \<Rightarrow> usize \<Rightarrow> bytes \<Rightarrow> ('p \<times> bytes, unit) call) \<Rightarrow> 'p \<Rightarrow> usize \<Rightarrow> bytes \<Rightarrow> ('p \<times> bytes, unit) call" where
  "dev_read_config read_fn_config self offset data =
     (case function_index_and_offset offset of
        None \<Rightarrow> Some (Inl (AccessBounds offset (length data)), (self, data))
      | Some (function, offset) \<Rightarrow> read_fn_config self function offset data)"

definition dev_write_config ::
    "('p \<Rightarrow> usize \<Rightarrow> usize \<Rightarrow> bytes \<Rightarrow> ('p, PciConfigurationUpdate option) call) \<Rightarrow> 'p \<Rightarrow> usize \<Rightarrow> bytes \<Rightarrow>
     ('p, PciConfigurationUpdate option) call" where
  "dev_write_config write_fn_config self offset data =
     (case function_index_and_offset offset of
        None \<Rightarrow> Some (Inl (AccessBounds offset (length data)), self)
      | Some (function, offset) \<Rightarrow> write_fn_config self function offset data)"

definition read_config_le ::
    "endian \<Rightarrow> ('p \<Rightarrow> usize \<Rightarrow> bytes \<Rightarrow> ('p \<times> bytes, unit) call) \<Rightarrow> 'p \<Rightarrow> usize \<Rightarrow> bytes \<Rightarrow> ('p \<times> bytes, unit) call" where
  "read_config_le e read_config self offset data =
     bind_result (read_config self offset data) (\<lambda>_ (self, data).
       let (r, data) = to_little_endian e data SwapDword in Some (r, (self, data)))"

definition write_config_le ::
    "endian \<Rightarrow> ('p \<Rightarrow> usize \<Rightarrow> bytes \<Rightarrow> ('p, PciConfigurationUpdate option) call) \<Rightarrow> 'p \<Rightarrow> usize \<Rightarrow> bytes \<Rightarrow>
     ('p, PciConfigurationUpdate option) call" where
  "write_config_le e write_config self offset data =
     (if length data > PCI_CONFIGURATION_SPACE_MAX_IO_SIZE then Some (Inl (InvalidIoSize (length data)), self)
      else (case from_little_endian e data SwapDword of
          (Inl err, _) \<Rightarrow> Some (Inl err, self)
        | (Inr _, input) \<Rightarrow> write_config self offset input))"

section \<open>Properties\<close>

lemma length_to_ne_bytes [simp]: "length (to_ne_bytes e (w :: 'a::len word)) = length (to_le_bytes w)"
  by (cases e) (simp_all add: to_ne_bytes_def)

lemma ne_bytes_roundtrip:
  assumes "8 * length d = LENGTH('a)"
  shows "to_le_bytes (from_ne_bytes e (to_ne_bytes e (from_le_bytes d :: 'a::len word)) :: 'a word) = d"
    and "to_ne_bytes e (from_le_bytes (to_le_bytes (from_ne_bytes e d :: 'a word)) :: 'a word) = d"
proof -
  have len: "length d = LENGTH('a) div 8" and dvd: "8 dvd LENGTH('a)"
    unfolding assms [symmetric] by simp_all
  then show "to_le_bytes (from_ne_bytes e (to_ne_bytes e (from_le_bytes d :: 'a word)) :: 'a word) = d"
    and "to_ne_bytes e (from_le_bytes (to_le_bytes (from_ne_bytes e d :: 'a word)) :: 'a word) = d"
    by (cases e; simp add: to_ne_bytes_def from_ne_bytes_def from_to_le_bytes to_from_le_bytes)+
qed

text \<open>
  A configuration access of a device reaches exactly the functions 0 to 7: the address splits
  uniquely into a function and an offset inside its 256 bytes, and an address past the eighth function
  is refused without reaching any function.
\<close>

theorem function_split:
  "(function_index_and_offset off = Some (f, p) \<longleftrightarrow> f < 8 \<and> p < 256 \<and> off = f * 256 + p) \<and>
   dev_write_config wr d off data =
     (if off < 2048 then wr d (off div 256) (off mod 256) data else Some (Inl (AccessBounds off (length data)), d)) \<and>
   dev_read_config rd d off data =
     (if off < 2048 then rd d (off div 256) (off mod 256) data else Some (Inl (AccessBounds off (length data)), (d, data)))"
proof -
  have "function_index_and_offset off = (if off < 2048 then Some (off div 256, off mod 256) else None)"
    by (auto simp: function_index_and_offset_def Let_def)
  then show ?thesis by (auto simp: dev_write_config_def dev_read_config_def)
qed

text \<open>
  Converting an access of one, two, four or eight bytes from little-endian to the order of the target
  and back gives the same bytes, on a little-endian and on a big-endian target and in both directions;
  other sizes are refused.
\<close>

lemma endian_conversion:
  "(fst (from_little_endian e data s) = Inr () \<longleftrightarrow> length data \<in> {1, 2, 4, 8} \<and> length data \<le> swap_size s) \<and>
   (fst (from_little_endian e data s) = Inr () \<longrightarrow>
      to_little_endian e (snd (from_little_endian e data s)) s = (Inr (), data) \<and>
      from_little_endian e (snd (to_little_endian e data s)) s = (Inr (), data))"
  by (auto simp: from_little_endian_def to_little_endian_def ne_bytes_roundtrip)

end
