(* ===== verification/Virtio_Caps.thy ===== *)
theory Virtio_Caps
  imports Pci_Function
begin

text \<open>
  The vendor-specific capabilities of a virtio PCI function: the structures of \<open>pci_cap.rs\<close> and the
  capabilities for the common, notification, ISR and device configuration and for the access through
  the configuration space (\<open>pci_common_cfg.rs\<close>, \<open>pci_notify_cfg.rs\<close>, \<open>pci_isr_cfg.rs\<close>,
  \<open>pci_device_cfg.rs\<close>, \<open>pci_cfg_cap.rs\<close>).
\<close>

section \<open>Offsets and sizes\<close>

definition REG_CAP_LEN :: usize where [simp]: "REG_CAP_LEN = 0"
definition REG_CAP_CFG :: usize where [simp]: "REG_CAP_CFG = 1"
definition REG_BAR :: usize where [simp]: "REG_BAR = 2"
definition REG_ID :: usize where [simp]: "REG_ID = 3"
definition REG_OFFSET :: usize where [simp]: "REG_OFFSET = 6"
definition REG_LENGTH :: usize where [simp]: "REG_LENGTH = 10"
definition REG_OFFSET_HI :: usize where [simp]: "REG_OFFSET_HI = 14"
definition REG_LENGTH_HI :: usize where [simp]: "REG_LENGTH_HI = 18"
definition VIRTIO_CAP_SIZE :: usize where [simp]: "VIRTIO_CAP_SIZE = REG_OFFSET_HI"
definition VIRTIO_CAP64_SIZE :: usize where [simp]: "VIRTIO_CAP64_SIZE = REG_LENGTH_HI + 4"
definition REG_PCI_CFG_DATA :: usize where [simp]: "REG_PCI_CFG_DATA = 14"
definition VIRTIO_PCI_CFG_CAP_SIZE :: usize where [simp]: "VIRTIO_PCI_CFG_CAP_SIZE = VIRTIO_CAP_SIZE + 4"
definition REG_NOTIFY_OFF_MULTIPLIER :: usize where [simp]: "REG_NOTIFY_OFF_MULTIPLIER = 14"
definition VIRTIO_NOTIFY_CAP_SIZE :: usize where [simp]: "VIRTIO_NOTIFY_CAP_SIZE = VIRTIO_CAP_SIZE + 4"

section \<open>The base capability\<close>

datatype VirtioPciCapType = CommonCfg | NotifyCfg | IsrCfg | DeviceCfg | PciCfg | SharedMemoryCfg | VendorCfg

fun cap_type_u8 :: "VirtioPciCapType \<Rightarrow> u8" where
  "cap_type_u8 CommonCfg = 1"
| "cap_type_u8 NotifyCfg = 2"
| "cap_type_u8 IsrCfg = 3"
| "cap_type_u8 DeviceCfg = 4"
| "cap_type_u8 PciCfg = 5"
| "cap_type_u8 SharedMemoryCfg = 8"
| "cap_type_u8 VendorCfg = 9"

text \<open>The header of a capability, which the length counts too, has two bytes.\<close>

definition virtio_cap_len :: "usize \<Rightarrow> u8" where
  "virtio_cap_len sz = 2 + of_nat sz"

record VirtioPciCap =
  vcap_len :: u8
  vcap_cfg_type :: VirtioPciCapType
  vcap_bar :: u8
  vcap_id :: u8
  vcap_offset :: u32
  vcap_length :: u32

definition virtio_cap_new :: "u8 option \<Rightarrow> VirtioPciCapType \<Rightarrow> u8 \<Rightarrow> u8 \<Rightarrow> u32 \<Rightarrow> u32 \<Rightarrow> VirtioPciCap" where
  "virtio_cap_new cap_len cfg_type bar i offset len =
     \<lparr>vcap_len = (case cap_len of None \<Rightarrow> virtio_cap_len VIRTIO_CAP_SIZE | Some l \<Rightarrow> l), vcap_cfg_type = cfg_type,
      vcap_bar = bar, vcap_id = i, vcap_offset = offset, vcap_length = len\<rparr>"

text \<open>\<open>unwrap\<close> of a fallible store.\<close>

definition unwrap_call :: "('s, 'a) call \<Rightarrow> 's option" where
  "unwrap_call r = (case r of Some (Inr _, s) \<Rightarrow> Some s | _ \<Rightarrow> None)"

definition virtio_cap_registers :: "VirtioPciCap \<Rightarrow> bytes \<Rightarrow> bytes option" where
  "virtio_cap_registers self registers = do {
     r \<leftarrow> slice_set registers REG_CAP_LEN [vcap_len self];
     r \<leftarrow> slice_set r REG_CAP_CFG [cap_type_u8 (vcap_cfg_type self)];
     r \<leftarrow> slice_set r REG_BAR [vcap_bar self];
     r \<leftarrow> slice_set r REG_ID [vcap_id self];
     r \<leftarrow> unwrap_call (utils_set_dword r REG_OFFSET (vcap_offset self));
     unwrap_call (utils_set_dword r REG_LENGTH (vcap_length self))
   }"

text \<open>All bits read-only.\<close>

definition read_only_bits :: "bytes \<Rightarrow> bytes option" where
  "read_only_bits writable_bits = Some (replicate (length writable_bits) 0)"

definition virtio_cap :: "VirtioPciCap \<Rightarrow> pci_capability" where
  "virtio_cap self =
     \<lparr>cap_id = VendorSpecific, cap_size = VIRTIO_CAP_SIZE, cap_registers = virtio_cap_registers self,
      cap_writable_bits = read_only_bits\<rparr>"

text \<open>The registers of the base capability in the first bytes of a longer one.\<close>

definition base_registers :: "VirtioPciCap \<Rightarrow> bytes \<Rightarrow> bytes option" where
  "base_registers cap registers =
     (if VIRTIO_CAP_SIZE \<le> length registers
      then do {
        r \<leftarrow> virtio_cap_registers cap (take VIRTIO_CAP_SIZE registers);
        Some (r @ drop VIRTIO_CAP_SIZE registers)
      }
      else None)"

section \<open>The 64-bit capability\<close>

record VirtioPciCap64 =
  vcap64_cap :: VirtioPciCap
  vcap64_offset_hi :: u32
  vcap64_length_hi :: u32

definition virtio_cap64_new :: "VirtioPciCapType \<Rightarrow> u8 \<Rightarrow> u8 \<Rightarrow> u64 \<Rightarrow> u64 \<Rightarrow> VirtioPciCap64" where
  "virtio_cap64_new cfg_type bar i offset len =
     \<lparr>vcap64_cap = virtio_cap_new (Some (virtio_cap_len VIRTIO_CAP64_SIZE)) cfg_type bar i (ucast offset) (ucast len),
      vcap64_offset_hi = ucast (drop_bit 32 offset), vcap64_length_hi = ucast (drop_bit 32 len)\<rparr>"

definition virtio_cap64_registers :: "VirtioPciCap64 \<Rightarrow> bytes \<Rightarrow> bytes option" where
  "virtio_cap64_registers self registers = do {
     r \<leftarrow> base_registers (vcap64_cap self) registers;
     r \<leftarrow> unwrap_call (utils_set_dword r REG_OFFSET_HI (vcap64_offset_hi self));
     unwrap_call (utils_set_dword r REG_LENGTH_HI (vcap64_length_hi self))
   }"

definition virtio_cap64 :: "VirtioPciCap64 \<Rightarrow> pci_capability" where
  "virtio_cap64 self =
     \<lparr>cap_id = VendorSpecific, cap_size = VIRTIO_CAP64_SIZE, cap_registers = virtio_cap64_registers self,
      cap_writable_bits = read_only_bits\<rparr>"

definition shared_memory_cap :: "u8 \<Rightarrow> u8 \<Rightarrow> u64 \<Rightarrow> u64 \<Rightarrow> pci_capability" where
  "shared_memory_cap bar shm_id offset len = virtio_cap64 (virtio_cap64_new SharedMemoryCfg bar shm_id offset len)"

section \<open>The capabilities of the configuration structures\<close>

definition common_cfg_cap :: "u8 \<Rightarrow> u32 \<Rightarrow> u32 \<Rightarrow> pci_capability" where
  "common_cfg_cap bar offset len = virtio_cap (virtio_cap_new None CommonCfg bar 0 offset len)"

definition isr_cfg_cap :: "u8 \<Rightarrow> u32 \<Rightarrow> u32 \<Rightarrow> pci_capability" where
  "isr_cfg_cap bar offset len = virtio_cap (virtio_cap_new None IsrCfg bar 0 offset len)"

definition device_cfg_cap :: "u8 \<Rightarrow> u32 \<Rightarrow> u32 \<Rightarrow> pci_capability" where
  "device_cfg_cap bar offset len = virtio_cap (virtio_cap_new None DeviceCfg bar 0 offset len)"

record VirtioPciNotifyCfgCap =
  ncap_cap :: VirtioPciCap
  ncap_notify_off_multiplier :: u32

definition notify_cap_new :: "u8 \<Rightarrow> u32 \<Rightarrow> u32 \<Rightarrow> u32 option \<Rightarrow> VirtioPciNotifyCfgCap" where
  "notify_cap_new bar offset len multiplier =
     \<lparr>ncap_cap = virtio_cap_new (Some (virtio_cap_len VIRTIO_NOTIFY_CAP_SIZE)) NotifyCfg bar 0 offset len,
      ncap_notify_off_multiplier = (case multiplier of None \<Rightarrow> 0 | Some m \<Rightarrow> m)\<rparr>"

definition notify_cap_registers :: "VirtioPciNotifyCfgCap \<Rightarrow> bytes \<Rightarrow> bytes option" where
  "notify_cap_registers self registers = do {
     r \<leftarrow> base_registers (ncap_cap self) registers;
     rb_set_dword r REG_NOTIFY_OFF_MULTIPLIER (ncap_notify_off_multiplier self)
   }"

definition notify_cfg_cap :: "VirtioPciNotifyCfgCap \<Rightarrow> pci_capability" where
  "notify_cfg_cap self =
     \<lparr>cap_id = VendorSpecific, cap_size = VIRTIO_NOTIFY_CAP_SIZE, cap_registers = notify_cap_registers self,
      cap_writable_bits = read_only_bits\<rparr>"

record VirtioPciCfgCap =
  ccap_cap :: VirtioPciCap
  ccap_pci_cfg_data :: bytes

definition pci_cfg_cap_new :: VirtioPciCfgCap where
  "pci_cfg_cap_new =
     \<lparr>ccap_cap = virtio_cap_new (Some (virtio_cap_len VIRTIO_PCI_CFG_CAP_SIZE)) PciCfg 0 0 0 0,
      ccap_pci_cfg_data = replicate 4 0xFF\<rparr>"

text \<open>\<open>copy_from_slice\<close> wants the two lengths to agree.\<close>

definition pci_cfg_cap_registers :: "VirtioPciCfgCap \<Rightarrow> bytes \<Rightarrow> bytes option" where
  "pci_cfg_cap_registers self registers = do {
     r \<leftarrow> base_registers (ccap_cap self) registers;
     if length r = VIRTIO_CAP_SIZE + length (ccap_pci_cfg_data self)
     then Some (take VIRTIO_CAP_SIZE r @ ccap_pci_cfg_data self) else None
   }"

definition pci_cfg_cap_writable_bits :: "bytes \<Rightarrow> bytes option" where
  "pci_cfg_cap_writable_bits writable_bits = do {
     w \<leftarrow> slice_set (replicate (length writable_bits) 0) REG_BAR [0xFF];
     w \<leftarrow> rb_set_dword w REG_LENGTH 0xFFFFFFFF;
     w \<leftarrow> rb_set_dword w REG_OFFSET 0xFFFFFFFF;
     rb_set_dword w REG_PCI_CFG_DATA 0xFFFFFFFF
   }"

definition pci_cfg_cap :: "VirtioPciCfgCap \<Rightarrow> pci_capability" where
  "pci_cfg_cap self =
     \<lparr>cap_id = VendorSpecific, cap_size = VIRTIO_CAP_SIZE + length (ccap_pci_cfg_data self),
      cap_registers = pci_cfg_cap_registers self, cap_writable_bits = pci_cfg_cap_writable_bits\<rparr>"

section \<open>The capabilities keep the contract of the list\<close>

lemma utils_set_dword_Some:
  "off + 4 \<le> length r \<Longrightarrow> off + 4 < 2 ^ 64 \<Longrightarrow>
     unwrap_call (utils_set_dword r off v) = Some (patch r off (to_le_bytes v))"
  by (simp add: utils_set_dword_def utils_set_def validate_access_def option_simps unwrap_call_def)

definition cap_bytes :: "VirtioPciCap \<Rightarrow> bytes \<Rightarrow> bytes" where
  "cap_bytes cap r = patch (patch (patch (patch (patch (patch r 0 [vcap_len cap]) 1 [cap_type_u8 (vcap_cfg_type cap)])
     2 [vcap_bar cap]) 3 [vcap_id cap]) 6 (to_le_bytes (vcap_offset cap))) 10 (to_le_bytes (vcap_length cap))"

lemma length_cap_bytes [simp]: "14 \<le> length r \<Longrightarrow> length (cap_bytes cap r) = length r"
  by (simp add: cap_bytes_def)

lemma virtio_cap_registers_Some:
  "14 \<le> length r \<Longrightarrow> virtio_cap_registers cap r = Some (cap_bytes cap r)"
  by (simp add: virtio_cap_registers_def option_simps utils_set_dword_Some cap_bytes_def)

lemma base_registers_Some:
  "14 \<le> length r \<Longrightarrow> base_registers cap r = Some (cap_bytes cap (take 14 r) @ drop 14 r)"
  by (simp add: base_registers_def virtio_cap_registers_Some)

interpretation virtio_base: capability_contract "virtio_cap cap" for cap
  by unfold_locales (simp_all add: virtio_cap_def virtio_cap_registers_Some read_only_bits_def)

interpretation virtio_64: capability_contract "virtio_cap64 cap" for cap
  by unfold_locales
    (simp_all add: virtio_cap64_def virtio_cap64_registers_def base_registers_Some utils_set_dword_Some read_only_bits_def)

interpretation virtio_notify: capability_contract "notify_cfg_cap cap" for cap
  by unfold_locales
    (simp_all add: notify_cfg_cap_def notify_cap_registers_def base_registers_Some rb_set_dword_def rb_set_def
      option_simps read_only_bits_def)

interpretation virtio_pci_cfg: capability_contract "pci_cfg_cap pci_cfg_cap_new"
  by unfold_locales
    (simp_all add: pci_cfg_cap_def pci_cfg_cap_new_def pci_cfg_cap_registers_def pci_cfg_cap_writable_bits_def
      base_registers_Some rb_set_dword_def rb_set_def option_simps)

lemma dword_at_append: "off + 4 \<le> length r \<Longrightarrow> dword_at (r @ s) off = dword_at r off"
  by (simp add: dword_at_def)

section \<open>Properties\<close>

text \<open>
  The registers of a virtio capability, found in the configuration space where a driver looks for
  them: length, type, BAR and identifier in the first four bytes, then offset and length of the structure,
  and for the 64-bit form the whole 64-bit offset and length in two halves.
\<close>

theorem virtio_cap_layout:
  "(\<exists>r. cap_registers (virtio_cap cap) (replicate 14 0) = Some r \<and> r ! 0 = vcap_len cap \<and>
      r ! 1 = cap_type_u8 (vcap_cfg_type cap) \<and> r ! 2 = vcap_bar cap \<and> r ! 3 = vcap_id cap \<and>
      dword_at r 6 = vcap_offset cap \<and> dword_at r 10 = vcap_length cap) \<and>
   (\<exists>r. cap_registers (shared_memory_cap bar i offset len) (replicate 22 0) = Some r \<and> r ! 0 = 24 \<and> r ! 1 = 8 \<and>
      r ! 2 = bar \<and> r ! 3 = i \<and>
      (ucast (dword_at r 6) OR push_bit 32 (ucast (dword_at r 14)) :: u64) = offset \<and>
      (ucast (dword_at r 10) OR push_bit 32 (ucast (dword_at r 18)) :: u64) = len)"
proof
  show "\<exists>r. cap_registers (virtio_cap cap) (replicate 14 0) = Some r \<and> r ! 0 = vcap_len cap \<and>
      r ! 1 = cap_type_u8 (vcap_cfg_type cap) \<and> r ! 2 = vcap_bar cap \<and> r ! 3 = vcap_id cap \<and>
      dword_at r 6 = vcap_offset cap \<and> dword_at r 10 = vcap_length cap"
    by (simp add: virtio_cap_def virtio_cap_registers_Some) (simp add: cap_bytes_def nth_patch)
  have split: "(ucast (ucast w :: u32) OR push_bit 32 (ucast (ucast (drop_bit 32 w) :: u32)) :: u64) = w" for w :: u64
    by (rule bit_word_eqI) (auto simp: bit_simps)
  define cap where "cap = vcap64_cap (virtio_cap64_new SharedMemoryCfg bar i offset len)"
  define b where "b = cap_bytes cap (replicate 14 0) @ replicate 8 0"
  let ?hi = "\<lambda>w :: u64. to_le_bytes (ucast (drop_bit 32 w) :: u32)"
  let ?r = "patch (patch b 14 (?hi offset)) 18 (?hi len)"
  have len: "length b = 22" by (simp add: b_def)
  have regs: "cap_registers (shared_memory_cap bar i offset len) (replicate 22 0) = Some ?r"
    using len by (simp add: shared_memory_cap_def virtio_cap64_def virtio_cap64_registers_def base_registers_Some
        utils_set_dword_Some b_def cap_def virtio_cap64_new_def)
  have b: "b ! 0 = 24" "b ! 1 = 8" "b ! 2 = bar" "b ! 3 = i"
    by (simp_all add: b_def nth_append) (simp_all add: cap_bytes_def nth_patch cap_def virtio_cap64_new_def virtio_cap_new_def virtio_cap_len_def)
  have d: "dword_at b 6 = ucast offset" "dword_at b 10 = ucast len"
    by (simp_all add: b_def dword_at_append) (simp_all add: cap_bytes_def cap_def virtio_cap64_new_def virtio_cap_new_def)
  have "?r ! 0 = 24" "?r ! 1 = 8" "?r ! 2 = bar" "?r ! 3 = i" using len b by (simp_all add: nth_patch)
  moreover have "dword_at ?r 6 = ucast offset" "dword_at ?r 10 = ucast len" using len d by simp_all
  moreover have "dword_at ?r 14 = ucast (drop_bit 32 offset)" "dword_at ?r 18 = ucast (drop_bit 32 len)" using len by simp_all
  ultimately show "\<exists>r. cap_registers (shared_memory_cap bar i offset len) (replicate 22 0) = Some r \<and> r ! 0 = 24 \<and> r ! 1 = 8 \<and>
      r ! 2 = bar \<and> r ! 3 = i \<and>
      (ucast (dword_at r 6) OR push_bit 32 (ucast (dword_at r 14)) :: u64) = offset \<and>
      (ucast (dword_at r 10) OR push_bit 32 (ucast (dword_at r 18)) :: u64) = len"
    unfolding regs by (intro exI [of _ ?r]) (simp add: split)
qed

end
