(* ===== verification/Virtio_Common.thy ===== *)
theory Virtio_Common
  imports Virtio_Caps
begin

text \<open>
  The common configuration structure of a virtio PCI function (\<open>pci_common_cfg.rs\<close>) and the interface
  of the virtio device behind it (the traits of \<open>pci.rs\<close> and of the crates \<open>virtio_device\<close> and
  \<open>virtio_queue\<close>, which are not part of the repository and enter as records of methods).
\<close>

section \<open>The virtio device\<close>

text \<open>The methods of \<open>QueueT\<close> the code calls; \<open>'q\<close> is the queue.\<close>

record 'q virtio_queue =
  vq_size :: "'q \<Rightarrow> u16"
  vq_ready :: "'q \<Rightarrow> bool"
  vq_desc_table :: "'q \<Rightarrow> u64"
  vq_avail_ring :: "'q \<Rightarrow> u64"
  vq_used_ring :: "'q \<Rightarrow> u64"
  vq_set_size :: "'q \<Rightarrow> u16 \<Rightarrow> 'q"
  vq_set_ready :: "'q \<Rightarrow> bool \<Rightarrow> 'q"
  vq_set_desc_table_address :: "'q \<Rightarrow> u32 option \<Rightarrow> u32 option \<Rightarrow> 'q"
  vq_set_avail_ring_address :: "'q \<Rightarrow> u32 option \<Rightarrow> u32 option \<Rightarrow> 'q"
  vq_set_used_ring_address :: "'q \<Rightarrow> u32 option \<Rightarrow> u32 option \<Rightarrow> 'q"
  vq_reset :: "'q \<Rightarrow> 'q"

record VirtioPciNotifyCfgInfo =
  ninfo_bar_gpa :: u64
  ninfo_bar_len :: u64
  ninfo_queue_notify_off :: u32

text \<open>
  The methods of \<open>VirtioPciDevice\<close> and the traits it extends; \<open>'t\<close> is the device. \<open>vd_queue_mut\<close> is the
  queue a mutable borrow gives and \<open>vd_set_queue\<close> puts the changed queue back. Two methods do more than read or
  set fields: acknowledging the device status activates or resets the device, and a notification wakes
  its backend. They may panic, which is \<open>None\<close>; the others return.
\<close>

record ('t, 'q) virtio_device =
  vd_device_type :: "'t \<Rightarrow> u32"
  vd_device_features :: "'t \<Rightarrow> u64"
  vd_driver_features :: "'t \<Rightarrow> u64"
  vd_set_driver_features :: "'t \<Rightarrow> u32 \<Rightarrow> u32 \<Rightarrow> 't"
  vd_num_queues :: "'t \<Rightarrow> u16"
  vd_device_status :: "'t \<Rightarrow> u8"
  vd_ack_device_status :: "'t \<Rightarrow> u8 \<Rightarrow> 't option"
  vd_config_generation :: "'t \<Rightarrow> u8"
  vd_queue_select :: "'t \<Rightarrow> u16"
  vd_set_queue_select :: "'t \<Rightarrow> u16 \<Rightarrow> 't"
  vd_queue :: "'t \<Rightarrow> u16 \<Rightarrow> 'q option"
  vd_queue_mut :: "'t \<Rightarrow> u16 \<Rightarrow> 'q option"
  vd_set_queue :: "'t \<Rightarrow> u16 \<Rightarrow> 'q \<Rightarrow> 't"
  vd_read_config :: "'t \<Rightarrow> usize \<Rightarrow> bytes \<Rightarrow> bytes"
  vd_write_config :: "'t \<Rightarrow> usize \<Rightarrow> bytes \<Rightarrow> 't"
  vd_config_msix_vector :: "'t \<Rightarrow> u16"
  vd_set_config_msix_vector :: "'t \<Rightarrow> u16 \<Rightarrow> 't"
  vd_set_msi_message :: "'t \<Rightarrow> u16 \<Rightarrow> PciMsiMessage \<Rightarrow> 't"
  vd_queue_msix_vector :: "'t \<Rightarrow> u16 option"
  vd_set_queue_msix_vector :: "'t \<Rightarrow> u16 \<Rightarrow> 't"
  vd_read_and_clear_isr :: "'t \<Rightarrow> u8 \<times> 't"
  vd_set_notification_info :: "'t \<Rightarrow> VirtioPciNotifyCfgInfo \<Rightarrow> 't"
  vd_queue_notify :: "'t \<Rightarrow> u32 \<Rightarrow> 't option"

section \<open>The registers\<close>

datatype Config =
    DevFeatureSel | DevFeature | DrvFeatureSel | DrvFeature | CfgMsixVector | NumQueues | DevStatus | CfgGeneration
  | QueueSel | QueueSize | QueueMsixVector | QueueEnable | QueueNotifyOff
  | QueueDesc | QueueDescHi | QueueDrv | QueueDrvHi | QueueDev | QueueDevHi
  | QueueNotifyCfgData | QueueReset | AdmQueueIndex | AdmQueueNum

fun config_value :: "Config \<Rightarrow> usize" where
  "config_value DevFeatureSel = 0"
| "config_value DevFeature = 4"
| "config_value DrvFeatureSel = 8"
| "config_value DrvFeature = 12"
| "config_value CfgMsixVector = 16"
| "config_value NumQueues = 18"
| "config_value DevStatus = 20"
| "config_value CfgGeneration = 21"
| "config_value QueueSel = 22"
| "config_value QueueSize = 24"
| "config_value QueueMsixVector = 26"
| "config_value QueueEnable = 28"
| "config_value QueueNotifyOff = 30"
| "config_value QueueDesc = 32"
| "config_value QueueDescHi = 36"
| "config_value QueueDrv = 40"
| "config_value QueueDrvHi = 44"
| "config_value QueueDev = 48"
| "config_value QueueDevHi = 52"
| "config_value QueueNotifyCfgData = 56"
| "config_value QueueReset = 58"
| "config_value AdmQueueIndex = 60"
| "config_value AdmQueueNum = 62"

definition config_size :: "Config \<Rightarrow> usize" where
  "config_size reg =
     (case reg of
        DevStatus \<Rightarrow> 1 | CfgGeneration \<Rightarrow> 1
      | DevFeatureSel \<Rightarrow> 4 | DevFeature \<Rightarrow> 4 | DrvFeatureSel \<Rightarrow> 4 | DrvFeature \<Rightarrow> 4
      | QueueDescHi \<Rightarrow> 4 | QueueDrvHi \<Rightarrow> 4 | QueueDevHi \<Rightarrow> 4
      | QueueDesc \<Rightarrow> 8 | QueueDrv \<Rightarrow> 8 | QueueDev \<Rightarrow> 8
      | _ \<Rightarrow> 2)"

definition config_registers :: "Config list" where
  "config_registers =
     [DevFeatureSel, DevFeature, DrvFeatureSel, DrvFeature, CfgMsixVector, NumQueues, DevStatus, CfgGeneration,
      QueueSel, QueueSize, QueueMsixVector, QueueEnable, QueueNotifyOff, QueueDesc, QueueDescHi, QueueDrv, QueueDrvHi,
      QueueDev, QueueDevHi, QueueNotifyCfgData, QueueReset, AdmQueueIndex, AdmQueueNum]"

definition config_try_from :: "usize \<Rightarrow> Config option" where
  "config_try_from value = List.find (\<lambda>reg. config_value reg = value) config_registers"

definition VIRTIO_COMMON_CFG_SIZE :: usize where [simp]: "VIRTIO_COMMON_CFG_SIZE = 64"
definition MSIX_VECTOR_UNMAPPED :: u16 where [simp]: "MSIX_VECTOR_UNMAPPED = 0xFFFF"

record VirtioPciCommonCfg =
  vc_info :: PciBarRegionInfo
  vc_registers :: bytes
  vc_writable_bits :: bytes

definition common_writable_bits :: bytes where
  "common_writable_bits =
     replicate 4 0xFF @ replicate 4 0 @ replicate 10 0xFF @ replicate 2 0 @ [0xFF, 0] @ replicate 8 0xFF @
     replicate 2 0 @ replicate 24 0xFF @ replicate 2 0 @ replicate 2 0xFF @ replicate 4 0"

definition common_cfg_new :: "PciBarIndex \<Rightarrow> u64 \<Rightarrow> u64 \<Rightarrow> VirtioPciCommonCfg" where
  "common_cfg_new bar offset len =
     \<lparr>vc_info = \<lparr>region_bar = bar, region_offset = offset, region_length = len\<rparr>,
      vc_registers = replicate VIRTIO_COMMON_CFG_SIZE 0, vc_writable_bits = common_writable_bits\<rparr>"

definition read_registers :: "VirtioPciCommonCfg \<Rightarrow> u64 \<Rightarrow> bytes \<Rightarrow> (bytes, unit) call" where
  "read_registers self offset data = utils_read (vc_registers self) (unat offset) data"

definition write_registers :: "VirtioPciCommonCfg \<Rightarrow> u64 \<Rightarrow> bytes \<Rightarrow> (VirtioPciCommonCfg, unit) call" where
  "write_registers self offset data = do {
     (r, regs) \<leftarrow> utils_write (vc_registers self) (vc_writable_bits self) (unat offset) data;
     Some (r, self\<lparr>vc_registers := regs\<rparr>)
   }"

text \<open>\<open>config\<close> and \<open>set_config\<close>: a wrong size or a failed access is a panic.\<close>

definition vc_config :: "VirtioPciCommonCfg \<Rightarrow> Config \<Rightarrow> nat \<Rightarrow> bytes option" where
  "vc_config self reg n =
     (if config_size reg \<noteq> n then None
      else (case utils_read (vc_registers self) (config_value reg) (replicate n 0) of
          Some (Inr _, data) \<Rightarrow> Some data | _ \<Rightarrow> None))"

definition config_byte :: "VirtioPciCommonCfg \<Rightarrow> Config \<Rightarrow> u8 option" where
  "config_byte self reg = map_option (\<lambda>d. d ! 0) (vc_config self reg 1)"

definition config_word :: "VirtioPciCommonCfg \<Rightarrow> Config \<Rightarrow> u16 option" where
  "config_word self reg = map_option from_le_bytes (vc_config self reg 2)"

definition config_dword :: "VirtioPciCommonCfg \<Rightarrow> Config \<Rightarrow> u32 option" where
  "config_dword self reg = map_option from_le_bytes (vc_config self reg 4)"

definition config_qword :: "VirtioPciCommonCfg \<Rightarrow> Config \<Rightarrow> u64 option" where
  "config_qword self reg = map_option from_le_bytes (vc_config self reg 8)"

definition set_config :: "VirtioPciCommonCfg \<Rightarrow> Config \<Rightarrow> bytes \<Rightarrow> VirtioPciCommonCfg option" where
  "set_config self reg data =
     (if config_size reg \<noteq> length data then None
      else map_option (\<lambda>regs. self\<lparr>vc_registers := regs\<rparr>)
        (unwrap_call (utils_set (vc_registers self) (config_value reg) data)))"

definition set_config_byte :: "VirtioPciCommonCfg \<Rightarrow> Config \<Rightarrow> u8 \<Rightarrow> VirtioPciCommonCfg option" where
  "set_config_byte self reg v = set_config self reg (to_le_bytes v)"

definition set_config_word :: "VirtioPciCommonCfg \<Rightarrow> Config \<Rightarrow> u16 \<Rightarrow> VirtioPciCommonCfg option" where
  "set_config_word self reg v = set_config self reg (to_le_bytes v)"

definition set_config_dword :: "VirtioPciCommonCfg \<Rightarrow> Config \<Rightarrow> u32 \<Rightarrow> VirtioPciCommonCfg option" where
  "set_config_dword self reg v = set_config self reg (to_le_bytes v)"

definition set_config_qword :: "VirtioPciCommonCfg \<Rightarrow> Config \<Rightarrow> u64 \<Rightarrow> VirtioPciCommonCfg option" where
  "set_config_qword self reg v = set_config self reg (to_le_bytes v)"

text \<open>The loop of \<open>set_config_data_invalid\<close> over the indices that are left.\<close>

fun set_data_invalid :: "bytes \<Rightarrow> nat list \<Rightarrow> bytes option" where
  "set_data_invalid regs [] = Some regs"
| "set_data_invalid regs (i # rest) =
     (case utils_set_byte regs i 0 of
        None \<Rightarrow> None
      | Some (Inl _, regs) \<Rightarrow> Some regs
      | Some (Inr _, regs) \<Rightarrow> set_data_invalid regs rest)"

definition set_config_data_invalid :: "VirtioPciCommonCfg \<Rightarrow> usize \<Rightarrow> usize \<Rightarrow> VirtioPciCommonCfg option" where
  "set_config_data_invalid self offset sz =
     (if 2 ^ 64 \<le> offset + sz then None
      else map_option (\<lambda>regs. self\<lparr>vc_registers := regs\<rparr>) (set_data_invalid (vc_registers self) [offset..<offset + sz]))"

section \<open>Queues, addresses and features\<close>

definition with_queue :: "('t, 'q) virtio_device \<Rightarrow> 't \<Rightarrow> ('q \<Rightarrow> 'u) \<Rightarrow> 'u option" where
  "with_queue vd device f = map_option f (vd_queue vd device (vd_queue_select vd device))"

definition with_queue_mut ::
    "('t, 'q) virtio_device \<Rightarrow> VirtioPciCommonCfg \<Rightarrow> 't \<Rightarrow> ('q \<Rightarrow> 'q) \<Rightarrow> 't option" where
  "with_queue_mut vd self device f = do {
     select \<leftarrow> config_word self QueueSel;
     Some (case vd_queue_mut vd device select of
             None \<Rightarrow> device
           | Some queue \<Rightarrow> vd_set_queue vd device select (f queue))
   }"

definition address_parts :: "u64 \<Rightarrow> usize \<Rightarrow> u32 option \<times> u32 option" where
  "address_parts addr io_size =
     (Some (ucast addr), if io_size > 4 then Some (ucast (drop_bit 32 addr)) else None)"

definition paged_features :: "u64 \<Rightarrow> u32 \<Rightarrow> u32" where
  "paged_features features selection =
     (if selection < 2 then ucast (drop_bit (unat (selection * 32)) features) else 0)"

definition unwrap_or :: "'a option \<Rightarrow> 'a \<Rightarrow> 'a" where
  "unwrap_or x d = (case x of None \<Rightarrow> d | Some a \<Rightarrow> a)"

section \<open>Reads and writes\<close>

text \<open>The unfinished registers of \<open>prepare_read\<close> are \<open>todo!()\<close>, a panic.\<close>

definition prepare_read_register ::
    "('t, 'q) virtio_device \<Rightarrow> 'q virtio_queue \<Rightarrow> VirtioPciCommonCfg \<Rightarrow> Config \<Rightarrow> 't \<Rightarrow> VirtioPciCommonCfg option" where
  "prepare_read_register vd vq self reg device =
     (case reg of
        DevFeature \<Rightarrow> do {
          select \<leftarrow> config_dword self DevFeatureSel;
          set_config_dword self reg (paged_features (vd_device_features vd device) select)
        }
      | DrvFeature \<Rightarrow> do {
          select \<leftarrow> config_dword self DrvFeatureSel;
          set_config_dword self reg (paged_features (vd_driver_features vd device) select)
        }
      | CfgMsixVector \<Rightarrow> set_config_word self reg (vd_config_msix_vector vd device)
      | NumQueues \<Rightarrow> set_config_word self reg (vd_num_queues vd device)
      | DevStatus \<Rightarrow> set_config_byte self reg (vd_device_status vd device)
      | CfgGeneration \<Rightarrow> set_config_byte self reg (vd_config_generation vd device)
      | QueueSel \<Rightarrow> set_config_word self reg (vd_queue_select vd device)
      | QueueSize \<Rightarrow> set_config_word self reg (unwrap_or (with_queue vd device (vq_size vq)) 0)
      | QueueMsixVector \<Rightarrow> set_config_word self reg (unwrap_or (vd_queue_msix_vector vd device) MSIX_VECTOR_UNMAPPED)
      | QueueEnable \<Rightarrow>
          set_config_word self reg (unwrap_or (with_queue vd device (\<lambda>q. if vq_ready vq q then 1 else 0)) 0)
      | QueueNotifyOff \<Rightarrow> do {
          select \<leftarrow> config_word self QueueSel;
          set_config_word self reg (case vd_queue vd device select of None \<Rightarrow> 0 | Some _ \<Rightarrow> select)
        }
      | QueueDesc \<Rightarrow> set_config_qword self QueueDesc (unwrap_or (with_queue vd device (vq_desc_table vq)) 0)
      | QueueDescHi \<Rightarrow> set_config_qword self QueueDesc (unwrap_or (with_queue vd device (vq_desc_table vq)) 0)
      | QueueDrv \<Rightarrow> set_config_qword self QueueDrv (unwrap_or (with_queue vd device (vq_avail_ring vq)) 0)
      | QueueDrvHi \<Rightarrow> set_config_qword self QueueDrv (unwrap_or (with_queue vd device (vq_avail_ring vq)) 0)
      | QueueDev \<Rightarrow> set_config_qword self QueueDev (unwrap_or (with_queue vd device (vq_used_ring vq)) 0)
      | QueueDevHi \<Rightarrow> set_config_qword self QueueDev (unwrap_or (with_queue vd device (vq_used_ring vq)) 0)
      | QueueNotifyCfgData \<Rightarrow> None
      | QueueReset \<Rightarrow> None
      | AdmQueueIndex \<Rightarrow> None
      | AdmQueueNum \<Rightarrow> None
      | DevFeatureSel \<Rightarrow> Some self
      | DrvFeatureSel \<Rightarrow> Some self)"

definition common_prepare_read ::
    "('t, 'q) virtio_device \<Rightarrow> 'q virtio_queue \<Rightarrow> VirtioPciCommonCfg \<Rightarrow> u64 \<Rightarrow> usize \<Rightarrow> 't \<Rightarrow> VirtioPciCommonCfg option" where
  "common_prepare_read vd vq self offset sz device =
     (case config_try_from (unat offset) of
        None \<Rightarrow> set_config_data_invalid self (unat offset) sz
      | Some reg \<Rightarrow> prepare_read_register vd vq self reg device)"

definition process_write_register ::
    "('t, 'q) virtio_device \<Rightarrow> 'q virtio_queue \<Rightarrow> VirtioPciCommonCfg \<Rightarrow> Config \<Rightarrow> usize \<Rightarrow> 't \<Rightarrow> (VirtioPciCommonCfg \<times> 't) option" where
  "process_write_register vd vq self reg sz device =
     (case reg of
        DrvFeature \<Rightarrow> do {
          features \<leftarrow> config_dword self reg;
          select \<leftarrow> config_dword self DrvFeatureSel;
          Some (self, vd_set_driver_features vd device select features)
        }
      | CfgMsixVector \<Rightarrow> do { v \<leftarrow> config_word self reg; Some (self, vd_set_config_msix_vector vd device v) }
      | DevStatus \<Rightarrow> do {
          v \<leftarrow> config_byte self reg;
          device \<leftarrow> vd_ack_device_status vd device v;
          Some (self, device)
        }
      | QueueSel \<Rightarrow> do { v \<leftarrow> config_word self reg; Some (self, vd_set_queue_select vd device v) }
      | QueueSize \<Rightarrow> do {
          v \<leftarrow> config_word self reg;
          device \<leftarrow> with_queue_mut vd self device (\<lambda>q. vq_set_size vq q v);
          Some (self, device)
        }
      | QueueMsixVector \<Rightarrow> do { v \<leftarrow> config_word self reg; Some (self, vd_set_queue_msix_vector vd device v) }
      | QueueEnable \<Rightarrow> do {
          v \<leftarrow> config_word self reg;
          device \<leftarrow> (if v = 1 then with_queue_mut vd self device (\<lambda>q. vq_set_ready vq q True) else Some device);
          Some (self, device)
        }
      | QueueDesc \<Rightarrow> do {
          addr \<leftarrow> config_qword self reg;
          let (low, high) = address_parts addr sz;
          device \<leftarrow> with_queue_mut vd self device (\<lambda>q. vq_set_desc_table_address vq q low high);
          Some (self, device)
        }
      | QueueDescHi \<Rightarrow> do {
          high \<leftarrow> config_dword self reg;
          device \<leftarrow> with_queue_mut vd self device (\<lambda>q. vq_set_desc_table_address vq q None (Some high));
          Some (self, device)
        }
      | QueueDrv \<Rightarrow> do {
          addr \<leftarrow> config_qword self reg;
          let (low, high) = address_parts addr sz;
          device \<leftarrow> with_queue_mut vd self device (\<lambda>q. vq_set_avail_ring_address vq q low high);
          Some (self, device)
        }
      | QueueDrvHi \<Rightarrow> do {
          high \<leftarrow> config_dword self reg;
          device \<leftarrow> with_queue_mut vd self device (\<lambda>q. vq_set_avail_ring_address vq q None (Some high));
          Some (self, device)
        }
      | QueueDev \<Rightarrow> do {
          addr \<leftarrow> config_qword self reg;
          let (low, high) = address_parts addr sz;
          device \<leftarrow> with_queue_mut vd self device (\<lambda>q. vq_set_used_ring_address vq q low high);
          Some (self, device)
        }
      | QueueDevHi \<Rightarrow> do {
          high \<leftarrow> config_dword self reg;
          device \<leftarrow> with_queue_mut vd self device (\<lambda>q. vq_set_used_ring_address vq q None (Some high));
          Some (self, device)
        }
      | QueueReset \<Rightarrow> do {
          v \<leftarrow> config_word self reg;
          if v = 1
          then do {
            device \<leftarrow> with_queue_mut vd self device (vq_reset vq);
            self \<leftarrow> set_config_word self reg 0;
            Some (self, device)
          }
          else Some (self, device)
        }
      | _ \<Rightarrow> Some (self, device))"

definition common_process_write ::
    "('t, 'q) virtio_device \<Rightarrow> 'q virtio_queue \<Rightarrow> VirtioPciCommonCfg \<Rightarrow> u64 \<Rightarrow> usize \<Rightarrow> 't \<Rightarrow> (VirtioPciCommonCfg \<times> 't) option" where
  "common_process_write vd vq self offset sz device =
     (case config_try_from (unat offset) of
        None \<Rightarrow> map_option (\<lambda>self. (self, device)) (set_config_data_invalid self (unat offset) sz)
      | Some reg \<Rightarrow> process_write_register vd vq self reg sz device)"

definition common_read_bar ::
    "('t, 'q) virtio_device \<Rightarrow> 'q virtio_queue \<Rightarrow> VirtioPciCommonCfg \<Rightarrow> u64 \<Rightarrow> bytes \<Rightarrow> 't \<Rightarrow>
     (VirtioPciCommonCfg \<times> bytes \<times> 't, unit) call" where
  "common_read_bar vd vq self offset data device = do {
     self \<leftarrow> common_prepare_read vd vq self offset (length data) device;
     (r, data) \<leftarrow> read_registers self offset data;
     case r of
       Inl e \<Rightarrow> Some (Inl e, (self, data, device))
     | Inr _ \<Rightarrow> let (r, data) = to_little_endian Little data SwapQword in Some (r, (self, data, device))
   }"

text \<open>A write pads its data with zeros to eight bytes and writes them all.\<close>

definition common_write_bar ::
    "('t, 'q) virtio_device \<Rightarrow> 'q virtio_queue \<Rightarrow> VirtioPciCommonCfg \<Rightarrow> u64 \<Rightarrow> bytes \<Rightarrow> 't \<Rightarrow>
     (VirtioPciCommonCfg \<times> 't, unit) call" where
  "common_write_bar vd vq self offset data device =
     (if length data > 8 then Some (Inl (InvalidIoSize (length data)), (self, device))
      else (case from_little_endian Little (data @ replicate (8 - length data) 0) SwapQword of
          (Inl e, _) \<Rightarrow> Some (Inl e, (self, device))
        | (Inr _, input) \<Rightarrow> do {
            (r, self) \<leftarrow> write_registers self offset input;
            case (case r of Inl (AccessBounds _ _) \<Rightarrow> Inr () | _ \<Rightarrow> r) of
              Inl e \<Rightarrow> Some (Inl e, (self, device))
            | Inr _ \<Rightarrow> do {
                (self, device) \<leftarrow> common_process_write vd vq self offset (length data) device;
                Some (Inr (), (self, device))
              }
          }))"

definition common_config_msix_vector :: "VirtioPciCommonCfg \<Rightarrow> u16 option" where
  "common_config_msix_vector self = config_word self CfgMsixVector"

section \<open>The registers stay in place\<close>

definition common_wf :: "VirtioPciCommonCfg \<Rightarrow> bool" where
  "common_wf self \<longleftrightarrow> length (vc_registers self) = 64 \<and> vc_writable_bits self = common_writable_bits"

lemma common_wf_new: "common_wf (common_cfg_new bar offset len)"
  by (simp add: common_wf_def common_cfg_new_def)

lemma length_common_bits [simp]: "length common_writable_bits = 64"
  by (simp add: common_writable_bits_def)

lemma config_reg_fits: "config_value reg + config_size reg \<le> 64" "0 < config_size reg"
  by (cases reg; simp add: config_size_def)+

lemma config_try_from_value: "config_try_from v = Some reg \<Longrightarrow> config_value reg = v"
  by (auto simp: config_try_from_def find_Some_iff)

lemma config_try_from_of_value: "config_try_from (config_value reg) = Some reg"
  by (cases reg) (simp_all add: config_try_from_def config_registers_def)

lemma utils_read_Some:
  "off + length data \<le> length arr \<Longrightarrow> off + length data < 2 ^ 64 \<Longrightarrow>
     utils_read arr off data = Some (Inr (), take (length data) (drop off arr))"
  by (simp add: utils_read_def validate_access_def option_simps)

lemma utils_set_Some:
  "off + length data \<le> length arr \<Longrightarrow> off + length data < 2 ^ 64 \<Longrightarrow> utils_set arr off data = Some (Inr (), patch arr off data)"
  by (simp add: utils_set_def validate_access_def option_simps)

lemma utils_write_Some:
  "off + length data \<le> length arr \<Longrightarrow> length bits = length arr \<Longrightarrow> off + length data < 2 ^ 64 \<Longrightarrow>
     utils_write arr bits off data = Some (Inr (), patch_masked arr bits off data)"
  by (simp add: utils_write_def validate_access_def option_simps patch_masked_def)

lemma utils_write_Err:
  "length arr < off + length data \<Longrightarrow> off + length data < 2 ^ 64 \<Longrightarrow>
     utils_write arr bits off data = Some (Inl (AccessBounds off (length data)), arr)"
  by (simp add: utils_write_def validate_access_def validate_bounds_def)

lemma vc_config_Some:
  assumes "common_wf self" and "config_size reg = n"
  shows "vc_config self reg n = Some (take n (drop (config_value reg) (vc_registers self)))"
  using assms config_reg_fits(1) [of reg] by (simp add: vc_config_def common_wf_def utils_read_Some)

lemma set_config_Some:
  assumes "common_wf self" and "config_size reg = length data"
  shows "set_config self reg data = Some (self\<lparr>vc_registers := patch (vc_registers self) (config_value reg) data\<rparr>)"
  using assms config_reg_fits(1) [of reg] by (simp add: set_config_def common_wf_def utils_set_Some unwrap_call_def)

lemma common_wf_patch [simp]:
  "common_wf self \<Longrightarrow> config_size reg = length data \<Longrightarrow>
     common_wf (self\<lparr>vc_registers := patch (vc_registers self) (config_value reg) data\<rparr>)"
  using config_reg_fits(1) [of reg] by (simp add: common_wf_def)

lemma set_data_invalid_total:
  assumes "\<And>i. i \<in> set is \<Longrightarrow> i + 1 < 2 ^ 64" and "length regs = 64"
  shows "\<exists>regs'. set_data_invalid regs is = Some regs' \<and> length regs' = 64"
  using assms
proof (induction "is" arbitrary: regs)
  case (Cons i "is")
  show ?case
  proof (cases "i < 64")
    case True
    with Cons.prems have "utils_set_byte regs i 0 = Some (Inr (), patch regs i [0])"
      by (simp add: utils_set_byte_def utils_set_Some)
    moreover have "length (patch regs i [0]) = 64" using True Cons.prems by simp
    ultimately show ?thesis using Cons.IH [of "patch regs i [0]"] Cons.prems(1) by simp
  next
    case False
    with Cons.prems(2) Cons.prems(1) [of i] have "utils_set_byte regs i 0 = Some (Inl (AccessBounds i 1), regs)"
      by (simp add: utils_set_byte_def utils_set_def validate_access_def validate_bounds_def)
    with Cons.prems show ?thesis by simp
  qed
qed simp

lemma set_invalid_total:
  assumes "common_wf self" and "off + sz < 2 ^ 64"
  shows "\<exists>self'. set_config_data_invalid self off sz = Some self' \<and> common_wf self' \<and> vc_info self' = vc_info self"
  using set_data_invalid_total [of "[off..<off + sz]" "vc_registers self"] assms
  by (auto simp: set_config_data_invalid_def common_wf_def)

section \<open>Reads\<close>

definition unfinished :: "Config \<Rightarrow> bool" where
  "unfinished reg \<longleftrightarrow> reg \<in> {QueueNotifyCfgData, QueueReset, AdmQueueIndex, AdmQueueNum}"

lemmas common_access_defs = config_byte_def config_word_def config_dword_def config_qword_def
  set_config_byte_def set_config_word_def set_config_dword_def set_config_qword_def

lemma prepare_read_total:
  assumes "common_wf self"
  shows "(prepare_read_register vd vq self reg device = None \<longleftrightarrow> unfinished reg) \<and>
    (\<forall>self'. prepare_read_register vd vq self reg device = Some self' \<longrightarrow> common_wf self' \<and> vc_info self' = vc_info self)"
  using assms
  by (cases reg; simp add: prepare_read_register_def unfinished_def common_access_defs vc_config_Some set_config_Some
      config_size_def del: config_value.simps)

lemma common_read_total:
  assumes "common_wf self" and "unat off + length data < 2 ^ 64"
    and "\<And>reg. config_try_from (unat off) = Some reg \<Longrightarrow> \<not> unfinished reg"
  shows "\<exists>r self' data'. common_read_bar vd vq self off data device = Some (r, (self', data', device)) \<and>
    common_wf self' \<and> vc_info self' = vc_info self \<and> length data' = length data"
proof -
  have "\<exists>self'. common_prepare_read vd vq self off (length data) device = Some self' \<and> common_wf self' \<and> vc_info self' = vc_info self"
    using assms prepare_read_total [OF assms(1), of vd vq _ device] set_invalid_total [OF assms(1,2)]
    by (cases "config_try_from (unat off)") (auto simp: common_prepare_read_def)
  then obtain self' where p: "common_prepare_read vd vq self off (length data) device = Some self'" "common_wf self'" "vc_info self' = vc_info self" by blast
  have le: "to_little_endian Little d SwapQword = (Inl (InvalidIoSize (length d)), d) \<or>
      to_little_endian Little d SwapQword = (Inr (), d)" for d
    by (auto simp: to_little_endian_def from_ne_bytes_def to_from_le_bytes)
  show ?thesis
  proof (cases "unat off + length data \<le> 64")
    case True
    with p assms(2) le [of "take (length data) (drop (unat off) (vc_registers self'))"] show ?thesis
      by (auto simp: common_read_bar_def read_registers_def utils_read_Some common_wf_def)
  next
    case False
    with p assms(2) show ?thesis
      by (simp add: common_read_bar_def read_registers_def utils_read_def validate_access_def validate_bounds_def common_wf_def)
  qed
qed

section \<open>Writes\<close>

lemma with_queue_mut_Some:
  "common_wf self \<Longrightarrow> with_queue_mut vd self device f =
     Some (let select = word_at (vc_registers self) 22 in
       case vd_queue_mut vd device select of None \<Rightarrow> device | Some q \<Rightarrow> vd_set_queue vd device select (f q))"
  by (simp add: with_queue_mut_def config_word_def vc_config_Some config_size_def word_at_def Let_def)

text \<open>A register write returns, except that the acknowledgement of the device status may panic.\<close>

definition status_panics :: "('t, 'q) virtio_device \<Rightarrow> Config \<Rightarrow> VirtioPciCommonCfg \<Rightarrow> 't \<Rightarrow> bool" where
  "status_panics vd reg self device \<longleftrightarrow> reg = DevStatus \<and> vd_ack_device_status vd device (vc_registers self ! 20) = None"

lemma take_drop_1: "i < length xs \<Longrightarrow> take 1 (drop i xs) = [xs ! i]"
  by (simp add: take_Suc_conv_app_nth)

lemma config_byte_status: "common_wf self \<Longrightarrow> config_byte self DevStatus = Some (vc_registers self ! 20)"
  by (simp add: config_byte_def vc_config_Some config_size_def take_drop_1 [simplified] common_wf_def)

lemma process_write_total:
  assumes "common_wf self"
  shows "if status_panics vd reg self device then process_write_register vd vq self reg sz device = None
    else \<exists>self' device'. process_write_register vd vq self reg sz device = Some (self', device') \<and> common_wf self' \<and>
      vc_info self' = vc_info self"
proof (cases "reg = DevStatus")
  case True
  with assms show ?thesis
    by (cases "vd_ack_device_status vd device (vc_registers self ! 20)")
      (simp_all add: process_write_register_def status_panics_def config_byte_status)
next
  case False
  with assms show ?thesis
    by (cases reg; simp add: process_write_register_def status_panics_def common_access_defs vc_config_Some set_config_Some
        with_queue_mut_Some config_size_def address_parts_def del: config_value.simps)
qed

lemma from_little_endian_Little:
  "length d = 8 \<Longrightarrow> from_little_endian Little d SwapQword = (Inr (), d)"
  by (simp add: from_little_endian_def swap_size_def to_ne_bytes_def to_from_le_bytes)

text \<open>The registers after a write: eight bytes are written when they fit, none otherwise.\<close>

definition padded :: "bytes \<Rightarrow> bytes" where
  "padded data = data @ replicate (8 - length data) 0"

lemma length_padded [simp]: "length data \<le> 8 \<Longrightarrow> length (padded data) = 8"
  by (simp add: padded_def)

definition written :: "VirtioPciCommonCfg \<Rightarrow> u64 \<Rightarrow> bytes \<Rightarrow> VirtioPciCommonCfg" where
  "written self off data =
     (if unat off + 8 \<le> 64
      then self\<lparr>vc_registers := patch_masked (vc_registers self) common_writable_bits (unat off) (padded data)\<rparr>
      else self)"

lemma vc_info_written [simp]: "vc_info (written self off data) = vc_info self"
  by (simp add: written_def)

lemma common_wf_written [simp]: "common_wf self \<Longrightarrow> length data \<le> 8 \<Longrightarrow> common_wf (written self off data)"
  by (simp add: common_wf_def written_def)

lemma common_write_eq:
  assumes "common_wf self" and "length data \<le> 8" and "unat off + 8 < 2 ^ 64"
  shows "common_write_bar vd vq self off data device =
    map_option (Pair (Inr ())) (common_process_write vd vq (written self off data) off (length data) device)"
proof (cases "unat off + 8 \<le> 64")
  case True
  with assms show ?thesis
    by (cases "common_process_write vd vq (written self off data) off (length data) device")
      (auto simp: common_write_bar_def from_little_endian_Little padded_def [symmetric] write_registers_def utils_write_Some
        common_wf_def written_def)
next
  case False
  with assms show ?thesis
    by (cases "common_process_write vd vq (written self off data) off (length data) device")
      (auto simp: common_write_bar_def from_little_endian_Little padded_def [symmetric] write_registers_def utils_write_Err
        common_wf_def written_def)
qed

lemma nth_patch_masked:
  assumes "off + length data \<le> length arr" and "length bits = length arr" and "off \<le> i" and "i < off + length data"
  shows "patch_masked arr bits off data ! i = update_register (arr ! i) (data ! (i - off)) (bits ! i)"
  using assms by (simp add: patch_masked_def nth_patch nth_update_zip)

lemma update_register_byte: "update_register c n (0xFF :: u8) = n"
proof -
  have "(0xFF :: u8) = - 1" by simp
  then show ?thesis by (simp only: update_register_def Let_def) simp
qed

text \<open>The write that panics: one at the device status, whose byte the device does not acknowledge.\<close>

definition common_write_panics :: "('t, 'q) virtio_device \<Rightarrow> u64 \<Rightarrow> bytes \<Rightarrow> 't \<Rightarrow> bool" where
  "common_write_panics vd off data device \<longleftrightarrow> unat off = 20 \<and> vd_ack_device_status vd device (hd (data @ [0])) = None"

lemma written_status:
  assumes "common_wf self" and "length data \<le> 8"
  shows "vc_registers (written self 20 data) ! 20 = hd (data @ [0])"
proof -
  have "common_writable_bits ! 20 = 0xFF" by code_simp
  moreover have "padded data ! 0 = hd (data @ [0])" by (cases data) (simp_all add: padded_def)
  ultimately show ?thesis using assms
    by (simp add: written_def nth_patch_masked common_wf_def update_register_byte)
qed

lemma common_write_total:
  assumes "common_wf self" and "length data \<le> 8" and "unat off + 8 < 2 ^ 64"
  shows "if common_write_panics vd off data device then common_write_bar vd vq self off data device = None
    else \<exists>self' device'. common_write_bar vd vq self off data device = Some (Inr (), (self', device')) \<and> common_wf self' \<and>
      vc_info self' = vc_info self"
proof -
  have wf: "common_wf (written self off data)" using assms by simp
  have "common_write_panics vd off data device \<longleftrightarrow>
      (\<exists>reg. config_try_from (unat off) = Some reg \<and> status_panics vd reg (written self off data) device)"
  proof (cases "unat off = 20")
    case True
    then have "off = 20" by (metis of_nat_numeral word_unat_eq_iff unat_numeral word_of_nat_eq_iff of_nat_unat ucast_id)
    then show ?thesis using written_status [OF assms(1,2)] config_try_from_of_value [of DevStatus]
      by (simp add: common_write_panics_def status_panics_def)
  next
    case False
    then show ?thesis using config_try_from_value [of "unat off" DevStatus] by (auto simp: common_write_panics_def status_panics_def)
  qed
  note panics = this
  show ?thesis
  proof (cases "config_try_from (unat off)")
    case None
    with panics set_invalid_total [OF wf, of "unat off" "length data"] assms show ?thesis
      by (auto simp: common_write_eq common_process_write_def)
  next
    case (Some reg)
    with panics process_write_total [OF wf, of vd reg device vq "length data"] assms show ?thesis
      by (auto simp: common_write_eq common_process_write_def)
  qed
qed

section \<open>Properties\<close>

lemma take_nth_2: "off + 2 \<le> length xs \<Longrightarrow> take 2 (drop off xs) = [xs ! off, xs ! (off + 1)]"
  by (rule nth_equalityI) (auto simp: less_2_cases_iff nth_Cons')

lemma config_try_from_simps [simp]:
  "config_try_from 0 = Some DevFeatureSel" "config_try_from 4 = Some DevFeature" "config_try_from 16 = Some CfgMsixVector"
  "config_try_from 24 = Some QueueSize" "config_try_from 58 = Some QueueReset"
  using config_try_from_of_value [of DevFeatureSel] config_try_from_of_value [of DevFeature]
    config_try_from_of_value [of CfgMsixVector] config_try_from_of_value [of QueueSize] config_try_from_of_value [of QueueReset]
  by simp_all

lemma unfinished_offsets: "(\<exists>reg. config_try_from v = Some reg \<and> unfinished reg) \<longleftrightarrow> v \<in> {56, 58, 60, 62}"
proof
  assume "\<exists>reg. config_try_from v = Some reg \<and> unfinished reg"
  then show "v \<in> {56, 58, 60, 62}" by (auto simp: unfinished_def dest: config_try_from_value)
next
  assume "v \<in> {56, 58, 60, 62}"
  then show "\<exists>reg. config_try_from v = Some reg \<and> unfinished reg"
    using config_try_from_of_value [of QueueNotifyCfgData] config_try_from_of_value [of QueueReset]
      config_try_from_of_value [of AdmQueueIndex] config_try_from_of_value [of AdmQueueNum]
    by (auto simp: unfinished_def)
qed

text \<open>
  C29: A read of the common configuration returns, except that a read at one of the offsets 56, 58, 60
  and 62, which a guest can make at any time, panics: these registers are unfinished.
\<close>

theorem common_read_panics:
  assumes "common_wf self" and "unat off + length data < 2 ^ 64"
  shows "common_read_bar vd vq self off data device = None \<longleftrightarrow> unat off \<in> {56, 58, 60, 62}"
proof (cases "\<exists>reg. config_try_from (unat off) = Some reg \<and> unfinished reg")
  case True
  then obtain reg where "config_try_from (unat off) = Some reg" "unfinished reg" by blast
  then have "common_read_bar vd vq self off data device = None"
    using prepare_read_total [OF assms(1), of vd vq reg device] by (simp add: common_read_bar_def common_prepare_read_def)
  with True show ?thesis unfolding unfinished_offsets by simp
next
  case False
  with common_read_total [OF assms, of vd vq device] have "common_read_bar vd vq self off data device \<noteq> None" by auto
  with False show ?thesis unfolding unfinished_offsets by simp
qed

lemma common_read_panics_witness:
  "\<forall>(vd :: (nat, nat) virtio_device) vq device. (common_read_bar vd vq (common_cfg_new (PciBarIndex 0) 0 64) 56 [0, 0] device = None) \<and>
   common_read_bar vd vq (common_cfg_new (PciBarIndex 0) 0 64) 20 [0] device \<noteq> None"
  using common_read_panics [OF common_wf_new [of "PciBarIndex 0" 0 64], of 56 "[0, 0]"]
    common_read_panics [OF common_wf_new [of "PciBarIndex 0" 0 64], of 20 "[0]"] by (intro allI conjI) simp_all

text \<open>
  C30: Writing the MSI-X vector of the configuration, two bytes at offset 16, also clears the queue
  select register at offset 22, because a write of any size stores eight bytes. A size written next
  goes to queue 0, whatever queue the driver had selected.
\<close>

theorem common_select_clobbered:
  assumes "common_wf self" and "length v = 2" and "length n = 2"
    and "device' = vd_set_config_msix_vector vd device (from_le_bytes v)"
  shows "\<exists>s1 s2. common_write_bar vd vq self 16 v device = Some (Inr (), (s1, device')) \<and>
    word_at (vc_registers s1) 22 = 0 \<and>
    common_write_bar vd vq s1 24 n device' = Some (Inr (), (s2,
      case vd_queue_mut vd device' 0 of
        None \<Rightarrow> device'
      | Some q \<Rightarrow> vd_set_queue vd device' 0 (vq_set_size vq q (from_le_bytes n))))"
proof -
  let ?s1 = "written self 16 v" and ?s2 = "written (written self 16 v) 24 n"
  have len: "length (vc_registers self) = 64" using assms(1) by (simp add: common_wf_def)
  have bits: "common_writable_bits ! 16 = 0xFF" "common_writable_bits ! 17 = 0xFF" "common_writable_bits ! 22 = 0xFF"
    "common_writable_bits ! 23 = 0xFF" "common_writable_bits ! 24 = 0xFF" "common_writable_bits ! 25 = 0xFF"
    by code_simp+
  have pad: "padded v ! 6 = 0" "padded v ! 7 = 0" "padded v ! 0 = v ! 0" "padded v ! 1 = v ! 1"
      "padded n ! 0 = n ! 0" "padded n ! 1 = n ! 1"
    using assms(2,3) by (simp_all add: padded_def nth_append)
  have two: "[w ! 0, w ! 1] = w" if "length w = 2" for w :: bytes
    using take_nth_2 [of 0 w] that by simp
  have r1: "take 2 (drop 16 (vc_registers ?s1)) = v" "take 2 (drop 22 (vc_registers ?s1)) = [0, 0]"
    using len assms(2) two [OF assms(2)] pad bits
    by (simp_all add: take_nth_2 written_def nth_patch_masked update_register_byte)
  have len1: "length (vc_registers ?s1) = 64" using len assms(2) by (simp add: written_def)
  have r2: "take 2 (drop 24 (vc_registers ?s2)) = n" "take 2 (drop 22 (vc_registers ?s2)) = take 2 (drop 22 (vc_registers ?s1))"
    using len1 assms(3) two [OF assms(3)] pad bits
    by (simp_all add: take_nth_2 written_def [of ?s1] nth_patch_masked nth_patch_masked_other update_register_byte)
  have sel: "word_at (vc_registers ?s1) 22 = 0" "word_at (vc_registers ?s2) 22 = 0" by (simp_all add: word_at_def r1 r2)
  have wf: "common_wf ?s1" "common_wf ?s2" using assms by simp_all
  have "common_write_bar vd vq self 16 v device = Some (Inr (), (?s1, device'))"
    using assms wf r1
    by (simp add: common_write_eq common_process_write_def process_write_register_def config_word_def vc_config_Some config_size_def)
  moreover have "common_write_bar vd vq ?s1 24 n device' = Some (Inr (), (?s2,
      case vd_queue_mut vd device' 0 of
        None \<Rightarrow> device'
      | Some q \<Rightarrow> vd_set_queue vd device' 0 (vq_set_size vq q (from_le_bytes n))))"
    using assms(3) wf r2 sel
    by (simp add: common_write_eq common_process_write_def process_write_register_def config_word_def vc_config_Some
        config_size_def with_queue_mut_Some)
  ultimately show ?thesis using sel by blast
qed

text \<open>
  A driver that selects a page of the device features and reads the feature register gets the 32
  feature bits of that page, and zero beyond the second page.
\<close>

theorem common_feature_pages:
  assumes "common_wf self" and "length buf = 4"
  shows "\<exists>s1 s2. common_write_bar vd vq self 0 (to_le_bytes (select :: u32)) device = Some (Inr (), (s1, device)) \<and>
    common_read_bar vd vq s1 4 buf device =
      Some (Inr (), (s2, to_le_bytes (paged_features (vd_device_features vd device) select), device)) \<and> common_wf s2"
proof -
  let ?s1 = "written self 0 (to_le_bytes select)"
  let ?f = "paged_features (vd_device_features vd device) select"
  let ?s2 = "?s1\<lparr>vc_registers := patch (vc_registers ?s1) 4 (to_le_bytes ?f)\<rparr>"
  have len: "length (vc_registers self) = 64" using assms(1) by (simp add: common_wf_def)
  have bits: "common_writable_bits ! i = 0xFF" if "i < 4" for i
    using that by (simp add: common_writable_bits_def nth_append)
  have sel: "take 4 (vc_registers ?s1) = to_le_bytes select"
  proof (rule nth_equalityI)
    fix i assume "i < length (take 4 (vc_registers ?s1))"
    then have "i < 4" by simp
    then show "take 4 (vc_registers ?s1) ! i = to_le_bytes select ! i"
      using len bits by (simp add: written_def nth_patch_masked update_register_byte padded_def nth_append)
  qed (use len in \<open>simp add: written_def\<close>)
  have wf: "common_wf ?s1" using assms(1) by simp
  then have len1: "length (vc_registers ?s1) = 64" by (simp add: common_wf_def)
  have wf2: "common_wf ?s2" using common_wf_patch [OF wf, of DevFeature "to_le_bytes ?f"] by (simp add: config_size_def)
  have w: "common_write_bar vd vq self 0 (to_le_bytes select) device = Some (Inr (), (?s1, device))"
    using assms(1) by (simp add: common_write_eq common_process_write_def process_write_register_def)
  have p: "common_prepare_read vd vq ?s1 4 (length buf) device = Some ?s2"
    using wf sel by (simp add: common_prepare_read_def prepare_read_register_def config_dword_def vc_config_Some
        config_size_def set_config_dword_def set_config_Some from_to_le_bytes)
  have "take 4 (drop 4 (vc_registers ?s2)) = to_le_bytes ?f"
    using take_drop_patch [of 4 "to_le_bytes ?f" "vc_registers ?s1"] len1 by simp
  then have "common_read_bar vd vq ?s1 4 buf device = Some (Inr (), (?s2, to_le_bytes ?f, device))"
    using p len1 assms(2)
    by (simp add: common_read_bar_def read_registers_def utils_read_Some to_little_endian_def swap_size_def from_ne_bytes_def
        to_from_le_bytes)
  with w wf2 show ?thesis by blast
qed

text \<open>
  A write of the queue reset register never resets a queue while the register holds zero, as it does
  from the start: the eight bytes do not fit at offset 58, the value is dropped without an error.
\<close>

theorem common_reset_ignored:
  assumes "common_wf self" and "word_at (vc_registers self) 58 = 0" and "length data \<le> 8"
  shows "common_write_bar vd vq self 58 data device = Some (Inr (), (self, device))"
  using assms
  by (simp add: common_write_eq common_process_write_def written_def process_write_register_def config_word_def vc_config_Some
      config_size_def word_at_def)

lemma common_select_clobbered_witness:
  "\<forall>(vd :: (nat, nat) virtio_device) vq device. \<exists>s1. common_write_bar vd vq (common_cfg_new (PciBarIndex 0) 0 64) 16 [3, 0] device =
      Some (Inr (), (s1, vd_set_config_msix_vector vd device 3)) \<and> word_at (vc_registers s1) 22 = 0"
proof (intro allI)
  fix vd :: "(nat, nat) virtio_device" and vq device
  from common_select_clobbered [OF common_wf_new [of "PciBarIndex 0" 0 64], of "[3, 0]" "[0, 1]" _ vd device vq]
  show "\<exists>s1. common_write_bar vd vq (common_cfg_new (PciBarIndex 0) 0 64) 16 [3, 0] device =
      Some (Inr (), (s1, vd_set_config_msix_vector vd device 3)) \<and> word_at (vc_registers s1) 22 = 0"
    by auto
qed

lemma common_feature_pages_witness:
  "\<forall>(vd :: (nat, nat) virtio_device) vq device. \<exists>s1 s2. common_write_bar vd vq (common_cfg_new (PciBarIndex 0) 0 64) 0 (to_le_bytes (1 :: u32)) device =
      Some (Inr (), (s1, device)) \<and> common_read_bar vd vq s1 4 [0, 0, 0, 0] device =
      Some (Inr (), (s2, to_le_bytes (paged_features (vd_device_features vd device) 1), device))"
proof (intro allI)
  fix vd :: "(nat, nat) virtio_device" and vq device
  have "length [0, 0, 0, 0 :: u8] = 4" by simp
  from common_feature_pages [OF common_wf_new [of "PciBarIndex 0" 0 64] this, of vd vq 1 device]
  show "\<exists>s1 s2. common_write_bar vd vq (common_cfg_new (PciBarIndex 0) 0 64) 0 (to_le_bytes (1 :: u32)) device =
      Some (Inr (), (s1, device)) \<and> common_read_bar vd vq s1 4 [0, 0, 0, 0] device =
      Some (Inr (), (s2, to_le_bytes (paged_features (vd_device_features vd device) 1), device))" by blast
qed

lemma common_reset_ignored_witness:
  "\<forall>(vd :: (nat, nat) virtio_device) vq device. common_write_bar vd vq (common_cfg_new (PciBarIndex 0) 0 64) 58 [1, 0] device =
      Some (Inr (), (common_cfg_new (PciBarIndex 0) 0 64, device))"
  using common_reset_ignored [OF common_wf_new [of "PciBarIndex 0" 0 64], of "[1, 0]"]
  by (intro allI) (simp add: common_cfg_new_def word_at_def numeral_2_eq_2)

end
