(* ===== verification/Virtio_Pci.thy ===== *)
theory Virtio_Pci
  imports Virtio_Common
begin

text \<open>
  The virtio PCI function (\<open>pci.rs\<close>): the notification, ISR and device-specific structures
  (\<open>pci_notify_cfg.rs\<close>, \<open>pci_isr_cfg.rs\<close>, \<open>pci_device_cfg.rs\<close>), the device handler that dispatches BAR
  accesses to the four structures, the function around it, and the window into the BARs through the
  configuration space (\<open>pci_cfg_cap.rs\<close>).
\<close>

section \<open>Notifications\<close>

record VirtioPciNotifyCfg =
  vn_cap_offset :: usize
  vn_info :: PciBarRegionInfo

definition notify_read_bar ::
    "VirtioPciNotifyCfg \<Rightarrow> u64 \<Rightarrow> bytes \<Rightarrow> 't \<Rightarrow> (VirtioPciNotifyCfg \<times> bytes \<times> 't, unit) call" where
  "notify_read_bar self offset data context = Some (Inr (), (self, data, context))"

text \<open>\<open>value[..data.len()]\<close> panics for an access of more than eight bytes.\<close>

definition notify_write_bar ::
    "('t, 'q) virtio_device \<Rightarrow> VirtioPciNotifyCfg \<Rightarrow> u64 \<Rightarrow> bytes \<Rightarrow> 't \<Rightarrow> (VirtioPciNotifyCfg \<times> 't, unit) call" where
  "notify_write_bar vd self offset data context =
     (if length data > 8 then None
      else do {
        let v = (from_le_bytes (padded data) :: u64);
        context \<leftarrow> vd_queue_notify vd context (ucast v);
        Some (Inr (), (self, context))
      })"

text \<open>The sum is computed with overflow checks.\<close>

definition set_notification_info ::
    "('t, 'q) virtio_device \<Rightarrow> VirtioPciNotifyCfg \<Rightarrow> config_space \<Rightarrow> u64 \<Rightarrow> 't \<Rightarrow> 't option" where
  "set_notification_info vd self c bar_gpa context =
     (if 2 ^ 64 \<le> unat bar_gpa + unat (region_offset (vn_info self)) then None
      else do {
        off \<leftarrow> cs_read_dword c (vn_cap_offset self + REG_NOTIFY_OFF_MULTIPLIER);
        Some (vd_set_notification_info vd context
          \<lparr>ninfo_bar_gpa = bar_gpa + region_offset (vn_info self), ninfo_bar_len = region_length (vn_info self),
           ninfo_queue_notify_off = off\<rparr>)
      })"

definition on_bar_changed ::
    "('t, 'q) virtio_device \<Rightarrow> VirtioPciNotifyCfg \<Rightarrow> config_space \<Rightarrow> PciBar \<Rightarrow> 't \<Rightarrow> 't option" where
  "on_bar_changed vd self c bar context =
     (if bar_index bar \<noteq> region_bar (vn_info self) then Some context
      else (case bar_address bar of
          None \<Rightarrow> Some context
        | Some bar_gpa \<Rightarrow> set_notification_info vd self c bar_gpa context))"

definition on_space_changed ::
    "('t, 'q) virtio_device \<Rightarrow> VirtioPciNotifyCfg \<Rightarrow> config_space \<Rightarrow> 't \<Rightarrow> 't option" where
  "on_space_changed vd self c context = do {
     bar \<leftarrow> get_bar c (region_bar (vn_info self));
     case Option.bind bar bar_address of
       None \<Rightarrow> Some context
     | Some bar_gpa \<Rightarrow> set_notification_info vd self c bar_gpa context
   }"

definition notification_gpa :: "VirtioPciNotifyCfgInfo \<Rightarrow> u16 \<Rightarrow> u64 option option" where
  "notification_gpa self notify_off_multiplier =
     (let gpa = unat (ninfo_bar_gpa self) + unat (ninfo_queue_notify_off self) * unat notify_off_multiplier;
          gpa_end = unat (ninfo_bar_gpa self) + unat (ninfo_bar_len self)
      in if 2 ^ 64 \<le> gpa \<or> 2 ^ 64 \<le> gpa_end then None
         else Some (if gpa < gpa_end then Some (of_nat gpa) else None))"

section \<open>Interrupt status\<close>

record VirtioPciIsr =
  vi_region :: PciBarRegionInfo

definition isr_read_bar ::
    "('t, 'q) virtio_device \<Rightarrow> VirtioPciIsr \<Rightarrow> u64 \<Rightarrow> bytes \<Rightarrow> 't \<Rightarrow> (VirtioPciIsr \<times> bytes \<times> 't, unit) call" where
  "isr_read_bar vd self offset data context =
     (let data = replicate (length data) 0 in
      if offset = 0 \<and> data \<noteq> []
      then (let (isr, context) = vd_read_and_clear_isr vd context in Some (Inr (), (self, data[0 := isr], context)))
      else Some (Inr (), (self, data, context)))"

definition isr_write_bar :: "VirtioPciIsr \<Rightarrow> u64 \<Rightarrow> bytes \<Rightarrow> 't \<Rightarrow> (VirtioPciIsr \<times> 't, unit) call" where
  "isr_write_bar self offset data context = Some (Inr (), (self, context))"

definition INTERRUPT_STATUS_USED_BUFFER :: u8 where [simp]: "INTERRUPT_STATUS_USED_BUFFER = 1"
definition INTERRUPT_STATUS_CONFIGURATION_CHANGE :: u8 where [simp]: "INTERRUPT_STATUS_CONFIGURATION_CHANGE = 2"

type_synonym VirtioInterruptStatus = u8

definition isr_read_and_clear :: "VirtioInterruptStatus \<Rightarrow> u8 \<times> VirtioInterruptStatus" where
  "isr_read_and_clear self = (self, 0)"

definition interrupts_pending :: "VirtioInterruptStatus \<Rightarrow> bool" where
  "interrupts_pending self \<longleftrightarrow> self \<noteq> 0"

definition set_used_buffer_notification :: "VirtioInterruptStatus \<Rightarrow> VirtioInterruptStatus" where
  "set_used_buffer_notification self = self OR INTERRUPT_STATUS_USED_BUFFER"

definition set_configuration_change_notification :: "VirtioInterruptStatus \<Rightarrow> VirtioInterruptStatus" where
  "set_configuration_change_notification self = self OR INTERRUPT_STATUS_CONFIGURATION_CHANGE"

section \<open>Device configuration\<close>

record VirtioPciDeviceCfg =
  vdc_info :: PciBarRegionInfo

definition device_cfg_read_bar ::
    "('t, 'q) virtio_device \<Rightarrow> VirtioPciDeviceCfg \<Rightarrow> u64 \<Rightarrow> bytes \<Rightarrow> 't \<Rightarrow> (VirtioPciDeviceCfg \<times> bytes \<times> 't, unit) call" where
  "device_cfg_read_bar vd self offset data context =
     Some (Inr (), (self, vd_read_config vd context (unat offset) data, context))"

definition device_cfg_write_bar ::
    "('t, 'q) virtio_device \<Rightarrow> VirtioPciDeviceCfg \<Rightarrow> u64 \<Rightarrow> bytes \<Rightarrow> 't \<Rightarrow> (VirtioPciDeviceCfg \<times> 't, unit) call" where
  "device_cfg_write_bar vd self offset data context =
     Some (Inr (), (self, vd_write_config vd context (unat offset) data))"

section \<open>The device handler\<close>

record 't VirtioDeviceHandler =
  vh_config :: config_space
  vh_common_cfg :: VirtioPciCommonCfg
  vh_device_cfg :: VirtioPciDeviceCfg
  vh_isr_cfg :: VirtioPciIsr
  vh_notify_cfg :: VirtioPciNotifyCfg
  vh_device :: 't

text \<open>A BAR access tried on the four structures in turn; the ISR read also lowers the INTx line.\<close>

definition vh_read_bar ::
    "('t, 'q) virtio_device \<Rightarrow> 'q virtio_queue \<Rightarrow> 't VirtioDeviceHandler \<Rightarrow> PciBarIndex \<Rightarrow> u64 \<Rightarrow> bytes \<Rightarrow>
     'w PciInterruptAccess \<Rightarrow> 'w \<Rightarrow> ('t VirtioDeviceHandler \<times> bytes \<times> 'w, unit) call" where
  "vh_read_bar vd vq self bar offset data irq w = do {
     (r, cfg, data, device) \<leftarrow> region_handle_read_bar vc_info (common_read_bar vd vq) (vh_common_cfg self) bar offset data (vh_device self);
     let self = self\<lparr>vh_common_cfg := cfg, vh_device := device\<rparr>;
     case r of
       Inl e \<Rightarrow> Some (Inl e, (self, data, w))
     | Inr (Handled _) \<Rightarrow> Some (Inr (), (self, data, w))
     | Inr Unhandled \<Rightarrow> do {
     (r, cfg, data, device) \<leftarrow> region_handle_read_bar vdc_info (device_cfg_read_bar vd) (vh_device_cfg self) bar offset data (vh_device self);
     let self = self\<lparr>vh_device_cfg := cfg, vh_device := device\<rparr>;
     case r of
       Inl e \<Rightarrow> Some (Inl e, (self, data, w))
     | Inr (Handled _) \<Rightarrow> Some (Inr (), (self, data, w))
     | Inr Unhandled \<Rightarrow> do {
     (r, cfg, data, device) \<leftarrow> region_handle_read_bar vn_info notify_read_bar (vh_notify_cfg self) bar offset data (vh_device self);
     let self = self\<lparr>vh_notify_cfg := cfg, vh_device := device\<rparr>;
     case r of
       Inl e \<Rightarrow> Some (Inl e, (self, data, w))
     | Inr (Handled _) \<Rightarrow> Some (Inr (), (self, data, w))
     | Inr Unhandled \<Rightarrow> do {
     (r, cfg, data, device) \<leftarrow> region_handle_read_bar vi_region (isr_read_bar vd) (vh_isr_cfg self) bar offset data (vh_device self);
     let self = self\<lparr>vh_isr_cfg := cfg, vh_device := device\<rparr>;
     case r of
       Inl e \<Rightarrow> Some (Inl e, (self, data, w))
     | Inr (Handled _) \<Rightarrow>
         if ia_active irq = IntxType
         then do {
           (r, w, c) \<leftarrow> ia_signal irq w (vh_config self) (IntxInterrupt Low);
           Some (r, (self\<lparr>vh_config := c\<rparr>, data, w))
         }
         else Some (Inr (), (self, data, w))
     | Inr Unhandled \<Rightarrow> Some (Inr (), (self, data, w))
     }}}}"

definition vh_write_bar ::
    "('t, 'q) virtio_device \<Rightarrow> 'q virtio_queue \<Rightarrow> 't VirtioDeviceHandler \<Rightarrow> PciBarIndex \<Rightarrow> u64 \<Rightarrow> bytes \<Rightarrow>
     'w PciInterruptAccess \<Rightarrow> 'w \<Rightarrow> ('t VirtioDeviceHandler \<times> 'w, unit) call" where
  "vh_write_bar vd vq self bar offset data irq w = do {
     (r, cfg, device) \<leftarrow> region_handle_write_bar vc_info (common_write_bar vd vq) (vh_common_cfg self) bar offset data (vh_device self);
     let self = self\<lparr>vh_common_cfg := cfg, vh_device := device\<rparr>;
     case r of
       Inl e \<Rightarrow> Some (Inl e, (self, w))
     | Inr (Handled _) \<Rightarrow> Some (Inr (), (self, w))
     | Inr Unhandled \<Rightarrow> do {
     (r, cfg, device) \<leftarrow> region_handle_write_bar vdc_info (device_cfg_write_bar vd) (vh_device_cfg self) bar offset data (vh_device self);
     let self = self\<lparr>vh_device_cfg := cfg, vh_device := device\<rparr>;
     case r of
       Inl e \<Rightarrow> Some (Inl e, (self, w))
     | Inr (Handled _) \<Rightarrow> Some (Inr (), (self, w))
     | Inr Unhandled \<Rightarrow> do {
     (r, cfg, device) \<leftarrow> region_handle_write_bar vn_info (notify_write_bar vd) (vh_notify_cfg self) bar offset data (vh_device self);
     let self = self\<lparr>vh_notify_cfg := cfg, vh_device := device\<rparr>;
     case r of
       Inl e \<Rightarrow> Some (Inl e, (self, w))
     | Inr (Handled _) \<Rightarrow> Some (Inr (), (self, w))
     | Inr Unhandled \<Rightarrow> do {
     (r, cfg, device) \<leftarrow> region_handle_write_bar vi_region isr_write_bar (vh_isr_cfg self) bar offset data (vh_device self);
     let self = self\<lparr>vh_isr_cfg := cfg, vh_device := device\<rparr>;
     case r of
       Inl e \<Rightarrow> Some (Inl e, (self, w))
     | Inr _ \<Rightarrow> Some (Inr (), (self, w))
     }}}}"

definition vh_on_config_update ::
    "('t, 'q) virtio_device \<Rightarrow> 't VirtioDeviceHandler \<Rightarrow> PciConfigurationUpdate \<Rightarrow> 't VirtioDeviceHandler option" where
  "vh_on_config_update vd self event =
     (case event of
        MsiXMessage vector msg \<Rightarrow> Some (self\<lparr>vh_device := vd_set_msi_message vd (vh_device self) (of_nat vector) msg\<rparr>)
      | BarUpdate bar \<Rightarrow> map_option (\<lambda>d. self\<lparr>vh_device := d\<rparr>)
          (on_bar_changed vd (vh_notify_cfg self) (vh_config self) bar (vh_device self))
      | SpaceChanged \<Rightarrow> map_option (\<lambda>d. self\<lparr>vh_device := d\<rparr>)
          (on_space_changed vd (vh_notify_cfg self) (vh_config self) (vh_device self))
      | _ \<Rightarrow> Some self)"

definition virtio_handler ::
    "('t, 'q) virtio_device \<Rightarrow> 'q virtio_queue \<Rightarrow> ('t VirtioDeviceHandler, 'w) device_handler" where
  "virtio_handler vd vq =
     \<lparr>dh_config = vh_config, dh_set_config = (\<lambda>c self. self\<lparr>vh_config := c\<rparr>),
      dh_on_write_config = default_dh_on_write_config, dh_prepare_read_config = default_dh_prepare_read_config,
      dh_read_bar = vh_read_bar vd vq, dh_write_bar = vh_write_bar vd vq,
      dh_on_config_update = vh_on_config_update vd\<rparr>"

section \<open>The function\<close>

definition VIRTIO_PCI_VENDOR_ID :: u16 where [simp]: "VIRTIO_PCI_VENDOR_ID = 0x1AF4"
definition VIRTIO_PCI_DEVICE_ID_BASE :: u16 where [simp]: "VIRTIO_PCI_DEVICE_ID_BASE = 0x1040"
definition VIRTIO_PCI_REVISION_ID :: u8 where [simp]: "VIRTIO_PCI_REVISION_ID = 1"

type_synonym VirtioInterruptContext = "(PciIntx, unit, PciMsiX) PciInterruptContext"

type_synonym 't virtio_inner = "('t VirtioDeviceHandler, VirtioInterruptContext) PciFunctionWithInterrupts"

record 't VirtioPciFunction =
  vf_inner :: "'t virtio_inner"
  vf_pci_cfg :: usize

definition virtio_interrupts :: "VirtioInterruptContext interrupt_handler" where
  "virtio_interrupts = context_handler intx_handler no_interrupt msix_handler"

text \<open>The construction; \<open>?\<close> leaves the function with the error, and the device number is a checked sum.\<close>

definition virtio_function_new ::
    "('t, 'q) virtio_device \<Rightarrow> u8 \<Rightarrow> u8 \<Rightarrow> PciInterruptLineConfig \<Rightarrow> controller \<Rightarrow> 't \<Rightarrow> ('t VirtioPciFunction result) option" where
  "virtio_function_new vd class_base class_sub line ic device = do {
     let device_type = (ucast (vd_device_type vd device) :: u16);
     device_id \<leftarrow> (if 2 ^ 16 \<le> unat VIRTIO_PCI_DEVICE_ID_BASE + unat device_type then None
                   else Some (VIRTIO_PCI_DEVICE_ID_BASE + device_type));
     b \<leftarrow> builder_new;
     b \<leftarrow> with_id b VIRTIO_PCI_VENDOR_ID device_id VIRTIO_PCI_REVISION_ID;
     b \<leftarrow> with_class b class_base class_sub 0;
     b \<leftarrow> with_subsystem_id b VIRTIO_PCI_VENDOR_ID device_id;
     c \<leftarrow> builder_build b;
     let bar_index = PciBarIndex 0;
     let config_bar = \<lparr>bar_address = None, bar_size = 0x8000, bar_index = bar_index,
                       bar_region_type = Memory32Bit NotPrefetchable\<rparr>;
     (r, f) \<leftarrow> bind_result (add_bar c config_bar) (\<lambda>_ c.
       bind_result (add_capability c (common_cfg_cap 0 0 (of_nat VIRTIO_COMMON_CFG_SIZE))) (\<lambda>_ c.
       bind_result (add_capability c (isr_cfg_cap 0 0x1000 1)) (\<lambda>_ c.
       bind_result (add_capability c (device_cfg_cap 0 0x2000 0x1000)) (\<lambda>_ c.
       bind_result (add_capability c (notify_cfg_cap (notify_cap_new 0 0x3000 0x1000 (Some 4)))) (\<lambda>notify_cap_offs c.
       bind_result (add_capability c (pci_cfg_cap pci_cfg_cap_new)) (\<lambda>pci_cfg c.
       bind_result (msix_build
            \<lparr>xcfg_msix_info = \<lparr>region_bar = bar_index, region_offset = 0x4000, region_length = 0x1000\<rparr>,
             xcfg_pba_info = \<lparr>region_bar = bar_index, region_offset = 0x5000, region_length = 0x1000\<rparr>\<rparr>
            c (replicate 32 entry_default) [\<lparr>pba_pending_bits = 0\<rparr>]) (\<lambda>msix c. do {
         (intx, c) \<leftarrow> intx_build \<lparr>ixc_pin = IntA, ixc_line_config = line\<rparr> c;
         Some (Inr
           \<lparr>vf_inner =
             \<lparr>fn_controller = ic,
              fn_device =
                \<lparr>vh_config = c,
                 vh_common_cfg = common_cfg_new bar_index 0 (of_nat VIRTIO_COMMON_CFG_SIZE),
                 vh_device_cfg = \<lparr>vdc_info = \<lparr>region_bar = bar_index, region_offset = 0x2000, region_length = 0x1000\<rparr>\<rparr>,
                 vh_isr_cfg = \<lparr>vi_region = \<lparr>region_bar = bar_index, region_offset = 0x1000, region_length = 1\<rparr>\<rparr>,
                 vh_notify_cfg = \<lparr>vn_cap_offset = notify_cap_offs,
                   vn_info = \<lparr>region_bar = bar_index, region_offset = 0x3000, region_length = 0x1000\<rparr>\<rparr>,
                 vh_device = device\<rparr>,
              fn_interrupt = \<lparr>ctx_intx = intx, ctx_msi = (), ctx_msix = msix\<rparr>\<rparr>,
            vf_pci_cfg = pci_cfg\<rparr>, c)
       })))))));
     Some r
   }"

definition vf_config :: "'t VirtioPciFunction \<Rightarrow> config_space" where
  "vf_config self = vh_config (fn_device (vf_inner self))"

definition vf_set_config :: "config_space \<Rightarrow> 't VirtioPciFunction \<Rightarrow> 't VirtioPciFunction" where
  "vf_set_config c self = self\<lparr>vf_inner := (vf_inner self)\<lparr>fn_device := (fn_device (vf_inner self))\<lparr>vh_config := c\<rparr>\<rparr>\<rparr>"

definition on_inner :: "('t virtio_inner, 'a) call \<Rightarrow> 't VirtioPciFunction \<Rightarrow> ('t VirtioPciFunction, 'a) call" where
  "on_inner r self = map_option (\<lambda>(a, inner). (a, self\<lparr>vf_inner := inner\<rparr>)) r"

definition vf_get_bar :: "('t, 'q) virtio_device \<Rightarrow> 'q virtio_queue \<Rightarrow> 't VirtioPciFunction bar_lookup" where
  "vf_get_bar vd vq self index = fn_get_bar (virtio_handler vd vq) (vf_inner self) index"

definition vf_read_bar :: "('t, 'q) virtio_device \<Rightarrow> 'q virtio_queue \<Rightarrow> 't VirtioPciFunction bar_read" where
  "vf_read_bar vd vq self bar offset data =
     map_option (\<lambda>(r, inner, data). (r, (self\<lparr>vf_inner := inner\<rparr>, data)))
       (fn_read_bar (virtio_handler vd vq) virtio_interrupts (vf_inner self) bar offset data)"

definition vf_write_bar :: "('t, 'q) virtio_device \<Rightarrow> 'q virtio_queue \<Rightarrow> 't VirtioPciFunction bar_write" where
  "vf_write_bar vd vq self bar offset data =
     on_inner (fn_write_bar (virtio_handler vd vq) virtio_interrupts (vf_inner self) bar offset data) self"

definition vf_signal_interrupt ::
    "('t, 'q) virtio_device \<Rightarrow> 'q virtio_queue \<Rightarrow> 't VirtioPciFunction \<Rightarrow> PciInterrupt \<Rightarrow> ('t VirtioPciFunction, unit) call" where
  "vf_signal_interrupt vd vq self interrupt =
     on_inner (fn_signal_interrupt (virtio_handler vd vq) virtio_interrupts (vf_inner self) interrupt) self"

section \<open>The window in the configuration space\<close>

text \<open>
  What the window needs of the function it belongs to, the supertraits of \<open>VirtioPciCfgHandler\<close>: its configuration
  space, the offset of the capability, and the access to its BARs.
\<close>

record 'f cfg_accessor =
  ca_config :: "'f \<Rightarrow> config_space"
  ca_set_config :: "config_space \<Rightarrow> 'f \<Rightarrow> 'f"
  ca_pci_cfg_cap :: "'f \<Rightarrow> usize"

record 'f cfg_handler = "'f cfg_accessor" +
  ch_get_bar :: "'f bar_lookup"
  ch_read_bar :: "'f bar_read"
  ch_write_bar :: "'f bar_write"

definition window_offset :: "('f, 'x) cfg_accessor_scheme \<Rightarrow> 'f \<Rightarrow> usize" where
  "window_offset h self = ca_pci_cfg_cap h self + REG_PCI_CFG_DATA"

definition window_should_handle :: "('f, 'x) cfg_accessor_scheme \<Rightarrow> 'f \<Rightarrow> usize \<Rightarrow> usize \<Rightarrow> bool" where
  "window_should_handle h self offset sz = range_overlaps 64 offset sz (window_offset h self) 4"

definition window_find_bar :: "'f cfg_handler \<Rightarrow> 'f \<Rightarrow> PciBar option option" where
  "window_find_bar h self = do {
     bar \<leftarrow> cs_read_byte (ca_config h self) (ca_pci_cfg_cap h self + REG_BAR);
     case bar_index_try_from (unat bar) of
       Inl _ \<Rightarrow> Some None
     | Inr bar \<Rightarrow> ch_get_bar h self bar
   }"

definition window_params :: "('f, 'x) cfg_accessor_scheme \<Rightarrow> 'f \<Rightarrow> (u32 \<times> u32) option" where
  "window_params h self = do {
     offset \<leftarrow> cs_read_dword (ca_config h self) (ca_pci_cfg_cap h self + REG_OFFSET);
     len \<leftarrow> cs_read_dword (ca_config h self) (ca_pci_cfg_cap h self + REG_LENGTH);
     Some (offset, len)
   }"

definition window_get_data :: "('f, 'x) cfg_accessor_scheme \<Rightarrow> 'f \<Rightarrow> bytes \<Rightarrow> bytes option" where
  "window_get_data h self data = cs_read (ca_config h self) (window_offset h self) data"

definition window_update_data :: "('f, 'x) cfg_accessor_scheme \<Rightarrow> 'f \<Rightarrow> bytes \<Rightarrow> 'f option" where
  "window_update_data h self data = do {
     c \<leftarrow> cs_write (ca_config h self) (window_offset h self) data;
     Some (ca_set_config h c self)
   }"

definition window_set_invalid :: "('f, 'x) cfg_accessor_scheme \<Rightarrow> 'f \<Rightarrow> 'f option" where
  "window_set_invalid h self = window_update_data h self (to_le_bytes (0xFFFFFFFF :: u32))"

text \<open>The sum of the BAR address and the offset is computed with overflow checks.\<close>

definition window_prepare_read ::
    "'f cfg_handler \<Rightarrow> 'f \<Rightarrow> usize \<Rightarrow> usize \<Rightarrow> (bool \<times> 'f) option" where
  "window_prepare_read h self offset sz =
     (if \<not> window_should_handle h self offset sz then Some (False, self)
      else do {
        self \<leftarrow> window_set_invalid h self;
        bar \<leftarrow> window_find_bar h self;
        case bar of
          None \<Rightarrow> Some (True, self)
        | Some bar \<Rightarrow> do {
            (read_offset, read_length) \<leftarrow> window_params h self;
            if unat read_length > 4 then Some (True, self)
            else (case bar_address bar of
                None \<Rightarrow> Some (True, self)
              | Some bar_addr \<Rightarrow>
                  if 2 ^ 64 \<le> unat bar_addr + unat read_offset then None
                  else do {
                    let data = replicate (unat read_length) 0xFF;
                    let abs_addr = bar_addr + ucast read_offset;
                    ret \<leftarrow> (if bar_is_mem bar
                       then map_option Some (read_mmio (ch_get_bar h) (ch_read_bar h) self abs_addr data)
                       else if abs_addr > 0xFFFF then Some None
                       else map_option Some (read_pio (ch_get_bar h) (ch_read_bar h) self (ucast abs_addr) data));
                    case ret of
                      None \<Rightarrow> Some (True, self)
                    | Some (Inr _, (self, data)) \<Rightarrow> do {
                        self \<leftarrow> window_update_data h self (data @ replicate (4 - unat read_length) 0xFF);
                        Some (True, self)
                      }
                    | Some (Inl _, (self, data)) \<Rightarrow> do {
                        self \<leftarrow> window_set_invalid h self;
                        Some (True, self)
                      }
                  })
          }
      })"

definition window_process_write ::
    "'f cfg_handler \<Rightarrow> 'f \<Rightarrow> usize \<Rightarrow> usize \<Rightarrow> (bool \<times> 'f) option" where
  "window_process_write h self offset sz =
     (if \<not> window_should_handle h self offset sz then Some (False, self)
      else do {
        bar \<leftarrow> window_find_bar h self;
        case bar of
          None \<Rightarrow> Some (True, self)
        | Some bar \<Rightarrow> do {
            (write_offset, write_length) \<leftarrow> window_params h self;
            case bar_address bar of
              None \<Rightarrow> Some (True, self)
            | Some bar_addr \<Rightarrow> do {
                data \<leftarrow> window_get_data h self (replicate 4 0);
                if unat write_length > 4 then Some (True, self)
                else if 2 ^ 64 \<le> unat bar_addr + unat write_offset then None
                else do {
                  let data = take (unat write_length) data;
                  let abs_addr = bar_addr + ucast write_offset;
                  self \<leftarrow> (if bar_is_mem bar
                     then map_option snd (write_mmio (ch_get_bar h) (ch_write_bar h) self abs_addr data)
                     else if abs_addr > 0xFFFF then Some self
                     else map_option snd (write_pio (ch_get_bar h) (ch_write_bar h) self (ucast abs_addr) data));
                  Some (True, self)
                }
              }
          }
      })"

text \<open>The window of the virtio function.\<close>

definition vf_accessor :: "'t VirtioPciFunction cfg_accessor" where
  "vf_accessor = \<lparr>ca_config = vf_config, ca_set_config = vf_set_config, ca_pci_cfg_cap = vf_pci_cfg\<rparr>"

definition vf_window :: "('t, 'q) virtio_device \<Rightarrow> 'q virtio_queue \<Rightarrow> 't VirtioPciFunction cfg_handler" where
  "vf_window vd vq = cfg_accessor.extend vf_accessor
     \<lparr>ch_get_bar = vf_get_bar vd vq, ch_read_bar = vf_read_bar vd vq, ch_write_bar = vf_write_bar vd vq\<rparr>"

definition pci_cfg_data_offset :: "'t VirtioPciFunction \<Rightarrow> usize" where
  "pci_cfg_data_offset = window_offset vf_accessor"

definition cfg_should_handle_access :: "'t VirtioPciFunction \<Rightarrow> usize \<Rightarrow> usize \<Rightarrow> bool" where
  "cfg_should_handle_access = window_should_handle vf_accessor"

definition cfg_find_bar ::
    "('t, 'q) virtio_device \<Rightarrow> 'q virtio_queue \<Rightarrow> 't VirtioPciFunction \<Rightarrow> PciBar option option" where
  "cfg_find_bar vd vq = window_find_bar (vf_window vd vq)"

definition access_params :: "'t VirtioPciFunction \<Rightarrow> (u32 \<times> u32) option" where
  "access_params = window_params vf_accessor"

definition get_pci_cfg_data :: "'t VirtioPciFunction \<Rightarrow> bytes \<Rightarrow> bytes option" where
  "get_pci_cfg_data = window_get_data vf_accessor"

definition update_pci_cfg_data :: "'t VirtioPciFunction \<Rightarrow> bytes \<Rightarrow> 't VirtioPciFunction option" where
  "update_pci_cfg_data = window_update_data vf_accessor"

definition set_pci_cfg_data_invalid :: "'t VirtioPciFunction \<Rightarrow> 't VirtioPciFunction option" where
  "set_pci_cfg_data_invalid = window_set_invalid vf_accessor"

definition cfg_prepare_read ::
    "('t, 'q) virtio_device \<Rightarrow> 'q virtio_queue \<Rightarrow> 't VirtioPciFunction \<Rightarrow> usize \<Rightarrow> usize \<Rightarrow> (bool \<times> 't VirtioPciFunction) option" where
  "cfg_prepare_read vd vq = window_prepare_read (vf_window vd vq)"

definition cfg_process_write ::
    "('t, 'q) virtio_device \<Rightarrow> 'q virtio_queue \<Rightarrow> 't VirtioPciFunction \<Rightarrow> usize \<Rightarrow> usize \<Rightarrow> (bool \<times> 't VirtioPciFunction) option" where
  "cfg_process_write vd vq = window_process_write (vf_window vd vq)"

lemma vf_window_fields [simp]:
  "ca_config (vf_window vd vq) = vf_config" "ca_set_config (vf_window vd vq) = vf_set_config"
  "ca_pci_cfg_cap (vf_window vd vq) = vf_pci_cfg" "ca_config vf_accessor = vf_config"
  "ca_set_config vf_accessor = vf_set_config" "ca_pci_cfg_cap vf_accessor = vf_pci_cfg"
  "ch_get_bar (vf_window vd vq) = vf_get_bar vd vq" "ch_read_bar (vf_window vd vq) = vf_read_bar vd vq"
  "ch_write_bar (vf_window vd vq) = vf_write_bar vd vq"
  by (simp_all add: vf_window_def vf_accessor_def cfg_accessor.defs)

lemma vf_window_ops:
  "window_should_handle (vf_window vd vq) = cfg_should_handle_access" "window_params (vf_window vd vq) = access_params"
  "window_get_data (vf_window vd vq) = get_pci_cfg_data" "window_update_data (vf_window vd vq) = update_pci_cfg_data"
  "window_set_invalid (vf_window vd vq) = set_pci_cfg_data_invalid" "window_find_bar (vf_window vd vq) = cfg_find_bar vd vq"
  by (simp_all add: fun_eq_iff window_should_handle_def cfg_should_handle_access_def window_params_def access_params_def
      window_get_data_def get_pci_cfg_data_def window_update_data_def update_pci_cfg_data_def window_set_invalid_def
      set_pci_cfg_data_invalid_def window_offset_def cfg_find_bar_def)

lemma pci_cfg_data_offset_eq:
  "pci_cfg_data_offset self = vf_pci_cfg self + REG_PCI_CFG_DATA"
  by (simp add: pci_cfg_data_offset_def window_offset_def)

lemma cfg_should_handle_access_eq:
  "cfg_should_handle_access self offset sz = range_overlaps 64 offset sz (pci_cfg_data_offset self) 4"
  by (simp add: cfg_should_handle_access_def window_should_handle_def pci_cfg_data_offset_def window_offset_def)

lemma cfg_find_bar_eq:
  "cfg_find_bar vd vq self = do {
     bar \<leftarrow> cs_read_byte (vf_config self) (vf_pci_cfg self + REG_BAR);
     case bar_index_try_from (unat bar) of
       Inl _ \<Rightarrow> Some None
     | Inr bar \<Rightarrow> vf_get_bar vd vq self bar
   }"
  unfolding cfg_find_bar_def window_find_bar_def vf_window_fields ..

lemma access_params_eq:
  "access_params self = do {
     offset \<leftarrow> cs_read_dword (vf_config self) (vf_pci_cfg self + REG_OFFSET);
     len \<leftarrow> cs_read_dword (vf_config self) (vf_pci_cfg self + REG_LENGTH);
     Some (offset, len)
   }"
  by (simp add: access_params_def window_params_def)

lemma get_pci_cfg_data_eq:
  "get_pci_cfg_data self data = cs_read (vf_config self) (pci_cfg_data_offset self) data"
  by (simp add: get_pci_cfg_data_def window_get_data_def pci_cfg_data_offset_def window_offset_def)

lemma update_pci_cfg_data_eq:
  "update_pci_cfg_data self data = do {
     c \<leftarrow> cs_write (vf_config self) (pci_cfg_data_offset self) data;
     Some (vf_set_config c self)
   }"
  by (simp add: update_pci_cfg_data_def window_update_data_def pci_cfg_data_offset_def window_offset_def)

lemma set_pci_cfg_data_invalid_eq:
  "set_pci_cfg_data_invalid self = update_pci_cfg_data self (to_le_bytes (0xFFFFFFFF :: u32))"
  by (simp add: set_pci_cfg_data_invalid_def window_set_invalid_def update_pci_cfg_data_def)

lemma cfg_prepare_read_eq:
  "cfg_prepare_read vd vq self offset sz =
     (if \<not> cfg_should_handle_access self offset sz then Some (False, self)
      else do {
        self \<leftarrow> set_pci_cfg_data_invalid self;
        bar \<leftarrow> cfg_find_bar vd vq self;
        case bar of
          None \<Rightarrow> Some (True, self)
        | Some bar \<Rightarrow> do {
            (read_offset, read_length) \<leftarrow> access_params self;
            if unat read_length > 4 then Some (True, self)
            else (case bar_address bar of
                None \<Rightarrow> Some (True, self)
              | Some bar_addr \<Rightarrow>
                  if 2 ^ 64 \<le> unat bar_addr + unat read_offset then None
                  else do {
                    let data = replicate (unat read_length) 0xFF;
                    let abs_addr = bar_addr + ucast read_offset;
                    ret \<leftarrow> (if bar_is_mem bar
                       then map_option Some (read_mmio (vf_get_bar vd vq) (vf_read_bar vd vq) self abs_addr data)
                       else if abs_addr > 0xFFFF then Some None
                       else map_option Some (read_pio (vf_get_bar vd vq) (vf_read_bar vd vq) self (ucast abs_addr) data));
                    case ret of
                      None \<Rightarrow> Some (True, self)
                    | Some (Inr _, (self, data)) \<Rightarrow> do {
                        self \<leftarrow> update_pci_cfg_data self (data @ replicate (4 - unat read_length) 0xFF);
                        Some (True, self)
                      }
                    | Some (Inl _, (self, data)) \<Rightarrow> do {
                        self \<leftarrow> set_pci_cfg_data_invalid self;
                        Some (True, self)
                      }
                  })
          }
      })"
  unfolding cfg_prepare_read_def window_prepare_read_def vf_window_ops vf_window_fields ..

lemma cfg_process_write_eq:
  "cfg_process_write vd vq self offset sz =
     (if \<not> cfg_should_handle_access self offset sz then Some (False, self)
      else do {
        bar \<leftarrow> cfg_find_bar vd vq self;
        case bar of
          None \<Rightarrow> Some (True, self)
        | Some bar \<Rightarrow> do {
            (write_offset, write_length) \<leftarrow> access_params self;
            case bar_address bar of
              None \<Rightarrow> Some (True, self)
            | Some bar_addr \<Rightarrow> do {
                data \<leftarrow> get_pci_cfg_data self (replicate 4 0);
                if unat write_length > 4 then Some (True, self)
                else if 2 ^ 64 \<le> unat bar_addr + unat write_offset then None
                else do {
                  let data = take (unat write_length) data;
                  let abs_addr = bar_addr + ucast write_offset;
                  self \<leftarrow> (if bar_is_mem bar
                     then map_option snd (write_mmio (vf_get_bar vd vq) (vf_write_bar vd vq) self abs_addr data)
                     else if abs_addr > 0xFFFF then Some self
                     else map_option snd (write_pio (vf_get_bar vd vq) (vf_write_bar vd vq) self (ucast abs_addr) data));
                  Some (True, self)
                }
              }
          }
      })"
  unfolding cfg_process_write_def window_process_write_def vf_window_ops vf_window_fields ..

definition vf_read_config ::
    "('t, 'q) virtio_device \<Rightarrow> 'q virtio_queue \<Rightarrow> 't VirtioPciFunction \<Rightarrow> usize \<Rightarrow> bytes \<Rightarrow> ('t VirtioPciFunction \<times> bytes, unit) call" where
  "vf_read_config vd vq self offset data = do {
     (_, self) \<leftarrow> cfg_prepare_read vd vq self offset (length data);
     (r, inner, data) \<leftarrow> fn_read_config (virtio_handler vd vq) (vf_inner self) offset data;
     Some (r, (self\<lparr>vf_inner := inner\<rparr>, data))
   }"

definition vf_write_config ::
    "('t, 'q) virtio_device \<Rightarrow> 'q virtio_queue \<Rightarrow> 't VirtioPciFunction \<Rightarrow> usize \<Rightarrow> bytes \<Rightarrow>
     ('t VirtioPciFunction, PciConfigurationUpdate option) call" where
  "vf_write_config vd vq self offset data =
     bind_result (on_inner (fn_write_config (virtio_handler vd vq) virtio_interrupts (vf_inner self) offset data) self)
       (\<lambda>update self. do {
         (_, self) \<leftarrow> cfg_process_write vd vq self offset (length data);
         Some (Inr update, self)
       })"

section \<open>The device handler keeps the contract of a device\<close>

text \<open>
  A handler whose notification capability lies in the space, whose BARs are all 32-bit or I/O, and whose
  regions are small.
\<close>

definition virtio_ok :: "'t VirtioDeviceHandler \<Rightarrow> bool" where
  "virtio_ok d \<longleftrightarrow>
     vn_cap_offset (vh_notify_cfg d) + 18 \<le> 256 \<and> into_inner (region_bar (vn_info (vh_notify_cfg d))) < 6 \<and>
     unat (region_offset (vn_info (vh_notify_cfg d))) < 2 ^ 32 \<and>
     common_wf (vh_common_cfg d) \<and> unat (region_length (vc_info (vh_common_cfg d))) < 2 ^ 32 \<and>
     (\<forall>i < 6. \<forall>b. cs_bars (vh_config d) ! i = Some b \<longrightarrow> \<not> is_memory64 (bar_region_type b))"

lemma get_bar_address_bound:
  assumes "bars_inv c" and "\<And>i b. i < 6 \<Longrightarrow> cs_bars c ! i = Some b \<Longrightarrow> \<not> is_memory64 (bar_region_type b)"
    and "get_bar c i = Some (Some bar)" and "bar_address bar = Some a"
  shows "unat a < 2 ^ 32"
proof -
  have wf: "config_wf c" using assms(1) by simp
  have i: "into_inner i < 6"
  proof (rule ccontr)
    assume "\<not> into_inner i < 6"
    then have "bars_get c (into_inner i) = None" using wf by (simp add: bars_get_def)
    with assms(3) show False by (simp add: get_bar_def)
  qed
  from assms(3) wf i obtain b where b: "cs_bars c ! into_inner i = Some b"
    by (cases "cs_bars c ! into_inner i") (auto simp: get_bar_def option_simps)
  have "\<exists>w :: u32. a = ucast w"
    using assms(2) [OF i b] assms(3,4) b wf i
    by (auto simp: get_bar_def option_simps Let_def bar_set_address_def split: prod.splits if_splits)
  then obtain w :: u32 where "a = ucast w" ..
  then have "unat a \<le> unat w" by (simp add: unsigned_ucast_eq take_bit_nat_less_eq_self)
  then show ?thesis using unsigned_less [of w, where ?'a = nat] by simp
qed

lemma set_notification_total:
  assumes "config_wf c" and "vn_cap_offset n + 18 \<le> 256" and "unat (region_offset (vn_info n)) < 2 ^ 32" and "unat a < 2 ^ 32"
  shows "\<exists>d'. set_notification_info vd n c a d = Some d'"
  using assms by (simp add: set_notification_info_def option_simps)

lemma virtio_ok_device [simp]: "virtio_ok (d\<lparr>vh_device := t\<rparr>) = virtio_ok d"
  by (simp add: virtio_ok_def)

lemma virtio_update_total:
  assumes ok: "virtio_ok d" and inv: "bars_inv (vh_config d)" and ev: "event_of (vh_config d) event"
  shows "\<exists>d'. vh_on_config_update vd d event = Some d' \<and> virtio_ok d' \<and> vh_config d' = vh_config d"
proof (cases event)
  case (MsiMessage m)
  with ok show ?thesis by (simp add: vh_on_config_update_def)
next
  case (MsiXMessage v m)
  with ok show ?thesis by (simp add: vh_on_config_update_def)
next
  case (BarUpdate bar)
  note n = ok [unfolded virtio_ok_def]
  from ev BarUpdate obtain i where i: "get_bar (vh_config d) i = Some (Some bar)" by (auto simp: event_of_def)
  have "\<exists>t. on_bar_changed vd (vh_notify_cfg d) (vh_config d) bar (vh_device d) = Some t"
  proof (cases "bar_address bar")
    case (Some a)
    have "unat a < 2 ^ 32" by (rule get_bar_address_bound [OF inv _ i Some]) (use n in blast)
    with n set_notification_total [OF bars_inv_wf [OF inv], of "vh_notify_cfg d" a vd "vh_device d"] Some show ?thesis
      by (simp add: on_bar_changed_def)
  qed (simp add: on_bar_changed_def)
  with BarUpdate ok show ?thesis by (auto simp: vh_on_config_update_def)
next
  case SpaceChanged
  note n = ok [unfolded virtio_ok_def]
  let ?i = "region_bar (vn_info (vh_notify_cfg d))"
  obtain b where b: "get_bar (vh_config d) ?i = Some b" using get_bar_total [OF inv, of ?i] n by blast
  have "\<exists>t. on_space_changed vd (vh_notify_cfg d) (vh_config d) (vh_device d) = Some t"
  proof (cases "Option.bind b bar_address")
    case (Some a)
    then obtain bar where bar: "b = Some bar" "bar_address bar = Some a" by (cases b) auto
    have "unat a < 2 ^ 32" by (rule get_bar_address_bound [OF inv _ _ bar(2)]) (use n b bar in blast)+
    with n set_notification_total [OF bars_inv_wf [OF inv], of "vh_notify_cfg d" a vd "vh_device d"] Some b show ?thesis
      by (simp add: on_space_changed_def)
  qed (use b in \<open>simp add: on_space_changed_def\<close>)
  with SpaceChanged ok show ?thesis by (auto simp: vh_on_config_update_def)
qed

lemma virtio_device_model: "device_model (virtio_handler vd vq) virtio_ok"
proof (unfold_locales, goal_cases)
  case (4 d event)
  then show ?case using virtio_update_total [of d event vd] by (simp add: virtio_handler_def)
qed (simp_all add: virtio_handler_def virtio_ok_def default_dh_on_write_config_def)

interpretation virtio: device_model "virtio_handler vd vq" virtio_ok for vd vq
  by (rule virtio_device_model)

interpretation virtio_irq: composed_mechanism intx_handler "\<lambda>_. True" "\<lambda>_. True" no_interrupt "\<lambda>_. True" "\<lambda>_. True"
  msix_handler msix_fits "\<lambda>_. True"
  by unfold_locales

definition virtio_irq_ok :: "VirtioInterruptContext \<Rightarrow> bool" where
  "virtio_irq_ok = context_ok (\<lambda>_. True) (\<lambda>_. True) msix_fits"

lemma virtio_mechanism: "interrupt_mechanism virtio_interrupts virtio_irq_ok (\<lambda>_. True)"
  using virtio_irq.ctx.interrupt_mechanism_axioms by (simp add: virtio_interrupts_def virtio_irq_ok_def)

interpretation virtio_fn: pci_function "virtio_handler vd vq" virtio_ok virtio_interrupts virtio_irq_ok "\<lambda>_. True" for vd vq
  by (intro pci_function.intro virtio_device_model virtio_mechanism)

section \<open>BAR writes return unless the device panics\<close>

text \<open>
  The writes in which a method of the device panics: one of the device status that is not acknowledged, and
  one behind the notification structure whose notification fails.
\<close>

definition structure_write_panics :: "('t, 'q) virtio_device \<Rightarrow> 't VirtioDeviceHandler \<Rightarrow> PciBarIndex \<Rightarrow> u64 \<Rightarrow> bytes \<Rightarrow> bool" where
  "structure_write_panics vd d bar off data \<longleftrightarrow>
     (case offset_within_region (vc_info (vh_common_cfg d)) bar off (length data) of
        Some o' \<Rightarrow> common_write_panics vd o' data (vh_device d)
      | None \<Rightarrow> offset_within_region (vdc_info (vh_device_cfg d)) bar off (length data) = None \<and>
          offset_within_region (vn_info (vh_notify_cfg d)) bar off (length data) \<noteq> None \<and>
          vd_queue_notify vd (vh_device d) (ucast (from_le_bytes (padded data) :: u64)) = None)"

lemma region_write_common:
  assumes "common_wf cfg" and "unat (region_length (vc_info cfg)) < 2 ^ 32" and "length data \<le> 8"
  shows "if \<exists>o'. offset_within_region (vc_info cfg) bar off (length data) = Some o' \<and> common_write_panics vd o' data t
    then region_handle_write_bar vc_info (common_write_bar vd vq) cfg bar off data t = None
    else \<exists>r cfg' t'. region_handle_write_bar vc_info (common_write_bar vd vq) cfg bar off data t = Some (r, (cfg', t')) \<and>
      common_wf cfg' \<and> vc_info cfg' = vc_info cfg \<and>
      (r = Inr Unhandled \<longleftrightarrow> offset_within_region (vc_info cfg) bar off (length data) = None) \<and> (r = Inr Unhandled \<longrightarrow> t' = t)"
proof (cases "offset_within_region (vc_info cfg) bar off (length data)")
  case (Some o')
  then have "unat o' + 8 < 2 ^ 64" using assms(2) by (auto simp: offset_within_region_Some)
  from common_write_total [OF assms(1,3) this, of vd t vq] Some show ?thesis by (auto simp: region_handle_write_bar_def)
qed (use assms in \<open>simp add: region_handle_write_bar_def\<close>)

lemma region_write_device:
  "\<exists>r t'. region_handle_write_bar vdc_info (device_cfg_write_bar vd) dcfg bar off data t = Some (r, (dcfg, t')) \<and>
     (r = Inr Unhandled \<longleftrightarrow> offset_within_region (vdc_info dcfg) bar off (length data) = None) \<and> (r = Inr Unhandled \<longrightarrow> t' = t) \<and> \<not> isl r"
  by (auto simp: region_handle_write_bar_def device_cfg_write_bar_def split: option.split)

lemma region_write_notify:
  assumes "length data \<le> 8"
  shows "if offset_within_region (vn_info ncfg) bar off (length data) \<noteq> None \<and> vd_queue_notify vd t (ucast (from_le_bytes (padded data) :: u64)) = None
    then region_handle_write_bar vn_info (notify_write_bar vd) ncfg bar off data t = None
    else \<exists>r t'. region_handle_write_bar vn_info (notify_write_bar vd) ncfg bar off data t = Some (r, (ncfg, t'))"
  using assms by (auto simp: region_handle_write_bar_def notify_write_bar_def Let_def split: option.split)

lemma region_write_isr:
  "\<exists>r t'. region_handle_write_bar vi_region isr_write_bar icfg bar off data t = Some (r, (icfg, t'))"
  by (auto simp: region_handle_write_bar_def isr_write_bar_def split: option.split)

lemma vh_write_bar_total:
  assumes ok: "virtio_ok d" and len: "length data \<le> 8"
  shows "if structure_write_panics vd d bar off data then vh_write_bar vd vq d bar off data irq w = None
    else \<exists>r d'. vh_write_bar vd vq d bar off data irq w = Some (r, (d', w)) \<and> virtio_ok d' \<and> vh_config d' = vh_config d"
proof -
  let ?wr1 = "region_handle_write_bar vc_info (common_write_bar vd vq) (vh_common_cfg d) bar off data (vh_device d)"
  let ?common = "\<exists>o'. offset_within_region (vc_info (vh_common_cfg d)) bar off (length data) = Some o' \<and> common_write_panics vd o' data (vh_device d)"
  from ok have "common_wf (vh_common_cfg d)" "unat (region_length (vc_info (vh_common_cfg d))) < 2 ^ 32"
    by (simp_all add: virtio_ok_def)
  note first = region_write_common [OF this len, of bar off vd "vh_device d" vq]
  show ?thesis
  proof (cases ?common)
    case True
    with first have "?wr1 = None" by simp
    moreover have "structure_write_panics vd d bar off data" using True by (auto simp: structure_write_panics_def)
    ultimately show ?thesis by (simp add: vh_write_bar_def)
  next
    case False
    with first obtain r1 cfg t1 where s1: "?wr1 = Some (r1, (cfg, t1))" and cfg: "common_wf cfg" "vc_info cfg = vc_info (vh_common_cfg d)"
      and r1: "r1 = Inr Unhandled \<longleftrightarrow> offset_within_region (vc_info (vh_common_cfg d)) bar off (length data) = None"
        "r1 = Inr Unhandled \<longrightarrow> t1 = vh_device d" by auto
    let ?d = "d\<lparr>vh_common_cfg := cfg\<rparr>"
    have okd: "virtio_ok (?d\<lparr>vh_device := t\<rparr>)" for t using ok cfg by (simp add: virtio_ok_def)
    show ?thesis
    proof (cases "r1 = Inr Unhandled")
      case claimed: False
      then have "\<not> structure_write_panics vd d bar off data" using r1(1) False by (auto simp: structure_write_panics_def)
      with s1 claimed okd [of t1] show ?thesis
        by (auto simp: vh_write_bar_def Let_def split: sum.split PciHandlerResult.split)
    next
      case free: True
      from region_write_device [of vd "vh_device_cfg d" bar off data t1] obtain r2 t2 where
        s2: "region_handle_write_bar vdc_info (device_cfg_write_bar vd) (vh_device_cfg d) bar off data t1 = Some (r2, (vh_device_cfg d, t2))"
        and r2: "r2 = Inr Unhandled \<longleftrightarrow> offset_within_region (vdc_info (vh_device_cfg d)) bar off (length data) = None"
          "r2 = Inr Unhandled \<longrightarrow> t2 = t1" "\<not> isl r2" by auto
      show ?thesis
      proof (cases "r2 = Inr Unhandled")
        case claimed: False
        then have "\<not> structure_write_panics vd d bar off data" using r1(1) free r2(1) by (auto simp: structure_write_panics_def)
        with s1 free s2 claimed okd [of t2] r2(3) show ?thesis
          by (cases r2) (auto simp: vh_write_bar_def Let_def split: PciHandlerResult.split)
      next
        case free2: True
        then have panics: "structure_write_panics vd d bar off data \<longleftrightarrow>
            offset_within_region (vn_info (vh_notify_cfg d)) bar off (length data) \<noteq> None \<and>
            vd_queue_notify vd t2 (ucast (from_le_bytes (padded data) :: u64)) = None"
          using r1 free r2 by (auto simp: structure_write_panics_def)
        note third = region_write_notify [OF len, of "vh_notify_cfg d" bar off vd t2]
        note s1 = s1 [unfolded free] and s2 = s2 [unfolded free2]
        show ?thesis
        proof (cases "structure_write_panics vd d bar off data")
          case True
          with panics third show ?thesis by (simp add: vh_write_bar_def s1 s2 Let_def)
        next
          case False
          with panics third obtain r3 t3 where
            s3: "region_handle_write_bar vn_info (notify_write_bar vd) (vh_notify_cfg d) bar off data t2 = Some (r3, (vh_notify_cfg d, t3))"
            by auto
          from region_write_isr [of "vh_isr_cfg d" bar off data t3] obtain r4 t4 where
            s4: "region_handle_write_bar vi_region isr_write_bar (vh_isr_cfg d) bar off data t3 = Some (r4, (vh_isr_cfg d, t4))" by blast
          show ?thesis using False okd [of t3] okd [of t4]
            by (simp add: vh_write_bar_def s1 s2 s3 s4 Let_def split: sum.split PciHandlerResult.split)
        qed
      qed
    qed
  qed
qed

definition inner_ok :: "'t virtio_inner \<Rightarrow> bool" where
  "inner_ok f \<longleftrightarrow> bars_inv (vh_config (fn_device f)) \<and> virtio_ok (fn_device f) \<and> virtio_irq_ok (fn_interrupt f)"

lemma virtio_handler_config [simp]:
  "dh_config (virtio_handler vd vq) = vh_config" "dh_set_config (virtio_handler vd vq) = (\<lambda>c d. d\<lparr>vh_config := c\<rparr>)"
  "dh_write_bar (virtio_handler vd vq) = vh_write_bar vd vq" "dh_read_bar (virtio_handler vd vq) = vh_read_bar vd vq"
  by (simp_all add: virtio_handler_def)

lemma fn_ok_virtio: "fn_ok (virtio_handler vd vq) virtio_ok virtio_irq_ok f = inner_ok f"
  by (simp add: fn_ok_def fn_config_def inner_ok_def)

lemma inner_notify:
  assumes ok: "inner_ok f" and ev: "event_of (vh_config (fn_device f)) e"
  shows "\<exists>f'. fn_notify (virtio_handler vd vq) f e = Some (Inr (Some e), f') \<and> inner_ok f'"
proof -
  have "fn_ok (virtio_handler vd vq) virtio_ok virtio_irq_ok f" using ok by (simp add: fn_ok_virtio)
  moreover have "event_of (fn_config (virtio_handler vd vq) f) e" using ev by (simp add: fn_config_def)
  ultimately show ?thesis using virtio_fn.notify_total by (force simp: fn_ok_virtio)
qed

lemma handler_result_exhaust:
  fixes r :: "'a option PciHandlerResult result"
  shows "(\<exists>e. r = Inl e) \<or> (\<exists>e. r = Inr (Handled (Some e))) \<or> r = Inr (Handled None) \<or> r = Inr Unhandled"
  by (metis PciHandlerResult.exhaust not_None_eq obj_sumE)

text \<open>The interrupts are asked first, and a write they claim does not reach the structures.\<close>

definition bar_write_panics :: "('t, 'q) virtio_device \<Rightarrow> 't virtio_inner \<Rightarrow> PciBarIndex \<Rightarrow> u64 \<Rightarrow> bytes \<Rightarrow> bool" where
  "bar_write_panics vd f bar off data \<longleftrightarrow>
     map_option fst (ih_write_bar virtio_interrupts (fn_interrupt f) (vh_config (fn_device f)) (fn_controller f) bar off data) = Some (Inr Unhandled) \<and>
     structure_write_panics vd (fn_device f) bar off data"

lemma structure_write_panics_config [simp]:
  "structure_write_panics vd (d\<lparr>vh_config := c\<rparr>) bar off data = structure_write_panics vd d bar off data"
  by (simp add: structure_write_panics_def split: option.split)

lemma fn_write_bar_total:
  assumes ok: "inner_ok f" and len: "length data \<le> 8"
  shows "if bar_write_panics vd f bar off data then fn_write_bar (virtio_handler vd vq) virtio_interrupts f bar off data = None
    else \<exists>r f'. fn_write_bar (virtio_handler vd vq) virtio_interrupts f bar off data = Some (r, f') \<and> inner_ok f'"
proof -
  let ?dh = "virtio_handler vd vq"
  let ?c = "vh_config (fn_device f)"
  have inv: "bars_inv ?c" and okd: "virtio_ok (fn_device f)" and oki: "virtio_irq_ok (fn_interrupt f)"
    using ok by (simp_all add: inner_ok_def)
  from virtio_fn.im.write_bar_total [OF bars_inv_wf [OF inv] oki, of "fn_controller f" bar off data] obtain r i c ic where
    w: "ih_write_bar virtio_interrupts (fn_interrupt f) ?c (fn_controller f) bar off data = Some (r, (i, c, ic))"
      "virtio_irq_ok i" "mech_frame ?c c" "message_event r" by blast
  let ?d = "(fn_device f)\<lparr>vh_config := c\<rparr>"
  let ?f = "\<lparr>fn_controller = ic, fn_device = ?d, fn_interrupt = i\<rparr>"
  have inv': "bars_inv c" by (rule bars_inv_mech_frame [OF inv w(3)])
  have okd': "virtio_ok ?d" using virtio.set_ok [OF okd, of c] inv' w(3) by (simp add: mech_frame_def)
  have okf: "inner_ok ?f" using inv' okd' w(2) by (simp add: inner_ok_def)
  have start: "fn_write_bar ?dh virtio_interrupts f bar off data = (case r of
      Inl e \<Rightarrow> Some (Inl e, ?f)
    | Inr (Handled (Some e)) \<Rightarrow> fn_notify ?dh ?f e
    | Inr (Handled None) \<Rightarrow> Some (Inr None, ?f)
    | Inr Unhandled \<Rightarrow> do {
        active \<leftarrow> fn_active_interrupt ?dh virtio_interrupts ?f;
        (r, device, i, ic) \<leftarrow> vh_write_bar vd vq ?d bar off data
           \<lparr>ia_active = active, ia_signal = fn_signal virtio_interrupts\<rparr> (i, ic);
        let self = \<lparr>fn_controller = ic, fn_device = device, fn_interrupt = i\<rparr>;
        Some (case r of Inl e \<Rightarrow> Inl e | Inr _ \<Rightarrow> Inr None, self)
      })"
    using w(1) by (simp add: fn_write_bar_def Let_def split: sum.split PciHandlerResult.split option.split)
  consider (err) e where "r = Inl e" | (event) e where "r = Inr (Handled (Some e))" | (none) "r = Inr (Handled None)"
    | (other) "r = Inr Unhandled"
    using handler_result_exhaust [of r] by blast
  then show ?thesis
  proof cases
    case event
    with w(4) have ev: "event_of (vh_config (fn_device ?f)) e" by (auto simp: event_of_def message_event_def)
    from inner_notify [OF okf ev, where vd = vd and vq = vq] start event w(1) show ?thesis by (auto simp: bar_write_panics_def)
  next
    case other
    then have panics: "bar_write_panics vd f bar off data = structure_write_panics vd ?d bar off data"
      using w(1) by (simp add: bar_write_panics_def)
    from virtio_fn.im.active_total [OF bars_inv_wf [OF inv'] w(2)] obtain active where
      act: "fn_active_interrupt ?dh virtio_interrupts ?f = Some active" by (auto simp: fn_active_interrupt_def)
    from vh_write_bar_total [OF okd' len, of vd bar off vq "\<lparr>ia_active = active, ia_signal = fn_signal virtio_interrupts\<rparr>" "(i, ic)"]
    show ?thesis using start other act inv' w(2) panics by (auto simp: inner_ok_def split: if_splits)
  qed (use start okf w(1) in \<open>simp_all add: bar_write_panics_def\<close>)
qed

section \<open>Configuration writes return\<close>

text \<open>
  The function is well formed when its inner function is and the window capability lies in the space, behind a
  header at a multiple of four.
\<close>

definition function_ok :: "'t VirtioPciFunction \<Rightarrow> bool" where
  "function_ok self \<longleftrightarrow> inner_ok (vf_inner self) \<and> vf_pci_cfg self + 18 \<le> 256 \<and> vf_pci_cfg self mod 4 = 2"

lemma function_ok_wf: "function_ok self \<Longrightarrow> bars_inv (vf_config self) \<and> config_wf (vf_config self)"
  by (simp add: function_ok_def inner_ok_def vf_config_def)

lemma vf_get_bar_config: "vf_get_bar vd vq self i = get_bar (vf_config self) i"
  by (simp add: vf_get_bar_def fn_get_bar_def vf_config_def)

lemma inner_write_config_total:
  assumes ok: "inner_ok f" and bound: "offset + length data < 2 ^ 64"
  shows "\<exists>r f'. fn_write_config (virtio_handler vd vq) virtio_interrupts f offset data = Some (r, f') \<and> inner_ok f' \<and>
    keeps_layout (vh_config (fn_device f)) (vh_config (fn_device f')) \<and>
    (\<not> access_ok offset (length data) \<longrightarrow>
       (\<exists>e. r = Inl e) \<and> vh_config (fn_device f') = vh_config (fn_device f) \<and> fn_interrupt f' = fn_interrupt f \<and>
       fn_controller f' = fn_controller f)"
proof -
  have "fn_ok (virtio_handler vd vq) virtio_ok virtio_irq_ok f" using ok by (simp add: fn_ok_virtio)
  from virtio_fn.write_config_safe [OF this bound] show ?thesis by (simp add: fn_ok_virtio fn_config_def)
qed

lemma find_bar_total:
  assumes "function_ok self"
  shows "\<exists>r. find_bar_and_offset (vf_get_bar vd vq) self address sz mem = Some r"
proof -
  define bars where "bars i = the (get_bar (vf_config self) (PciBarIndex i))" for i
  have "i < 6 \<and> vf_get_bar vd vq self (PciBarIndex i) = Some (bars i)" if "i \<in> set [0..<6]" for i
    using that get_bar_total [of "vf_config self" "PciBarIndex i"] function_ok_wf [OF assms]
    by (auto simp: vf_get_bar_config bars_def)
  from find_bar_from_eq [of "[0..<6]" "vf_get_bar vd vq" self bars, OF this] show ?thesis by (simp add: find_bar_and_offset_def)
qed

definition mmio_write_panics :: "('t, 'q) virtio_device \<Rightarrow> 'q virtio_queue \<Rightarrow> 't VirtioPciFunction \<Rightarrow> u64 \<Rightarrow> bytes \<Rightarrow> bool" where
  "mmio_write_panics vd vq f address data \<longleftrightarrow>
     (\<exists>bar off. find_mmio_region (vf_get_bar vd vq) f address (of_nat (length data)) = Some (Some (bar, off)) \<and>
        bar_write_panics vd (vf_inner f) bar off data)"

definition pio_write_panics :: "('t, 'q) virtio_device \<Rightarrow> 'q virtio_queue \<Rightarrow> 't VirtioPciFunction \<Rightarrow> u16 \<Rightarrow> bytes \<Rightarrow> bool" where
  "pio_write_panics vd vq f port data \<longleftrightarrow>
     (\<exists>bar off. find_pio_region (vf_get_bar vd vq) f port (of_nat (length data)) = Some (Some (bar, off)) \<and>
        bar_write_panics vd (vf_inner f) bar (ucast off) data)"

lemma vf_write_bar_total:
  assumes "function_ok self" and "length data \<le> 8"
  shows "if bar_write_panics vd (vf_inner self) bar off data then vf_write_bar vd vq self bar off data = None
    else \<exists>r self'. vf_write_bar vd vq self bar off data = Some (r, self') \<and> function_ok self'"
  using fn_write_bar_total [of "vf_inner self" data vd bar off vq] assms
  by (auto simp: vf_write_bar_def on_inner_def function_ok_def)

lemma write_mmio_total:
  assumes "function_ok self" and "length data \<le> 8"
  shows "if mmio_write_panics vd vq self address data then write_mmio (vf_get_bar vd vq) (vf_write_bar vd vq) self address data = None
    else \<exists>r self'. write_mmio (vf_get_bar vd vq) (vf_write_bar vd vq) self address data = Some (r, self') \<and> function_ok self'"
proof -
  obtain r where r: "find_mmio_region (vf_get_bar vd vq) self address (of_nat (length data)) = Some r"
    using find_bar_total [OF assms(1), of vd vq address "of_nat (length data)" True] by (auto simp: find_mmio_region_def)
  show ?thesis
  proof (cases r)
    case None
    with r assms(1) show ?thesis by (simp add: write_mmio_def mmio_write_panics_def Let_def)
  next
    case (Some x)
    with r vf_write_bar_total [OF assms, of vd "fst x" "snd x" vq] show ?thesis
      by (cases x) (auto simp: write_mmio_def mmio_write_panics_def Let_def)
  qed
qed

lemma write_pio_total:
  assumes "function_ok self" and "length data \<le> 8"
  shows "if pio_write_panics vd vq self port data then write_pio (vf_get_bar vd vq) (vf_write_bar vd vq) self port data = None
    else \<exists>r self'. write_pio (vf_get_bar vd vq) (vf_write_bar vd vq) self port data = Some (r, self') \<and> function_ok self'"
proof -
  obtain r where r: "find_pio_region (vf_get_bar vd vq) self port (of_nat (length data)) = Some r"
    using find_bar_total [OF assms(1), of vd vq "ucast port" "ucast (of_nat (length data) :: u16)" False]
    by (auto simp: find_pio_region_def)
  show ?thesis
  proof (cases r)
    case None
    with r assms(1) show ?thesis by (simp add: write_pio_def pio_write_panics_def)
  next
    case (Some x)
    with r vf_write_bar_total [OF assms, of vd "fst x" "ucast (snd x)" vq] show ?thesis
      by (cases x) (auto simp: write_pio_def pio_write_panics_def)
  qed
qed

lemma window_reads:
  assumes "function_ok self"
  shows "cs_read_byte (vf_config self) (vf_pci_cfg self + REG_BAR) = Some (cs_registers (vf_config self) ! (vf_pci_cfg self + 2))"
    "access_params self = Some (dword_at (cs_registers (vf_config self)) (vf_pci_cfg self + 6),
       dword_at (cs_registers (vf_config self)) (vf_pci_cfg self + 10))"
    "length data = 4 \<Longrightarrow> get_pci_cfg_data self data = Some (take 4 (drop (vf_pci_cfg self + 14) (cs_registers (vf_config self))))"
  using function_ok_wf [OF assms] assms
  by (simp_all add: function_ok_def access_params_eq get_pci_cfg_data_eq pci_cfg_data_offset_eq option_simps
      cs_read_def read_register_def rb_read_def slice_read_def)

lemma cfg_find_bar_total:
  assumes "function_ok self"
  shows "\<exists>b. cfg_find_bar vd vq self = Some b \<and>
    (\<forall>bar a. b = Some bar \<longrightarrow> bar_address bar = Some a \<longrightarrow> unat a < 2 ^ 32)"
proof (cases "bar_index_try_from (unat (cs_registers (vf_config self) ! (vf_pci_cfg self + 2)))")
  case (Inl e)
  then show ?thesis by (simp add: cfg_find_bar_eq window_reads [OF assms, simplified])
next
  case (Inr i)
  then have i: "into_inner i < 6" by (auto simp: bar_index_try_from_def split: if_splits)
  obtain b where b: "get_bar (vf_config self) i = Some b"
    using get_bar_total [OF _ i] function_ok_wf [OF assms] by blast
  have small: "\<not> is_memory64 (bar_region_type b)" if "i < 6" "cs_bars (vf_config self) ! i = Some b" for i b
    using assms that by (auto simp: function_ok_def inner_ok_def virtio_ok_def vf_config_def)
  have "unat a < 2 ^ 32" if "b = Some bar" "bar_address bar = Some a" for bar a
    using get_bar_address_bound [of "vf_config self" i bar a] function_ok_wf [OF assms] small b that by blast
  with b Inr show ?thesis by (simp add: cfg_find_bar_eq window_reads [OF assms, simplified] vf_get_bar_config)
qed

text \<open>A write of the data register of the window panics when the access it describes does.\<close>

definition window_write_panics :: "('t, 'q) virtio_device \<Rightarrow> 'q virtio_queue \<Rightarrow> 't VirtioPciFunction \<Rightarrow> bool" where
  "window_write_panics vd vq f \<longleftrightarrow>
     (\<exists>bar a o' l data. cfg_find_bar vd vq f = Some (Some bar) \<and> bar_address bar = Some a \<and> access_params f = Some (o', l) \<and>
        get_pci_cfg_data f (replicate 4 0) = Some data \<and> unat l \<le> 4 \<and>
        (if bar_is_mem bar then mmio_write_panics vd vq f (a + ucast o') (take (unat l) data)
         else a + ucast o' \<le> 0xFFFF \<and> pio_write_panics vd vq f (ucast (a + ucast o')) (take (unat l) data)))"

lemma cfg_process_write_total:
  assumes ok: "function_ok self"
  shows "if cfg_should_handle_access self offset sz \<and> window_write_panics vd vq self then cfg_process_write vd vq self offset sz = None
    else \<exists>r self'. cfg_process_write vd vq self offset sz = Some (r, self') \<and> function_ok self'"
proof (cases "cfg_should_handle_access self offset sz")
  case True
  from cfg_find_bar_total [OF ok, of vd vq] obtain b where b: "cfg_find_bar vd vq self = Some b"
    "\<And>bar a. b = Some bar \<Longrightarrow> bar_address bar = Some a \<Longrightarrow> unat a < 2 ^ 32" by blast
  show ?thesis
  proof (cases "Option.bind b bar_address")
    case None
    with True b(1) ok show ?thesis
      by (cases b) (auto simp: cfg_process_write_eq window_write_panics_def window_reads [OF ok])
  next
    case (Some a)
    then obtain bar where bar: "b = Some bar" "bar_address bar = Some a" by (cases b) auto
    let ?w = "dword_at (cs_registers (vf_config self)) (vf_pci_cfg self + 6)"
    let ?n = "unat (dword_at (cs_registers (vf_config self)) (vf_pci_cfg self + 10))"
    let ?data = "take ?n (take 4 (drop (vf_pci_cfg self + 14) (cs_registers (vf_config self))))"
    have "unat ?w < 2 ^ 32" using unsigned_less [of ?w, where ?'a = nat] by simp
    with b(2) [OF bar] have sum: "unat a + unat ?w < 2 ^ 64" by simp
    have len: "length ?data \<le> 8" by simp
    let ?a = "a + ucast ?w :: u64"
    have panics: "window_write_panics vd vq self \<longleftrightarrow> ?n \<le> 4 \<and>
        (if bar_is_mem bar then mmio_write_panics vd vq self ?a ?data else ?a \<le> 0xFFFF \<and> pio_write_panics vd vq self (ucast ?a) ?data)"
      using b(1) bar unfolding window_write_panics_def by (simp add: window_reads [OF ok])
    note m = write_mmio_total [OF ok len, of vd vq ?a] and p = write_pio_total [OF ok len, of vd vq "ucast ?a"]
    have eq: "cfg_process_write vd vq self offset sz =
      (if ?n > 4 then Some (True, self)
       else do {
         self \<leftarrow> (if bar_is_mem bar then map_option snd (write_mmio (vf_get_bar vd vq) (vf_write_bar vd vq) self ?a ?data)
                  else if ?a > 0xFFFF then Some self
                  else map_option snd (write_pio (vf_get_bar vd vq) (vf_write_bar vd vq) self (ucast ?a) ?data));
         Some (True, self)
       })"
      using True b(1) bar sum by (simp add: cfg_process_write_eq window_reads [OF ok] Let_def)
    show ?thesis
    proof (cases "?n \<le> 4 \<and> (bar_is_mem bar \<or> ?a \<le> 0xFFFF)")
      case False
      with True panics eq ok show ?thesis by (auto simp: not_le)
    next
      case inside: True
      show ?thesis unfolding eq panics using inside True m p by (auto simp: not_le not_less split: if_splits)
    qed
  qed
qed (use ok in \<open>auto simp: cfg_process_write_eq\<close>)

end
