(* ===== verification/Virtio_Build.thy ===== *)
theory Virtio_Build
  imports Config_Steps Virtio_Pci
begin

text \<open>
  The construction of a virtio PCI function (\<open>VirtioPciFunction::new\<close> of \<open>pci.rs\<close>): it succeeds for every
  device, and its result satisfies the invariant under which configuration writes, BAR writes and interrupt
  signals return.
\<close>

section \<open>The steps of the construction\<close>

lemma caps_inv_built:
  assumes "bars_inv c" and "cs_registers c ! 0x34 = 0" and "\<forall>k < 256. cs_writable_bits c ! k = (if k = 0xC then 0xFF else 0)"
  shows "caps_inv c []"
  using assms by (simp add: caps_inv_def caps_end_def)

lemma add_capability_step:
  assumes "bars_inv c" and "caps_inv c es" and "capability_contract cap"
    and "caps_add es (capability_id_u8 (cap_id cap)) (cap_size cap) = Some es'"
  shows "\<exists>c'. add_capability c cap = Some (Inr (align_dword (caps_end es) + 2), c') \<and> bars_inv c' \<and> caps_inv c' es' \<and>
    cs_bars c' = cs_bars c"
  using add_capability_effect [OF assms(2,3) refl refl] bars_inv_add_capability [OF assms(1-3)] assms(4) by blast

lemma allow_bus_master_step:
  assumes "bars_inv c" and "caps_inv c es"
  shows "\<exists>c'. allow_bus_master c = Some c' \<and> bars_inv c' \<and> caps_inv c' es \<and> cs_bars c' = cs_bars c"
  using allow_bus_master_effect [of c] bars_inv_allow_bus_master [OF assms(1)] caps_inv_allow_bus_master [OF assms(2)] assms(1)
  by simp

definition virtio_bar :: PciBar where
  "virtio_bar = \<lparr>bar_address = None, bar_size = 0x8000, bar_index = PciBarIndex 0,
     bar_region_type = Memory32Bit NotPrefetchable\<rparr>"

lemma add_bar_step:
  assumes inv: "bars_inv c" "caps_inv c es" and "cs_bars c = replicate 6 None" and "cs_registers c ! 0xE = 0"
  shows "\<exists>c'. add_bar c virtio_bar = Some (Inr (), c') \<and> bars_inv c' \<and> caps_inv c' es \<and>
    cs_bars c' = [Some virtio_bar, None, None, None, None, None]"
proof -
  have wf: "config_wf c" using inv(1) by simp
  have valid: "validate_bar_size virtio_bar = Inr ()" "validate_bar_region virtio_bar = Inr ()" by code_simp+
  have "\<exists>c'. add_bar c virtio_bar = Some (Inr (), c')"
    using wf assms(3,4) valid
    by (simp add: add_bar_def validate_header_support_def option_simps bind_result_def virtio_bar_def Let_def
        max_num_bars_def prev_bar_is_64bit_def add_bar_mask_def set_writable_dword_def add_writable_word_def)
  then obtain c' where c': "add_bar c virtio_bar = Some (Inr (), c')" ..
  moreover have "cs_bars c' = (replicate 6 None)[0 := Some virtio_bar]"
    using add_bar_effect(3) [OF wf c' refl] assms(3) by (simp add: virtio_bar_def)
  ultimately show ?thesis using bars_inv_add_bar [OF inv(1) c'] caps_inv_add_bar [OF inv(2) c']
    by (simp add: eval_nat_numeral)
qed

lemma intx_build_step:
  assumes inv: "bars_inv c" "caps_inv c es"
  shows "\<exists>c'. intx_build cfg c = Some (\<lparr>ix_line_config = ixc_line_config cfg, ix_disabled = True\<rparr>, c') \<and> bars_inv c' \<and>
    caps_inv c' es \<and> cs_bars c' = cs_bars c"
proof -
  have wf: "config_wf c" using inv(1) by simp
  let ?c = "c\<lparr>cs_registers := patch (cs_registers c) 0x3D [intx_pin_u8 (ixc_pin cfg)],
    cs_writable_bits := patch (or_patch (cs_writable_bits c) 4 (to_le_bytes (0x400 :: u16))) 0x3C [0xFF]\<rparr>"
  have "intx_build cfg c = Some (\<lparr>ix_line_config = ixc_line_config cfg, ix_disabled = True\<rparr>, ?c)"
    using wf by (simp add: intx_build_def init_intx_def add_writable_word_def set_writable_byte_def option_simps)
  moreover have "bars_inv ?c"
  proof (rule bars_inv_frame [OF inv(1)])
    have "word_at (cs_writable_bits c) 4 AND NOT (word_at (cs_writable_bits c) 4 OR 0x400) = 0"
      by (rule sub_mask_or) simp
    then show "word_at (cs_writable_bits c) 4 AND NOT (word_at (cs_writable_bits ?c) 4) = 0"
      using wf by (simp del: bit.de_Morgan_disj)
  qed (use wf in \<open>simp_all add: bar_reg_def fixed_bits_def\<close>)
  moreover have "caps_inv ?c es"
  proof (rule caps_inv_frame [OF inv(2)])
    have lay: "caps_layout 0x40 es" using inv(2) by (simp add: caps_inv_def)
    have start: "0x40 \<le> ent_start e" if "e \<in> set es" for e using caps_layout_entry(1) [OF lay that] .
    show "cs_writable_bits ?c ! k = cs_writable_bits c ! k" if "k < 256"
      "k = 0x34 \<or> k = 6 \<or> (\<exists>e \<in> set es. k = ent_start e \<or> k = ent_start e + 1) \<or> caps_end es \<le> k" for k
    proof -
      have "6 \<le> k \<and> k \<noteq> 0x3C" using that start caps_end_ge [OF lay] by fastforce
      then show ?thesis using that(1) wf by (auto simp: nth_patch nth_or_patch_other)
    qed
    show "cs_registers ?c ! k = cs_registers c ! k" if "k < 256"
      "k = 0x34 \<or> (\<exists>e \<in> set es. k = ent_start e \<or> k = ent_start e + 1)" for k
    proof -
      have "k \<noteq> 0x3D" using that start by fastforce
      then show ?thesis using that(1) wf by (auto simp: nth_patch)
    qed
  qed (use wf in \<open>simp_all add: nth_patch\<close>)
  ultimately show ?thesis by simp
qed

section \<open>The constructed function\<close>

text \<open>The capability list of a new function: common, ISR, device, notification and window structures, then MSI-X.\<close>

definition virtio_caps :: "cap_entry list" where
  "virtio_caps = [\<lparr>ent_id = 9, ent_start = 0x40, ent_size = 14\<rparr>, \<lparr>ent_id = 9, ent_start = 0x50, ent_size = 14\<rparr>,
     \<lparr>ent_id = 9, ent_start = 0x60, ent_size = 14\<rparr>, \<lparr>ent_id = 9, ent_start = 0x70, ent_size = 18\<rparr>,
     \<lparr>ent_id = 9, ent_start = 0x84, ent_size = 18\<rparr>, \<lparr>ent_id = 0x11, ent_start = 0x98, ent_size = 10\<rparr>]"

lemma caps_add_step:
  "caps_add (take 0 virtio_caps) 9 14 = Some (take 1 virtio_caps)"
  "caps_add (take 1 virtio_caps) 9 14 = Some (take 2 virtio_caps)"
  "caps_add (take 2 virtio_caps) 9 14 = Some (take 3 virtio_caps)"
  "caps_add (take 3 virtio_caps) 9 18 = Some (take 4 virtio_caps)"
  "caps_add (take 4 virtio_caps) 9 18 = Some (take 5 virtio_caps)"
  "caps_add (take 5 virtio_caps) 0x11 10 = Some (take 6 virtio_caps)"
  by (simp_all add: virtio_caps_def caps_add_def caps_end_def align_dword_def)

lemma caps_end_step:
  "align_dword (caps_end (take 3 virtio_caps)) = 0x70" "align_dword (caps_end (take 4 virtio_caps)) = 0x84"
  "align_dword (caps_end (take 5 virtio_caps)) = 0x98"
  by (simp_all add: virtio_caps_def caps_end_def align_dword_def)

text \<open>The space after the first \<open>n\<close> capabilities.\<close>

definition built :: "nat \<Rightarrow> config_space \<Rightarrow> bool" where
  "built n c \<longleftrightarrow> bars_inv c \<and> caps_inv c (take n virtio_caps) \<and> cs_bars c = [Some virtio_bar, None, None, None, None, None]"

lemma built_add:
  assumes "built n c" and "capability_contract cap"
    and "caps_add (take n virtio_caps) (capability_id_u8 (cap_id cap)) (cap_size cap) = Some (take m virtio_caps)"
  obtains c' where "add_capability c cap = Some (Inr (align_dword (caps_end (take n virtio_caps)) + 2), c')" and "built m c'"
  using add_capability_step [OF _ _ assms(2,3), of c] assms(1) by (auto simp: built_def)

lemma built_msix:
  assumes "built 5 c"
  obtains c' where "msix_build
      \<lparr>xcfg_msix_info = \<lparr>region_bar = PciBarIndex 0, region_offset = 0x4000, region_length = 0x1000\<rparr>,
       xcfg_pba_info = \<lparr>region_bar = PciBarIndex 0, region_offset = 0x5000, region_length = 0x1000\<rparr>\<rparr>
      c (replicate 32 entry_default) [\<lparr>pba_pending_bits = 0\<rparr>] =
    Some (Inr \<lparr>mx_msix_info = \<lparr>region_bar = PciBarIndex 0, region_offset = 0x4000, region_length = 0x1000\<rparr>,
      mx_pba_info = \<lparr>region_bar = PciBarIndex 0, region_offset = 0x5000, region_length = 0x1000\<rparr>,
      mx_msix_table = replicate 32 entry_default, mx_pba_table = [\<lparr>pba_pending_bits = 0\<rparr>], mx_cap_offset = 0x9A\<rparr>, c')"
    and "built 6 c'"
proof -
  have "\<exists>cap. msix_cap_new \<lparr>region_bar = PciBarIndex 0, region_offset = 0x4000, region_length = 0x1000\<rparr>
      (replicate 32 entry_default) \<lparr>region_bar = PciBarIndex 0, region_offset = 0x5000, region_length = 0x1000\<rparr>
      [\<lparr>pba_pending_bits = 0\<rparr>] = Inr cap"
    by (simp add: msix_cap_new_def Let_def)
  then obtain cap where cap: "msix_cap_new \<lparr>region_bar = PciBarIndex 0, region_offset = 0x4000, region_length = 0x1000\<rparr>
      (replicate 32 entry_default) \<lparr>region_bar = PciBarIndex 0, region_offset = 0x5000, region_length = 0x1000\<rparr>
      [\<lparr>pba_pending_bits = 0\<rparr>] = Inr cap" ..
  obtain c1 where c1: "allow_bus_master c = Some c1" "built 5 c1"
    using allow_bus_master_step [of c "take 5 virtio_caps"] assms by (auto simp: built_def)
  obtain c' where "add_capability c1 (msix_capability cap) = Some (Inr 0x9A, c')" "built 6 c'"
    by (rule built_add [OF c1(2) msix_capability_contract [of cap], of 6])
      (simp_all add: msix_capability_def caps_add_step caps_end_step)
  with c1(1) cap show thesis by (intro that [of c']) (simp_all add: msix_build_def bind_result_def)
qed

lemma built_small:
  assumes "built n c" and "i < 6" and "cs_bars c ! i = Some b"
  shows "\<not> is_memory64 (bar_region_type b)"
proof -
  have "Some b \<in> set (cs_bars c)" using assms by (metis built_def bars_inv_wf config_wf_lengths(3) nth_mem)
  then show ?thesis using assms(1) by (auto simp: built_def virtio_bar_def)
qed

lemma built_structures:
  assumes c1: "built 0 c1"
  obtains c2 o3 c3 o4 c4 c5 c6 where
    "add_capability c1 (common_cfg_cap 0 0 (of_nat VIRTIO_COMMON_CFG_SIZE)) = Some (Inr 0x42, c2)"
    and "add_capability c2 (isr_cfg_cap 0 0x1000 1) = Some (Inr o3, c3)"
    and "add_capability c3 (device_cfg_cap 0 0x2000 0x1000) = Some (Inr o4, c4)"
    and "add_capability c4 (notify_cfg_cap (notify_cap_new 0 0x3000 0x1000 (Some 4))) = Some (Inr 0x72, c5)"
    and "add_capability c5 (pci_cfg_cap pci_cfg_cap_new) = Some (Inr 0x86, c6)" and "built 5 c6"
proof -
  obtain c2 where c2: "add_capability c1 (common_cfg_cap 0 0 (of_nat VIRTIO_COMMON_CFG_SIZE)) = Some (Inr 0x42, c2)" "built 1 c2"
    by (rule built_add [OF c1 virtio_base.capability_contract_axioms, of _ 1, folded common_cfg_cap_def])
      (simp_all add: common_cfg_cap_def virtio_cap_def caps_add_step [simplified] caps_end_def align_dword_def)
  obtain o3 c3 where c3: "add_capability c2 (isr_cfg_cap 0 0x1000 1) = Some (Inr o3, c3)" "built 2 c3"
    by (rule built_add [OF c2(2) virtio_base.capability_contract_axioms, of _ 2, folded isr_cfg_cap_def])
      (simp_all add: isr_cfg_cap_def virtio_cap_def caps_add_step [simplified])
  obtain o4 c4 where c4: "add_capability c3 (device_cfg_cap 0 0x2000 0x1000) = Some (Inr o4, c4)" "built 3 c4"
    by (rule built_add [OF c3(2) virtio_base.capability_contract_axioms, of _ 3, folded device_cfg_cap_def])
      (simp_all add: device_cfg_cap_def virtio_cap_def caps_add_step)
  obtain c5 where c5: "add_capability c4 (notify_cfg_cap (notify_cap_new 0 0x3000 0x1000 (Some 4))) = Some (Inr 0x72, c5)" "built 4 c5"
    by (rule built_add [OF c4(2) virtio_notify.capability_contract_axioms, of "notify_cap_new 0 0x3000 0x1000 (Some 4)" 4])
      (simp_all add: notify_cfg_cap_def caps_add_step caps_end_step)
  obtain c6 where c6: "add_capability c5 (pci_cfg_cap pci_cfg_cap_new) = Some (Inr 0x86, c6)" "built 5 c6"
    by (rule built_add [OF c5(2) virtio_pci_cfg.capability_contract_axioms, of 5])
      (simp_all add: pci_cfg_cap_def pci_cfg_cap_new_def caps_add_step caps_end_step)
  from c2(1) c3(1) c4(1) c5(1) c6 show thesis by (rule that)
qed

lemma virtio_new_Some:
  fixes vd :: "('t, 'q) virtio_device"
  assumes id: "unat (ucast (vd_device_type vd device) :: u16) + 0x1040 < 2 ^ 16"
  obtains f where "virtio_function_new vd class_base class_sub line ic device = Some (Inr f)" and "function_ok f"
    and "built 6 (vf_config f)" and "vf_pci_cfg f = 0x86" and "vh_device (fn_device (vf_inner f)) = device"
    and "vc_info (vh_common_cfg (fn_device (vf_inner f))) =
      \<lparr>region_bar = PciBarIndex 0, region_offset = 0, region_length = of_nat VIRTIO_COMMON_CFG_SIZE\<rparr>"
proof -
  let ?id = "0x1040 + ucast (vd_device_type vd device) :: u16"
  obtain c0 where c0: "build_function 0x1AF4 ?id 1 class_base class_sub 0 0x1AF4 ?id False = Some c0" "bars_inv c0"
    "cs_bars c0 = replicate 6 None" "cs_registers c0 ! 0xE = 0" "caps_inv c0 []"
    by (rule build_function_Some [of "0x1AF4" ?id 1 class_base class_sub 0 "0x1AF4" ?id False]) (simp add: caps_inv_built)
  obtain c1 where c1: "add_bar c0 virtio_bar = Some (Inr (), c1)" "built 0 c1"
    using add_bar_step [OF c0(2,5,3,4)] by (auto simp: built_def)
  obtain c2 o3 c3 o4 c4 c5 c6 where caps:
    "add_capability c1 (common_cfg_cap 0 0 (of_nat VIRTIO_COMMON_CFG_SIZE)) = Some (Inr 0x42, c2)"
    "add_capability c2 (isr_cfg_cap 0 0x1000 1) = Some (Inr o3, c3)"
    "add_capability c3 (device_cfg_cap 0 0x2000 0x1000) = Some (Inr o4, c4)"
    "add_capability c4 (notify_cfg_cap (notify_cap_new 0 0x3000 0x1000 (Some 4))) = Some (Inr 0x72, c5)"
    "add_capability c5 (pci_cfg_cap pci_cfg_cap_new) = Some (Inr 0x86, c6)" and c6: "built 5 c6"
    by (rule built_structures [OF c1(2)])
  obtain msix c7 where c7: "msix_build
      \<lparr>xcfg_msix_info = \<lparr>region_bar = PciBarIndex 0, region_offset = 0x4000, region_length = 0x1000\<rparr>,
       xcfg_pba_info = \<lparr>region_bar = PciBarIndex 0, region_offset = 0x5000, region_length = 0x1000\<rparr>\<rparr>
      c6 (replicate 32 entry_default) [\<lparr>pba_pending_bits = 0\<rparr>] = Some (Inr msix, c7)" "msix_fits msix" "built 6 c7"
    by (rule built_msix [OF c6]) (simp add: msix_fits_def)
  obtain intx c8 where c8: "intx_build \<lparr>ixc_pin = IntA, ixc_line_config = line\<rparr> c7 = Some (intx, c8)" "built 6 c8"
    using intx_build_step [of c7 "take 6 virtio_caps" "\<lparr>ixc_pin = IntA, ixc_line_config = line\<rparr>"] c7(3) by (auto simp: built_def)
  let ?f = "\<lparr>vf_inner = \<lparr>fn_controller = ic, fn_device =
      \<lparr>vh_config = c8, vh_common_cfg = common_cfg_new (PciBarIndex 0) 0 (of_nat VIRTIO_COMMON_CFG_SIZE),
       vh_device_cfg = \<lparr>vdc_info = \<lparr>region_bar = PciBarIndex 0, region_offset = 0x2000, region_length = 0x1000\<rparr>\<rparr>,
       vh_isr_cfg = \<lparr>vi_region = \<lparr>region_bar = PciBarIndex 0, region_offset = 0x1000, region_length = 1\<rparr>\<rparr>,
       vh_notify_cfg = \<lparr>vn_cap_offset = 0x72, vn_info = \<lparr>region_bar = PciBarIndex 0, region_offset = 0x3000, region_length = 0x1000\<rparr>\<rparr>,
       vh_device = device\<rparr>, fn_interrupt = \<lparr>ctx_intx = intx, ctx_msi = (), ctx_msix = msix\<rparr>\<rparr>, vf_pci_cfg = 0x86\<rparr>"
  have build: "builder_new \<bind> (\<lambda>b. with_id b 0x1AF4 ?id 1 \<bind> (\<lambda>b. with_class b class_base class_sub 0 \<bind>
      (\<lambda>b. with_subsystem_id b 0x1AF4 ?id \<bind> builder_build))) = Some c0"
    using c0(1) by (simp add: build_function_def)
  have new: "virtio_function_new vd class_base class_sub line ic device = Some (Inr ?f)"
    using id build c1(1) [unfolded virtio_bar_def] caps c7(1) c8(1)
    by (auto simp: virtio_function_new_def Let_def bind_result_def bind_eq_Some_conv)
  have "function_ok ?f" using c8(2) c7(2) built_small [OF c8(2)]
    by (simp add: function_ok_def inner_ok_def virtio_ok_def virtio_irq_ok_def context_ok_def built_def common_wf_new)
      (simp add: common_cfg_new_def)
  with new c8(2) show thesis by (intro that [of ?f]) (simp_all add: vf_config_def common_cfg_new_def)
qed

text \<open>A device of type 1, which counts the notifications of queue zero and panics at others, for the witnesses.\<close>

definition sample_device :: "(nat, nat) virtio_device" where
  "sample_device =
     \<lparr>vd_device_type = (\<lambda>_. 1), vd_device_features = (\<lambda>_. 0x100000000), vd_driver_features = (\<lambda>_. 0),
      vd_set_driver_features = (\<lambda>d _ _. d), vd_num_queues = (\<lambda>_. 1), vd_device_status = (\<lambda>_. 0),
      vd_ack_device_status = (\<lambda>d _. Some d), vd_config_generation = (\<lambda>_. 0), vd_queue_select = (\<lambda>_. 0),
      vd_set_queue_select = (\<lambda>d _. d), vd_queue = (\<lambda>_ _. None), vd_queue_mut = (\<lambda>_ _. None),
      vd_set_queue = (\<lambda>d _ _. d), vd_read_config = (\<lambda>_ _ data. data), vd_write_config = (\<lambda>d _ _. d),
      vd_config_msix_vector = (\<lambda>_. 0xFFFF), vd_set_config_msix_vector = (\<lambda>d _. d), vd_set_msi_message = (\<lambda>d _ _. d),
      vd_queue_msix_vector = (\<lambda>_. None), vd_set_queue_msix_vector = (\<lambda>d _. d), vd_read_and_clear_isr = (\<lambda>d. (0, d)),
      vd_set_notification_info = (\<lambda>d _. d), vd_queue_notify = (\<lambda>d n. if n = 0 then Some (d + 1) else None)\<rparr>"

definition sample_queue :: "nat virtio_queue" where
  "sample_queue =
     \<lparr>vq_size = (\<lambda>_. 256), vq_ready = (\<lambda>_. False), vq_desc_table = (\<lambda>_. 0), vq_avail_ring = (\<lambda>_. 0),
      vq_used_ring = (\<lambda>_. 0), vq_set_size = (\<lambda>q _. q), vq_set_ready = (\<lambda>q _. q),
      vq_set_desc_table_address = (\<lambda>q _ _. q), vq_set_avail_ring_address = (\<lambda>q _ _. q),
      vq_set_used_ring_address = (\<lambda>q _ _. q), vq_reset = (\<lambda>_. 0)\<rparr>"

lemma sample_new:
  obtains f where "virtio_function_new sample_device 2 0 LineRegister ic 0 = Some (Inr f)" and "function_ok f"
  by (rule virtio_new_Some [of sample_device 0 2 0 LineRegister ic]) (simp_all add: sample_device_def)

section \<open>Properties\<close>

text \<open>
  C27: Constructing a virtio function. For every device whose type leaves room in the device identifier the
  construction succeeds; the new function satisfies the invariant, has one 32-bit BAR, its six
  capabilities form the list a driver walks, and the window capability is the fifth. For other
  device types the sum of the identifier overflows and the construction panics.
\<close>

theorem virtio_construction:
  fixes vd :: "('t, 'q) virtio_device"
  shows "if unat (ucast (vd_device_type vd device) :: u16) + 0x1040 < 2 ^ 16
    then \<exists>f. virtio_function_new vd class_base class_sub line ic device = Some (Inr f) \<and> function_ok f \<and>
      caps_inv (vf_config f) virtio_caps \<and> cs_bars (vf_config f) = [Some virtio_bar, None, None, None, None, None] \<and>
      vf_pci_cfg f = ent_start (virtio_caps ! 4) + 2 \<and> vh_device (fn_device (vf_inner f)) = device
    else virtio_function_new vd class_base class_sub line ic device = None"
proof (cases "unat (ucast (vd_device_type vd device) :: u16) + 0x1040 < 2 ^ 16")
  case True
  obtain f where f: "virtio_function_new vd class_base class_sub line ic device = Some (Inr f)" "function_ok f"
    "built 6 (vf_config f)" "vf_pci_cfg f = 0x86" "vh_device (fn_device (vf_inner f)) = device"
    using virtio_new_Some [OF True] by metis
  then have "caps_inv (vf_config f) virtio_caps" by (simp add: built_def virtio_caps_def)
  with True f show ?thesis by (simp add: built_def) (simp add: virtio_caps_def)
qed (simp add: virtio_function_new_def Let_def)

text \<open>
  The configuration write that panics: it covers the data register of the window, and the access the window
  then describes is one in which a method of the device panics.
\<close>

definition config_write_panics :: "('t, 'q) virtio_device \<Rightarrow> 'q virtio_queue \<Rightarrow> 't VirtioPciFunction \<Rightarrow> usize \<Rightarrow> bytes \<Rightarrow> bool" where
  "config_write_panics vd vq self offset data \<longleftrightarrow>
     cfg_should_handle_access self offset (length data) \<and>
     (\<exists>u f. fn_write_config (virtio_handler vd vq) virtio_interrupts (vf_inner self) offset data = Some (Inr u, f) \<and>
        window_write_panics vd vq (self\<lparr>vf_inner := f\<rparr>))"

lemma should_handle_inner [simp]:
  "cfg_should_handle_access (self\<lparr>vf_inner := f\<rparr>) offset sz = cfg_should_handle_access self offset sz"
  by (simp add: cfg_should_handle_access_eq pci_cfg_data_offset_eq)

text \<open>
  C26: Guest writes to the configuration space of a virtio function. Whatever a driver writes, also through the
  window, which turns the write into a BAR write at an offset of its choice, the function returns and
  keeps its invariant, with one exception: the write panics exactly when it covers the data register of
  the window, and the access the window describes reaches the device status or the notifications, and there the
  device panics when it acknowledges the status or is notified. An access the space rejects leaves the
  space, the interrupts and the controller as they were.
\<close>

theorem virtio_config_write_safe:
  assumes "function_ok self" and "offset + length data < 2 ^ 64"
  shows "if config_write_panics vd vq self offset data then vf_write_config vd vq self offset data = None
    else \<exists>r self'. vf_write_config vd vq self offset data = Some (r, self') \<and> function_ok self' \<and>
      (\<not> access_ok offset (length data) \<longrightarrow>
         (\<exists>e. r = Inl e) \<and> vf_config self' = vf_config self \<and> fn_interrupt (vf_inner self') = fn_interrupt (vf_inner self) \<and>
         fn_controller (vf_inner self') = fn_controller (vf_inner self))"
proof -
  have "inner_ok (vf_inner self)" using assms(1) by (simp add: function_ok_def)
  from inner_write_config_total [OF this assms(2), of vd vq] obtain r f where
    f: "fn_write_config (virtio_handler vd vq) virtio_interrupts (vf_inner self) offset data = Some (r, f)" "inner_ok f"
    "\<not> access_ok offset (length data) \<Longrightarrow> (\<exists>e. r = Inl e) \<and> vh_config (fn_device f) = vf_config self \<and>
       fn_interrupt f = fn_interrupt (vf_inner self) \<and> fn_controller f = fn_controller (vf_inner self)"
    by (auto simp: vf_config_def)
  let ?self = "self\<lparr>vf_inner := f\<rparr>"
  have ok: "function_ok ?self" using f(2) assms(1) by (simp add: function_ok_def)
  show ?thesis
  proof (cases r)
    case (Inl e)
    with f ok show ?thesis by (auto simp: config_write_panics_def vf_write_config_def on_inner_def bind_result_def vf_config_def)
  next
    case (Inr u)
    with f(1) have panics: "config_write_panics vd vq self offset data \<longleftrightarrow>
        cfg_should_handle_access ?self offset (length data) \<and> window_write_panics vd vq ?self"
      by (simp add: config_write_panics_def)
    have "access_ok offset (length data)" using f(3) Inr by blast
    with cfg_process_write_total [OF ok, of offset "length data" vd vq] f(1) Inr show ?thesis
      unfolding panics by (auto simp: vf_write_config_def on_inner_def bind_result_def)
  qed
qed

lemma virtio_config_write_safe_witness:
  "\<exists>f r f'. virtio_function_new sample_device 2 0 LineRegister [] 0 = Some (Inr f) \<and>
     vf_write_config sample_device sample_queue f 4 [6, 0] = Some (r, f') \<and> function_ok f'"
proof -
  obtain f where f: "virtio_function_new sample_device 2 0 LineRegister [] 0 = Some (Inr f)" "function_ok f" "vf_pci_cfg f = 0x86"
    by (rule virtio_new_Some [of sample_device 0 2 0 LineRegister "[]"]) (simp_all add: sample_device_def)
  have "\<not> config_write_panics sample_device sample_queue f 4 [6, 0]"
    using f(3) by (simp add: config_write_panics_def cfg_should_handle_access_eq pci_cfg_data_offset_eq range_overlaps_def checked_add_def)
  with virtio_config_write_safe [OF f(2), of 4 "[6, 0]" sample_device sample_queue] f(1) show ?thesis by auto
qed

text \<open>
  Memory writes to a virtio function: a write of up to eight bytes, at any address, either finds no BAR
  and is rejected, or is carried out by the function; in both cases it returns and the invariant
  is kept, unless it is one in which the device panics.
\<close>

theorem virtio_mmio_write_safe:
  assumes "function_ok self" and "length data \<le> 8"
  shows "if mmio_write_panics vd vq self address data then write_mmio (vf_get_bar vd vq) (vf_write_bar vd vq) self address data = None
    else \<exists>r self'. write_mmio (vf_get_bar vd vq) (vf_write_bar vd vq) self address data = Some (r, self') \<and> function_ok self' \<and>
      (find_mmio_region (vf_get_bar vd vq) self address (of_nat (length data)) = Some None \<longrightarrow>
         r = Inl (BarNotFound address (of_nat (length data))) \<and> self' = self)"
  using write_mmio_total [OF assms, of vd vq address] by (auto simp: write_mmio_def Let_def)

text \<open>
  The address of a queue notification: the start of the notification structure plus the product of queue
  offset and multiplier, and none when that is not inside the structure; the computation panics exactly
  when one of the two sums leaves 64 bits.
\<close>

theorem notification_address:
  "(notification_gpa info m = None \<longleftrightarrow>
      2 ^ 64 \<le> unat (ninfo_bar_gpa info) + unat (ninfo_queue_notify_off info) * unat m \<or>
      2 ^ 64 \<le> unat (ninfo_bar_gpa info) + unat (ninfo_bar_len info)) \<and>
   (notification_gpa info m = Some (Some gpa) \<longleftrightarrow>
      unat gpa = unat (ninfo_bar_gpa info) + unat (ninfo_queue_notify_off info) * unat m \<and>
      unat gpa < unat (ninfo_bar_gpa info) + unat (ninfo_bar_len info) \<and>
      unat (ninfo_bar_gpa info) + unat (ninfo_bar_len info) < 2 ^ 64)"
proof -
  define p where "p = unat (ninfo_bar_gpa info) + unat (ninfo_queue_notify_off info) * unat m"
  define e where "e = unat (ninfo_bar_gpa info) + unat (ninfo_bar_len info)"
  have "unat gpa < 2 ^ 64" using unsigned_less [of gpa, where ?'a = nat] by simp
  moreover have "of_nat p = gpa \<longleftrightarrow> p = unat gpa" if "p < 2 ^ 64"
    using that by (auto simp: unsigned_of_nat take_bit_nat_eq_self)
  ultimately show ?thesis
    unfolding notification_gpa_def Let_def p_def [symmetric] e_def [symmetric] by auto
qed

end
