(* ===== verification/Rust_Text.thy ===== *)
theory Rust_Text
  imports Greens_Prelude
begin

text \<open>
  What the sources use of the string functions of the standard library: splitting, prefixes and the
  conversion of text to unsigned integers. A string is the list of the bytes of its UTF-8
  encoding, each a character.
\<close>

section \<open>Model\<close>

text \<open>\<open>str::split\<close> at a character: always at least one piece.\<close>

fun split_on :: "char \<Rightarrow> string \<Rightarrow> string list" where
  "split_on c [] = [[]]"
| "split_on c (x # xs) =
     (if x = c then [] # split_on c xs
      else (case split_on c xs of [] \<Rightarrow> [[x]] | p # ps \<Rightarrow> (x # p) # ps))"

text \<open>\<open>str::splitn\<close> with a limit of two: the rest after the first separator stays whole.\<close>

fun splitn_two :: "char \<Rightarrow> string \<Rightarrow> string list" where
  "splitn_two c [] = [[]]"
| "splitn_two c (x # xs) =
     (if x = c then [[], xs]
      else (case splitn_two c xs of [] \<Rightarrow> [[x]] | p # ps \<Rightarrow> (x # p) # ps))"

fun strip_prefix :: "string \<Rightarrow> string \<Rightarrow> string option" where
  "strip_prefix [] s = Some s"
| "strip_prefix (p # ps) [] = None"
| "strip_prefix (p # ps) (x # xs) = (if p = x then strip_prefix ps xs else None)"

definition starts_with :: "string \<Rightarrow> string \<Rightarrow> bool" where
  "starts_with p s \<longleftrightarrow> strip_prefix p s \<noteq> None"

text \<open>The characters \<open>char::is_whitespace\<close> accepts, in the encoding of a string.\<close>

definition blank_chars :: "string list" where
  "blank_chars =
     [[CHR 0x09], [CHR 0x0A], [CHR 0x0B], [CHR 0x0C], [CHR 0x0D], '' '', [CHR 0xC2, CHR 0x85],
      [CHR 0xC2, CHR 0xA0], [CHR 0xE1, CHR 0x9A, CHR 0x80], [CHR 0xE2, CHR 0x80, CHR 0x80],
      [CHR 0xE2, CHR 0x80, CHR 0x81], [CHR 0xE2, CHR 0x80, CHR 0x82], [CHR 0xE2, CHR 0x80, CHR 0x83],
      [CHR 0xE2, CHR 0x80, CHR 0x84], [CHR 0xE2, CHR 0x80, CHR 0x85], [CHR 0xE2, CHR 0x80, CHR 0x86],
      [CHR 0xE2, CHR 0x80, CHR 0x87], [CHR 0xE2, CHR 0x80, CHR 0x88], [CHR 0xE2, CHR 0x80, CHR 0x89],
      [CHR 0xE2, CHR 0x80, CHR 0x8A], [CHR 0xE2, CHR 0x80, CHR 0xA8], [CHR 0xE2, CHR 0x80, CHR 0xA9],
      [CHR 0xE2, CHR 0x80, CHR 0xAF], [CHR 0xE2, CHR 0x81, CHR 0x9F], [CHR 0xE3, CHR 0x80, CHR 0x80]]"

text \<open>The number of bytes of the white space a text starts with, none when it starts with something else.\<close>

definition blank_length :: "string \<Rightarrow> nat" where
  "blank_length s = (case List.find (\<lambda>b. take (length b) s = b) blank_chars of None \<Rightarrow> 0 | Some b \<Rightarrow> length b)"

text \<open>\<open>str::split_whitespace\<close>: the maximal words without white space; \<open>skip\<close> bytes of a white space are still to come.\<close>

fun words_from :: "nat \<Rightarrow> string \<Rightarrow> string \<Rightarrow> string list" where
  "words_from skip w [] = (if w = [] then [] else [w])"
| "words_from skip w (x # xs) =
     (if 0 < skip then words_from (skip - 1) w xs
      else let n = blank_length (x # xs) in
        if n = 0 then words_from 0 (w @ [x]) xs
        else if w = [] then words_from (n - 1) [] xs else w # words_from (n - 1) [] xs)"

definition split_whitespace :: "string \<Rightarrow> string list" where
  "split_whitespace s = words_from 0 [] s"

text \<open>\<open>char::to_digit\<close>.\<close>

definition to_digit :: "nat \<Rightarrow> char \<Rightarrow> nat option" where
  "to_digit radix c =
     (let n = of_char c;
          d = (if 48 \<le> n \<and> n \<le> 57 then n - 48
               else if 97 \<le> n \<and> n \<le> 122 then n - 87
               else if 65 \<le> n \<and> n \<le> 90 then n - 55 else radix)
      in if d < radix then Some d else None)"

datatype ParseIntError = EmptyDigits | InvalidDigit | PosOverflow

text \<open>
  The loop of \<open>from_str_radix\<close> for an unsigned type with the values below \<open>limit\<close>: the product is computed
  first, but an invalid digit is reported before its overflow.
\<close>

fun parse_digits :: "nat \<Rightarrow> nat \<Rightarrow> nat \<Rightarrow> string \<Rightarrow> ParseIntError + nat" where
  "parse_digits limit radix acc [] = Inr acc"
| "parse_digits limit radix acc (c # cs) =
     (case to_digit radix c of
        None \<Rightarrow> Inl InvalidDigit
      | Some d \<Rightarrow>
          if limit \<le> acc * radix then Inl PosOverflow
          else if limit \<le> acc * radix + d then Inl PosOverflow
          else parse_digits limit radix (acc * radix + d) cs)"

text \<open>A leading plus sign is skipped, unless it is the whole text; a minus sign is not a digit.\<close>

definition from_str_radix :: "nat \<Rightarrow> nat \<Rightarrow> string \<Rightarrow> ParseIntError + nat" where
  "from_str_radix limit radix s =
     (case s of
        [] \<Rightarrow> Inl EmptyDigits
      | c # cs \<Rightarrow>
          if (c = CHR ''+'' \<or> c = CHR ''-'') \<and> cs = [] then Inl InvalidDigit
          else if c = CHR ''+'' then parse_digits limit radix 0 cs
          else parse_digits limit radix 0 s)"

section \<open>Pieces and prefixes\<close>

lemma split_on_not_Nil [simp]: "split_on c s \<noteq> []"
  by (induction s) (auto split: list.splits)

lemma splitn_two_not_Nil [simp]: "splitn_two c s \<noteq> []"
  by (induction s) (auto split: list.splits)

lemma split_on_word: "c \<notin> set w \<Longrightarrow> split_on c w = [w]"
  by (induction w) auto

lemma split_on_append: "c \<notin> set w \<Longrightarrow> split_on c (w @ c # rest) = w # split_on c rest"
  by (induction w) auto

lemma splitn_two_append: "c \<notin> set w \<Longrightarrow> splitn_two c (w @ c # rest) = [w, rest]"
  by (induction w) auto

lemma splitn_two_word: "c \<notin> set w \<Longrightarrow> splitn_two c w = [w]"
  by (induction w) auto

lemma strip_prefix_iff: "strip_prefix p s = Some rest \<longleftrightarrow> s = p @ rest"
  by (induction p s rule: strip_prefix.induct) auto

lemma strip_prefix_append [simp]: "strip_prefix p (p @ s) = Some s"
  by (simp add: strip_prefix_iff)

lemma starts_with_iff: "starts_with p s \<longleftrightarrow> (\<exists>rest. s = p @ rest)"
  by (cases "strip_prefix p s") (auto simp: starts_with_def strip_prefix_iff)

text \<open>Joining pieces with a separator and splitting them again.\<close>

fun join_with :: "char \<Rightarrow> string list \<Rightarrow> string" where
  "join_with c [] = []"
| "join_with c [w] = w"
| "join_with c (w # v # ws) = w @ c # join_with c (v # ws)"

lemma split_on_join:
  "ws \<noteq> [] \<Longrightarrow> (\<And>w. w \<in> set ws \<Longrightarrow> c \<notin> set w) \<Longrightarrow> split_on c (join_with c ws) = ws"
  by (induction c ws rule: join_with.induct) (simp_all add: split_on_word split_on_append)

definition plain_char :: "char \<Rightarrow> bool" where
  "plain_char c \<longleftrightarrow> of_char c < (128 :: nat) \<and> [c] \<notin> set blank_chars"

definition plain_word :: "string \<Rightarrow> bool" where
  "plain_word w \<longleftrightarrow> w \<noteq> [] \<and> (\<forall>c \<in> set w. plain_char c)"

lemma blank_length_plain:
  assumes "plain_char c"
  shows "blank_length (c # s) = 0"
proof -
  have "take (length b) (c # s) \<noteq> b" if b: "b \<in> set blank_chars" for b
  proof
    assume eq: "take (length b) (c # s) = b"
    have "\<forall>b \<in> set blank_chars. b \<noteq> [] \<and> (of_char (hd b) < (128 :: nat) \<longrightarrow> tl b = [])" by (simp add: blank_chars_def)
    with b have "b \<noteq> []" "of_char (hd b) < (128 :: nat) \<longrightarrow> tl b = []" by blast+
    with eq assms b show False by (cases b) (auto simp: plain_char_def)
  qed
  then show ?thesis by (simp add: blank_length_def find_None_iff [THEN iffD2])
qed

lemma words_from_plain: "(\<forall>c \<in> set v. plain_char c) \<Longrightarrow> words_from 0 w (v @ rest) = words_from 0 (w @ v) rest"
  by (induction v arbitrary: w) (auto simp: blank_length_plain)

lemma blank_length_space: "blank_length (CHR '' '' # s) = 1"
  by (simp add: blank_length_def blank_chars_def)

lemma split_whitespace_join:
  assumes "\<And>w. w \<in> set ws \<Longrightarrow> plain_word w"
  shows "split_whitespace (join_with CHR '' '' ws) = ws"
  using assms unfolding split_whitespace_def
proof (induction "CHR '' ''" ws rule: join_with.induct)
  case (2 w)
  then show ?case using words_from_plain [of w "[]" "[]"] by (simp add: plain_word_def)
next
  case (3 w v ws)
  then have "plain_word w" by simp
  moreover have "words_from 0 [] (join_with CHR '' '' (v # ws)) = v # ws" using 3 by simp
  ultimately show ?case using words_from_plain [of w "[]" "CHR '' '' # join_with CHR '' '' (v # ws)"]
    by (simp add: plain_word_def blank_length_space)
qed simp

section \<open>Numbers\<close>

text \<open>The value of a list of digits, most significant first.\<close>

fun digits_value :: "nat \<Rightarrow> nat \<Rightarrow> string \<Rightarrow> nat option" where
  "digits_value radix acc [] = Some acc"
| "digits_value radix acc (c # cs) =
     (case to_digit radix c of None \<Rightarrow> None | Some d \<Rightarrow> digits_value radix (acc * radix + d) cs)"

lemma to_digit_less: "to_digit radix c = Some d \<Longrightarrow> d < radix"
  by (auto simp: to_digit_def Let_def split: if_splits)

lemma digits_value_mono: "digits_value radix acc s = Some n \<Longrightarrow> 0 < radix \<Longrightarrow> acc \<le> n"
proof (induction s arbitrary: acc)
  case (Cons c cs)
  then obtain d where "digits_value radix (acc * radix + d) cs = Some n" by (auto split: option.splits)
  with Cons have "acc * radix + d \<le> n" by blast
  moreover have "acc \<le> acc * radix" using Cons(3) by simp
  ultimately show ?case by linarith
qed simp

text \<open>The overflow checks never refuse a value that fits.\<close>

lemma parse_digits_iff:
  assumes "0 < radix"
  shows "acc < limit \<Longrightarrow> parse_digits limit radix acc s = Inr n \<longleftrightarrow> digits_value radix acc s = Some n \<and> n < limit"
proof (induction s arbitrary: acc)
  case (Cons c cs)
  show ?case
  proof (cases "to_digit radix c")
    case (Some d)
    show ?thesis
    proof (cases "acc * radix + d < limit")
      case True
      then show ?thesis using Some Cons.IH [OF True] by simp
    next
      case False
      then show ?thesis using Some digits_value_mono [of radix "acc * radix + d" cs n] assms by auto
    qed
  qed simp
qed auto

text \<open>Printing in a radix of at most sixteen, with lower case letters.\<close>

definition digit_char :: "nat \<Rightarrow> char" where
  "digit_char d = char_of (if d < 10 then d + 48 else d + 87)"

function show_radix :: "nat \<Rightarrow> nat \<Rightarrow> string" where
  "show_radix radix n =
     (if n < radix \<or> radix < 2 then [digit_char n] else show_radix radix (n div radix) @ [digit_char (n mod radix)])"
  by auto
termination by (relation "measure snd") auto

declare show_radix.simps [simp del]

definition hex_char :: "char \<Rightarrow> bool" where
  "hex_char c \<longleftrightarrow> c \<in> set ''0123456789abcdef''"

lemma digit_chars: "d < 16 \<Longrightarrow> hex_char (digit_char d)"
proof -
  have "\<forall>d \<in> set [0..<16]. hex_char (digit_char d)" by code_simp
  then show "d < 16 \<Longrightarrow> hex_char (digit_char d)" by simp
qed

lemma to_digit_char: "d < radix \<Longrightarrow> radix \<le> 16 \<Longrightarrow> to_digit radix (digit_char d) = Some d"
  by (simp add: to_digit_def digit_char_def Let_def)

lemma digits_value_snoc:
  "digits_value radix acc (s @ [c]) =
     (case digits_value radix acc s of None \<Rightarrow> None | Some n \<Rightarrow>
       (case to_digit radix c of None \<Rightarrow> None | Some d \<Rightarrow> Some (n * radix + d)))"
  by (induction s arbitrary: acc) (auto split: option.splits)

lemma digits_value_show:
  assumes "2 \<le> radix" and "radix \<le> 16"
  shows "digits_value radix 0 (show_radix radix n) = Some n"
proof (induction n rule: less_induct)
  case (less n)
  show ?case
  proof (cases "n < radix")
    case True
    then show ?thesis using assms by (subst show_radix.simps) (simp add: to_digit_char)
  next
    case False
    then have "n div radix < n" using assms by simp
    from less [OF this] have "digits_value radix 0 (show_radix radix (n div radix) @ [digit_char (n mod radix)]) = Some n"
      using assms by (simp add: digits_value_snoc to_digit_char)
    then show ?thesis using False assms by (subst show_radix.simps) simp
  qed
qed

lemma show_radix_chars:
  assumes "radix \<le> 16" and "2 \<le> radix"
  shows "show_radix radix n \<noteq> [] \<and> (\<forall>c \<in> set (show_radix radix n). hex_char c)"
proof (induction n rule: less_induct)
  case (less n)
  show ?case
  proof (cases "n < radix")
    case True
    then have "show_radix radix n = [digit_char n]" by (subst show_radix.simps) simp
    then show ?thesis using True assms digit_chars [of n] by simp
  next
    case False
    then have "show_radix radix n = show_radix radix (n div radix) @ [digit_char (n mod radix)]"
      using assms by (subst show_radix.simps) simp
    moreover have "n div radix < n" "n mod radix < 16"
      using False assms by (auto intro: less_le_trans [OF mod_less_divisor])
    ultimately show ?thesis using less [of "n div radix"] digit_chars [of "n mod radix"] by auto
  qed
qed

lemma from_str_radix_show:
  assumes "2 \<le> radix" and "radix \<le> 16" and "n < limit"
  shows "from_str_radix limit radix (show_radix radix n) = Inr n"
proof -
  obtain c cs where s: "show_radix radix n = c # cs" "hex_char c"
    using show_radix_chars [OF assms(2,1), of n] by (cases "show_radix radix n") auto
  have "parse_digits limit radix 0 (show_radix radix n) = Inr n"
    using parse_digits_iff [of radix 0 limit "show_radix radix n" n] digits_value_show [OF assms(1,2), of n] assms by simp
  with s show ?thesis by (auto simp: from_str_radix_def hex_char_def)
qed

text \<open>The language \<open>from_str_radix\<close> accepts: digits after an optional plus sign, with a value below the limit.\<close>

lemma plus_no_digit: "radix \<le> 36 \<Longrightarrow> to_digit radix CHR ''+'' = None"
  "radix \<le> 36 \<Longrightarrow> to_digit radix CHR ''-'' = None"
  by (simp_all add: to_digit_def Let_def)

lemma from_str_radix_iff:
  assumes "0 < radix" and "radix \<le> 36" and "0 < limit"
  shows "from_str_radix limit radix s = Inr n \<longleftrightarrow>
    (\<exists>t. t \<noteq> [] \<and> (s = t \<or> s = CHR ''+'' # t) \<and> digits_value radix 0 t = Some n \<and> n < limit)"
proof -
  note pd = parse_digits_iff [OF assms(1,3)]
  show ?thesis
  proof (cases s)
    case (Cons c cs)
    show ?thesis
    proof (cases "c = CHR ''+''")
      case True
      then show ?thesis using Cons plus_no_digit [OF assms(2)] pd [of cs n] by (auto simp: from_str_radix_def)
    next
      case False
      then show ?thesis using Cons plus_no_digit [OF assms(2)] pd [of s n] by (auto simp: from_str_radix_def)
    qed
  qed (simp add: from_str_radix_def)
qed

end
