(* ===== verification/Io_Config.thy ===== *)
theory Io_Config
  imports Rust_Text
begin

text \<open>
  The configuration of the I/O interface on the kernel command line (\<open>io_interface_config.rs\<close>). Reading
  \<open>/proc/cmdline\<close> is an argument, with the error of the operating system.
\<close>

section \<open>Model\<close>

datatype 'e config_error = KernelCmdline 'e | ParseIoInterface | NoIoInterfaceConfig u64

record IoInterfaceConfig =
  ram_start :: u64
  ram_size :: u64
  pci_start :: u64
  pci_size :: u64

text \<open>The four values in their order; further ones are not looked at.\<close>

fun config_from_iter :: "u64 list \<Rightarrow> IoInterfaceConfig option" where
  "config_from_iter (a # b # c # d # _) = Some \<lparr>ram_start = a, ram_size = b, pci_start = c, pci_size = d\<rparr>"
| "config_from_iter _ = None"

definition parse_u64 :: "string \<Rightarrow> ParseIntError + u64" where
  "parse_u64 s =
     (case strip_prefix ''0x'' s of
        Some s \<Rightarrow> try_result (from_str_radix (2 ^ 64) 16 s) (\<lambda>n. Inr (of_nat n))
      | None \<Rightarrow> try_result (from_str_radix (2 ^ 64) 10 s) (\<lambda>n. Inr (of_nat n)))"

text \<open>The loop that collects the values, with the early return.\<close>

fun parse_values :: "string list \<Rightarrow> 'e config_error + u64 list" where
  "parse_values [] = Inr []"
| "parse_values (v # vs) =
     (case parse_u64 v of
        Inl _ \<Rightarrow> Inl ParseIoInterface
      | Inr n \<Rightarrow> try_result (parse_values vs) (\<lambda>ns. Inr (n # ns)))"

definition config_try_from_str :: "string \<Rightarrow> 'e config_error + IoInterfaceConfig" where
  "config_try_from_str v =
     try_result (parse_values (split_on CHR '','' v)) (\<lambda>ns.
       case config_from_iter ns of None \<Rightarrow> Inl ParseIoInterface | Some c \<Rightarrow> Inr c)"

definition kernel_param :: "('e + string) \<Rightarrow> string \<Rightarrow> 'e config_error + string list" where
  "kernel_param cmdline name =
     (case cmdline of
        Inl e \<Rightarrow> Inl (KernelCmdline e)
      | Inr s \<Rightarrow> Inr (filter (starts_with name) (split_whitespace s)))"

text \<open>One turn of the loop over the arguments: the identifier and the configuration.\<close>

definition parse_arg :: "string \<Rightarrow> 'e config_error + u64 \<times> IoInterfaceConfig" where
  "parse_arg arg =
     (case strip_prefix ''uservm='' arg of
        None \<Rightarrow> Inl ParseIoInterface
      | Some s \<Rightarrow>
          (let pieces = splitn_two CHR '','' s in
           case parse_u64 (hd pieces) of
             Inl _ \<Rightarrow> Inl ParseIoInterface
           | Inr vm \<Rightarrow>
               (case tl pieces of
                  [] \<Rightarrow> Inl ParseIoInterface
                | v # _ \<Rightarrow>
                    (case (config_try_from_str v :: 'e config_error + IoInterfaceConfig) of
                       Inl _ \<Rightarrow> Inl ParseIoInterface
                     | Inr cfg \<Rightarrow> Inr (vm, cfg)))))"

fun parse_io_interface_configs_from ::
    "(u64 \<rightharpoonup> IoInterfaceConfig) \<Rightarrow> string list \<Rightarrow> 'e config_error + (u64 \<rightharpoonup> IoInterfaceConfig)" where
  "parse_io_interface_configs_from configs [] = Inr configs"
| "parse_io_interface_configs_from configs (arg # args) =
     try_result (parse_arg arg) (\<lambda>(vm, cfg). parse_io_interface_configs_from (configs(vm \<mapsto> cfg)) args)"

definition parse_io_interface_configs :: "string list \<Rightarrow> 'e config_error + (u64 \<rightharpoonup> IoInterfaceConfig)" where
  "parse_io_interface_configs args = parse_io_interface_configs_from Map.empty args"

definition io_interface_config :: "('e + string) \<Rightarrow> u64 \<Rightarrow> 'e config_error + IoInterfaceConfig" where
  "io_interface_config cmdline device_model_id =
     try_result (kernel_param cmdline ''uservm'') (\<lambda>params.
     try_result (parse_io_interface_configs params) (\<lambda>configs.
       case configs device_model_id of
         None \<Rightarrow> Inl (NoIoInterfaceConfig device_model_id)
       | Some cfg \<Rightarrow> Inr cfg))"

section \<open>The grammar of an argument\<close>

text \<open>
  What an argument denotes: the prefix, an identifier, a comma, and at least four numbers separated by
  commas.
\<close>

definition number :: "string \<Rightarrow> u64 option" where
  "number s = (case parse_u64 s of Inl _ \<Rightarrow> None | Inr n \<Rightarrow> Some n)"

definition denotes :: "string \<Rightarrow> u64 \<Rightarrow> IoInterfaceConfig \<Rightarrow> bool" where
  "denotes arg vm cfg \<longleftrightarrow>
     (\<exists>i v ns. arg = ''uservm='' @ i @ CHR '','' # v \<and> CHR '','' \<notin> set i \<and> number i = Some vm \<and>
       list_all2 (\<lambda>s n. number s = Some n) (split_on CHR '','' v) ns \<and> config_from_iter ns = Some cfg)"

lemma parse_values_iff:
  "(parse_values vs :: 'e config_error + u64 list) = Inr ns \<longleftrightarrow> list_all2 (\<lambda>s n. number s = Some n) vs ns"
proof (induction vs arbitrary: ns)
  case (Cons v vs)
  show ?case
  proof (cases "parse_u64 v")
    case (Inr n)
    have "(parse_values (v # vs) :: 'e config_error + u64 list) = Inr ns \<longleftrightarrow>
        (\<exists>ms. (parse_values vs :: 'e config_error + u64 list) = Inr ms \<and> ns = n # ms)"
      using Inr by (cases "parse_values vs :: 'e config_error + u64 list") auto
    then show ?thesis using Inr by (auto simp: Cons list_all2_Cons1 number_def)
  qed (simp add: list_all2_Cons1 number_def)
qed auto

lemma config_try_from_str_iff:
  "(config_try_from_str v :: 'e config_error + IoInterfaceConfig) = Inr cfg \<longleftrightarrow>
     (\<exists>ns. list_all2 (\<lambda>s n. number s = Some n) (split_on CHR '','' v) ns \<and> config_from_iter ns = Some cfg)"
proof -
  have "(config_try_from_str v :: 'e config_error + IoInterfaceConfig) = Inr cfg \<longleftrightarrow>
      (\<exists>ns. (parse_values (split_on CHR '','' v) :: 'e config_error + u64 list) = Inr ns \<and> config_from_iter ns = Some cfg)"
    by (cases "parse_values (split_on CHR '','' v) :: 'e config_error + u64 list")
      (auto simp: config_try_from_str_def split: option.splits)
  then show ?thesis by (simp only: parse_values_iff)
qed

lemma splitn_two_cases:
  "(splitn_two c s = [s] \<and> c \<notin> set s) \<or> (\<exists>a b. s = a @ c # b \<and> c \<notin> set a \<and> splitn_two c s = [a, b])"
proof (cases "c \<in> set s")
  case True
  from split_list_first [OF this] obtain a b where "s = a @ c # b" "c \<notin> set a" by blast
  then show ?thesis using splitn_two_append [of c a b] by blast
qed (simp add: splitn_two_word)

lemma parse_arg_iff: "(parse_arg arg :: 'e config_error + _) = Inr (vm, cfg) \<longleftrightarrow> denotes arg vm cfg"
proof (cases "strip_prefix ''uservm='' arg")
  case None
  then have "arg \<noteq> ''uservm='' @ t" for t using strip_prefix_append [of "''uservm=''" t] by (metis option.distinct(1))
  then have "\<not> denotes arg vm cfg" unfolding denotes_def by blast
  with None show ?thesis by (simp add: parse_arg_def)
next
  case (Some s)
  then have arg: "arg = ''uservm='' @ s" by (simp only: strip_prefix_iff)
  from splitn_two_cases [of "CHR '',''" s] show ?thesis
  proof
    assume "splitn_two CHR '','' s = [s] \<and> CHR '','' \<notin> set s"
    then show ?thesis using Some by (auto simp: parse_arg_def denotes_def arg split: sum.splits)
  next
    assume "\<exists>a b. s = a @ CHR '','' # b \<and> CHR '','' \<notin> set a \<and> splitn_two CHR '','' s = [a, b]"
    then obtain a b where s: "s = a @ CHR '','' # b" "CHR '','' \<notin> set a" "splitn_two CHR '','' s = [a, b]" by blast
    have uniq: "i = a \<and> v = b" if "a @ CHR '','' # b = i @ CHR '','' # v" "CHR '','' \<notin> set i" for i v
      using that s(2) splitn_two_append [of "CHR '',''" i v] s by simp
    have "denotes arg vm cfg \<longleftrightarrow> number a = Some vm \<and> (config_try_from_str b :: 'e config_error + _) = Inr cfg"
      unfolding denotes_def arg s(1) config_try_from_str_iff using s(2) uniq by auto
    then show ?thesis using Some s(3) by (auto simp: parse_arg_def number_def split: sum.splits)
  qed
qed

section \<open>The whole command line\<close>

definition denote_all :: "string list \<Rightarrow> (u64 \<times> IoInterfaceConfig) list \<Rightarrow> bool" where
  "denote_all args es \<longleftrightarrow> list_all2 (\<lambda>arg e. denotes arg (fst e) (snd e)) args es"

lemma denotes_unique: "denotes arg vm cfg \<Longrightarrow> denotes arg vm' cfg' \<Longrightarrow> vm' = vm \<and> cfg' = cfg"
  by (simp add: parse_arg_iff [symmetric, where ?'e = unit])

lemma denote_all_Cons: "denote_all (a # args) es \<longleftrightarrow> (\<exists>vm cfg es'. es = (vm, cfg) # es' \<and> denotes a vm cfg \<and> denote_all args es')"
  by (auto simp: denote_all_def list_all2_Cons1)

lemma denote_all_Nil [simp]: "denote_all [] es \<longleftrightarrow> es = []"
  by (simp add: denote_all_def)

lemma denote_all_unique: "denote_all args es \<Longrightarrow> denote_all args es' \<Longrightarrow> es' = es"
  by (induction args arbitrary: es es') (auto simp: denote_all_Cons dest: denotes_unique)

lemma parse_configs_iff:
  "(parse_io_interface_configs_from m args :: 'e config_error + _) = Inr m' \<longleftrightarrow>
     (\<exists>es. denote_all args es \<and> m' = m ++ map_of (rev es))"
proof (induction args arbitrary: m)
  case (Cons a args)
  show ?case
  proof (cases "parse_arg a :: 'e config_error + _")
    case (Inl e)
    then have "\<not> denotes a vm cfg" for vm cfg using parse_arg_iff [of a vm cfg, where ?'e = 'e] by simp
    with Inl show ?thesis by (simp add: denote_all_Cons)
  next
    case (Inr r)
    obtain vm cfg where r: "r = (vm, cfg)" by (cases r)
    with Inr have d: "denotes a vm cfg" using parse_arg_iff [of a vm cfg, where ?'e = 'e] by simp
    have all: "denote_all (a # args) es \<longleftrightarrow> (\<exists>es'. es = (vm, cfg) # es' \<and> denote_all args es')" for es
      unfolding denote_all_Cons using d denotes_unique [OF d] by blast
    have "(parse_io_interface_configs_from m (a # args) :: 'e config_error + _) = Inr m' \<longleftrightarrow>
        (\<exists>es. denote_all args es \<and> m' = m(vm \<mapsto> cfg) ++ map_of (rev es))" by (simp add: Inr r Cons fun_upd_def)
    also have "\<dots> \<longleftrightarrow> (\<exists>es. denote_all (a # args) es \<and> m' = m ++ map_of (rev es))"
      unfolding all by auto
    finally show ?thesis .
  qed
qed auto

lemma parse_configs_Inl:
  fixes e :: "'e config_error"
  shows "parse_io_interface_configs_from m args = Inl e \<Longrightarrow> e = ParseIoInterface"
proof (induction args arbitrary: m)
  case (Cons a args)
  have "parse_arg a = Inl x \<Longrightarrow> x = ParseIoInterface" for x :: "'e config_error"
    by (auto simp: parse_arg_def Let_def split: option.splits sum.splits list.splits)
  with Cons show ?case by (cases "parse_arg a :: 'e config_error + _") auto
qed simp

lemma denote_all_exists: "(\<exists>es. denote_all args es) \<longleftrightarrow> (\<forall>a \<in> set args. \<exists>vm cfg. denotes a vm cfg)"
  by (induction args) (auto simp: denote_all_Cons)

text \<open>The words of the command line the configuration is looked for in.\<close>

definition vm_args :: "string \<Rightarrow> string list" where
  "vm_args cmdline = filter (starts_with ''uservm'') (split_whitespace cmdline)"

section \<open>Properties\<close>

text \<open>
  C39: The configuration of a virtual machine. The lookup returns a configuration exactly when every word of
  the command line that starts with \<open>uservm\<close> has the form of an argument, and then it is the one of
  the last argument with the identifier; one word that is malformed, also one for another machine, makes
  every lookup fail.
\<close>

theorem io_config_lookup:
  "((io_interface_config (Inr cmdline) vm :: 'e config_error + _) = Inr cfg \<longleftrightarrow>
      (\<exists>es. denote_all (vm_args cmdline) es \<and> map_of (rev es) vm = Some cfg)) \<and>
   ((io_interface_config (Inr cmdline) vm :: 'e config_error + _) = Inl (NoIoInterfaceConfig vm) \<longleftrightarrow>
      (\<exists>es. denote_all (vm_args cmdline) es \<and> map_of (rev es) vm = None)) \<and>
   ((io_interface_config (Inr cmdline) vm :: 'e config_error + _) = Inl ParseIoInterface \<longleftrightarrow>
      (\<exists>arg \<in> set (vm_args cmdline). \<nexists>i c. denotes arg i c))"
proof (cases "parse_io_interface_configs_from Map.empty (vm_args cmdline) :: 'e config_error + _")
  case (Inl e)
  have e: "e = ParseIoInterface" by (rule parse_configs_Inl [OF Inl])
  have none: "\<nexists>es. denote_all (vm_args cmdline) es"
    using parse_configs_iff [of Map.empty "vm_args cmdline", where ?'e = 'e] Inl by auto
  then have "\<exists>arg \<in> set (vm_args cmdline). \<nexists>i c. denotes arg i c" unfolding denote_all_exists by blast
  with Inl e none show ?thesis
    by (simp add: io_interface_config_def kernel_param_def vm_args_def parse_io_interface_configs_def)
next
  case (Inr m)
  from parse_configs_iff [of Map.empty "vm_args cmdline" m, where ?'e = 'e] Inr obtain es where
    es: "denote_all (vm_args cmdline) es" "m = map_of (rev es)" by auto
  have uniq: "es' = es" if "denote_all (vm_args cmdline) es'" for es' by (rule denote_all_unique [OF es(1) that])
  from es(1) have "\<forall>arg \<in> set (vm_args cmdline). \<exists>i c. denotes arg i c" using denote_all_exists by blast
  then have all: "\<not> (\<exists>arg \<in> set (vm_args cmdline). \<nexists>i c. denotes arg i c)" by blast
  have lookup: "(io_interface_config (Inr cmdline) vm :: 'e config_error + _) =
      (case map_of (rev es) vm of None \<Rightarrow> Inl (NoIoInterfaceConfig vm) | Some c \<Rightarrow> Inr c)"
    using Inr es(2) by (simp add: io_interface_config_def kernel_param_def vm_args_def parse_io_interface_configs_def)
  have ex: "(\<exists>es'. denote_all (vm_args cmdline) es' \<and> P es') \<longleftrightarrow> P es" for P using es(1) uniq by blast
  show ?thesis unfolding lookup ex using all by (auto split: option.splits)
qed

text \<open>The documented form of an argument, the identifier in decimal and the values in hexadecimal.\<close>

definition show_hex :: "u64 \<Rightarrow> string" where
  "show_hex w = ''0x'' @ show_radix 16 (unat w)"

definition show_arg :: "u64 \<times> IoInterfaceConfig \<Rightarrow> string" where
  "show_arg e = ''uservm='' @ show_radix 10 (unat (fst e)) @ CHR '','' #
     join_with CHR '','' (map show_hex [ram_start (snd e), ram_size (snd e), pci_start (snd e), pci_size (snd e)])"

lemma unat_u64_bound: "unat (w :: u64) < 2 ^ 64"
  using unsigned_less [of w, where ?'a = nat] by simp

lemma strip_hex_show: "strip_prefix ''0x'' (show_radix 10 n) = None"
proof (cases "strip_prefix ''0x'' (show_radix 10 n)")
  case (Some rest)
  then have s: "show_radix 10 n = ''0x'' @ rest" by (simp only: strip_prefix_iff)
  have "hex_char CHR ''x''" using show_radix_chars [of 10 n] unfolding s by simp
  then show ?thesis by (simp add: hex_char_def)
qed

lemma number_show_hex: "number (show_hex w) = Some w"
  using from_str_radix_show [of 16 "unat w" "2 ^ 64"] unat_u64_bound [of w]
  by (simp add: number_def parse_u64_def show_hex_def)

lemma number_show_decimal: "number (show_radix 10 (unat (w :: u64))) = Some w"
  using from_str_radix_show [of 10 "unat w" "2 ^ 64"] unat_u64_bound [of w]
  by (simp add: number_def parse_u64_def strip_hex_show)

lemma show_no_comma: "CHR '','' \<notin> set (show_radix 10 n)" "CHR '','' \<notin> set (show_hex w)"
proof -
  have no: "\<not> hex_char CHR '',''" by (simp add: hex_char_def)
  show "CHR '','' \<notin> set (show_radix 10 n)" using show_radix_chars [of 10 n] no by auto
  have "CHR '','' \<notin> set (show_radix 16 (unat w))" using show_radix_chars [of 16 "unat w"] no by auto
  then show "CHR '','' \<notin> set (show_hex w)" by (simp add: show_hex_def)
qed

lemma denotes_show_arg: "denotes (show_arg (vm, cfg)) vm cfg"
proof -
  let ?ns = "[ram_start cfg, ram_size cfg, pci_start cfg, pci_size cfg]"
  have "split_on CHR '','' (join_with CHR '','' (map show_hex ?ns)) = map show_hex ?ns"
    by (rule split_on_join) (auto simp: show_no_comma)
  then have "list_all2 (\<lambda>s n. number s = Some n) (split_on CHR '','' (join_with CHR '','' (map show_hex ?ns))) ?ns"
    by (simp add: number_show_hex)
  moreover have "config_from_iter ?ns = Some cfg" by simp
  ultimately show ?thesis unfolding denotes_def
    by (intro exI conjI) (auto simp: show_arg_def show_no_comma number_show_decimal)
qed

lemma show_arg_word: "plain_word (show_arg e)" "starts_with ''uservm'' (show_arg e)"
proof -
  have no: "\<And>c. hex_char c \<Longrightarrow> plain_char c" by (auto simp: hex_char_def plain_char_def blank_chars_def)
  have hex: "plain_char c" if "c \<in> set (show_hex w)" for c w
    using that show_radix_chars [of 16 "unat w"] no by (auto simp: show_hex_def plain_char_def blank_chars_def)
  have dec: "plain_char c" if "c \<in> set (show_radix 10 n)" for c n
    using that show_radix_chars [of 10 n] no by auto
  show "plain_word (show_arg e)"
    unfolding plain_word_def show_arg_def using hex dec by (auto simp: plain_char_def blank_chars_def)
  show "starts_with ''uservm'' (show_arg e)" by (simp add: starts_with_def show_arg_def)
qed

lemma io_interface_config_printed:
  assumes "\<And>w. w \<in> set ws \<Longrightarrow> plain_word w" and "filter (starts_with ''uservm'') ws = map show_arg es"
  shows "io_interface_config (Inr (join_with CHR '' '' ws)) vm =
    (case map_of (rev es) vm of None \<Rightarrow> Inl (NoIoInterfaceConfig vm) | Some cfg \<Rightarrow> Inr cfg)"
proof -
  have "denote_all (map show_arg es) es"
    by (auto simp: denote_all_def list_all2_conv_all_nth denotes_show_arg [of "fst e" "snd e" for e, simplified])
  then have "(parse_io_interface_configs_from Map.empty (map show_arg es) :: 'a config_error + _) = Inr (map_of (rev es))"
    unfolding parse_configs_iff by (intro exI [of _ es]) simp
  then show ?thesis using assms split_whitespace_join [of ws]
    by (simp add: io_interface_config_def kernel_param_def parse_io_interface_configs_def)
qed

text \<open>
  Reading back a command line: when its \<open>uservm\<close> words are the printed forms of a list of configurations,
  among any other words, each machine gets the configuration printed last for it.
\<close>

theorem io_config_roundtrip:
  assumes "\<And>w. w \<in> set ws \<Longrightarrow> plain_word w" and "filter (starts_with ''uservm'') ws = map show_arg es"
  shows "io_interface_config (Inr (join_with CHR '' '' ws)) vm =
    (case map_of (rev es) vm of None \<Rightarrow> Inl (NoIoInterfaceConfig vm) | Some cfg \<Rightarrow> Inr cfg)"
  using io_interface_config_printed [OF assms] .

lemma io_config_roundtrip_witness:
  "io_interface_config (Inr (join_with CHR '' '' [''quiet'',
      show_arg (1, \<lparr>ram_start = 0x60000000, ram_size = 0x2000000, pci_start = 0xC0000000, pci_size = 0x80000\<rparr>)])) 1 =
    (Inr \<lparr>ram_start = 0x60000000, ram_size = 0x2000000, pci_start = 0xC0000000, pci_size = 0x80000\<rparr> :: nat config_error + _)"
proof -
  define e where "e = (1 :: u64, \<lparr>ram_start = 0x60000000, ram_size = 0x2000000, pci_start = 0xC0000000, pci_size = 0x80000\<rparr>)"
  have "plain_word ''quiet'' \<and> \<not> starts_with ''uservm'' ''quiet''" by code_simp
  then have "io_interface_config (Inr (join_with CHR '' '' [''quiet'', show_arg e])) 1 =
      (Inr \<lparr>ram_start = 0x60000000, ram_size = 0x2000000, pci_start = 0xC0000000, pci_size = 0x80000\<rparr> :: nat config_error + _)"
    using io_config_roundtrip [of "[''quiet'', show_arg e]" "[e]" 1] show_arg_word [of e] by (auto simp: e_def)
  then show ?thesis by (simp only: e_def)
qed

end
