(* ===== verification/Vhost_Cli.thy ===== *)
theory Vhost_Cli
  imports Rust_Text Config_Bars
begin

text \<open>
  The arguments of the vhost-net program: the parsers of \<open>main.rs\<close> and the interface name and request of
  \<open>tap.rs\<close>. The constants of the C library are arguments.
\<close>

section \<open>Model\<close>

datatype mac_error = OctetError ParseIntError | OctetCount

text \<open>The loop over the octets, with the early return.\<close>

fun parse_octets :: "string list \<Rightarrow> mac_error + u8 list" where
  "parse_octets [] = Inr []"
| "parse_octets (octet # octets) =
     (case from_str_radix (2 ^ 8) 16 octet of
        Inl e \<Rightarrow> Inl (OctetError e)
      | Inr n \<Rightarrow> try_result (parse_octets octets) (\<lambda>mac. Inr (of_nat n # mac)))"

definition parse_mac_address :: "string \<Rightarrow> mac_error + u8 list" where
  "parse_mac_address arg =
     try_result (parse_octets (split_on CHR '':'' arg)) (\<lambda>mac.
       if length mac = 6 then Inr mac else Inl OctetCount)"

datatype queue_size_error = QueueSizeNumber ParseIntError | QueueSizeNotPowerOfTwo | QueueSizeRange

definition parse_virtqueue_size :: "string \<Rightarrow> queue_size_error + u16" where
  "parse_virtqueue_size arg =
     (case from_str_radix (2 ^ 16) 10 arg of
        Inl e \<Rightarrow> Inl (QueueSizeNumber e)
      | Inr n \<Rightarrow>
          (let sz = (of_nat n :: u16) in
           if \<not> is_power_of_two sz then Inl QueueSizeNotPowerOfTwo
           else if sz < 2 \<or> sz > 2 ^ 15 then Inl QueueSizeRange
           else Inr sz))"

datatype tap_error = TapNameTooLong usize usize | TapConfiguration

definition null_term_if_name :: "usize \<Rightarrow> bytes \<Rightarrow> tap_error + bytes" where
  "null_term_if_name IFACE_MAX_LEN name =
     (if length name > IFACE_MAX_LEN then Inl (TapNameTooLong (length name) IFACE_MAX_LEN)
      else Inr (patch (replicate IFACE_MAX_LEN 0) 0 name))"

record ifreq =
  ifr_name :: bytes
  ifru_flags :: u16

text \<open>The assertion on the flags panics; \<open>flags as i16\<close> keeps the low half.\<close>

definition ifreq_with_flags :: "usize \<Rightarrow> bytes \<Rightarrow> int \<Rightarrow> (tap_error + ifreq) option" where
  "ifreq_with_flags IFACE_MAX_LEN if_name flags =
     (if flags > 0x7FFF then None
      else Some (try_result (null_term_if_name IFACE_MAX_LEN if_name) (\<lambda>name.
        Inr \<lparr>ifr_name = name, ifru_flags = of_int flags\<rparr>)))"

section \<open>Properties\<close>

text \<open>The texts of a number: digits after an optional plus sign.\<close>

definition spells :: "nat \<Rightarrow> string \<Rightarrow> nat \<Rightarrow> bool" where
  "spells radix s n \<longleftrightarrow> (\<exists>t. t \<noteq> [] \<and> (s = t \<or> s = CHR ''+'' # t) \<and> digits_value radix 0 t = Some n)"

lemma from_str_radix_spells:
  "0 < radix \<Longrightarrow> radix \<le> 36 \<Longrightarrow> 0 < limit \<Longrightarrow> from_str_radix limit radix s = Inr n \<longleftrightarrow> spells radix s n \<and> n < limit"
  unfolding from_str_radix_iff spells_def by blast

lemma parse_octets_iff: "parse_octets os = Inr mac \<longleftrightarrow> list_all2 (\<lambda>s b. spells 16 s (unat b)) os mac"
proof (induction os arbitrary: mac)
  case (Cons s os)
  note fs = from_str_radix_spells [of 16 "2 ^ 8" s, simplified]
  have step: "parse_octets (s # os) = Inr mac \<longleftrightarrow>
      (\<exists>n mac'. from_str_radix 256 16 s = Inr n \<and> parse_octets os = Inr mac' \<and> mac = of_nat n # mac')"
    by (cases "from_str_radix 256 16 s"; cases "parse_octets os") auto
  have bound: "unat (b :: u8) < 256" for b using unsigned_less [of b, where ?'a = nat] by simp
  have "(\<exists>n. from_str_radix 256 16 s = Inr n \<and> (b :: u8) = of_nat n) \<longleftrightarrow> spells 16 s (unat b)" for b
    unfolding fs using bound [of b] by (auto simp: unsigned_of_nat take_bit_nat_eq_self intro!: exI [of _ "unat b"])
  then show ?case unfolding step by (auto simp: Cons list_all2_Cons1)
qed auto

text \<open>
  The addresses the option for the hardware address accepts: six octets between colons, each any number
  of hexadecimal digits with a value below 256, after an optional plus sign.
\<close>

theorem mac_language:
  "(parse_mac_address arg = Inr mac \<longleftrightarrow>
      length mac = 6 \<and> list_all2 (\<lambda>s b. spells 16 s (unat b)) (split_on CHR '':'' arg) mac) \<and>
   parse_mac_address ''+0a:bb:000cc:dd:ee:ff'' = Inr [0x0A, 0xBB, 0xCC, 0xDD, 0xEE, 0xFF]"
proof -
  have "parse_mac_address arg = Inr mac \<longleftrightarrow> length mac = 6 \<and> parse_octets (split_on CHR '':'' arg) = Inr mac"
    by (cases "parse_octets (split_on CHR '':'' arg)") (auto simp: parse_mac_address_def)
  moreover have "parse_mac_address ''+0a:bb:000cc:dd:ee:ff'' = Inr [0x0A, 0xBB, 0xCC, 0xDD, 0xEE, 0xFF]" by code_simp
  ultimately show ?thesis by (simp add: parse_octets_iff)
qed

text \<open>
  The queue sizes the program accepts are the powers of two from 2 to 32768, in any decimal spelling.
\<close>

theorem virtqueue_size_language:
  "parse_virtqueue_size arg = Inr sz \<longleftrightarrow> (\<exists>k. 1 \<le> k \<and> k \<le> 15 \<and> spells 10 arg (2 ^ k) \<and> sz = 2 ^ k)"
proof -
  have fs: "from_str_radix 65536 10 arg = Inr n \<longleftrightarrow> spells 10 arg n \<and> n < 65536" for n
    using from_str_radix_spells [of 10 "2 ^ 16" arg n] by simp
  have pow: "is_power_of_two (2 ^ k :: u16)" "2 \<le> (2 ^ k :: u16)" "2 ^ k \<le> (2 ^ 15 :: u16)" if "k \<in> set [1..<16]" for k :: nat
    using that by (auto simp: upt_rec) code_simp+
  show ?thesis
  proof
    assume *: "parse_virtqueue_size arg = Inr sz"
    then obtain n where n: "from_str_radix 65536 10 arg = Inr n" "sz = of_nat n" "is_power_of_two sz" "2 \<le> sz"
      by (auto simp: parse_virtqueue_size_def Let_def not_less split: sum.splits if_splits)
    from power_of_two_bits [OF n(3)] obtain k where k: "k < 16" "sz = 2 ^ k" by auto
    have "\<not> 2 \<le> (1 :: u16)" by code_simp
    with n(4) k(2) have "k \<noteq> 0" by (cases k) auto
    have "n = unat sz" using n fs [of n] by (simp add: unsigned_of_nat take_bit_nat_eq_self)
    with k have "n = 2 ^ k" by (simp add: unat_two_power)
    with k \<open>k \<noteq> 0\<close> n(1) fs show "\<exists>k. 1 \<le> k \<and> k \<le> 15 \<and> spells 10 arg (2 ^ k) \<and> sz = 2 ^ k"
      by (intro exI [of _ k]) auto
  next
    assume "\<exists>k. 1 \<le> k \<and> k \<le> 15 \<and> spells 10 arg (2 ^ k) \<and> sz = 2 ^ k"
    then obtain k where k: "1 \<le> k" "k \<le> 15" "spells 10 arg (2 ^ k)" "sz = 2 ^ k" by blast
    have "(2 :: nat) ^ k \<le> 2 ^ 15" by (rule power_increasing) (use k in simp_all)
    then have "from_str_radix 65536 10 arg = Inr (2 ^ k)" using k fs by simp
    then show "parse_virtqueue_size arg = Inr sz" using k pow [of k] by (simp add: parse_virtqueue_size_def Let_def not_less)
  qed
qed

text \<open>
  The name in an interface request: the bytes of the name, padded with zeros to the size of the field. A
  name that fills the field is accepted and has no terminator; the text says it is null-terminated.
\<close>

theorem tap_name_terminated:
  "(\<forall>b. null_term_if_name n name = Inr b \<longleftrightarrow> length name \<le> n \<and> b = name @ replicate (n - length name) 0) \<and>
   (null_term_if_name n name = Inr b \<and> 0 \<notin> set name \<longrightarrow> (0 \<in> set b \<longleftrightarrow> length name \<noteq> n))"
  by (auto simp: null_term_if_name_def patch_def)

lemma tap_name_terminated_witness:
  "\<exists>b. null_term_if_name 16 (replicate 16 (0x61 :: u8)) = Inr b \<and> 0 \<notin> set b"
  using tap_name_terminated [of 16 "replicate 16 0x61" "replicate 16 0x61"] by auto

end
