(* ===== verification/Virtio_Invariant.thy ===== *)
theory Virtio_Invariant
  imports Virtio_Build
begin

text \<open>
  Invariants of the device behind a virtio function. The function changes its device only through the
  methods of the device traits, so what every method keeps is kept by every access of the guest. The
  proofs use a small calculus: \<open>after m Q\<close> says that \<open>Q\<close> holds of the outcome of \<open>m\<close> unless \<open>m\<close> panics.
\<close>

section \<open>Outcomes\<close>

definition after :: "'a option \<Rightarrow> ('a \<Rightarrow> bool) \<Rightarrow> bool" where
  "after m Q \<longleftrightarrow> (\<forall>a. m = Some a \<longrightarrow> Q a)"

lemma after_simps [simp]:
  "after None Q" "after (Some a) Q \<longleftrightarrow> Q a"
  "after (Option.bind m f) Q \<longleftrightarrow> after m (\<lambda>a. after (f a) Q)"
  "after (map_option g m) Q \<longleftrightarrow> after m (\<lambda>a. Q (g a))"
  by (auto simp: after_def bind_eq_Some_conv)

lemma after_bind_result [simp]:
  "after (bind_result m' f') R \<longleftrightarrow> after m' (\<lambda>(r, s). case r of Inl e \<Rightarrow> R (Inl e, s) | Inr a \<Rightarrow> after (f' a s) R)"
  by (auto simp: after_def bind_result_def split: option.splits sum.splits)

lemma after_any: "(\<And>a. Q a) \<Longrightarrow> after m Q"
  by (simp add: after_def)

lemma after_mono: "after m P \<Longrightarrow> (\<And>a. P a \<Longrightarrow> Q a) \<Longrightarrow> after m Q"
  by (simp add: after_def)

lemma after_bind: "after m P \<Longrightarrow> (\<And>a. P a \<Longrightarrow> after (f a) Q) \<Longrightarrow> after (Option.bind m f) Q"
  by (simp add: after_def bind_eq_Some_conv) blast

lemma after_skip: "(\<And>a. after (f a) Q) \<Longrightarrow> after (Option.bind m f) Q"
  by (rule after_bind [where P = "\<lambda>_. True"]) (simp_all add: after_def)

lemma afterD: "after m Q \<Longrightarrow> m = Some a \<Longrightarrow> Q a"
  by (simp add: after_def)

section \<open>Invariants of a device\<close>

lemma virtio_handler_ops:
  "dh_on_write_config (virtio_handler vd vq) = default_dh_on_write_config"
  "dh_read_bar (virtio_handler vd vq) = vh_read_bar vd vq" "dh_write_bar (virtio_handler vd vq) = vh_write_bar vd vq"
  by (simp_all add: virtio_handler_def)

abbreviation dev :: "'t VirtioPciFunction \<Rightarrow> 't" where
  "dev f \<equiv> vh_device (fn_device (vf_inner f))"

locale device_invariant =
  fixes vd :: "('t, 'q) virtio_device" and P :: "'t \<Rightarrow> bool"
  assumes set_driver_features: "P d \<Longrightarrow> P (vd_set_driver_features vd d page v)"
    and ack_device_status: "P d \<Longrightarrow> vd_ack_device_status vd d status = Some d' \<Longrightarrow> P d'"
    and set_queue_select: "P d \<Longrightarrow> P (vd_set_queue_select vd d i)"
    and set_queue: "P d \<Longrightarrow> P (vd_set_queue vd d i q)"
    and write_config: "P d \<Longrightarrow> P (vd_write_config vd d off data)"
    and set_config_msix_vector: "P d \<Longrightarrow> P (vd_set_config_msix_vector vd d vec)"
    and set_msi_message: "P d \<Longrightarrow> P (vd_set_msi_message vd d vec msg)"
    and set_queue_msix_vector: "P d \<Longrightarrow> P (vd_set_queue_msix_vector vd d vec)"
    and read_and_clear_isr: "P d \<Longrightarrow> P (snd (vd_read_and_clear_isr vd d))"
    and set_info: "P d \<Longrightarrow> P (vd_set_notification_info vd d info)"
    and queue_notify: "P d \<Longrightarrow> vd_queue_notify vd d n = Some d' \<Longrightarrow> P d'"
begin

lemma ack: "P d \<Longrightarrow> after (vd_ack_device_status vd d status) P"
  using ack_device_status by (auto simp: after_def)

lemma notification: "P d \<Longrightarrow> after (vd_queue_notify vd d n) P"
  using queue_notify by (auto simp: after_def)

lemma with_queue_mut: "P d \<Longrightarrow> after (with_queue_mut vd cfg d f) P"
  by (auto simp: with_queue_mut_def set_queue intro!: after_any split: option.split)

lemma process_write_register:
  assumes "P d"
  shows "after (process_write_register vd vq cfg reg sz d) (\<lambda>a. P (snd a))"
proof -
  have q: "after (with_queue_mut vd cfg d f) (\<lambda>d. P d)" for f using with_queue_mut [OF assms] .
  have q': "after (with_queue_mut vd cfg d f) (\<lambda>d. after m (\<lambda>_. P d))" for f and m :: "'x option"
    using q by (rule after_mono) (rule after_any)
  show ?thesis
    unfolding process_write_register_def
    by (cases reg) (auto intro!: after_any simp: assms q q' ack set_driver_features set_config_msix_vector
      set_queue_select set_queue_msix_vector Let_def split: prod.split)
qed

lemma common_process_write: "P d \<Longrightarrow> after (common_process_write vd vq cfg off sz d) (\<lambda>a. P (snd a))"
  by (auto simp: common_process_write_def process_write_register intro: after_any split: option.split)

lemma common_read_bar: "P d \<Longrightarrow> after (common_read_bar vd vq cfg off data d) (\<lambda>a. P (snd (snd (snd a))))"
  by (auto simp: common_read_bar_def split_beta intro!: after_any split: sum.split)

lemma common_write_bar: "P d \<Longrightarrow> after (common_write_bar vd vq cfg off data d) (\<lambda>a. P (snd (snd a)))"
  by (auto simp: common_write_bar_def split_beta common_process_write intro!: after_any split: sum.split)

text \<open>The structures behind the BAR, and the handler that tries them in turn.\<close>

lemma region_read:
  assumes "P d" and "\<And>off. after (rd self off data d) (\<lambda>a. P (snd (snd (snd a))))"
  shows "after (region_handle_read_bar info rd self bar off data d) (\<lambda>a. P (snd (snd (snd a))))"
  using assms(1) by (auto simp: region_handle_read_bar_def split_beta split: option.split sum.split
    intro!: after_mono [OF assms(2)])

lemma region_write:
  assumes "P d" and "\<And>off. after (wr self off data d) (\<lambda>a. P (snd (snd a)))"
  shows "after (region_handle_write_bar info wr self bar off data d) (\<lambda>a. P (snd (snd a)))"
  using assms(1) by (auto simp: region_handle_write_bar_def split_beta split: option.split sum.split
    intro!: after_mono [OF assms(2)])

lemma notify_write: "P d \<Longrightarrow> after (notify_write_bar vd self off data d) (\<lambda>a. P (snd (snd a)))"
  by (simp add: notify_write_bar_def Let_def notification)

lemma isr_read: "P d \<Longrightarrow> after (isr_read_bar vd self off data d) (\<lambda>a. P (snd (snd (snd a))))"
  by (simp add: isr_read_bar_def Let_def split_beta read_and_clear_isr)

lemma structure_reads:
  assumes "P d"
  shows "after (region_handle_read_bar vc_info (common_read_bar vd vq) c bar off data d) (\<lambda>a. P (snd (snd (snd a))))"
    and "after (region_handle_read_bar vdc_info (device_cfg_read_bar vd) dc bar off data d) (\<lambda>a. P (snd (snd (snd a))))"
    and "after (region_handle_read_bar vn_info notify_read_bar nc bar off data d) (\<lambda>a. P (snd (snd (snd a))))"
    and "after (region_handle_read_bar vi_region (isr_read_bar vd) ic bar off data d) (\<lambda>a. P (snd (snd (snd a))))"
  by (rule region_read [OF assms]; simp add: assms common_read_bar isr_read device_cfg_read_bar_def notify_read_bar_def)+

lemma structure_writes:
  assumes "P d"
  shows "after (region_handle_write_bar vc_info (common_write_bar vd vq) c bar off data d) (\<lambda>a. P (snd (snd a)))"
    and "after (region_handle_write_bar vdc_info (device_cfg_write_bar vd) dc bar off data d) (\<lambda>a. P (snd (snd a)))"
    and "after (region_handle_write_bar vn_info (notify_write_bar vd) nc bar off data d) (\<lambda>a. P (snd (snd a)))"
    and "after (region_handle_write_bar vi_region isr_write_bar ic bar off data d) (\<lambda>a. P (snd (snd a)))"
  by (rule region_write [OF assms]; simp add: assms common_write_bar notify_write device_cfg_write_bar_def isr_write_bar_def write_config)+

lemma handler_read:
  assumes "P (vh_device self)"
  shows "after (vh_read_bar vd vq self bar off data irq w) (\<lambda>a. P (vh_device (fst (snd a))))"
  unfolding vh_read_bar_def
  apply (rule after_bind [OF structure_reads(1) [OF assms]])
  apply (clarsimp simp: Let_def simp del: after_simps(3) split: sum.split PciHandlerResult.split)
  apply (rule after_bind [OF structure_reads(2)], simp)
  apply (clarsimp simp: Let_def simp del: after_simps(3) split: sum.split PciHandlerResult.split)
  apply (rule after_bind [OF structure_reads(3)], simp)
  apply (clarsimp simp: Let_def simp del: after_simps(3) split: sum.split PciHandlerResult.split)
  apply (rule after_bind [OF structure_reads(4)], simp)
  apply (auto simp: Let_def split_beta intro!: after_any split: sum.split PciHandlerResult.split)
  done

lemma handler_write:
  assumes "P (vh_device self)"
  shows "after (vh_write_bar vd vq self bar off data irq w) (\<lambda>a. P (vh_device (fst (snd a))))"
  unfolding vh_write_bar_def
  apply (rule after_bind [OF structure_writes(1) [OF assms]])
  apply (clarsimp simp: Let_def simp del: after_simps(3) split: sum.split PciHandlerResult.split)
  apply (rule after_bind [OF structure_writes(2)], simp)
  apply (clarsimp simp: Let_def simp del: after_simps(3) split: sum.split PciHandlerResult.split)
  apply (rule after_bind [OF structure_writes(3)], simp)
  apply (clarsimp simp: Let_def simp del: after_simps(3) split: sum.split PciHandlerResult.split)
  apply (rule after_bind [OF structure_writes(4)], simp)
  apply (clarsimp simp: Let_def split: sum.split)
  done

lemma handler_update:
  assumes "P (vh_device self)"
  shows "after (vh_on_config_update vd self event) (\<lambda>d. P (vh_device d))"
  using assms by (cases event)
    (auto simp: vh_on_config_update_def set_msi_message on_bar_changed_def on_space_changed_def set_notification_info_def set_info
      intro!: after_any split: option.split)

text \<open>The function around the handler.\<close>

lemma notify:
  assumes "P (vh_device (fn_device f))"
  shows "after (fn_notify (virtio_handler vd vq) f event) (\<lambda>a. P (vh_device (fn_device (snd a))))"
  using handler_update [OF assms, of event] by (simp add: fn_notify_def virtio_handler_def)

lemma inner_read_config:
  assumes "P (vh_device (fn_device f))"
  shows "after (fn_read_config (virtio_handler vd vq) f off data) (\<lambda>a. P (vh_device (fn_device (fst (snd a)))))"
  using assms by (auto simp: fn_read_config_def virtio_handler_def default_dh_prepare_read_config_def split_beta intro!: after_any)

lemma inner_write_config:
  assumes "P (vh_device (fn_device f))"
  shows "after (fn_write_config (virtio_handler vd vq) ih f off data) (\<lambda>a. P (vh_device (fn_device (snd a))))"
proof -
  have n: "after (fn_notify (virtio_handler vd vq) g event) (\<lambda>a. P (vh_device (fn_device (snd a))))"
    if "P (vh_device (fn_device g))" for g event using notify [OF that] .
  have s: "after (fn_handle_spaces (virtio_handler vd vq) g prev off) (\<lambda>a. P (vh_device (fn_device (snd a))))"
    if "P (vh_device (fn_device g))" for g prev off
    unfolding fn_handle_spaces_def using that n [OF that] by (auto intro!: after_any split: option.split)
  show ?thesis
    unfolding fn_write_config_def using assms
    by (auto simp: virtio_handler_ops default_dh_on_write_config_def split_beta Let_def n s intro!: after_any
      split: sum.split PciHandlerResult.split option.split)
qed

lemma inner_read_bar:
  assumes "P (vh_device (fn_device f))"
  shows "after (fn_read_bar (virtio_handler vd vq) ih f bar off data) (\<lambda>a. P (vh_device (fn_device (fst (snd a)))))"
  unfolding fn_read_bar_def
  using assms by (auto simp: virtio_handler_ops split_beta Let_def handler_read intro!: after_any split: sum.split)

lemma inner_write_bar:
  assumes "P (vh_device (fn_device f))"
  shows "after (fn_write_bar (virtio_handler vd vq) ih f bar off data) (\<lambda>a. P (vh_device (fn_device (snd a))))"
  unfolding fn_write_bar_def
  using assms by (auto simp: virtio_handler_ops split_beta Let_def handler_write notify intro!: after_any
    split: sum.split PciHandlerResult.split option.split)

text \<open>The accesses of the guest.\<close>

lemma bar_read: "P (dev f) \<Longrightarrow> after (vf_read_bar vd vq f bar off data) (\<lambda>a. P (dev (fst (snd a))))"
  using inner_read_bar [of "vf_inner f"] by (simp add: vf_read_bar_def split_beta)

lemma bar_write: "P (dev f) \<Longrightarrow> after (vf_write_bar vd vq f bar off data) (\<lambda>a. P (dev (snd a)))"
  using inner_write_bar [of "vf_inner f"] by (simp add: vf_write_bar_def on_inner_def split_beta)

lemma mmio_read: "P (dev f) \<Longrightarrow> after (read_mmio (vf_get_bar vd vq) (vf_read_bar vd vq) f addr data) (\<lambda>a. P (dev (fst (snd a))))"
  by (auto simp: read_mmio_def Let_def bar_read intro!: after_any split: option.split)

lemma mmio_write: "P (dev f) \<Longrightarrow> after (write_mmio (vf_get_bar vd vq) (vf_write_bar vd vq) f addr data) (\<lambda>a. P (dev (snd a)))"
  by (auto simp: write_mmio_def Let_def bar_write intro!: after_any split: option.split)

lemma pio_read: "P (dev f) \<Longrightarrow> after (read_pio (vf_get_bar vd vq) (vf_read_bar vd vq) f port data) (\<lambda>a. P (dev (fst (snd a))))"
  by (auto simp: read_pio_def Let_def bar_read intro!: after_any split: option.split)

lemma pio_write: "P (dev f) \<Longrightarrow> after (write_pio (vf_get_bar vd vq) (vf_write_bar vd vq) f port data) (\<lambda>a. P (dev (snd a)))"
  by (auto simp: write_pio_def Let_def bar_write intro!: after_any split: option.split)

lemma window_update: "P (dev f) \<Longrightarrow> after (update_pci_cfg_data f data) (\<lambda>f. P (dev f))"
  by (auto simp: update_pci_cfg_data_eq vf_set_config_def intro!: after_any)

lemma window_read:
  assumes "P (dev f)"
  shows "after (cfg_prepare_read vd vq f off sz) (\<lambda>a. P (dev (snd a)))"
proof -
  have fill: "after (case ret of None \<Rightarrow> Some (True, g)
      | Some (Inl _, self, data) \<Rightarrow> do { self \<leftarrow> set_pci_cfg_data_invalid self; Some (True, self) }
      | Some (Inr _, self, data) \<Rightarrow> do { self \<leftarrow> update_pci_cfg_data self (h data); Some (True, self) }) (\<lambda>a. P (dev (snd a)))"
    if "P (dev g)" "case ret of None \<Rightarrow> True | Some a \<Rightarrow> P (dev (fst (snd a)))" for g h
      and ret :: "(unit result \<times> 't VirtioPciFunction \<times> bytes) option"
    using that by (auto simp: set_pci_cfg_data_invalid_eq window_update split: option.splits sum.splits)
  show ?thesis
    unfolding cfg_prepare_read_eq set_pci_cfg_data_invalid_eq [of f]
    apply (simp del: after_simps(3) add: assms, intro impI)
    apply (rule after_bind [OF window_update [OF assms]], rule after_skip)
    apply (clarsimp simp del: after_simps(3) split: option.split, rule after_skip)
    apply (clarsimp simp: Let_def simp del: after_simps(3) split: option.split)
    apply (intro conjI impI)
    apply (rule after_bind [OF _ fill, where P = "case_option True (\<lambda>a. P (dev (fst (snd a))))"]; simp add: mmio_read pio_read)+
    done
qed

lemma window_write:
  assumes "P (dev f)"
  shows "after (cfg_process_write vd vq f off sz) (\<lambda>a. P (dev (snd a)))"
  unfolding cfg_process_write_eq
  apply (simp del: after_simps(3) add: assms, intro impI)
  apply (rule after_skip, clarsimp simp: assms simp del: after_simps(3) split: option.split, rule after_skip)
  apply (clarsimp simp: assms simp del: after_simps(3) split: option.split, rule after_skip)
  apply (auto simp: Let_def assms mmio_write pio_write split_beta)
  done

lemma config_read:
  assumes "P (dev f)"
  shows "after (vf_read_config vd vq f off data) (\<lambda>a. P (dev (fst (snd a))))"
  unfolding vf_read_config_def
  by (rule after_bind [OF window_read [OF assms]]) (auto simp: split_beta inner_read_config)

lemma config_write:
  assumes "P (dev f)"
  shows "after (vf_write_config vd vq f off data) (\<lambda>a. P (dev (snd a)))"
  using inner_write_config [OF assms, of vq virtio_interrupts off data]
  by (auto simp: vf_write_config_def on_inner_def split_beta elim!: after_mono intro: window_write split: sum.split)

end

end
