(* ===== verification/Sys_Linux.thy ===== *)
theory Sys_Linux
  imports Greens_Prelude
begin

text \<open>
  The wrappers of \<open>greens-sys-linux\<close>: memory mappings (\<open>mmap.rs\<close>) and the configurations of event descriptors
  (\<open>eventfd.rs\<close>). The kernel is an argument: it answers every call with a number that may depend on all
  the calls before it. A state records the calls made and their results, oldest first.
\<close>

record mmap_args =
  mmap_addr :: int
  mmap_len :: usize
  mmap_prot :: int
  mmap_flags :: int
  mmap_fd :: int
  mmap_offset :: int

text \<open>The system calls; \<open>'r\<close> is the type of the requests to a device with \<open>ioctl\<close>.\<close>

datatype 'r sys_call = OpenFile string | Close int | Ioctl int 'r | Mmap mmap_args | Munmap int usize

type_synonym 'r history = "('r sys_call \<times> int) list"

record 'r kernel =
  k_result :: "'r history \<Rightarrow> 'r sys_call \<Rightarrow> int"
  k_errno :: "'r history \<Rightarrow> int"

definition sys_call :: "'r kernel \<Rightarrow> 'r history \<Rightarrow> 'r sys_call \<Rightarrow> int \<times> 'r history" where
  "sys_call k h c = (let r = k_result k h c in (r, h @ [(c, r)]))"

lemma sys_call_eq [simp]: "sys_call k h c = (k_result k h c, h @ [(c, k_result k h c)])"
  by (simp add: sys_call_def Let_def)

record MemoryMapping =
  map_addr :: int
  map_size :: usize

text \<open>\<open>MAP_FAILED\<close> is the pointer of value minus one.\<close>

definition try_mmap ::
    "'r kernel \<Rightarrow> int option \<Rightarrow> usize \<Rightarrow> int \<Rightarrow> int \<Rightarrow> int option \<Rightarrow> int option \<Rightarrow> 'r history \<Rightarrow> (int + MemoryMapping) \<times> 'r history" where
  "try_mmap k addr sz prot flags file offset h =
     (let args = \<lparr>mmap_addr = (case addr of Some a \<Rightarrow> a | None \<Rightarrow> 0), mmap_len = sz, mmap_prot = prot, mmap_flags = flags,
            mmap_fd = (case file of Some f \<Rightarrow> f | None \<Rightarrow> -1), mmap_offset = (case offset of Some off \<Rightarrow> off | None \<Rightarrow> 0)\<rparr>;
          (a, h) = sys_call k h (Mmap args)
      in if a = -1 then (Inl (k_errno k h), h)
         else (Inr \<lparr>map_addr = a, map_size = sz\<rparr>, h))"

definition drop_mapping :: "'r kernel \<Rightarrow> MemoryMapping \<Rightarrow> 'r history \<Rightarrow> 'r history" where
  "drop_mapping k m h = snd (sys_call k h (Munmap (map_addr m) (map_size m)))"

record IoEventFdConfig =
  io_fd :: int
  io_addr :: u64
  io_len :: u32
  io_data :: "u64 option"

definition ioeventfd_new :: "int \<Rightarrow> u64 \<Rightarrow> u32 \<Rightarrow> u64 option \<Rightarrow> IoEventFdConfig" where
  "ioeventfd_new fd addr len data = \<lparr>io_fd = fd, io_addr = addr, io_len = len, io_data = data\<rparr>"

record IrqFdConfig =
  irq_fd :: int
  irq_irq :: u32

definition irqfd_new :: "int \<Rightarrow> u32 \<Rightarrow> IrqFdConfig" where
  "irqfd_new fd irq = \<lparr>irq_fd = fd, irq_irq = irq\<rparr>"

end
