(* ===== verification/Vhost_Net.thy ===== *)
theory Vhost_Net
  imports Virtio_Build Vhost_Cli Sys_Linux
begin

text \<open>
  The virtio network device of the vhost-net program: the TAP interface (\<open>tap.rs\<close>), the device behind the
  virtio PCI function (\<open>vhost_net.rs\<close>) and guest memory (\<open>guest_memory.rs\<close>). The vhost backend of the
  kernel, the crates \<open>virtio_device\<close>, \<open>virtio_queue\<close> and \<open>vm_memory\<close> and the constants of the C library
  and of \<open>virtio_bindings\<close> are arguments.
\<close>

section \<open>The TAP interface\<close>

record libc_consts =
  IF_NAMESIZE :: usize
  IFF_TAP :: int
  IFF_NO_PI :: int
  IFF_VNET_HDR :: int
  TUN_F_CSUM :: u32
  TUN_F_UFO :: u32
  TUN_F_TSO4 :: u32
  TUN_F_TSO6 :: u32

datatype tap_request = TUNSETIFF ifreq | TUNSETOFFLOAD u64 | TUNSETVNETHDRSZ int

type_synonym tap_kernel = "tap_request kernel"
type_synonym tap_history = "tap_request history"

record Tap =
  tap_file :: int

definition TUN_DEVICE :: string where "TUN_DEVICE = ''/dev/net/tun''"

text \<open>Leaving the function with an error closes the file.\<close>

definition open_named :: "tap_kernel \<Rightarrow> libc_consts \<Rightarrow> bytes \<Rightarrow> tap_history \<Rightarrow> ((tap_error + Tap) \<times> tap_history) option" where
  "open_named k lc if_name h =
     (let (tap, h) = sys_call k h (OpenFile TUN_DEVICE) in
      if tap = -1 then Some (Inl TapConfiguration, h)
      else do {
        r \<leftarrow> ifreq_with_flags (IF_NAMESIZE lc) if_name (IFF_TAP lc OR IFF_NO_PI lc OR IFF_VNET_HDR lc);
        case r of
          Inl e \<Rightarrow> Some (Inl e, snd (sys_call k h (Close tap)))
        | Inr ifreq \<Rightarrow>
            (let (ret, h) = sys_call k h (Ioctl tap (TUNSETIFF ifreq)) in
             if ret < 0 then Some (Inl TapConfiguration, snd (sys_call k h (Close tap)))
             else Some (Inr \<lparr>tap_file = tap\<rparr>, h))
      })"

definition set_offload :: "tap_kernel \<Rightarrow> Tap \<Rightarrow> u32 \<Rightarrow> tap_history \<Rightarrow> (tap_error + unit) \<times> tap_history" where
  "set_offload k self flags h =
     (let (ret, h) = sys_call k h (Ioctl (tap_file self) (TUNSETOFFLOAD (ucast flags))) in
      if ret < 0 then (Inl TapConfiguration, h) else (Inr (), h))"

definition set_vnet_hdr_size :: "tap_kernel \<Rightarrow> Tap \<Rightarrow> u32 \<Rightarrow> tap_history \<Rightarrow> (tap_error + unit) \<times> tap_history" where
  "set_vnet_hdr_size k self sz h =
     (let (ret, h) = sys_call k h (Ioctl (tap_file self) (TUNSETVNETHDRSZ (sint sz))) in
      if ret < 0 then (Inl TapConfiguration, h) else (Inr (), h))"

section \<open>Features\<close>

record virtio_consts =
  VIRTIO_F_ACCESS_PLATFORM :: u32
  VIRTIO_F_NOTIFICATION_DATA :: u32
  VIRTIO_F_RING_RESET :: u32
  VIRTIO_NET_F_CSUM :: u32
  VIRTIO_NET_F_GUEST_CSUM :: u32
  VIRTIO_NET_F_GUEST_TSO4 :: u32
  VIRTIO_NET_F_GUEST_TSO6 :: u32
  VIRTIO_NET_F_GUEST_UFO :: u32
  VIRTIO_NET_F_HOST_TSO4 :: u32
  VIRTIO_NET_F_HOST_TSO6 :: u32
  VIRTIO_NET_F_HOST_UFO :: u32
  VIRTIO_NET_F_MAC :: u32
  VIRTIO_ID_NET :: u32

definition VHOST_F_LOG_ALL :: u32 where "VHOST_F_LOG_ALL = 26"
definition VIRTIO_NET_HDR_LEN :: u32 where "VIRTIO_NET_HDR_LEN = 12"

text \<open>A shift by the width of the type or more panics.\<close>

definition shl_one :: "u32 \<Rightarrow> u64 option" where
  "shl_one n = (if unat n < 64 then Some (push_bit (unat n) 1) else None)"

fun feature_mask_from :: "u64 \<Rightarrow> u32 list \<Rightarrow> u64 option" where
  "feature_mask_from acc [] = Some acc"
| "feature_mask_from acc (n # ns) = do { b \<leftarrow> shl_one n; feature_mask_from (acc OR b) ns }"

definition feature_mask :: "u32 list \<Rightarrow> u64 option" where
  "feature_mask bits = feature_mask_from 0 bits"

definition transport_features :: "virtio_consts \<Rightarrow> u64 option" where
  "transport_features vc = feature_mask [VIRTIO_F_ACCESS_PLATFORM vc]"

definition device_feature_bits :: "virtio_consts \<Rightarrow> u32 list" where
  "device_feature_bits vc =
     [VIRTIO_NET_F_CSUM vc, VIRTIO_NET_F_GUEST_CSUM vc, VIRTIO_NET_F_GUEST_TSO4 vc, VIRTIO_NET_F_GUEST_TSO6 vc,
      VIRTIO_NET_F_GUEST_UFO vc, VIRTIO_NET_F_HOST_TSO4 vc, VIRTIO_NET_F_HOST_TSO6 vc, VIRTIO_NET_F_HOST_UFO vc,
      VIRTIO_NET_F_MAC vc]"

definition supported_device_features :: "virtio_consts \<Rightarrow> u64 option" where
  "supported_device_features vc = feature_mask (device_feature_bits vc)"

record VhostNetConfig =
  cfg_tap :: bytes
  cfg_mac :: "u8 list option"
  cfg_queue_size :: u16

definition device_features :: "virtio_consts \<Rightarrow> VhostNetConfig \<Rightarrow> u64 option" where
  "device_features vc config = do {
     features \<leftarrow> supported_device_features vc;
     if cfg_mac config = None then do { b \<leftarrow> shl_one (VIRTIO_NET_F_MAC vc); Some (features AND NOT b) }
     else Some features
   }"

section \<open>The device\<close>

record VringConfigData =
  queue_max_size :: u16
  queue_size :: u16
  vring_flags :: u32
  desc_table_addr :: u64
  used_ring_addr :: u64
  avail_ring_addr :: u64
  log_addr :: "u64 option"

text \<open>A region of guest memory as \<open>vm_memory\<close> has it: start, size, host address, and file with offset.\<close>

record mem_region =
  mem_start :: u64
  mem_size :: usize
  mem_ptr :: u64
  mem_file_offset :: "(int \<times> u64) option"

record VhostUserMemoryRegionInfo =
  guest_phys_addr :: u64
  memory_size :: u64
  userspace_addr :: u64
  info_mmap_offset :: u64
  mmap_handle :: int

datatype vhost_call =
    SetOwner
  | SetFeatures u64
  | SetMemTable "VhostUserMemoryRegionInfo list"
  | SetVringCall usize int
  | SetVringNum usize u16
  | SetVringBase usize u16
  | SetVringAddr usize VringConfigData
  | SetVringKick usize int
  | SetBackend usize int
  | EventFdWrite int u64

text \<open>
  The backend with the event descriptors, with state \<open>'w\<close>: a new backend, whether a call succeeds, the features it has, a
  new event descriptor, the regions of guest memory, and the available index of a queue in guest memory.
\<close>

record ('w, 'q) vhost_backend =
  vb_new :: "mem_region list \<Rightarrow> 'w option"
  vb_call :: "vhost_call \<Rightarrow> 'w \<Rightarrow> bool \<times> 'w"
  vb_get_features :: "'w \<Rightarrow> u64 option \<times> 'w"
  vb_eventfd_new :: "'w \<Rightarrow> int option \<times> 'w"
  vb_mem :: "'w \<Rightarrow> mem_region list"
  vb_avail_idx :: "'q \<Rightarrow> 'w \<Rightarrow> u16 option"

text \<open>The binder of event descriptors, with state \<open>'h\<close>.\<close>

record 'h eventfd_binder =
  eb_bind_ioeventfd :: "IoEventFdConfig \<Rightarrow> 'h \<Rightarrow> bool \<times> 'h"
  eb_bind_irqfd :: "IrqFdConfig \<Rightarrow> 'h \<Rightarrow> bool \<times> 'h"

text \<open>Queues and \<open>VirtioConfig\<close> with the methods \<open>virtio_device\<close> gives every device that has one.\<close>

record 'q net_queue = "'q virtio_queue" +
  nq_new :: "u16 \<Rightarrow> 'q option"
  nq_max_size :: "'q \<Rightarrow> u16"

text \<open>
  What the crate does when the driver writes the status: it updates the configuration, calls at most one of
  the two actions of the device, and updates the configuration again by the outcome of the action.
\<close>

datatype 'c ack_plan = AckDone 'c | AckActivate 'c "'c \<Rightarrow> bool \<Rightarrow> 'c" | AckReset 'c "'c \<Rightarrow> bool \<Rightarrow> 'c"

record ('c, 'q) virtio_config =
  vcf_new :: "u64 \<Rightarrow> 'q list \<Rightarrow> bytes \<Rightarrow> 'c"
  vcf_queues :: "'c \<Rightarrow> 'q list"
  vcf_device_features :: "'c \<Rightarrow> u64"
  vcf_driver_features :: "'c \<Rightarrow> u64"
  vcf_set_driver_features :: "'c \<Rightarrow> u32 \<Rightarrow> u32 \<Rightarrow> 'c"
  vcf_num_queues :: "'c \<Rightarrow> u16"
  vcf_device_status :: "'c \<Rightarrow> u8"
  vcf_ack_device_status :: "'c \<Rightarrow> u8 \<Rightarrow> 'c ack_plan"
  vcf_config_generation :: "'c \<Rightarrow> u8"
  vcf_queue_select :: "'c \<Rightarrow> u16"
  vcf_set_queue_select :: "'c \<Rightarrow> u16 \<Rightarrow> 'c"
  vcf_queue :: "'c \<Rightarrow> u16 \<Rightarrow> 'q option"
  vcf_set_queue :: "'c \<Rightarrow> u16 \<Rightarrow> 'q \<Rightarrow> 'c"
  vcf_read_config :: "'c \<Rightarrow> usize \<Rightarrow> bytes \<Rightarrow> bytes"
  vcf_write_config :: "'c \<Rightarrow> usize \<Rightarrow> bytes \<Rightarrow> 'c"
  vcf_swap_interrupt_status :: "'c \<Rightarrow> u8 \<Rightarrow> u8 \<times> 'c"

text \<open>\<open>vn_net\<close>, \<open>vn_binder\<close> and \<open>vn_tap_calls\<close> are what is behind the handles of the device.\<close>

record ('w, 'c, 'h) VhostNetDevice =
  vn_net :: 'w
  vn_cfg :: 'c
  vn_config_msix_vector :: u16
  vn_queue_msix_vector :: "u16 list"
  vn_notify_cfg_info :: "VirtioPciNotifyCfgInfo option"
  vn_msix_data :: "u16 \<rightharpoonup> u32"
  vn_binder :: 'h
  vn_ioeventfds :: "int list"
  vn_irqfds :: "int list"
  vn_tap :: Tap
  vn_tap_calls :: tap_history

text \<open>The arguments that stand for code outside the repository.\<close>

record ('w, 'c, 'h, 'q) vhost_env =
  ve_backend :: "('w, 'q) vhost_backend"
  ve_binder :: "'h eventfd_binder"
  ve_queue :: "'q net_queue"
  ve_config :: "('c, 'q) virtio_config"
  ve_kernel :: tap_kernel
  ve_libc :: libc_consts
  ve_virtio :: virtio_consts

text \<open>\<open>expect\<close> and \<open>unwrap\<close> panic on an error.\<close>

definition expect_ok :: "bool \<times> 's \<Rightarrow> 's option" where
  "expect_ok r = (if fst r then Some (snd r) else None)"

definition expect_value :: "'a option \<times> 's \<Rightarrow> ('a \<times> 's) option" where
  "expect_value r = map_option (\<lambda>a. (a, snd r)) (fst r)"

definition expect_result :: "('e + 'a) \<times> 's \<Rightarrow> ('a \<times> 's) option" where
  "expect_result r = (case fst r of Inl _ \<Rightarrow> None | Inr a \<Rightarrow> Some (a, snd r))"

lemma expect_Some [simp]:
  "expect_ok p = Some s \<longleftrightarrow> p = (True, s)"
  "expect_value v = Some (a, s) \<longleftrightarrow> v = (Some a, s)"
  "expect_result r = Some (a, s) \<longleftrightarrow> r = (Inr a, s)"
  by (auto simp: expect_ok_def expect_value_def expect_result_def prod_eq_iff split: sum.splits if_splits)

definition net_call :: "('w, 'c, 'h, 'q) vhost_env \<Rightarrow> vhost_call \<Rightarrow> 'w \<Rightarrow> 'w option" where
  "net_call ev c w = expect_ok (vb_call (ve_backend ev) c w)"

definition vhost_new ::
    "('w, 'c, 'h, 'q) vhost_env \<Rightarrow> 'h \<Rightarrow> mem_region list \<Rightarrow> tap_history \<Rightarrow> VhostNetConfig \<Rightarrow> ('w, 'c, 'h) VhostNetDevice option" where
  "vhost_new ev binder guest_memory h config = do {
     net \<leftarrow> vb_new (ve_backend ev) guest_memory;
     net \<leftarrow> net_call ev SetOwner net;
     disabled \<leftarrow> feature_mask [VHOST_F_LOG_ALL, VIRTIO_F_RING_RESET (ve_virtio ev)];
     let disabled_features = NOT disabled;
     (backend_features, net) \<leftarrow> expect_value (vb_get_features (ve_backend ev) net);
     dev_features \<leftarrow> device_features (ve_virtio ev) config;
     transport \<leftarrow> transport_features (ve_virtio ev);
     let features = disabled_features AND (backend_features OR transport OR dev_features);
     q0 \<leftarrow> nq_new (ve_queue ev) (cfg_queue_size config);
     q1 \<leftarrow> nq_new (ve_queue ev) (cfg_queue_size config);
     opened \<leftarrow> open_named (ve_kernel ev) (ve_libc ev) (cfg_tap config) h;
     (tap, h) \<leftarrow> expect_result opened;
     (_, h) \<leftarrow> expect_result (set_vnet_hdr_size (ve_kernel ev) tap VIRTIO_NET_HDR_LEN h);
     let mac = (case cfg_mac config of Some m \<Rightarrow> m | None \<Rightarrow> replicate 6 0);
     Some \<lparr>vn_net = net, vn_cfg = vcf_new (ve_config ev) features [q0, q1] mac,
           vn_config_msix_vector = 0, vn_queue_msix_vector = [MSIX_VECTOR_UNMAPPED, MSIX_VECTOR_UNMAPPED],
           vn_notify_cfg_info = None, vn_msix_data = Map.empty, vn_binder = binder,
           vn_ioeventfds = [], vn_irqfds = [], vn_tap = tap, vn_tap_calls = h\<rparr>
   }"

definition feature_negotiated :: "('w, 'c, 'h, 'q) vhost_env \<Rightarrow> ('w, 'c, 'h) VhostNetDevice \<Rightarrow> u32 \<Rightarrow> bool option" where
  "feature_negotiated ev self feature = do {
     b \<leftarrow> shl_one feature;
     Some (vcf_driver_features (ve_config ev) (vn_cfg self) AND b \<noteq> 0)
   }"

fun memory_region_info :: "mem_region list \<Rightarrow> VhostUserMemoryRegionInfo list option" where
  "memory_region_info [] = Some []"
| "memory_region_info (r # rs) = do {
     (fd, start) \<leftarrow> mem_file_offset r;
     infos \<leftarrow> memory_region_info rs;
     Some (\<lparr>guest_phys_addr = mem_start r, memory_size = of_nat (mem_size r), userspace_addr = mem_ptr r,
            info_mmap_offset = start, mmap_handle = fd\<rparr> # infos)
   }"

section \<open>The methods of the device\<close>

definition vhost_set_notification_info ::
    "('w, 'c, 'h) VhostNetDevice \<Rightarrow> VirtioPciNotifyCfgInfo \<Rightarrow> ('w, 'c, 'h) VhostNetDevice" where
  "vhost_set_notification_info self info = self\<lparr>vn_notify_cfg_info := Some info\<rparr>"

definition vhost_queue_notify ::
    "('w, 'c, 'h, 'q) vhost_env \<Rightarrow> ('w, 'c, 'h) VhostNetDevice \<Rightarrow> u32 \<Rightarrow> ('w, 'c, 'h) VhostNetDevice option" where
  "vhost_queue_notify ev self data =
     (if unat data < length (vn_ioeventfds self)
      then do {
        net \<leftarrow> net_call ev (EventFdWrite (vn_ioeventfds self ! unat data) 1) (vn_net self);
        Some (self\<lparr>vn_net := net\<rparr>)
      }
      else Some self)"

definition vhost_set_config_msix_vector :: "('w, 'c, 'h) VhostNetDevice \<Rightarrow> u16 \<Rightarrow> ('w, 'c, 'h) VhostNetDevice" where
  "vhost_set_config_msix_vector self vector = self\<lparr>vn_config_msix_vector := vector\<rparr>"

definition vhost_set_msi_message :: "('w, 'c, 'h) VhostNetDevice \<Rightarrow> u16 \<Rightarrow> PciMsiMessage \<Rightarrow> ('w, 'c, 'h) VhostNetDevice" where
  "vhost_set_msi_message self vector msg = self\<lparr>vn_msix_data := (vn_msix_data self)(vector \<mapsto> msg_data msg)\<rparr>"

definition vhost_set_queue_msix_vector ::
    "('w, 'c, 'h, 'q) vhost_env \<Rightarrow> ('w, 'c, 'h) VhostNetDevice \<Rightarrow> u16 \<Rightarrow> ('w, 'c, 'h) VhostNetDevice" where
  "vhost_set_queue_msix_vector ev self vector =
     (let index = unat (vcf_queue_select (ve_config ev) (vn_cfg self)) in
      if index < length (vn_queue_msix_vector self)
      then self\<lparr>vn_queue_msix_vector := (vn_queue_msix_vector self)[index := vector]\<rparr> else self)"

definition vhost_queue_msix_vector :: "('w, 'c, 'h, 'q) vhost_env \<Rightarrow> ('w, 'c, 'h) VhostNetDevice \<Rightarrow> u16 option" where
  "vhost_queue_msix_vector ev self =
     (let index = unat (vcf_queue_select (ve_config ev) (vn_cfg self)) in
      if index < length (vn_queue_msix_vector self) then Some (vn_queue_msix_vector self ! index) else None)"

definition vhost_read_and_clear_isr ::
    "('w, 'c, 'h, 'q) vhost_env \<Rightarrow> ('w, 'c, 'h) VhostNetDevice \<Rightarrow> u8 \<times> ('w, 'c, 'h) VhostNetDevice" where
  "vhost_read_and_clear_isr ev self =
     (let (isr, cfg) = vcf_swap_interrupt_status (ve_config ev) (vn_cfg self) 0 in (isr, self\<lparr>vn_cfg := cfg\<rparr>))"

section \<open>Activation\<close>

definition backend_features :: "('w, 'c, 'h, 'q) vhost_env \<Rightarrow> ('w, 'c, 'h) VhostNetDevice \<Rightarrow> u64 option" where
  "backend_features ev self = do {
     transport \<leftarrow> transport_features (ve_virtio ev);
     supported \<leftarrow> supported_device_features (ve_virtio ev);
     Some (vcf_driver_features (ve_config ev) (vn_cfg self) AND NOT transport AND NOT supported)
   }"

definition tap_offload :: "('w, 'c, 'h, 'q) vhost_env \<Rightarrow> ('w, 'c, 'h) VhostNetDevice \<Rightarrow> u32 option" where
  "tap_offload ev self = do {
     let vc = ve_virtio ev; let lc = ve_libc ev; let flags = 0;
     on \<leftarrow> feature_negotiated ev self (VIRTIO_NET_F_CSUM vc);
     let flags = (if on then flags OR TUN_F_CSUM lc else flags);
     on \<leftarrow> feature_negotiated ev self (VIRTIO_NET_F_HOST_UFO vc);
     let flags = (if on then flags OR TUN_F_UFO lc else flags);
     on \<leftarrow> feature_negotiated ev self (VIRTIO_NET_F_HOST_TSO4 vc);
     let flags = (if on then flags OR TUN_F_TSO4 lc else flags);
     on \<leftarrow> feature_negotiated ev self (VIRTIO_NET_F_HOST_TSO6 vc);
     let flags = (if on then flags OR TUN_F_TSO6 lc else flags);
     Some flags
   }"

definition vring_config :: "('w, 'c, 'h, 'q) vhost_env \<Rightarrow> 'q \<Rightarrow> VringConfigData" where
  "vring_config ev q =
     (let vq = ve_queue ev in
      \<lparr>queue_max_size = nq_max_size vq q, queue_size = vq_size vq q, vring_flags = 0, desc_table_addr = vq_desc_table vq q,
       used_ring_addr = vq_used_ring vq q, avail_ring_addr = vq_avail_ring vq q, log_addr = None\<rparr>)"

text \<open>The body of the loop over the queues.\<close>

definition activate_queue ::
    "('w, 'c, 'h, 'q) vhost_env \<Rightarrow> u32 \<Rightarrow> usize \<Rightarrow> 'q \<Rightarrow> u16 \<Rightarrow> ('w, 'c, 'h) VhostNetDevice \<Rightarrow> ('w, 'c, 'h) VhostNetDevice option" where
  "activate_queue ev ioeventfd_size i q vector self = do {
     (efd, net) \<leftarrow> expect_value (vb_eventfd_new (ve_backend ev) (vn_net self));
     data \<leftarrow> vn_msix_data self vector;
     binder \<leftarrow> expect_ok (eb_bind_irqfd (ve_binder ev) (irqfd_new efd data) (vn_binder self));
     net \<leftarrow> net_call ev (SetVringCall i efd) net;
     let irqfds = vn_irqfds self @ [efd];
     net \<leftarrow> net_call ev (SetVringNum i (vq_size (ve_queue ev) q)) net;
     base \<leftarrow> vb_avail_idx (ve_backend ev) q net;
     net \<leftarrow> net_call ev (SetVringBase i base) net;
     net \<leftarrow> net_call ev (SetVringAddr i (vring_config ev q)) net;
     (efd, net) \<leftarrow> expect_value (vb_eventfd_new (ve_backend ev) net);
     info \<leftarrow> vn_notify_cfg_info self;
     gpa \<leftarrow> notification_gpa info (of_nat i);
     gpa \<leftarrow> gpa;
     binder \<leftarrow> expect_ok (eb_bind_ioeventfd (ve_binder ev) (ioeventfd_new efd gpa ioeventfd_size None) binder);
     net \<leftarrow> net_call ev (SetVringKick i efd) net;
     net \<leftarrow> net_call ev (SetBackend i (tap_file (vn_tap self))) net;
     Some (self\<lparr>vn_net := net, vn_binder := binder, vn_irqfds := irqfds, vn_ioeventfds := vn_ioeventfds self @ [efd]\<rparr>)
   }"

fun activate_queues ::
    "('w, 'c, 'h, 'q) vhost_env \<Rightarrow> u32 \<Rightarrow> usize \<Rightarrow> ('q \<times> u16) list \<Rightarrow> ('w, 'c, 'h) VhostNetDevice \<Rightarrow> ('w, 'c, 'h) VhostNetDevice option" where
  "activate_queues ev ioeventfd_size i [] self = Some self"
| "activate_queues ev ioeventfd_size i ((q, vector) # qs) self = do {
     self \<leftarrow> activate_queue ev ioeventfd_size i q vector self;
     activate_queues ev ioeventfd_size (i + 1) qs self
   }"

text \<open>The queues with the vectors chosen for them.\<close>

definition zipped_queues :: "('w, 'c, 'h, 'q) vhost_env \<Rightarrow> ('w, 'c, 'h) VhostNetDevice \<Rightarrow> ('q \<times> u16) list" where
  "zipped_queues ev self = zip (vcf_queues (ve_config ev) (vn_cfg self)) (vn_queue_msix_vector self)"

definition vhost_activate :: "('w, 'c, 'h, 'q) vhost_env \<Rightarrow> ('w, 'c, 'h) VhostNetDevice \<Rightarrow> (('w, 'c, 'h) VhostNetDevice, unit) call" where
  "vhost_activate ev self = do {
     features \<leftarrow> backend_features ev self;
     net \<leftarrow> net_call ev (SetFeatures features) (vn_net self);
     offload \<leftarrow> tap_offload ev self;
     (_, h) \<leftarrow> expect_result (set_offload (ve_kernel ev) (vn_tap self) offload (vn_tap_calls self));
     on \<leftarrow> feature_negotiated ev self (VIRTIO_F_NOTIFICATION_DATA (ve_virtio ev));
     let ioeventfd_size = (if on then 4 else 2);
     info \<leftarrow> memory_region_info (vb_mem (ve_backend ev) net);
     net \<leftarrow> net_call ev (SetMemTable info) net;
     self \<leftarrow> activate_queues ev ioeventfd_size 0 (zipped_queues ev self)
              (self\<lparr>vn_net := net, vn_tap_calls := h\<rparr>);
     Some (Inr (), self)
   }"

definition vhost_reset :: "('w, 'c, 'h) VhostNetDevice \<Rightarrow> (('w, 'c, 'h) VhostNetDevice, unit) call" where
  "vhost_reset self = Some (Inr (), self)"

section \<open>The device as the virtio function uses it\<close>

text \<open>
  Two methods may panic, and with them the access that calls them: the acknowledgement of a status that
  activates the device, and a notification.
\<close>

fun vhost_ack :: "('w, 'c, 'h, 'q) vhost_env \<Rightarrow> ('w, 'c, 'h) VhostNetDevice \<Rightarrow> 'c ack_plan \<Rightarrow> ('w, 'c, 'h) VhostNetDevice option" where
  "vhost_ack ev d (AckDone c) = Some (d\<lparr>vn_cfg := c\<rparr>)"
| "vhost_ack ev d (AckActivate c after) = do {
     (r, d) \<leftarrow> vhost_activate ev (d\<lparr>vn_cfg := c\<rparr>);
     Some (d\<lparr>vn_cfg := after (vn_cfg d) (\<not> isl r)\<rparr>)
   }"
| "vhost_ack ev d (AckReset c after) = do {
     (r, d) \<leftarrow> vhost_reset (d\<lparr>vn_cfg := c\<rparr>);
     Some (d\<lparr>vn_cfg := after (vn_cfg d) (\<not> isl r)\<rparr>)
   }"

definition on_cfg :: "('c \<Rightarrow> 'c) \<Rightarrow> ('w, 'c, 'h) VhostNetDevice \<Rightarrow> ('w, 'c, 'h) VhostNetDevice" where
  "on_cfg f d = d\<lparr>vn_cfg := f (vn_cfg d)\<rparr>"

definition vhost_virtio ::
    "('w, 'c, 'h, 'q) vhost_env \<Rightarrow> (('w, 'c, 'h) VhostNetDevice, 'q) virtio_device" where
  "vhost_virtio ev = (let cf = ve_config ev in
     \<lparr>vd_device_type = (\<lambda>_. VIRTIO_ID_NET (ve_virtio ev)),
      vd_device_features = (\<lambda>d. vcf_device_features cf (vn_cfg d)),
      vd_driver_features = (\<lambda>d. vcf_driver_features cf (vn_cfg d)),
      vd_set_driver_features = (\<lambda>d page v. on_cfg (\<lambda>c. vcf_set_driver_features cf c page v) d),
      vd_num_queues = (\<lambda>d. vcf_num_queues cf (vn_cfg d)),
      vd_device_status = (\<lambda>d. vcf_device_status cf (vn_cfg d)),
      vd_ack_device_status = (\<lambda>d status. vhost_ack ev d (vcf_ack_device_status cf (vn_cfg d) status)),
      vd_config_generation = (\<lambda>d. vcf_config_generation cf (vn_cfg d)),
      vd_queue_select = (\<lambda>d. vcf_queue_select cf (vn_cfg d)),
      vd_set_queue_select = (\<lambda>d i. on_cfg (\<lambda>c. vcf_set_queue_select cf c i) d),
      vd_queue = (\<lambda>d i. vcf_queue cf (vn_cfg d) i),
      vd_queue_mut = (\<lambda>d i. vcf_queue cf (vn_cfg d) i),
      vd_set_queue = (\<lambda>d i q. on_cfg (\<lambda>c. vcf_set_queue cf c i q) d),
      vd_read_config = (\<lambda>d off data. vcf_read_config cf (vn_cfg d) off data),
      vd_write_config = (\<lambda>d off data. on_cfg (\<lambda>c. vcf_write_config cf c off data) d),
      vd_config_msix_vector = vn_config_msix_vector,
      vd_set_config_msix_vector = vhost_set_config_msix_vector,
      vd_set_msi_message = vhost_set_msi_message,
      vd_queue_msix_vector = vhost_queue_msix_vector ev,
      vd_set_queue_msix_vector = vhost_set_queue_msix_vector ev,
      vd_read_and_clear_isr = vhost_read_and_clear_isr ev,
      vd_set_notification_info = vhost_set_notification_info,
      vd_queue_notify = vhost_queue_notify ev\<rparr>)"

section \<open>Feature sets\<close>

lemma feature_mask_from_bits:
  "feature_mask_from acc ns = Some m \<Longrightarrow> (\<forall>n \<in> set ns. unat n < 64) \<and> (\<forall>i. bit m i \<longleftrightarrow> bit acc i \<or> i \<in> unat ` set ns)"
proof (induction ns arbitrary: acc)
  case (Cons n ns)
  from Cons.prems have n: "unat n < 64" and m: "feature_mask_from (acc OR push_bit (unat n) 1) ns = Some m"
    by (auto simp: shl_one_def split: if_splits)
  from Cons.IH [OF m] n show ?case by (auto simp: bit_simps)
qed simp

lemma feature_mask_bits: "feature_mask ns = Some m \<Longrightarrow> bit m i \<longleftrightarrow> i \<in> unat ` set ns"
  using feature_mask_from_bits [of 0 ns m] by (simp add: feature_mask_def)

lemma device_features_bits:
  assumes "device_features vc config = Some m"
  shows "bit m i \<longleftrightarrow> i \<in> unat ` set (device_feature_bits vc) \<and> (cfg_mac config = None \<longrightarrow> i \<noteq> unat (VIRTIO_NET_F_MAC vc))"
proof -
  from assms obtain f where f: "feature_mask (device_feature_bits vc) = Some f"
    and m: "m = (if cfg_mac config = None then f AND NOT (push_bit (unat (VIRTIO_NET_F_MAC vc)) 1) else f)"
    by (auto simp: device_features_def supported_device_features_def shl_one_def bind_eq_Some_conv split: if_splits)
  have "bit f i \<Longrightarrow> i < 64" using bit_imp_le_length [of f i] by simp
  with m show ?thesis by (auto simp: bit_simps feature_mask_bits [OF f])
qed

definition advertised :: "('w, 'c, 'h, 'q) vhost_env \<Rightarrow> VhostNetConfig \<Rightarrow> u64 \<Rightarrow> nat \<Rightarrow> bool" where
  "advertised ev config backend i \<longleftrightarrow> (let vc = ve_virtio ev in
     i \<noteq> 26 \<and> i \<noteq> unat (VIRTIO_F_RING_RESET vc) \<and>
     (bit backend i \<or> i = unat (VIRTIO_F_ACCESS_PLATFORM vc) \<or>
      i \<in> unat ` set (device_feature_bits vc) \<and> (cfg_mac config = None \<longrightarrow> i \<noteq> unat (VIRTIO_NET_F_MAC vc))))"

lemma vhost_newD:
  assumes "vhost_new ev binder gm h config = Some d"
  obtains w bf features q0 q1 where "fst (vb_get_features (ve_backend ev) w) = Some bf"
    and "vn_cfg d = vcf_new (ve_config ev) features [q0, q1] (case cfg_mac config of Some m \<Rightarrow> m | None \<Rightarrow> replicate 6 0)"
    and "\<And>i. bit features i \<longleftrightarrow> i < 64 \<and> advertised ev config bf i"
    and "vn_queue_msix_vector d = [0xFFFF, 0xFFFF]" "vn_msix_data d = Map.empty" "vn_notify_cfg_info d = None"
    and "vn_ioeventfds d = []" "vn_irqfds d = []" "vn_binder d = binder"
proof -
  from assms obtain w dm bf df tm q0 q1 where
    dm: "feature_mask [VHOST_F_LOG_ALL, VIRTIO_F_RING_RESET (ve_virtio ev)] = Some dm"
    and bf: "fst (vb_get_features (ve_backend ev) w) = Some bf" and df: "device_features (ve_virtio ev) config = Some df"
    and tm: "transport_features (ve_virtio ev) = Some tm"
    and cfg: "vn_cfg d = vcf_new (ve_config ev) (NOT dm AND (bf OR tm OR df)) [q0, q1]
      (case cfg_mac config of Some m \<Rightarrow> m | None \<Rightarrow> replicate 6 0)"
    and rest: "vn_queue_msix_vector d = [0xFFFF, 0xFFFF]" "vn_msix_data d = Map.empty" "vn_notify_cfg_info d = None"
      "vn_ioeventfds d = []" "vn_irqfds d = []" "vn_binder d = binder"
    unfolding vhost_new_def by (clarsimp simp: bind_eq_Some_conv Let_def) (metis fst_conv)
  have tm': "bit tm i \<longleftrightarrow> i = unat (VIRTIO_F_ACCESS_PLATFORM (ve_virtio ev))" for i
    using feature_mask_bits [OF tm [unfolded transport_features_def]] by simp
  have dm': "bit dm i \<longleftrightarrow> i = 26 \<or> i = unat (VIRTIO_F_RING_RESET (ve_virtio ev))" for i
    using feature_mask_bits [OF dm] by (simp add: VHOST_F_LOG_ALL_def)
  have "bit (NOT dm AND (bf OR tm OR df)) i \<longleftrightarrow> i < 64 \<and> advertised ev config bf i" for i
    by (auto simp: bit_simps tm' dm' device_features_bits [OF df] advertised_def Let_def)
  from bf cfg this rest show thesis by (rule that)
qed

lemma backend_features_bits:
  assumes "backend_features ev self = Some f"
  shows "bit f i \<longleftrightarrow> bit (vcf_driver_features (ve_config ev) (vn_cfg self)) i \<and>
    i \<noteq> unat (VIRTIO_F_ACCESS_PLATFORM (ve_virtio ev)) \<and> i \<notin> unat ` set (device_feature_bits (ve_virtio ev))"
proof -
  from assms obtain tm sm where tm: "feature_mask [VIRTIO_F_ACCESS_PLATFORM (ve_virtio ev)] = Some tm"
    and sm: "feature_mask (device_feature_bits (ve_virtio ev)) = Some sm"
    and f: "f = vcf_driver_features (ve_config ev) (vn_cfg self) AND NOT tm AND NOT sm"
    by (auto simp: backend_features_def transport_features_def supported_device_features_def bind_eq_Some_conv)
  show ?thesis
    using bit_imp_le_length [of "vcf_driver_features (ve_config ev) (vn_cfg self)" i]
    by (auto simp: f bit_simps feature_mask_bits [OF tm] feature_mask_bits [OF sm])
qed

section \<open>Activation in detail\<close>

text \<open>What a queue gets when it is activated, and where it is from.\<close>

record queue_activation =
  qa_irqfd :: int
  qa_data :: u32
  qa_base :: u16
  qa_iofd :: int
  qa_gpa :: u64

definition prepared :: "('w, 'c, 'h) VhostNetDevice \<Rightarrow> nat \<Rightarrow> u16 \<Rightarrow> u32 \<Rightarrow> u64 \<Rightarrow> bool" where
  "prepared d i vector data gpa \<longleftrightarrow> vn_msix_data d vector = Some data \<and>
     (\<exists>info. vn_notify_cfg_info d = Some info \<and> notification_gpa info (of_nat i) = Some (Some gpa))"

text \<open>The calls of one queue on the backend, and the descriptors it binds.\<close>

definition queue_calls :: "('w, 'c, 'h, 'q) vhost_env \<Rightarrow> Tap \<Rightarrow> nat \<Rightarrow> 'q \<Rightarrow> queue_activation \<Rightarrow> vhost_call list" where
  "queue_calls ev tap i q a =
     [SetVringCall i (qa_irqfd a), SetVringNum i (vq_size (ve_queue ev) q), SetVringBase i (qa_base a),
      SetVringAddr i (vring_config ev q), SetVringKick i (qa_iofd a), SetBackend i (tap_file tap)]"

definition queue_binds :: "u32 \<Rightarrow> queue_activation \<Rightarrow> (IrqFdConfig + IoEventFdConfig) list" where
  "queue_binds sz a = [Inl (irqfd_new (qa_irqfd a) (qa_data a)), Inr (ioeventfd_new (qa_iofd a) (qa_gpa a) sz None)]"

text \<open>The backend and the binder keep a log of the calls.\<close>

definition logs :: "('w, 'c, 'h, 'q) vhost_env \<Rightarrow> ('w \<Rightarrow> vhost_call list) \<Rightarrow> ('h \<Rightarrow> (IrqFdConfig + IoEventFdConfig) list) \<Rightarrow> bool" where
  "logs ev calls binds \<longleftrightarrow>
     (\<forall>c w. calls (snd (vb_call (ve_backend ev) c w)) = calls w @ [c]) \<and>
     (\<forall>w. calls (snd (vb_eventfd_new (ve_backend ev) w)) = calls w) \<and>
     (\<forall>c h. binds (snd (eb_bind_irqfd (ve_binder ev) c h)) = binds h @ [Inl c]) \<and>
     (\<forall>c h. binds (snd (eb_bind_ioeventfd (ve_binder ev) c h)) = binds h @ [Inr c])"

lemma logsD:
  assumes "logs ev calls binds"
  shows "net_call ev c w = Some w' \<Longrightarrow> calls w' = calls w @ [c]"
    and "vb_eventfd_new (ve_backend ev) w = (fd, w') \<Longrightarrow> calls w' = calls w"
    and "eb_bind_irqfd (ve_binder ev) ic h = (True, h') \<Longrightarrow> binds h' = binds h @ [Inl ic]"
    and "eb_bind_ioeventfd (ve_binder ev) oc h = (True, h') \<Longrightarrow> binds h' = binds h @ [Inr oc]"
  using assms unfolding logs_def net_call_def by auto (metis snd_conv)+

definition same_setup :: "('w, 'c, 'h) VhostNetDevice \<Rightarrow> ('w, 'c, 'h) VhostNetDevice \<Rightarrow> bool" where
  "same_setup d d' \<longleftrightarrow> vn_cfg d' = vn_cfg d \<and> vn_msix_data d' = vn_msix_data d \<and> vn_notify_cfg_info d' = vn_notify_cfg_info d \<and>
     vn_queue_msix_vector d' = vn_queue_msix_vector d \<and> vn_config_msix_vector d' = vn_config_msix_vector d \<and> vn_tap d' = vn_tap d"

definition activation_outcome ::
    "('w, 'c, 'h, 'q) vhost_env \<Rightarrow> u32 \<Rightarrow> nat \<Rightarrow> ('q \<times> u16) list \<Rightarrow> ('w, 'c, 'h) VhostNetDevice \<Rightarrow> queue_activation list \<Rightarrow>
     ('w, 'c, 'h) VhostNetDevice \<Rightarrow> bool" where
  "activation_outcome ev sz i qs self as self' \<longleftrightarrow> length as = length qs \<and>
     (\<forall>(j, (q, v), a) \<in> set (enumerate i (zip qs as)). prepared self j v (qa_data a) (qa_gpa a)) \<and>
     vn_irqfds self' = vn_irqfds self @ map qa_irqfd as \<and> vn_ioeventfds self' = vn_ioeventfds self @ map qa_iofd as \<and>
     same_setup self self' \<and>
     (\<forall>calls binds. logs ev calls binds \<longrightarrow>
        calls (vn_net self') = calls (vn_net self) @ concat (map (\<lambda>(j, (q, v), a). queue_calls ev (vn_tap self) j q a) (enumerate i (zip qs as))) \<and>
        binds (vn_binder self') = binds (vn_binder self) @ concat (map (queue_binds sz) as))"

lemma activate_queue_outcome:
  assumes "activate_queue ev sz i q v self = Some self'"
  shows "\<exists>a. activation_outcome ev sz i [(q, v)] self [a] self'"
proof -
  from assms obtain efd n0 data b1 n1 n2 base n3 n4 iofd n5 info gpa b2 n6 n7 where
    steps: "vb_eventfd_new (ve_backend ev) (vn_net self) = (Some efd, n0)" "vn_msix_data self v = Some data"
      "eb_bind_irqfd (ve_binder ev) (irqfd_new efd data) (vn_binder self) = (True, b1)"
      "net_call ev (SetVringCall i efd) n0 = Some n1" "net_call ev (SetVringNum i (vq_size (ve_queue ev) q)) n1 = Some n2"
      "net_call ev (SetVringBase i base) n2 = Some n3" "net_call ev (SetVringAddr i (vring_config ev q)) n3 = Some n4"
      "vb_eventfd_new (ve_backend ev) n4 = (Some iofd, n5)" "vn_notify_cfg_info self = Some info"
      "notification_gpa info (of_nat i) = Some (Some gpa)"
      "eb_bind_ioeventfd (ve_binder ev) (ioeventfd_new iofd gpa sz None) b1 = (True, b2)"
      "net_call ev (SetVringKick i iofd) n5 = Some n6" "net_call ev (SetBackend i (tap_file (vn_tap self))) n6 = Some n7"
    and self': "self' = self\<lparr>vn_net := n7, vn_binder := b2, vn_irqfds := vn_irqfds self @ [efd], vn_ioeventfds := vn_ioeventfds self @ [iofd]\<rparr>"
    unfolding activate_queue_def Let_def by (clarsimp simp: bind_eq_Some_conv)
  let ?a = "\<lparr>qa_irqfd = efd, qa_data = data, qa_base = base, qa_iofd = iofd, qa_gpa = gpa\<rparr>"
  have "calls (vn_net self') = calls (vn_net self) @ queue_calls ev (vn_tap self) i q ?a \<and>
      binds (vn_binder self') = binds (vn_binder self) @ queue_binds sz ?a"
    if "logs ev calls binds" for calls :: "'a \<Rightarrow> vhost_call list" and binds :: "'c \<Rightarrow> (IrqFdConfig + IoEventFdConfig) list"
    using steps logsD [OF that] by (simp add: self' queue_calls_def queue_binds_def)
  then have "activation_outcome ev sz i [(q, v)] self [?a] self'"
    using steps self' by (simp add: activation_outcome_def prepared_def same_setup_def)
  then show ?thesis ..
qed

lemma activation_logs:
  assumes "activation_outcome ev sz i qs self as self'" and "logs ev calls binds"
  shows "calls (vn_net self') = calls (vn_net self) @ concat (map (\<lambda>(j, (q, v), a). queue_calls ev (vn_tap self) j q a) (enumerate i (zip qs as)))"
    and "binds (vn_binder self') = binds (vn_binder self) @ concat (map (queue_binds sz) as)"
  using assms unfolding activation_outcome_def by blast+

lemma activation_outcome_Cons:
  assumes "activation_outcome ev sz i [(q, v)] self [a] s1" and "activation_outcome ev sz (Suc i) qs s1 as self'"
  shows "activation_outcome ev sz i ((q, v) # qs) self (a # as) self'"
proof -
  from assms have st: "same_setup self s1" "same_setup s1 self'" by (simp_all add: activation_outcome_def)
  then have same: "vn_tap s1 = vn_tap self" "prepared s1 = prepared self" "same_setup self self'"
    by (auto simp: same_setup_def prepared_def fun_eq_iff)
  have "calls (vn_net self') = calls (vn_net self) @ concat (map (\<lambda>(j, (q, v), a). queue_calls ev (vn_tap self) j q a) (enumerate i (zip ((q, v) # qs) (a # as)))) \<and>
      binds (vn_binder self') = binds (vn_binder self) @ concat (map (queue_binds sz) (a # as))" if "logs ev calls binds" for calls binds
    using activation_logs [OF assms(1) that] activation_logs [OF assms(2) that] by (simp add: same)
  with assms same show ?thesis by (simp add: activation_outcome_def)
qed

lemma activate_queues_outcome:
  "activate_queues ev sz i qs self = Some self' \<Longrightarrow> \<exists>as. activation_outcome ev sz i qs self as self'"
proof (induction ev sz i qs self rule: activate_queues.induct)
  case (1 ev sz i self)
  then show ?case by (intro exI [of _ "[]"]) (simp add: activation_outcome_def same_setup_def)
next
  case (2 ev sz i q v qs self)
  from "2.prems" obtain s1 where s1: "activate_queue ev sz i q v self = Some s1" "activate_queues ev sz (i + 1) qs s1 = Some self'"
    by (auto simp: bind_eq_Some_conv)
  from activate_queue_outcome [OF s1(1)] "2.IH" [OF s1] show ?case by (auto intro: activation_outcome_Cons)
qed

text \<open>With a backend and a binder whose calls succeed, a queue is activated exactly when it is prepared.\<close>

definition backend_up :: "('w, 'c, 'h, 'q) vhost_env \<Rightarrow> bool" where
  "backend_up ev \<longleftrightarrow>
     (\<forall>c w. fst (vb_call (ve_backend ev) c w)) \<and> (\<forall>w. fst (vb_eventfd_new (ve_backend ev) w) \<noteq> None) \<and>
     (\<forall>q w. vb_avail_idx (ve_backend ev) q w \<noteq> None) \<and> (\<forall>w. \<forall>r \<in> set (vb_mem (ve_backend ev) w). mem_file_offset r \<noteq> None) \<and>
     (\<forall>c h. fst (eb_bind_irqfd (ve_binder ev) c h)) \<and> (\<forall>c h. fst (eb_bind_ioeventfd (ve_binder ev) c h)) \<and>
     (\<forall>h c. k_result (ve_kernel ev) h c \<ge> 0) \<and>
     unat (VIRTIO_F_ACCESS_PLATFORM (ve_virtio ev)) < 64 \<and> unat (VIRTIO_F_NOTIFICATION_DATA (ve_virtio ev)) < 64 \<and>
     (\<forall>n \<in> set (device_feature_bits (ve_virtio ev)). unat n < 64)"

lemma backend_upD:
  assumes "backend_up ev"
  shows "\<exists>w'. net_call ev c w = Some w'" and "\<exists>fd w'. vb_eventfd_new (ve_backend ev) w = (Some fd, w')"
    and "\<exists>n. vb_avail_idx (ve_backend ev) q w = Some n"
    and "\<exists>h'. eb_bind_irqfd (ve_binder ev) ic h = (True, h')" and "\<exists>h'. eb_bind_ioeventfd (ve_binder ev) oc h = (True, h')"
  using assms by (auto simp: backend_up_def net_call_def prod_eq_iff)

lemma activate_queue_up:
  assumes "backend_up ev"
  shows "activate_queue ev sz i q v self \<noteq> None \<longleftrightarrow> (\<exists>data gpa. prepared self i v data gpa)"
proof
  assume "activate_queue ev sz i q v self \<noteq> None"
  then show "\<exists>data gpa. prepared self i v data gpa"
    using activate_queue_outcome [of ev sz i q v self] by (auto simp: activation_outcome_def) blast
next
  note up = backend_upD [OF assms]
  assume "\<exists>data gpa. prepared self i v data gpa"
  then obtain data info gpa where p: "vn_msix_data self v = Some data" "vn_notify_cfg_info self = Some info"
    "notification_gpa info (of_nat i) = Some (Some gpa)" by (auto simp: prepared_def)
  obtain efd n0 where s: "vb_eventfd_new (ve_backend ev) (vn_net self) = (Some efd, n0)" using up(2) by blast
  moreover obtain b1 where "eb_bind_irqfd (ve_binder ev) (irqfd_new efd data) (vn_binder self) = (True, b1)" using up(4) by blast
  moreover obtain n1 where "net_call ev (SetVringCall i efd) n0 = Some n1" using up(1) by blast
  moreover obtain n2 where "net_call ev (SetVringNum i (vq_size (ve_queue ev) q)) n1 = Some n2" using up(1) by blast
  moreover obtain base where "vb_avail_idx (ve_backend ev) q n2 = Some base" using up(3) by blast
  moreover obtain n3 where "net_call ev (SetVringBase i base) n2 = Some n3" using up(1) by blast
  moreover obtain n4 where "net_call ev (SetVringAddr i (vring_config ev q)) n3 = Some n4" using up(1) by blast
  moreover obtain iofd n5 where "vb_eventfd_new (ve_backend ev) n4 = (Some iofd, n5)" using up(2) by blast
  moreover obtain b2 where "eb_bind_ioeventfd (ve_binder ev) (ioeventfd_new iofd gpa sz None) b1 = (True, b2)" using up(5) by blast
  moreover obtain n6 where "net_call ev (SetVringKick i iofd) n5 = Some n6" using up(1) by blast
  moreover obtain n7 where "net_call ev (SetBackend i (tap_file (vn_tap self))) n6 = Some n7" using up(1) by blast
  ultimately show "activate_queue ev sz i q v self \<noteq> None"
    using p by (simp add: activate_queue_def expect_ok_def expect_value_def)
qed

lemma activate_queues_up:
  assumes "backend_up ev"
  shows "activate_queues ev sz i qs self \<noteq> None \<longleftrightarrow>
    (\<forall>(j, q, v) \<in> set (enumerate i qs). \<exists>data gpa. prepared self j v data gpa)"
proof (induction qs arbitrary: i self)
  case (Cons qv qs)
  obtain q v where qv: "qv = (q, v)" by (cases qv)
  show ?case
  proof (cases "activate_queue ev sz i q v self")
    case None
    then show ?thesis using activate_queue_up [OF assms, of sz i q v self] by (simp add: qv)
  next
    case (Some s1)
    from activate_queue_outcome [OF Some] have "prepared s1 = prepared self"
      by (auto simp: activation_outcome_def same_setup_def prepared_def fun_eq_iff)
    then show ?thesis using Some activate_queue_up [OF assms, of sz i q v self] Cons.IH [of "Suc i" s1] by (simp add: qv)
  qed
qed simp

lemma activate_outcome:
  assumes "vhost_activate ev d = Some (r, d')"
  obtains f w info on s as where "r = Inr ()" "backend_features ev d = Some f" "memory_region_info (vb_mem (ve_backend ev) w) = Some info"
    "feature_negotiated ev d (VIRTIO_F_NOTIFICATION_DATA (ve_virtio ev)) = Some on"
    "activation_outcome ev (if on then 4 else 2) 0 (zipped_queues ev d) s as d'"
    "same_setup d s" "vn_irqfds s = vn_irqfds d" "vn_ioeventfds s = vn_ioeventfds d" "vn_binder s = vn_binder d"
    "\<forall>calls. (\<forall>c w. calls (snd (vb_call (ve_backend ev) c w)) = calls w @ [c]) \<longrightarrow>
       calls (vn_net s) = calls (vn_net d) @ [SetFeatures f, SetMemTable info]"
proof -
  from assms obtain f n1 off h on info n2 where st: "r = Inr ()" "backend_features ev d = Some f"
    "vb_call (ve_backend ev) (SetFeatures f) (vn_net d) = (True, n1)"
    "feature_negotiated ev d (VIRTIO_F_NOTIFICATION_DATA (ve_virtio ev)) = Some on"
    "memory_region_info (vb_mem (ve_backend ev) n1) = Some info" "vb_call (ve_backend ev) (SetMemTable info) n1 = (True, n2)"
    "activate_queues ev (if on then 4 else 2) 0 (zipped_queues ev d)
       (d\<lparr>vn_net := n2, vn_tap_calls := h\<rparr>) = Some d'"
    unfolding vhost_activate_def Let_def net_call_def by (clarsimp simp: bind_eq_Some_conv)
  from activate_queues_outcome [OF st(7)] obtain as where
    as: "activation_outcome ev (if on then 4 else 2) 0 (zipped_queues ev d)
       (d\<lparr>vn_net := n2, vn_tap_calls := h\<rparr>) as d'" ..
  have "\<forall>calls. (\<forall>c w. calls (snd (vb_call (ve_backend ev) c w)) = calls w @ [c]) \<longrightarrow>
       calls n2 = calls (vn_net d) @ [SetFeatures f, SetMemTable info]"
  proof (intro allI impI)
    fix calls :: "'a \<Rightarrow> vhost_call list"
    assume c: "\<forall>c w. calls (snd (vb_call (ve_backend ev) c w)) = calls w @ [c]"
    show "calls n2 = calls (vn_net d) @ [SetFeatures f, SetMemTable info]"
      using c [rule_format, of "SetFeatures f" "vn_net d"] c [rule_format, of "SetMemTable info" n1] st(3,6) by simp
  qed
  with st as show thesis by (intro that [of f n1 info on "d\<lparr>vn_net := n2, vn_tap_calls := h\<rparr>" as]) (simp_all add: same_setup_def)
qed

lemma tap_offload_up: "backend_up ev \<Longrightarrow> \<exists>v. tap_offload ev d = Some v"
  by (simp add: backend_up_def device_feature_bits_def tap_offload_def feature_negotiated_def shl_one_def Let_def)

lemma feature_mask_from_total: "\<forall>n \<in> set ns. unat n < 64 \<Longrightarrow> \<exists>m. feature_mask_from acc ns = Some m"
  by (induction ns arbitrary: acc) (simp_all add: shl_one_def)

lemma memory_region_info_total: "\<forall>r \<in> set rs. mem_file_offset r \<noteq> None \<Longrightarrow> \<exists>info. memory_region_info rs = Some info"
  by (induction rs) auto

lemma activate_up:
  assumes "backend_up ev"
  shows "vhost_activate ev d \<noteq> None \<longleftrightarrow>
    (\<forall>(j, q, v) \<in> set (enumerate 0 (zipped_queues ev d)).
       \<exists>data gpa. prepared d j v data gpa)"
proof -
  note up = assms [unfolded backend_up_def]
  obtain f where f: "backend_features ev d = Some f"
    using up feature_mask_from_total [of "[VIRTIO_F_ACCESS_PLATFORM (ve_virtio ev)]" 0]
      feature_mask_from_total [of "device_feature_bits (ve_virtio ev)" 0]
    by (auto simp: backend_features_def transport_features_def supported_device_features_def feature_mask_def)
  obtain n1 where n1: "net_call ev (SetFeatures f) (vn_net d) = Some n1" using backend_upD(1) [OF assms] by blast
  obtain off where off: "tap_offload ev d = Some off" using tap_offload_up [OF assms] by blast
  obtain h where h: "set_offload (ve_kernel ev) (vn_tap d) off (vn_tap_calls d) = (Inr (), h)"
    using up by (auto simp: set_offload_def not_less [symmetric])
  obtain on where on: "feature_negotiated ev d (VIRTIO_F_NOTIFICATION_DATA (ve_virtio ev)) = Some on"
    using up by (simp add: feature_negotiated_def shl_one_def)
  obtain info where info: "memory_region_info (vb_mem (ve_backend ev) n1) = Some info"
    using up memory_region_info_total [of "vb_mem (ve_backend ev) n1"] by auto
  obtain n2 where n2: "net_call ev (SetMemTable info) n1 = Some n2" using backend_upD(1) [OF assms] by blast
  let ?s = "d\<lparr>vn_net := n2, vn_tap_calls := h\<rparr>"
  have "prepared ?s = prepared d" by (simp add: prepared_def fun_eq_iff)
  moreover have "vhost_activate ev d \<noteq> None \<longleftrightarrow> activate_queues ev (if on then 4 else 2) 0
      (zipped_queues ev d) ?s \<noteq> None"
    using f n1 off h on info n2 by (simp add: vhost_activate_def expect_result_def Let_def) (auto simp: bind_eq_Some_conv)
  ultimately show ?thesis using activate_queues_up [OF assms, of _ _ _ ?s] by simp
qed

text \<open>A network device with two queues for the witnesses; its configuration is the set of negotiated features.\<close>

definition sample_consts :: virtio_consts where
  "sample_consts =
     \<lparr>VIRTIO_F_ACCESS_PLATFORM = 33, VIRTIO_F_NOTIFICATION_DATA = 38, VIRTIO_F_RING_RESET = 40, VIRTIO_NET_F_CSUM = 0,
      VIRTIO_NET_F_GUEST_CSUM = 1, VIRTIO_NET_F_GUEST_TSO4 = 7, VIRTIO_NET_F_GUEST_TSO6 = 8, VIRTIO_NET_F_GUEST_UFO = 10,
      VIRTIO_NET_F_HOST_TSO4 = 11, VIRTIO_NET_F_HOST_TSO6 = 12, VIRTIO_NET_F_HOST_UFO = 14, VIRTIO_NET_F_MAC = 5,
      VIRTIO_ID_NET = 1\<rparr>"

definition sample_env_with :: "'h eventfd_binder \<Rightarrow> (vhost_call list \<times> nat, u64, 'h, unit) vhost_env" where
  "sample_env_with binder =
     \<lparr>ve_backend =
        \<lparr>vb_new = (\<lambda>_. Some ([], 10)), vb_call = (\<lambda>c (l, n). (True, (l @ [c], n))), vb_get_features = (\<lambda>w. (Some 0, w)),
         vb_eventfd_new = (\<lambda>(l, n). (Some (int n), (l, n + 1))), vb_mem = (\<lambda>_. []), vb_avail_idx = (\<lambda>_ _. Some 0)\<rparr>,
      ve_binder = binder,
      ve_queue =
        \<lparr>vq_size = (\<lambda>_. 256), vq_ready = (\<lambda>_. True), vq_desc_table = (\<lambda>_. 0), vq_avail_ring = (\<lambda>_. 0), vq_used_ring = (\<lambda>_. 0),
         vq_set_size = (\<lambda>q _. q), vq_set_ready = (\<lambda>q _. q), vq_set_desc_table_address = (\<lambda>q _ _. q),
         vq_set_avail_ring_address = (\<lambda>q _ _. q), vq_set_used_ring_address = (\<lambda>q _ _. q), vq_reset = (\<lambda>q. q),
         nq_new = (\<lambda>_. Some ()), nq_max_size = (\<lambda>_. 256)\<rparr>,
      ve_config =
        \<lparr>vcf_new = (\<lambda>f _ _. f), vcf_queues = (\<lambda>_. [(), ()]), vcf_device_features = (\<lambda>c. c), vcf_driver_features = (\<lambda>c. c),
         vcf_set_driver_features = (\<lambda>c _ _. c), vcf_num_queues = (\<lambda>_. 2), vcf_device_status = (\<lambda>_. 0),
         vcf_ack_device_status = (\<lambda>c _. AckDone c), vcf_config_generation = (\<lambda>_. 0), vcf_queue_select = (\<lambda>_. 0), vcf_set_queue_select = (\<lambda>c _. c),
         vcf_queue = (\<lambda>_ _. None), vcf_set_queue = (\<lambda>c _ _. c), vcf_read_config = (\<lambda>_ _ data. data),
         vcf_write_config = (\<lambda>c _ _. c), vcf_swap_interrupt_status = (\<lambda>c _. (0, c))\<rparr>,
      ve_kernel = \<lparr>k_result = (\<lambda>h _. 3), k_errno = (\<lambda>_. 0)\<rparr>,
      ve_libc = \<lparr>IF_NAMESIZE = 16, IFF_TAP = 2, IFF_NO_PI = 0x1000, IFF_VNET_HDR = 0x4000, TUN_F_CSUM = 1, TUN_F_UFO = 16,
        TUN_F_TSO4 = 2, TUN_F_TSO6 = 4\<rparr>,
      ve_virtio = sample_consts\<rparr>"

definition sample_env :: "(vhost_call list \<times> nat, u64, (IrqFdConfig + IoEventFdConfig) list, unit) vhost_env" where
  "sample_env = sample_env_with
     \<lparr>eb_bind_ioeventfd = (\<lambda>c h. (True, h @ [Inr c])), eb_bind_irqfd = (\<lambda>c h. (True, h @ [Inl c]))\<rparr>"

definition sample_config :: VhostNetConfig where
  "sample_config = \<lparr>cfg_tap = [0x74, 0x61, 0x70], cfg_mac = None, cfg_queue_size = 256\<rparr>"

lemma sample_new_Some: "\<exists>d. vhost_new (sample_env_with binder) h gm [] sample_config = Some d"
proof -
  have "IFF_TAP (ve_libc (sample_env_with binder)) OR IFF_NO_PI (ve_libc (sample_env_with binder)) OR IFF_VNET_HDR (ve_libc (sample_env_with binder)) = 0x5002"
    by (simp add: sample_env_with_def)
  then show ?thesis
    by (simp add: vhost_new_def sample_env_with_def sample_config_def sample_consts_def net_call_def expect_ok_def expect_value_def
      expect_result_def feature_mask_def shl_one_def VHOST_F_LOG_ALL_def device_features_def supported_device_features_def
      device_feature_bits_def transport_features_def open_named_def ifreq_with_flags_def null_term_if_name_def set_vnet_hdr_size_def Let_def)
qed

lemma sample_env_new: "\<exists>d. vhost_new sample_env [] [] [] sample_config = Some d"
  unfolding sample_env_def by (rule sample_new_Some)

lemma sample_up: "backend_up sample_env" and sample_logs: "logs sample_env fst (\<lambda>h. h)"
  by (simp_all add: backend_up_def logs_def sample_env_def sample_env_with_def sample_consts_def device_feature_bits_def split_beta)

definition sample_ready :: "(vhost_call list \<times> nat, u64, (IrqFdConfig + IoEventFdConfig) list) VhostNetDevice" where
  "sample_ready =
     \<lparr>vn_net = ([], 10), vn_cfg = 0, vn_config_msix_vector = 0, vn_queue_msix_vector = [1, 2],
      vn_notify_cfg_info = Some \<lparr>ninfo_bar_gpa = 0x1000, ninfo_bar_len = 0x1000, ninfo_queue_notify_off = 4\<rparr>,
      vn_msix_data = [1 \<mapsto> 33, 2 \<mapsto> 34], vn_binder = [], vn_ioeventfds = [], vn_irqfds = [], vn_tap = \<lparr>tap_file = 3\<rparr>,
      vn_tap_calls = []\<rparr>"

lemma sample_ready_prepared:
  "\<forall>(j, q, v) \<in> set (enumerate 0 (zipped_queues sample_env sample_ready)).
     \<exists>data gpa. prepared sample_ready j v data gpa"
  by (simp add: sample_env_def sample_env_with_def sample_ready_def prepared_def notification_gpa_def zipped_queues_def)

lemma activate_calls:
  assumes "vhost_activate ev d = Some (r, d')" and "logs ev calls binds"
  shows "\<exists>f w info on as. r = Inr () \<and> backend_features ev d = Some f \<and> memory_region_info (vb_mem (ve_backend ev) w) = Some info \<and>
    feature_negotiated ev d (VIRTIO_F_NOTIFICATION_DATA (ve_virtio ev)) = Some on \<and> length as = length (zipped_queues ev d) \<and>
    (\<forall>(j, (q, v), a) \<in> set (enumerate 0 (zip (zipped_queues ev d) as)). prepared d j v (qa_data a) (qa_gpa a)) \<and>
    calls (vn_net d') = calls (vn_net d) @ [SetFeatures f, SetMemTable info] @
      concat (map (\<lambda>(j, (q, v), a). queue_calls ev (vn_tap d) j q a) (enumerate 0 (zip (zipped_queues ev d) as))) \<and>
    binds (vn_binder d') = binds (vn_binder d) @ concat (map (queue_binds (if on then 4 else 2)) as) \<and>
    vn_irqfds d' = vn_irqfds d @ map qa_irqfd as \<and> vn_ioeventfds d' = vn_ioeventfds d @ map qa_iofd as"
proof -
  from assms(1) obtain f w info on s as where o: "r = Inr ()" "backend_features ev d = Some f"
    "memory_region_info (vb_mem (ve_backend ev) w) = Some info"
    "feature_negotiated ev d (VIRTIO_F_NOTIFICATION_DATA (ve_virtio ev)) = Some on"
    "activation_outcome ev (if on then 4 else 2) 0 (zipped_queues ev d) s as d'"
    "same_setup d s" "vn_irqfds s = vn_irqfds d" "vn_ioeventfds s = vn_ioeventfds d" "vn_binder s = vn_binder d"
    "\<forall>calls. (\<forall>c w. calls (snd (vb_call (ve_backend ev) c w)) = calls w @ [c]) \<longrightarrow>
       calls (vn_net s) = calls (vn_net d) @ [SetFeatures f, SetMemTable info]"
    by (rule activate_outcome)
  have "calls (vn_net s) = calls (vn_net d) @ [SetFeatures f, SetMemTable info]"
    using o(10) assms(2) by (simp add: logs_def)
  moreover have "vn_tap s = vn_tap d" "prepared s = prepared d" using o(6) by (auto simp: same_setup_def prepared_def fun_eq_iff)
  ultimately show ?thesis using o(1-4,7-9) o(5) [unfolded activation_outcome_def] activation_logs [OF o(5) assms(2)]
    by (intro exI [of _ f] exI [of _ w] exI [of _ info] exI [of _ on] exI [of _ as]) simp
qed

section \<open>Properties\<close>

text \<open>
  C35: The features of a new device. The driver is offered what the backend has, access through the platform
  and the network features, without the hardware address when none is given, and never logging or the
  reset of single queues; when the device is activated the backend gets the negotiated features
  except those that are only between driver and device.
\<close>

theorem vhost_features:
  assumes "vhost_new ev binder gm h config = Some d" and "backend_features ev self = Some f"
  shows "(\<exists>w bf features qs mac. fst (vb_get_features (ve_backend ev) w) = Some bf \<and> vn_cfg d = vcf_new (ve_config ev) features qs mac \<and>
      length qs = 2 \<and> (\<forall>i. bit features i \<longleftrightarrow> i < 64 \<and> advertised ev config bf i)) \<and>
    (\<forall>i. bit f i \<longleftrightarrow> bit (vcf_driver_features (ve_config ev) (vn_cfg self)) i \<and>
      i \<noteq> unat (VIRTIO_F_ACCESS_PLATFORM (ve_virtio ev)) \<and> i \<notin> unat ` set (device_feature_bits (ve_virtio ev)))"
proof -
  obtain w bf features q0 q1 where "fst (vb_get_features (ve_backend ev) w) = Some bf"
    and "vn_cfg d = vcf_new (ve_config ev) features [q0, q1] (case cfg_mac config of Some m \<Rightarrow> m | None \<Rightarrow> replicate 6 0)"
    and "\<forall>i. bit features i \<longleftrightarrow> i < 64 \<and> advertised ev config bf i"
    using vhost_newD [OF assms(1)] by metis
  moreover have "length [q0, q1] = 2" by simp
  ultimately show ?thesis using backend_features_bits [OF assms(2)] by blast
qed

lemma vhost_features_witness:
  "\<exists>d features. vhost_new sample_env [] [] [] sample_config = Some d \<and> vn_cfg d = features \<and> bit features 33 \<and> bit features 0 \<and>
     \<not> bit features 5 \<and> \<not> bit features 26 \<and> \<not> bit features 40"
proof -
  obtain d where d: "vhost_new sample_env [] [] [] sample_config = Some d" using sample_env_new by blast
  have "backend_features sample_env d \<noteq> None"
    by (simp add: backend_features_def sample_env_def sample_env_with_def sample_consts_def transport_features_def supported_device_features_def
      feature_mask_def shl_one_def device_feature_bits_def)
  then obtain f where "backend_features sample_env d = Some f" by auto
  from vhost_features [OF d this] obtain w bf features where *: "fst (vb_get_features (ve_backend sample_env) w) = Some bf"
    "vn_cfg d = features" "\<forall>i. bit features i \<longleftrightarrow> i < 64 \<and> advertised sample_env sample_config bf i"
    by (auto simp: sample_env_def sample_env_with_def)
  have bits: "bit features i \<longleftrightarrow> i < 64 \<and> advertised sample_env sample_config bf i" for i using *(3) by blast
  have "bit features 33 \<and> bit features 0 \<and> \<not> bit features 5 \<and> \<not> bit features 26 \<and> \<not> bit features 40"
    unfolding bits using *(1) by (simp add: advertised_def sample_env_def sample_env_with_def sample_consts_def sample_config_def device_feature_bits_def)
  with d *(2) show ?thesis by blast
qed

text \<open>
  C33: The activation of the device. The backend gets the features and the memory, and then for each queue in
  turn: the descriptor of its interrupts, bound to the message of the vector the driver chose for
  that queue; the size, the next index and the addresses of the rings; the descriptor of its
  notifications, bound to the address at which the driver notifies that queue, two or four bytes
  wide as negotiated; and at last the TAP file, which starts it.
\<close>

theorem vhost_activation:
  assumes "vhost_activate ev d = Some (r, d')" and "logs ev calls binds"
  shows "\<exists>f w info on as. r = Inr () \<and> backend_features ev d = Some f \<and> memory_region_info (vb_mem (ve_backend ev) w) = Some info \<and>
    feature_negotiated ev d (VIRTIO_F_NOTIFICATION_DATA (ve_virtio ev)) = Some on \<and> length as = length (zipped_queues ev d) \<and>
    (\<forall>(j, (q, v), a) \<in> set (enumerate 0 (zip (zipped_queues ev d) as)). prepared d j v (qa_data a) (qa_gpa a)) \<and>
    calls (vn_net d') = calls (vn_net d) @ [SetFeatures f, SetMemTable info] @
      concat (map (\<lambda>(j, (q, v), a). queue_calls ev (vn_tap d) j q a) (enumerate 0 (zip (zipped_queues ev d) as))) \<and>
    binds (vn_binder d') = binds (vn_binder d) @ concat (map (queue_binds (if on then 4 else 2)) as) \<and>
    vn_irqfds d' = vn_irqfds d @ map qa_irqfd as \<and> vn_ioeventfds d' = vn_ioeventfds d @ map qa_iofd as"
  using activate_calls [OF assms] .

lemma vhost_activation_witness:
  "\<exists>d'. vhost_activate sample_env sample_ready = Some (Inr (), d') \<and> length (vn_binder d') = 4 \<and> length (vn_irqfds d') = 2"
proof -
  obtain r d' where d': "vhost_activate sample_env sample_ready = Some (r, d')"
    using activate_up [OF sample_up, of sample_ready] sample_ready_prepared by auto
  have "length (zipped_queues sample_env sample_ready) = 2" "vn_binder sample_ready = []" "vn_irqfds sample_ready = []"
    by (simp_all add: zipped_queues_def sample_env_def sample_env_with_def sample_ready_def)
  with vhost_activation [OF d' sample_logs] obtain as on where "r = Inr ()" "length as = 2" "vn_irqfds d' = map qa_irqfd as"
    "vn_binder d' = concat (map (queue_binds (if on then 4 else 2)) as)" by auto
  moreover from this(2) obtain a b where "as = [a, b]" by (auto simp: numeral_2_eq_2 length_Suc_conv)
  ultimately show ?thesis using d' by (simp add: queue_binds_def)
qed

text \<open>
  C34: What a driver must do before it sets the driver-ok status. Even with a backend that never fails,
  activation panics exactly when some queue has no vector whose message is known, or the address for
  notifications is not known or does not lie in the notification structure; so a driver that
  activates the device without choosing vectors ends the program.
\<close>

theorem vhost_activation_panics:
  assumes "backend_up ev"
  shows "vhost_activate ev d = None \<longleftrightarrow>
    (\<exists>(j, q, v) \<in> set (enumerate 0 (zipped_queues ev d)). vn_msix_data d v = None \<or> vn_notify_cfg_info d = None \<or>
       (\<forall>gpa. Option.bind (vn_notify_cfg_info d) (\<lambda>info. notification_gpa info (of_nat j)) \<noteq> Some (Some gpa)))"
proof -
  have "(\<exists>data gpa. prepared d j v data gpa) \<longleftrightarrow> \<not> (vn_msix_data d v = None \<or> vn_notify_cfg_info d = None \<or>
       (\<forall>gpa. Option.bind (vn_notify_cfg_info d) (\<lambda>info. notification_gpa info (of_nat j)) \<noteq> Some (Some gpa)))" for j v
    by (auto simp: prepared_def bind_eq_Some_conv)
  then show ?thesis using activate_up [OF assms, of d] by (auto simp: split_beta)
qed

lemma vhost_activation_panics_witness:
  "\<exists>d. vhost_new sample_env [] [] [] sample_config = Some d \<and> vhost_activate sample_env d = None"
proof -
  obtain d where d: "vhost_new sample_env [] [] [] sample_config = Some d" using sample_env_new by blast
  obtain "vn_queue_msix_vector d = [0xFFFF, 0xFFFF]" "vn_msix_data d = Map.empty" using vhost_newD [OF d] by metis
  then have "(0, (), 0xFFFF) \<in> set (enumerate 0 (zipped_queues sample_env d))" "vn_msix_data d 0xFFFF = None"
    by (simp_all add: zipped_queues_def sample_env_def sample_env_with_def)
  with d vhost_activation_panics [OF sample_up, of d] show ?thesis by blast
qed

text \<open>
  C36: A device that is reset and activated again keeps the descriptors of the first activation in front of
  the new ones. A notification the program delivers itself is written to the old descriptor of the
  queue, while the backend waits on the new one.
\<close>

theorem reactivation_stale:
  assumes "vhost_activate ev d = Some (r1, d1)" and "vhost_reset d1 = Some (r2, d2)" and "vhost_activate ev d2 = Some (r3, d3)"
    and "logs ev calls binds" and "i < length (vn_ioeventfds d1)" and "i < length (zipped_queues ev d2)" and "i < 2 ^ 32"
  shows "\<exists>fd. length (vn_ioeventfds d1) + i < length (vn_ioeventfds d3) \<and> vn_ioeventfds d3 ! (length (vn_ioeventfds d1) + i) = fd \<and>
      SetVringKick i fd \<in> set (drop (length (calls (vn_net d1))) (calls (vn_net d3))) \<and>
      vhost_queue_notify ev d3 (of_nat i) =
        map_option (\<lambda>net. d3\<lparr>vn_net := net\<rparr>) (net_call ev (EventFdWrite (vn_ioeventfds d1 ! i) 1) (vn_net d3))"
proof -
  have d2: "d2 = d1" using assms(2) by (simp add: vhost_reset_def)
  let ?qs = "zipped_queues ev d1"
  obtain as f info where as: "length as = length ?qs" "vn_ioeventfds d3 = vn_ioeventfds d1 @ map qa_iofd as"
    "calls (vn_net d3) = calls (vn_net d1) @ [SetFeatures f, SetMemTable info] @
      concat (map (\<lambda>(j, (q, v), a). queue_calls ev (vn_tap d1) j q a) (enumerate 0 (zip ?qs as)))"
    using activate_calls [OF assms(3) [unfolded d2] assms(4)] by blast
  obtain q v where qv: "?qs ! i = (q, v)" by (cases "?qs ! i")
  have i: "i < length as" using assms(6) as(1) d2 by simp
  then have "(i, (q, v), as ! i) \<in> set (enumerate 0 (zip ?qs as))"
    using as(1) qv by (simp add: in_set_enumerate_eq)
  then have "SetVringKick i (qa_iofd (as ! i)) \<in> set (drop (length (calls (vn_net d1))) (calls (vn_net d3)))"
    unfolding as(3) by (force simp: queue_calls_def)
  moreover have "vhost_queue_notify ev d3 (of_nat i) =
        map_option (\<lambda>net. d3\<lparr>vn_net := net\<rparr>) (net_call ev (EventFdWrite (vn_ioeventfds d1 ! i) 1) (vn_net d3))"
    using assms(5,7) as(2) by (cases "net_call ev (EventFdWrite (vn_ioeventfds d1 ! i) 1) (vn_net d3)")
      (simp_all add: vhost_queue_notify_def unsigned_of_nat take_bit_nat_eq_self nth_append)
  ultimately show ?thesis using as(2) i by (auto simp: nth_append)
qed

lemma sample_activate:
  assumes "vn_queue_msix_vector d = [1, 2]" "vn_notify_cfg_info d = vn_notify_cfg_info sample_ready" "vn_msix_data d = vn_msix_data sample_ready"
    "vn_net d = (l, n)"
  shows "\<exists>d' l'. vhost_activate sample_env d = Some (Inr (), d') \<and> vn_ioeventfds d' = vn_ioeventfds d @ [int n + 1, int n + 3] \<and>
    vn_net d' = (l', n + 4) \<and> vn_queue_msix_vector d' = [1, 2] \<and> vn_notify_cfg_info d' = vn_notify_cfg_info sample_ready \<and>
    vn_msix_data d' = vn_msix_data sample_ready"
proof -
  have "backend_features sample_env d \<noteq> None"
    by (simp add: backend_features_def sample_env_def sample_env_with_def sample_consts_def transport_features_def supported_device_features_def
      feature_mask_def shl_one_def device_feature_bits_def)
  then obtain f where f: "backend_features sample_env d = Some f" by auto
  obtain off where off: "tap_offload sample_env d = Some off" using tap_offload_up [OF sample_up] by blast
  have "feature_negotiated sample_env d (VIRTIO_F_NOTIFICATION_DATA (ve_virtio sample_env)) \<noteq> None"
    by (simp add: feature_negotiated_def shl_one_def sample_env_def sample_env_with_def sample_consts_def)
  then obtain on where on: "feature_negotiated sample_env d (VIRTIO_F_NOTIFICATION_DATA (ve_virtio sample_env)) = Some on" by auto
  have parts: "vb_call (ve_backend sample_env) c (l, n) = (True, (l @ [c], n))" "vb_eventfd_new (ve_backend sample_env) (l, n) = (Some (int n), (l, n + 1))"
    "vb_mem (ve_backend sample_env) w = []" "vb_avail_idx (ve_backend sample_env) q w = Some 0" "vcf_queues (ve_config sample_env) c' = [(), ()]"
    "eb_bind_ioeventfd (ve_binder sample_env) oc h = (True, h @ [Inr oc])" "eb_bind_irqfd (ve_binder sample_env) ic h = (True, h @ [Inl ic])"
    "k_result (ve_kernel sample_env) hh k = 3" for c l n w q c' oc ic h hh k
    by (simp_all add: sample_env_def sample_env_with_def)
  show ?thesis using assms f off on
    by (simp add: vhost_activate_def zipped_queues_def activate_queue_def sample_ready_def notification_gpa_def net_call_def
      expect_ok_def expect_value_def expect_result_def set_offload_def parts)
qed

lemma reactivation_stale_witness:
  "\<exists>d1 d3. vhost_activate sample_env sample_ready = Some (Inr (), d1) \<and> vhost_activate sample_env d1 = Some (Inr (), d3) \<and>
     (\<exists>fd. fd \<noteq> vn_ioeventfds d1 ! 1 \<and> SetVringKick 1 fd \<in> set (fst (vn_net d3)) \<and>
       vhost_queue_notify sample_env d3 1 = map_option (\<lambda>net. d3\<lparr>vn_net := net\<rparr>)
         (net_call sample_env (EventFdWrite (vn_ioeventfds d1 ! 1) 1) (vn_net d3)))"
proof -
  obtain d1 l1 where d1: "vhost_activate sample_env sample_ready = Some (Inr (), d1)" "vn_ioeventfds d1 = [11, 13]" "vn_net d1 = (l1, 14)"
    "vn_queue_msix_vector d1 = [1, 2]" "vn_notify_cfg_info d1 = vn_notify_cfg_info sample_ready" "vn_msix_data d1 = vn_msix_data sample_ready"
    using sample_activate [of sample_ready "[]" 10] by (auto simp: sample_ready_def)
  obtain d3 l3 where d3: "vhost_activate sample_env d1 = Some (Inr (), d3)" "vn_ioeventfds d3 = [11, 13, 15, 17]" "vn_net d3 = (l3, 18)"
    using sample_activate [OF d1(4-6,3)] d1(2) by auto
  have "length (zipped_queues sample_env d1) = 2" using d1(4) by (simp add: zipped_queues_def sample_env_def sample_env_with_def)
  with reactivation_stale [OF d1(1) _ d3(1) sample_logs, of "Inr ()" 1] d1 d3 show ?thesis
    by (intro exI [of _ d1] exI [of _ d3]) (auto simp: vhost_reset_def intro!: exI [of _ 17] dest!: in_set_dropD)
qed

end
