(* ===== verification/Sel4_Rpc.thy ===== *)
theory Sel4_Rpc
  imports Sys_Linux Pci_Utils
begin

text \<open>
  I/O requests (\<open>greens-core\<close>), their decoding from messages of the hypervisor (\<open>ioreq.rs\<close>), the message
  queues (\<open>rpc.rs\<close>) and the doorbell (\<open>rpc/doorbell.rs\<close>). The queues and the bit fields of a message are C
  code that is not in the repository: \<open>rpc_bindings\<close> and \<open>rpc_ffi\<close> are arguments.
\<close>

section \<open>Requests\<close>

datatype IoOperation = IoRead | IoWrite bytes

datatype AddressSpace = MmioSpace | PciConfigSpace u8

record IoRequest =
  req_address_space :: AddressSpace
  req_address :: u64
  req_size :: u8
  req_operation :: IoOperation

record MsiMessage =
  msi_address :: u64
  msi_data :: u32

datatype InterruptLineOperation = LineClear | LineSet | LinePulse

text \<open>The three words of a message the code uses, and the accessors of the first word.\<close>

record rpcmsg =
  mr0 :: u64
  mr1 :: u64
  mr2 :: u64

record rpc_bindings =
  rpc_ioreq_address_space :: "u64 \<Rightarrow> u32"
  rpc_ioreq_direction :: "u64 \<Rightarrow> u32"
  rpc_ioreq_len :: "u64 \<Rightarrow> u32"
  RPC_ADDRESS_SPACE_GLOBAL :: u32
  RPC_MR0_MMIO_DIRECTION_WRITE :: u32

definition io_request_from :: "endian \<Rightarrow> 'x rpc_bindings_scheme \<Rightarrow> rpcmsg \<Rightarrow> IoRequest" where
  "io_request_from e b ioreq =
     \<lparr>req_address_space =
        (let space = rpc_ioreq_address_space b (mr0 ioreq) in
         if space = RPC_ADDRESS_SPACE_GLOBAL b then MmioSpace else PciConfigSpace (ucast space)),
      req_address = mr1 ioreq,
      req_size = ucast (rpc_ioreq_len b (mr0 ioreq)),
      req_operation =
        (if rpc_ioreq_direction b (mr0 ioreq) = RPC_MR0_MMIO_DIRECTION_WRITE b
         then IoWrite (to_ne_bytes e (mr2 ioreq)) else IoRead)\<rparr>"

section \<open>The doorbell\<close>

record MmioDoorbell =
  bell_region :: MemoryMapping
  bell_offset :: usize

text \<open>A pointer is its address; \<open>DriverInit\<close> carries the code of the C function.\<close>

datatype RpcError =
    InvalidOffset usize usize
  | DriverInit int
  | InvalidRequest u32
  | InvalidPciDevice u8
  | RequestQueueEmpty
  | IoRequestComplete int
  | InvalidMsgPointer
  | RpcLockError

definition doorbell_new :: "MemoryMapping \<Rightarrow> usize option \<Rightarrow> RpcError + MmioDoorbell" where
  "doorbell_new region offset =
     (let offset = (case offset of None \<Rightarrow> 0 | Some off \<Rightarrow> off) in
      if offset < map_size region then Inr \<lparr>bell_region = region, bell_offset = offset\<rparr>
      else Inl (InvalidOffset offset (map_size region)))"

definition doorbell_cookie :: "MmioDoorbell \<Rightarrow> int" where
  "doorbell_cookie self = map_addr (bell_region self) + int (bell_offset self)"

text \<open>Ringing stores the four bytes of the number one; memory is a map from addresses to bytes.\<close>

definition doorbell_ring :: "endian \<Rightarrow> (int \<Rightarrow> u8) \<Rightarrow> int \<Rightarrow> int \<Rightarrow> u8" where
  "doorbell_ring e mem addr =
     (\<lambda>a. if addr \<le> a \<and> a < addr + 4 then to_ne_bytes e (1 :: u32) ! nat (a - addr) else mem a)"

text \<open>
  C40: The store of a doorbell. Construction accepts exactly the offsets inside the region, but the store is
  four bytes wide: it stays inside the region exactly when the offset is at least four bytes before
  its end, so a doorbell at one of the last three bytes is accepted and writes past the region.
\<close>

theorem doorbell_bounds:
  "(doorbell_new region (Some off) = Inr bell \<longleftrightarrow> off < map_size region \<and> bell = \<lparr>bell_region = region, bell_offset = off\<rparr>) \<and>
   ((\<forall>mem a. doorbell_ring e mem (doorbell_cookie \<lparr>bell_region = region, bell_offset = off\<rparr>) a \<noteq> mem a \<longrightarrow>
        map_addr region \<le> a \<and> a < map_addr region + int (map_size region)) \<longleftrightarrow> off + 4 \<le> map_size region)"
proof -
  let ?p = "map_addr region + int off"
  have "off + 4 \<le> map_size region" if *: "\<And>mem a. doorbell_ring e mem ?p a \<noteq> mem a \<Longrightarrow>
      map_addr region \<le> a \<and> a < map_addr region + int (map_size region)"
  proof -
    have "to_ne_bytes e (1 :: u32) ! 3 \<noteq> 0xFF" by (cases e) (simp_all add: to_ne_bytes_def to_le_bytes_def byte_of_def rev_map upt_rec)
    then have "doorbell_ring e (\<lambda>_. 0xFF) ?p (?p + 3) \<noteq> 0xFF" by (simp add: doorbell_ring_def)
    from * [OF this] show ?thesis by linarith
  qed
  moreover have "map_addr region \<le> a \<and> a < map_addr region + int (map_size region)"
    if "off + 4 \<le> map_size region" "doorbell_ring e mem ?p a \<noteq> mem a" for mem a
    using that by (auto simp: doorbell_ring_def split: if_splits)
  ultimately have "(\<forall>mem a. doorbell_ring e mem ?p a \<noteq> mem a \<longrightarrow> map_addr region \<le> a \<and> a < map_addr region + int (map_size region)) \<longleftrightarrow>
      off + 4 \<le> map_size region" by blast
  moreover have "doorbell_new region (Some off) = Inr bell \<longleftrightarrow> off < map_size region \<and> bell = \<lparr>bell_region = region, bell_offset = off\<rparr>"
    by (auto simp: doorbell_new_def Let_def)
  ultimately show ?thesis by (simp add: doorbell_cookie_def)
qed

lemma doorbell_bounds_witness:
  "\<exists>bell. doorbell_new \<lparr>map_addr = 0x1000, map_size = 4\<rparr> (Some 1) = Inr bell \<and>
     \<not> (\<forall>mem a. doorbell_ring Little mem (doorbell_cookie bell) a \<noteq> mem a \<longrightarrow> 0x1000 \<le> a \<and> a < 0x1004)"
  using doorbell_bounds [where region = "\<lparr>map_addr = 0x1000, map_size = 4\<rparr>" and off = 1 and bell = "\<lparr>bell_region = \<lparr>map_addr = 0x1000, map_size = 4\<rparr>, bell_offset = 1\<rparr>" and e = Little]
  by simp

section \<open>The driver queues\<close>

text \<open>
  The C functions on the queues; \<open>'r\<close> is the structure \<open>vso_rpc\<close> with the queues in shared memory, \<open>'p\<close> the
  pointer to a message.
\<close>

record ('r, 'p) rpc_ffi =
  vso_rpc_init :: "int \<Rightarrow> int \<Rightarrow> int \<times> 'r"
  rpcmsg_receive :: "'r \<Rightarrow> 'p option \<times> 'r"
  rpcmsg_read :: "'r \<Rightarrow> 'p \<Rightarrow> rpcmsg"
  driver_rpc_ack_mmio_finish :: "'r \<Rightarrow> 'p \<Rightarrow> u64 \<Rightarrow> int \<times> 'r"

text \<open>\<open>rpc_poisoned\<close>: a thread panicked while it held the lock.\<close>

record 'r DriverRpc =
  rpc_state :: 'r
  rpc_poisoned :: bool
  rpc_io_mapping :: MemoryMapping
  rpc_doorbell :: MmioDoorbell

definition driver_rpc_new :: "('r, 'p) rpc_ffi \<Rightarrow> MemoryMapping \<Rightarrow> MmioDoorbell \<Rightarrow> RpcError + 'r DriverRpc" where
  "driver_rpc_new ffi io_mapping doorbell =
     (let (r, rpc) = vso_rpc_init ffi (map_addr io_mapping) (doorbell_cookie doorbell) in
      if r \<noteq> 0 then Inl (DriverInit r)
      else Inr \<lparr>rpc_state = rpc, rpc_poisoned = False, rpc_io_mapping = io_mapping, rpc_doorbell = doorbell\<rparr>)"

definition try_dequeue_ioreq :: "('r, 'p) rpc_ffi \<Rightarrow> 'r DriverRpc \<Rightarrow> (RpcError + 'p) \<times> 'r DriverRpc" where
  "try_dequeue_ioreq ffi self =
     (if rpc_poisoned self then (Inl RpcLockError, self)
      else (let (p, rpc) = rpcmsg_receive ffi (rpc_state self); self = self\<lparr>rpc_state := rpc\<rparr>
            in case p of None \<Rightarrow> (Inl RequestQueueEmpty, self) | Some p \<Rightarrow> (Inr p, self)))"

definition try_complete_ioreq ::
    "endian \<Rightarrow> ('r, 'p) rpc_ffi \<Rightarrow> 'r DriverRpc \<Rightarrow> 'p \<Rightarrow> bytes option \<Rightarrow> (RpcError + unit) \<times> 'r DriverRpc" where
  "try_complete_ioreq e ffi self msg data =
     (if rpc_poisoned self then (Inl RpcLockError, self)
      else (let data = (case data of Some b \<Rightarrow> from_ne_bytes e b | None \<Rightarrow> mr2 (rpcmsg_read ffi (rpc_state self) msg));
                (r, rpc) = driver_rpc_ack_mmio_finish ffi (rpc_state self) msg data;
                self = self\<lparr>rpc_state := rpc\<rparr>
            in if r = 0 then (Inr (), self) else (Inl (IoRequestComplete r), self)))"

text \<open>The handler may panic; \<open>'w\<close> is what it captures.\<close>

definition process_ioreq ::
    "endian \<Rightarrow> 'x rpc_bindings_scheme \<Rightarrow> ('r, 'p) rpc_ffi \<Rightarrow> ('w \<Rightarrow> IoRequest \<Rightarrow> (bytes option \<times> 'w) option) \<Rightarrow> 'w \<Rightarrow> 'r DriverRpc \<Rightarrow>
     ((RpcError + unit) \<times> 'w \<times> 'r DriverRpc) option" where
  "process_ioreq e b ffi process_fn w self =
     (case try_dequeue_ioreq ffi self of
        (Inl e, self) \<Rightarrow> Some (Inl e, w, self)
      | (Inr msg, self) \<Rightarrow> do {
          (data, w) \<leftarrow> process_fn w (io_request_from e b (rpcmsg_read ffi (rpc_state self) msg));
          let (r, self) = try_complete_ioreq e ffi self msg data;
          Some (r, w, self)
        })"

text \<open>
  What the code relies on of the C functions: the request queue gives its messages in order and the null
  pointer when it is empty, and an acknowledgement that returns zero appends one reply.
\<close>

definition rpc_queues :: "('r, 'p) rpc_ffi \<Rightarrow> ('r \<Rightarrow> rpcmsg list) \<Rightarrow> ('r \<Rightarrow> (rpcmsg \<times> u64) list) \<Rightarrow> bool" where
  "rpc_queues ffi pending replies \<longleftrightarrow>
     (\<forall>r. (case pending r of
        [] \<Rightarrow> (\<exists>r'. rpcmsg_receive ffi r = (None, r') \<and> pending r' = [] \<and> replies r' = replies r)
      | m # ms \<Rightarrow> (\<exists>p r'. rpcmsg_receive ffi r = (Some p, r') \<and> pending r' = ms \<and> replies r' = replies r \<and> rpcmsg_read ffi r' p = m))) \<and>
     (\<forall>r p d. \<exists>c r'. driver_rpc_ack_mmio_finish ffi r p d = (c, r') \<and> pending r' = pending r \<and>
        replies r' = (if c = 0 then replies r @ [(rpcmsg_read ffi r p, d)] else replies r))"

lemma rpc_queuesD:
  assumes "rpc_queues ffi pending replies"
  shows "pending r = [] \<Longrightarrow> \<exists>r'. rpcmsg_receive ffi r = (None, r') \<and> pending r' = [] \<and> replies r' = replies r"
    and "pending r = m # ms \<Longrightarrow> \<exists>p r'. rpcmsg_receive ffi r = (Some p, r') \<and> pending r' = ms \<and> replies r' = replies r \<and> rpcmsg_read ffi r' p = m"
    and "\<exists>c r'. driver_rpc_ack_mmio_finish ffi r p d = (c, r') \<and> pending r' = pending r \<and>
        replies r' = (if c = 0 then replies r @ [(rpcmsg_read ffi r p, d)] else replies r)"
  using assms [unfolded rpc_queues_def, THEN conjunct1, THEN spec, of r]
    assms [unfolded rpc_queues_def, THEN conjunct2, THEN spec, THEN spec, THEN spec, of r p d] by simp_all

definition answer :: "endian \<Rightarrow> rpcmsg \<Rightarrow> bytes option \<Rightarrow> u64" where
  "answer e m data = (case data of Some b \<Rightarrow> from_ne_bytes e b | None \<Rightarrow> mr2 m)"

text \<open>
  C5: Serving requests implements a queue of requests and a list of replies: an empty queue is an error
  that changes nothing, and otherwise the oldest request is taken, handed to the handler as it
  was sent, and answered exactly once, with the data of the handler or, for a write, with the data
  of the request.
\<close>

theorem rpc_request_reply:
  assumes "rpc_queues ffi pending replies" and "\<not> rpc_poisoned self"
    and "\<And>m ms. pending (rpc_state self) = m # ms \<Longrightarrow> process_fn w (io_request_from e b m) = Some (data m, w' m)"
  shows "\<exists>r v self'. process_ioreq e b ffi process_fn w self = Some (r, v, self') \<and> \<not> rpc_poisoned self' \<and>
    (case pending (rpc_state self) of
       [] \<Rightarrow> r = Inl RequestQueueEmpty \<and> v = w \<and> pending (rpc_state self') = [] \<and> replies (rpc_state self') = replies (rpc_state self)
     | m # ms \<Rightarrow> v = w' m \<and> pending (rpc_state self') = ms \<and>
         replies (rpc_state self') = replies (rpc_state self) @ (if r = Inr () then [(m, answer e m (data m))] else []))"
proof (cases "pending (rpc_state self)")
  case Nil
  from rpc_queuesD(1) [OF assms(1) Nil] obtain r' where
    "rpcmsg_receive ffi (rpc_state self) = (None, r')" "pending r' = []" "replies r' = replies (rpc_state self)" by blast
  with Nil assms(2) show ?thesis by (simp add: process_ioreq_def try_dequeue_ioreq_def)
next
  case (Cons m ms)
  from rpc_queuesD(2) [OF assms(1) Cons] obtain p r1 where r1: "rpcmsg_receive ffi (rpc_state self) = (Some p, r1)" "pending r1 = ms"
    "replies r1 = replies (rpc_state self)" "rpcmsg_read ffi r1 p = m"
    by blast
  from rpc_queuesD(3) [OF assms(1), of r1 p "answer e m (data m)"] obtain c r2 where r2: "driver_rpc_ack_mmio_finish ffi r1 p (answer e m (data m)) = (c, r2)" "pending r2 = pending r1"
    "replies r2 = (if c = 0 then replies r1 @ [(rpcmsg_read ffi r1 p, answer e m (data m))] else replies r1)"
    by blast
  have "process_ioreq e b ffi process_fn w self =
      Some (if c = 0 then Inr () else Inl (IoRequestComplete c), w' m, self\<lparr>rpc_state := r2\<rparr>)"
    using r1 r2(1) assms(2) assms(3) [OF Cons]
    by (simp add: process_ioreq_def try_dequeue_ioreq_def try_complete_ioreq_def answer_def split: option.splits)
  with Cons r1 r2 assms(2) show ?thesis by simp
qed

definition list_ffi :: "(rpcmsg list \<times> (rpcmsg \<times> u64) list, rpcmsg) rpc_ffi" where
  "list_ffi = \<lparr>vso_rpc_init = (\<lambda>_ _. (0, ([], []))),
     rpcmsg_receive = (\<lambda>(ms, rs). case ms of [] \<Rightarrow> (None, ([], rs)) | m # ms \<Rightarrow> (Some m, (ms, rs))),
     rpcmsg_read = (\<lambda>_ p. p), driver_rpc_ack_mmio_finish = (\<lambda>(ms, rs) p d. (0, (ms, rs @ [(p, d)])))\<rparr>"

lemma rpc_request_reply_witness:
  "\<forall>(b :: rpc_bindings) m. \<exists>r self'. process_ioreq Little b list_ffi (\<lambda>w _. Some (Some [1, 0, 0, 0, 0, 0, 0, 0], w + 1)) (0 :: nat)
      \<lparr>rpc_state = ([m], []), rpc_poisoned = False, rpc_io_mapping = \<lparr>map_addr = 0, map_size = 4096\<rparr>,
       rpc_doorbell = \<lparr>bell_region = \<lparr>map_addr = 4096, map_size = 4096\<rparr>, bell_offset = 0\<rparr>\<rparr> = Some (r, 1, self') \<and>
     fst (rpc_state self') = []"
proof (intro allI)
  fix b :: rpc_bindings and m :: rpcmsg
  let ?self = "\<lparr>rpc_state = ([m], [] :: (rpcmsg \<times> u64) list), rpc_poisoned = False, rpc_io_mapping = \<lparr>map_addr = 0, map_size = 4096\<rparr>,
       rpc_doorbell = \<lparr>bell_region = \<lparr>map_addr = 4096, map_size = 4096\<rparr>, bell_offset = 0\<rparr>\<rparr>"
  have "rpc_queues list_ffi fst snd" by (auto simp: rpc_queues_def list_ffi_def split: list.split)
  from rpc_request_reply [OF this, of ?self "\<lambda>w _. Some (Some [1, 0, 0, 0, 0, 0, 0, 0], w + 1)" "0 :: nat" Little b
      "\<lambda>_. Some [1, 0, 0, 0, 0, 0, 0, 0]" "\<lambda>_. 1"]
  show "\<exists>r self'. process_ioreq Little b list_ffi (\<lambda>w _. Some (Some [1, 0, 0, 0, 0, 0, 0, 0], w + 1)) (0 :: nat) ?self = Some (r, 1, self') \<and>
     fst (rpc_state self') = []" by auto
qed

end
