(* ===== verification/Sel4_Interface.thy ===== *)
theory Sel4_Interface
  imports Sel4_Rpc Io_Config "HOL-Library.Multiset"
begin

text \<open>
  The I/O interface to the hypervisor (\<open>io_interface.rs\<close>): creation of the virtual machine and its
  mappings, the start of the machine, registration of PCI devices, serving I/O requests, interrupts
  and event descriptors. The kernel and the constants of the generated bindings are arguments.
\<close>

section \<open>Requests to the driver\<close>

record sel4_ioeventfd_config =
  ioe_fd :: int
  ioe_flags :: u32
  ioe_addr :: u64
  ioe_len :: u32
  ioe_addr_space :: u32
  ioe_data :: u64

record sel4_irqfd_config =
  irqc_fd :: int
  irqc_flags :: u32
  irqc_virq :: u32

datatype sel4_request =
    CREATE_VM u64 u64
  | START_VM
  | CREATE_VPCI_DEVICE u32
  | SET_IRQLINE u32 u32
  | IOEVENTFD sel4_ioeventfd_config
  | IRQFD sel4_irqfd_config
  | CREATE_IO_HANDLER u64
  | WAIT_IO

record sel4_bindings = rpc_bindings +
  SEL4_MEM_MAP_RAM :: u32
  SEL4_MEM_MAP_IOBUF :: u32
  SEL4_MEM_MAP_EVENT_BAR :: u32
  IOBUF_NUM_PAGES :: u32
  SEL4_IRQ_OP_SET :: u32
  SEL4_IRQ_OP_CLR :: u32
  SEL4_IRQ_OP_PULSE :: u32
  SEL4_IOEVENTFD_FLAG_DATAMATCH :: u32
  SEL4_IOEVENTFD_FLAG_DEASSIGN :: u32
  SEL4_IRQFD_FLAG_DEASSIGN :: u32
  PROT_READ_WRITE :: int
  MAP_SHARED :: int

type_synonym sel4_history = "sel4_request history"
type_synonym sel4_kernel = "sel4_request kernel"

datatype IoMapKind = MapRam | MapIoBuf | MapEvent

fun io_map_kind :: "sel4_bindings \<Rightarrow> IoMapKind \<Rightarrow> u64" where
  "io_map_kind b MapRam = ucast (SEL4_MEM_MAP_RAM b)"
| "io_map_kind b MapIoBuf = ucast (SEL4_MEM_MAP_IOBUF b)"
| "io_map_kind b MapEvent = ucast (SEL4_MEM_MAP_EVENT_BAR b)"

fun io_map_kind_str :: "IoMapKind \<Rightarrow> string" where
  "io_map_kind_str MapRam = ''ram''"
| "io_map_kind_str MapIoBuf = ''io''"
| "io_map_kind_str MapEvent = ''notification''"

text \<open>An error of the operating system is its number.\<close>

datatype sel4_error =
    DeviceOpen int
  | AttachVm int
  | CreateIoHandler string int
  | MmapIoHandler string int
  | CreateVpciDevice int
  | SignalReady int
  | WaitIo int
  | RpcFailed RpcError
  | SetInterruptFailed int
  | IoEventFdFailed int
  | IrqFdFailed int
  | LockFailed
  | IoConnectionConfig "int config_error"

record GuestMemoryRegion =
  gm_fd :: int
  gm_fd_offset :: u64
  gm_size :: usize
  gm_guest_addr :: u64

record 'r Sel4IoInterface =
  si_device :: int
  si_control :: int
  si_guest_memory :: "GuestMemoryRegion list"
  si_rpc :: "'r DriverRpc"
  si_num_pcidevs :: u32
  si_pcidevs_poisoned :: bool
  si_ready :: bool
  si_ready_poisoned :: bool

type_synonym ('s, 'a) io_call = "((sel4_error + 'a) \<times> 's \<times> sel4_history) option"

section \<open>Creation\<close>

text \<open>Leaving a scope closes the files and removes the mappings it owns, the last declared first.\<close>

definition close_fd :: "sel4_kernel \<Rightarrow> int \<Rightarrow> sel4_history \<Rightarrow> sel4_history" where
  "close_fd k fd h = snd (sys_call k h (Close fd))"

definition alloc_ram_fd ::
    "sel4_kernel \<Rightarrow> sel4_bindings \<Rightarrow> int \<Rightarrow> usize \<Rightarrow> u64 \<Rightarrow> sel4_history \<Rightarrow> (sel4_error + GuestMemoryRegion) \<times> sel4_history" where
  "alloc_ram_fd k b control sz guest_addr h =
     (let (raw_fd, h) = sys_call k h (Ioctl control (CREATE_IO_HANDLER (io_map_kind b MapRam))) in
      if raw_fd < 0 then (Inl (CreateIoHandler (io_map_kind_str MapRam) (k_errno k h)), h)
      else (Inr \<lparr>gm_fd = raw_fd, gm_fd_offset = 0, gm_size = sz, gm_guest_addr = guest_addr\<rparr>, h))"

definition map_buffer ::
    "sel4_kernel \<Rightarrow> sel4_bindings \<Rightarrow> int \<Rightarrow> IoMapKind \<Rightarrow> usize \<Rightarrow> sel4_history \<Rightarrow> (sel4_error + MemoryMapping) \<times> sel4_history" where
  "map_buffer k b control kind sz h =
     (let (fd, h) = sys_call k h (Ioctl control (CREATE_IO_HANDLER (io_map_kind b kind))) in
      if fd < 0 then (Inl (CreateIoHandler (io_map_kind_str kind) (k_errno k h)), h)
      else (let (r, h) = try_mmap k None sz (PROT_READ_WRITE b) (MAP_SHARED b) (Some fd) None h;
                h = close_fd k fd h
            in case r of Inl e \<Rightarrow> (Inl (MmapIoHandler (io_map_kind_str kind) e), h) | Inr m \<Rightarrow> (Inr m, h)))"

definition sel4_new ::
    "sel4_kernel \<Rightarrow> sel4_bindings \<Rightarrow> ('r, 'p) rpc_ffi \<Rightarrow> (int + string) \<Rightarrow> string \<Rightarrow> u64 \<Rightarrow> sel4_history \<Rightarrow>
     (sel4_error + 'r Sel4IoInterface) \<times> sel4_history" where
  "sel4_new k b ffi cmdline device_path device_model_id h =
     (case io_interface_config cmdline device_model_id of
        Inl e \<Rightarrow> (Inl (IoConnectionConfig e), h)
      | Inr io_cfg \<Rightarrow>
     (let (device, h) = sys_call k h (OpenFile device_path) in
      if device = -1 then (Inl (DeviceOpen (k_errno k h)), h)
      else
     (let (control, h) = sys_call k h (Ioctl device (CREATE_VM (ram_size io_cfg) device_model_id)) in
      if control = -1 then (Inl (AttachVm (k_errno k h)), close_fd k device h)
      else
     (case alloc_ram_fd k b control (unat (ram_size io_cfg)) (ram_start io_cfg) h of
        (Inl e, h) \<Rightarrow> (Inl e, close_fd k device (close_fd k control h))
      | (Inr ram, h) \<Rightarrow>
     (let unwind = (\<lambda>h. close_fd k device (close_fd k control (close_fd k (gm_fd ram) h))) in
      case map_buffer k b control MapIoBuf (unat (IOBUF_NUM_PAGES b) * 4096) h of
        (Inl e, h) \<Rightarrow> (Inl e, unwind h)
      | (Inr io_mapping, h) \<Rightarrow>
     (case map_buffer k b control MapEvent 4096 h of
        (Inl e, h) \<Rightarrow> (Inl e, unwind (drop_mapping k io_mapping h))
      | (Inr event_mapping, h) \<Rightarrow>
     (case doorbell_new event_mapping None of
        Inl e \<Rightarrow> (Inl (RpcFailed e), unwind (drop_mapping k io_mapping (drop_mapping k event_mapping h)))
      | Inr doorbell \<Rightarrow>
     (case driver_rpc_new ffi io_mapping doorbell of
        Inl e \<Rightarrow> (Inl (RpcFailed e), unwind (drop_mapping k io_mapping (drop_mapping k (bell_region doorbell) h)))
      | Inr rpc \<Rightarrow>
          (Inr \<lparr>si_device = device, si_control = control, si_guest_memory = [ram], si_rpc = rpc, si_num_pcidevs = 0,
                si_pcidevs_poisoned = False, si_ready = False, si_ready_poisoned = False\<rparr>, h)))))))))"

text \<open>Dropping the interface drops its fields in their order.\<close>

definition sel4_drop :: "sel4_kernel \<Rightarrow> 'r Sel4IoInterface \<Rightarrow> sel4_history \<Rightarrow> sel4_history" where
  "sel4_drop k self h =
     drop_mapping k (bell_region (rpc_doorbell (si_rpc self))) (drop_mapping k (rpc_io_mapping (si_rpc self))
       (fold (\<lambda>g. close_fd k (gm_fd g)) (si_guest_memory self) (close_fd k (si_control self) (close_fd k (si_device self) h))))"

section \<open>Operations\<close>

definition signal_ready :: "sel4_kernel \<Rightarrow> 'r Sel4IoInterface \<Rightarrow> sel4_history \<Rightarrow> ('r Sel4IoInterface, unit) io_call" where
  "signal_ready k self h =
     (if si_ready_poisoned self then Some (Inl LockFailed, self, h)
      else if si_ready self then Some (Inr (), self, h)
      else (let (r, h) = sys_call k h (Ioctl (si_control self) START_VM) in
            if r = -1 then Some (Inl (SignalReady (k_errno k h)), self, h)
            else Some (Inr (), self\<lparr>si_ready := True\<rparr>, h)))"

text \<open>The increment is computed with overflow checks.\<close>

definition register_vpci_device :: "sel4_kernel \<Rightarrow> 'r Sel4IoInterface \<Rightarrow> sel4_history \<Rightarrow> ('r Sel4IoInterface, u32) io_call" where
  "register_vpci_device k self h =
     (if si_pcidevs_poisoned self then Some (Inl LockFailed, self, h)
      else (let pcidev = si_num_pcidevs self; (r, h) = sys_call k h (Ioctl (si_control self) (CREATE_VPCI_DEVICE pcidev)) in
            if r = -1 then Some (Inl (CreateVpciDevice (k_errno k h)), self, h)
            else if unat pcidev + 1 = 2 ^ 32 then None
            else Some (Inr pcidev, self\<lparr>si_num_pcidevs := pcidev + 1\<rparr>, h)))"

definition wait_io :: "sel4_kernel \<Rightarrow> 'r Sel4IoInterface \<Rightarrow> sel4_history \<Rightarrow> ('r Sel4IoInterface, unit) io_call" where
  "wait_io k self h =
     (let (r, h) = sys_call k h (Ioctl (si_control self) WAIT_IO) in
      if r = -1 then Some (Inl (WaitIo (k_errno k h)), self, h) else Some (Inr (), self, h))"

text \<open>The handler runs system calls of its own, so it is given the history.\<close>

definition handle_next_io ::
    "endian \<Rightarrow> sel4_kernel \<Rightarrow> sel4_bindings \<Rightarrow> ('r, 'p) rpc_ffi \<Rightarrow> ('w \<times> sel4_history \<Rightarrow> IoRequest \<Rightarrow> (bytes option \<times> 'w \<times> sel4_history) option) \<Rightarrow>
     'w \<Rightarrow> 'r Sel4IoInterface \<Rightarrow> sel4_history \<Rightarrow> ((sel4_error + unit) \<times> 'w \<times> 'r Sel4IoInterface \<times> sel4_history) option" where
  "handle_next_io e k b ffi io_handle_fn w self h = do {
     (r, self, h) \<leftarrow> signal_ready k self h;
     case r of
       Inl e \<Rightarrow> Some (Inl e, w, self, h)
     | Inr _ \<Rightarrow> do {
         (r, self, h) \<leftarrow> wait_io k self h;
         case r of
           Inl e \<Rightarrow> Some (Inl e, w, self, h)
         | Inr _ \<Rightarrow> do {
             (r, (w, h), rpc) \<leftarrow> process_ioreq e b ffi io_handle_fn (w, h) (si_rpc self);
             let self = self\<lparr>si_rpc := rpc\<rparr>;
             Some (case r of Inl e \<Rightarrow> Inl (RpcFailed e) | Inr _ \<Rightarrow> Inr (), w, self, h)
           }
       }
   }"

fun irq_op :: "sel4_bindings \<Rightarrow> InterruptLineOperation \<Rightarrow> u32" where
  "irq_op b LineClear = SEL4_IRQ_OP_CLR b"
| "irq_op b LineSet = SEL4_IRQ_OP_SET b"
| "irq_op b LinePulse = SEL4_IRQ_OP_PULSE b"

definition iface_set_interrupt ::
    "sel4_kernel \<Rightarrow> sel4_bindings \<Rightarrow> 'r Sel4IoInterface \<Rightarrow> u32 \<Rightarrow> InterruptLineOperation \<Rightarrow> sel4_history \<Rightarrow> (sel4_error + unit) \<times> sel4_history" where
  "iface_set_interrupt k b self irq op h =
     (let (r, h) = sys_call k h (Ioctl (si_control self) (SET_IRQLINE irq (irq_op b op))) in
      if r = -1 then (Inl (SetInterruptFailed (k_errno k h)), h) else (Inr (), h))"

definition iface_send_msi ::
    "sel4_kernel \<Rightarrow> sel4_bindings \<Rightarrow> 'r Sel4IoInterface \<Rightarrow> MsiMessage \<Rightarrow> sel4_history \<Rightarrow> (sel4_error + unit) \<times> sel4_history" where
  "iface_send_msi k b self message h = iface_set_interrupt k b self (msi_data message AND 0xFFFF) LinePulse h"

definition ioeventfd_config ::
    "sel4_kernel \<Rightarrow> sel4_bindings \<Rightarrow> int \<Rightarrow> IoEventFdConfig \<Rightarrow> bool \<Rightarrow> sel4_history \<Rightarrow> (sel4_error + unit) \<times> sel4_history" where
  "ioeventfd_config k b f config attach h =
     (let flags = (if io_data config \<noteq> None then SEL4_IOEVENTFD_FLAG_DATAMATCH b else 0);
          flags = (if \<not> attach then flags OR SEL4_IOEVENTFD_FLAG_DEASSIGN b else flags);
          params = \<lparr>ioe_fd = io_fd config, ioe_flags = flags, ioe_addr = io_addr config, ioe_len = io_len config,
            ioe_addr_space = RPC_ADDRESS_SPACE_GLOBAL b, ioe_data = (case io_data config of None \<Rightarrow> 0 | Some d \<Rightarrow> d)\<rparr>;
          (r, h) = sys_call k h (Ioctl f (IOEVENTFD params))
      in if r = -1 then (Inl (IoEventFdFailed (k_errno k h)), h) else (Inr (), h))"

definition irqfd_config ::
    "sel4_kernel \<Rightarrow> sel4_bindings \<Rightarrow> int \<Rightarrow> IrqFdConfig \<Rightarrow> bool \<Rightarrow> sel4_history \<Rightarrow> (sel4_error + unit) \<times> sel4_history" where
  "irqfd_config k b f config attach h =
     (let flags = (if \<not> attach then SEL4_IRQFD_FLAG_DEASSIGN b else 0);
          params = \<lparr>irqc_fd = irq_fd config, irqc_flags = flags, irqc_virq = irq_irq config\<rparr>;
          (r, h) = sys_call k h (Ioctl f (IRQFD params))
      in if r = -1 then (Inl (IrqFdFailed (k_errno k h)), h) else (Inr (), h))"

definition bind_ioeventfd ::
    "sel4_kernel \<Rightarrow> sel4_bindings \<Rightarrow> 'r Sel4IoInterface \<Rightarrow> IoEventFdConfig \<Rightarrow> sel4_history \<Rightarrow> (sel4_error + unit) \<times> sel4_history" where
  "bind_ioeventfd k b self config h = ioeventfd_config k b (si_control self) config True h"

definition unbind_ioeventfd ::
    "sel4_kernel \<Rightarrow> sel4_bindings \<Rightarrow> 'r Sel4IoInterface \<Rightarrow> IoEventFdConfig \<Rightarrow> sel4_history \<Rightarrow> (sel4_error + unit) \<times> sel4_history" where
  "unbind_ioeventfd k b self config h = ioeventfd_config k b (si_control self) config False h"

definition bind_irqfd ::
    "sel4_kernel \<Rightarrow> sel4_bindings \<Rightarrow> 'r Sel4IoInterface \<Rightarrow> IrqFdConfig \<Rightarrow> sel4_history \<Rightarrow> (sel4_error + unit) \<times> sel4_history" where
  "bind_irqfd k b self config h = irqfd_config k b (si_control self) config True h"

definition unbind_irqfd ::
    "sel4_kernel \<Rightarrow> sel4_bindings \<Rightarrow> 'r Sel4IoInterface \<Rightarrow> IrqFdConfig \<Rightarrow> sel4_history \<Rightarrow> (sel4_error + unit) \<times> sel4_history" where
  "unbind_irqfd k b self config h = irqfd_config k b (si_control self) config False h"

section \<open>Resources\<close>

text \<open>The files and mappings the history leaves open.\<close>

datatype resource = OpenFd int | Mapped int usize

fun effect :: "sel4_request sys_call \<times> int \<Rightarrow> resource multiset \<Rightarrow> resource multiset" where
  "effect (OpenFile _, r) l = (if r = -1 then l else add_mset (OpenFd r) l)"
| "effect (Close fd, r) l = l - {#OpenFd fd#}"
| "effect (Ioctl _ (CREATE_VM _ _), r) l = (if r = -1 then l else add_mset (OpenFd r) l)"
| "effect (Ioctl _ (CREATE_IO_HANDLER _), r) l = (if r < 0 then l else add_mset (OpenFd r) l)"
| "effect (Ioctl _ _, r) l = l"
| "effect (Mmap args, r) l = (if r = -1 then l else add_mset (Mapped r (mmap_len args)) l)"
| "effect (Munmap a n, r) l = l - {#Mapped a n#}"

definition live :: "sel4_history \<Rightarrow> resource multiset" where
  "live h = fold effect h {#}"

lemma live_append [simp]: "live (h @ es) = fold effect es (live h)"
  by (simp add: live_def)

lemma live_close [simp]: "live (close_fd k fd h) = live h - {#OpenFd fd#}"
  by (simp add: close_fd_def)

lemma live_drop_mapping [simp]: "live (drop_mapping k m h) = live h - {#Mapped (map_addr m) (map_size m)#}"
  by (simp add: drop_mapping_def)

lemma live_alloc:
  assumes "alloc_ram_fd k b control sz a h = (r, h')"
  shows "live h' = (case r of Inl _ \<Rightarrow> live h | Inr g \<Rightarrow> add_mset (OpenFd (gm_fd g)) (live h))"
  using assms by (auto simp: alloc_ram_fd_def Let_def split: if_splits)

lemma live_map_buffer:
  assumes "map_buffer k b control kind sz h = (r, h')"
  shows "live h' = (case r of Inl _ \<Rightarrow> live h | Inr m \<Rightarrow> add_mset (Mapped (map_addr m) (map_size m)) (live h))"
  using assms by (auto simp: map_buffer_def try_mmap_def Let_def split: if_splits)

text \<open>What an interface owns.\<close>

definition mapping_resource :: "MemoryMapping \<Rightarrow> resource" where
  "mapping_resource m = Mapped (map_addr m) (map_size m)"

definition resources :: "'r Sel4IoInterface \<Rightarrow> resource multiset" where
  "resources self = add_mset (OpenFd (si_device self)) (add_mset (OpenFd (si_control self))
     (mset (map (\<lambda>g. OpenFd (gm_fd g)) (si_guest_memory self)) +
      {#mapping_resource (rpc_io_mapping (si_rpc self)), mapping_resource (bell_region (rpc_doorbell (si_rpc self)))#}))"

lemma live_close_all [simp]:
  "live (fold (\<lambda>g. close_fd k (gm_fd g)) gs h) = live h - mset (map (\<lambda>g. OpenFd (gm_fd g)) gs)"
  by (induction gs arbitrary: h) (simp_all add: ac_simps)

lemma live_drop: "live (sel4_drop k self h) = live h - resources self"
  by (simp add: sel4_drop_def resources_def mapping_resource_def ac_simps)

lemma live_new:
  "case sel4_new k b ffi cmdline path vm h of
     (Inl e, h') \<Rightarrow> live h' = live h
   | (Inr self, h') \<Rightarrow> live h' = live h + resources self \<and> length (si_guest_memory self) = 1"
  unfolding sel4_new_def driver_rpc_new_def doorbell_new_def resources_def mapping_resource_def Let_def
  by (auto split: sum.split prod.split option.split if_split dest!: live_alloc live_map_buffer)

text \<open>
  C31: Creating the interface leaks nothing. When creation fails, at whatever step, exactly the files and
  mappings that were open before are open after it; when it succeeds, the two files, the memory file and
  the two mappings are open in addition, and dropping the interface closes exactly these.
\<close>

theorem sel4_no_leak:
  "case sel4_new k b ffi cmdline path vm h of
     (Inl e, h') \<Rightarrow> live h' = live h
   | (Inr self, h') \<Rightarrow>
       live h' = live h + {#OpenFd (si_device self), OpenFd (si_control self), OpenFd (gm_fd (hd (si_guest_memory self))),
         mapping_resource (rpc_io_mapping (si_rpc self)), mapping_resource (bell_region (rpc_doorbell (si_rpc self)))#} \<and>
       live (sel4_drop k self h') = live h"
proof -
  have "resources self = {#OpenFd (si_device self), OpenFd (si_control self), OpenFd (gm_fd (hd (si_guest_memory self))),
         mapping_resource (rpc_io_mapping (si_rpc self)), mapping_resource (bell_region (rpc_doorbell (si_rpc self)))#}"
    if "length (si_guest_memory self) = 1" for self :: "'a Sel4IoInterface"
    using that by (auto simp: resources_def length_Suc_conv)
  with live_new [where k = k and b = b and ffi = ffi and cmdline = cmdline and path = path and vm = vm and h = h] show ?thesis by (auto simp: live_drop split: sum.splits prod.splits)
qed

section \<open>The life of the virtual machine\<close>

text \<open>
  An observer of the calls: it counts the successful starts of the machine, collects the numbers of the PCI
  devices that were registered, and notes whether every wait for I/O came after a start.
\<close>

record observer =
  obs_starts :: nat
  obs_devices :: "u32 list"
  obs_ordered :: bool

definition observer_init :: observer where
  "observer_init = \<lparr>obs_starts = 0, obs_devices = [], obs_ordered = True\<rparr>"

fun observe :: "sel4_request sys_call \<times> int \<Rightarrow> observer \<Rightarrow> observer" where
  "observe (Ioctl _ START_VM, r) s = (if r = -1 then s else s\<lparr>obs_starts := obs_starts s + 1\<rparr>)"
| "observe (Ioctl _ (CREATE_VPCI_DEVICE n), r) s = (if r = -1 then s else s\<lparr>obs_devices := obs_devices s @ [n]\<rparr>)"
| "observe (Ioctl _ WAIT_IO, r) s = s\<lparr>obs_ordered := obs_ordered s \<and> obs_starts s > 0\<rparr>"
| "observe _ s = s"

definition observed :: "sel4_history \<Rightarrow> observer" where
  "observed h = fold observe h observer_init"

lemma observed_append [simp]: "observed (h @ es) = fold observe es (observed h)"
  by (simp add: observed_def)

text \<open>The calls a request handler makes: interrupt lines and event descriptors.\<close>

fun device_call :: "sel4_request sys_call \<times> int \<Rightarrow> bool" where
  "device_call (Ioctl _ (SET_IRQLINE _ _), _) \<longleftrightarrow> True"
| "device_call (Ioctl _ (IOEVENTFD _), _) \<longleftrightarrow> True"
| "device_call (Ioctl _ (IRQFD _), _) \<longleftrightarrow> True"
| "device_call _ \<longleftrightarrow> False"

definition device_calls_only ::
    "('w \<times> sel4_history \<Rightarrow> IoRequest \<Rightarrow> (bytes option \<times> 'w \<times> sel4_history) option) \<Rightarrow> bool" where
  "device_calls_only f \<longleftrightarrow>
     (\<forall>w h req data w' h'. f (w, h) req = Some (data, w', h') \<longrightarrow> (\<exists>es. h' = h @ es \<and> (\<forall>e \<in> set es. device_call e)))"

lemma observe_device_calls [simp]: "\<forall>e \<in> set es. device_call e \<Longrightarrow> fold observe es s = s"
proof (induction es arbitrary: s)
  case (Cons e es)
  then have "observe e s = s" by (cases e rule: device_call.cases) auto
  with Cons show ?case by simp
qed simp

text \<open>One use of the interface by the program, from its creation on; a step that fails is a step too.\<close>

inductive sel4_reach ::
    "sel4_kernel \<Rightarrow> sel4_bindings \<Rightarrow> ('r, 'p) rpc_ffi \<Rightarrow> 'w \<Rightarrow> 'r Sel4IoInterface \<Rightarrow> sel4_history \<Rightarrow> bool"
  for k :: sel4_kernel and b :: sel4_bindings and ffi :: "('r, 'p) rpc_ffi" where
  created: "sel4_new k b ffi cmdline path vm [] = (Inr self, h) \<Longrightarrow> sel4_reach k b ffi w self h"
| registered: "\<lbrakk>sel4_reach k b ffi w self h; register_vpci_device k self h = Some (r, self', h')\<rbrakk> \<Longrightarrow> sel4_reach k b ffi w self' h'"
| readied: "\<lbrakk>sel4_reach k b ffi w self h; signal_ready k self h = Some (r, self', h')\<rbrakk> \<Longrightarrow> sel4_reach k b ffi w self' h'"
| served: "\<lbrakk>sel4_reach k b ffi w self h; device_calls_only f; handle_next_io e k b ffi f w self h = Some (r, w', self', h')\<rbrakk> \<Longrightarrow>
    sel4_reach k b ffi w' self' h'"
| line: "\<lbrakk>sel4_reach k b ffi w self h; iface_set_interrupt k b self irq op h = (r, h')\<rbrakk> \<Longrightarrow> sel4_reach k b ffi w self h'"
| message: "\<lbrakk>sel4_reach k b ffi w self h; iface_send_msi k b self m h = (r, h')\<rbrakk> \<Longrightarrow> sel4_reach k b ffi w self h'"
| ioevent: "\<lbrakk>sel4_reach k b ffi w self h; ioeventfd_config k b (si_control self) c attach h = (r, h')\<rbrakk> \<Longrightarrow> sel4_reach k b ffi w self h'"
| irqevent: "\<lbrakk>sel4_reach k b ffi w self h; irqfd_config k b (si_control self) c' attach h = (r, h')\<rbrakk> \<Longrightarrow> sel4_reach k b ffi w self h'"

definition lifecycle :: "'r Sel4IoInterface \<Rightarrow> sel4_history \<Rightarrow> bool" where
  "lifecycle self h \<longleftrightarrow> observed h = \<lparr>obs_starts = (if si_ready self then 1 else 0),
     obs_devices = map of_nat [0..<unat (si_num_pcidevs self)], obs_ordered = True\<rparr>"

lemma observed_close [simp]: "observed (close_fd k fd h) = observed h"
  by (simp add: close_fd_def)

lemma observed_drop_mapping [simp]: "observed (drop_mapping k m h) = observed h"
  by (simp add: drop_mapping_def)

lemma observed_alloc: "alloc_ram_fd k b control sz a h = (r, h') \<Longrightarrow> observed h' = observed h"
  by (auto simp: alloc_ram_fd_def Let_def split: if_splits)

lemma observed_map_buffer: "map_buffer k b control kind sz h = (r, h') \<Longrightarrow> observed h' = observed h"
  by (auto simp: map_buffer_def try_mmap_def close_fd_def Let_def split: if_splits)

lemma observed_new:
  assumes "sel4_new k b ffi cmdline path vm h = (Inr self, h')"
  shows "observed h' = observed h \<and> \<not> si_ready self \<and> si_num_pcidevs self = 0"
  using assms unfolding sel4_new_def Let_def
  by (auto split: sum.splits prod.splits if_splits dest!: observed_alloc observed_map_buffer)

lemma observed_new_failed:
  assumes "sel4_new k b ffi cmdline path vm h = (Inl e, h')"
  shows "observed h' = observed h"
  using assms unfolding sel4_new_def Let_def
  by (auto split: sum.splits prod.splits if_splits dest!: observed_alloc observed_map_buffer)

lemma lifecycle_new:
  assumes "sel4_new k b ffi cmdline path vm [] = (Inr self, h)"
  shows "lifecycle self h"
  using observed_new [OF assms] by (simp add: lifecycle_def observer_init_def observed_def [of "[]"])

lemma lifecycle_register:
  assumes "lifecycle self h" and "register_vpci_device k self h = Some (r, self', h')"
  shows "lifecycle self' h'"
proof -
  have "unat (si_num_pcidevs self + 1) = Suc (unat (si_num_pcidevs self))" if "unat (si_num_pcidevs self) + 1 \<noteq> 2 ^ 32"
    using that unsigned_less [of "si_num_pcidevs self", where ?'a = nat] by (simp add: unat_plus_if' [where 'a = 32])
  with assms show ?thesis
    by (auto simp: lifecycle_def register_vpci_device_def Let_def split: if_splits)
qed

lemma lifecycle_ready:
  assumes "lifecycle self h" and "signal_ready k self h = Some (r, self', h')"
  shows "lifecycle self' h'" and "r = Inr () \<Longrightarrow> si_ready self'"
  using assms by (auto simp: lifecycle_def signal_ready_def Let_def split: if_splits)

lemma lifecycle_wait:
  assumes "lifecycle self h" and "si_ready self" and "wait_io k self h = Some (r, self', h')"
  shows "lifecycle self' h'"
  using assms by (auto simp: lifecycle_def wait_io_def Let_def split: if_splits)

lemma lifecycle_device_calls:
  assumes "lifecycle self h" and "\<forall>e \<in> set es. device_call e"
  shows "lifecycle self (h @ es)"
  using assms by (simp add: lifecycle_def)

lemma process_ioreq_handler:
  assumes "process_ioreq e b ffi f (w, h) rpc = Some (r, (w', h'), rpc')" and "device_calls_only f"
  shows "\<exists>es. h' = h @ es \<and> (\<forall>e \<in> set es. device_call e)"
  using assms
  by (auto simp: process_ioreq_def device_calls_only_def bind_eq_Some_conv Let_def split_beta split: sum.splits)

lemma handle_next_io_cases:
  assumes "handle_next_io e k b ffi f w self h = Some (r, w', self', h')"
  obtains e where "signal_ready k self h = Some (Inl e, self', h')" and "w' = w"
  | s h1 e where "signal_ready k self h = Some (Inr (), s, h1)" and "wait_io k s h1 = Some (Inl e, self', h')" and "w' = w"
  | s h1 s2 h2 u rpc where "signal_ready k self h = Some (Inr (), s, h1)" and "wait_io k s h1 = Some (Inr (), s2, h2)"
    and "process_ioreq e b ffi f (w, h2) (si_rpc s2) = Some (u, (w', h'), rpc)" and "self' = s2\<lparr>si_rpc := rpc\<rparr>"
proof -
  from assms obtain r1 s h1 where ready: "signal_ready k self h = Some (r1, s, h1)" by (auto simp: handle_next_io_def bind_eq_Some_conv)
  show thesis
  proof (cases r1)
    case (Inl e)
    with ready assms that(1) show thesis by (auto simp: handle_next_io_def)
  next
    case (Inr u1)
    with ready assms obtain r2 s2 h2 where wait: "wait_io k s h1 = Some (r2, s2, h2)" by (auto simp: handle_next_io_def bind_eq_Some_conv)
    show thesis
    proof (cases r2)
      case (Inl e)
      with Inr ready wait assms that(2) show thesis by (auto simp: handle_next_io_def)
    next
      case (Inr u2)
      with \<open>r1 = Inr u1\<close> ready wait assms that(3) show thesis by (auto simp: handle_next_io_def bind_eq_Some_conv Let_def)
    qed
  qed
qed

lemma process_ioreq_state:
  assumes "process_ioreq e b ffi f w rpc = Some (r, w', rpc')"
  shows "w' = w \<or> (\<exists>req data. f w req = Some (data, w'))"
  using assms by (fastforce simp: process_ioreq_def bind_eq_Some_conv split_beta Let_def split: sum.splits)

lemma lifecycle_served:
  assumes "lifecycle self h" and "device_calls_only f" and "handle_next_io e k b ffi f w self h = Some (r, w', self', h')"
  shows "lifecycle self' h'"
  using assms(3)
proof (cases rule: handle_next_io_cases)
  case (2 s h1 e)
  then show ?thesis using lifecycle_ready [OF assms(1) 2(1)] lifecycle_wait by blast
next
  case (3 s h1 s2 h2 u rpc)
  then have "lifecycle s2 h2" using lifecycle_ready [OF assms(1) 3(1)] lifecycle_wait by blast
  with 3(4) process_ioreq_handler [OF 3(3) assms(2)] show ?thesis by (auto simp: lifecycle_def)
qed (use lifecycle_ready(1) [OF assms(1)] in blast)

lemma device_operations:
  "iface_set_interrupt k b self irq op h = (r, h') \<Longrightarrow> lifecycle self h \<Longrightarrow> lifecycle self h'"
  "ioeventfd_config k b fd c attach h = (r, h') \<Longrightarrow> lifecycle self h \<Longrightarrow> lifecycle self h'"
  "irqfd_config k b fd c' attach h = (r, h') \<Longrightarrow> lifecycle self h \<Longrightarrow> lifecycle self h'"
  by (auto simp: iface_set_interrupt_def ioeventfd_config_def irqfd_config_def Let_def lifecycle_def split: if_splits)

lemma sel4_reach_lifecycle: "sel4_reach k b ffi w self h \<Longrightarrow> lifecycle self h"
proof (induction rule: sel4_reach.induct)
  case (message w self h m r h')
  then show ?case by (simp add: iface_send_msi_def device_operations(1))
qed (blast intro: lifecycle_new lifecycle_register lifecycle_ready(1) lifecycle_served device_operations)+

text \<open>
  C32: However the program uses the interface, whatever the kernel answers, the machine is started at
  most once, and has been started exactly when the interface says so; the devices registered so far
  have the numbers from zero up, in order and without gaps; and the program never waits for I/O of
  a machine it has not started.
\<close>

theorem sel4_lifecycle:
  assumes "sel4_reach k b ffi w self h"
  shows "observed h = \<lparr>obs_starts = (if si_ready self then 1 else 0),
     obs_devices = map of_nat [0..<unat (si_num_pcidevs self)], obs_ordered = True\<rparr>"
  using sel4_reach_lifecycle [OF assms] by (simp add: lifecycle_def)

text \<open>Using the interface opens and closes nothing.\<close>

definition owned :: "'r Sel4IoInterface \<Rightarrow> sel4_history \<Rightarrow> bool" where
  "owned self h \<longleftrightarrow> live h = resources self"

lemma live_device_calls [simp]: "\<forall>e \<in> set es. device_call e \<Longrightarrow> fold effect es l = l"
proof (induction es arbitrary: l)
  case (Cons e es)
  then have "effect e l = l" by (cases e rule: device_call.cases) auto
  with Cons show ?case by simp
qed simp

lemma resources_cong:
  "resources (self\<lparr>si_num_pcidevs := n\<rparr>) = resources self" "resources (self\<lparr>si_ready := r\<rparr>) = resources self"
  by (simp_all add: resources_def)

lemma process_ioreq_mappings:
  assumes "process_ioreq e b ffi f w rpc = Some (r, w', rpc')"
  shows "rpc_io_mapping rpc' = rpc_io_mapping rpc \<and> rpc_doorbell rpc' = rpc_doorbell rpc"
proof -
  obtain p rpc1 where d: "try_dequeue_ioreq ffi rpc = (p, rpc1)" by fastforce
  then have 1: "rpc_io_mapping rpc1 = rpc_io_mapping rpc \<and> rpc_doorbell rpc1 = rpc_doorbell rpc"
    by (auto simp: try_dequeue_ioreq_def split_beta Let_def split: if_splits option.splits)
  have 2: "rpc_io_mapping (snd (try_complete_ioreq e ffi rpc1 msg data)) = rpc_io_mapping rpc1 \<and>
      rpc_doorbell (snd (try_complete_ioreq e ffi rpc1 msg data)) = rpc_doorbell rpc1" for msg data
    by (simp add: try_complete_ioreq_def split_beta Let_def)
  show ?thesis
  proof (cases p)
    case (Inl e)
    with assms d 1 show ?thesis by (simp add: process_ioreq_def)
  next
    case (Inr msg)
    with assms d 1 2 [of msg] show ?thesis by (auto simp: process_ioreq_def bind_eq_Some_conv split_beta Let_def)
  qed
qed

lemma owned_steps:
  "register_vpci_device k self h = Some (r1, self', h') \<Longrightarrow> owned self h \<Longrightarrow> owned self' h'"
  "signal_ready k self h = Some (r2, self', h') \<Longrightarrow> owned self h \<Longrightarrow> owned self' h'"
  "wait_io k self h = Some (r3, self', h') \<Longrightarrow> owned self h \<Longrightarrow> owned self' h'"
  "iface_set_interrupt k b self irq op h = (r4, h') \<Longrightarrow> owned self h \<Longrightarrow> owned self h'"
  "ioeventfd_config k b fd c attach h = (r5, h') \<Longrightarrow> owned self h \<Longrightarrow> owned self h'"
  "irqfd_config k b fd c' attach h = (r6, h') \<Longrightarrow> owned self h \<Longrightarrow> owned self h'"
  by (auto simp: owned_def register_vpci_device_def signal_ready_def wait_io_def iface_set_interrupt_def ioeventfd_config_def
    irqfd_config_def Let_def resources_cong split: if_splits)

lemma owned_served:
  assumes "handle_next_io e k b ffi f w self h = Some (r, w', self', h')" and "device_calls_only f" and "owned self h"
  shows "owned self' h'"
  using assms(1)
proof (cases rule: handle_next_io_cases)
  case (3 s h1 s2 h2 u rpc)
  then have "owned s2 h2" using assms(3) owned_steps(2,3) by blast
  with 3(4) process_ioreq_handler [OF 3(3) assms(2)] process_ioreq_mappings [OF 3(3)] show ?thesis
    by (auto simp: owned_def resources_def)
qed (use assms(3) owned_steps(2,3) in blast)+

lemma sel4_reach_owned: "sel4_reach k b ffi w self h \<Longrightarrow> owned self h"
proof (induction rule: sel4_reach.induct)
  case (created cmdline path vm self h w)
  then show ?case using live_new [where k = k and b = b and ffi = ffi and cmdline = cmdline and path = path and vm = vm and h = "[]"] by (simp add: owned_def live_def)
next
  case (message w self h m r h')
  then show ?case by (simp add: iface_send_msi_def owned_steps(4))
qed (blast intro: owned_steps owned_served)+

text \<open>The interface is created when the calls for it succeed.\<close>

fun creation_call :: "sel4_request sys_call \<Rightarrow> bool" where
  "creation_call (OpenFile _) \<longleftrightarrow> True"
| "creation_call (Mmap _) \<longleftrightarrow> True"
| "creation_call (Ioctl _ (CREATE_VM _ _)) \<longleftrightarrow> True"
| "creation_call (Ioctl _ (CREATE_IO_HANDLER _)) \<longleftrightarrow> True"
| "creation_call _ \<longleftrightarrow> False"

lemma map_buffer_ok:
  assumes "\<And>h c. creation_call c \<Longrightarrow> k_result k h c \<ge> 0"
  shows "\<exists>m h'. map_buffer k b control kind sz h = (Inr m, h') \<and> map_size m = sz"
proof -
  have "k_result k h c \<noteq> -1" "\<not> k_result k h c < 0" if "creation_call c" for h c using assms [OF that, of h] by linarith+
  then show ?thesis by (simp add: map_buffer_def try_mmap_def Let_def)
qed

lemma sel4_new_ok:
  assumes "io_interface_config cmdline vm = Inr cfg" and "\<And>h c. creation_call c \<Longrightarrow> k_result k h c \<ge> 0" and "\<And>a c. fst (vso_rpc_init ffi a c) = 0"
  shows "\<exists>self h'. sel4_new k b ffi cmdline path vm h = (Inr self, h') \<and> \<not> si_pcidevs_poisoned self \<and> \<not> si_ready_poisoned self"
proof -
  have ok: "k_result k h c \<noteq> -1" "\<not> k_result k h c < 0" if "creation_call c" for h c using assms(2) [OF that, of h] by linarith+
  obtain ram control h0 where "alloc_ram_fd k b (k_result k (h @ [(OpenFile path, k_result k h (OpenFile path))])
      (Ioctl (k_result k h (OpenFile path)) (CREATE_VM (ram_size cfg) vm))) (unat (ram_size cfg)) (ram_start cfg)
      ((h @ [(OpenFile path, k_result k h (OpenFile path))]) @ [(Ioctl (k_result k h (OpenFile path)) (CREATE_VM (ram_size cfg) vm), control)]) = (Inr ram, h0)"
    and "control = k_result k (h @ [(OpenFile path, k_result k h (OpenFile path))]) (Ioctl (k_result k h (OpenFile path)) (CREATE_VM (ram_size cfg) vm))"
    by (simp add: alloc_ram_fd_def ok Let_def)
  moreover obtain m h1 where "map_buffer k b control MapIoBuf (unat (IOBUF_NUM_PAGES b) * 4096) h0 = (Inr m, h1)"
    using map_buffer_ok [OF assms(2)] by meson
  moreover obtain e h2 where "map_buffer k b control MapEvent 4096 h1 = (Inr e, h2)" "map_size e = 4096"
    using map_buffer_ok [OF assms(2)] by meson
  ultimately show ?thesis using assms(1,3)
    by (simp add: sel4_new_def ok doorbell_new_def driver_rpc_new_def split_beta)
qed

definition ok_kernel :: sel4_kernel where
  "ok_kernel = \<lparr>k_result = (\<lambda>h _. int (length h) + 3), k_errno = (\<lambda>_. 0)\<rparr>"

lemma sel4_lifecycle_witness:
  "\<forall>b :: sel4_bindings. \<exists>(self :: (rpcmsg list \<times> (rpcmsg \<times> u64) list) Sel4IoInterface) h.
     si_ready self \<and> obs_starts (observed h) = 1 \<and> obs_devices (observed h) = [0]"
proof
  fix b :: sel4_bindings
  let ?e = "(1, \<lparr>ram_start = 0x60000000, ram_size = 0x2000000, pci_start = 0xC0000000, pci_size = 0x80000\<rparr>)"
  have c: "io_interface_config (Inr (show_arg ?e)) 1 = (Inr (snd ?e) :: int config_error + _)"
    using io_interface_config_printed [of "[show_arg ?e]" "[?e]" 1] show_arg_word [of ?e] by simp
  have ok: "k_result ok_kernel h c \<ge> 0" "k_result ok_kernel h c \<noteq> -1" for h c by (simp_all add: ok_kernel_def)
  obtain self h where new: "sel4_new ok_kernel b list_ffi (Inr (show_arg ?e)) ''/dev/sel4'' 1 [] = (Inr self, h)"
    and np: "\<not> si_pcidevs_poisoned self" "\<not> si_ready_poisoned self"
    using sel4_new_ok [OF c ok(1), of list_ffi b "''/dev/sel4''" "[]"] by (auto simp: list_ffi_def)
  from observed_new [OF new] have zero: "\<not> si_ready self" "si_num_pcidevs self = 0" by simp_all
  let ?self1 = "self\<lparr>si_num_pcidevs := 1\<rparr>"
  obtain h1 where h1: "register_vpci_device ok_kernel self h = Some (Inr 0, ?self1, h1)"
    using np ok zero by (simp add: register_vpci_device_def)
  obtain h2 where h2: "signal_ready ok_kernel ?self1 h1 = Some (Inr (), ?self1\<lparr>si_ready := True\<rparr>, h2)"
    using np ok zero by (simp add: signal_ready_def)
  have "sel4_reach ok_kernel b list_ffi () (?self1\<lparr>si_ready := True\<rparr>) h2"
    by (rule readied [OF registered [OF created [OF new] h1] h2])
  from sel4_lifecycle [OF this] have "obs_starts (observed h2) = 1" "obs_devices (observed h2) = [0]" by simp_all
  then show "\<exists>(self :: (rpcmsg list \<times> (rpcmsg \<times> u64) list) Sel4IoInterface) h.
     si_ready self \<and> obs_starts (observed h) = 1 \<and> obs_devices (observed h) = [0]"
    by (intro exI [of _ "?self1\<lparr>si_ready := True\<rparr>"] exI [of _ h2]) simp
qed

end
