(* ===== verification/Vhost_Program.thy ===== *)
theory Vhost_Program
  imports Virtio_Invariant Vhost_Net Pci_Device Sel4_Interface
begin

text \<open>
  The vhost-net program: the PCI device with its one function (\<open>pci.rs\<close>), the device model that serves the
  requests of the hypervisor (\<open>device_model.rs\<close>), guest memory (\<open>guest_memory.rs\<close>) and the main program
  (\<open>main.rs\<close>). The program runs on the interface to seL4, so the binder and the interrupts are those of
  \<open>Sel4_Interface\<close>; the crates and the kernel stay arguments.
\<close>

section \<open>The PCI device\<close>

type_synonym ('w, 'c) vhost_pci = "('w, 'c, sel4_history) VhostNetDevice VirtioPciFunction"
type_synonym ('w, 'c, 'q) sel4_env = "('w, 'c, sel4_history, 'q) vhost_env"

text \<open>The queue methods the function uses are those of the queue of the device.\<close>

definition queue_ops :: "('w, 'c, 'q) sel4_env \<Rightarrow> 'q virtio_queue" where
  "queue_ops ev = virtio_queue.truncate (ve_queue ev)"

definition pci_device_class :: u8 where "pci_device_class = 2"
definition pci_sub_class :: u8 where "pci_sub_class = 0x80"

definition vhost_pci_new :: "('w, 'c, 'q) sel4_env \<Rightarrow> ('w, 'c, sel4_history) VhostNetDevice \<Rightarrow> ('w, 'c) vhost_pci option" where
  "vhost_pci_new ev d = do {
     r \<leftarrow> virtio_function_new (vhost_virtio ev) pci_device_class pci_sub_class (LineFixed 0) [] d;
     case r of Inl _ \<Rightarrow> None | Inr f \<Rightarrow> Some f
   }"

definition vp_read_fn_config ::
    "('w, 'c, 'q) sel4_env \<Rightarrow> ('w, 'c) vhost_pci \<Rightarrow> usize \<Rightarrow> usize \<Rightarrow> bytes \<Rightarrow> (('w, 'c) vhost_pci \<times> bytes, unit) call" where
  "vp_read_fn_config ev self function offset data =
     (if function = 0 then vf_read_config (vhost_virtio ev) (queue_ops ev) self offset data
      else Some (Inl (InvalidFunction function), (self, data)))"

definition vp_write_fn_config ::
    "('w, 'c, 'q) sel4_env \<Rightarrow> ('w, 'c) vhost_pci \<Rightarrow> usize \<Rightarrow> usize \<Rightarrow> bytes \<Rightarrow> (('w, 'c) vhost_pci, PciConfigurationUpdate option) call" where
  "vp_write_fn_config ev self function offset data =
     (if function = 0 then vf_write_config (vhost_virtio ev) (queue_ops ev) self offset data
      else Some (Inl (InvalidFunction function), self))"

definition vp_read_mmio :: "('w, 'c, 'q) sel4_env \<Rightarrow> ('w, 'c) vhost_pci \<Rightarrow> u64 \<Rightarrow> bytes \<Rightarrow> (('w, 'c) vhost_pci \<times> bytes, unit) call" where
  "vp_read_mmio ev self address data =
     read_mmio (vf_get_bar (vhost_virtio ev) (queue_ops ev)) (vf_read_bar (vhost_virtio ev) (queue_ops ev)) self address data"

definition vp_write_mmio ::
    "('w, 'c, 'q) sel4_env \<Rightarrow> ('w, 'c) vhost_pci \<Rightarrow> u64 \<Rightarrow> bytes \<Rightarrow> (('w, 'c) vhost_pci, PciConfigurationUpdate option) call" where
  "vp_write_mmio ev self address data =
     write_mmio (vf_get_bar (vhost_virtio ev) (queue_ops ev)) (vf_write_bar (vhost_virtio ev) (queue_ops ev)) self address data"

definition vp_read_pio :: "('w, 'c, 'q) sel4_env \<Rightarrow> ('w, 'c) vhost_pci \<Rightarrow> u16 \<Rightarrow> bytes \<Rightarrow> (('w, 'c) vhost_pci \<times> bytes, unit) call" where
  "vp_read_pio ev self port data =
     read_pio (vf_get_bar (vhost_virtio ev) (queue_ops ev)) (vf_read_bar (vhost_virtio ev) (queue_ops ev)) self port data"

definition vp_write_pio ::
    "('w, 'c, 'q) sel4_env \<Rightarrow> ('w, 'c) vhost_pci \<Rightarrow> u16 \<Rightarrow> bytes \<Rightarrow> (('w, 'c) vhost_pci, PciConfigurationUpdate option) call" where
  "vp_write_pio ev self port data =
     write_pio (vf_get_bar (vhost_virtio ev) (queue_ops ev)) (vf_write_bar (vhost_virtio ev) (queue_ops ev)) self port data"

section \<open>Interrupts\<close>

text \<open>The two methods of the interrupt controller, which expect the interface to succeed.\<close>

definition ic_set_interrupt ::
    "sel4_kernel \<Rightarrow> sel4_bindings \<Rightarrow> 'r Sel4IoInterface \<Rightarrow> PciInterruptLine \<Rightarrow> PciInterruptLineState \<Rightarrow> sel4_history \<Rightarrow> sel4_history option" where
  "ic_set_interrupt k b io line state h =
     (let op = (case state of Low \<Rightarrow> LineClear | High \<Rightarrow> LineSet) in
      map_option snd (expect_result (iface_set_interrupt k b io (of_nat line) op h)))"

definition ic_send_msi ::
    "sel4_kernel \<Rightarrow> sel4_bindings \<Rightarrow> 'r Sel4IoInterface \<Rightarrow> PciMsiMessage \<Rightarrow> sel4_history \<Rightarrow> sel4_history option" where
  "ic_send_msi k b io message h =
     (let message = \<lparr>msi_address = msg_address message, msi_data = msg_data message\<rparr> in
      map_option snd (expect_result (iface_send_msi k b io message h)))"

fun ic_call :: "sel4_kernel \<Rightarrow> sel4_bindings \<Rightarrow> 'r Sel4IoInterface \<Rightarrow> controller_call \<Rightarrow> sel4_history \<Rightarrow> sel4_history option" where
  "ic_call k b io (SetInterrupt line state) h = ic_set_interrupt k b io line state h"
| "ic_call k b io (SendMsi message) h = ic_send_msi k b io message h"

fun ic_calls :: "sel4_kernel \<Rightarrow> sel4_bindings \<Rightarrow> 'r Sel4IoInterface \<Rightarrow> controller \<Rightarrow> sel4_history \<Rightarrow> sel4_history option" where
  "ic_calls k b io [] h = Some h"
| "ic_calls k b io (c # cs) h = do { h \<leftarrow> ic_call k b io c h; ic_calls k b io cs h }"

text \<open>The binder of event descriptors.\<close>

definition sel4_binder :: "sel4_kernel \<Rightarrow> sel4_bindings \<Rightarrow> 'r Sel4IoInterface \<Rightarrow> sel4_history eventfd_binder" where
  "sel4_binder k b io =
     \<lparr>eb_bind_ioeventfd = (\<lambda>c h. map_prod (\<lambda>r. \<not> isl r) (\<lambda>h. h) (bind_ioeventfd k b io c h)),
      eb_bind_irqfd = (\<lambda>c h. map_prod (\<lambda>r. \<not> isl r) (\<lambda>h. h) (bind_irqfd k b io c h))\<rparr>"

section \<open>Serving a request\<close>

text \<open>
  An access starts from the history of system calls and ends with it. The function records its calls of the
  interrupt controller; they are made when the access is over, in their order, and nothing in the access
  depends on them. An access that fails does not return, since the program unwraps every result.
\<close>

definition enter :: "sel4_history \<Rightarrow> ('w, 'c) vhost_pci \<Rightarrow> ('w, 'c) vhost_pci" where
  "enter h f = f\<lparr>vf_inner := (vf_inner f)\<lparr>fn_controller := [],
     fn_device := (fn_device (vf_inner f))\<lparr>vh_device := (dev f)\<lparr>vn_binder := h\<rparr>\<rparr>\<rparr>\<rparr>"

definition leave ::
    "sel4_kernel \<Rightarrow> sel4_bindings \<Rightarrow> 'r Sel4IoInterface \<Rightarrow> ('w, 'c) vhost_pci \<Rightarrow> (('w, 'c) vhost_pci \<times> sel4_history) option" where
  "leave k b io f = do {
     h \<leftarrow> ic_calls k b io (fn_controller (vf_inner f)) (vn_binder (dev f));
     Some (f, h)
   }"

definition unwrap_access :: "('s, 'a) call \<Rightarrow> 's option" where
  "unwrap_access r = do { (r, s) \<leftarrow> r; case r of Inl _ \<Rightarrow> None | Inr _ \<Rightarrow> Some s }"

text \<open>A slice of the first \<open>sz\<close> of eight bytes panics when there are not so many.\<close>

definition pci_config_read ::
    "endian \<Rightarrow> ('w, 'c, 'q) sel4_env \<Rightarrow> ('w, 'c) vhost_pci \<Rightarrow> u64 \<Rightarrow> nat \<Rightarrow> (('w, 'c) vhost_pci \<times> bytes) option" where
  "pci_config_read e ev f address sz = do {
     (f, data) \<leftarrow> (if sz > 8 then None
       else unwrap_access (read_config_le e (dev_read_config (vp_read_fn_config ev)) f (unat address) (replicate sz 0xFF)));
     Some (f, data @ replicate (8 - sz) 0xFF)
   }"

definition pci_config_write ::
    "endian \<Rightarrow> ('w, 'c, 'q) sel4_env \<Rightarrow> ('w, 'c) vhost_pci \<Rightarrow> u64 \<Rightarrow> nat \<Rightarrow> bytes \<Rightarrow> ('w, 'c) vhost_pci option" where
  "pci_config_write e ev f address sz input =
     (if sz > 8 then None
      else unwrap_access (write_config_le e (dev_write_config (vp_write_fn_config ev)) f (unat address) (take sz input)))"

definition mmio_read :: "('w, 'c, 'q) sel4_env \<Rightarrow> ('w, 'c) vhost_pci \<Rightarrow> u64 \<Rightarrow> nat \<Rightarrow> (('w, 'c) vhost_pci \<times> bytes) option" where
  "mmio_read ev f address sz = do {
     (f, data) \<leftarrow> (if sz > 8 then None else unwrap_access (vp_read_mmio ev f address (replicate sz 0xFF)));
     Some (f, data @ replicate (8 - sz) 0xFF)
   }"

definition mmio_write :: "('w, 'c, 'q) sel4_env \<Rightarrow> ('w, 'c) vhost_pci \<Rightarrow> u64 \<Rightarrow> nat \<Rightarrow> bytes \<Rightarrow> ('w, 'c) vhost_pci option" where
  "mmio_write ev f address sz input = (if sz > 8 then None else unwrap_access (vp_write_mmio ev f address (take sz input)))"

definition serve ::
    "endian \<Rightarrow> ('w, 'c, 'q) sel4_env \<Rightarrow> ('w, 'c) vhost_pci \<Rightarrow> IoRequest \<Rightarrow> (bytes option \<times> ('w, 'c) vhost_pci) option" where
  "serve e ev f request =
     (let address = req_address request; sz = unat (req_size request) in
      case (req_address_space request, req_operation request) of
        (PciConfigSpace pcidev, IoRead) \<Rightarrow>
          if pcidev = 0 then map_option (\<lambda>(f, output). (Some output, f)) (pci_config_read e ev f address sz)
          else Some (Some (replicate 8 0xFF), f)
      | (PciConfigSpace pcidev, IoWrite input) \<Rightarrow>
          if pcidev = 0 then map_option (\<lambda>f. (None, f)) (pci_config_write e ev f address sz input)
          else Some (None, f)
      | (MmioSpace, IoRead) \<Rightarrow> map_option (\<lambda>(f, output). (Some output, f)) (mmio_read ev f address sz)
      | (MmioSpace, IoWrite input) \<Rightarrow> map_option (\<lambda>f. (None, f)) (mmio_write ev f address sz input))"

definition handle_request ::
    "endian \<Rightarrow> sel4_kernel \<Rightarrow> sel4_bindings \<Rightarrow> 'r Sel4IoInterface \<Rightarrow> ('w, 'c, 'q) sel4_env \<Rightarrow> ('w, 'c) vhost_pci \<times> sel4_history \<Rightarrow> IoRequest \<Rightarrow>
     (bytes option \<times> ('w, 'c) vhost_pci \<times> sel4_history) option" where
  "handle_request e k b io ev = (\<lambda>(f, h) request. do {
     (answer, f) \<leftarrow> serve e ev (enter h f) request;
     (f, h) \<leftarrow> leave k b io f;
     Some (answer, f, h)
   })"

section \<open>The device model\<close>

datatype model_error = HandleIoRequest

record ('w, 'c, 'r) DeviceModel =
  dm_running :: bool
  dm_io_interface :: "'r Sel4IoInterface"
  dm_device :: "('w, 'c) vhost_pci"

text \<open>The environment of the device with the interface as binder.\<close>

definition bound_env :: "sel4_kernel \<Rightarrow> sel4_bindings \<Rightarrow> 'r Sel4IoInterface \<Rightarrow> ('w, 'c, 'q) sel4_env \<Rightarrow> ('w, 'c, 'q) sel4_env" where
  "bound_env k b io ev = ev\<lparr>ve_binder := sel4_binder k b io\<rparr>"

definition device_model_new ::
    "sel4_kernel \<Rightarrow> sel4_bindings \<Rightarrow> ('w, 'c, 'q) sel4_env \<Rightarrow> 'r Sel4IoInterface \<Rightarrow> mem_region list \<Rightarrow> VhostNetConfig \<Rightarrow> sel4_history \<Rightarrow>
     ('w, 'c, 'r) DeviceModel option" where
  "device_model_new k b ev io guest_memory config h = do {
     vhost \<leftarrow> vhost_new (bound_env k b io ev) h guest_memory [] config;
     device \<leftarrow> vhost_pci_new (bound_env k b io ev) vhost;
     Some \<lparr>dm_running = True, dm_io_interface = io, dm_device = device\<rparr>
   }"

text \<open>One iteration of the loop.\<close>

definition model_step ::
    "endian \<Rightarrow> sel4_kernel \<Rightarrow> sel4_bindings \<Rightarrow> ('r, 'p) rpc_ffi \<Rightarrow> ('w, 'c, 'q) sel4_env \<Rightarrow> ('w, 'c, 'r) DeviceModel \<Rightarrow> sel4_history \<Rightarrow>
     ((sel4_error + unit) \<times> ('w, 'c, 'r) DeviceModel \<times> sel4_history) option" where
  "model_step e k b ffi ev self h = do {
     let io = dm_io_interface self;
     (r, device, io, h) \<leftarrow> handle_next_io e k b ffi (handle_request e k b io (bound_env k b io ev)) (dm_device self) io h;
     Some (r, self\<lparr>dm_device := device, dm_io_interface := io\<rparr>, h)
   }"

partial_function (option) model_run ::
    "endian \<Rightarrow> sel4_kernel \<Rightarrow> sel4_bindings \<Rightarrow> ('r, 'p) rpc_ffi \<Rightarrow> ('w, 'c, 'q) sel4_env \<Rightarrow> ('w, 'c, 'r) DeviceModel \<Rightarrow> sel4_history \<Rightarrow>
     ((model_error + unit) \<times> ('w, 'c, 'r) DeviceModel \<times> sel4_history) option" where
  "model_run e k b ffi ev self h =
     (if dm_running self
      then do {
        (r, self, h) \<leftarrow> model_step e k b ffi ev self h;
        case r of Inl _ \<Rightarrow> Some (Inl HandleIoRequest, self, h) | Inr _ \<Rightarrow> model_run e k b ffi ev self h
      }
      else Some (Inr (), self, h))"

section \<open>Guest memory and the main program\<close>

text \<open>The functions of \<open>vm_memory\<close> and of the standard library for files; an error is its number.\<close>

record 'm memory_crate =
  mc_try_clone :: "int \<Rightarrow> int + int"
  mc_build :: "int \<Rightarrow> u64 \<Rightarrow> usize \<Rightarrow> int \<Rightarrow> int \<Rightarrow> int + 'm"
  mc_region_new :: "'m \<Rightarrow> u64 \<Rightarrow> mem_region option"
  mc_from_regions :: "mem_region list \<Rightarrow> int + mem_region list"

datatype guest_memory_error = FdClone int | MmapFailed int | AddressOverflow u64 | BuildFailed int

definition build_region :: "'m memory_crate \<Rightarrow> sel4_bindings \<Rightarrow> GuestMemoryRegion \<Rightarrow> guest_memory_error + mem_region" where
  "build_region mc b region =
     (case mc_try_clone mc (gm_fd region) of
        Inl e \<Rightarrow> Inl (FdClone e)
      | Inr file \<Rightarrow>
          (case mc_build mc file (gm_fd_offset region) (gm_size region) (PROT_READ_WRITE b) (MAP_SHARED b) of
             Inl e \<Rightarrow> Inl (MmapFailed e)
           | Inr mmap \<Rightarrow>
               (case mc_region_new mc mmap (gm_guest_addr region) of
                  None \<Rightarrow> Inl (AddressOverflow (gm_guest_addr region))
                | Some r \<Rightarrow> Inr r)))"

fun build_regions :: "'m memory_crate \<Rightarrow> sel4_bindings \<Rightarrow> GuestMemoryRegion list \<Rightarrow> guest_memory_error + mem_region list" where
  "build_regions mc b [] = Inr []"
| "build_regions mc b (r # rs) = try_result (build_region mc b r) (\<lambda>m. try_result (build_regions mc b rs) (\<lambda>ms. Inr (m # ms)))"

definition build_guest_memory :: "'m memory_crate \<Rightarrow> sel4_bindings \<Rightarrow> GuestMemoryRegion list \<Rightarrow> guest_memory_error + mem_region list" where
  "build_guest_memory mc b regions =
     try_result (build_regions mc b regions) (\<lambda>ms. case mc_from_regions mc ms of Inl e \<Rightarrow> Inl (BuildFailed e) | Inr m \<Rightarrow> Inr m)"

record VhostNetCli =
  cli_device_model_id :: u64
  cli_mac :: "u8 list option"
  cli_tap :: bytes
  cli_queue_size :: "u16 option"
  cli_version :: bool

datatype program_error = Init sel4_error | GuestMemoryFailed guest_memory_error | ModelFailed model_error

definition SEL4_DEV_PATH :: string where "SEL4_DEV_PATH = ''/dev/sel4''"

definition net_config :: "VhostNetCli \<Rightarrow> VhostNetConfig" where
  "net_config cli = \<lparr>cfg_tap = cli_tap cli, cfg_mac = cli_mac cli,
     cfg_queue_size = (case cli_queue_size cli of Some n \<Rightarrow> n | None \<Rightarrow> 256)\<rparr>"

text \<open>The interface is dropped when the program leaves the function, with an error or without.\<close>

definition program_run ::
    "endian \<Rightarrow> sel4_kernel \<Rightarrow> sel4_bindings \<Rightarrow> ('r, 'p) rpc_ffi \<Rightarrow> ('w, 'c, 'q) sel4_env \<Rightarrow> 'm memory_crate \<Rightarrow> (int + string) \<Rightarrow> VhostNetCli \<Rightarrow>
     ((program_error + unit) \<times> sel4_history) option" where
  "program_run e k b ffi ev mc cmdline cli =
     (if cli_version cli then Some (Inr (), [])
      else
        (case sel4_new k b ffi cmdline SEL4_DEV_PATH (cli_device_model_id cli) [] of
           (Inl err, h) \<Rightarrow> Some (Inl (Init err), h)
         | (Inr vmio, h) \<Rightarrow> do {
             (r, vmio, h) \<leftarrow> register_vpci_device k vmio h;
             case r of
               Inl err \<Rightarrow> Some (Inl (Init err), sel4_drop k vmio h)
             | Inr _ \<Rightarrow>
                 (case build_guest_memory mc b (si_guest_memory vmio) of
                    Inl err \<Rightarrow> Some (Inl (GuestMemoryFailed err), sel4_drop k vmio h)
                  | Inr guest_memory \<Rightarrow> do {
                      model \<leftarrow> device_model_new k b ev vmio guest_memory (net_config cli) h;
                      (r, model, h) \<leftarrow> model_run e k b ffi ev model h;
                      let h = sel4_drop k (dm_io_interface model) h;
                      Some (case r of Inl err \<Rightarrow> Inl (ModelFailed err) | Inr _ \<Rightarrow> Inr (), h)
                    })
           }))"

section \<open>A request makes only calls for devices\<close>

definition extends :: "sel4_history \<Rightarrow> sel4_history \<Rightarrow> bool" where
  "extends h h' \<longleftrightarrow> (\<exists>es. h' = h @ es \<and> (\<forall>e \<in> set es. device_call e))"

lemma extends_refl [simp]: "extends h h"
  by (simp add: extends_def)

lemma extends_trans: "extends h h1 \<Longrightarrow> extends h1 h2 \<Longrightarrow> extends h h2"
  by (auto simp: extends_def)

definition calls_since :: "sel4_history \<Rightarrow> ('w, 'c, sel4_history) VhostNetDevice \<Rightarrow> bool" where
  "calls_since h d \<longleftrightarrow> extends h (vn_binder d)"

lemma interface_calls:
  "iface_set_interrupt k b io irq op h = (r1, h') \<Longrightarrow> extends h h'"
  "ioeventfd_config k b fd oc attach h = (r2, h') \<Longrightarrow> extends h h'"
  "irqfd_config k b fd ic attach h = (r3, h') \<Longrightarrow> extends h h'"
  by (auto simp: extends_def iface_set_interrupt_def irqfd_config_def ioeventfd_config_def Let_def split: if_splits)

lemma binder_calls:
  "eb_bind_irqfd (sel4_binder k b io) ic h = (r, h') \<Longrightarrow> extends h h'"
  "eb_bind_ioeventfd (sel4_binder k b io) oc h = (r, h') \<Longrightarrow> extends h h'"
  by (auto simp: sel4_binder_def bind_irqfd_def bind_ioeventfd_def prod_eq_iff intro: interface_calls)

lemma activate_queue_calls:
  assumes "activate_queue (bound_env k b io ev) sz i q v d = Some d'"
  shows "extends (vn_binder d) (vn_binder d')"
proof -
  from assms obtain ic oc h1 h2 where "eb_bind_irqfd (sel4_binder k b io) ic (vn_binder d) = (True, h1)"
    "eb_bind_ioeventfd (sel4_binder k b io) oc h1 = (True, h2)" "vn_binder d' = h2"
    unfolding activate_queue_def Let_def by (clarsimp simp: bind_eq_Some_conv bound_env_def)
  with binder_calls [of k b io] show ?thesis by (blast intro: extends_trans)
qed

lemma activate_queues_calls:
  "activate_queues (bound_env k b io ev) sz i qs d = Some d' \<Longrightarrow> extends (vn_binder d) (vn_binder d')"
proof (induction qs arbitrary: i d)
  case (Cons qv qs)
  obtain q v where qv: "qv = (q, v)" by (cases qv)
  with Cons.prems obtain d1 where d1: "activate_queue (bound_env k b io ev) sz i q v d = Some d1"
    "activate_queues (bound_env k b io ev) sz (i + 1) qs d1 = Some d'" by (auto simp: bind_eq_Some_conv)
  from activate_queue_calls [OF d1(1)] Cons.IH [OF d1(2)] show ?case by (rule extends_trans)
qed simp

lemma activate_since:
  assumes "vhost_activate (bound_env k b io ev) d = Some (r, d')" and "calls_since h d"
  shows "calls_since h d'"
proof -
  from assms(1) obtain s sz where "activate_queues (bound_env k b io ev) sz 0 (zipped_queues (bound_env k b io ev) d) s = Some d'"
    "vn_binder s = vn_binder d"
    unfolding vhost_activate_def Let_def by (clarsimp simp: bind_eq_Some_conv)
  with activate_queues_calls [of k b io ev] have "extends (vn_binder d) (vn_binder d')" by fastforce
  with assms(2) show ?thesis by (auto simp: calls_since_def intro: extends_trans)
qed

lemma ack_since:
  assumes "vhost_ack (bound_env k b io ev) d plan = Some d'" and "calls_since h d"
  shows "calls_since h d'"
proof (cases plan)
  case (AckActivate c after)
  with assms(1) obtain r d1 where d1: "vhost_activate (bound_env k b io ev) (d\<lparr>vn_cfg := c\<rparr>) = Some (r, d1)"
    "d' = d1\<lparr>vn_cfg := after (vn_cfg d1) (\<not> isl r)\<rparr>" by (auto simp: bind_eq_Some_conv)
  with activate_since [OF d1(1), of h] assms(2) show ?thesis by (simp add: calls_since_def)
qed (use assms in \<open>auto simp: calls_since_def vhost_reset_def\<close>)

lemma notify_since: "vhost_queue_notify ev d n = Some d' \<Longrightarrow> calls_since h d \<Longrightarrow> calls_since h d'"
  by (auto simp: calls_since_def vhost_queue_notify_def bind_eq_Some_conv split: if_splits)

interpretation vhost_calls: device_invariant "vhost_virtio (bound_env k b io ev)" "calls_since h" for k b io ev h
  by unfold_locales
    (auto simp: vhost_virtio_def Let_def intro: ack_since notify_since,
     auto simp: calls_since_def on_cfg_def vhost_set_config_msix_vector_def vhost_set_msi_message_def
      vhost_set_queue_msix_vector_def vhost_set_notification_info_def vhost_read_and_clear_isr_def split_beta Let_def split: option.splits)

lemma unwrap_access_after: "after (unwrap_access m) Q \<longleftrightarrow> after m (\<lambda>(r, s). \<not> isl r \<longrightarrow> Q s)"
  by (cases m) (auto simp: unwrap_access_def split: sum.splits)

text \<open>What the methods of the device keep, a request keeps.\<close>

lemma config_access_invariant:
  assumes "device_invariant (vhost_virtio ev) P" and "P (dev f)"
  shows "after (read_config_le e (dev_read_config (vp_read_fn_config ev)) f off data) (\<lambda>a. P (dev (fst (snd a))))"
    and "after (write_config_le e (dev_write_config (vp_write_fn_config ev)) f off data) (\<lambda>a. P (dev (snd a)))"
proof -
  have r: "after (dev_read_config (vp_read_fn_config ev) f off data) (\<lambda>a. P (dev (fst (snd a))))" for off data
    using assms(2) device_invariant.config_read [where f = f, OF assms]
    by (auto simp: dev_read_config_def vp_read_fn_config_def split: option.split)
  then show "after (read_config_le e (dev_read_config (vp_read_fn_config ev)) f off data) (\<lambda>a. P (dev (fst (snd a))))"
    unfolding read_config_le_def after_bind_result by (rule after_mono) (auto simp: split_beta Let_def split: sum.split)
  show "after (write_config_le e (dev_write_config (vp_write_fn_config ev)) f off data) (\<lambda>a. P (dev (snd a)))"
    using assms(2) device_invariant.config_write [where f = f, OF assms]
    by (auto simp: write_config_le_def dev_write_config_def vp_write_fn_config_def split: option.split prod.split sum.split)
qed

lemma serve_invariant:
  assumes "device_invariant (vhost_virtio ev) P" and "P (dev f)"
  shows "after (serve e ev f request) (\<lambda>a. P (dev (snd a)))"
proof -
  note c = config_access_invariant [OF assms, of e]
  note m = device_invariant.mmio_read [where f = f, OF assms] device_invariant.mmio_write [where f = f, OF assms]
  have "after (pci_config_read e ev f off n) (\<lambda>a. P (dev (fst a)))" for off n
    using c(1) [THEN after_mono] by (simp add: pci_config_read_def unwrap_access_after split_beta)
  moreover have "after (pci_config_write e ev f off n input) (\<lambda>a. P (dev a))" for off n input
    using c(2) [THEN after_mono] by (simp add: pci_config_write_def unwrap_access_after split_beta)
  moreover have "after (mmio_read ev f off n) (\<lambda>a. P (dev (fst a)))" for off n
    using m(1) [THEN after_mono] by (simp add: mmio_read_def vp_read_mmio_def unwrap_access_after split_beta)
  moreover have "after (mmio_write ev f off n input) (\<lambda>a. P (dev a))" for off n input
    using m(2) [THEN after_mono] by (simp add: mmio_write_def vp_write_mmio_def unwrap_access_after split_beta)
  ultimately show ?thesis using assms(2)
    by (simp add: serve_def Let_def split_beta split: AddressSpace.split IoOperation.split)
qed

lemma ic_calls_extends: "ic_calls k b io cs h = Some h' \<Longrightarrow> extends h h'"
proof (induction cs arbitrary: h)
  case (Cons c cs)
  from Cons.prems obtain h1 where h1: "ic_call k b io c h = Some h1" "ic_calls k b io cs h1 = Some h'" by (auto simp: bind_eq_Some_conv)
  from h1(1) have "extends h h1"
    by (cases c) (auto simp: ic_set_interrupt_def ic_send_msi_def iface_send_msi_def Let_def intro: interface_calls(1))
  with Cons.IH [OF h1(2)] show ?case by (blast intro: extends_trans)
qed simp

lemma handle_request_calls: "device_calls_only (handle_request e k b io (bound_env k b io' ev))"
  unfolding device_calls_only_def
proof (intro allI impI)
  fix f :: "('a, 'b) vhost_pci" and h req data f' h'
  assume "handle_request e k b io (bound_env k b io' ev) (f, h) req = Some (data, f', h')"
  then have s: "serve e (bound_env k b io' ev) (enter h f) req = Some (data, f')"
    "ic_calls k b io (fn_controller (vf_inner f')) (vn_binder (dev f')) = Some h'"
    by (auto simp: handle_request_def leave_def bind_eq_Some_conv)
  have "calls_since h (dev (enter h f))" by (auto simp: enter_def calls_since_def)
  from afterD [OF serve_invariant [OF vhost_calls.device_invariant_axioms this] s(1)] have "extends h (vn_binder (dev f'))" by (simp add: calls_since_def)
  with ic_calls_extends [OF s(2)] have "extends h h'" by (blast intro: extends_trans)
  then show "\<exists>es. h' = h @ es \<and> (\<forall>e \<in> set es. device_call e)" by (simp add: extends_def)
qed

section \<open>The main loop\<close>

text \<open>The states the loop passes through, each after a request that was served.\<close>

inductive model_serves ::
    "endian \<Rightarrow> sel4_kernel \<Rightarrow> sel4_bindings \<Rightarrow> ('r, 'p) rpc_ffi \<Rightarrow> ('w, 'c, 'q) sel4_env \<Rightarrow> ('w, 'c, 'r) DeviceModel \<Rightarrow> sel4_history \<Rightarrow>
     ('w, 'c, 'r) DeviceModel \<Rightarrow> sel4_history \<Rightarrow> bool"
  for e k b ffi ev where
  model_serves_refl: "model_serves e k b ffi ev m h m h"
| model_serves_step: "\<lbrakk>model_step e k b ffi ev m h = Some (Inr u, m1, h1); model_serves e k b ffi ev m1 h1 m2 h2\<rbrakk> \<Longrightarrow>
    model_serves e k b ffi ev m h m2 h2"

lemma model_step_running: "model_step e k b ffi ev m h = Some (r, m', h') \<Longrightarrow> dm_running m' = dm_running m"
  by (auto simp: model_step_def bind_eq_Some_conv Let_def)

lemma model_run_serves:
  assumes "model_serves e k b ffi ev m h m1 h1" and "dm_running m"
  shows "model_run e k b ffi ev m h = model_run e k b ffi ev m1 h1"
  using assms by (induction rule: model_serves.induct) (simp_all add: model_run.simps [of e k b ffi ev] model_step_running)

lemma model_run_ended:
  assumes "model_run e k b ffi ev m h = Some x" and "dm_running m"
  shows "fst x = Inl HandleIoRequest \<and>
    (\<exists>m1 h1 err. model_serves e k b ffi ev m h m1 h1 \<and> model_step e k b ffi ev m1 h1 = Some (Inl err, snd x))"
proof -
  let ?P = "\<lambda>e k b ffi ev m h x. dm_running m \<longrightarrow> fst x = Inl HandleIoRequest \<and>
    (\<exists>m1 h1 err. model_serves e k b ffi ev m h m1 h1 \<and> model_step e k b ffi ev m1 h1 = Some (Inl err, snd x))"
  have "?P e k b ffi ev m h x"
  proof (rule model_run.raw_induct [where P = ?P, OF _ assms(1)], intro impI)
    fix run e k b ffi ev m h x
    assume ih: "\<And>e k b ffi ev m h x. run e k b ffi ev m h = Some x \<Longrightarrow> ?P e k b ffi ev m h x" and on: "dm_running m"
      and body: "(if dm_running m then do {
        (r, m, h) \<leftarrow> model_step e k b ffi ev m h;
        case r of Inl _ \<Rightarrow> Some (Inl HandleIoRequest, m, h) | Inr _ \<Rightarrow> run e k b ffi ev m h
      } else Some (Inr (), m, h)) = Some x"
    from body on obtain r m1 h1 where step: "model_step e k b ffi ev m h = Some (r, m1, h1)"
      and rest: "(case r of Inl _ \<Rightarrow> Some (Inl HandleIoRequest, m1, h1) | Inr _ \<Rightarrow> run e k b ffi ev m1 h1) = Some x"
      by (auto simp: bind_eq_Some_conv)
    show "fst x = Inl HandleIoRequest \<and>
      (\<exists>m1 h1 err. model_serves e k b ffi ev m h m1 h1 \<and> model_step e k b ffi ev m1 h1 = Some (Inl err, snd x))"
    proof (cases r)
      case (Inl err)
      with step have "model_step e k b ffi ev m h = Some (Inl err, snd x) \<and> fst x = Inl HandleIoRequest" using rest by auto
      then show ?thesis using model_serves_refl [of e k b ffi ev m h] by blast
    next
      case (Inr u)
      with rest ih on model_step_running [OF step] have "fst x = Inl HandleIoRequest \<and>
        (\<exists>m2 h2 err. model_serves e k b ffi ev m1 h1 m2 h2 \<and> model_step e k b ffi ev m2 h2 = Some (Inl err, snd x))" by auto
      with step Inr show ?thesis by (blast intro: model_serves_step)
    qed
  qed
  with assms(2) show ?thesis by blast
qed

lemma model_run_ends:
  assumes "dm_running m"
  shows "model_run e k b ffi ev m h = Some (r, m2, h2) \<longleftrightarrow>
    r = Inl HandleIoRequest \<and> (\<exists>m1 h1 err. model_serves e k b ffi ev m h m1 h1 \<and> model_step e k b ffi ev m1 h1 = Some (Inl err, m2, h2))"
proof
  assume "model_run e k b ffi ev m h = Some (r, m2, h2)"
  from model_run_ended [OF this assms] show "r = Inl HandleIoRequest \<and>
      (\<exists>m1 h1 err. model_serves e k b ffi ev m h m1 h1 \<and> model_step e k b ffi ev m1 h1 = Some (Inl err, m2, h2))" by simp
next
  assume "r = Inl HandleIoRequest \<and>
      (\<exists>m1 h1 err. model_serves e k b ffi ev m h m1 h1 \<and> model_step e k b ffi ev m1 h1 = Some (Inl err, m2, h2))"
  then obtain m1 h1 err where *: "r = Inl HandleIoRequest" "model_serves e k b ffi ev m h m1 h1"
    "model_step e k b ffi ev m1 h1 = Some (Inl err, m2, h2)" by blast
  from *(2) assms have "dm_running m1" by (induction rule: model_serves.induct) (auto simp: model_step_running)
  with * model_run_serves [OF *(2) assms] show "model_run e k b ffi ev m h = Some (r, m2, h2)"
    by (simp add: model_run.simps [of e k b ffi ev m1 h1])
qed

section \<open>An example\<close>

text \<open>A kernel in which only the wait for I/O fails, so the program ends at its first request.\<close>

fun wait_fails :: "sel4_history \<Rightarrow> sel4_request sys_call \<Rightarrow> int" where
  "wait_fails h (Ioctl _ WAIT_IO) = -1"
| "wait_fails h _ = int (length h) + 3"

definition wait_kernel :: sel4_kernel where
  "wait_kernel = \<lparr>k_result = wait_fails, k_errno = (\<lambda>_. 0)\<rparr>"

definition sel4_sample :: "(vhost_call list \<times> nat, u64, unit) sel4_env" where
  "sel4_sample = sample_env_with \<lparr>eb_bind_ioeventfd = (\<lambda>_ h. (True, h)), eb_bind_irqfd = (\<lambda>_ h. (True, h))\<rparr>"

definition sample_crate :: "unit memory_crate" where
  "sample_crate = \<lparr>mc_try_clone = Inr, mc_build = (\<lambda>_ _ _ _ _. Inr ()),
     mc_region_new = (\<lambda>_ a. Some \<lparr>mem_start = a, mem_size = 0x1000, mem_ptr = 0, mem_file_offset = Some (3, 0)\<rparr>), mc_from_regions = Inr\<rparr>"

definition sample_cli :: VhostNetCli where
  "sample_cli = \<lparr>cli_device_model_id = 1, cli_mac = None, cli_tap = [0x74, 0x61, 0x70], cli_queue_size = None, cli_version = False\<rparr>"

lemma sample_model:
  fixes io :: "'r Sel4IoInterface"
  shows "\<exists>m. device_model_new k b sel4_sample io gm sample_config h = Some m \<and> dm_running m \<and> dm_io_interface m = io"
proof -
  have env: "bound_env k b io sel4_sample = sample_env_with (sel4_binder k b io)"
    by (simp add: bound_env_def sel4_sample_def sample_env_with_def)
  have "\<exists>d. vhost_new (bound_env k b io sel4_sample) h gm [] sample_config = Some d"
    unfolding env by (rule sample_new_Some)
  then obtain d where d: "vhost_new (bound_env k b io sel4_sample) h gm [] sample_config = Some d" ..
  have "unat (ucast (vd_device_type (vhost_virtio (bound_env k b io sel4_sample)) d) :: u16) + 0x1040 < 2 ^ 16"
    by (simp add: vhost_virtio_def env sample_env_with_def sample_consts_def Let_def)
  from virtio_new_Some [OF this, of pci_device_class pci_sub_class "LineFixed 0" "[]"] obtain f where
    "virtio_function_new (vhost_virtio (bound_env k b io sel4_sample)) pci_device_class pci_sub_class (LineFixed 0) [] d = Some (Inr f)"
    by metis
  with d show ?thesis by (simp add: device_model_new_def vhost_pci_new_def)
qed

lemma wait_kernel_ends:
  assumes "\<not> si_ready_poisoned (dm_io_interface m)"
  shows "\<exists>m' h'. model_step e wait_kernel b ffi ev m h = Some (Inl (WaitIo 0), m', h')"
proof -
  have w: "k_result wait_kernel h (Ioctl fd WAIT_IO) = -1" "k_result wait_kernel h (Ioctl fd START_VM) \<noteq> -1"
    "k_errno wait_kernel h = 0" for h fd by (simp_all add: wait_kernel_def)
  show ?thesis using assms
    by (cases "si_ready (dm_io_interface m)") (simp_all add: model_step_def handle_next_io_def signal_ready_def wait_io_def w Let_def)
qed

section \<open>Properties of the program\<close>

lemma model_step_reach:
  fixes m :: "('w, 'c, 'r) DeviceModel"
  assumes "model_step e k b ffi ev m h = Some (r, m', h')" and "sel4_reach k b ffi (dm_device m) (dm_io_interface m) h"
  shows "sel4_reach k b ffi (dm_device m') (dm_io_interface m') h'"
proof -
  from assms(1) obtain d io where "handle_next_io e k b ffi (handle_request e k b (dm_io_interface m) (bound_env k b (dm_io_interface m) ev))
      (dm_device m) (dm_io_interface m) h = Some (r, d, io, h')" "m' = m\<lparr>dm_device := d, dm_io_interface := io\<rparr>"
    by (auto simp: model_step_def bind_eq_Some_conv Let_def)
  with served [OF assms(2) handle_request_calls this(1)] show ?thesis by simp
qed

lemma model_serves_reach:
  assumes "model_serves e k b ffi ev m h m' h'" and "sel4_reach k b ffi (dm_device m) (dm_io_interface m) h"
  shows "sel4_reach k b ffi (dm_device m') (dm_io_interface m') h'"
  using assms by (induction rule: model_serves.induct) (auto dest: model_step_reach)

lemma register_counts:
  assumes "register_vpci_device k io h = Some (r, io', h')" and "si_num_pcidevs io = 0"
  shows "si_num_pcidevs io' = (if isl r then 0 else 1)"
  using assms by (auto simp: register_vpci_device_def Let_def split: if_splits)

lemma observed_drop [simp]: "observed (sel4_drop k io h) = observed h"
proof -
  have "observed (fold (\<lambda>g. close_fd k (gm_fd g)) gs h) = observed h" for gs :: "GuestMemoryRegion list" and h by (induction gs arbitrary: h) simp_all
  then show ?thesis by (simp add: sel4_drop_def)
qed

lemma pcidevs_kept:
  assumes "handle_next_io e k b ffi f w self h = Some (r, w', self', h')"
  shows "si_num_pcidevs self' = si_num_pcidevs self"
proof -
  have "signal_ready k s h1 = Some (r1, s', h2) \<Longrightarrow> si_num_pcidevs s' = si_num_pcidevs s"
    "wait_io k s h1 = Some (r2, s', h2) \<Longrightarrow> si_num_pcidevs s' = si_num_pcidevs s" for s :: "'b Sel4IoInterface" and s' h1 h2 r1 r2
    by (auto simp: signal_ready_def wait_io_def Let_def split: if_splits)
  with assms show ?thesis by (elim handle_next_io_cases) auto
qed

lemma model_serves_pcidevs:
  assumes "model_serves e k b ffi ev m h m' h'"
  shows "si_num_pcidevs (dm_io_interface m') = si_num_pcidevs (dm_io_interface m)"
  using assms by (induction rule: model_serves.induct) (auto simp: model_step_def bind_eq_Some_conv Let_def dest: pcidevs_kept)

lemma reach_outcome:
  assumes "sel4_reach k b ffi w io h" and "unat (si_num_pcidevs io) \<le> 1"
  shows "live (sel4_drop k io h) = {#} \<and> obs_starts (observed h) \<le> 1 \<and> obs_ordered (observed h) \<and>
    obs_devices (observed h) = (if si_num_pcidevs io = 0 then [] else [0])"
proof -
  have "lifecycle io h" using sel4_reach_lifecycle [OF assms(1)] .
  moreover have "owned io h" using sel4_reach_owned [OF assms(1)] .
  moreover have "[0..<unat (si_num_pcidevs io)] = (if si_num_pcidevs io = 0 then [] else [0])"
    using assms(2) by (cases "unat (si_num_pcidevs io)") (auto simp: unat_eq_zero)
  ultimately show ?thesis by (auto simp: lifecycle_def owned_def live_drop)
qed

text \<open>
  C1: The program as a whole. Whenever it ends, for whatever reason, it has closed every file and removed every
  mapping it got from the hypervisor; on the way it has started the machine at most once, registered
  at most the one device with number zero, and never waited for I/O of a machine that was not
  started. It ends without an error only when it was asked for its version.
\<close>

theorem program_outcome:
  fixes ffi :: "('r, 'p) rpc_ffi" and ev :: "('w, 'c, 'q) sel4_env"
  assumes "program_run e k b ffi ev mc cmdline cli = Some (r, h)"
  shows "live h = {#} \<and> obs_starts (observed h) \<le> 1 \<and> obs_devices (observed h) \<in> {[], [0]} \<and> obs_ordered (observed h) \<and>
    (r = Inr () \<longleftrightarrow> cli_version cli)"
proof (cases "cli_version cli")
  case True
  with assms show ?thesis by (auto simp: program_run_def live_def observed_def observer_init_def)
next
  case False
  obtain r0 h0 where new: "sel4_new k b ffi cmdline SEL4_DEV_PATH (cli_device_model_id cli) [] = (r0, h0)" by fastforce
  show ?thesis
  proof (cases r0)
    case (Inl err)
    with new False assms have "r = Inl (Init err)" "h = h0" by (simp_all add: program_run_def)
    with new Inl False observed_new_failed [of k b ffi cmdline SEL4_DEV_PATH _ "[]"]
      live_new [where k = k and b = b and ffi = ffi and cmdline = cmdline and path = SEL4_DEV_PATH and vm = "cli_device_model_id cli" and h = "[]"]
    show ?thesis by (simp add: live_def observed_def observer_init_def)
  next
    case (Inr io0)
    with new False assms obtain r1 io1 h1 where reg: "register_vpci_device k io0 h0 = Some (r1, io1, h1)"
      by (auto simp: program_run_def bind_eq_Some_conv)
    have reach1: "sel4_reach k b ffi w io1 h1" for w :: "('w, 'c) vhost_pci"
      by (rule registered [OF created reg]) (use new Inr in simp)
    have num: "si_num_pcidevs io1 = (if isl r1 then 0 else 1)"
      using register_counts [OF reg] observed_new [of k b ffi cmdline SEL4_DEV_PATH _ "[]" io0 h0] new Inr by simp
    then have out1: "live (sel4_drop k io1 h1) = {#} \<and> obs_starts (observed h1) \<le> 1 \<and> obs_ordered (observed h1) \<and>
        obs_devices (observed h1) \<in> {[], [0]}"
      using reach_outcome [OF reach1 [of undefined]] by auto
    show ?thesis
    proof (cases "isl r1 \<or> isl (build_guest_memory mc b (si_guest_memory io1))")
      case True
      with new Inr reg False assms out1 show ?thesis by (auto simp: program_run_def split: sum.splits)
    next
      case no: False
      then obtain u gm where u: "r1 = Inr u" and gm: "build_guest_memory mc b (si_guest_memory io1) = Inr gm"
        by (auto simp: isl_def) (metis sum.exhaust)
      with new Inr reg False assms obtain m r2 m2 h2 where m: "device_model_new k b ev io1 gm (net_config cli) h1 = Some m"
        and run: "model_run e k b ffi ev m h1 = Some (r2, m2, h2)" and res: "h = sel4_drop k (dm_io_interface m2) h2"
        "r = (case r2 of Inl err \<Rightarrow> Inl (ModelFailed err) | Inr _ \<Rightarrow> Inr ())"
        by (auto simp: program_run_def bind_eq_Some_conv Let_def)
      from m have "dm_running m" "dm_io_interface m = io1" by (auto simp: device_model_new_def bind_eq_Some_conv)
      with run obtain m1 h1' err where r2: "r2 = Inl HandleIoRequest" and serves: "model_serves e k b ffi ev m h1 m1 h1'"
        and last: "model_step e k b ffi ev m1 h1' = Some (Inl err, m2, h2)" by (auto simp: model_run_ends)
      have reach2: "sel4_reach k b ffi (dm_device m2) (dm_io_interface m2) h2"
        using model_step_reach [OF last model_serves_reach [OF serves]] reach1 \<open>dm_io_interface m = io1\<close> by simp
      have "si_num_pcidevs (dm_io_interface m2) = 1"
        using model_serves_pcidevs [OF serves] last num u \<open>dm_io_interface m = io1\<close>
        by (auto simp: model_step_def bind_eq_Some_conv Let_def dest: pcidevs_kept)
      with reach_outcome [OF reach2] res r2 False show ?thesis by simp
    qed
  qed
qed

lemma program_outcome_witness:
  "\<forall>b :: sel4_bindings. \<exists>cmdline h. program_run Little wait_kernel b list_ffi sel4_sample sample_crate (Inr cmdline) sample_cli =
     Some (Inl (ModelFailed HandleIoRequest), h) \<and> live h = {#} \<and> obs_ordered (observed h)"
proof
  fix b :: sel4_bindings
  let ?e = "(1, \<lparr>ram_start = 0x60000000, ram_size = 0x2000000, pci_start = 0xC0000000, pci_size = 0x80000\<rparr>)"
  have c: "io_interface_config (Inr (show_arg ?e)) 1 = (Inr (snd ?e) :: int config_error + _)"
    using io_interface_config_printed [of "[show_arg ?e]" "[?e]" 1] show_arg_word [of ?e] by simp
  have ok: "k_result wait_kernel h c \<ge> 0" if "creation_call c" for h c
    using that by (cases c rule: creation_call.cases) (simp_all add: wait_kernel_def)
  obtain io h0 where new: "sel4_new wait_kernel b list_ffi (Inr (show_arg ?e)) SEL4_DEV_PATH 1 [] = (Inr io, h0)"
    and np: "\<not> si_pcidevs_poisoned io" "\<not> si_ready_poisoned io"
    using sel4_new_ok [OF c ok, of list_ffi b SEL4_DEV_PATH "[]"] by (auto simp: list_ffi_def)
  from observed_new [OF new] have zero: "si_num_pcidevs io = 0" by simp
  obtain h1 where reg: "register_vpci_device wait_kernel io h0 = Some (Inr 0, io\<lparr>si_num_pcidevs := 1\<rparr>, h1)"
    using np zero by (simp add: register_vpci_device_def wait_kernel_def)
  obtain gm where gm: "build_guest_memory sample_crate b (si_guest_memory io) = Inr gm"
  proof -
    have "\<exists>ms. build_regions sample_crate b gs = Inr ms" for gs
      by (induction gs) (auto simp: build_region_def sample_crate_def)
    then obtain ms where "build_regions sample_crate b (si_guest_memory io) = Inr ms" by blast
    moreover have "mc_from_regions sample_crate = Inr" by (simp add: sample_crate_def)
    ultimately show thesis using that by (simp add: build_guest_memory_def)
  qed
  have cfg: "net_config sample_cli = sample_config" "\<not> cli_version sample_cli" "cli_device_model_id sample_cli = 1" by (simp_all add: net_config_def sample_cli_def sample_config_def)
  obtain m where m: "device_model_new wait_kernel b sel4_sample (io\<lparr>si_num_pcidevs := 1\<rparr>) gm sample_config h1 = Some m"
    "dm_running m" "dm_io_interface m = io\<lparr>si_num_pcidevs := 1\<rparr>" using sample_model by blast
  obtain m' h' where "model_step Little wait_kernel b list_ffi sel4_sample m h1 = Some (Inl (WaitIo 0), m', h')"
    using wait_kernel_ends [where m = m and h = h1 and e = Little and b = b and ffi = list_ffi and ev = sel4_sample] np m(3) by auto
  then have run: "model_run Little wait_kernel b list_ffi sel4_sample m h1 = Some (Inl HandleIoRequest, m', h')"
    using m(2) by (simp add: model_run.simps [of Little wait_kernel b list_ffi sel4_sample m h1])
  have "program_run Little wait_kernel b list_ffi sel4_sample sample_crate (Inr (show_arg ?e)) sample_cli =
      Some (Inl (ModelFailed HandleIoRequest), sel4_drop wait_kernel (dm_io_interface m') h')"
    using new reg gm m run by (simp add: program_run_def cfg)
  from program_outcome [OF this] this show "\<exists>cmdline h. program_run Little wait_kernel b list_ffi sel4_sample sample_crate (Inr cmdline) sample_cli =
     Some (Inl (ModelFailed HandleIoRequest), h) \<and> live h = {#} \<and> obs_ordered (observed h)" by blast
qed

section \<open>Requests that end the program\<close>

lemma unwrap_access_None: "unwrap_access m = None \<longleftrightarrow> after m (\<lambda>a. isl (fst a))"
  by (cases m) (auto simp: unwrap_access_def split: sum.splits)

lemma validate_refused:
  assumes "\<not> access_ok offset (length data)" and "offset < 256"
  shows "after (cs_validate_access c offset data) isl"
proof -
  have "offset + 2 \<le> 256" if "even offset" using that assms(2) by presburger
  moreover have "offset + 4 \<le> 256" if "4 dvd offset" using that assms(2) by presburger
  ultimately show ?thesis using assms
    by (auto simp: access_ok_def cs_validate_access_def validate_access_size_def validate_access_alignment_def mod_eq_0_iff_dvd)
qed

lemma checked_refused:
  assumes "\<not> access_ok offset (length data)" and "offset < 256"
  shows "after (cs_read_checked c offset data) (\<lambda>a. isl (fst a))" and "after (cs_write_checked c offset data) (\<lambda>a. isl (fst a))"
  using validate_refused [OF assms, of c]
  by (auto simp: cs_read_checked_def cs_write_checked_def cs_validate_write_access_def elim!: after_mono split: sum.split error.split)

lemma function_refused:
  assumes "\<not> access_ok offset (length data)" and "offset < 256"
  shows "after (vf_read_config vd vq f offset data) (\<lambda>a. isl (fst a))" and "after (vf_write_config vd vq f offset data) (\<lambda>a. isl (fst a))"
proof -
  show "after (vf_read_config vd vq f offset data) (\<lambda>a. isl (fst a))"
    unfolding vf_read_config_def fn_read_config_def
    by (auto intro!: after_any checked_refused(1) [OF assms] simp: split_beta)
  have "after (fn_write_config dh ih g offset data) (\<lambda>a. isl (fst a))" for dh :: "('a VirtioDeviceHandler, VirtioInterruptContext \<times> controller) device_handler" and ih g
    unfolding fn_write_config_def
    by (rule after_skip, rule after_bind [OF checked_refused(2) [OF assms]]) (auto simp: isl_def)
  then have "after (fn_write_config (virtio_handler vd vq) virtio_interrupts (vf_inner f) offset data) (\<lambda>a. isl (fst a))" .
  then show "after (vf_write_config vd vq f offset data) (\<lambda>a. isl (fst a))"
    unfolding vf_write_config_def on_inner_def after_bind_result after_simps
    by (rule after_mono) (auto simp: split_beta split: sum.split)
qed

lemma function_split_eq: "function_index_and_offset off = (if off < 2048 then Some (off div 256, off mod 256) else None)"
  by (auto simp: function_index_and_offset_def Let_def)

lemma device_refused:
  assumes "\<not> access_ok offset (length data)"
  shows "after (dev_read_config (vp_read_fn_config ev) f offset data) (\<lambda>a. isl (fst a))"
    and "after (dev_write_config (vp_write_fn_config ev) f offset data) (\<lambda>a. isl (fst a))"
  using assms function_refused [of offset data] div_eq_0_iff [of offset 256]
  by (auto simp: dev_read_config_def dev_write_config_def function_split_eq vp_read_fn_config_def vp_write_fn_config_def)

lemma config_requests_refused:
  assumes "\<not> access_ok (unat a) n" and "length d = 8"
  shows "pci_config_read e ev f a n = None" and "pci_config_write e ev f a n d = None"
proof -
  have "after (read_config_le e (dev_read_config (vp_read_fn_config ev)) f (unat a) (replicate n 0xFF)) (\<lambda>a. isl (fst a))"
    unfolding read_config_le_def after_bind_result
    by (rule after_mono [OF device_refused(1)]) (use assms in \<open>auto split: sum.split\<close>)
  then show "pci_config_read e ev f a n = None"
    by (simp add: pci_config_read_def unwrap_access_None [symmetric])
  have "length (snd (from_little_endian e (take n d) SwapDword)) = n" if "n \<le> 8"
    using that assms(2) by (auto simp: from_little_endian_def)
  then have "after (write_config_le e (dev_write_config (vp_write_fn_config ev)) f (unat a) (take n d)) (\<lambda>a. isl (fst a))" if "n \<le> 8"
    using that assms device_refused(2) [of "unat a" "snd (from_little_endian e (take n d) SwapDword)" ev f]
    by (auto simp: write_config_le_def split: prod.split sum.split)
  then show "pci_config_write e ev f a n d = None"
    by (simp add: pci_config_write_def unwrap_access_None [symmetric])
qed

text \<open>
  C37: Requests the program does not survive, and requests it ignores. Every configuration access to its device
  that is not an aligned access of one, two or four bytes inside the 256 bytes of function zero ends
  the program, and so does every memory access that no BAR contains and every access of more than
  eight bytes; the addresses are the guest's choice. Accesses to other devices read as ones and
  change nothing.
\<close>

theorem request_refusals:
  assumes "length d = 8"
  shows "(\<not> access_ok (unat a) (unat n) \<longrightarrow>
      serve e ev f \<lparr>req_address_space = PciConfigSpace 0, req_address = a, req_size = n, req_operation = IoRead\<rparr> = None \<and>
      serve e ev f \<lparr>req_address_space = PciConfigSpace 0, req_address = a, req_size = n, req_operation = IoWrite d\<rparr> = None) \<and>
    (unat n > 8 \<or> find_mmio_region (vf_get_bar (vhost_virtio ev) (queue_ops ev)) f a (ucast n) = Some None \<longrightarrow>
      serve e ev f \<lparr>req_address_space = MmioSpace, req_address = a, req_size = n, req_operation = IoRead\<rparr> = None \<and>
      serve e ev f \<lparr>req_address_space = MmioSpace, req_address = a, req_size = n, req_operation = IoWrite d\<rparr> = None) \<and>
    (pcidev \<noteq> 0 \<longrightarrow>
      serve e ev f \<lparr>req_address_space = PciConfigSpace pcidev, req_address = a, req_size = n, req_operation = IoRead\<rparr> = Some (Some (replicate 8 0xFF), f) \<and>
      serve e ev f \<lparr>req_address_space = PciConfigSpace pcidev, req_address = a, req_size = n, req_operation = IoWrite d\<rparr> = Some (None, f))"
proof -
  have "mmio_read ev f a (unat n) = None \<and> mmio_write ev f a (unat n) d = None"
    if "unat n > 8 \<or> find_mmio_region (vf_get_bar (vhost_virtio ev) (queue_ops ev)) f a (ucast n) = Some None"
    using that assms by (auto simp: mmio_read_def mmio_write_def vp_read_mmio_def vp_write_mmio_def read_mmio_def write_mmio_def
      unwrap_access_def Let_def)
  then show ?thesis using config_requests_refused [of a "unat n" d e ev f] assms
    by (simp add: serve_def Let_def)
qed

lemma request_refusals_witness:
  "\<forall>(ev :: (unit, unit, unit) sel4_env) f.
     serve Little ev f \<lparr>req_address_space = PciConfigSpace 0, req_address = 0x100, req_size = 4, req_operation = IoRead\<rparr> = None \<and>
     serve Little ev f \<lparr>req_address_space = PciConfigSpace 1, req_address = 0x100, req_size = 4, req_operation = IoRead\<rparr> =
       Some (Some (replicate 8 0xFF), f)"
proof (intro allI)
  fix ev :: "(unit, unit, unit) sel4_env" and f
  have "\<not> access_ok (unat (0x100 :: u64)) (unat (4 :: u8))" by (simp add: access_ok_def)
  with request_refusals [of "replicate 8 0" "0x100" 4 Little ev f 1]
  show "serve Little ev f \<lparr>req_address_space = PciConfigSpace 0, req_address = 0x100, req_size = 4, req_operation = IoRead\<rparr> = None \<and>
     serve Little ev f \<lparr>req_address_space = PciConfigSpace 1, req_address = 0x100, req_size = 4, req_operation = IoRead\<rparr> =
       Some (Some (replicate 8 0xFF), f)" by simp
qed

section \<open>The shape of the device\<close>

text \<open>The length of the list of vectors, and a descriptor of interrupts for each of notifications.\<close>

definition device_shape :: "nat \<Rightarrow> ('w, 'c, 'h) VhostNetDevice \<Rightarrow> bool" where
  "device_shape n d \<longleftrightarrow> length (vn_queue_msix_vector d) = n \<and> length (vn_irqfds d) = length (vn_ioeventfds d)"

lemma activate_shape:
  assumes "vhost_activate ev d = Some (r, d')" and "device_shape n d"
  shows "device_shape n d'"
proof -
  from assms(1) obtain sz s as where "activation_outcome ev sz 0 (zipped_queues ev d) s as d'" "same_setup d s"
    "vn_irqfds s = vn_irqfds d" "vn_ioeventfds s = vn_ioeventfds d" by (rule activate_outcome)
  with assms(2) show ?thesis by (simp add: device_shape_def activation_outcome_def same_setup_def)
qed

lemma ack_shape:
  assumes "vhost_ack ev d plan = Some d'" and "device_shape n d"
  shows "device_shape n d'"
proof (cases plan)
  case (AckActivate c after)
  with assms(1) obtain r d1 where d1: "vhost_activate ev (d\<lparr>vn_cfg := c\<rparr>) = Some (r, d1)"
    "d' = d1\<lparr>vn_cfg := after (vn_cfg d1) (\<not> isl r)\<rparr>" by (auto simp: bind_eq_Some_conv)
  with activate_shape [OF d1(1), of n] assms(2) show ?thesis by (simp add: device_shape_def)
qed (use assms in \<open>auto simp: device_shape_def vhost_reset_def\<close>)

lemma notify_shape: "vhost_queue_notify ev d i = Some d' \<Longrightarrow> device_shape n d \<Longrightarrow> device_shape n d'"
  by (auto simp: device_shape_def vhost_queue_notify_def bind_eq_Some_conv split: if_splits)

interpretation vhost_shape: device_invariant "vhost_virtio ev" "device_shape n" for ev n
  by unfold_locales
    (auto simp: vhost_virtio_def Let_def intro: ack_shape notify_shape,
     auto simp: device_shape_def on_cfg_def vhost_set_config_msix_vector_def vhost_set_msi_message_def
      vhost_set_queue_msix_vector_def vhost_set_notification_info_def vhost_read_and_clear_isr_def split_beta Let_def split: option.splits)

lemma model_step_device:
  fixes m :: "('w, 'c, 'r) DeviceModel"
  assumes "model_step e k b ffi ev m h = Some (r, m', h')"
  shows "dm_device m' = dm_device m \<or> (\<exists>(io :: 'r Sel4IoInterface) req data h1 h2.
    handle_request e k b io (bound_env k b io ev) (dm_device m, h1) req = Some (data, dm_device m', h2))"
proof -
  from assms obtain d io where next_io: "handle_next_io e k b ffi (handle_request e k b (dm_io_interface m) (bound_env k b (dm_io_interface m) ev))
      (dm_device m) (dm_io_interface m) h = Some (r, d, io, h')" and d: "dm_device m' = d"
    by (auto simp: model_step_def bind_eq_Some_conv Let_def)
  from next_io show ?thesis
  proof (cases rule: handle_next_io_cases)
    case (3 s h1 s2 h2 u rpc)
    from process_ioreq_state [OF 3(3)] d show ?thesis by (simp del: split_paired_Ex) blast
  qed (simp_all add: d)
qed

lemma handle_request_shape:
  assumes "handle_request e k b io ev (f, h) request = Some (data, f', h')" and "device_shape n (dev f)"
  shows "device_shape n (dev f')"
proof -
  from assms(1) have s: "serve e ev (enter h f) request = Some (data, f')"
    by (auto simp: handle_request_def leave_def bind_eq_Some_conv)
  have "device_shape n (dev (enter h f))" using assms(2) by (auto simp: enter_def device_shape_def)
  from afterD [OF serve_invariant [OF vhost_shape.device_invariant_axioms this] s] show ?thesis by simp
qed

lemma model_serves_shape:
  assumes "model_serves e k b ffi ev m h m' h'" and "device_shape n (dev (dm_device m))"
  shows "device_shape n (dev (dm_device m'))"
  using assms
proof (induction rule: model_serves.induct)
  case (model_serves_step m h u m1 h1 m2 h2)
  from model_step_device [OF model_serves_step.hyps(1)] model_serves_step.prems
  have "device_shape n (dev (dm_device m1))" by (auto dest: handle_request_shape)
  with model_serves_step.IH show ?case by blast
qed simp

lemma device_model_new_function:
  assumes "device_model_new k b ev io gm config h = Some m"
  obtains d where "vhost_new (bound_env k b io ev) h gm [] config = Some d"
    and "unat (ucast (vd_device_type (vhost_virtio (bound_env k b io ev)) d) :: u16) + 0x1040 < 2 ^ 16"
    and "virtio_function_new (vhost_virtio (bound_env k b io ev)) pci_device_class pci_sub_class (LineFixed 0) [] d = Some (Inr (dm_device m))"
proof -
  from assms obtain d r where d: "vhost_new (bound_env k b io ev) h gm [] config = Some d"
    and r: "virtio_function_new (vhost_virtio (bound_env k b io ev)) pci_device_class pci_sub_class (LineFixed 0) [] d = Some r"
    and case_r: "(case r of Inl _ \<Rightarrow> None | Inr f \<Rightarrow> Some f) = Some (dm_device m)"
    by (auto simp: device_model_new_def vhost_pci_new_def bind_eq_Some_conv)
  from r case_r have f: "virtio_function_new (vhost_virtio (bound_env k b io ev)) pci_device_class pci_sub_class (LineFixed 0) [] d =
    Some (Inr (dm_device m))" by (cases r) auto
  have "unat (ucast (vd_device_type (vhost_virtio (bound_env k b io ev)) d) :: u16) + 0x1040 < 2 ^ 16"
    by (rule ccontr) (use f in \<open>simp add: virtio_function_new_def Let_def\<close>)
  with d f show thesis by (intro that)
qed

lemma device_model_new_device:
  assumes "device_model_new k b ev io gm config h = Some m"
  shows "device_shape 2 (dev (dm_device m))"
proof -
  obtain d where d: "vhost_new (bound_env k b io ev) h gm [] config = Some d"
    and id: "unat (ucast (vd_device_type (vhost_virtio (bound_env k b io ev)) d) :: u16) + 0x1040 < 2 ^ 16"
    and f: "virtio_function_new (vhost_virtio (bound_env k b io ev)) pci_device_class pci_sub_class (LineFixed 0) [] d = Some (Inr (dm_device m))"
    by (rule device_model_new_function [OF assms])
  have "dev (dm_device m) = d"
    by (rule virtio_new_Some [OF id, of pci_device_class pci_sub_class "LineFixed 0" "[]"]) (use f in simp)
  moreover have "device_shape 2 d" by (rule vhost_newD [OF d]) (simp add: device_shape_def)
  ultimately show ?thesis by simp
qed

definition idle_interface :: "(rpcmsg list \<times> (rpcmsg \<times> u64) list) Sel4IoInterface" where
  "idle_interface =
     \<lparr>si_device = 3, si_control = 4, si_guest_memory = [],
      si_rpc = \<lparr>rpc_state = ([], []), rpc_poisoned = False, rpc_io_mapping = \<lparr>map_addr = 0, map_size = 4096\<rparr>,
        rpc_doorbell = \<lparr>bell_region = \<lparr>map_addr = 4096, map_size = 4096\<rparr>, bell_offset = 0\<rparr>\<rparr>,
      si_num_pcidevs = 1, si_pcidevs_poisoned = False, si_ready = True, si_ready_poisoned = False\<rparr>"

text \<open>
  C38: The main loop never ends on its own: from a running model it returns exactly when, after some requests
  that were all served, the interface fails, and then with the error for a failed request.
\<close>

theorem model_loop_ends:
  assumes "dm_running m"
  shows "model_run e k b ffi ev m h = Some (r, m2, h2) \<longleftrightarrow>
    r = Inl HandleIoRequest \<and> (\<exists>m1 h1 err. model_serves e k b ffi ev m h m1 h1 \<and> model_step e k b ffi ev m1 h1 = Some (Inl err, m2, h2))"
  by (rule model_run_ends [OF assms])

lemma model_loop_ends_witness:
  "\<forall>b :: sel4_bindings. \<exists>m m' h'. device_model_new wait_kernel b sel4_sample idle_interface [] sample_config [] = Some m \<and>
     model_run Little wait_kernel b list_ffi sel4_sample m [] = Some (Inl HandleIoRequest, m', h')"
proof
  fix b :: sel4_bindings
  obtain m where m: "device_model_new wait_kernel b sel4_sample idle_interface [] sample_config [] = Some m" "dm_running m"
    "dm_io_interface m = idle_interface" using sample_model by blast
  obtain m' h' where "model_step Little wait_kernel b list_ffi sel4_sample m [] = Some (Inl (WaitIo 0), m', h')"
    using wait_kernel_ends [where m = m and h = "[]" and e = Little and b = b and ffi = list_ffi and ev = sel4_sample] m(3)
    by (auto simp: idle_interface_def)
  with model_loop_ends [OF m(2), of Little wait_kernel b list_ffi sel4_sample "[]" "Inl HandleIoRequest" m' h'] m(1)
  show "\<exists>m m' h'. device_model_new wait_kernel b sel4_sample idle_interface [] sample_config [] = Some m \<and>
     model_run Little wait_kernel b list_ffi sel4_sample m [] = Some (Inl HandleIoRequest, m', h')" by (blast intro: model_serves_refl)
qed

end
