(* ===== verification/Virtio_Reads.thy ===== *)
theory Virtio_Reads
  imports Virtio_Invariant
begin

text \<open>
  Reads of a virtio function through its BARs and through the window: they return and keep the invariant
  of the function, except where they reach one of the unfinished registers of the common
  configuration. Of the device only its documented contract for reads is assumed, that it fills
  the buffer it is given.
\<close>

definition reads_fill :: "('t, 'q) virtio_device \<Rightarrow> bool" where
  "reads_fill vd \<longleftrightarrow> (\<forall>d off data. length (vd_read_config vd d off data) = length data)"

section \<open>What changes the space\<close>

text \<open>
  While a function is in use its configuration space changes only by writes a driver could make and by the
  status of the interrupt line.
\<close>

inductive space_steps :: "config_space \<Rightarrow> config_space \<Rightarrow> bool" where
  space_refl: "space_steps c c"
| space_guest: "space_steps c c1 \<Longrightarrow> offset + length data < 2 ^ 64 \<Longrightarrow> cs_write_checked c1 offset data = Some (r, c2) \<Longrightarrow> space_steps c c2"
| space_status: "space_steps c c1 \<Longrightarrow> update_interrupt_status c1 level = Some (changed, c2) \<Longrightarrow> space_steps c c2"

lemma space_steps_trans: "space_steps c2 c3 \<Longrightarrow> space_steps c1 c2 \<Longrightarrow> space_steps c1 c3"
  by (induction rule: space_steps.induct) (blast intro: space_steps.intros)+

lemma status_registers:
  assumes "config_wf c" and "update_interrupt_status c level = Some (b, c')"
  shows "mech_frame c c'" and "cs_registers c' = patch (cs_registers c) 6 (to_le_bytes (case level of
      Low \<Rightarrow> word_at (cs_registers c) 6 AND NOT PCI_STATUS_INTERRUPT_STATUS_MASK
    | High \<Rightarrow> word_at (cs_registers c) 6 OR PCI_STATUS_INTERRUPT_STATUS_MASK))"
proof -
  show "mech_frame c c'" using update_status_frame [OF assms(1), of level] assms(2) by auto
  show "cs_registers c' = patch (cs_registers c) 6 (to_le_bytes (case level of
      Low \<Rightarrow> word_at (cs_registers c) 6 AND NOT PCI_STATUS_INTERRUPT_STATUS_MASK
    | High \<Rightarrow> word_at (cs_registers c) 6 OR PCI_STATUS_INTERRUPT_STATUS_MASK))"
    using assms by (auto simp: update_interrupt_status_def cs_read_word_Some cs_set_word_Some Let_def)
qed

lemma caps_inv_status:
  assumes "caps_inv c es" and "update_interrupt_status c level = Some (b, c')"
  shows "caps_inv c' es"
proof -
  have wf: "config_wf c" using assms(1) by (simp add: caps_inv_def)
  note st = status_registers [OF wf assms(2)]
  have frame: "cs_registers c' ! k = cs_registers c ! k" if "k < 256" "k \<noteq> 6" "k \<noteq> 7" for k
  proof -
    from that have "\<not> (6 \<le> k \<and> k < 8)" by auto
    with st(2) wf that(1) show ?thesis by (auto simp: nth_patch)
  qed
  show ?thesis
  proof (rule caps_inv_frame [OF assms(1)])
    show "config_wf c'" "cs_last_cap_size c' = cs_last_cap_size c" using st(1) by (simp_all add: mech_frame_def)
    show "cs_writable_bits c' ! k = cs_writable_bits c ! k" for k using st(1) by (simp add: mech_frame_def)
    show "cs_registers c' ! k = cs_registers c ! k"
      if "k < 256" "k = 0x34 \<or> (\<exists>e \<in> set es. k = ent_start e \<or> k = ent_start e + 1)" for k
    proof -
      have "caps_layout 0x40 es" using assms(1) by (simp add: caps_inv_def)
      then have "0x40 \<le> ent_start e" if "e \<in> set es" for e using caps_layout_entry(1) that by blast
      with that have "k \<noteq> 6" "k \<noteq> 7" by force+
      with frame that(1) show ?thesis by blast
    qed
    have "cs_registers c' ! 6 = byte_of (case level of
        Low \<Rightarrow> word_at (cs_registers c) 6 AND NOT PCI_STATUS_INTERRUPT_STATUS_MASK
      | High \<Rightarrow> word_at (cs_registers c) 6 OR PCI_STATUS_INTERRUPT_STATUS_MASK) 0"
      using st(2) wf by (simp add: nth_patch nth_to_le_bytes del: PCI_STATUS_INTERRUPT_STATUS_MASK_def)
    moreover have "bit (word_at (cs_registers c) 6) 4 = bit (cs_registers c ! 6) 4"
      using wf by (simp add: word_at_def bit_views array_bit_def)
    ultimately show "bit (cs_registers c' ! 6) 4 = bit (cs_registers c ! 6) 4"
      by (cases level) (simp_all add: bit_views bit_simps)
  qed
qed

lemma space_steps_keep:
  assumes "space_steps c c'" and "bars_inv c" and "caps_inv c es"
  shows "bars_inv c' \<and> caps_inv c' es \<and> cs_bars c' = cs_bars c \<and> cs_writable_bits c' = cs_writable_bits c"
  using assms
proof (induction rule: space_steps.induct)
  case (space_guest c c1 offset data r c2)
  then have "bars_inv c1" "caps_inv c1 es" and eq: "cs_bars c1 = cs_bars c" "cs_writable_bits c1 = cs_writable_bits c" by simp_all
  with space_guest bars_inv_guest_write caps_inv_guest_write have "bars_inv c2" "caps_inv c2 es" by blast+
  moreover have "cs_bars c2 = cs_bars c1 \<and> cs_writable_bits c2 = cs_writable_bits c1"
    using space_guest.hyps(2,3) \<open>bars_inv c1\<close> cs_write_checked_Err [of c1 offset data]
    by (cases "access_ok offset (length data)") (auto simp: cs_write_checked_Ok)
  ultimately show ?case using eq by simp
next
  case (space_status c c1 level b c2)
  then have "bars_inv c1" "caps_inv c1 es" and eq: "cs_bars c1 = cs_bars c" "cs_writable_bits c1 = cs_writable_bits c" by simp_all
  with status_registers(1) [OF bars_inv_wf space_status.hyps(2)] caps_inv_status [OF _ space_status.hyps(2)]
  show ?case by (auto simp: mech_frame_def intro: bars_inv_mech_frame [OF _ status_registers(1) [OF bars_inv_wf space_status.hyps(2)]])
qed simp

text \<open>INTx and MSI-X leave the space alone when they process an access, and neither fails on a write.\<close>

lemma virtio_on_write_config:
  assumes "config_wf c" and "virtio_irq_ok i"
  shows "\<exists>i' ic'. ih_on_write_config virtio_interrupts i c ic off sz = Some (Inr (Handled None), (i', c, ic')) \<and> virtio_irq_ok i'"
proof -
  have fits: "msix_fits (ctx_msix i)" using assms(2) by (simp add: virtio_irq_ok_def context_ok_def)
  obtain ic1 x where x: "intx_on_write_config c ic (ctx_intx i) off sz = Some (ic1, x)"
    using intx_on_write_total [OF assms(1), of ic "ctx_intx i" off sz] by auto
  obtain h m ic2 where m: "msix_on_write_config (ctx_msix i) c ic1 off sz = Some (Inr h, (m, c, ic2))" "msix_fits m"
    using msix_on_write_total [OF assms(1) fits, of ic1 off sz] by blast
  show ?thesis using x m
    by (cases h) (simp_all add: virtio_interrupts_def context_handler_def context_on_write_config_def intx_handler_def no_interrupt_def
      msix_handler_def intx_handle_write_config_def msix_handle_write_config_def default_interrupt_on_write_config_def
      on_intx_def on_msi_def on_msix_def virtio_irq_ok_def context_ok_def)
qed

text \<open>An access that reaches an unfinished register, at the offsets 56, 58, 60 and 62.\<close>

definition hits_unfinished :: "PciBarRegionInfo \<Rightarrow> PciBarIndex \<Rightarrow> u64 \<Rightarrow> usize \<Rightarrow> bool" where
  "hits_unfinished info bar off n \<longleftrightarrow>
     (\<exists>o'. offset_within_region info bar off n = Some o' \<and> unat o' \<in> {56, 58, 60, 62})"

lemma region_read_common:
  assumes "common_wf cfg"
  shows "(region_handle_read_bar vc_info (common_read_bar vd vq) cfg bar off data t = None \<and> hits_unfinished (vc_info cfg) bar off (length data)) \<or>
    (\<exists>r cfg' data'. region_handle_read_bar vc_info (common_read_bar vd vq) cfg bar off data t = Some (r, (cfg', data', t)) \<and>
       common_wf cfg' \<and> vc_info cfg' = vc_info cfg \<and> length data' = length data)"
proof (cases "offset_within_region (vc_info cfg) bar off (length data)")
  case None
  with assms show ?thesis by (simp add: region_handle_read_bar_def)
next
  case (Some o')
  note bound = region_offset_bound [OF Some]
  show ?thesis
  proof (cases "unat o' \<in> {56, 58, 60, 62}")
    case True
    obtain reg where reg: "config_try_from (unat o') = Some reg" "unfinished reg"
      using unfinished_offsets [THEN iffD2, OF True] by (elim exE conjE)
    then have "prepare_read_register vd vq cfg reg t = None" using prepare_read_total [OF assms, of vd vq reg t] by simp
    with reg have "common_read_bar vd vq cfg o' data t = None" by (simp add: common_read_bar_def common_prepare_read_def)
    with Some True show ?thesis by (auto simp: region_handle_read_bar_def hits_unfinished_def)
  next
    case False
    then have "\<And>reg. config_try_from (unat o') = Some reg \<Longrightarrow> \<not> unfinished reg" using unfinished_offsets by blast
    from common_read_total [OF assms bound this, of vd vq t] obtain r cfg' data' where
      "common_read_bar vd vq cfg o' data t = Some (r, (cfg', data', t))" "common_wf cfg'" "vc_info cfg' = vc_info cfg"
      "length data' = length data" by auto
    with Some show ?thesis by (cases r) (simp_all add: region_handle_read_bar_def)
  qed
qed

lemma region_read_rest:
  "reads_fill vd \<Longrightarrow> \<exists>r data' t'. region_handle_read_bar vdc_info (device_cfg_read_bar vd) dcfg bar off data t = Some (r, (dcfg, data', t')) \<and>
     length data' = length data"
  "\<exists>r data' t'. region_handle_read_bar vn_info notify_read_bar ncfg bar off data t = Some (r, (ncfg, data', t')) \<and> length data' = length data"
  "\<exists>r data' t'. region_handle_read_bar vi_region (isr_read_bar vd) icfg bar off data t = Some (r, (icfg, data', t')) \<and> length data' = length data"
  by (auto simp: reads_fill_def region_handle_read_bar_def device_cfg_read_bar_def notify_read_bar_def isr_read_bar_def Let_def
      split: option.split prod.split)

lemma virtio_read_bar:
  assumes "config_wf c" and "virtio_irq_ok i"
  shows "\<exists>r i' data' ic'. ih_read_bar virtio_interrupts i c ic bar off data = Some (r, (i', data', c, ic')) \<and> virtio_irq_ok i' \<and>
    length data' = length data"
proof (cases "List.find (\<lambda>(_, info). offset_within_region info bar off (length data) \<noteq> None) (msix_info_iter (ctx_msix i))")
  case None
  with assms(2) show ?thesis
    by (simp add: virtio_interrupts_def context_handler_def context_read_bar_def msix_handler_def msix_interrupt_read_bar_def
        msix_handle_read_bar_def set_handle_read_bar_def on_msix_def)
next
  case (Some x)
  obtain rid info where x: "x = (rid, info)" by (cases x)
  from Some x obtain o' where o': "offset_within_region info bar off (length data) = Some o'" by (auto simp: find_Some_iff)
  from msix_region_read_total [OF region_offset_bound [OF o'], of "ctx_msix i" rid c ic] Some x o' assms(2) show ?thesis
    by (auto simp: virtio_interrupts_def context_handler_def context_read_bar_def msix_handler_def msix_interrupt_read_bar_def
        msix_handle_read_bar_def set_handle_read_bar_def on_msix_def)
qed

lemma virtio_write_bar:
  assumes "config_wf c" and "virtio_irq_ok i"
  shows "\<exists>r i' ic'. ih_write_bar virtio_interrupts i c ic bar off data = Some (r, (i', c, ic')) \<and> virtio_irq_ok i'"
proof (cases "List.find (\<lambda>(_, info). offset_within_region info bar off (length data) \<noteq> None) (msix_info_iter (ctx_msix i))")
  case None
  with assms(2) show ?thesis
    by (simp add: virtio_interrupts_def context_handler_def context_write_bar_def msix_handler_def msix_interrupt_write_bar_def
        msix_handle_write_bar_def set_handle_write_bar_def on_msix_def)
next
  case (Some x)
  obtain rid info where x: "x = (rid, info)" by (cases x)
  from Some x obtain o' where o': "offset_within_region info bar off (length data) = Some o'" by (auto simp: find_Some_iff)
  have "msix_fits (ctx_msix i)" using assms(2) by (simp add: virtio_irq_ok_def context_ok_def)
  from msix_region_write_total [OF assms(1) this region_offset_bound [OF o'], of rid ic] obtain r m ic' where
    "msix_region_write (ctx_msix i) rid o' data (c, ic) = Some (r, (m, c, ic'))" "msix_fits m" by blast
  with Some x o' assms(2) show ?thesis
    by (cases r) (simp_all add: virtio_interrupts_def context_handler_def context_write_bar_def msix_handler_def msix_interrupt_write_bar_def
        msix_handle_write_bar_def set_handle_write_bar_def on_msix_def virtio_irq_ok_def context_ok_def)
qed

lemma virtio_signal_steps:
  "after (fn_signal virtio_interrupts (i, ic) c (IntxInterrupt level)) (\<lambda>(r, w, c'). space_steps c c')"
proof -
  have "after (signal_intx c ic x level) (\<lambda>a. space_steps c (fst a))" for x
    by (auto simp: signal_intx_def split_beta after_def bind_eq_Some_conv space_refl split: if_splits
        intro: space_status [OF space_refl, where level = level])
  then have h: "after (handle_intx c ic x (IntxInterrupt level)) (\<lambda>a. space_steps c (fst (snd (snd a))))" for x
    by (simp add: handle_intx_def split_beta)
  have "after (ih_signal virtio_interrupts i c ic (IntxInterrupt level)) (\<lambda>a. space_steps c (fst (snd (snd a))))"
    unfolding virtio_interrupts_def context_handler_def interrupt_handler.simps context_signal_def
  proof (rule after_skip)
    fix active
    show "after (case active of
       IntxType \<Rightarrow> on_intx (ih_signal intx_handler (ctx_intx i) c ic (IntxInterrupt level)) i
     | MsiType \<Rightarrow> on_msi (ih_signal no_interrupt (ctx_msi i) c ic (IntxInterrupt level)) i
     | MsiXType \<Rightarrow> on_msix (ih_signal msix_handler (ctx_msix i) c ic (IntxInterrupt level)) i
     | NoInterruptType \<Rightarrow> Some (Inr (), (i, c, ic))) (\<lambda>a. space_steps c (fst (snd (snd a))))"
      using h by (cases active)
        (simp_all add: on_intx_def on_msi_def on_msix_def intx_handler_def no_interrupt_def msix_handler_def default_signal_def
          handle_msi_def split_beta space_refl)
  qed
  then show ?thesis
    unfolding fn_signal_def
    by (intro after_skip) (simp add: case_prod_unfold space_refl)
qed

lemma virtio_signal_total:
  assumes "config_wf c" and "virtio_irq_ok i"
  shows "\<exists>r i' ic' c'. fn_signal virtio_interrupts (i, ic) c (IntxInterrupt level) = Some (r, ((i', ic'), c')) \<and>
    virtio_irq_ok i' \<and> mech_frame c c' \<and> space_steps c c'"
proof -
  obtain e where e: "ih_is_enabled virtio_interrupts i c = Some e" using virtio_fn.im.enabled_total [OF assms] by blast
  have "\<exists>r i' ic' c'. fn_signal virtio_interrupts (i, ic) c (IntxInterrupt level) = Some (r, ((i', ic'), c')) \<and> virtio_irq_ok i' \<and> mech_frame c c'"
  proof (cases e)
    case True
    from virtio_fn.im.signal_total [OF assms, where irq = "IntxInterrupt level" and ic = ic] e True show ?thesis by (auto simp: fn_signal_def)
  qed (use e assms in \<open>simp add: fn_signal_def\<close>)
  then show ?thesis using virtio_signal_steps [of i ic c level] by (auto simp: after_def)
qed

text \<open>The handler. The interrupts and the controller are those of the function it belongs to.\<close>

lemma vh_read_bar_total:
  assumes ok: "virtio_ok d" and inv: "bars_inv (vh_config d)" and oki: "virtio_irq_ok i" and fill: "reads_fill vd"
    and sig: "ia_signal irq = fn_signal virtio_interrupts"
  shows "(vh_read_bar vd vq d bar off data irq (i, ic) = None \<and> hits_unfinished (vc_info (vh_common_cfg d)) bar off (length data)) \<or>
    (\<exists>r d' data' i' ic'. vh_read_bar vd vq d bar off data irq (i, ic) = Some (r, (d', data', (i', ic'))) \<and>
       virtio_ok d' \<and> bars_inv (vh_config d') \<and> virtio_irq_ok i' \<and> length data' = length data \<and>
       space_steps (vh_config d) (vh_config d'))"
proof -
  have wf: "common_wf (vh_common_cfg d)" using ok by (simp add: virtio_ok_def)
  consider (panic) "region_handle_read_bar vc_info (common_read_bar vd vq) (vh_common_cfg d) bar off data (vh_device d) = None"
      "hits_unfinished (vc_info (vh_common_cfg d)) bar off (length data)"
    | (ret) r1 cfg d1 where "region_handle_read_bar vc_info (common_read_bar vd vq) (vh_common_cfg d) bar off data (vh_device d) =
        Some (r1, (cfg, d1, vh_device d))" "common_wf cfg" "vc_info cfg = vc_info (vh_common_cfg d)" "length d1 = length data"
    using region_read_common [OF wf, of vd vq bar off data "vh_device d"] by (elim disjE exE conjE) (rule that; assumption)+
  then show ?thesis
  proof cases
    case panic
    then show ?thesis by (simp add: vh_read_bar_def)
  next
    case ret
    note s1 = ret(1)
    from region_read_rest(1) [OF fill, of "vh_device_cfg d" bar off d1 "vh_device d"] obtain r2 d2 t2 where
      s2: "region_handle_read_bar vdc_info (device_cfg_read_bar vd) (vh_device_cfg d) bar off d1 (vh_device d) = Some (r2, (vh_device_cfg d, d2, t2))"
      "length d2 = length d1" by blast
    from region_read_rest(2) [of "vh_notify_cfg d" bar off d2 t2] obtain r3 d3 t3 where
      s3: "region_handle_read_bar vn_info notify_read_bar (vh_notify_cfg d) bar off d2 t2 = Some (r3, (vh_notify_cfg d, d3, t3))"
      "length d3 = length d2" by blast
    from region_read_rest(3) [of vd "vh_isr_cfg d" bar off d3 t3] obtain r4 d4 t4 where
      s4: "region_handle_read_bar vi_region (isr_read_bar vd) (vh_isr_cfg d) bar off d3 t3 = Some (r4, (vh_isr_cfg d, d4, t4))"
      "length d4 = length d3" by blast
    let ?d = "d\<lparr>vh_common_cfg := cfg\<rparr>"
    have okd: "virtio_ok (?d\<lparr>vh_device := t\<rparr>)" for t using ok ret(2,3) by (simp add: virtio_ok_def)
    from virtio_signal_total [OF bars_inv_wf [OF inv] oki, of ic Low] obtain r5 i5 ic5 c5 where
      s5: "fn_signal virtio_interrupts (i, ic) (vh_config d) (IntxInterrupt Low) = Some (r5, ((i5, ic5), c5))" "virtio_irq_ok i5"
      "mech_frame (vh_config d) c5" "space_steps (vh_config d) c5" by blast
    have inv5: "bars_inv c5" by (rule bars_inv_mech_frame [OF inv s5(3)])
    have ok5: "virtio_ok (?d\<lparr>vh_device := t4, vh_config := c5\<rparr>)"
      using okd [of t4] s5(3) by (simp add: virtio_ok_def mech_frame_def)
    have eq: "vh_read_bar vd vq d bar off data irq (i, ic) =
     (case r1 of Inl e \<Rightarrow> Some (Inl e, ?d, d1, (i, ic)) | Inr (Handled _) \<Rightarrow> Some (Inr (), ?d, d1, (i, ic))
      | Inr Unhandled \<Rightarrow>
     (case r2 of Inl e \<Rightarrow> Some (Inl e, ?d\<lparr>vh_device := t2\<rparr>, d2, (i, ic)) | Inr (Handled _) \<Rightarrow> Some (Inr (), ?d\<lparr>vh_device := t2\<rparr>, d2, (i, ic))
      | Inr Unhandled \<Rightarrow>
     (case r3 of Inl e \<Rightarrow> Some (Inl e, ?d\<lparr>vh_device := t3\<rparr>, d3, (i, ic)) | Inr (Handled _) \<Rightarrow> Some (Inr (), ?d\<lparr>vh_device := t3\<rparr>, d3, (i, ic))
      | Inr Unhandled \<Rightarrow>
     (case r4 of Inl e \<Rightarrow> Some (Inl e, ?d\<lparr>vh_device := t4\<rparr>, d4, (i, ic))
      | Inr (Handled _) \<Rightarrow> if ia_active irq = IntxType then Some (r5, ?d\<lparr>vh_device := t4, vh_config := c5\<rparr>, d4, (i5, ic5))
          else Some (Inr (), ?d\<lparr>vh_device := t4\<rparr>, d4, (i, ic))
      | Inr Unhandled \<Rightarrow> Some (Inr (), ?d\<lparr>vh_device := t4\<rparr>, d4, (i, ic))))))"
      by (simp add: vh_read_bar_def s1 s2 s3 s4 s5 sig Let_def split: sum.split PciHandlerResult.split)
    have "\<exists>r d' data' i' ic'. vh_read_bar vd vq d bar off data irq (i, ic) = Some (r, (d', data', (i', ic'))) \<and>
       virtio_ok d' \<and> bars_inv (vh_config d') \<and> virtio_irq_ok i' \<and> length data' = length data \<and>
       space_steps (vh_config d) (vh_config d')"
      unfolding eq using s5(4) space_refl okd [of "vh_device d"] okd [of t2] okd [of t3] okd [of t4] ok5 inv inv5 oki s5(2) ret(3,4) s2(2) s3(2) s4(2)
      by (auto split: sum.split PciHandlerResult.split)
    then show ?thesis ..
  qed
qed

section \<open>Reads through the BARs\<close>

definition unfinished_read :: "'t VirtioPciFunction \<Rightarrow> PciBarIndex \<Rightarrow> u64 \<Rightarrow> usize \<Rightarrow> bool" where
  "unfinished_read f bar off n = hits_unfinished (vc_info (vh_common_cfg (fn_device (vf_inner f)))) bar off n"

text \<open>What a read establishes; \<open>bad\<close> says that it reached an unfinished register.\<close>

definition reads_as :: "bool \<Rightarrow> nat \<Rightarrow> config_space \<Rightarrow> ('t VirtioPciFunction \<times> bytes, unit) call \<Rightarrow> bool" where
  "reads_as bad n c m \<longleftrightarrow> m = None \<and> bad \<or>
     (\<exists>r f data. m = Some (r, (f, data)) \<and> function_ok f \<and> space_steps c (vf_config f) \<and> length data = n)"

lemma reads_as_Some [simp]:
  "reads_as bad n c (Some (r, (f, data))) \<longleftrightarrow> function_ok f \<and> space_steps c (vf_config f) \<and> length data = n"
  by (simp add: reads_as_def)

lemma vf_read_bar_total:
  assumes ok: "function_ok self" and fill: "reads_fill vd"
  shows "reads_as (unfinished_read self bar off (length data)) (length data) (vf_config self) (vf_read_bar vd vq self bar off data)"
proof -
  let ?f = "vf_inner self"
  let ?c = "vh_config (fn_device ?f)"
  have inv: "bars_inv ?c" and okd: "virtio_ok (fn_device ?f)" and oki: "virtio_irq_ok (fn_interrupt ?f)" and cap: "vf_pci_cfg self + 18 \<le> 256 \<and> vf_pci_cfg self mod 4 = 2"
    using ok by (simp_all add: function_ok_def inner_ok_def)
  from virtio_read_bar [OF bars_inv_wf [OF inv] oki, of "fn_controller ?f" bar off data]
  obtain r i d1 ic where
    w: "ih_read_bar virtio_interrupts (fn_interrupt ?f) ?c (fn_controller ?f) bar off data = Some (r, (i, d1, ?c, ic))"
      "virtio_irq_ok i" "length d1 = length data" by blast
  let ?d = "fn_device ?f"
  let ?g = "\<lparr>fn_controller = ic, fn_device = ?d, fn_interrupt = i\<rparr>"
  have okg: "function_ok (self\<lparr>vf_inner := ?g\<rparr>)" using inv okd w(2) cap by (simp add: function_ok_def inner_ok_def)
  obtain active where act: "fn_active_interrupt (virtio_handler vd vq) virtio_interrupts ?g = Some active"
    using virtio_fn.im.active_total [OF bars_inv_wf [OF inv] w(2)] by (auto simp: fn_active_interrupt_def)
  let ?irq = "\<lparr>ia_active = active, ia_signal = fn_signal virtio_interrupts\<rparr>"
  have start: "vf_read_bar vd vq self bar off data = (case r of
      Inl e \<Rightarrow> Some (Inl e, (self\<lparr>vf_inner := ?g\<rparr>, d1))
    | Inr h \<Rightarrow> if handled h then Some (Inr (), (self\<lparr>vf_inner := ?g\<rparr>, d1))
        else map_option (\<lambda>(r, d, data, i, ic). (r, (self\<lparr>vf_inner := \<lparr>fn_controller = ic, fn_device = d, fn_interrupt = i\<rparr>\<rparr>, data)))
          (vh_read_bar vd vq ?d bar off d1 ?irq (i, ic)))"
    using w(1) act by (cases "vh_read_bar vd vq ?d bar off d1 ?irq (i, ic)")
      (auto simp: vf_read_bar_def fn_read_bar_def Let_def split: sum.split)
  show ?thesis
  proof (cases "\<exists>h. r = Inr h \<and> \<not> handled h")
    case True
    then have eq: "vf_read_bar vd vq self bar off data = map_option (\<lambda>(r, d, data, i, ic). (r, (self\<lparr>vf_inner := \<lparr>fn_controller = ic, fn_device = d, fn_interrupt = i\<rparr>\<rparr>, data)))
        (vh_read_bar vd vq ?d bar off d1 ?irq (i, ic))" using start by auto
    have sig: "ia_signal ?irq = fn_signal virtio_interrupts" by simp
    from vh_read_bar_total [OF okd inv w(2) fill sig, of vq bar off d1 ic] show ?thesis
    proof (elim disjE exE conjE)
      assume "vh_read_bar vd vq ?d bar off d1 ?irq (i, ic) = None" "hits_unfinished (vc_info (vh_common_cfg ?d)) bar off (length d1)"
      with eq w(3) show ?thesis by (simp add: reads_as_def unfinished_read_def)
    next
      fix r' d' data' i' ic'
      assume "vh_read_bar vd vq ?d bar off d1 ?irq (i, ic) = Some (r', d', data', i', ic')"
        "virtio_ok d'" "bars_inv (vh_config d')" "virtio_irq_ok i'" "length data' = length d1"
        "space_steps ?c (vh_config d')"
      with eq w(3) cap show ?thesis by (simp add: function_ok_def inner_ok_def vf_config_def)
    qed
  next
    case False
    then have "\<exists>r'. vf_read_bar vd vq self bar off data = Some (r', (self\<lparr>vf_inner := ?g\<rparr>, d1))"
      using start by (cases r) auto
    with okg w(3) show ?thesis by (auto simp: vf_config_def space_refl)
  qed
qed

lemma reads_as_from: "reads_as bad n c1 m \<Longrightarrow> space_steps c c1 \<Longrightarrow> reads_as bad n c m"
  by (auto simp: reads_as_def intro: space_steps_trans)

definition unfinished_mmio :: "('t, 'q) virtio_device \<Rightarrow> 'q virtio_queue \<Rightarrow> 't VirtioPciFunction \<Rightarrow> u64 \<Rightarrow> usize \<Rightarrow> bool" where
  "unfinished_mmio vd vq f address n \<longleftrightarrow>
     (\<exists>bar off. find_mmio_region (vf_get_bar vd vq) f address (of_nat n) = Some (Some (bar, off)) \<and> unfinished_read f bar off n)"

definition unfinished_pio :: "('t, 'q) virtio_device \<Rightarrow> 'q virtio_queue \<Rightarrow> 't VirtioPciFunction \<Rightarrow> u16 \<Rightarrow> usize \<Rightarrow> bool" where
  "unfinished_pio vd vq f port n \<longleftrightarrow>
     (\<exists>bar off. find_pio_region (vf_get_bar vd vq) f port (of_nat n) = Some (Some (bar, off)) \<and> unfinished_read f bar (ucast off) n)"

lemma read_mmio_total:
  assumes "function_ok self" and "reads_fill vd"
  shows "reads_as (unfinished_mmio vd vq self address (length data)) (length data) (vf_config self)
     (read_mmio (vf_get_bar vd vq) (vf_read_bar vd vq) self address data)"
proof -
  obtain r where r: "find_mmio_region (vf_get_bar vd vq) self address (of_nat (length data)) = Some r"
    using find_bar_total [OF assms(1), of vd vq address "of_nat (length data)" True] by (auto simp: find_mmio_region_def)
  show ?thesis
  proof (cases r)
    case None
    with r assms(1) show ?thesis by (simp add: read_mmio_def Let_def space_refl)
  next
    case (Some x)
    with r vf_read_bar_total [OF assms, of "fst x" "snd x" data vq] show ?thesis
      by (cases x) (auto simp: read_mmio_def Let_def unfinished_mmio_def reads_as_def)
  qed
qed

lemma read_pio_total:
  assumes "function_ok self" and "reads_fill vd"
  shows "reads_as (unfinished_pio vd vq self port (length data)) (length data) (vf_config self)
     (read_pio (vf_get_bar vd vq) (vf_read_bar vd vq) self port data)"
proof -
  obtain r where r: "find_pio_region (vf_get_bar vd vq) self port (of_nat (length data)) = Some r"
    using find_bar_total [OF assms(1), of vd vq "ucast port" "ucast (of_nat (length data) :: u16)" False]
    by (auto simp: find_pio_region_def)
  show ?thesis
  proof (cases r)
    case None
    with r assms(1) show ?thesis by (simp add: read_pio_def Let_def space_refl)
  next
    case (Some x)
    with r vf_read_bar_total [OF assms, of "fst x" "ucast (snd x)" data vq] show ?thesis
      by (cases x) (auto simp: read_pio_def Let_def unfinished_pio_def reads_as_def)
  qed
qed

section \<open>Reads of the configuration space\<close>

lemma cs_read_checked_total:
  assumes "config_wf c" and "offset + length data < 2 ^ 64"
  shows "\<exists>r data'. cs_read_checked c offset data = Some (r, data') \<and> length data' = length data \<and>
    (access_ok offset (length data) \<longrightarrow> r = Inr ())"
proof (cases "access_ok offset (length data)")
  case True
  then have "offset + length data \<le> 256" by (simp add: access_ok_def)
  with True assms(1) show ?thesis
    by (simp add: cs_read_checked_def cs_validate_access_Ok cs_read_def read_register_def rb_read_def slice_read_def)
next
  case False
  from cs_validate_access_Err [OF assms(1) False assms(2)] obtain e where "cs_validate_access c offset data = Some (Inl e)" ..
  then show ?thesis using False by (cases e) (simp_all add: cs_read_checked_def)
qed

lemma window_access_ok:
  assumes "function_ok self" and "length data = 4"
  shows "access_ok (pci_cfg_data_offset self) (length data)"
proof -
  have "vf_pci_cfg self mod 4 = 2" using assms(1) by (simp add: function_ok_def)
  then have "vf_pci_cfg self + 14 = 4 * (vf_pci_cfg self div 4 + 4)" by presburger
  then have "4 dvd vf_pci_cfg self + 14" by (metis dvd_triv_left)
  with assms show ?thesis by (simp add: access_ok_def pci_cfg_data_offset_eq function_ok_def)
qed

text \<open>The store into the data register of the window is one a driver could make.\<close>

lemma update_window_total:
  assumes "function_ok self" and "length data = 4"
  shows "\<exists>self'. update_pci_cfg_data self data = Some self' \<and> function_ok self' \<and> space_steps (vf_config self) (vf_config self')"
proof -
  let ?c = "vf_config self"
  let ?o = "pci_cfg_data_offset self"
  let ?c' = "cs_store (patch_masked (cs_registers ?c) (cs_writable_bits ?c) ?o data) ?c"
  have wf: "config_wf ?c" and inv: "bars_inv ?c" using function_ok_wf [OF assms(1)] by simp_all
  note acc = window_access_ok [OF assms]
  then have le: "?o + length data \<le> 256" by (simp add: access_ok_def)
  have w: "cs_write_checked ?c ?o data = Some (Inr (), ?c')" by (rule cs_write_checked_Ok [OF wf acc])
  have "cs_write ?c ?o data = Some ?c'"
    using wf le by (simp add: cs_write_def write_register_def rb_write_Some)
  moreover have "function_ok (vf_set_config ?c' self)"
    using assms(1) bars_inv_guest_write [OF inv w] virtio.set_ok [of "fn_device (vf_inner self)" ?c']
    by (simp add: function_ok_def inner_ok_def vf_set_config_def vf_config_def)
  moreover have "space_steps ?c ?c'" using space_guest [OF space_refl _ w] le by simp
  moreover have "vf_config (vf_set_config ?c' self) = ?c'" by (simp add: vf_set_config_def vf_config_def)
  ultimately show ?thesis by (simp add: update_pci_cfg_data_eq)
qed

lemma invalid_window_total:
  assumes "function_ok self"
  shows "\<exists>self'. set_pci_cfg_data_invalid self = Some self' \<and> function_ok self' \<and> space_steps (vf_config self) (vf_config self')"
  using update_window_total [OF assms, of "to_le_bytes (0xFFFFFFFF :: u32)"] by (simp add: set_pci_cfg_data_invalid_eq)

text \<open>A read through the window reaches an unfinished register when the access it describes does.\<close>

definition window_unfinished :: "('t, 'q) virtio_device \<Rightarrow> 'q virtio_queue \<Rightarrow> 't VirtioPciFunction \<Rightarrow> bool" where
  "window_unfinished vd vq f \<longleftrightarrow>
     (\<exists>g bar a o' l. set_pci_cfg_data_invalid f = Some g \<and> cfg_find_bar vd vq g = Some (Some bar) \<and> bar_address bar = Some a \<and>
        access_params g = Some (o', l) \<and>
        (unfinished_mmio vd vq g (a + ucast o') (unat l) \<or> unfinished_pio vd vq g (ucast (a + ucast o')) (unat l)))"

definition prepared_as :: "bool \<Rightarrow> config_space \<Rightarrow> (bool \<times> 't VirtioPciFunction) option \<Rightarrow> bool" where
  "prepared_as bad c m \<longleftrightarrow> m = None \<and> bad \<or> (\<exists>b f. m = Some (b, f) \<and> function_ok f \<and> space_steps c (vf_config f))"

lemma prepared_as_Some [simp]: "prepared_as bad c (Some (b, f)) \<longleftrightarrow> function_ok f \<and> space_steps c (vf_config f)"
  by (simp add: prepared_as_def)

lemma window_fill:
  assumes "reads_as bad n c m" and "n \<le> 4" and "bad \<Longrightarrow> bad'"
  shows "prepared_as bad' c (m \<bind> (\<lambda>ret. case ret of
      (Inr _, (self, data)) \<Rightarrow> do { self \<leftarrow> update_pci_cfg_data self (data @ replicate (4 - n) 0xFF); Some (True, self) }
    | (Inl _, (self, data)) \<Rightarrow> do { self \<leftarrow> set_pci_cfg_data_invalid self; Some (True, self) }))"
proof (cases m)
  case None
  with assms(1,3) show ?thesis by (simp add: reads_as_def prepared_as_def)
next
  case (Some x)
  then obtain r f data where x: "x = (r, (f, data))" "function_ok f" "length data = n" "space_steps c (vf_config f)"
    using assms(1) by (auto simp: reads_as_def)
  obtain g where "set_pci_cfg_data_invalid f = Some g" "function_ok g" "space_steps c (vf_config g)"
    using invalid_window_total [OF x(2)] space_steps_trans [OF _ x(4)] by blast
  moreover obtain g' where "update_pci_cfg_data f (data @ replicate (4 - n) 0xFF) = Some g'" "function_ok g'" "space_steps c (vf_config g')"
    using update_window_total [OF x(2), of "data @ replicate (4 - n) 0xFF"] x(3) assms(2) space_steps_trans [OF _ x(4)] by auto
  ultimately show ?thesis using Some x(1) by (cases r) simp_all
qed

lemma bind_map_Some: "map_option Some m \<bind> f = m \<bind> (\<lambda>x. f (Some x))"
  by (cases m) simp_all

lemma cfg_prepare_read_total:
  assumes ok: "function_ok self" and fill: "reads_fill vd"
  shows "prepared_as (cfg_should_handle_access self offset sz \<and> window_unfinished vd vq self) (vf_config self)
    (cfg_prepare_read vd vq self offset sz)"
proof (cases "cfg_should_handle_access self offset sz")
  case False
  with ok show ?thesis by (simp add: cfg_prepare_read_eq space_refl)
next
  case True
  from invalid_window_total [OF ok] obtain g where g: "set_pci_cfg_data_invalid self = Some g" "function_ok g"
    and sg: "space_steps (vf_config self) (vf_config g)" by blast
  from cfg_find_bar_total [OF g(2), of vd vq] obtain b where b: "cfg_find_bar vd vq g = Some b"
    "\<And>bar a. b = Some bar \<Longrightarrow> bar_address bar = Some a \<Longrightarrow> unat a < 2 ^ 32" by blast
  obtain o' l where ol: "access_params g = Some (o', l)" using window_reads(2) [OF g(2)] by blast
  show ?thesis
  proof (cases "\<exists>bar a. b = Some bar \<and> bar_address bar = Some a \<and> unat l \<le> 4")
    case False
    with True g sg b(1) ol show ?thesis by (cases b) (auto simp: cfg_prepare_read_eq split: option.split)
  next
    case 2: True
    then obtain bar a where bar: "b = Some bar" "bar_address bar = Some a" and l: "unat l \<le> 4" by blast
    have "unat o' < 2 ^ 32" using unsigned_less [of o', where ?'a = nat] by simp
    with b(2) [OF bar] have sum: "unat a + unat o' < 2 ^ 64" by simp
    let ?a = "a + ucast o' :: u64"
    let ?data = "replicate (unat l) 0xFF :: bytes"
    let ?bad = "cfg_should_handle_access self offset sz \<and> window_unfinished vd vq self"
    have bad: "?bad" if "unfinished_mmio vd vq g ?a (unat l) \<or> unfinished_pio vd vq g (ucast ?a) (unat l)"
      using that True g(1) b(1) bar ol unfolding window_unfinished_def by blast
    have m: "reads_as (unfinished_mmio vd vq g ?a (unat l)) (unat l) (vf_config self) (read_mmio (vf_get_bar vd vq) (vf_read_bar vd vq) g ?a ?data)"
      and p: "reads_as (unfinished_pio vd vq g (ucast ?a) (unat l)) (unat l) (vf_config self) (read_pio (vf_get_bar vd vq) (vf_read_bar vd vq) g (ucast ?a) ?data)"
      using reads_as_from [OF read_mmio_total [OF g(2) fill, of vq ?a ?data] sg]
        reads_as_from [OF read_pio_total [OF g(2) fill, of vq "ucast ?a" ?data] sg] by simp_all
    note fills = window_fill [OF m l, of ?bad] window_fill [OF p l, of ?bad]
    show ?thesis
      using fills bad True g sg b(1) bar ol l sum
      by (auto simp: cfg_prepare_read_eq bind_map_Some Let_def not_less)
  qed
qed

lemma fn_read_config_total:
  assumes "function_ok self" and "offset + length data < 2 ^ 64"
  shows "\<exists>r inner data'. fn_read_config (virtio_handler vd vq) (vf_inner self) offset data = Some (r, (inner, data')) \<and>
    function_ok (self\<lparr>vf_inner := inner\<rparr>) \<and> vf_config (self\<lparr>vf_inner := inner\<rparr>) = vf_config self \<and>
    length data' = length data \<and> (access_ok offset (length data) \<longrightarrow> r = Inr ())"
proof -
  from cs_read_checked_total [of "vf_config self"] function_ok_wf [OF assms(1)] assms(2) obtain r data' where
    "cs_read_checked (vf_config self) offset data = Some (r, data')" "length data' = length data" "access_ok offset (length data) \<longrightarrow> r = Inr ()"
    by blast
  with assms(1) show ?thesis
    by (simp add: fn_read_config_def virtio_handler_def default_dh_prepare_read_config_def vf_config_def function_ok_def inner_ok_def)
qed

lemma vf_read_config_total:
  assumes "function_ok self" and "reads_fill vd" and "offset + length data < 2 ^ 64"
  shows "vf_read_config vd vq self offset data = None \<and> cfg_should_handle_access self offset (length data) \<and> window_unfinished vd vq self \<or>
    (\<exists>r f data'. vf_read_config vd vq self offset data = Some (r, (f, data')) \<and> function_ok f \<and> space_steps (vf_config self) (vf_config f) \<and>
       length data' = length data \<and> (access_ok offset (length data) \<longrightarrow> r = Inr ()))"
proof (cases "cfg_prepare_read vd vq self offset (length data)")
  case None
  with cfg_prepare_read_total [OF assms(1,2), of offset "length data" vq] show ?thesis
    by (simp add: prepared_as_def vf_read_config_def)
next
  case (Some x)
  then obtain b f where x: "x = (b, f)" "function_ok f" "space_steps (vf_config self) (vf_config f)"
    using cfg_prepare_read_total [OF assms(1,2), of offset "length data" vq] by (cases x) auto
  from fn_read_config_total [OF x(2) assms(3), of vd vq] Some x(1,3) show ?thesis by (auto simp: vf_read_config_def)
qed

end
