(* ===== verification/Virtio_Writes.thy ===== *)
theory Virtio_Writes
  imports Virtio_Reads
begin

text \<open>
  Writes of a virtio function: what they do to its configuration space. A write through a BAR, or through the
  window, leaves the space alone; a write of the space stores what the driver could store and
  nothing else, and fails only when the space rejects it.
\<close>

section \<open>Writes through the BARs\<close>

lemma after_True [simp]: "after m (\<lambda>_. True)"
  by (simp add: after_def)

lemma notify_config:
  "after (fn_notify (virtio_handler vd vq) f e) (\<lambda>a. fst a = Inr (Some e) \<and> vh_config (fn_device (snd a)) = vh_config (fn_device f))"
proof -
  have "after (vh_on_config_update vd d e) (\<lambda>d'. vh_config d' = vh_config d)" for d :: "'a VirtioDeviceHandler"
    by (cases e) (auto simp: vh_on_config_update_def intro: after_any)
  then show ?thesis by (simp add: fn_notify_def virtio_handler_def)
qed

lemma fn_write_bar_config:
  assumes "inner_ok f" and "length data \<le> 8"
  shows "after (fn_write_bar (virtio_handler vd vq) virtio_interrupts f bar off data) (\<lambda>a. vh_config (fn_device (snd a)) = vh_config (fn_device f))"
proof -
  let ?c = "vh_config (fn_device f)"
  have inv: "bars_inv ?c" and okd: "virtio_ok (fn_device f)" and oki: "virtio_irq_ok (fn_interrupt f)"
    using assms(1) by (simp_all add: inner_ok_def)
  from virtio_write_bar [OF bars_inv_wf [OF inv] oki, of "fn_controller f" bar off data] obtain r i ic where
    w: "ih_write_bar virtio_interrupts (fn_interrupt f) ?c (fn_controller f) bar off data = Some (r, (i, ?c, ic))" by blast
  have wr: "after (vh_write_bar vd vq (fn_device f) bar off data irq w) (\<lambda>a. vh_config (fst (snd a)) = ?c)" for irq w
    using vh_write_bar_total [OF okd assms(2), of vd bar off vq irq w] by (auto simp: after_def split: if_splits)
  have no: "after (fn_notify (virtio_handler vd vq) g e) (\<lambda>a. vh_config (fn_device (snd a)) = ?c)" if "vh_config (fn_device g) = ?c" for g e
    using notify_config [of vd vq g e] that by (simp add: after_def)
  show ?thesis
    unfolding fn_write_bar_def
    by (auto simp: w Let_def no wr case_prod_unfold intro!: after_any split: sum.split PciHandlerResult.split option.split)
qed

lemma bar_write_config:
  assumes "function_ok self" and "length data \<le> 8"
  shows "after (vf_write_bar vd vq self bar off data) (\<lambda>a. vf_config (snd a) = vf_config self)"
    and "after (write_mmio (vf_get_bar vd vq) (vf_write_bar vd vq) self address data) (\<lambda>a. vf_config (snd a) = vf_config self)"
    and "after (write_pio (vf_get_bar vd vq) (vf_write_bar vd vq) self port data) (\<lambda>a. vf_config (snd a) = vf_config self)"
proof -
  have w: "after (vf_write_bar vd vq self bar off data) (\<lambda>a. vf_config (snd a) = vf_config self)" for bar off
    using fn_write_bar_config [of "vf_inner self" data vd vq bar off] assms
    by (simp add: function_ok_def vf_write_bar_def on_inner_def vf_config_def case_prod_unfold)
  then show "after (vf_write_bar vd vq self bar off data) (\<lambda>a. vf_config (snd a) = vf_config self)" .
  show "after (write_mmio (vf_get_bar vd vq) (vf_write_bar vd vq) self address data) (\<lambda>a. vf_config (snd a) = vf_config self)"
    unfolding write_mmio_def Let_def by (rule after_skip) (auto simp: w split: option.split)
  show "after (write_pio (vf_get_bar vd vq) (vf_write_bar vd vq) self port data) (\<lambda>a. vf_config (snd a) = vf_config self)"
    unfolding write_pio_def Let_def by (rule after_skip) (auto simp: w split: option.split)
qed

lemma window_write_config:
  assumes ok: "function_ok self"
  shows "after (cfg_process_write vd vq self offset sz) (\<lambda>a. vf_config (snd a) = vf_config self)"
proof -
  let ?n = "unat (dword_at (cs_registers (vf_config self)) (vf_pci_cfg self + 10))"
  let ?data = "take ?n (take 4 (drop (vf_pci_cfg self + 14) (cs_registers (vf_config self))))"
  have "length ?data \<le> 8" by simp
  note w = bar_write_config(2,3) [OF ok this, of vd vq]
  show ?thesis
    unfolding cfg_process_write_eq
    apply (simp del: after_simps(3), intro impI)
    apply (rule after_skip)
    apply (simp del: after_simps(3) add: window_reads [OF ok] split: option.split)
    using w apply (auto simp: Let_def case_prod_unfold not_less min_def)
    done
qed

section \<open>Writes of the configuration space\<close>

lemma inner_write_stores:
  assumes ok: "inner_ok f" and bound: "offset + length data < 2 ^ 64"
  shows "after (fn_write_config (virtio_handler vd vq) virtio_interrupts f offset data)
    (\<lambda>a. (\<exists>r. cs_write_checked (vh_config (fn_device f)) offset data = Some (r, vh_config (fn_device (snd a)))) \<and>
       (access_ok offset (length data) \<longrightarrow> \<not> isl (fst a)))"
proof -
  let ?c = "vh_config (fn_device f)"
  have inv: "bars_inv ?c" and oki: "virtio_irq_ok (fn_interrupt f)" using ok by (simp_all add: inner_ok_def)
  show ?thesis
  proof (cases "access_ok offset (length data)")
    case False
    from cs_write_checked_Err [OF bars_inv_wf [OF inv] False bound] obtain e where "cs_write_checked ?c offset data = Some (Inl e, ?c)" ..
    then show ?thesis using False by (auto simp: fn_write_config_def Let_def intro!: after_any)
  next
    case True
    let ?c' = "cs_store (patch_masked (cs_registers ?c) (cs_writable_bits ?c) offset data) ?c"
    have w: "cs_write_checked ?c offset data = Some (Inr (), ?c')" by (rule cs_write_checked_Ok [OF bars_inv_wf [OF inv] True])
    have "config_wf ?c'" using bars_inv_guest_write [OF inv w] by simp
    from virtio_on_write_config [OF this oki, of "fn_controller f" offset "length data"] obtain i ic where
      i: "ih_on_write_config virtio_interrupts (fn_interrupt f) ?c' (fn_controller f) offset (length data) = Some (Inr (Handled None), (i, ?c', ic))"
      by blast
    have no: "after (fn_notify (virtio_handler vd vq) g e) (\<lambda>a. vh_config (fn_device (snd a)) = ?c' \<and> \<not> isl (fst a))"
      if "vh_config (fn_device g) = ?c'" for g e using notify_config [of vd vq g e] that by (auto simp: after_def)
    have "after (fn_handle_spaces (virtio_handler vd vq) g prev offset) (\<lambda>a. vh_config (fn_device (snd a)) = ?c' \<and> \<not> isl (fst a))"
      if "vh_config (fn_device g) = ?c'" for g prev
      unfolding fn_handle_spaces_def using that
      by (intro after_skip) (simp add: no [OF that] Let_def split: option.split)
    note spaces = after_mono [OF this, where Q = "\<lambda>a. ?c' = vh_config (fn_device (snd a)) \<and> \<not> isl (fst a)"]
    show ?thesis
      unfolding fn_write_config_def
      by (rule after_skip) (simp add: spaces True w i virtio_handler_ops default_dh_on_write_config_def Let_def)
  qed
qed

text \<open>A configuration write, together with what Virtio\_Pci shows of it.\<close>

lemma vf_write_config_total:
  assumes "function_ok self" and "offset + length data < 2 ^ 64"
  shows "if config_write_panics vd vq self offset data then vf_write_config vd vq self offset data = None
    else \<exists>r r0 f. vf_write_config vd vq self offset data = Some (r, f) \<and> function_ok f \<and>
      cs_write_checked (vf_config self) offset data = Some (r0, vf_config f) \<and> (access_ok offset (length data) \<longrightarrow> \<not> isl r)"
proof -
  have ok: "inner_ok (vf_inner self)" using assms(1) by (simp add: function_ok_def)
  from inner_write_config_total [OF this assms(2), of vd vq] obtain r g where
    g: "fn_write_config (virtio_handler vd vq) virtio_interrupts (vf_inner self) offset data = Some (r, g)" "inner_ok g" by blast
  from afterD [OF inner_write_stores [OF ok assms(2)] g(1)] obtain r0 where
    w: "cs_write_checked (vf_config self) offset data = Some (r0, vh_config (fn_device g))" "access_ok offset (length data) \<longrightarrow> \<not> isl r"
    by (auto simp: vf_config_def)
  let ?g = "self\<lparr>vf_inner := g\<rparr>"
  have okg: "function_ok ?g" using g(2) assms(1) by (simp add: function_ok_def)
  show ?thesis
  proof (cases r)
    case (Inl e)
    with g(1) w okg show ?thesis by (auto simp: config_write_panics_def vf_write_config_def on_inner_def bind_result_def vf_config_def)
  next
    case (Inr u)
    with g(1) have panics: "config_write_panics vd vq self offset data \<longleftrightarrow>
        cfg_should_handle_access ?g offset (length data) \<and> window_write_panics vd vq ?g" by (simp add: config_write_panics_def)
    have "vf_config f = vh_config (fn_device g)" if "cfg_process_write vd vq ?g offset (length data) = Some (b, f)" for b f
      using afterD [OF window_write_config [OF okg] that] by (simp add: vf_config_def)
    with cfg_process_write_total [OF okg, of offset "length data" vd vq] g(1) w(1) Inr show ?thesis
      unfolding panics by (auto simp: vf_write_config_def on_inner_def bind_result_def)
  qed
qed

lemma vf_write_config_steps:
  assumes "function_ok self" and "offset + length data < 2 ^ 64"
  shows "after (vf_write_config vd vq self offset data) (\<lambda>(r, f). function_ok f \<and> space_steps (vf_config self) (vf_config f) \<and>
    (access_ok offset (length data) \<longrightarrow> \<not> isl r))"
  using vf_write_config_total [OF assms, of vd vq] space_guest [OF space_refl assms(2)]
  by (auto simp: after_def split: if_splits)

end
