(* ===== verification/Vhost_Safety.thy ===== *)
theory Vhost_Safety
  imports Vhost_Program Virtio_Writes
begin

text \<open>
  The program under a guest. The invariant of the function holds in every state of the main loop, whatever was
  requested before; with it the requests the program may not survive can be listed, and aligned
  accesses to the configuration space are shown to be served.
\<close>

section \<open>The invariant of the function of the program\<close>

definition program_ok :: "('w, 'c) vhost_pci \<Rightarrow> bool" where
  "program_ok f \<longleftrightarrow> function_ok f \<and> caps_inv (vf_config f) virtio_caps \<and>
     cs_bars (vf_config f) = [Some virtio_bar, None, None, None, None, None]"

lemma program_ok_function: "program_ok f \<Longrightarrow> function_ok f"
  by (simp add: program_ok_def)

lemma program_ok_steps:
  assumes "program_ok f" and "function_ok g" and "space_steps (vf_config f) (vf_config g)"
  shows "program_ok g"
  using assms space_steps_keep [OF assms(3), of virtio_caps] function_ok_wf [of f] by (auto simp: program_ok_def)

lemma program_ok_enter [simp]: "program_ok (enter h f) = program_ok f"
  by (simp add: program_ok_def enter_def function_ok_def inner_ok_def vf_config_def)

text \<open>
  The configuration of the crate \<open>virtio_device\<close> fills the buffer of a read, since a slice keeps its length.
\<close>

definition config_fills :: "('w, 'c, 'h, 'q) vhost_env \<Rightarrow> bool" where
  "config_fills ev \<longleftrightarrow> (\<forall>c off data. length (vcf_read_config (ve_config ev) c off data) = length data)"

lemma vhost_reads_fill: "config_fills ev \<Longrightarrow> reads_fill (vhost_virtio ev)"
  by (simp add: config_fills_def reads_fill_def vhost_virtio_def Let_def)

lemma enter_config [simp]: "vf_config (enter h f) = vf_config f" "vf_pci_cfg (enter h f) = vf_pci_cfg f"
  by (simp_all add: enter_def vf_config_def)

section \<open>Accesses of the configuration space\<close>

lemma access_in_first: "access_ok a n \<Longrightarrow> function_index_and_offset a = Some (0, a)"
  by (auto simp: access_ok_def function_split_eq)

lemma from_little_endian_Ok:
  "access_ok a (length data) \<Longrightarrow> \<exists>input. from_little_endian e data SwapDword = (Inr (), input) \<and> length input = length data"
  by (auto simp: access_ok_def from_little_endian_def swap_size_def)

lemma to_little_endian_Ok:
  "access_ok a (length data) \<Longrightarrow> \<exists>answer. to_little_endian e data SwapDword = (Inr (), answer) \<and> length answer = length data"
  by (auto simp: access_ok_def to_little_endian_def swap_size_def)

text \<open>The configuration write of a request in which the device panics.\<close>

definition config_request_panics :: "endian \<Rightarrow> ('w, 'c, 'q) sel4_env \<Rightarrow> ('w, 'c) vhost_pci \<Rightarrow> u64 \<Rightarrow> nat \<Rightarrow> bytes \<Rightarrow> bool" where
  "config_request_panics e ev f a n d \<longleftrightarrow>
     config_write_panics (vhost_virtio ev) (queue_ops ev) f (unat a) (snd (from_little_endian e (take n d) SwapDword))"

lemma config_write_served:
  assumes ok: "program_ok f" and acc: "access_ok (unat a) n" and len: "length d = 8"
  shows "if config_request_panics e ev f a n d then pci_config_write e ev f a n d = None
    else \<exists>g. pci_config_write e ev f a n d = Some g \<and> program_ok g \<and>
      cs_write_checked (vf_config f) (unat a) (snd (from_little_endian e (take n d) SwapDword)) = Some (Inr (), vf_config g)"
proof -
  have n: "n \<le> 4" "length (take n d) = n" using acc len by (auto simp: access_ok_def)
  from from_little_endian_Ok [of "unat a" "take n d" e] acc n(2) obtain input where
    input: "from_little_endian e (take n d) SwapDword = (Inr (), input)" "length input = n" by auto
  have bound: "unat a + length input < 2 ^ 64" using acc input(2) by (auto simp: access_ok_def)
  note fok = program_ok_function [OF ok]
  have eq: "pci_config_write e ev f a n d = unwrap_access (vf_write_config (vhost_virtio ev) (queue_ops ev) f (unat a) input)"
    using n input acc access_in_first [OF acc]
    by (simp add: pci_config_write_def write_config_le_def dev_write_config_def vp_write_fn_config_def)
  note w = vf_write_config_total [OF fok bound, of "vhost_virtio ev" "queue_ops ev"]
  show ?thesis
  proof (cases "config_request_panics e ev f a n d")
    case True
    with w eq input(1) show ?thesis by (simp add: config_request_panics_def unwrap_access_def)
  next
    case False
    with w acc input obtain r r0 g where
      g: "vf_write_config (vhost_virtio ev) (queue_ops ev) f (unat a) input = Some (r, g)" "function_ok g"
        "cs_write_checked (vf_config f) (unat a) input = Some (r0, vf_config g)" "\<not> isl r"
      by (auto simp: config_request_panics_def)
    have "r0 = Inr ()" using cs_write_checked_Ok [of "vf_config f" "unat a" input] function_ok_wf [OF fok] acc input(2) g(3) by simp
    moreover have "program_ok g" by (rule program_ok_steps [OF ok g(2) space_guest [OF space_refl bound g(3)]])
    moreover have "pci_config_write e ev f a n d = Some g"
      using g(1,4) eq by (cases r) (simp_all add: unwrap_access_def)
    ultimately show ?thesis using False g(3) input(1) by auto
  qed
qed

lemma config_read_plain:
  assumes ok: "program_ok f" and acc: "access_ok (unat a) n" and out: "\<not> cfg_should_handle_access f (unat a) n"
  shows "pci_config_read e ev f a n =
    Some (f, snd (to_little_endian e (take n (drop (unat a) (cs_registers (vf_config f)))) SwapDword) @ replicate (8 - n) 0xFF)"
proof -
  let ?data = "take n (drop (unat a) (cs_registers (vf_config f)))"
  have wf: "config_wf (vf_config f)" using function_ok_wf [OF program_ok_function [OF ok]] by simp
  have n: "n \<le> 4" "unat a + n \<le> 256" using acc by (auto simp: access_ok_def)
  have "length ?data = n" using wf n(2) by simp
  with to_little_endian_Ok [of "unat a" ?data e] acc obtain answer where
    answer: "to_little_endian e ?data SwapDword = (Inr (), answer)" by auto
  have "cs_read_checked (vf_config f) (unat a) (replicate n 0xFF) = Some (Inr (), ?data)"
    using wf acc n by (simp add: cs_read_checked_def cs_validate_access_Ok cs_read_def read_register_def rb_read_def slice_read_def)
  with out have "vf_read_config (vhost_virtio ev) (queue_ops ev) f (unat a) (replicate n 0xFF) = Some (Inr (), (f, ?data))"
    by (simp add: vf_read_config_def cfg_prepare_read_eq fn_read_config_def virtio_handler_def default_dh_prepare_read_config_def vf_config_def)
  then show ?thesis using n answer access_in_first [OF acc]
    by (simp add: pci_config_read_def read_config_le_def dev_read_config_def vp_read_fn_config_def unwrap_access_def bind_result_def)
qed

lemma config_read_served:
  assumes ok: "program_ok f" and fills: "config_fills ev" and acc: "access_ok (unat a) n"
  shows "pci_config_read e ev f a n = None \<and> cfg_should_handle_access f (unat a) n \<and> window_unfinished (vhost_virtio ev) (queue_ops ev) f \<or>
    (\<exists>g answer. pci_config_read e ev f a n = Some (g, answer) \<and> program_ok g \<and> length answer = 8)"
proof -
  have n: "n \<le> 4" "unat a + n \<le> 256" using acc by (auto simp: access_ok_def)
  let ?ones = "replicate n (0xFF :: u8)"
  have bound: "unat a + length ?ones < 2 ^ 64" using n by simp
  have le: "pci_config_read e ev f a n = do {
      (r, g, data) \<leftarrow> vf_read_config (vhost_virtio ev) (queue_ops ev) f (unat a) ?ones;
      case r of Inl _ \<Rightarrow> None | Inr _ \<Rightarrow>
        (case to_little_endian e data SwapDword of (Inl _, _) \<Rightarrow> None | (Inr _, data) \<Rightarrow> Some (g, data @ replicate (8 - n) 0xFF))
    }"
    using n access_in_first [OF acc]
    by (auto simp: pci_config_read_def read_config_le_def dev_read_config_def vp_read_fn_config_def unwrap_access_def bind_result_def
        Let_def split: option.split sum.split prod.split)
  from vf_read_config_total [OF program_ok_function [OF ok] vhost_reads_fill [OF fills] bound, of "queue_ops ev"] acc
  show ?thesis
  proof (elim disjE exE conjE)
    fix r g data'
    assume g: "vf_read_config (vhost_virtio ev) (queue_ops ev) f (unat a) ?ones = Some (r, (g, data'))" "function_ok g"
      "space_steps (vf_config f) (vf_config g)" "length data' = length ?ones"
      "access_ok (unat a) (length ?ones) \<longrightarrow> r = Inr ()"
    then have r: "r = Inr ()" using acc by simp
    from to_little_endian_Ok [of "unat a" data' e] acc g(4) obtain answer where
      "to_little_endian e data' SwapDword = (Inr (), answer)" "length answer = n" by auto
    with le g(1) r n program_ok_steps [OF ok g(2,3)] show ?thesis by simp
  qed (use le in simp)
qed

section \<open>Memory accesses\<close>

lemma memory_write_outcome:
  assumes ok: "program_ok f" and "n \<le> 8"
  shows "if mmio_write_panics (vhost_virtio ev) (queue_ops ev) f a (take n d) then mmio_write ev f a n d = None
    else \<exists>r g. vp_write_mmio ev f a (take n d) = Some (r, g) \<and> program_ok g \<and>
      mmio_write ev f a n d = (if isl r then None else Some g)"
proof -
  note fok = program_ok_function [OF ok]
  have len: "length (take n d) \<le> 8" using assms(2) by simp
  note w = write_mmio_total [OF fok len, of "vhost_virtio ev" "queue_ops ev" a, folded vp_write_mmio_def]
  show ?thesis
  proof (cases "mmio_write_panics (vhost_virtio ev) (queue_ops ev) f a (take n d)")
    case True
    with w show ?thesis by (simp add: mmio_write_def unwrap_access_def)
  next
    case False
    with w obtain r g where g: "vp_write_mmio ev f a (take n d) = Some (r, g)" "function_ok g" by auto
    have "vf_config g = vf_config f"
      using afterD [OF bar_write_config(2) [OF fok len], of "vhost_virtio ev" "queue_ops ev" a "(r, g)"] g(1)
      by (simp add: vp_write_mmio_def)
    with program_ok_steps [OF ok g(2)] have "program_ok g" by (simp add: space_refl)
    with False g(1) assms(2) show ?thesis by (auto simp: mmio_write_def unwrap_access_def split: sum.split)
  qed
qed

lemma memory_read_outcome:
  assumes ok: "program_ok f" and fills: "config_fills ev" and "n \<le> 8"
  shows "mmio_read ev f a n = None \<and> unfinished_mmio (vhost_virtio ev) (queue_ops ev) f a n \<or>
    (\<exists>r g data. vp_read_mmio ev f a (replicate n 0xFF) = Some (r, (g, data)) \<and> program_ok g \<and> length data = n \<and>
       mmio_read ev f a n = (if isl r then None else Some (g, data @ replicate (8 - n) 0xFF)))"
proof -
  from read_mmio_total [OF program_ok_function [OF ok] vhost_reads_fill [OF fills], of "queue_ops ev" a "replicate n 0xFF"]
  consider (none) "vp_read_mmio ev f a (replicate n 0xFF) = None" "unfinished_mmio (vhost_virtio ev) (queue_ops ev) f a n"
    | (some) r g data where "vp_read_mmio ev f a (replicate n 0xFF) = Some (r, (g, data))" "function_ok g"
        "space_steps (vf_config f) (vf_config g)" "length data = n"
    by (auto simp: reads_as_def vp_read_mmio_def)
  then show ?thesis
  proof cases
    case none
    then show ?thesis by (simp add: mmio_read_def unwrap_access_def)
  next
    case some
    with program_ok_steps [OF ok some(2,3)] assms(3) show ?thesis
      by (auto simp: mmio_read_def unwrap_access_def split: sum.split)
  qed
qed

section \<open>A served request keeps the invariant\<close>

lemma config_write_keeps:
  assumes ok: "program_ok f"
  shows "after (pci_config_write e ev f a n d) program_ok"
proof -
  have w: "after (vf_write_config (vhost_virtio ev) (queue_ops ev) f off data) (\<lambda>(r, g). \<not> isl r \<longrightarrow> program_ok g)"
    if "off < 256" "length data \<le> 8" for off data
  proof -
    from that have bound: "off + length data < 2 ^ 64" by simp
    from vf_write_config_steps [OF program_ok_function [OF ok] bound, of "vhost_virtio ev" "queue_ops ev"]
    show ?thesis by (rule after_mono) (use program_ok_steps [OF ok] in auto)
  qed
  have "after (dev_write_config (vp_write_fn_config ev) f off data) (\<lambda>(r, g). \<not> isl r \<longrightarrow> program_ok g)"
    if "length data \<le> 8" for off data
    using w [of off data] w [OF _ that] that by (auto simp: dev_write_config_def function_split_eq vp_write_fn_config_def div_eq_0_iff)
  note w = this
  have "after (write_config_le e (dev_write_config (vp_write_fn_config ev)) f off (take n d)) (\<lambda>(r, g). \<not> isl r \<longrightarrow> program_ok g)"
    if "n \<le> 8" for off
  proof -
    obtain r input where input: "from_little_endian e (take n d) SwapDword = (r, input)" by fastforce
    then have "length input = length (take n d)" by (auto simp: from_little_endian_def split: if_splits)
    with that have "length input \<le> 8" by simp
    from w [OF this] show ?thesis by (simp add: write_config_le_def input split: sum.split)
  qed
  then show ?thesis by (simp add: pci_config_write_def unwrap_access_after)
qed

lemma config_read_keeps:
  assumes ok: "program_ok f" and fills: "config_fills ev"
  shows "after (pci_config_read e ev f a n) (\<lambda>x. program_ok (fst x))"
proof -
  have r: "after (vf_read_config (vhost_virtio ev) (queue_ops ev) f off data) (\<lambda>(r, g, _). \<not> isl r \<longrightarrow> program_ok g)"
    if "off < 256" "length data \<le> 8" for off data
  proof -
    from that have "off + length data < 2 ^ 64" by simp
    from vf_read_config_total [OF program_ok_function [OF ok] vhost_reads_fill [OF fills] this, of "queue_ops ev"]
    show ?thesis using program_ok_steps [OF ok] by (auto simp: after_def)
  qed
  have "after (dev_read_config (vp_read_fn_config ev) f off data) (\<lambda>(r, g, _). \<not> isl r \<longrightarrow> program_ok g)"
    if "length data \<le> 8" for off data
    using r [OF _ that] by (auto simp: dev_read_config_def function_split_eq vp_read_fn_config_def div_eq_0_iff)
  then have "after (read_config_le e (dev_read_config (vp_read_fn_config ev)) f off data) (\<lambda>(r, g, _). \<not> isl r \<longrightarrow> program_ok g)"
    if "length data \<le> 8" for off data
    unfolding read_config_le_def after_bind_result
    by (rule after_mono) (use that in \<open>auto simp: Let_def split: sum.split prod.split\<close>)
  then show ?thesis by (simp add: pci_config_read_def unwrap_access_after case_prod_unfold)
qed

lemma serve_keeps:
  assumes ok: "program_ok f" and fills: "config_fills ev"
  shows "after (serve e ev f request) (\<lambda>a. program_ok (snd a))"
proof -
  have "after (mmio_write ev f a n d) program_ok" for a n d
    using memory_write_outcome [OF ok, of n ev a d] by (cases "n \<le> 8") (auto simp: after_def mmio_write_def split: if_splits)
  moreover have "after (mmio_read ev f a n) (\<lambda>x. program_ok (fst x))" for a n
    using memory_read_outcome [OF ok fills, of n a] by (cases "n \<le> 8") (auto simp: after_def mmio_read_def split: if_splits)
  ultimately show ?thesis using config_write_keeps [OF ok, where ev = ev] config_read_keeps [OF ok fills] ok
    by (simp add: serve_def Let_def split_beta split: AddressSpace.split IoOperation.split)
qed

lemma config_fills_bound [simp]: "config_fills (bound_env k b io ev) = config_fills ev"
  by (simp add: config_fills_def bound_env_def)

lemma handle_request_keeps:
  assumes "handle_request e k b io ev (f, h) request = Some (data, f', h')" and "program_ok f" and "config_fills ev"
  shows "program_ok f'"
proof -
  from assms(1) have s: "serve e ev (enter h f) request = Some (data, f')"
    by (auto simp: handle_request_def leave_def bind_eq_Some_conv)
  from afterD [OF serve_keeps s] assms(2,3) show ?thesis by simp
qed

lemma model_serves_program_ok:
  assumes "model_serves e k b ffi ev m h m' h'" and "program_ok (dm_device m)" and "config_fills ev"
  shows "program_ok (dm_device m')"
  using assms
proof (induction rule: model_serves.induct)
  case (model_serves_step m h u m1 h1 m2 h2)
  from model_step_device [OF model_serves_step.hyps(1)] model_serves_step.prems
  have "program_ok (dm_device m1)" by (auto dest: handle_request_keeps)
  with model_serves_step.IH model_serves_step.prems show ?case by blast
qed simp

lemma device_model_program_ok:
  assumes "device_model_new k b ev io gm config h = Some m"
  shows "program_ok (dm_device m)"
proof -
  obtain d where id: "unat (ucast (vd_device_type (vhost_virtio (bound_env k b io ev)) d) :: u16) + 0x1040 < 2 ^ 16"
    and f: "virtio_function_new (vhost_virtio (bound_env k b io ev)) pci_device_class pci_sub_class (LineFixed 0) [] d = Some (Inr (dm_device m))"
    by (rule device_model_new_function [OF assms])
  obtain g where g: "virtio_function_new (vhost_virtio (bound_env k b io ev)) pci_device_class pci_sub_class (LineFixed 0) [] d = Some (Inr g)"
    "function_ok g" "built 6 (vf_config g)"
    by (rule virtio_new_Some [OF id])
  have "g = dm_device m" using f g(1) by simp
  with g show ?thesis by (simp add: program_ok_def built_def virtio_caps_def)
qed

lemma device_model_window:
  assumes "device_model_new k b ev io gm config h = Some m"
  shows "vf_pci_cfg (dm_device m) = 0x86"
proof -
  obtain d where id: "unat (ucast (vd_device_type (vhost_virtio (bound_env k b io ev)) d) :: u16) + 0x1040 < 2 ^ 16"
    and f: "virtio_function_new (vhost_virtio (bound_env k b io ev)) pci_device_class pci_sub_class (LineFixed 0) [] d = Some (Inr (dm_device m))"
    by (rule device_model_new_function [OF assms])
  obtain g where "virtio_function_new (vhost_virtio (bound_env k b io ev)) pci_device_class pci_sub_class (LineFixed 0) [] d = Some (Inr g)"
    "vf_pci_cfg g = 0x86"
    by (rule virtio_new_Some [OF id])
  with f show ?thesis by simp
qed

text \<open>The window of the built function lies behind its registers, so a write of the command register does not reach it.\<close>

lemma command_write_plain:
  assumes "device_model_new k b ev io gm config h = Some m"
  shows "\<not> config_request_panics e ev' (enter h2 (dm_device m)) 4 2 d" and "\<not> cfg_should_handle_access (enter h3 (dm_device m)) 4 2"
  using device_model_window [OF assms]
  by (auto simp: config_request_panics_def config_write_panics_def cfg_should_handle_access_eq pci_cfg_data_offset_eq
      from_little_endian_def range_overlaps_def checked_add_def)

lemma wait_kernel_interrupts: "\<exists>h'. ic_calls wait_kernel b io cs h = Some h'"
proof (induction cs arbitrary: h)
  case (Cons c cs)
  have "\<exists>h'. ic_call wait_kernel b io c h = Some h'"
    by (cases c) (auto simp: ic_set_interrupt_def ic_send_msi_def iface_set_interrupt_def iface_send_msi_def sys_call_def
      wait_kernel_def expect_result_def)
  with Cons.IH show ?case by auto
qed simp

section \<open>The states of the main loop\<close>

lemma loop_program_ok:
  assumes "device_model_new k b ev io gm config h = Some m" and "model_serves e k b ffi ev m h m' h'" and "config_fills ev"
  shows "program_ok (dm_device m')"
  by (rule model_serves_program_ok [OF assms(2) device_model_program_ok [OF assms(1)] assms(3)])

lemma sample_loop:
  obtains m where "device_model_new wait_kernel b sel4_sample idle_interface [] sample_config [] = Some m" and "config_fills sel4_sample"
proof -
  have "config_fills sel4_sample" by (simp add: config_fills_def sel4_sample_def sample_env_with_def)
  with sample_model that show thesis by blast
qed

text \<open>
  C4: In every state of the main loop, whatever the guest requested before, the function satisfies its invariant, still
  has the one BAR and the six capabilities it was built with, in their places and in their order, and
  the device has a vector for each of its two queues and as many descriptors for interrupts as for
  notifications.
\<close>

theorem loop_invariant:
  assumes "device_model_new k b ev io gm config h = Some m" and "model_serves e k b ffi ev m h m' h'" and "config_fills ev"
  shows "function_ok (dm_device m') \<and> caps_inv (vf_config (dm_device m')) virtio_caps \<and>
    cs_bars (vf_config (dm_device m')) = [Some virtio_bar, None, None, None, None, None] \<and>
    length (vn_queue_msix_vector (dev (dm_device m'))) = 2 \<and>
    length (vn_irqfds (dev (dm_device m'))) = length (vn_ioeventfds (dev (dm_device m')))"
  using model_serves_shape [OF assms(2) device_model_new_device [OF assms(1)]] loop_program_ok [OF assms]
  by (simp add: device_shape_def program_ok_def)

lemma loop_invariant_witness:
  "\<forall>b :: sel4_bindings. \<exists>m. device_model_new wait_kernel b sel4_sample idle_interface [] sample_config [] = Some m \<and>
     function_ok (dm_device m) \<and> caps_inv (vf_config (dm_device m)) virtio_caps"
proof
  fix b :: sel4_bindings
  obtain m where m: "device_model_new wait_kernel b sel4_sample idle_interface [] sample_config [] = Some m" "config_fills sel4_sample"
    by (rule sample_loop)
  from loop_invariant [OF m(1) model_serves_refl m(2)] m(1)
  show "\<exists>m. device_model_new wait_kernel b sel4_sample idle_interface [] sample_config [] = Some m \<and>
     function_ok (dm_device m) \<and> caps_inv (vf_config (dm_device m)) virtio_caps" by blast
qed

section \<open>Requests the program may not survive\<close>

definition may_end :: "endian \<Rightarrow> ('w, 'c, 'q) sel4_env \<Rightarrow> ('w, 'c) vhost_pci \<Rightarrow> IoRequest \<Rightarrow> bool" where
  "may_end e ev f request \<longleftrightarrow>
     (let a = req_address request; n = unat (req_size request) in
      case (req_address_space request, req_operation request) of
        (PciConfigSpace pcidev, IoWrite d) \<Rightarrow> pcidev = 0 \<and> (\<not> access_ok (unat a) n \<or> config_request_panics e ev f a n d)
      | (PciConfigSpace pcidev, IoRead) \<Rightarrow> pcidev = 0 \<and> (\<not> access_ok (unat a) n \<or>
          cfg_should_handle_access f (unat a) n \<and> window_unfinished (vhost_virtio ev) (queue_ops ev) f)
      | (MmioSpace, IoWrite d) \<Rightarrow> n > 8 \<or> (\<exists>err g. vp_write_mmio ev f a (take n d) = Some (Inl err, g)) \<or>
          mmio_write_panics (vhost_virtio ev) (queue_ops ev) f a (take n d)
      | (MmioSpace, IoRead) \<Rightarrow> n > 8 \<or> (\<exists>err g. vp_read_mmio ev f a (replicate n 0xFF) = Some (Inl err, g)) \<or>
          unfinished_mmio (vhost_virtio ev) (queue_ops ev) f a n)"

text \<open>A call of the interrupt controller that the access makes and the interface refuses.\<close>

definition interrupt_refused ::
    "endian \<Rightarrow> sel4_kernel \<Rightarrow> sel4_bindings \<Rightarrow> 'r Sel4IoInterface \<Rightarrow> ('w, 'c, 'q) sel4_env \<Rightarrow> ('w, 'c) vhost_pci \<Rightarrow> IoRequest \<Rightarrow> bool" where
  "interrupt_refused e k b io ev f request \<longleftrightarrow>
     (\<exists>answer g. serve e ev f request = Some (answer, g) \<and> ic_calls k b io (fn_controller (vf_inner g)) (vn_binder (dev g)) = None)"

lemma handle_request_None:
  "handle_request e k b io ev (f, h) request = None \<longleftrightarrow>
     serve e ev (enter h f) request = None \<or> interrupt_refused e k b io ev (enter h f) request"
  by (cases "serve e ev (enter h f) request") (auto simp: handle_request_def leave_def interrupt_refused_def bind_eq_None_conv)

lemma serve_survives:
  assumes ok: "program_ok f" and fills: "config_fills ev" and len: "\<And>d. req_operation request = IoWrite d \<Longrightarrow> length d = 8"
    and none: "serve e ev f request = None"
  shows "may_end e ev f request"
proof -
  let ?a = "req_address request" and ?n = "unat (req_size request)"
  show ?thesis
  proof (cases "req_address_space request"; cases "req_operation request")
    fix pcidev
    assume r: "req_address_space request = PciConfigSpace pcidev" "req_operation request = IoRead"
    then have "pcidev = 0" "pci_config_read e ev f ?a ?n = None" using none by (auto simp: serve_def Let_def split: if_splits)
    then show ?thesis using r config_read_served [OF ok fills, of ?a ?n e] by (auto simp: may_end_def Let_def)
  next
    fix pcidev d
    assume r: "req_address_space request = PciConfigSpace pcidev" "req_operation request = IoWrite d"
    then have "pcidev = 0" "pci_config_write e ev f ?a ?n d = None" using none by (auto simp: serve_def Let_def split: if_splits)
    then show ?thesis using r config_write_served [OF ok _ len, of ?a ?n d e ev]
      by (auto simp: may_end_def Let_def split: if_splits)
  next
    assume r: "req_address_space request = MmioSpace" "req_operation request = IoRead"
    then have "mmio_read ev f ?a ?n = None" using none by (simp add: serve_def Let_def)
    then show ?thesis using r memory_read_outcome [OF ok fills, of ?n ?a]
      by (cases "?n \<le> 8") (auto simp: may_end_def Let_def isl_def split: if_splits)
  next
    fix d
    assume r: "req_address_space request = MmioSpace" "req_operation request = IoWrite d"
    then have "mmio_write ev f ?a ?n d = None" using none by (simp add: serve_def Let_def)
    then show ?thesis using r memory_write_outcome [OF ok, of ?n ev ?a d]
      by (cases "?n \<le> 8") (auto simp: may_end_def Let_def isl_def split: if_splits)
  qed
qed

text \<open>For a write the list is exact.\<close>

lemma write_may_end:
  assumes ok: "program_ok f" and wr: "req_operation request = IoWrite d" and len: "length d = 8" and may: "may_end e ev f request"
  shows "serve e ev f request = None"
proof (cases "req_address_space request")
  case (PciConfigSpace pcidev)
  let ?a = "req_address request" and ?n = "unat (req_size request)"
  from PciConfigSpace may wr have "pcidev = 0" and "\<not> access_ok (unat ?a) ?n \<or> access_ok (unat ?a) ?n \<and> config_request_panics e ev f ?a ?n d"
    by (auto simp: may_end_def Let_def)
  then have "pcidev = 0" "pci_config_write e ev f ?a ?n d = None"
    using config_requests_refused(2) [OF _ len, of ?a ?n e ev f] config_write_served [OF ok _ len, of ?a ?n e ev] by auto
  with PciConfigSpace wr show ?thesis by (simp add: serve_def Let_def)
next
  case MmioSpace
  with may wr have "mmio_write ev f (req_address request) (unat (req_size request)) d = None"
    using memory_write_outcome [OF ok, of "unat (req_size request)" ev "req_address request" d]
    by (cases "unat (req_size request) \<le> 8") (auto simp: may_end_def Let_def mmio_write_def unwrap_access_def split: if_splits)
  with MmioSpace wr show ?thesis by (simp add: serve_def Let_def)
qed

text \<open>
  C2: What a guest can end the program with. In every state of the main loop the request of a vCPU is answered, and
  the program goes on, unless it is one of these: a configuration access to the device of the program
  that is not an aligned one of one, two or four bytes inside the function; a memory access of more
  than eight bytes, or one the function answers with an error; a read that reaches an unfinished
  register of the common configuration, from memory or through the window in the configuration space;
  a write, again from memory or through the window, with which the device panics, because it sets the
  device status so that the device is activated and cannot be, or because it notifies a queue that
  cannot take the notification; and a request whose interrupt the interface refuses. Each write of
  this list does end the program.
\<close>

theorem requests_survived:
  assumes "device_model_new k b ev io gm config h = Some m" and "model_serves e k b ffi ev m h m' h'" and "config_fills ev"
    and "\<And>d. req_operation request = IoWrite d \<Longrightarrow> length d = 8"
  shows "(handle_request e k b io' (bound_env k b io' ev) (dm_device m', h2) request = None \<longrightarrow>
      may_end e (bound_env k b io' ev) (enter h2 (dm_device m')) request \<or>
      interrupt_refused e k b io' (bound_env k b io' ev) (enter h2 (dm_device m')) request) \<and>
    (req_operation request \<noteq> IoRead \<and> may_end e (bound_env k b io' ev) (enter h2 (dm_device m')) request \<or>
      interrupt_refused e k b io' (bound_env k b io' ev) (enter h2 (dm_device m')) request \<longrightarrow>
      handle_request e k b io' (bound_env k b io' ev) (dm_device m', h2) request = None)"
proof -
  let ?ev = "bound_env k b io' ev" and ?f = "enter h2 (dm_device m')"
  have ok: "program_ok ?f" and fills: "config_fills ?ev"
    using loop_program_ok [OF assms(1-3)] assms(3) by simp_all
  have "may_end e ?ev ?f request" if "serve e ?ev ?f request = None"
    by (rule serve_survives [OF ok fills _ that]) (rule assms(4))
  moreover have "serve e ?ev ?f request = None" if "req_operation request \<noteq> IoRead" "may_end e ?ev ?f request"
    using write_may_end [OF ok _ _ that(2)] assms(4) that(1) by (cases "req_operation request") auto
  ultimately show ?thesis unfolding handle_request_None by blast
qed

lemma requests_survived_witness:
  "\<forall>b :: sel4_bindings. \<exists>m. device_model_new wait_kernel b sel4_sample idle_interface [] sample_config [] = Some m \<and>
     handle_request Little wait_kernel b idle_interface (bound_env wait_kernel b idle_interface sel4_sample) (dm_device m, [])
       \<lparr>req_address_space = PciConfigSpace 0, req_address = 4, req_size = 2, req_operation = IoWrite (replicate 8 0)\<rparr> \<noteq> None"
proof
  fix b :: sel4_bindings
  obtain m where m: "device_model_new wait_kernel b sel4_sample idle_interface [] sample_config [] = Some m" "config_fills sel4_sample"
    by (rule sample_loop)
  let ?r = "\<lparr>req_address_space = PciConfigSpace 0, req_address = 4, req_size = 2, req_operation = IoWrite (replicate 8 0)\<rparr>"
  let ?ev = "bound_env wait_kernel b idle_interface sel4_sample"
  have "\<not> may_end Little ?ev (enter [] (dm_device m)) ?r" using command_write_plain [OF m(1)] by (simp add: may_end_def access_ok_def)
  moreover have "\<not> interrupt_refused Little wait_kernel b idle_interface ?ev (enter [] (dm_device m)) ?r"
    using wait_kernel_interrupts by (auto simp: interrupt_refused_def)
  ultimately have "handle_request Little wait_kernel b idle_interface ?ev (dm_device m, []) ?r \<noteq> None"
    using requests_survived [OF m(1) model_serves_refl m(2), of ?r Little idle_interface "[]"] by auto
  with m(1) show "\<exists>m. device_model_new wait_kernel b sel4_sample idle_interface [] sample_config [] = Some m \<and>
     handle_request Little wait_kernel b idle_interface ?ev (dm_device m, []) ?r \<noteq> None" by blast
qed

section \<open>What a driver reads of what it wrote\<close>

lemma little_endian_same:
  assumes "access_ok a (length data)"
  shows "from_little_endian Little data SwapDword = (Inr (), data)" and "to_little_endian Little data SwapDword = (Inr (), data)"
  using assms by (auto simp: access_ok_def from_little_endian_def to_little_endian_def swap_size_def to_ne_bytes_def from_ne_bytes_def to_from_le_bytes)

text \<open>
  C3: A configuration write of the guest and the read that follows it. In every state of the main loop an aligned
  write of one, two or four bytes inside the function is served, unless the write is carried on through
  the window and the device panics with it; then it does not return. Once served, it has set the
  writable bits of the bytes it covers to what was written and kept the others, and changed no other
  byte of the space. An aligned read then returns the bytes of the space, and changes nothing, unless
  it covers the data register of the window.
\<close>

theorem config_write_read_back:
  assumes "device_model_new k b ev io gm config h = Some m" and "model_serves Little k b ffi ev m h m' h'" and "config_fills ev"
    and "access_ok (unat a) (unat n)" and "length d = 8" and "access_ok (unat a2) (unat n2)"
  shows "if config_request_panics Little (bound_env k b io' ev) (enter h2 (dm_device m')) a (unat n) d
    then serve Little (bound_env k b io' ev) (enter h2 (dm_device m'))
        \<lparr>req_address_space = PciConfigSpace 0, req_address = a, req_size = n, req_operation = IoWrite d\<rparr> = None
    else \<exists>g. serve Little (bound_env k b io' ev) (enter h2 (dm_device m'))
        \<lparr>req_address_space = PciConfigSpace 0, req_address = a, req_size = n, req_operation = IoWrite d\<rparr> = Some (None, g) \<and>
    (\<forall>i < 256. cs_registers (vf_config g) ! i =
       (if unat a \<le> i \<and> i < unat a + unat n
        then update_register (cs_registers (vf_config (dm_device m')) ! i) (d ! (i - unat a)) (cs_writable_bits (vf_config (dm_device m')) ! i)
        else cs_registers (vf_config (dm_device m')) ! i)) \<and>
    (\<not> cfg_should_handle_access (enter h3 g) (unat a2) (unat n2) \<longrightarrow>
       serve Little (bound_env k b io' ev) (enter h3 g)
          \<lparr>req_address_space = PciConfigSpace 0, req_address = a2, req_size = n2, req_operation = IoRead\<rparr> =
         Some (Some (take (unat n2) (drop (unat a2) (cs_registers (vf_config g))) @ replicate (8 - unat n2) 0xFF), enter h3 g))"
proof (cases "config_request_panics Little (bound_env k b io' ev) (enter h2 (dm_device m')) a (unat n) d")
  case False
  let ?f = "enter h2 (dm_device m')" and ?ev = "bound_env k b io' ev"
  have ok: "program_ok ?f" and cfg: "vf_config ?f = vf_config (dm_device m')"
    using loop_program_ok [OF assms(1-3)] by simp_all
  have len: "length (take (unat n) d) = unat n" and fit: "unat a + unat n \<le> 256" "unat a2 + unat n2 \<le> 256"
    using assms(4-6) by (auto simp: access_ok_def)
  from config_write_served [OF ok assms(4,5), of Little ?ev] False obtain g where
    g: "pci_config_write Little ?ev ?f a (unat n) d = Some g" "program_ok g"
      "cs_write_checked (vf_config ?f) (unat a) (take (unat n) d) = Some (Inr (), vf_config g)"
    using little_endian_same(1) [of "unat a" "take (unat n) d"] assms(4) len by auto
  have wf: "config_wf (vf_config ?f)" "config_wf (vf_config g)" using function_ok_wf program_ok_function ok g(2) by blast+
  have "vf_config g = cs_store (patch_masked (cs_registers (vf_config ?f)) (cs_writable_bits (vf_config ?f)) (unat a) (take (unat n) d)) (vf_config ?f)"
    using g(3) cs_write_checked_Ok [OF wf(1), of "unat a" "take (unat n) d"] assms(4) len by simp
  then have regs: "\<forall>i < 256. cs_registers (vf_config g) ! i =
       (if unat a \<le> i \<and> i < unat a + unat n
        then update_register (cs_registers (vf_config ?f) ! i) (d ! (i - unat a)) (cs_writable_bits (vf_config ?f) ! i)
        else cs_registers (vf_config ?f) ! i)"
    using wf(1) fit len by (auto simp: nth_patch_masked nth_patch_masked_other not_le not_less)
  have "length (take (unat n2) (drop (unat a2) (cs_registers (vf_config g)))) = unat n2" using wf(2) fit by simp
  then have "snd (to_little_endian Little (take (unat n2) (drop (unat a2) (cs_registers (vf_config g)))) SwapDword) =
      take (unat n2) (drop (unat a2) (cs_registers (vf_config g)))"
    using little_endian_same(2) [of "unat a2" "take (unat n2) (drop (unat a2) (cs_registers (vf_config g)))"] assms(6) by simp
  then show ?thesis unfolding if_not_P [OF False]
    using g(1) regs cfg config_read_plain [of "enter h3 g", OF _ assms(6), of Little ?ev] g(2)
    by (intro exI [of _ g]) (simp add: serve_def Let_def)
next
  case True
  with config_write_served [OF _ assms(4,5), of "enter h2 (dm_device m')" Little "bound_env k b io' ev"] loop_program_ok [OF assms(1-3)]
  show ?thesis by (simp add: serve_def Let_def)
qed

lemma config_write_read_back_witness:
  "\<forall>b :: sel4_bindings. \<exists>m g. device_model_new wait_kernel b sel4_sample idle_interface [] sample_config [] = Some m \<and>
     serve Little (bound_env wait_kernel b idle_interface sel4_sample) (enter [] (dm_device m))
       \<lparr>req_address_space = PciConfigSpace 0, req_address = 4, req_size = 2, req_operation = IoWrite (replicate 8 6)\<rparr> = Some (None, g) \<and>
     cs_registers (vf_config g) ! 10 = cs_registers (vf_config (dm_device m)) ! 10"
proof
  fix b :: sel4_bindings
  obtain m where m: "device_model_new wait_kernel b sel4_sample idle_interface [] sample_config [] = Some m" "config_fills sel4_sample"
    by (rule sample_loop)
  have acc: "access_ok (unat (4 :: u64)) (unat (2 :: u8))" by (simp add: access_ok_def)
  have "\<not> config_request_panics Little (bound_env wait_kernel b idle_interface sel4_sample) (enter [] (dm_device m)) 4 (unat (2 :: u8)) (replicate 8 6)"
    using command_write_plain(1) [OF m(1)] by simp
  with config_write_read_back [OF m(1) model_serves_refl m(2) acc _ acc, of "replicate 8 6" idle_interface "[]" "[]"] obtain g where
    g: "serve Little (bound_env wait_kernel b idle_interface sel4_sample) (enter [] (dm_device m))
       \<lparr>req_address_space = PciConfigSpace 0, req_address = 4, req_size = 2, req_operation = IoWrite (replicate 8 6)\<rparr> = Some (None, g)"
    "\<forall>i < 256. cs_registers (vf_config g) ! i =
       (if unat (4 :: u64) \<le> i \<and> i < unat (4 :: u64) + unat (2 :: u8)
        then update_register (cs_registers (vf_config (dm_device m)) ! i) (replicate 8 6 ! (i - unat (4 :: u64))) (cs_writable_bits (vf_config (dm_device m)) ! i)
        else cs_registers (vf_config (dm_device m)) ! i)" by auto
  from g(2) have "cs_registers (vf_config g) ! 10 = cs_registers (vf_config (dm_device m)) ! 10" by simp
  with m(1) g(1) show "\<exists>m g. device_model_new wait_kernel b sel4_sample idle_interface [] sample_config [] = Some m \<and>
     serve Little (bound_env wait_kernel b idle_interface sel4_sample) (enter [] (dm_device m))
       \<lparr>req_address_space = PciConfigSpace 0, req_address = 4, req_size = 2, req_operation = IoWrite (replicate 8 6)\<rparr> = Some (None, g) \<and>
     cs_registers (vf_config g) ! 10 = cs_registers (vf_config (dm_device m)) ! 10" by blast
qed

end
