(* ===== verification/Test_Run.thy ===== *)
theory Test_Run
  imports Config_Steps
begin

text \<open>
  The unit tests of the repository, run on the model.
\<close>

unbundle bit_operations_syntax

named_theorems run \<open>equations that execute the model\<close>

section \<open>Assertions\<close>

text \<open>A test returns when none of its assertions fails; a failed one panics.\<close>

definition assert_that :: "bool \<Rightarrow> unit option" where
  "assert_that b = (if b then Some () else None)"

definition unwrap_ok :: "'e + 'a \<Rightarrow> 'a option" where
  "unwrap_ok r = (case r of Inl _ \<Rightarrow> None | Inr a \<Rightarrow> Some a)"

definition is_err :: "'e + 'a \<Rightarrow> bool" where
  "is_err r = (case r of Inl _ \<Rightarrow> True | Inr _ \<Rightarrow> False)"

definition is_ok :: "'e + 'a \<Rightarrow> bool" where
  "is_ok r = (case r of Inl _ \<Rightarrow> False | Inr _ \<Rightarrow> True)"

fun for_each :: "'a list \<Rightarrow> ('a \<Rightarrow> 's \<Rightarrow> 's option) \<Rightarrow> 's \<Rightarrow> 's option" where
  "for_each [] f s = Some s"
| "for_each (x # xs) f s = do { s \<leftarrow> f x s; for_each xs f s }"

lemma run_helpers [run]:
  "assert_that True = Some ()" "unwrap_ok (Inr a) = Some a" "unwrap_ok (Inl e) = None"
  "is_err (Inl e) = True" "is_err (Inr a) = False" "is_ok (Inl e) = False" "is_ok (Inr a) = True"
  by (simp_all add: assert_that_def unwrap_ok_def is_err_def is_ok_def)

text \<open>Only the first argument of a sequence is evaluated before the sequence itself.\<close>

lemma bind_cong_weak: "m = m' \<Longrightarrow> Option.bind m f = Option.bind m' f"
  by simp

lemma bind_result_cong_weak: "m = m' \<Longrightarrow> bind_result m f = bind_result m' f"
  by simp

lemma try_result_cong_weak: "m = m' \<Longrightarrow> try_result m f = try_result m' f"
  by simp

lemma for_each_cong_weak: "xs = xs' \<Longrightarrow> s = s' \<Longrightarrow> for_each xs f s = for_each xs' f s'"
  by simp

section \<open>Arrays of registers\<close>

definition tab :: "(nat \<Rightarrow> u8) \<Rightarrow> bytes" where
  "tab f = map f [0..<256]"

primrec upds :: "(nat \<Rightarrow> 'a) \<Rightarrow> nat \<Rightarrow> 'a list \<Rightarrow> nat \<Rightarrow> 'a" where
  "upds f off [] = f"
| "upds f off (x # xs) = upds (f(off := x)) (off + 1) xs"

lemma length_tab [run]: "length (tab f) = 256"
  by (simp add: tab_def)

lemma nth_tab: "i < 256 \<Longrightarrow> tab f ! i = f i"
  by (simp add: tab_def)

lemma upds_nth: "upds f off xs i = (if off \<le> i \<and> i < off + length xs then xs ! (i - off) else f i)"
proof (induction xs arbitrary: f off)
  case (Cons x xs)
  show ?case unfolding upds.simps Cons.IH
    by (auto simp: nth_Cons split: nat.split)
      (metis Suc_diff_Suc less_irrefl_nat linorder_not_less less_eq_Suc_le not_less_eq_eq nat.inject Suc_diff_le)
qed auto

lemma slice_read_any: "slice_read (tab f) off n = (if off + n \<le> 256 then Some (map f [off..<off + n]) else None)"
  by (auto simp: slice_read_def tab_def take_map drop_map)

lemma slice_set_conf: "slice_set (tab f) off d = (if off + length d \<le> 256 then Some (tab (upds f off d)) else None)"
  by (auto simp: slice_set_def length_tab nth_patch nth_tab upds_nth intro!: nth_equalityI)

definition conf :: "(nat \<Rightarrow> u8) \<Rightarrow> (nat \<Rightarrow> u8) \<Rightarrow> PciBar option list \<Rightarrow> nat \<Rightarrow> config_space" where
  "conf f g b n = \<lparr>cs_registers = tab f, cs_writable_bits = tab g, cs_bars = b, cs_last_cap_size = n\<rparr>"

lemma conf_fields:
  "cs_registers (conf f g b n) = tab f" "cs_writable_bits (conf f g b n) = tab g"
  "cs_bars (conf f g b n) = b" "cs_last_cap_size (conf f g b n) = n"
  "(conf f g b n)\<lparr>cs_registers := tab f'\<rparr> = conf f' g b n" "(conf f g b n)\<lparr>cs_writable_bits := tab g'\<rparr> = conf f g' b n"
  "(conf f g b n)\<lparr>cs_bars := b'\<rparr> = conf f g b' n" "(conf f g b n)\<lparr>cs_last_cap_size := n'\<rparr> = conf f g b n'"
  by (simp_all add: conf_def)

lemma upt_from_0: "[0..<2] = [0, 1]" "[0..<4] = [0, 1, 2, 3]" "[0..<8] = [0, 1, 2, 3, 4, 5, 6, 7]"
  by (simp_all add: upt_conv_Cons del: One_nat_def)

text \<open>Machine integers are taken apart and put together as numbers.\<close>

lemma unat_if:
  "unat (numeral k :: 'a::len word) =
     (if (numeral k :: nat) < 2 ^ LENGTH('a) then numeral k else numeral k mod 2 ^ LENGTH('a))"
  unfolding unat_numeral by (auto intro: mod_less)

lemma unat_8_run [run]: "unat (numeral k :: u8) = (if (numeral k :: nat) < 256 then numeral k else numeral k mod 256)"
  using unat_if [of k, where 'a = 8] by simp

lemma unat_16_run [run]: "unat (numeral k :: u16) = (if (numeral k :: nat) < 65536 then numeral k else numeral k mod 65536)"
  using unat_if [of k, where 'a = 16] by simp

lemma unat_32_run [run]:
  "unat (numeral k :: u32) = (if (numeral k :: nat) < 4294967296 then numeral k else numeral k mod 4294967296)"
  using unat_if [of k, where 'a = 32] by simp

lemma unat_64_run [run]:
  "unat (numeral k :: u64) =
     (if (numeral k :: nat) < 18446744073709551616 then numeral k else numeral k mod 18446744073709551616)"
  using unat_if [of k, where 'a = 64] by simp

definition le_bytes_of :: "nat \<Rightarrow> nat \<Rightarrow> bytes" where
  "le_bytes_of k n = map (\<lambda>i. of_nat (drop_bit (8 * i) n AND 255)) [0..<k]"

lemma le_bytes_of_run [run]:
  "le_bytes_of 2 n = [of_nat (n AND 255), of_nat (drop_bit 8 n AND 255)]"
  "le_bytes_of 4 n = [of_nat (n AND 255), of_nat (drop_bit 8 n AND 255), of_nat (drop_bit 16 n AND 255), of_nat (drop_bit 24 n AND 255)]"
  "le_bytes_of 8 n = [of_nat (n AND 255), of_nat (drop_bit 8 n AND 255), of_nat (drop_bit 16 n AND 255), of_nat (drop_bit 24 n AND 255),
    of_nat (drop_bit 32 n AND 255), of_nat (drop_bit 40 n AND 255), of_nat (drop_bit 48 n AND 255), of_nat (drop_bit 56 n AND 255)]"
  by (simp_all add: le_bytes_of_def upt_from_0)

lemma byte_of_nat: "byte_of w i = of_nat (drop_bit (8 * i) (unat w) AND 255)"
proof (rule bit_word_eqI)
  have m: "(255 :: nat) = mask 8" by (simp add: mask_eq_exp_minus_1)
  fix j assume "j < LENGTH(8)"
  then show "bit (byte_of w i) j = bit (of_nat (drop_bit (8 * i) (unat w) AND 255) :: u8) j"
    unfolding m by (simp add: bit_views bit_simps)
qed

lemma bytes_run [run]:
  "to_le_bytes (w8 :: u8) = [w8]" "to_le_bytes (w16 :: u16) = le_bytes_of 2 (unat w16)"
  "to_le_bytes (w32 :: u32) = le_bytes_of 4 (unat w32)" "to_le_bytes (w64 :: u64) = le_bytes_of 8 (unat w64)"
  by (simp_all add: to_le_bytes_def le_bytes_of_def byte_of_nat flip: byte_of_nat [of w8 0, simplified])

definition le_value :: "bytes \<Rightarrow> nat" where
  "le_value bs = foldr (\<lambda>b n. unat b + 256 * n) bs 0"

lemma le_value_run [run]: "le_value [] = 0" "le_value (b # bs) = unat b + 256 * le_value bs"
  by (simp_all add: le_value_def)

lemma from_le_run [run]: "from_le_bytes bs = (of_nat (le_value bs) :: 'a::len word)"
proof (induction bs)
  case (Cons b bs)
  have "(ucast b :: 'a word) OR push_bit 8 (from_le_bytes bs) = ucast b + push_bit 8 (from_le_bytes bs)"
    by (rule disjunctive_add [symmetric]) (auto simp: bit_simps dest: bit_imp_le_length)
  then show ?case by (simp add: Cons le_value_def push_bit_eq_mult unsigned_ucast_eq of_nat_unat)
qed (simp add: le_value_def)

lemma numbers_run [run]:
  "Suc (Suc 0) = 2" "[0..<numeral k] = 0 # [Suc 0..<numeral k]"
  "[Suc 0..<numeral k] = (if Suc 0 < numeral k then Suc 0 # [2..<numeral k] else [])"
  using upt_conv_Cons [of 0 "numeral k"] upt_conv_Cons [of "Suc 0" "numeral k"] by (simp_all add: numeral_2_eq_2)

lemma replicate_tab: "replicate 256 x = tab (\<lambda>_. x)"
  by (simp add: tab_def map_replicate_const)

lemma config_new_run [run]: "config_new = Some (conf ((\<lambda>_. 0)(0 := 0xFF, 1 := 0xFF)) (\<lambda>_. 0) [None, None, None, None, None, None] 0)"
proof -
  have "\<lparr>cs_registers = tab (\<lambda>_. 0), cs_writable_bits = tab (\<lambda>_. 0), cs_bars = replicate 6 None, cs_last_cap_size = 0\<rparr> =
      conf (\<lambda>_. 0) (\<lambda>_. 0) [None, None, None, None, None, None] 0"
    by (simp add: conf_def numeral_eq_Suc)
  then show ?thesis
    by (simp add: config_new_def cs_set_word_def set_register_word_def set_register_def replicate_tab conf_fields slice_set_conf bytes_run le_bytes_of_run)
qed

text \<open>Slices of buffers, which are short lists.\<close>

definition with_slice :: "bytes \<Rightarrow> usize \<Rightarrow> usize \<Rightarrow> (bytes \<Rightarrow> (bytes, 'a) call) \<Rightarrow> (bytes, 'a) call" where
  "with_slice buf off n f = do {
     part \<leftarrow> slice_read buf off n;
     (r, part) \<leftarrow> f part;
     buf \<leftarrow> slice_set buf off part;
     Some (r, buf)
   }"

lemma replicate_run [run]: "replicate (numeral k) x = x # replicate (pred_numeral k) x"
  by (simp add: numeral_eq_Suc)

lemmas with_slice_run [run] = with_slice_def Let_def

lemma buffer_run [run]:
  "slice_read [] off n = (if off + n \<le> 0 then Some [] else None)"
  "slice_read (x # xs) off n = (if off + n \<le> length (x # xs) then Some (take n (drop off (x # xs))) else None)"
  "slice_set (x # xs) off d = (if off + length d \<le> length (x # xs) then Some (patch (x # xs) off d) else None)"
  "patch (x # xs) off d = take off (x # xs) @ d @ drop (off + length d) (x # xs)"
  by (simp_all add: slice_read_def slice_set_def patch_def)

section \<open>The configuration space\<close>

text \<open>Reads and writes of numbers in one step.\<close>

lemma upt_shift: "[off..<Suc off] = [off]" "[off..<off + 2] = [off, off + 1]" "[off..<off + 4] = [off, off + 1, off + 2, off + 3]"
proof -
  have "off + 4 = Suc (Suc (Suc (Suc off)))" "off + 2 = Suc (Suc off)" "off + 3 = Suc (Suc (Suc off))" by simp_all
  then show "[off..<Suc off] = [off]" "[off..<off + 2] = [off, off + 1]" "[off..<off + 4] = [off, off + 1, off + 2, off + 3]"
    by (simp_all add: upt_conv_Cons del: add_2_eq_Suc add_2_eq_Suc')
qed

lemma slice_read_conf:
  "slice_read (tab f) off (length [x0]) = (if off < 256 then Some [f off] else None)"
  "slice_read (tab f) off (length [x0, x1]) = (if off + 2 \<le> 256 then Some [f off, f (off + 1)] else None)"
  "slice_read (tab f) off (length [x0, x1, x2, x3]) =
     (if off + 4 \<le> 256 then Some [f off, f (off + 1), f (off + 2), f (off + 3)] else None)"
proof -
  have l: "length [x0] = 1" "length [x0, x1] = 2" "length [x0, x1, x2, x3] = 4" by simp_all
  show "slice_read (tab f) off (length [x0]) = (if off < 256 then Some [f off] else None)"
    "slice_read (tab f) off (length [x0, x1]) = (if off + 2 \<le> 256 then Some [f off, f (off + 1)] else None)"
    "slice_read (tab f) off (length [x0, x1, x2, x3]) =
     (if off + 4 \<le> 256 then Some [f off, f (off + 1), f (off + 2), f (off + 3)] else None)"
    unfolding l slice_read_any upt_shift by (simp_all add: Suc_le_eq)
qed

lemma replicate_conf: "replicate 1 x = [x]" "replicate 2 x = [x, x]" "replicate 4 x = [x, x, x, x]"
  by (simp_all add: numeral_eq_Suc)

lemma number_reads:
  "cs_read_byte (conf f g b n) off = (if off < 256 then Some (f off) else None)"
  "cs_read_word (conf f g b n) off = (if off + 2 \<le> 256 then Some (from_le_bytes [f off, f (off + 1)]) else None)"
  "cs_read_dword (conf f g b n) off =
     (if off + 4 \<le> 256 then Some (from_le_bytes [f off, f (off + 1), f (off + 2), f (off + 3)]) else None)"
  unfolding cs_read_byte_def cs_read_word_def cs_read_dword_def read_register_byte_def read_register_word_def
      read_register_dword_def read_register_def rb_read_def conf_fields replicate_conf slice_read_conf
  by simp_all

lemma number_sets:
  "cs_set_byte (conf f g b n) off d = (if off < 256 then Some (conf (f(off := d)) g b n) else None)"
  "cs_set_word (conf f g b n) off w = (if off + 2 \<le> 256 then Some (conf (upds f off (to_le_bytes w)) g b n) else None)"
  "cs_set_dword (conf f g b n) off v = (if off + 4 \<le> 256 then Some (conf (upds f off (to_le_bytes v)) g b n) else None)"
  by (simp_all add: cs_set_byte_def cs_set_word_def cs_set_dword_def set_register_byte_def set_register_word_def
      set_register_dword_def set_register_def conf_fields slice_set_conf bytes_run(1))

primrec stored :: "(nat \<Rightarrow> u8) \<Rightarrow> (nat \<Rightarrow> u8) \<Rightarrow> usize \<Rightarrow> bytes \<Rightarrow> nat \<Rightarrow> u8" where
  "stored f g off [] = f"
| "stored f g off (d # ds) = stored (f(off := update_register (f off) d (g off))) g (off + 1) ds"

lemma stored_upds:
  "upds f off (update_zip (map f [off..<off + length d]) d (map g [off..<off + length d])) = stored f g off d"
proof (induction d arbitrary: f off)
  case (Cons x d)
  have split: "map h [off..<off + length (x # d)] = h off # map h [Suc off..<Suc off + length d]" for h :: "nat \<Rightarrow> u8"
    by (simp add: upt_conv_Cons del: upt_Suc)
  have same: "map (f(off := y)) [Suc off..<Suc off + length d] = map f [Suc off..<Suc off + length d]" for y
    by (rule map_cong [OF refl]) auto
  show ?case
    using Cons [of "f(off := update_register (f off) x (g off))" "Suc off"]
    unfolding split same by (simp add: fun_upd_def del: upt_Suc)
qed simp

lemma write_conf:
  "write_register cs_registers cs_store cs_writable_bits (conf f g b n) off d =
     (if off + length d \<le> 256 then Some (conf (stored f g off d) g b n) else None)"
proof -
  have "length (update_zip a e c) = length e" if "length a = length e" "length c = length e" for a e c :: bytes
    using that by (induction a e c rule: update_zip.induct) auto
  from this [of "map f [off..<off + length d]" d "map g [off..<off + length d]"] stored_upds [of f off d g]
  show ?thesis by (simp add: write_register_def rb_write_def conf_fields length_tab slice_read_any slice_set_conf)
qed

lemma number_writes:
  "cs_write_byte (conf f g b n) off d = (if off < 256 then Some (conf (stored f g off [d]) g b n) else None)"
  "cs_write_word (conf f g b n) off w = (if off + 2 \<le> 256 then Some (conf (stored f g off (to_le_bytes w)) g b n) else None)"
  "cs_write_dword (conf f g b n) off v = (if off + 4 \<le> 256 then Some (conf (stored f g off (to_le_bytes v)) g b n) else None)"
  by (simp_all add: cs_write_byte_def cs_write_word_def cs_write_dword_def write_register_byte_def write_register_word_def
      write_register_dword_def write_conf bytes_run(1))

lemma cap_iter_conf:
  assumes "p < 256"
  shows "cap_iter_next (conf f g b n) p =
    (let next = unat (f p AND NOT 3) in
     if next < 64 then Some None
     else if 255 \<le> next then None
     else if unat (f (next + 1)) + 1 = p then Some None
     else Some (Some ((\<lparr>hdr_cap_id = f next, hdr_next_pointer = f (next + 1)\<rparr>, next + 2), next + 1)))"
proof -
  let ?n = "unat (f p AND NOT 3)"
  have len: "?n < 256" using unsigned_less [of "f p AND NOT 3", where ?'a = nat] by simp
  have "slice_read (tab f) ?n (256 - ?n) = Some (map f [?n..<256])" using len by (simp add: slice_read_any)
  moreover have "[?n..<256] = ?n # (?n + 1) # [?n + 2..<256]" if "?n < 255"
    using that by (simp add: upt_conv_Cons)
  moreover have "length (map f [?n..<256]) < 2" if "\<not> ?n < 255" using that by simp
  ultimately show ?thesis using len assms
    by (auto simp: cap_iter_next_def next_cap_def number_reads conf_fields length_tab Let_def cap_header_from_def cap_next_pointer_offset_def
        cap_data_offset_def PCI_CAP_HEADER_NEXT_def PCI_CAP_DATA_START_def)
qed

section \<open>Execution\<close>

text \<open>
  The contents of a space are not simplified while the space is passed around: they are looked up by
  \<open>lk\<close> and \<open>lks\<close>, and normalised after a store, inside \<open>tab_of\<close>, \<open>conf_of\<close> and then \<open>conf_nf\<close>.
\<close>

definition lk :: "(nat \<Rightarrow> 'a) \<Rightarrow> nat \<Rightarrow> 'a" where "lk f i = f i"
definition lks :: "(nat \<Rightarrow> 'a) \<Rightarrow> nat list \<Rightarrow> 'a list" where "lks f is = map f is"
definition tab_of :: "(nat \<Rightarrow> u8) \<Rightarrow> bytes" where "tab_of f = tab f"
definition conf_of :: "(nat \<Rightarrow> u8) \<Rightarrow> (nat \<Rightarrow> u8) \<Rightarrow> PciBar option list \<Rightarrow> nat \<Rightarrow> config_space" where "conf_of = conf"
definition conf_nf :: "(nat \<Rightarrow> u8) \<Rightarrow> (nat \<Rightarrow> u8) \<Rightarrow> PciBar option list \<Rightarrow> nat \<Rightarrow> config_space" where "conf_nf = conf"

lemma lk_run [run]: "lk (f(a := v)) i = (if i = a then v else lk f i)" "lk (\<lambda>_. v) i = v"
  by (simp_all add: lk_def)

lemma lks_run [run]: "lks f [] = []" "lks f (i # is) = lk f i # lks f is"
  by (simp_all add: lks_def lk_def)

lemma of_run [run]: "tab_of f = tab f" "conf_of f g b n = conf_nf f g b n" "conf_nf f g b n = conf f g b n"
  by (simp_all add: tab_of_def conf_of_def conf_nf_def)

lemma content_cong:
  "i = j \<Longrightarrow> lk f i = lk f j" "is = js \<Longrightarrow> lks f is = lks f js" "tab f = tab f"
  "b = b' \<Longrightarrow> n = n' \<Longrightarrow> conf f g b n = conf f g b' n'" "f = f' \<Longrightarrow> conf_of f g b n = conf_of f' g b n"
  "f = f' \<Longrightarrow> conf_nf f g b n = conf_nf f' g b n"
  "off = off' \<Longrightarrow> d = d' \<Longrightarrow> upds f off d = upds f off' d'" "off = off' \<Longrightarrow> e = e' \<Longrightarrow> stored f g off e = stored f g off' e'"
  by simp_all

lemmas run_cong = content_cong for_each_cong_weak bind_cong_weak bind_result_cong_weak try_result_cong_weak let_weak_cong

lemma conf_run [run]:
  "cs_registers (conf f g b n) = tab f" "cs_writable_bits (conf f g b n) = tab g"
  "cs_bars (conf f g b n) = b" "cs_last_cap_size (conf f g b n) = n"
  "(conf f g b n)\<lparr>cs_registers := tab f'\<rparr> = conf f' g b n" "(conf f g b n)\<lparr>cs_writable_bits := tab g'\<rparr> = conf f g' b n"
  "(conf f g b n)\<lparr>cs_bars := b'\<rparr> = conf f g b' n" "(conf f g b n)\<lparr>cs_last_cap_size := n'\<rparr> = conf f g b n'"
  by (simp_all add: conf_fields)

lemma tab_run [run]:
  "slice_read (tab f) off m = (if off + m \<le> 256 then Some (lks f [off..<off + m]) else None)"
  "slice_set (tab f) off d = (if off + length d \<le> 256 then Some (tab_of (upds f off d)) else None)"
  "i < 256 \<Longrightarrow> tab f ! i = lk f i"
  by (simp_all add: slice_read_any slice_set_conf lks_def tab_of_def nth_tab lk_def)

lemma upds_run [run]: "upds f off [] = f" "upds f off (x # xs) = upds (f(off := x)) (off + 1) xs"
  by simp_all

lemma stored_run [run]:
  "stored f g off [] = f"
  "stored f g off (x # xs) = stored (f(off := update_register (lk f off) x (lk g off))) g (off + 1) xs"
  by (simp_all add: lk_def)

lemmas run_del = unsigned_numeral unat_bintrunc stored.simps(2)

lemma number_run [run]:
  "cs_read_byte (conf f g b n) off = (if off < 256 then Some (lk f off) else None)"
  "cs_read_word (conf f g b n) off = (if off + 2 \<le> 256 then Some (from_le_bytes [lk f off, lk f (off + 1)]) else None)"
  "cs_read_dword (conf f g b n) off =
     (if off + 4 \<le> 256 then Some (from_le_bytes [lk f off, lk f (off + 1), lk f (off + 2), lk f (off + 3)]) else None)"
  "cs_set_byte (conf f g b n) off x = (if off < 256 then Some (conf_of (f(off := x)) g b n) else None)"
  "cs_set_word (conf f g b n) off w = (if off + 2 \<le> 256 then Some (conf_of (upds f off (to_le_bytes w)) g b n) else None)"
  "cs_set_dword (conf f g b n) off v = (if off + 4 \<le> 256 then Some (conf_of (upds f off (to_le_bytes v)) g b n) else None)"
  "cs_write_byte (conf f g b n) off x = (if off < 256 then Some (conf_of (stored f g off [x]) g b n) else None)"
  "cs_write_word (conf f g b n) off w = (if off + 2 \<le> 256 then Some (conf_of (stored f g off (to_le_bytes w)) g b n) else None)"
  "cs_write_dword (conf f g b n) off v = (if off + 4 \<le> 256 then Some (conf_of (stored f g off (to_le_bytes v)) g b n) else None)"
  by (simp_all add: number_reads number_sets number_writes lk_def conf_of_def)

lemma cap_iter_run [run]:
  "p < 256 \<Longrightarrow> cap_iter_next (conf f g b n) p =
    (let next = unat (lk f p AND NOT 3) in
     if next < 64 then Some None
     else if 255 \<le> next then None
     else let np = lk f (next + 1) in
     if unat np + 1 = p then Some None
     else Some (Some ((\<lparr>hdr_cap_id = lk f next, hdr_next_pointer = np\<rparr>, next + 2), next + 1)))"
  by (simp add: cap_iter_conf lk_def Let_def)

lemmas block_run [run] = read_register_def read_register_byte_def read_register_word_def read_register_dword_def read_register_qword_def
  set_register_def set_register_byte_def set_register_word_def set_register_dword_def set_register_qword_def
  write_register_def write_register_byte_def write_register_word_def write_register_dword_def write_register_qword_def
  rb_read_def rb_set_def rb_write_def update_zip.simps update_register_def validate_bounds_def checked_add_def

lemmas space_run [run] = cs_read_def cs_set_def cs_write_def
  validate_access_size_def validate_access_alignment_def cs_validate_access_def cs_validate_write_access_def
  cs_read_checked_def cs_set_checked_def cs_write_checked_def
  set_writable_bits_def set_writable_byte_def set_writable_word_def set_writable_dword_def
  add_writable_bits_def add_writable_byte_def add_writable_word_def add_writable_dword_def
  allow_bus_master_def is_bus_master_def

lemmas bars_run [run] = bar_index_try_from_def bar_index_default_def count_ones_def is_power_of_two_def validate_bar_size_def
  validate_bar_region_def max_num_bars_def validate_header_support_def bars_get_def add_bar_mask_def prev_bar_is_64bit_def
  add_bar_def get_bar_masks_def get_bar_def bar_update_for_write_def bar_type_bits.simps prefetchable_u32_def bar_set_address_def

lemmas caps_run [run] = cap_id_offset_def cap_next_pointer_offset_def cap_data_offset_def cap_start_from_data_start_def
  cap_iter_last.simps cap_iter_find.simps capability_last_def capability_find_def cap_end_offset_def set_capability_data_def
  cap_insert_position_def align_dword_def add_capability_def update_capability_def cap_header_from_def capability_id_u8.simps

end
