(* ===== verification/Test_Config.thy ===== *)
theory Test_Config
  imports Test_Run
begin

text \<open>
  The tests of \<open>configuration_space.rs\<close>. A panic of the test, also of one of its assertions, is \<open>None\<close>; the
  capabilities the tests implement are records of the capability interface.
\<close>

unbundle bit_operations_syntax

section \<open>Accesses\<close>

definition test_access_bounds :: "unit option" where
  "test_access_bounds = do {
     config \<leftarrow> config_new;
     let offset = PCI_CONFIGURATION_SPACE_SIZE;
     let data = [0, 0, 0, 0, 0, 0, 0, 0];
     (r, data) \<leftarrow> with_slice data 0 1 (cs_read_checked config offset);
     assert_that (case r of Inl (AccessBounds _ _) \<Rightarrow> True | _ \<Rightarrow> False);
     assert_that (data ! 0 = 0xFF);
     (r, config) \<leftarrow> cs_write_checked config offset [0];
     assert_that (case r of Inl (AccessBounds _ _) \<Rightarrow> True | _ \<Rightarrow> False);
     let offset = PCI_CONFIGURATION_SPACE_SIZE - 1;
     (r, data) \<leftarrow> with_slice data 0 1 (cs_read_checked config offset);
     assert_that (is_ok r);
     (r, config) \<leftarrow> cs_write_checked config offset [0];
     assert_that (is_ok r)
   }"

definition test_access_size :: "unit option" where
  "test_access_size = do {
     config \<leftarrow> config_new;
     let input = [0xAA, 0xAA, 0xAA, 0xAA, 0xAA, 0xAA, 0xAA, 0xAA, 0xAA];
     let buffer = [0, 0, 0, 0, 0, 0, 0, 0, 0];
     (config, buffer) \<leftarrow> for_each [0, 3, 5, 8, 9] (\<lambda>sz (config, buffer). do {
       (r, buffer) \<leftarrow> with_slice buffer 0 sz (cs_read_checked config 0);
       assert_that (case r of Inl (InvalidIoSize _) \<Rightarrow> True | _ \<Rightarrow> False);
       part \<leftarrow> slice_read input 0 sz;
       (r, config) \<leftarrow> cs_write_checked config 0 part;
       assert_that (case r of Inl (InvalidIoSize _) \<Rightarrow> True | _ \<Rightarrow> False);
       Some (config, buffer)
     }) (config, buffer);
     (config, buffer) \<leftarrow> for_each [1, 2, 4] (\<lambda>sz (config, buffer). do {
       (r, buffer) \<leftarrow> with_slice buffer 0 sz (cs_read_checked config 0);
       assert_that (is_ok r);
       part \<leftarrow> slice_read input 0 sz;
       (r, config) \<leftarrow> cs_write_checked config 0 part;
       assert_that (is_ok r);
       Some (config, buffer)
     }) (config, buffer);
     Some ()
   }"

definition test_access_alignment :: "unit option" where
  "test_access_alignment = do {
     config \<leftarrow> config_new;
     let data = [0xAA, 0xAA, 0xAA, 0xAA, 0xAA, 0xAA, 0xAA, 0xAA];
     (config, data) \<leftarrow> for_each [(1, 2), (2, 4)] (\<lambda>(offset, sz) (config, data). do {
       (r, data) \<leftarrow> with_slice data 0 sz (cs_read_checked config offset);
       assert_that (case r of Inl (InvalidAccessAlignment _ _) \<Rightarrow> True | _ \<Rightarrow> False);
       part \<leftarrow> slice_read data 0 sz;
       (r, config) \<leftarrow> cs_write_checked config offset part;
       assert_that (case r of Inl (InvalidAccessAlignment _ _) \<Rightarrow> True | _ \<Rightarrow> False);
       Some (config, data)
     }) (config, data);
     Some ()
   }"

lemma access_tests_pass:
  "test_access_bounds = Some ()" "test_access_size = Some ()" "test_access_alignment = Some ()"
  by (simp_all add: test_access_bounds_def test_access_size_def test_access_alignment_def run del: run_del cong: run_cong)

section \<open>Writable bits\<close>

text \<open>A store into a field of the space by its index.\<close>

definition poke_registers :: "config_space \<Rightarrow> usize \<Rightarrow> bytes \<Rightarrow> config_space option" where
  "poke_registers c i data = do { r \<leftarrow> slice_set (cs_registers c) i data; Some (c\<lparr>cs_registers := r\<rparr>) }"

definition poke_writable :: "config_space \<Rightarrow> usize \<Rightarrow> bytes \<Rightarrow> config_space option" where
  "poke_writable c i data = do { w \<leftarrow> slice_set (cs_writable_bits c) i data; Some (c\<lparr>cs_writable_bits := w\<rparr>) }"

definition peek :: "bytes \<Rightarrow> usize \<Rightarrow> u8 option" where
  "peek bs i = (if i < length bs then Some (bs ! i) else None)"

lemmas poke_run [run] = poke_registers_def poke_writable_def peek_def

definition test_set_writable_bits :: "unit option" where
  "test_set_writable_bits = do {
     config \<leftarrow> config_new;
     config \<leftarrow> set_writable_bits config 5 [0xFF, 0xA, 0x1];
     bits \<leftarrow> slice_read (cs_writable_bits config) 4 4;
     assert_that (from_le_bytes bits = (0x010AFF00 :: u32))
   }"

definition test_set_writable_byte :: "unit option" where
  "test_set_writable_byte = do {
     config \<leftarrow> config_new;
     config \<leftarrow> set_writable_byte config 11 0xAF;
     bits \<leftarrow> peek (cs_writable_bits config) 11;
     assert_that (bits = 0xAF)
   }"

definition test_set_writable_word :: "unit option" where
  "test_set_writable_word = do {
     config \<leftarrow> config_new;
     config \<leftarrow> set_writable_word config 12 0xABCD;
     bits \<leftarrow> slice_read (cs_writable_bits config) 12 2;
     assert_that (from_le_bytes bits = (0xABCD :: u16))
   }"

definition test_set_writable_dword :: "unit option" where
  "test_set_writable_dword = do {
     config \<leftarrow> config_new;
     config \<leftarrow> set_writable_dword config 12 0xABCDEF01;
     bits \<leftarrow> slice_read (cs_writable_bits config) 12 4;
     assert_that (from_le_bytes bits = (0xABCDEF01 :: u32))
   }"

definition test_add_writable_bits :: "unit option" where
  "test_add_writable_bits = do {
     config \<leftarrow> config_new;
     config \<leftarrow> poke_writable config 5 [0x1, 0x2, 0x7];
     config \<leftarrow> add_writable_bits config 5 [0x2, 0x1, 0x8];
     bits \<leftarrow> slice_read (cs_writable_bits config) 4 4;
     assert_that (from_le_bytes bits = (0x0F030300 :: u32))
   }"

definition test_add_writable_byte :: "unit option" where
  "test_add_writable_byte = do {
     config \<leftarrow> config_new;
     config \<leftarrow> poke_writable config 11 [0x7];
     config \<leftarrow> add_writable_byte config 11 0x8;
     bits \<leftarrow> peek (cs_writable_bits config) 11;
     assert_that (bits = 0x0F)
   }"

definition test_add_writable_word :: "unit option" where
  "test_add_writable_word = do {
     config \<leftarrow> config_new;
     config \<leftarrow> poke_writable config 5 [0x1, 0x2, 0x7];
     config \<leftarrow> add_writable_word config 6 0xA801;
     bits \<leftarrow> slice_read (cs_writable_bits config) 6 2;
     assert_that (from_le_bytes bits = (0xAF03 :: u16))
   }"

definition test_add_writable_dword :: "unit option" where
  "test_add_writable_dword = do {
     config \<leftarrow> config_new;
     config \<leftarrow> poke_writable config 5 [0x1, 0x2, 0x7];
     config \<leftarrow> add_writable_dword config 4 0xA8010000;
     bits \<leftarrow> slice_read (cs_writable_bits config) 4 4;
     assert_that (from_le_bytes bits = (0xAF030100 :: u32))
   }"

lemma writable_tests_pass:
  "test_set_writable_bits = Some ()" "test_set_writable_byte = Some ()" "test_set_writable_word = Some ()"
  "test_set_writable_dword = Some ()" "test_add_writable_bits = Some ()" "test_add_writable_byte = Some ()"
  "test_add_writable_word = Some ()" "test_add_writable_dword = Some ()"
  by (simp_all add: test_set_writable_bits_def test_set_writable_byte_def test_set_writable_word_def test_set_writable_dword_def
    test_add_writable_bits_def test_add_writable_byte_def test_add_writable_word_def test_add_writable_dword_def run del: run_del cong: run_cong)

section \<open>Base address registers\<close>

definition bar_new :: "u64 \<Rightarrow> PciBarIndex \<Rightarrow> PciBarType \<Rightarrow> PciBar" where
  "bar_new sz index t = \<lparr>bar_address = None, bar_size = sz, bar_index = index, bar_region_type = t\<rparr>"

lemmas bar_new_run [run] = bar_new_def

definition test_add_bar :: "unit option" where
  "test_add_bar = do {
     config \<leftarrow> config_new;
     index \<leftarrow> unwrap_ok (bar_index_try_from 0);
     (r, config) \<leftarrow> add_bar config (bar_new PCI_BAR_MEM_MIN_SIZE index (Memory32Bit NotPrefetchable));
     unwrap_ok r;
     index \<leftarrow> unwrap_ok (bar_index_try_from 1);
     (r, config) \<leftarrow> add_bar config (bar_new PCI_BAR_IO_MIN_SIZE index Io);
     unwrap_ok r;
     index \<leftarrow> unwrap_ok (bar_index_try_from 2);
     (r, config) \<leftarrow> add_bar config (bar_new PCI_BAR_MEM_MIN_SIZE index Io);
     unwrap_ok r
   }"

definition test_add_bar_in_use :: "unit option" where
  "test_add_bar_in_use = do {
     config \<leftarrow> config_new;
     index \<leftarrow> unwrap_ok (bar_index_try_from 0);
     (r, config) \<leftarrow> add_bar config (bar_new PCI_BAR_MEM_MIN_SIZE index (Memory64Bit NotPrefetchable));
     unwrap_ok r;
     index \<leftarrow> unwrap_ok (bar_index_try_from 0);
     (r, config) \<leftarrow> add_bar config (bar_new PCI_BAR_MEM_MIN_SIZE index (Memory32Bit NotPrefetchable));
     assert_that (is_err r)
   }"

definition test_get_bar :: "unit option" where
  "test_get_bar = do {
     config \<leftarrow> config_new;
     bar \<leftarrow> get_bar config bar_index_default;
     assert_that (bar = None);
     (r, config) \<leftarrow> add_bar config (bar_new PCI_BAR_MEM_MIN_SIZE bar_index_default (Memory32Bit NotPrefetchable));
     unwrap_ok r;
     bar \<leftarrow> get_bar config bar_index_default;
     assert_that (bar = None);
     config \<leftarrow> cs_set_word config PCI_COMMAND PCI_COMMAND_MEM_SPACE_MASK;
     bar \<leftarrow> get_bar config bar_index_default;
     assert_that (bar = None);
     (r, config) \<leftarrow> cs_write_checked config PCI_BAR0 (to_le_bytes (0x1000 :: u32));
     unwrap_ok r;
     bar \<leftarrow> get_bar config bar_index_default;
     assert_that (bar \<noteq> None)
   }"

definition test_max_num_bars :: "unit option" where
  "test_max_num_bars = do {
     config \<leftarrow> config_new;
     config \<leftarrow> poke_registers config PCI_HEADER_TYPE [0];
     n \<leftarrow> max_num_bars config;
     assert_that (n = Inr PCI_TYPE0_NUM_BARS);
     config \<leftarrow> poke_registers config PCI_HEADER_TYPE [1];
     n \<leftarrow> max_num_bars config;
     assert_that (n = Inr PCI_TYPE1_NUM_BARS);
     config \<leftarrow> poke_registers config PCI_HEADER_TYPE [3];
     n \<leftarrow> max_num_bars config;
     assert_that (is_err n)
   }"

lemma bar_tests_pass:
  "test_add_bar = Some ()" "test_add_bar_in_use = Some ()" "test_get_bar = Some ()" "test_max_num_bars = Some ()"
  by (simp_all add: test_add_bar_def test_add_bar_in_use_def test_get_bar_def test_max_num_bars_def run del: run_del cong: run_cong)

section \<open>Capabilities\<close>

definition test_empty_cap_list :: "unit option" where
  "test_empty_cap_list = do {
     config \<leftarrow> config_new;
     item \<leftarrow> cap_iter_next config PCI_CAP_POINTER;
     assert_that (item = None)
   }"

definition test_invalid_cap_list :: "unit option" where
  "test_invalid_cap_list = do {
     config \<leftarrow> config_new;
     config \<leftarrow> poke_registers config PCI_CAP_POINTER [0x4];
     config \<leftarrow> poke_registers config 0x4 [capability_id_u8 DebugPort];
     config \<leftarrow> poke_registers config 0x5 [0x40];
     item \<leftarrow> cap_iter_next config PCI_CAP_POINTER;
     assert_that (item = None)
   }"

definition test_cap_list_recursion :: "unit option" where
  "test_cap_list_recursion = do {
     config \<leftarrow> config_new;
     config \<leftarrow> poke_registers config PCI_CAP_POINTER [0x40];
     config \<leftarrow> poke_registers config 0x40 [capability_id_u8 DebugPort];
     config \<leftarrow> poke_registers config 0x41 [0x40];
     item \<leftarrow> cap_iter_next config PCI_CAP_POINTER;
     (_, list) \<leftarrow> item;
     item \<leftarrow> cap_iter_next config list;
     assert_that (item = None)
   }"

text \<open>The header at an offset, and the items of a list with their numbers.\<close>

definition header_at :: "config_space \<Rightarrow> usize \<Rightarrow> PciCapHeader option" where
  "header_at config offset = do {
     area \<leftarrow> slice_read (cs_registers config) offset (PCI_CONFIGURATION_SPACE_SIZE - offset);
     cap_header_from area
   }"

definition test_cap_list_unaligned_pointer :: "unit option" where
  "test_cap_list_unaligned_pointer = do {
     config \<leftarrow> config_new;
     config \<leftarrow> poke_registers config PCI_CAP_POINTER [0x43];
     expected \<leftarrow> header_at config 0x40;
     item \<leftarrow> cap_iter_next config PCI_CAP_POINTER;
     assert_that (map_option fst item = Some (expected, 0x42))
   }"

definition add_dummy_caps :: "config_space \<Rightarrow> config_space option" where
  "add_dummy_caps config = do {
     config \<leftarrow> poke_registers config PCI_CAP_POINTER [0x40];
     config \<leftarrow> poke_registers config 0x40 [capability_id_u8 NullCap];
     config \<leftarrow> poke_registers config 0x41 [0x48];
     poke_registers config 0x48 [capability_id_u8 VendorSpecific]
   }"

definition test_cap_list :: "unit option" where
  "test_cap_list = do {
     config \<leftarrow> config_new;
     config \<leftarrow> add_dummy_caps config;
     expected \<leftarrow> header_at config 0x40;
     item \<leftarrow> cap_iter_next config PCI_CAP_POINTER;
     assert_that (map_option fst item = Some (expected, 0x42));
     (_, list) \<leftarrow> item;
     expected \<leftarrow> header_at config 0x48;
     item \<leftarrow> cap_iter_next config list;
     assert_that (map_option fst item = Some (expected, 0x4A))
   }"

lemma list_tests_pass:
  "test_empty_cap_list = Some ()" "test_invalid_cap_list = Some ()" "test_cap_list_recursion = Some ()"
  "test_cap_list_unaligned_pointer = Some ()" "test_cap_list = Some ()"
  by (simp_all add: test_empty_cap_list_def test_invalid_cap_list_def test_cap_list_recursion_def test_cap_list_unaligned_pointer_def
    test_cap_list_def add_dummy_caps_def header_at_def run del: run_del cong: run_cong)

text \<open>A capability with the same bytes as registers and as writable bits, and one that writes nothing.\<close>

record Cap1 =
  cap1_regs :: bytes
  cap1_writable_bits :: bytes
  cap1_size :: "usize option"

definition cap1_new :: "bytes option \<Rightarrow> Cap1" where
  "cap1_new regs =
     (let bytes = (case regs of Some regs \<Rightarrow> regs | None \<Rightarrow> [0, 0, 0, 0, 0, 0])
      in \<lparr>cap1_regs = bytes, cap1_writable_bits = bytes, cap1_size = None\<rparr>)"

definition cap1 :: "Cap1 \<Rightarrow> pci_capability" where
  "cap1 self =
     (let sz = (case cap1_size self of Some sz \<Rightarrow> sz | None \<Rightarrow> length (cap1_regs self));
          fill = (\<lambda>bytes data. do { assert_that (sz = length data); if length bytes = length data then Some bytes else None })
      in \<lparr>cap_id = VendorSpecific, cap_size = sz, cap_registers = fill (cap1_regs self),
          cap_writable_bits = fill (cap1_writable_bits self)\<rparr>)"

definition invalid_cap :: "usize \<Rightarrow> pci_capability" where
  "invalid_cap sz = \<lparr>cap_id = DebugPort, cap_size = sz, cap_registers = Some, cap_writable_bits = Some\<rparr>"

definition validate_cap :: "config_space \<Rightarrow> Cap1 \<Rightarrow> usize \<Rightarrow> usize \<Rightarrow> unit option" where
  "validate_cap config cap cap_start next_start = do {
     b \<leftarrow> peek (cs_registers config) cap_start;
     assert_that (b = capability_id_u8 (cap_id (cap1 cap)));
     b \<leftarrow> peek (cs_registers config) (cap_start + 1);
     assert_that (b = of_nat next_start);
     let data = cap_start + 2;
     bytes \<leftarrow> slice_read (cs_registers config) data (cap_size (cap1 cap));
     assert_that (bytes = cap1_regs cap);
     bytes \<leftarrow> slice_read (cs_writable_bits config) data (cap_size (cap1 cap));
     assert_that (bytes = cap1_writable_bits cap)
   }"

lemmas cap1_run [run] = cap1_new_def cap1_def invalid_cap_def validate_cap_def

definition test_add_capability :: "unit option" where
  "test_add_capability = do {
     config \<leftarrow> config_new;
     let cap = cap1_new (Some [0xFF, 0xEE, 0xDD, 0xCC, 0xBB, 0xAA]);
     let another = cap1_new (Some [0x11, 0x22, 0x33, 0x44, 0x55, 0x66]);
     b \<leftarrow> peek (cs_registers config) PCI_STATUS;
     assert_that (b = 0);
     let cap_start = PCI_DEVICE_SPECIFIC_START;
     (r, config) \<leftarrow> add_capability config (cap1 cap);
     assert_that (r = Inr (cap_start + 2));
     validate_cap config cap cap_start 0;
     b \<leftarrow> peek (cs_registers config) PCI_STATUS;
     assert_that (b = ucast PCI_STATUS_CAP_LIST_MASK);
     b \<leftarrow> peek (cs_registers config) PCI_CAP_POINTER;
     assert_that (b = of_nat cap_start);
     assert_that (\<not> 4 dvd cap_size (cap1 cap));
     let second_start = cap_start + cap_size (cap1 cap) + 2;
     (r, config) \<leftarrow> add_capability config (cap1 another);
     assert_that (r = Inr (second_start + 2));
     validate_cap config another second_start 0;
     validate_cap config cap cap_start second_start;
     b \<leftarrow> peek (cs_registers config) PCI_CAP_POINTER;
     assert_that (b = of_nat cap_start)
   }"

definition test_add_capability_no_space :: "unit option" where
  "test_add_capability_no_space = do {
     config \<leftarrow> config_new;
     let first = cap1_new None;
     let hdrs = 4;
     let second = invalid_cap (PCI_DEVICE_SPECIFIC_END - PCI_DEVICE_SPECIFIC_START - cap_size (cap1 first) - hdrs + 1);
     (r, config) \<leftarrow> add_capability config (cap1 first);
     assert_that (is_ok r);
     (r, config) \<leftarrow> add_capability config second;
     assert_that (is_err r)
   }"

definition test_update_capability_not_found :: "unit option" where
  "test_update_capability_not_found = do {
     config \<leftarrow> config_new;
     let cap = cap1 (cap1_new None);
     (r, config) \<leftarrow> update_capability config cap 0x42;
     assert_that (is_err r);
     config \<leftarrow> add_dummy_caps config;
     (r, config) \<leftarrow> update_capability config cap 0x42;
     assert_that (is_err r)
   }"

definition test_update_capability_invalid_size :: "unit option" where
  "test_update_capability_invalid_size = do {
     config \<leftarrow> config_new;
     let cap = invalid_cap (2 ^ 64 - 1);
     config \<leftarrow> poke_registers config PCI_CAP_POINTER [0x40];
     config \<leftarrow> poke_registers config 0x40 [capability_id_u8 (cap_id cap)];
     (r, config) \<leftarrow> update_capability config cap 0x42;
     assert_that (r = Inl (ConfigurationSpaceBounds PCI_CONFIGURATION_SPACE_SIZE))
   }"

definition test_update_capability_device_area_bounds :: "unit option" where
  "test_update_capability_device_area_bounds = do {
     config \<leftarrow> config_new;
     let cap = invalid_cap PCI_DEVICE_SPECIFIC_END;
     config \<leftarrow> poke_registers config PCI_CAP_POINTER [0x40];
     config \<leftarrow> poke_registers config 0x40 [capability_id_u8 (cap_id cap)];
     (r, config) \<leftarrow> update_capability config cap 0x42;
     assert_that (r = Inl (DeviceAreaBounds (0x42 + PCI_DEVICE_SPECIFIC_END) PCI_DEVICE_SPECIFIC_END))
   }"

definition test_update_capability :: "unit option" where
  "test_update_capability = do {
     config \<leftarrow> config_new;
     let expected = [0xFF, 0xEE, 0xDD, 0xCC, 0xBB, 0xAA];
     let cap = cap1 (cap1_new (Some expected));
     config \<leftarrow> poke_registers config PCI_CAP_POINTER [0x40];
     config \<leftarrow> poke_registers config 0x40 [capability_id_u8 (cap_id cap)];
     let data = [0x11, 0x22, 0x33, 0x44, 0x55, 0x66];
     config \<leftarrow> poke_registers config 0x42 data;
     config \<leftarrow> poke_writable config 0x42 data;
     (r, config) \<leftarrow> update_capability config cap 0x42;
     assert_that (is_ok r);
     bytes \<leftarrow> slice_read (cs_registers config) 0x42 (length expected);
     assert_that (bytes = expected);
     bytes \<leftarrow> slice_read (cs_writable_bits config) 0x42 (length expected);
     assert_that (bytes = expected)
   }"

lemma capability_tests_pass:
  "test_add_capability = Some ()" "test_add_capability_no_space = Some ()" "test_update_capability_not_found = Some ()"
  "test_update_capability_invalid_size = Some ()" "test_update_capability_device_area_bounds = Some ()" "test_update_capability = Some ()"
  by (simp_all add: test_add_capability_def test_add_capability_no_space_def test_update_capability_not_found_def
    test_update_capability_invalid_size_def test_update_capability_device_area_bounds_def test_update_capability_def
    add_dummy_caps_def run del: run_del cong: run_cong)

definition find_cap :: "config_space \<Rightarrow> PciCapabilityId \<Rightarrow> (PciCapHeader \<times> usize) option option" where
  "find_cap config cid = capability_find config (\<lambda>(header, _). hdr_cap_id header = capability_id_u8 cid)"

definition test_capability_iter :: "unit option" where
  "test_capability_iter = do {
     config \<leftarrow> config_new;
     found \<leftarrow> find_cap config NullCap;
     assert_that (found = None);
     config \<leftarrow> add_dummy_caps config;
     found \<leftarrow> find_cap config NullCap;
     assert_that (found = Some (\<lparr>hdr_cap_id = 0, hdr_next_pointer = 0x48\<rparr>, 0x42));
     found \<leftarrow> find_cap config VendorSpecific;
     assert_that (found = Some (\<lparr>hdr_cap_id = capability_id_u8 VendorSpecific, hdr_next_pointer = 0\<rparr>, 0x4A))
   }"

lemma iterator_tests_pass: "test_capability_iter = Some ()"
  by (simp add: test_capability_iter_def find_cap_def add_dummy_caps_def run del: run_del cong: run_cong)

end
