(* ===== verification/Test_Utils.thy ===== *)
theory Test_Utils
  imports Test_Run Bar_Region
begin

text \<open>
  The tests of \<open>utils/mod.rs\<close>, \<open>utils/register_block.rs\<close> and \<open>bar_region.rs\<close>.
\<close>

unbundle bit_operations_syntax

section \<open>Windows and ranges\<close>

definition test_access_data_window_truncate_left :: "unit option" where
  "test_access_data_window_truncate_left = assert_that (access_data_window 2 4 4 4 = Some (2, 4))"

definition test_access_data_window_full :: "unit option" where
  "test_access_data_window_full = do {
     assert_that (access_data_window 4 4 4 4 = Some (0, 4));
     assert_that (access_data_window 4 2 4 4 = Some (0, 2));
     assert_that (access_data_window 6 2 4 4 = Some (0, 2))
   }"

definition test_access_data_window_truncate_right :: "unit option" where
  "test_access_data_window_truncate_right = assert_that (access_data_window 6 4 4 4 = Some (0, 2))"

definition test_access_data_window_outside :: "unit option" where
  "test_access_data_window_outside = do {
     assert_that (access_data_window 0 2 4 4 = None);
     assert_that (access_data_window 8 2 4 4 = None)
   }"

definition test_access_data_window_overflow :: "unit option" where
  "test_access_data_window_overflow = do {
     assert_that (access_data_window (2 ^ 64 - 1) 4 4 4 = None);
     assert_that (access_data_window 4 (2 ^ 64 - 1) 4 4 = None);
     assert_that (access_data_window 2 4 (2 ^ 64 - 1) 4 = None);
     assert_that (access_data_window 2 4 4 (2 ^ 64 - 1) = None)
   }"

definition test_offset_within_range :: "unit option" where
  "test_offset_within_range = do {
     assert_that (offset_within_range 0 0 1 = Some 0);
     assert_that (offset_within_range 2 2 2 = Some 0);
     assert_that (offset_within_range 3 2 2 = Some 1)
   }"

definition test_offset_within_range_outside :: "unit option" where
  "test_offset_within_range_outside = do {
     assert_that (offset_within_range 1 2 2 = None);
     assert_that (offset_within_range 4 2 2 = None)
   }"

definition test_offset_within_range_underflow :: "unit option" where
  "test_offset_within_range_underflow = assert_that (offset_within_range 4 (2 ^ 64 - 1) 2 = None)"

lemmas window_run [run] = access_data_window_def offset_within_range_def

lemma window_tests_pass:
  "test_access_data_window_truncate_left = Some ()" "test_access_data_window_full = Some ()"
  "test_access_data_window_truncate_right = Some ()" "test_access_data_window_outside = Some ()"
  "test_access_data_window_overflow = Some ()" "test_offset_within_range = Some ()"
  "test_offset_within_range_outside = Some ()" "test_offset_within_range_underflow = Some ()"
  by (simp_all add: test_access_data_window_truncate_left_def test_access_data_window_full_def test_access_data_window_truncate_right_def
    test_access_data_window_outside_def test_access_data_window_overflow_def test_offset_within_range_def
    test_offset_within_range_outside_def test_offset_within_range_underflow_def run del: run_del cong: run_cong)

section \<open>Register blocks\<close>

record TestRegBlock =
  tb_registers :: bytes
  tb_writable_bits :: bytes

abbreviation tb_store :: "bytes \<Rightarrow> TestRegBlock \<Rightarrow> TestRegBlock" where
  "tb_store r b \<equiv> b\<lparr>tb_registers := r\<rparr>"

abbreviation tb_validate :: "TestRegBlock \<Rightarrow> usize \<Rightarrow> bytes \<Rightarrow> unit result option" where
  "tb_validate \<equiv> rb_validate_access tb_registers"

definition reg_block_new :: TestRegBlock where
  "reg_block_new =
     \<lparr>tb_registers = map (\<lambda>index. of_nat (index + 1)) [0..<16],
      tb_writable_bits = map (\<lambda>index. let index = index + 1 in
        if index mod 3 = 0 then 0xF0 else if index mod 2 = 0 then 0xFF else 0x00) [0..<16]\<rparr>"

text \<open>The value of the bytes of a block from an offset on.\<close>

definition value_at :: "bytes \<Rightarrow> usize \<Rightarrow> usize \<Rightarrow> 'a::len word option" where
  "value_at arr offset n = do { b \<leftarrow> slice_read arr offset n; Some (from_le_bytes b) }"

definition test_reg_read :: "unit option" where
  "test_reg_read = do {
     let rb = reg_block_new;
     b \<leftarrow> read_register_byte tb_registers rb 0;
     assert_that (b = tb_registers rb ! 0);
     b \<leftarrow> read_register_byte tb_registers rb 15;
     assert_that (b = tb_registers rb ! 15);
     w \<leftarrow> read_register_word tb_registers rb 0;
     assert_that (Some w = value_at (tb_registers rb) 0 2);
     w \<leftarrow> read_register_word tb_registers rb 14;
     assert_that (Some w = value_at (tb_registers rb) 14 2);
     d \<leftarrow> read_register_dword tb_registers rb 0;
     assert_that (Some d = value_at (tb_registers rb) 0 4);
     d \<leftarrow> read_register_dword tb_registers rb 12;
     assert_that (Some d = value_at (tb_registers rb) 12 4);
     q \<leftarrow> read_register_qword tb_registers rb 0;
     assert_that (Some q = value_at (tb_registers rb) 0 8);
     q \<leftarrow> read_register_qword tb_registers rb 8;
     assert_that (Some q = value_at (tb_registers rb) 8 8);
     data \<leftarrow> read_register tb_registers rb 3 [0, 0, 0, 0, 0];
     assert_that (Some data = slice_read (tb_registers rb) 3 5)
   }"

definition test_reg_set :: "unit option" where
  "test_reg_set = do {
     let rb = reg_block_new;
     let expect = 0;
     rb \<leftarrow> set_register_byte tb_registers tb_store rb 0 expect;
     assert_that (tb_registers rb ! 0 = expect);
     let expect = 100;
     rb \<leftarrow> set_register_byte tb_registers tb_store rb 15 expect;
     assert_that (tb_registers rb ! 15 = expect);
     let rb = reg_block_new;
     let expect = 0;
     rb \<leftarrow> set_register_word tb_registers tb_store rb 0 expect;
     assert_that (value_at (tb_registers rb) 0 2 = Some expect);
     let expect = 0xABBA;
     rb \<leftarrow> set_register_word tb_registers tb_store rb 14 expect;
     assert_that (value_at (tb_registers rb) 14 2 = Some expect);
     let rb = reg_block_new;
     let expect = 0;
     rb \<leftarrow> set_register_dword tb_registers tb_store rb 0 expect;
     assert_that (value_at (tb_registers rb) 0 4 = Some expect);
     let expect = 0xABBACAFE;
     rb \<leftarrow> set_register_dword tb_registers tb_store rb 12 expect;
     assert_that (value_at (tb_registers rb) 12 4 = Some expect);
     let rb = reg_block_new;
     let expect = 0;
     rb \<leftarrow> set_register_qword tb_registers tb_store rb 0 expect;
     assert_that (value_at (tb_registers rb) 0 8 = Some expect);
     let expect = 0xABBACAFEBAADF00D;
     rb \<leftarrow> set_register_qword tb_registers tb_store rb 8 expect;
     assert_that (value_at (tb_registers rb) 8 8 = Some expect);
     let rb = reg_block_new;
     let data = [4, 4, 4, 4, 4];
     rb \<leftarrow> set_register tb_registers tb_store rb 3 data;
     assert_that (slice_read (tb_registers rb) 3 5 = Some data)
   }"

definition test_reg_write :: "unit option" where
  "test_reg_write = do {
     let rb = reg_block_new;
     let expect = tb_registers rb ! 0;
     rb \<leftarrow> write_register_byte tb_registers tb_store tb_writable_bits rb 0 0;
     assert_that (tb_registers rb ! 0 = expect);
     let expect = 0xFF;
     rb \<leftarrow> write_register_byte tb_registers tb_store tb_writable_bits rb 1 expect;
     assert_that (tb_registers rb ! 1 = expect);
     rb \<leftarrow> write_register_byte tb_registers tb_store tb_writable_bits rb 2 0xFF;
     assert_that (tb_registers rb ! 2 = 0xF3);
     let rb = reg_block_new;
     let data = (0xABBA :: u16);
     m \<leftarrow> value_at (tb_writable_bits rb) 0 2;
     current \<leftarrow> value_at (tb_registers rb) 0 2;
     let expect = update_register current data m;
     rb \<leftarrow> write_register_word tb_registers tb_store tb_writable_bits rb 0 data;
     assert_that (value_at (tb_registers rb) 0 2 = Some expect);
     m \<leftarrow> value_at (tb_writable_bits rb) 14 2;
     current \<leftarrow> value_at (tb_registers rb) 14 2;
     let expect = update_register current data m;
     rb \<leftarrow> write_register_word tb_registers tb_store tb_writable_bits rb 14 data;
     assert_that (value_at (tb_registers rb) 14 2 = Some expect);
     let rb = reg_block_new;
     let data = (0xABBACAFE :: u32);
     m \<leftarrow> value_at (tb_writable_bits rb) 12 4;
     current \<leftarrow> value_at (tb_registers rb) 12 4;
     let expect = update_register current data m;
     rb \<leftarrow> write_register_dword tb_registers tb_store tb_writable_bits rb 12 data;
     assert_that (value_at (tb_registers rb) 12 4 = Some expect);
     let data = (0xABBACAFEBAADF00D :: u64);
     m \<leftarrow> value_at (tb_writable_bits rb) 8 8;
     current \<leftarrow> value_at (tb_registers rb) 8 8;
     let expect = update_register current data m;
     rb \<leftarrow> write_register_qword tb_registers tb_store tb_writable_bits rb 8 data;
     assert_that (value_at (tb_registers rb) 8 8 = Some expect);
     let rb = reg_block_new;
     let data = [4, 4, 4, 4, 4];
     let expect = [4, 5, 6, 7, 4];
     rb \<leftarrow> write_register tb_registers tb_store tb_writable_bits rb 3 data;
     assert_that (slice_read (tb_registers rb) 3 5 = Some expect)
   }"

definition test_reg_read_checked :: "unit option" where
  "test_reg_read_checked = do {
     let rb = reg_block_new;
     b \<leftarrow> read_register_byte_checked tb_registers tb_validate rb 15;
     b \<leftarrow> unwrap_ok b;
     assert_that (b = tb_registers rb ! 15);
     b \<leftarrow> read_register_byte_checked tb_registers tb_validate rb 16;
     assert_that (is_err b);
     w \<leftarrow> read_register_word tb_registers rb 14;
     assert_that (Some w = value_at (tb_registers rb) 14 2);
     w \<leftarrow> read_register_word_checked tb_registers tb_validate rb 15;
     assert_that (is_err w);
     d \<leftarrow> read_register_dword tb_registers rb 12;
     assert_that (Some d = value_at (tb_registers rb) 12 4);
     d \<leftarrow> read_register_dword_checked tb_registers tb_validate rb 13;
     assert_that (is_err d);
     q \<leftarrow> read_register_qword tb_registers rb 8;
     assert_that (Some q = value_at (tb_registers rb) 8 8);
     q \<leftarrow> read_register_qword_checked tb_registers tb_validate rb 9;
     assert_that (is_err q)
   }"

definition test_reg_set_checked :: "unit option" where
  "test_reg_set_checked = do {
     let rb = reg_block_new;
     let expect = 0xAB;
     (r, rb) \<leftarrow> set_register_byte_checked tb_registers tb_store tb_validate rb 15 expect;
     unwrap_ok r;
     assert_that (tb_registers rb ! 15 = expect);
     (r, rb) \<leftarrow> set_register_byte_checked tb_registers tb_store tb_validate rb 16 expect;
     assert_that (is_err r);
     let rb = reg_block_new;
     let expect = 0xABBA;
     (r, rb) \<leftarrow> set_register_word_checked tb_registers tb_store tb_validate rb 14 expect;
     unwrap_ok r;
     assert_that (value_at (tb_registers rb) 14 2 = Some expect);
     (r, rb) \<leftarrow> set_register_word_checked tb_registers tb_store tb_validate rb 15 expect;
     assert_that (is_err r);
     let rb = reg_block_new;
     let expect = 0xABBACAFE;
     (r, rb) \<leftarrow> set_register_dword_checked tb_registers tb_store tb_validate rb 12 expect;
     unwrap_ok r;
     assert_that (value_at (tb_registers rb) 12 4 = Some expect);
     (r, rb) \<leftarrow> set_register_dword_checked tb_registers tb_store tb_validate rb 13 expect;
     assert_that (is_err r);
     let rb = reg_block_new;
     let expect = 0xABBACAFEBAADF00D;
     (r, rb) \<leftarrow> set_register_qword_checked tb_registers tb_store tb_validate rb 8 expect;
     unwrap_ok r;
     assert_that (value_at (tb_registers rb) 8 8 = Some expect);
     (r, rb) \<leftarrow> set_register_qword_checked tb_registers tb_store tb_validate rb 9 expect;
     assert_that (is_err r)
   }"

lemmas checked_run [run] = rb_validate_access_def read_register_checked_def set_register_checked_def write_register_checked_def
  validate_write_access_def
  read_register_byte_checked_def read_register_word_checked_def read_register_dword_checked_def read_register_qword_checked_def
  set_register_byte_checked_def set_register_word_checked_def set_register_dword_checked_def set_register_qword_checked_def
  value_at_def

lemma reg_block_new_run [run]:
  "reg_block_new = \<lparr>tb_registers = [1, 2, 3, 4, 5, 6, 7, 8, 9, 10, 11, 12, 13, 14, 15, 16],
     tb_writable_bits = [0, 0xFF, 0xF0, 0xFF, 0, 0xF0, 0, 0xFF, 0xF0, 0xFF, 0, 0xF0, 0, 0xFF, 0xF0, 0xFF]\<rparr>"
  by (simp add: reg_block_new_def run del: run_del cong: run_cong)

lemma register_tests_pass:
  "test_reg_read = Some ()" "test_reg_set = Some ()" "test_reg_write = Some ()" "test_reg_read_checked = Some ()"
  "test_reg_set_checked = Some ()"
  by (simp_all add: test_reg_read_def test_reg_set_def test_reg_write_def test_reg_read_checked_def test_reg_set_checked_def
    run del: run_del cong: run_cong)

section \<open>Regions of a BAR\<close>

text \<open>One handler that implements the three traits; the context is a number.\<close>

record TestHandler =
  th_infos :: "PciBarRegionInfo list"
  th_last_offset :: u64

definition handler_new :: TestHandler where
  "handler_new =
     \<lparr>th_infos = [\<lparr>region_bar = bar_index_default, region_offset = 8, region_length = 8\<rparr>,
        \<lparr>region_bar = bar_index_default, region_offset = 16, region_length = 8\<rparr>],
      th_last_offset = 0xFFFFFFFFFFFFFFFF\<rparr>"

definition handler_info :: "TestHandler \<Rightarrow> PciBarRegionInfo" where
  "handler_info h = th_infos h ! 0"

definition handler_info_iter :: "TestHandler \<Rightarrow> (usize \<times> PciBarRegionInfo) list" where
  "handler_info_iter h = enumerate 0 (th_infos h)"

definition simple_read_bar :: "TestHandler \<Rightarrow> u64 \<Rightarrow> bytes \<Rightarrow> (TestHandler \<times> bytes, unit) call" where
  "simple_read_bar h offset data = Some (Inr (), (h\<lparr>th_last_offset := offset\<rparr>, data))"

definition simple_write_bar :: "TestHandler \<Rightarrow> u64 \<Rightarrow> bytes \<Rightarrow> (TestHandler, unit) call" where
  "simple_write_bar h offset data = Some (Inr (), h\<lparr>th_last_offset := offset\<rparr>)"

definition normal_read_bar :: "TestHandler \<Rightarrow> u64 \<Rightarrow> bytes \<Rightarrow> u32 \<Rightarrow> (TestHandler \<times> bytes \<times> u32, unit) call" where
  "normal_read_bar h offset data context = Some (Inr (), (h\<lparr>th_last_offset := offset\<rparr>, data, 1))"

definition normal_write_bar :: "TestHandler \<Rightarrow> u64 \<Rightarrow> bytes \<Rightarrow> u32 \<Rightarrow> (TestHandler \<times> u32, unit) call" where
  "normal_write_bar h offset data context = Some (Inr (), (h\<lparr>th_last_offset := offset\<rparr>, 2))"

definition set_read_bar :: "TestHandler \<Rightarrow> usize \<Rightarrow> u64 \<Rightarrow> bytes \<Rightarrow> u32 \<Rightarrow> (TestHandler \<times> bytes \<times> u32, unit) call" where
  "set_read_bar h rid offset data context = do {
     let h = h\<lparr>th_last_offset := offset\<rparr>;
     context \<leftarrow> (if rid = 0 then Some 3 else if rid = 1 then Some 4 else None);
     Some (Inr (), (h, data, context))
   }"

definition set_write_bar :: "TestHandler \<Rightarrow> usize \<Rightarrow> u64 \<Rightarrow> bytes \<Rightarrow> u32 \<Rightarrow> (TestHandler \<times> u32, unit) call" where
  "set_write_bar h rid offset data context = do {
     let h = h\<lparr>th_last_offset := offset\<rparr>;
     context \<leftarrow> (if rid = 0 then Some 5 else if rid = 1 then Some 6 else None);
     Some (Inr (), (h, context))
   }"

definition test_handle_read_bar_no_match :: "unit option" where
  "test_handle_read_bar_no_match = do {
     let h = handler_new;
     index \<leftarrow> unwrap_ok (bar_index_try_from 1);
     (r, h, _) \<leftarrow> simple_handle_read_bar handler_info simple_read_bar h index 8 [0, 0, 0, 0];
     r \<leftarrow> unwrap_ok r;
     assert_that (\<not> handled r);
     let index = bar_index_default;
     (r, h, _) \<leftarrow> simple_handle_read_bar handler_info simple_read_bar h index 0 [0, 0, 0, 0];
     r \<leftarrow> unwrap_ok r;
     assert_that (\<not> handled r);
     (r, h, _) \<leftarrow> simple_handle_read_bar handler_info simple_read_bar h index 12 [0, 0, 0, 0, 0, 0, 0, 0];
     r \<leftarrow> unwrap_ok r;
     assert_that (\<not> handled r)
   }"

definition test_handle_read_bar :: "unit option" where
  "test_handle_read_bar = do {
     let h = handler_new;
     let data = [0, 0, 0, 0];
     let index = bar_index_default;
     (r, h, data) \<leftarrow> simple_handle_read_bar handler_info simple_read_bar h index 8 data;
     r \<leftarrow> unwrap_ok r;
     assert_that (handled r);
     assert_that (th_last_offset h = 0);
     (r, h, data) \<leftarrow> simple_handle_read_bar handler_info simple_read_bar h index 12 data;
     r \<leftarrow> unwrap_ok r;
     assert_that (handled r);
     assert_that (th_last_offset h = 4)
   }"

definition test_handle_write_bar_no_match :: "unit option" where
  "test_handle_write_bar_no_match = do {
     let h = handler_new;
     index \<leftarrow> unwrap_ok (bar_index_try_from 1);
     (r, h) \<leftarrow> simple_handle_write_bar handler_info simple_write_bar h index 8 [0, 0, 0, 0];
     r \<leftarrow> unwrap_ok r;
     assert_that (\<not> handled r);
     let index = bar_index_default;
     (r, h) \<leftarrow> simple_handle_write_bar handler_info simple_write_bar h index 0 [0, 0, 0, 0];
     r \<leftarrow> unwrap_ok r;
     assert_that (\<not> handled r);
     (r, h) \<leftarrow> simple_handle_write_bar handler_info simple_write_bar h bar_index_default 12 [0, 0, 0, 0, 0, 0, 0, 0];
     r \<leftarrow> unwrap_ok r;
     assert_that (\<not> handled r)
   }"

definition test_handle_write_bar :: "unit option" where
  "test_handle_write_bar = do {
     let h = handler_new;
     let data = [0, 0, 0, 0];
     let index = bar_index_default;
     (r, h) \<leftarrow> simple_handle_write_bar handler_info simple_write_bar h index 8 data;
     r \<leftarrow> unwrap_ok r;
     assert_that (handled r);
     assert_that (th_last_offset h = 0);
     (r, h) \<leftarrow> simple_handle_write_bar handler_info simple_write_bar h index 12 data;
     r \<leftarrow> unwrap_ok r;
     assert_that (handled r);
     assert_that (th_last_offset h = 4)
   }"

definition test_handle_read_bar_with_context :: "unit option" where
  "test_handle_read_bar_with_context = do {
     let h = handler_new;
     let data = [0, 0, 0, 0];
     let context = 0;
     let index = bar_index_default;
     (r, h, data, context) \<leftarrow> region_handle_read_bar handler_info normal_read_bar h index 8 data context;
     r \<leftarrow> unwrap_ok r;
     assert_that (handled r);
     assert_that (th_last_offset h = 0);
     assert_that (context = 1);
     (r, h, data, context) \<leftarrow> region_handle_read_bar handler_info normal_read_bar h index 12 data context;
     r \<leftarrow> unwrap_ok r;
     assert_that (handled r);
     assert_that (th_last_offset h = 4);
     assert_that (context = 1)
   }"

definition test_handle_write_bar_with_context :: "unit option" where
  "test_handle_write_bar_with_context = do {
     let h = handler_new;
     let data = [0, 0, 0, 0];
     let context = 0;
     let index = bar_index_default;
     (r, h, context) \<leftarrow> region_handle_write_bar handler_info normal_write_bar h index 8 data context;
     r \<leftarrow> unwrap_ok r;
     assert_that (handled r);
     assert_that (th_last_offset h = 0);
     assert_that (context = 2);
     (r, h, context) \<leftarrow> region_handle_write_bar handler_info normal_write_bar h index 12 data context;
     r \<leftarrow> unwrap_ok r;
     assert_that (handled r);
     assert_that (th_last_offset h = 4);
     assert_that (context = 2)
   }"

definition test_handle_read_bar_multiple_regions :: "unit option" where
  "test_handle_read_bar_multiple_regions = do {
     let h = handler_new;
     let data = [0, 0, 0, 0];
     let context = 0;
     let index = bar_index_default;
     (r, h, data, context) \<leftarrow> set_handle_read_bar handler_info_iter set_read_bar h index 0 data context;
     r \<leftarrow> unwrap_ok r;
     assert_that (\<not> handled r);
     (r, h, data, context) \<leftarrow> set_handle_read_bar handler_info_iter set_read_bar h index 12 data context;
     r \<leftarrow> unwrap_ok r;
     assert_that (handled r);
     assert_that (th_last_offset h = 4);
     assert_that (context = 3);
     (r, h, data, context) \<leftarrow> set_handle_read_bar handler_info_iter set_read_bar h index 16 data context;
     r \<leftarrow> unwrap_ok r;
     assert_that (handled r);
     assert_that (th_last_offset h = 0);
     assert_that (context = 4)
   }"

definition test_handle_write_bar_multiple_regions :: "unit option" where
  "test_handle_write_bar_multiple_regions = do {
     let h = handler_new;
     let data = [0, 0, 0, 0];
     let context = 0;
     let index = bar_index_default;
     (r, h, context) \<leftarrow> set_handle_write_bar handler_info_iter set_write_bar h index 12 data context;
     r \<leftarrow> unwrap_ok r;
     assert_that (handled r);
     assert_that (th_last_offset h = 4);
     assert_that (context = 5);
     (r, h, context) \<leftarrow> set_handle_write_bar handler_info_iter set_write_bar h index 16 data context;
     r \<leftarrow> unwrap_ok r;
     assert_that (handled r);
     assert_that (th_last_offset h = 0);
     assert_that (context = 6)
   }"

lemmas region_run [run] = access_targets_region_def offset_within_region_def range_contains_def simple_handle_read_bar_def
  simple_handle_write_bar_def region_handle_read_bar_def region_handle_write_bar_def set_handle_read_bar_def set_handle_write_bar_def

lemmas handler_run [run] = handler_new_def handler_info_def handler_info_iter_def simple_read_bar_def simple_write_bar_def
  normal_read_bar_def normal_write_bar_def set_read_bar_def set_write_bar_def

lemma region_tests_pass:
  "test_handle_read_bar_no_match = Some ()" "test_handle_read_bar = Some ()" "test_handle_write_bar_no_match = Some ()"
  "test_handle_write_bar = Some ()" "test_handle_read_bar_with_context = Some ()" "test_handle_write_bar_with_context = Some ()"
  "test_handle_read_bar_multiple_regions = Some ()" "test_handle_write_bar_multiple_regions = Some ()"
  by (simp_all add: test_handle_read_bar_no_match_def test_handle_read_bar_def test_handle_write_bar_no_match_def
    test_handle_write_bar_def test_handle_read_bar_with_context_def test_handle_write_bar_with_context_def
    test_handle_read_bar_multiple_regions_def test_handle_write_bar_multiple_regions_def run del: run_del cong: run_cong)

end
