(* ===== verification/Test_Msi.thy ===== *)
theory Test_Msi
  imports Test_Run Msi
begin

text \<open>
  The tests of \<open>msi.rs\<close>, run on the model.
\<close>

unbundle bit_operations_syntax

section \<open>Helpers of the tests\<close>

definition set_bus_master :: "config_space \<Rightarrow> bool \<Rightarrow> config_space option" where
  "set_bus_master config enable = do {
     command \<leftarrow> cs_read_word config PCI_COMMAND;
     let command = (if enable then command OR PCI_COMMAND_BUS_MASTER_MASK else command AND NOT PCI_COMMAND_BUS_MASTER_MASK);
     cs_set_word config PCI_COMMAND command
   }"

text \<open>\<open>TestIrqController\<close> keeps the messages; setting a line is unreachable.\<close>

fun irq_messages :: "controller \<Rightarrow> PciMsiMessage list option" where
  "irq_messages [] = Some []"
| "irq_messages (SendMsi m # ic) = map_option (Cons m) (irq_messages ic)"
| "irq_messages (SetInterrupt line state # ic) = None"

definition msi_cap_new :: "MsiAddressWidth \<Rightarrow> MsiMultipleMessage \<Rightarrow> MsiPerVectorMasking \<Rightarrow> PciMsiCapability" where
  "msi_cap_new width vectors masking =
     \<lparr>mc_address_width = width, mc_per_vector_masking = masking, mc_vectors = vectors\<rparr>"

definition new_config :: "PciMsiCapability \<Rightarrow> (config_space \<times> usize) option" where
  "new_config cap = do {
     config \<leftarrow> config_new;
     (r, config) \<leftarrow> add_capability config (msi_capability cap);
     offset \<leftarrow> unwrap_ok r;
     Some (config, offset)
   }"

definition new_cap :: "PciMsiCapability \<Rightarrow> (config_space \<times> PciMsi) option" where
  "new_cap cap = do {
     (config, offset) \<leftarrow> new_config cap;
     Some (config, \<lparr>msi_offset = offset\<rparr>)
   }"

definition MSI_CONTROL_MULTIPLE_MSG_CAP :: u16 where [simp]: "MSI_CONTROL_MULTIPLE_MSG_CAP = 0xE"
definition TEST_ADDRESS_32 :: u32 where [simp]: "TEST_ADDRESS_32 = 0xBAADCAFE"
definition TEST_ADDRESS_64 :: u64 where [simp]: "TEST_ADDRESS_64 = 0x12345678BAADCAFE"
definition TEST_DATA :: u32 where [simp]: "TEST_DATA = 0x1EE7"

definition address_to_components :: "u64 \<Rightarrow> u32 \<times> u32" where
  "address_to_components address =
     (let lower = ucast address;
          upper = ucast (drop_bit 32 address)
      in (upper, lower))"

definition test_msi_address :: "u32 option \<Rightarrow> u32 option \<Rightarrow> u64" where
  "test_msi_address upper lower =
     (let upper = (case upper of None \<Rightarrow> 0 | Some u \<Rightarrow> u) AND MSI_ADDRESS_UPPER_MASK;
          lower = (case lower of None \<Rightarrow> 0 | Some l \<Rightarrow> l) AND MSI_ADDRESS_MASK
      in push_bit 32 (ucast upper) OR ucast lower)"

definition test_msi_data :: "usize \<Rightarrow> u16 \<Rightarrow> u32 \<Rightarrow> u32 option" where
  "test_msi_data vector control data = do {
     assert_that (vector < 32);
     enabled_vectors \<leftarrow> from_enable control;
     let modifiable_bits = ucast (max_vectors enabled_vectors - 1);
     Some (data AND NOT modifiable_bits OR of_nat vector)
   }"

definition init_32bit_test_data :: "config_space \<Rightarrow> PciMsi \<Rightarrow> config_space option" where
  "init_32bit_test_data config cap = do {
     config \<leftarrow> cs_write_dword config (msi_offset cap + MSI_ADDRESS) TEST_ADDRESS_32;
     config \<leftarrow> cs_write_word config (msi_offset cap + MSI_DATA_32BIT) (ucast TEST_DATA);
     control \<leftarrow> cs_read_word config (msi_offset cap);
     cs_write_word config (msi_offset cap) (control OR MSI_CONTROL_MSI_EN)
   }"

definition init_64bit_test_data :: "config_space \<Rightarrow> PciMsi \<Rightarrow> (config_space \<times> u32 \<times> u32) option" where
  "init_64bit_test_data config cap = do {
     let (upper, lower) = address_to_components TEST_ADDRESS_64;
     config \<leftarrow> cs_write_dword config (msi_offset cap + MSI_ADDRESS) lower;
     config \<leftarrow> cs_write_dword config (msi_offset cap + MSI_ADDRESS_UPPER) upper;
     config \<leftarrow> cs_write_word config (msi_offset cap + MSI_DATA_64BIT) (ucast TEST_DATA);
     control \<leftarrow> cs_read_word config (msi_offset cap);
     config \<leftarrow> cs_write_word config (msi_offset cap) (control OR MSI_CONTROL_MSI_EN);
     Some (config, upper, lower)
   }"

definition enable_vectors :: "config_space \<Rightarrow> PciMsi \<Rightarrow> MsiMultipleMessage \<Rightarrow> config_space option" where
  "enable_vectors config cap vectors = do {
     control \<leftarrow> cs_read_word config (msi_offset cap);
     cs_write_word config (msi_offset cap) (control OR to_enable vectors)
   }"

definition set_vector_mask :: "config_space \<Rightarrow> PciMsi \<Rightarrow> usize \<Rightarrow> bool \<Rightarrow> config_space option" where
  "set_vector_mask config cap vector masked = do {
     control \<leftarrow> cs_read_word config (msi_offset cap);
     offset \<leftarrow> mask_bits_offset control;
     let offset = msi_offset cap + offset;
     bits \<leftarrow> cs_read_dword config offset;
     one \<leftarrow> one_shl vector;
     let bits = (if masked then bits OR one else bits AND NOT one);
     cs_write_dword config offset bits
   }"

lemmas msi_helpers_run [run] = set_bus_master_def msi_cap_new_def new_config_def new_cap_def address_to_components_def
  test_msi_address_def test_msi_data_def init_32bit_test_data_def init_64bit_test_data_def enable_vectors_def set_vector_mask_def

lemma one_shl_run [run]: "one_shl v = (if v < LENGTH('a::len) then Some (2 ^ v :: 'a word) else None)"
  by (simp add: one_shl_def push_bit_eq_mult)

lemmas msi_run [run] = try_generate_message_def bits_since_def trailing_zeros_def multiple_message_try_from_def decode_def
  to_capable_def from_capable_def to_enable_def from_enable_def max_vectors_def to_message_control_def
  msi_control_enabled_def is_64bit_def per_vector_masking_enabled_def msi_cap_size_def message_data_offset_def
  mask_bits_offset_def pending_bits_offset_def capable_vectors_def num_capable_vectors_def enabled_vectors_def
  msi_registers_def msi_writable_bits_def msi_capability_def rb_set_word_def rb_set_dword_def rb_set_qword_def
  msi_is_valid_vector_def get_message_data_for_def should_handle_access_def msi_is_enabled_def msi_is_masked_def
  msi_is_pending_def msi_set_pending_bit_def msi_get_message_for_def msi_try_generate_def next_pending_vector_def
  msi_evaluate_pending_interrupts_def msi_normalise_control_def msi_on_write_config_def msi_prepare_read_config_def
  range_overlaps_def send_msi_def msi_evaluate_from.simps

section \<open>The capability\<close>

definition test_multiple_message_from :: "unit option" where
  "test_multiple_message_from = do {
     assert_that (multiple_message_try_from 0 = Inr One);
     assert_that (multiple_message_try_from 5 = Inr ThirtyTwo);
     assert_that (is_err (multiple_message_try_from 6))
   }"

definition test_msi_cap_size :: "unit option" where
  "test_msi_cap_size = do {
     let cap = msi_cap_new Address32Bit One MaskingDisabled;
     assert_that (cap_size (msi_capability cap) = 8);
     let cap = msi_cap_new Address64Bit One MaskingDisabled;
     assert_that (cap_size (msi_capability cap) = 12);
     let cap = msi_cap_new Address32Bit One MaskingEnabled;
     assert_that (cap_size (msi_capability cap) = 18);
     let cap = msi_cap_new Address64Bit One MaskingEnabled;
     assert_that (cap_size (msi_capability cap) = 22)
   }"

definition test_capable_vectors :: "unit option" where
  "test_capable_vectors = do {
     let cap = msi_cap_new Address32Bit One MaskingEnabled;
     (config, offset) \<leftarrow> new_config cap;
     control \<leftarrow> cs_read_word config offset;
     assert_that (capable_vectors control = mc_vectors cap);
     let cap = msi_cap_new Address32Bit ThirtyTwo MaskingEnabled;
     (config, offset) \<leftarrow> new_config cap;
     control \<leftarrow> cs_read_word config offset;
     assert_that (capable_vectors control = mc_vectors cap)
   }"

definition test_num_capable_vectors :: "unit option" where
  "test_num_capable_vectors = do {
     let cap = msi_cap_new Address32Bit One MaskingEnabled;
     (config, offset) \<leftarrow> new_config cap;
     control \<leftarrow> cs_read_word config offset;
     assert_that (num_capable_vectors control = 1);
     let cap = msi_cap_new Address32Bit ThirtyTwo MaskingEnabled;
     (config, offset) \<leftarrow> new_config cap;
     control \<leftarrow> cs_read_word config offset;
     assert_that (num_capable_vectors control = 32)
   }"

definition test_message_control_ro_fields :: "unit option" where
  "test_message_control_ro_fields = do {
     let cap = msi_cap_new Address32Bit One MaskingDisabled;
     (config, offset) \<leftarrow> new_config cap;
     expect \<leftarrow> cs_read_word config offset;
     let m = 0xFE00;
     assert_that (expect AND m = 0);
     config \<leftarrow> cs_write_word config offset (expect OR m);
     w \<leftarrow> cs_read_word config offset;
     assert_that (w = expect);
     assert_that (expect AND MSI_CONTROL_VECTOR_MASKING = 0);
     config \<leftarrow> cs_write_word config offset (expect OR MSI_CONTROL_VECTOR_MASKING);
     w \<leftarrow> cs_read_word config offset;
     assert_that (w = expect);
     assert_that (expect AND MSI_CONTROL_64BIT = 0);
     config \<leftarrow> cs_write_word config offset (expect OR MSI_CONTROL_64BIT);
     w \<leftarrow> cs_read_word config offset;
     assert_that (w = expect);
     assert_that (expect AND MSI_CONTROL_MULTIPLE_MSG_CAP = 0);
     config \<leftarrow> cs_write_word config offset (expect OR MSI_CONTROL_MULTIPLE_MSG_CAP);
     w \<leftarrow> cs_read_word config offset;
     assert_that (w = expect)
   }"

definition test_enabled_vectors :: "unit option" where
  "test_enabled_vectors = do {
     let cap = msi_cap_new Address32Bit One MaskingEnabled;
     (config, offset) \<leftarrow> new_config cap;
     control \<leftarrow> cs_read_word config offset;
     assert_that (enabled_vectors control = One);
     config \<leftarrow> cs_write_word config offset (control OR to_enable ThirtyTwo);
     control \<leftarrow> cs_read_word config offset;
     assert_that (enabled_vectors control = ThirtyTwo)
   }"

lemma msi_capability_tests_pass:
  "test_multiple_message_from = Some ()" "test_msi_cap_size = Some ()" "test_capable_vectors = Some ()"
  "test_num_capable_vectors = Some ()" "test_message_control_ro_fields = Some ()" "test_enabled_vectors = Some ()"
  by (simp_all add: test_multiple_message_from_def test_msi_cap_size_def test_capable_vectors_def test_num_capable_vectors_def
    test_message_control_ro_fields_def test_enabled_vectors_def run del: run_del cong: run_cong)

section \<open>Messages\<close>

definition test_get_message_for_invalid_vector :: "unit option" where
  "test_get_message_for_invalid_vector = do {
     let cap = msi_cap_new Address32Bit Two MaskingDisabled;
     (config, cap) \<leftarrow> new_cap cap;
     (r, cap) \<leftarrow> msi_get_message_for cap config 1;
     assert_that (is_ok r);
     (r, cap) \<leftarrow> msi_get_message_for cap config 2;
     assert_that (is_err r)
   }"

definition test_get_message_for_32bit :: "unit option" where
  "test_get_message_for_32bit = do {
     let cap = msi_cap_new Address32Bit ThirtyTwo MaskingDisabled;
     (config, cap) \<leftarrow> new_cap cap;
     config \<leftarrow> init_32bit_test_data config cap;
     (r, cap) \<leftarrow> msi_get_message_for cap config 0;
     msi \<leftarrow> unwrap_ok r;
     control \<leftarrow> cs_read_word config (msi_offset cap);
     data \<leftarrow> test_msi_data 0 control TEST_DATA;
     assert_that (msi = \<lparr>msg_address = test_msi_address None (Some TEST_ADDRESS_32), msg_data = data\<rparr>);
     let vector = 31;
     config \<leftarrow> enable_vectors config cap ThirtyTwo;
     (r, cap) \<leftarrow> msi_get_message_for cap config vector;
     msi \<leftarrow> unwrap_ok r;
     control \<leftarrow> cs_read_word config (msi_offset cap);
     data \<leftarrow> test_msi_data vector control TEST_DATA;
     assert_that (msi = \<lparr>msg_address = test_msi_address None (Some TEST_ADDRESS_32), msg_data = data\<rparr>);
     let vector = 31;
     config \<leftarrow> enable_vectors config cap Sixteen;
     (r, cap) \<leftarrow> msi_get_message_for cap config vector;
     msi \<leftarrow> unwrap_ok r;
     control \<leftarrow> cs_read_word config (msi_offset cap);
     data \<leftarrow> test_msi_data vector control TEST_DATA;
     assert_that (msi = \<lparr>msg_address = test_msi_address None (Some TEST_ADDRESS_32), msg_data = data\<rparr>)
   }"

definition test_get_message_for_64bit :: "unit option" where
  "test_get_message_for_64bit = do {
     let cap = msi_cap_new Address64Bit ThirtyTwo MaskingDisabled;
     (config, cap) \<leftarrow> new_cap cap;
     (config, upper, lower) \<leftarrow> init_64bit_test_data config cap;
     let vector = 0;
     (r, cap) \<leftarrow> msi_get_message_for cap config vector;
     msi \<leftarrow> unwrap_ok r;
     control \<leftarrow> cs_read_word config (msi_offset cap);
     data \<leftarrow> test_msi_data vector control TEST_DATA;
     assert_that (msi = \<lparr>msg_address = test_msi_address (Some upper) (Some lower), msg_data = data\<rparr>);
     let vector = 31;
     config \<leftarrow> enable_vectors config cap ThirtyTwo;
     (r, cap) \<leftarrow> msi_get_message_for cap config vector;
     msi \<leftarrow> unwrap_ok r;
     control \<leftarrow> cs_read_word config (msi_offset cap);
     data \<leftarrow> test_msi_data vector control TEST_DATA;
     assert_that (msi = \<lparr>msg_address = test_msi_address (Some upper) (Some lower), msg_data = data\<rparr>);
     let vector = 31;
     config \<leftarrow> enable_vectors config cap Sixteen;
     (r, cap) \<leftarrow> msi_get_message_for cap config vector;
     msi \<leftarrow> unwrap_ok r;
     control \<leftarrow> cs_read_word config (msi_offset cap);
     data \<leftarrow> test_msi_data vector control TEST_DATA;
     assert_that (msi = \<lparr>msg_address = test_msi_address (Some upper) (Some lower), msg_data = data\<rparr>)
   }"

lemma msi_message_tests_pass:
  "test_get_message_for_invalid_vector = Some ()" "test_get_message_for_32bit = Some ()" "test_get_message_for_64bit = Some ()"
  by (simp_all add: test_get_message_for_invalid_vector_def test_get_message_for_32bit_def test_get_message_for_64bit_def
    run del: run_del cong: run_cong)

section \<open>Mask and pending bits\<close>

definition test_masked_vectors :: "config_space \<Rightarrow> PciMsi \<Rightarrow> usize \<Rightarrow> config_space option" where
  "test_masked_vectors config cap offset = for_each [0..<32] (\<lambda>vector config. do {
     masked \<leftarrow> msi_is_masked cap config vector;
     assert_that (\<not> masked);
     bits \<leftarrow> cs_read_dword config offset;
     one \<leftarrow> one_shl vector;
     config \<leftarrow> cs_write_dword config offset (bits OR one);
     masked \<leftarrow> msi_is_masked cap config vector;
     assert_that masked;
     Some config
   }) config"

definition test_is_masked_32bit :: "unit option" where
  "test_is_masked_32bit = do {
     let cap = msi_cap_new Address32Bit ThirtyTwo MaskingEnabled;
     (config, cap) \<leftarrow> new_cap cap;
     config \<leftarrow> init_32bit_test_data config cap;
     let offset = msi_offset cap + MSI_MASK_BITS_32BIT;
     config \<leftarrow> test_masked_vectors config cap offset;
     Some ()
   }"

definition test_is_masked_64bit :: "unit option" where
  "test_is_masked_64bit = do {
     let cap = msi_cap_new Address64Bit ThirtyTwo MaskingEnabled;
     (config, cap) \<leftarrow> new_cap cap;
     (config, _, _) \<leftarrow> init_64bit_test_data config cap;
     let offset = msi_offset cap + MSI_MASK_BITS_64BIT;
     config \<leftarrow> test_masked_vectors config cap offset;
     Some ()
   }"

definition test_msi_pending_bits :: "config_space \<Rightarrow> PciMsi \<Rightarrow> usize \<Rightarrow> (config_space \<times> PciMsi) option" where
  "test_msi_pending_bits config cap offset = for_each [0..<32] (\<lambda>vector (config, cap). do {
     pending \<leftarrow> msi_is_pending cap config vector;
     assert_that (\<not> pending);
     (r, cap, config) \<leftarrow> msi_set_pending_bit cap config vector True;
     assert_that (is_err r);
     one \<leftarrow> one_shl vector;
     config \<leftarrow> cs_write_dword config (offset - 4) one;
     (r, cap, config) \<leftarrow> msi_set_pending_bit cap config vector True;
     unwrap_ok r;
     pending \<leftarrow> msi_is_pending cap config vector;
     assert_that pending;
     bits \<leftarrow> cs_read_dword config offset;
     assert_that (bits = one);
     (r, cap, config) \<leftarrow> msi_set_pending_bit cap config vector False;
     unwrap_ok r;
     pending \<leftarrow> msi_is_pending cap config vector;
     assert_that (\<not> pending);
     bits \<leftarrow> cs_read_dword config offset;
     assert_that (bits = 0);
     Some (config, cap)
   }) (config, cap)"

definition test_pending_bits_32bit :: "unit option" where
  "test_pending_bits_32bit = do {
     let cap = msi_cap_new Address32Bit ThirtyTwo MaskingEnabled;
     (config, cap) \<leftarrow> new_cap cap;
     let offset = msi_offset cap + MSI_PENDING_BITS_32BIT;
     _ \<leftarrow> test_msi_pending_bits config cap offset;
     Some ()
   }"

definition test_pending_bits_64bit :: "unit option" where
  "test_pending_bits_64bit = do {
     let cap = msi_cap_new Address64Bit ThirtyTwo MaskingEnabled;
     (config, cap) \<leftarrow> new_cap cap;
     let offset = msi_offset cap + MSI_PENDING_BITS_64BIT;
     _ \<leftarrow> test_msi_pending_bits config cap offset;
     Some ()
   }"

lemma msi_mask_bits_tests_pass: "test_is_masked_32bit = Some ()" "test_is_masked_64bit = Some ()"
  by (simp_all add: test_is_masked_32bit_def test_is_masked_64bit_def test_masked_vectors_def run del: run_del cong: run_cong)

lemma msi_pending_bits_32bit_test_passes: "test_pending_bits_32bit = Some ()"
  by (simp add: test_pending_bits_32bit_def test_msi_pending_bits_def run del: run_del cong: run_cong)

lemma msi_pending_bits_64bit_test_passes: "test_pending_bits_64bit = Some ()"
  by (simp add: test_pending_bits_64bit_def test_msi_pending_bits_def run del: run_del cong: run_cong)

section \<open>Generation\<close>

definition test_try_generate_message :: "unit option" where
  "test_try_generate_message = do {
     let cap = msi_cap_new Address32Bit Two MaskingEnabled;
     (config, cap) \<leftarrow> new_cap cap;
     (r, cap, config) \<leftarrow> msi_try_generate cap config 0;
     assert_that (r = Inl NotBusMaster);
     config \<leftarrow> set_bus_master config True;
     (r, cap, config) \<leftarrow> msi_try_generate cap config 0;
     assert_that (r = Inl MsiDisabled);
     config \<leftarrow> init_32bit_test_data config cap;
     (r, cap, config) \<leftarrow> msi_try_generate cap config 3;
     assert_that (r = Inl (InvalidMsiVector 3));
     config \<leftarrow> cs_write_dword config (msi_offset cap + MSI_MASK_BITS_32BIT) 1;
     (r, cap, config) \<leftarrow> msi_try_generate cap config 0;
     assert_that (r = Inr Masked);
     pending \<leftarrow> msi_is_pending cap config 0;
     assert_that pending;
     config \<leftarrow> cs_write_dword config (msi_offset cap + MSI_MASK_BITS_32BIT) 0;
     (r, cap, config) \<leftarrow> msi_try_generate cap config 0;
     res \<leftarrow> unwrap_ok r;
     control \<leftarrow> cs_read_word config (msi_offset cap);
     data \<leftarrow> test_msi_data 0 control TEST_DATA;
     assert_that (res = Generated \<lparr>msg_address = test_msi_address None (Some TEST_ADDRESS_32), msg_data = data\<rparr>);
     pending \<leftarrow> msi_is_pending cap config 0;
     assert_that (\<not> pending)
   }"

lemma msi_generation_tests_pass: "test_try_generate_message = Some ()"
  by (simp add: test_try_generate_message_def run del: run_del cong: run_cong)

section \<open>Configuration accesses\<close>

definition test_msi_prepare_read_config :: "unit option" where
  "test_msi_prepare_read_config = do {
     let c = msi_cap_new Address32Bit ThirtyTwo MaskingEnabled;
     (config, cap) \<leftarrow> new_cap c;
     (r, config) \<leftarrow> msi_prepare_read_config cap config (msi_offset cap - 1) 1;
     assert_that (r = Inr Unhandled);
     (r, config) \<leftarrow> msi_prepare_read_config cap config (msi_offset cap + msi_cap_size (to_message_control c)) 1;
     assert_that (r = Inr Unhandled);
     (r, config) \<leftarrow> msi_prepare_read_config cap config (msi_offset cap) 1;
     assert_that (r = Inr (Handled None));
     (r, config) \<leftarrow> msi_prepare_read_config cap config (msi_offset cap + msi_cap_size (to_message_control c) - 1) 1;
     assert_that (r = Inr (Handled None))
   }"

definition test_on_write_config_bounds :: "unit option" where
  "test_on_write_config_bounds = do {
     let c = msi_cap_new Address32Bit ThirtyTwo MaskingEnabled;
     (config, cap) \<leftarrow> new_cap c;
     (r, config, ic) \<leftarrow> msi_on_write_config cap config [] (msi_offset cap - 1) 1;
     assert_that (r = Inr Unhandled);
     (r, config, ic) \<leftarrow> msi_on_write_config cap config ic (msi_offset cap + msi_cap_size (to_message_control c)) 1;
     assert_that (r = Inr Unhandled)
   }"

definition test_on_write_config_control_ro_bits :: "unit option" where
  "test_on_write_config_control_ro_bits = do {
     let c = msi_cap_new Address32Bit ThirtyTwo MaskingDisabled;
     (config, cap) \<leftarrow> new_cap c;
     config \<leftarrow> cs_write_word config (msi_offset cap) (NOT (MSI_CONTROL_MSI_EN OR MSI_CONTROL_MULTIPLE_MSG_EN));
     (r, config, ic) \<leftarrow> msi_on_write_config cap config [] (msi_offset cap) 2;
     assert_that (r = Inr (Handled None));
     control \<leftarrow> cs_read_word config (msi_offset cap);
     assert_that (control = to_message_control c)
   }"

definition test_write_multiple_message :: "config_space \<Rightarrow> PciMsi \<Rightarrow> controller \<Rightarrow> unit option" where
  "test_write_multiple_message config cap ic = do {
     control \<leftarrow> cs_read_word config (msi_offset cap);
     w \<leftarrow> cs_read_word config (msi_offset cap);
     capable \<leftarrow> from_capable w;
     (config, ic) \<leftarrow> for_each [0..<unat (encode capable)] (\<lambda>vectors (config, ic). do {
       let expect = control OR push_bit MSI_CONTROL_MULTIPLE_MSG_EN_SHIFT (of_nat vectors);
       config \<leftarrow> cs_write_word config (msi_offset cap) expect;
       (r, config, ic) \<leftarrow> msi_on_write_config cap config ic (msi_offset cap) 2;
       assert_that (r = Inr (Handled None));
       w \<leftarrow> cs_read_word config (msi_offset cap);
       assert_that (w = expect);
       Some (config, ic)
     }) (config, ic);
     config \<leftarrow> cs_write_word config (msi_offset cap)
       (control OR push_bit MSI_CONTROL_MULTIPLE_MSG_EN_SHIFT (encode capable + 1));
     (r, config, ic) \<leftarrow> msi_on_write_config cap config ic (msi_offset cap) 2;
     assert_that (r = Inr (Handled None));
     w \<leftarrow> cs_read_word config (msi_offset cap);
     assert_that (w = control AND NOT MSI_CONTROL_MULTIPLE_MSG_EN)
   }"

definition test_on_write_config_multiple_message :: "unit option" where
  "test_on_write_config_multiple_message = do {
     let c = msi_cap_new Address64Bit One MaskingEnabled;
     (config, cap) \<leftarrow> new_cap c;
     test_write_multiple_message config cap [];
     let c = msi_cap_new Address64Bit ThirtyTwo MaskingEnabled;
     (config, cap) \<leftarrow> new_cap c;
     test_write_multiple_message config cap []
   }"

definition test_on_write_config_enable :: "unit option" where
  "test_on_write_config_enable = do {
     let c = msi_cap_new Address64Bit Eight MaskingEnabled;
     (config, cap) \<leftarrow> new_cap c;
     let ic = [];
     config \<leftarrow> set_bus_master config True;
     config \<leftarrow> set_vector_mask config cap 2 True;
     (r, cap, config) \<leftarrow> msi_set_pending_bit cap config 2 True;
     unwrap_ok r;
     config \<leftarrow> set_vector_mask config cap 2 False;
     messages \<leftarrow> irq_messages ic;
     assert_that (messages = []);
     control \<leftarrow> cs_read_word config (msi_offset cap);
     config \<leftarrow> cs_write_word config (msi_offset cap) (control OR MSI_CONTROL_MSI_EN);
     (r, config, ic) \<leftarrow> msi_on_write_config cap config ic (msi_offset cap) 2;
     assert_that (r = Inr (Handled None));
     messages \<leftarrow> irq_messages ic;
     assert_that (length messages = 1)
   }"

definition test_on_write_config_msi_fields_32bit :: "unit option" where
  "test_on_write_config_msi_fields_32bit = do {
     let c = msi_cap_new Address32Bit Eight MaskingEnabled;
     (config, cap) \<leftarrow> new_cap c;
     let ic = [];
     let address = test_msi_address None (Some TEST_ADDRESS_32);
     let lower_offset = msi_offset cap + MSI_ADDRESS;
     let data_offset = msi_offset cap + MSI_DATA_32BIT;
     control \<leftarrow> cs_read_word config (msi_offset cap);
     data \<leftarrow> test_msi_data 0 control 0;
     let expected = MsiMessage \<lparr>msg_address = address, msg_data = data\<rparr>;
     config \<leftarrow> cs_write_dword config lower_offset TEST_ADDRESS_32;
     (r, config, ic) \<leftarrow> msi_on_write_config cap config ic lower_offset 4;
     assert_that (r = Inr (Handled (Some expected)));
     control \<leftarrow> cs_read_word config (msi_offset cap);
     data \<leftarrow> test_msi_data 0 control TEST_DATA;
     let expected = MsiMessage \<lparr>msg_address = address, msg_data = data\<rparr>;
     config \<leftarrow> cs_write_dword config data_offset TEST_DATA;
     (r, config, ic) \<leftarrow> msi_on_write_config cap config ic data_offset 2;
     assert_that (r = Inr (Handled (Some expected)))
   }"

definition test_on_write_config_msi_fields_64bit :: "unit option" where
  "test_on_write_config_msi_fields_64bit = do {
     let c = msi_cap_new Address64Bit Eight MaskingEnabled;
     (config, cap) \<leftarrow> new_cap c;
     let ic = [];
     let (upper, lower) = address_to_components TEST_ADDRESS_64;
     let lower_offset = msi_offset cap + MSI_ADDRESS;
     let upper_offset = msi_offset cap + MSI_ADDRESS_UPPER;
     let data_offset = msi_offset cap + MSI_DATA_64BIT;
     control \<leftarrow> cs_read_word config (msi_offset cap);
     data \<leftarrow> test_msi_data 0 control 0;
     let expected = MsiMessage \<lparr>msg_address = test_msi_address (Some 0) (Some lower), msg_data = data\<rparr>;
     config \<leftarrow> cs_write_dword config lower_offset lower;
     (r, config, ic) \<leftarrow> msi_on_write_config cap config ic lower_offset 4;
     assert_that (r = Inr (Handled (Some expected)));
     control \<leftarrow> cs_read_word config (msi_offset cap);
     data \<leftarrow> test_msi_data 0 control 0;
     let expected = MsiMessage \<lparr>msg_address = test_msi_address (Some upper) (Some lower), msg_data = data\<rparr>;
     config \<leftarrow> cs_write_dword config upper_offset upper;
     (r, config, ic) \<leftarrow> msi_on_write_config cap config ic upper_offset 4;
     assert_that (r = Inr (Handled (Some expected)));
     control \<leftarrow> cs_read_word config (msi_offset cap);
     data \<leftarrow> test_msi_data 0 control TEST_DATA;
     let expected = MsiMessage \<lparr>msg_address = test_msi_address (Some upper) (Some lower), msg_data = data\<rparr>;
     config \<leftarrow> cs_write_dword config data_offset TEST_DATA;
     (r, config, ic) \<leftarrow> msi_on_write_config cap config ic data_offset 2;
     assert_that (r = Inr (Handled (Some expected)))
   }"

definition test_on_write_config_vector_masking_disabled_32bit :: "unit option" where
  "test_on_write_config_vector_masking_disabled_32bit = do {
     let c = msi_cap_new Address32Bit Eight MaskingDisabled;
     (config, cap) \<leftarrow> new_cap c;
     let mask_offset = msi_offset cap + MSI_MASK_BITS_32BIT;
     (r, config, ic) \<leftarrow> msi_on_write_config cap config [] mask_offset 4;
     assert_that (r = Inr Unhandled);
     messages \<leftarrow> irq_messages ic;
     assert_that (length messages = 0)
   }"

definition test_on_write_config_vector_masking_disabled_64bit :: "unit option" where
  "test_on_write_config_vector_masking_disabled_64bit = do {
     let c = msi_cap_new Address64Bit Eight MaskingDisabled;
     (config, cap) \<leftarrow> new_cap c;
     let mask_offset = msi_offset cap + MSI_MASK_BITS_64BIT;
     (r, config, ic) \<leftarrow> msi_on_write_config cap config [] mask_offset 4;
     assert_that (r = Inr Unhandled);
     messages \<leftarrow> irq_messages ic;
     assert_that (length messages = 0)
   }"

definition test_on_write_config_vector_masking :: "unit option" where
  "test_on_write_config_vector_masking = do {
     let c = msi_cap_new Address64Bit Eight MaskingEnabled;
     (config, cap) \<leftarrow> new_cap c;
     let ic = [];
     config \<leftarrow> set_bus_master config True;
     control \<leftarrow> cs_read_word config (msi_offset cap);
     config \<leftarrow> cs_write_word config (msi_offset cap) (control OR MSI_CONTROL_MSI_EN OR to_enable Four);
     config \<leftarrow> set_vector_mask config cap 1 True;
     config \<leftarrow> set_vector_mask config cap 2 True;
     (r, cap, config) \<leftarrow> msi_set_pending_bit cap config 1 True;
     unwrap_ok r;
     (r, cap, config) \<leftarrow> msi_set_pending_bit cap config 2 True;
     unwrap_ok r;
     config \<leftarrow> set_vector_mask config cap 1 False;
     messages \<leftarrow> irq_messages ic;
     assert_that (messages = []);
     control \<leftarrow> cs_read_word config (msi_offset cap);
     offset \<leftarrow> mask_bits_offset control;
     let mask_offset = msi_offset cap + offset;
     (r, config, ic) \<leftarrow> msi_on_write_config cap config ic mask_offset 4;
     assert_that (r = Inr (Handled None));
     messages \<leftarrow> irq_messages ic;
     assert_that (length messages = 1);
     config \<leftarrow> set_vector_mask config cap 2 False;
     (r, config, ic) \<leftarrow> msi_on_write_config cap config ic mask_offset 4;
     assert_that (r = Inr (Handled None));
     messages \<leftarrow> irq_messages ic;
     assert_that (length messages = 2)
   }"

lemma msi_config_tests_pass:
  "test_msi_prepare_read_config = Some ()" "test_on_write_config_bounds = Some ()" "test_on_write_config_control_ro_bits = Some ()"
  "test_on_write_config_multiple_message = Some ()" "test_on_write_config_enable = Some ()"
  "test_on_write_config_msi_fields_32bit = Some ()" "test_on_write_config_msi_fields_64bit = Some ()"
  "test_on_write_config_vector_masking_disabled_32bit = Some ()" "test_on_write_config_vector_masking_disabled_64bit = Some ()"
  "test_on_write_config_vector_masking = Some ()"
  by (simp_all add: test_msi_prepare_read_config_def test_on_write_config_bounds_def test_on_write_config_control_ro_bits_def
    test_on_write_config_multiple_message_def test_write_multiple_message_def test_on_write_config_enable_def
    test_on_write_config_msi_fields_32bit_def test_on_write_config_msi_fields_64bit_def
    test_on_write_config_vector_masking_disabled_32bit_def test_on_write_config_vector_masking_disabled_64bit_def
    test_on_write_config_vector_masking_def run del: run_del cong: run_cong)

end
