(* ===== verification/Test_Msix.thy ===== *)
theory Test_Msix
  imports Test_Msi Msix
begin

text \<open>
  The tests of \<open>msix.rs\<close>, run on the model.
\<close>

unbundle bit_operations_syntax

section \<open>The capability\<close>

definition region_new :: "PciBarIndex \<Rightarrow> u64 \<Rightarrow> u64 \<Rightarrow> PciBarRegionInfo" where
  "region_new bar offset len = \<lparr>region_bar = bar, region_offset = offset, region_length = len\<rparr>"

definition msix_add_cap :: "config_space \<Rightarrow> (config_space \<times> MsiXEntry list \<times> PciBarIndex \<times> u32 \<times> u32) option" where
  "msix_add_cap config = do {
     bar \<leftarrow> unwrap_ok (bar_index_try_from 2);
     let msix_table = replicate 32 entry_default;
     let pba_table = replicate 1 \<lparr>pba_pending_bits = 0\<rparr>;
     let msix_info = region_new bar 0x100 0x200;
     let pba_info = region_new bar 0x300 0x100;
     cap \<leftarrow> unwrap_ok (msix_cap_new msix_info msix_table pba_info pba_table);
     (r, config) \<leftarrow> add_capability config (msix_capability cap);
     unwrap_ok r;
     Some (config, msix_table, bar, ucast (region_offset msix_info), ucast (region_offset pba_info))
   }"

definition MSIX_BIR_MASK :: u32 where [simp]: "MSIX_BIR_MASK = 7"

definition test_msix_cap_init :: "unit option" where
  "test_msix_cap_init = do {
     config \<leftarrow> config_new;
     (config, msix_table, bar, msi_offs, pba_offs) \<leftarrow> msix_add_cap config;
     let count = length msix_table;
     last_cap \<leftarrow> capability_last config;
     (header, offset) \<leftarrow> last_cap;
     assert_that (hdr_cap_id header = capability_id_u8 MsiXCapId);
     control \<leftarrow> cs_read_word config offset;
     assert_that (control = of_nat count - 1);
     reg \<leftarrow> cs_read_dword config (offset + MSIX_TABLE_OFFSET);
     assert_that (reg AND MSIX_OFFSET_MASK = msi_offs);
     assert_that (reg AND MSIX_BIR_MASK = of_nat (into_inner bar));
     reg \<leftarrow> cs_read_dword config (offset + MSIX_PBA_OFFSET);
     assert_that (reg AND MSIX_OFFSET_MASK = pba_offs);
     assert_that (reg AND MSIX_BIR_MASK = of_nat (into_inner bar))
   }"

definition msix_check_cap_ro_fields :: "config_space \<Rightarrow> bytes \<Rightarrow> config_space option" where
  "msix_check_cap_ro_fields config expected_rw_bits = do {
     last_cap \<leftarrow> capability_last config;
     (_, cap_offset) \<leftarrow> last_cap;
     for_each (enumerate 0 expected_rw_bits) (\<lambda>(i, expect) config. do {
       config \<leftarrow> cs_write_byte config (cap_offset + i) 0x00;
       b \<leftarrow> cs_read_byte config (cap_offset + i);
       let changed_bits = NOT b;
       config \<leftarrow> cs_write_byte config (cap_offset + i) 0xFF;
       b \<leftarrow> cs_read_byte config (cap_offset + i);
       let changed_bits = changed_bits AND b;
       assert_that (changed_bits = expect);
       Some config
     }) config
   }"

definition test_msix_cap_ro_bits :: "unit option" where
  "test_msix_cap_ro_bits = do {
     config \<leftarrow> config_new;
     (config, _) \<leftarrow> msix_add_cap config;
     let expect = [0, 0xC0, 0, 0, 0, 0, 0, 0, 0, 0];
     _ \<leftarrow> msix_check_cap_ro_fields config expect;
     Some ()
   }"

lemmas msix_run [run] = region_new_def msix_add_cap_def msix_check_cap_ro_fields_def entry_msg_addr_def entry_is_masked_def
  entry_default_def entry_bytes_def entry_of_bytes_def table_at_def pending_bit_for_def pba_is_pending_def pba_set_pending_bit_def
  msix_cap_new_def msix_registers_def msix_writable_bits_def msix_capability_def msix_build_def
  msix_is_enabled_def msix_is_pending_def msix_set_pending_bit_def msix_control_fn_masked_def msix_is_fn_masked_def
  msix_is_masked_def msix_get_message_for_def msix_try_generate_def find_pending_vector_def msix_evaluate_from.simps
  msix_evaluate_pending_interrupts_def msix_control_offset_def msix_on_write_config_def msix_info_iter_def
  targets_vector_control_def targets_message_data_def targets_message_address_def targets_message_info_def offset_to_vector_def
  msix_region_read_def msix_region_write_def msix_handle_read_bar_def msix_handle_write_bar_def

lemma msix_capability_tests_pass: "test_msix_cap_init = Some ()" "test_msix_cap_ro_bits = Some ()"
  by (simp_all add: test_msix_cap_init_def test_msix_cap_ro_bits_def run del: run_del cong: run_cong)

section \<open>Tables\<close>

definition test_msix_table_array :: "unit option" where
  "test_msix_table_array = do {
     let t = map (\<lambda>i. entry_default\<lparr>me_msg_addr := of_nat i + 1\<rparr>) [0..<3];
     assert_that (length (msix_raw_bytes t) = 16 * length t);
     assert_that (list_all (\<lambda>(i, x). me_msg_addr x = of_nat i + 1) (enumerate 0 t));
     let t = map (\<lambda>(i, x). x\<lparr>me_msg_addr_hi := of_nat i + 10\<rparr>) (enumerate 0 t);
     assert_that (list_all (\<lambda>(i, x). of_nat i + 1 = me_msg_addr x \<and> of_nat i + 10 = me_msg_addr_hi x) (enumerate 0 t));
     assert_that (list_all (\<lambda>i. msix_raw_bytes t ! (16 * i) = of_nat i + 1) [0..<length t]);
     raw \<leftarrow> slice_set (msix_raw_bytes t) 4 (replicate 4 0xFF);
     let t = msix_store_raw raw t;
     entry \<leftarrow> table_at t 0;
     assert_that (me_msg_addr_hi entry = 0xFFFFFFFF)
   }"

definition test_pba_table_array :: "unit option" where
  "test_pba_table_array = do {
     let t = map (\<lambda>i. \<lparr>pba_pending_bits = of_nat i + 1\<rparr>) [0..<3];
     assert_that (length (pba_raw_bytes t) = 8 * length t);
     assert_that (list_all (\<lambda>(i, x). pba_pending_bits x = of_nat i + 1) (enumerate 0 t));
     let t = map (\<lambda>(i, x). x\<lparr>pba_pending_bits := of_nat i + 10\<rparr>) (enumerate 0 t);
     assert_that (list_all (\<lambda>(i, x). pba_pending_bits x = of_nat i + 10) (enumerate 0 t));
     assert_that (list_all (\<lambda>i. pba_raw_bytes t ! (8 * i) = of_nat i + 10) [0..<length t]);
     raw \<leftarrow> slice_set (pba_raw_bytes t) 0 (replicate 8 0xFF);
     let t = pba_store_raw raw t;
     entry \<leftarrow> table_at t 0;
     assert_that (pba_pending_bits entry = 0xFFFFFFFFFFFFFFFF)
   }"

definition check_pending :: "PbaEntry list \<Rightarrow> usize list \<Rightarrow> bool \<Rightarrow> unit option" where
  "check_pending pba_table vectors expect = for_each vectors (\<lambda>v _. assert_that (pba_is_pending pba_table v = expect)) ()"

definition set_pending_for :: "PbaEntry list \<Rightarrow> usize list \<Rightarrow> bool \<Rightarrow> PbaEntry list option" where
  "set_pending_for pba_table vectors pending = for_each vectors (\<lambda>v t. do {
     let (r, t) = pba_set_pending_bit t v pending;
     unwrap_ok r;
     Some t
   }) pba_table"

definition test_pending_bit :: "unit option" where
  "test_pending_bit = do {
     let pba_table = replicate 3 \<lparr>pba_pending_bits = 0\<rparr>;
     let vectors = [0, 63, 64, 127, 128, 191];
     check_pending pba_table vectors False;
     pba_table \<leftarrow> set_pending_for pba_table vectors True;
     check_pending pba_table vectors True;
     entry \<leftarrow> table_at pba_table 1;
     assert_that (pba_pending_bits entry AND 1 \<noteq> 0);
     assert_that (pba_pending_bits entry AND push_bit 63 1 \<noteq> 0);
     pba_table \<leftarrow> set_pending_for pba_table vectors False;
     check_pending pba_table vectors False;
     entry \<leftarrow> table_at pba_table 1;
     assert_that (pba_pending_bits entry AND 1 = 0);
     assert_that (pba_pending_bits entry AND push_bit 63 1 = 0);
     assert_that (is_err (fst (pba_set_pending_bit pba_table 192 True)));
     assert_that (\<not> pba_is_pending pba_table 192)
   }"

definition test_find_pending_vector :: "unit option" where
  "test_find_pending_vector = do {
     let pba_table = replicate 3 \<lparr>pba_pending_bits = 0\<rparr>;
     let vectors = [0, 63, 64, 127, 128, 191];
     assert_that (find_pending_vector pba_table 0 = None);
     pba_table \<leftarrow> set_pending_for pba_table vectors True;
     start \<leftarrow> for_each vectors (\<lambda>v start. do {
       vector \<leftarrow> find_pending_vector pba_table start;
       assert_that (vector = v);
       Some (vector + 1)
     }) 0;
     assert_that (find_pending_vector pba_table start = None)
   }"

lemmas pba_tests_run [run] = check_pending_def set_pending_for_def

lemma msix_array_tests_pass: "test_msix_table_array = Some ()" "test_pba_table_array = Some ()"
  by (simp_all add: test_msix_table_array_def test_pba_table_array_def msix_raw_bytes_def pba_raw_bytes_def msix_store_raw_def
    pba_store_raw_def run del: run_del cong: run_cong)

lemma pba_tests_pass: "test_pending_bit = Some ()" "test_find_pending_vector = Some ()"
  by (simp_all add: test_pending_bit_def test_find_pending_vector_def run del: run_del cong: run_cong)

section \<open>The registers of a function\<close>

definition msix_new :: "config_space \<Rightarrow> (config_space \<times> PciMsiX \<times> PciBarRegionInfo \<times> PciBarRegionInfo) option" where
  "msix_new config = do {
     bar \<leftarrow> unwrap_ok (bar_index_try_from 1);
     let msix = \<lparr>xcfg_msix_info = region_new bar 0x1000 0x1000, xcfg_pba_info = region_new bar 0x2000 0x1000\<rparr>;
     let msix_table = replicate 2 entry_default;
     let pba_table = replicate 1 \<lparr>pba_pending_bits = 0\<rparr>;
     let msix_info = xcfg_msix_info msix;
     let pba_info = xcfg_pba_info msix;
     (r, config) \<leftarrow> msix_build msix config msix_table pba_table;
     m \<leftarrow> unwrap_ok r;
     Some (config, m, msix_info, pba_info)
   }"

text \<open>A change of an entry of the table, which has to be there.\<close>

definition entry_update :: "PciMsiX \<Rightarrow> usize \<Rightarrow> (MsiXEntry \<Rightarrow> MsiXEntry) \<Rightarrow> PciMsiX option" where
  "entry_update m i f = do {
     entry \<leftarrow> table_at (mx_msix_table m) i;
     Some (m\<lparr>mx_msix_table := (mx_msix_table m)[i := f entry]\<rparr>)
   }"

definition test_msix_pending_bit :: "unit option" where
  "test_msix_pending_bit = do {
     config \<leftarrow> config_new;
     (config, msix, _, _) \<leftarrow> msix_new config;
     (r, msix, config) \<leftarrow> msix_set_pending_bit msix config 10 True;
     unwrap_ok r;
     assert_that (msix_is_pending msix config 10);
     entry \<leftarrow> table_at (mx_pba_table msix) 0;
     assert_that (pba_pending_bits entry AND push_bit 10 1 = push_bit 10 1);
     (r, msix, config) \<leftarrow> msix_set_pending_bit msix config 10 False;
     unwrap_ok r;
     assert_that (\<not> msix_is_pending msix config 10);
     entry \<leftarrow> table_at (mx_pba_table msix) 0;
     assert_that (pba_pending_bits entry AND push_bit 10 1 = 0)
   }"

definition test_msix_generate_message :: "unit option" where
  "test_msix_generate_message = do {
     config \<leftarrow> config_new;
     (config, m, _, _) \<leftarrow> msix_new config;
     (r, m, config) \<leftarrow> msix_try_generate m config 0;
     assert_that (r = Inl NotBusMaster);
     config \<leftarrow> set_bus_master config True;
     (r, m, config) \<leftarrow> msix_try_generate m config 0;
     assert_that (r = Inl MsiDisabled);
     let control_offset = msix_control_offset m;
     config \<leftarrow> cs_set_word config control_offset (MSIX_CONTROL_MSIX_EN OR MSIX_CONTROL_FN_MASK);
     (r, m, config) \<leftarrow> msix_try_generate m config 3;
     assert_that (r = Inl (InvalidMsiXVector 3));
     m \<leftarrow> entry_update m 0 (\<lambda>entry. entry\<lparr>me_msg_addr := 0xCAFE, me_msg_addr_hi := 0xBAAD, me_msg_data := 0xABBA,
            me_vector_control := 0\<rparr>);
     (r, m, config) \<leftarrow> msix_try_generate m config 0;
     assert_that (r = Inr Masked);
     assert_that (msix_is_pending m config 0);
     (r, m, config) \<leftarrow> msix_set_pending_bit m config 0 False;
     unwrap_ok r;
     m \<leftarrow> entry_update m 0 (\<lambda>entry. entry\<lparr>me_vector_control := 1\<rparr>);
     config \<leftarrow> cs_set_word config control_offset MSIX_CONTROL_MSIX_EN;
     (r, m, config) \<leftarrow> msix_try_generate m config 0;
     assert_that (r = Inr Masked);
     assert_that (msix_is_pending m config 0);
     m \<leftarrow> entry_update m 0 (\<lambda>entry. entry\<lparr>me_vector_control := 0\<rparr>);
     (r, m, config) \<leftarrow> msix_try_generate m config 0;
     res \<leftarrow> unwrap_ok r;
     assert_that (res = Generated \<lparr>msg_address = 0xBAAD0000CAFC, msg_data = 0xABBA\<rparr>);
     assert_that (\<not> msix_is_pending m config 0)
   }"

definition setup_entries :: "PciMsiX \<Rightarrow> PciMsiX option" where
  "setup_entries m = do {
     m \<leftarrow> entry_update m 0 (\<lambda>entry. entry\<lparr>me_msg_addr := 0xABBA\<rparr>);
     entry \<leftarrow> table_at (mx_msix_table m) 0;
     assert_that (me_vector_control entry = 1);
     entry_update m 1 (\<lambda>entry. entry\<lparr>me_msg_addr := 0xCAFE, me_vector_control := 0\<rparr>)
   }"

definition test_msix_on_write_config ::
    "PciMsiX \<Rightarrow> config_space \<Rightarrow> controller \<Rightarrow> usize \<times> usize \<Rightarrow> (PciMsiX \<times> config_space \<times> controller) option" where
  "test_msix_on_write_config msix config ic access = do {
     let (offset, sz) = access;
     (r, s) \<leftarrow> msix_on_write_config msix config ic offset sz;
     unwrap_ok r;
     Some s
   }"

definition test_msix_config_write :: "unit option" where
  "test_msix_config_write = do {
     let ic = [];
     config \<leftarrow> config_new;
     (config, m, _, _) \<leftarrow> msix_new config;
     let control_offset = msix_control_offset m;
     config \<leftarrow> set_bus_master config True;
     m \<leftarrow> setup_entries m;
     (r, m, config) \<leftarrow> msix_set_pending_bit m config 0 True;
     unwrap_ok r;
     (r, m, config) \<leftarrow> msix_set_pending_bit m config 1 True;
     unwrap_ok r;
     config \<leftarrow> cs_set_word config control_offset (MSIX_CONTROL_MSIX_EN OR MSIX_CONTROL_FN_MASK);
     (m, config, ic) \<leftarrow> test_msix_on_write_config m config ic (control_offset, 2);
     messages \<leftarrow> irq_messages ic;
     assert_that (messages = []);
     config \<leftarrow> cs_set_word config control_offset MSIX_CONTROL_MSIX_EN;
     (m, config, ic) \<leftarrow> test_msix_on_write_config m config ic (control_offset, 2);
     messages \<leftarrow> irq_messages ic;
     assert_that (length messages = 1);
     entry \<leftarrow> table_at (mx_msix_table m) 1;
     let sent = messages ! 0;
     assert_that (entry_msg_addr entry = msg_address sent);
     assert_that (me_msg_data entry = msg_data sent);
     m \<leftarrow> entry_update m 0 (\<lambda>entry. entry\<lparr>me_vector_control := 0\<rparr>);
     (m, config, ic) \<leftarrow> test_msix_on_write_config m config ic (control_offset, 2);
     messages \<leftarrow> irq_messages ic;
     assert_that (length messages = 2);
     entry \<leftarrow> table_at (mx_msix_table m) 0;
     let sent = messages ! 1;
     assert_that (entry_msg_addr entry = msg_address sent);
     assert_that (me_msg_data entry = msg_data sent);
     (m, config, ic) \<leftarrow> test_msix_on_write_config m config ic (control_offset, 2);
     messages \<leftarrow> irq_messages ic;
     assert_that (length messages = 2)
   }"

lemmas msix_tests_run [run] = msix_new_def entry_update_def setup_entries_def test_msix_on_write_config_def

lemma msix_function_tests_pass:
  "test_msix_pending_bit = Some ()" "test_msix_generate_message = Some ()" "test_msix_config_write = Some ()"
  by (simp_all add: test_msix_pending_bit_def test_msix_generate_message_def test_msix_config_write_def
    run del: run_del cong: run_cong)

section \<open>Accesses to the BAR\<close>

definition test_msix_read_bar :: "unit option" where
  "test_msix_read_bar = do {
     let ic = [];
     config \<leftarrow> config_new;
     (config, m, msix, pba) \<leftarrow> msix_new config;
     config \<leftarrow> set_bus_master config True;
     m \<leftarrow> setup_entries m;
     (r, m, config) \<leftarrow> msix_set_pending_bit m config 0 True;
     unwrap_ok r;
     let context = (config, ic);
     let data = replicate 8 0xFF;
     (r, m, data, context) \<leftarrow> msix_handle_read_bar m bar_index_default 8 data context;
     r \<leftarrow> unwrap_ok r;
     assert_that (\<not> handled r);
     (r, m, data, context) \<leftarrow> msix_handle_read_bar m (region_bar msix) (region_offset msix + 100) data context;
     r \<leftarrow> unwrap_ok r;
     assert_that (handled r);
     assert_that (from_le_bytes data = (0 :: u64));
     let data = replicate 4 0xFF;
     (r, m, data, context) \<leftarrow> msix_handle_read_bar m (region_bar msix) (region_offset msix + 12) data context;
     r \<leftarrow> unwrap_ok r;
     assert_that (handled r);
     assert_that (from_le_bytes data = (1 :: u32));
     let data = replicate 8 0xFF;
     (r, m, data, context) \<leftarrow> msix_handle_read_bar m (region_bar msix) (region_offset msix + 16) data context;
     r \<leftarrow> unwrap_ok r;
     assert_that (handled r);
     assert_that (from_le_bytes data = (0xCAFE :: u64));
     let data = replicate 8 0xFF;
     (r, m, data, context) \<leftarrow> msix_handle_read_bar m (region_bar pba) (region_offset pba + 100) data context;
     r \<leftarrow> unwrap_ok r;
     assert_that (handled r);
     assert_that (from_le_bytes data = (0 :: u64));
     let data = replicate 8 0xFF;
     (r, m, data, context) \<leftarrow> msix_handle_read_bar m (region_bar pba) (region_offset pba) data context;
     r \<leftarrow> unwrap_ok r;
     assert_that (handled r);
     assert_that (from_le_bytes data = (1 :: u64))
   }"

definition test_msix_bar_write :: "unit option" where
  "test_msix_bar_write = do {
     let ic = [];
     config \<leftarrow> config_new;
     (config, m, msix, _) \<leftarrow> msix_new config;
     config \<leftarrow> set_bus_master config True;
     m \<leftarrow> setup_entries m;
     config \<leftarrow> cs_set_word config (msix_control_offset m) MSIX_CONTROL_MSIX_EN;
     let data = (0xF00D :: u32);
     (r, m, config, ic) \<leftarrow> msix_handle_write_bar m bar_index_default 8 (to_le_bytes data) (config, ic);
     r \<leftarrow> unwrap_ok r;
     assert_that (\<not> handled r);
     (r, m, config, ic) \<leftarrow> msix_handle_write_bar m (region_bar msix) (region_offset msix + 100) (to_le_bytes data) (config, ic);
     r \<leftarrow> unwrap_ok r;
     assert_that (handled r);
     (r, m, config) \<leftarrow> msix_set_pending_bit m config 0 True;
     unwrap_ok r;
     entry \<leftarrow> table_at (mx_msix_table m) 0;
     assert_that (me_vector_control entry = 1);
     (r, m, config, ic) \<leftarrow> msix_handle_write_bar m (region_bar msix) (region_offset msix + 12) (to_le_bytes (0 :: u32)) (config, ic);
     r \<leftarrow> unwrap_ok r;
     assert_that (handled r);
     entry \<leftarrow> table_at (mx_msix_table m) 0;
     assert_that (me_vector_control entry = 0);
     messages \<leftarrow> irq_messages ic;
     assert_that (length messages = 1);
     let sent = messages ! 0;
     assert_that (entry_msg_addr entry = msg_address sent);
     assert_that (me_msg_data entry = msg_data sent);
     (r, m, config) \<leftarrow> msix_set_pending_bit m config 1 True;
     unwrap_ok r;
     let data = (0xBAADDEADBEEF :: u64);
     (r, m, config, ic) \<leftarrow> msix_handle_write_bar m (region_bar msix) (region_offset msix + 16) (to_le_bytes data) (config, ic);
     r \<leftarrow> unwrap_ok r;
     assert_that (handled r);
     entry \<leftarrow> table_at (mx_msix_table m) 1;
     assert_that (me_msg_addr_hi entry = ucast (drop_bit 32 data));
     assert_that (me_msg_addr entry = ucast data);
     messages \<leftarrow> irq_messages ic;
     assert_that (length messages = 1)
   }"

lemma msix_bar_tests_pass: "test_msix_read_bar = Some ()" "test_msix_bar_write = Some ()"
  by (simp_all add: test_msix_read_bar_def test_msix_bar_write_def msix_raw_bytes_def pba_raw_bytes_def msix_store_raw_def
    pba_store_raw_def set_handle_read_bar_def set_handle_write_bar_def access_targets_region_def offset_within_region_def
    range_contains_def rb_validate_access_def read_register_checked_def set_register_checked_def run del: run_del cong: run_cong)

end
