(* ===== verification/Test_Virtio.thy ===== *)
theory Test_Virtio
  imports Test_Run Virtio_Pci
begin

text \<open>
  The tests of the virtio crate, run on the model: the capabilities, the ISR structure, the device and the common
  configuration. The state of a virtio device that a test keeps in a type of the crate
  \<open>virtio_device\<close> is an argument.
\<close>

unbundle bit_operations_syntax

section \<open>Checks of a capability\<close>

definition check_cap :: "config_space \<Rightarrow> usize \<Rightarrow> VirtioPciCapType \<Rightarrow> u8 \<Rightarrow> unit option" where
  "check_cap config sz cfg bar = do {
     last_cap \<leftarrow> capability_last config;
     (header, offset) \<leftarrow> last_cap;
     assert_that (hdr_cap_id header = capability_id_u8 VendorSpecific);
     b \<leftarrow> cs_read_byte config offset;
     assert_that (b = 2 + of_nat sz);
     b \<leftarrow> cs_read_byte config (offset + REG_CAP_CFG);
     assert_that (b = cap_type_u8 cfg);
     b \<leftarrow> cs_read_byte config (offset + REG_BAR);
     assert_that (b = bar)
   }"

definition check_cap_offs_len :: "config_space \<Rightarrow> u32 \<Rightarrow> u32 \<Rightarrow> unit option" where
  "check_cap_offs_len config offset len = do {
     last_cap \<leftarrow> capability_last config;
     (_, cap_offset) \<leftarrow> last_cap;
     d \<leftarrow> cs_read_dword config (cap_offset + REG_OFFSET);
     assert_that (d = offset);
     d \<leftarrow> cs_read_dword config (cap_offset + REG_LENGTH);
     assert_that (d = len)
   }"

definition check_cap64_offs_len :: "config_space \<Rightarrow> u64 \<Rightarrow> u64 \<Rightarrow> unit option" where
  "check_cap64_offs_len config offset len = do {
     check_cap_offs_len config (ucast offset) (ucast len);
     last_cap \<leftarrow> capability_last config;
     (_, cap_offset) \<leftarrow> last_cap;
     d \<leftarrow> cs_read_dword config (cap_offset + REG_OFFSET_HI);
     assert_that (d = ucast (drop_bit 32 offset));
     d \<leftarrow> cs_read_dword config (cap_offset + REG_LENGTH_HI);
     assert_that (d = ucast (drop_bit 32 len))
   }"

definition check_cap_ro_fields :: "config_space \<Rightarrow> bytes \<Rightarrow> config_space option" where
  "check_cap_ro_fields config expected_rw_bits = do {
     last_cap \<leftarrow> capability_last config;
     (_, cap_offset) \<leftarrow> last_cap;
     for_each (enumerate 0 expected_rw_bits) (\<lambda>(i, expect) config. do {
       config \<leftarrow> cs_write_byte config (cap_offset + i) 0x00;
       b \<leftarrow> cs_read_byte config (cap_offset + i);
       let changed_bits = NOT b;
       config \<leftarrow> cs_write_byte config (cap_offset + i) 0xFF;
       b \<leftarrow> cs_read_byte config (cap_offset + i);
       let changed_bits = changed_bits AND b;
       assert_that (changed_bits = expect);
       Some config
     }) config
   }"

definition test_shm_cap :: "unit option" where
  "test_shm_cap = do {
     config \<leftarrow> config_new;
     let bar = 1;
     let shm_id = 2;
     let offs = 0x0001000200030004;
     let len = 0x0050006000700080;
     (r, config) \<leftarrow> add_capability config (shared_memory_cap bar shm_id offs len);
     unwrap_ok r;
     check_cap config VIRTIO_CAP64_SIZE SharedMemoryCfg bar;
     check_cap64_offs_len config offs len;
     _ \<leftarrow> check_cap_ro_fields config (replicate VIRTIO_CAP64_SIZE 0x00);
     Some ()
   }"

definition check_notify_multiplier :: "config_space \<Rightarrow> u32 \<Rightarrow> unit option" where
  "check_notify_multiplier config val = do {
     last_cap \<leftarrow> capability_last config;
     (_, cap_offset) \<leftarrow> last_cap;
     d \<leftarrow> cs_read_dword config (cap_offset + REG_NOTIFY_OFF_MULTIPLIER);
     assert_that (d = val)
   }"

definition test_notify_cap :: "unit option" where
  "test_notify_cap = do {
     config \<leftarrow> config_new;
     let bar = 1;
     let offs = 0x1000;
     let len = 0x2000;
     (r, config) \<leftarrow> add_capability config (notify_cfg_cap (notify_cap_new bar offs len None));
     unwrap_ok r;
     check_cap config VIRTIO_NOTIFY_CAP_SIZE NotifyCfg bar;
     check_cap_offs_len config offs len;
     check_notify_multiplier config 0;
     config \<leftarrow> check_cap_ro_fields config (replicate VIRTIO_NOTIFY_CAP_SIZE 0x00);
     (r, config) \<leftarrow> add_capability config (notify_cfg_cap (notify_cap_new bar offs len (Some 10)));
     unwrap_ok r;
     check_notify_multiplier config 10
   }"

definition test_device_cfg_cap :: "unit option" where
  "test_device_cfg_cap = do {
     config \<leftarrow> config_new;
     let bar = 1;
     let offs = 0x1000;
     let len = 0x2000;
     (r, config) \<leftarrow> add_capability config (device_cfg_cap bar offs len);
     unwrap_ok r;
     check_cap config VIRTIO_CAP_SIZE DeviceCfg bar;
     check_cap_offs_len config offs len;
     _ \<leftarrow> check_cap_ro_fields config (replicate VIRTIO_CAP_SIZE 0x00);
     Some ()
   }"

definition test_isr_cfg_cap :: "unit option" where
  "test_isr_cfg_cap = do {
     config \<leftarrow> config_new;
     let bar = 1;
     let offs = 0x1000;
     let len = 0x2000;
     (r, config) \<leftarrow> add_capability config (isr_cfg_cap bar offs len);
     unwrap_ok r;
     check_cap config VIRTIO_CAP_SIZE IsrCfg bar;
     check_cap_offs_len config offs len;
     _ \<leftarrow> check_cap_ro_fields config (replicate VIRTIO_CAP_SIZE 0x00);
     Some ()
   }"

definition test_common_cfg_cap :: "unit option" where
  "test_common_cfg_cap = do {
     config \<leftarrow> config_new;
     let bar = 1;
     let offs = 0x1000;
     let len = 0x2000;
     (r, config) \<leftarrow> add_capability config (common_cfg_cap bar offs len);
     unwrap_ok r;
     check_cap config VIRTIO_CAP_SIZE CommonCfg bar;
     check_cap_offs_len config offs len;
     _ \<leftarrow> check_cap_ro_fields config (replicate VIRTIO_CAP_SIZE 0x00);
     Some ()
   }"

definition test_cap_init :: "unit option" where
  "test_cap_init = do {
     config \<leftarrow> config_new;
     (r, config) \<leftarrow> add_capability config (pci_cfg_cap pci_cfg_cap_new);
     unwrap_ok r;
     check_cap config VIRTIO_PCI_CFG_CAP_SIZE PciCfg 0;
     check_cap_offs_len config 0 0;
     let rw_fields = replicate VIRTIO_PCI_CFG_CAP_SIZE 0x00;
     rw_fields \<leftarrow> slice_set rw_fields REG_BAR [0xFF];
     rw_fields \<leftarrow> slice_set rw_fields REG_OFFSET (replicate (REG_PCI_CFG_DATA + 4 - REG_OFFSET) 0xFF);
     _ \<leftarrow> check_cap_ro_fields config rw_fields;
     Some ()
   }"

lemmas virtio_caps_run [run] = virtio_cap_len_def virtio_cap_new_def virtio_cap_registers_def virtio_cap_def base_registers_def
  read_only_bits_def unwrap_call_def utils_set_dword_def utils_set_def utils_set_byte_def validate_access_def
  virtio_cap64_new_def virtio_cap64_registers_def virtio_cap64_def shared_memory_cap_def common_cfg_cap_def isr_cfg_cap_def
  device_cfg_cap_def notify_cap_new_def notify_cap_registers_def notify_cfg_cap_def pci_cfg_cap_new_def pci_cfg_cap_registers_def
  pci_cfg_cap_writable_bits_def pci_cfg_cap_def rb_set_dword_def
  check_cap_def check_cap_offs_len_def check_cap64_offs_len_def check_cap_ro_fields_def check_notify_multiplier_def

lemma virtio_cap_tests_pass:
  "test_shm_cap = Some ()" "test_notify_cap = Some ()" "test_device_cfg_cap = Some ()"
  "test_isr_cfg_cap = Some ()" "test_common_cfg_cap = Some ()" "test_cap_init = Some ()"
  by (simp_all add: test_shm_cap_def test_notify_cap_def test_device_cfg_cap_def test_isr_cfg_cap_def test_common_cfg_cap_def
    test_cap_init_def run del: run_del cong: run_cong)

section \<open>The ISR structure\<close>

definition TEST_ISR_OFF :: u64 where [simp]: "TEST_ISR_OFF = 0x12"
definition TEST_ISR_SIZE :: usize where [simp]: "TEST_ISR_SIZE = 1"

text \<open>\<open>TestIsr\<close> is a byte; of the methods of a device only the one of \<open>VirtioPciIsrState\<close> is used.\<close>

definition test_isr :: "(u8, 'q) virtio_device \<Rightarrow> (u8, 'q) virtio_device" where
  "test_isr vd = vd\<lparr>vd_read_and_clear_isr := (\<lambda>isr. (isr, 0))\<rparr>"

definition new_isr_cfg :: "VirtioPciIsr option" where
  "new_isr_cfg = do {
     bar \<leftarrow> unwrap_ok (bar_index_try_from 1);
     Some \<lparr>vi_region = \<lparr>region_bar = bar, region_offset = TEST_ISR_OFF, region_length = of_nat TEST_ISR_SIZE\<rparr>\<rparr>
   }"

definition isr_handle_read ::
    "(u8, 'q) virtio_device \<Rightarrow> VirtioPciIsr \<Rightarrow> PciBarIndex \<Rightarrow> u64 \<Rightarrow> bytes \<Rightarrow> u8 \<Rightarrow>
     (VirtioPciIsr \<times> bytes \<times> u8, unit PciHandlerResult) call" where
  "isr_handle_read vd = region_handle_read_bar vi_region (isr_read_bar (test_isr vd))"

definition isr_handle_write ::
    "VirtioPciIsr \<Rightarrow> PciBarIndex \<Rightarrow> u64 \<Rightarrow> bytes \<Rightarrow> u8 \<Rightarrow> (VirtioPciIsr \<times> u8, unit PciHandlerResult) call" where
  "isr_handle_write = region_handle_write_bar vi_region isr_write_bar"

definition test_isr_cfg_read_bar_other_bars :: "(u8, 'q) virtio_device \<Rightarrow> unit option" where
  "test_isr_cfg_read_bar_other_bars vd = do {
     cfg \<leftarrow> new_isr_cfg;
     let isr = 0;
     let data = replicate TEST_ISR_SIZE 0xFF;
     bar \<leftarrow> unwrap_ok (bar_index_try_from 0);
     (r, cfg, data, isr) \<leftarrow> isr_handle_read vd cfg bar TEST_ISR_OFF data isr;
     r \<leftarrow> unwrap_ok r;
     assert_that (\<not> handled r);
     assert_that (data ! 0 = 0xFF)
   }"

definition test_isr_cfg_read_bar_outside_region :: "(u8, 'q) virtio_device \<Rightarrow> unit option" where
  "test_isr_cfg_read_bar_outside_region vd = do {
     cfg \<leftarrow> new_isr_cfg;
     let isr = 0;
     let data = replicate TEST_ISR_SIZE 0xFF;
     bar \<leftarrow> unwrap_ok (bar_index_try_from 1);
     (r, cfg, data, isr) \<leftarrow> isr_handle_read vd cfg bar 0 data isr;
     r \<leftarrow> unwrap_ok r;
     assert_that (\<not> handled r);
     assert_that (data ! 0 = 0xFF)
   }"

definition check_handle_read :: "(u8, 'q) virtio_device \<Rightarrow> VirtioPciIsr \<Rightarrow> u8 \<Rightarrow> u8 \<Rightarrow> unit option" where
  "check_handle_read vd cfg isr expect = do {
     let data = replicate TEST_ISR_SIZE 0xFF;
     bar \<leftarrow> unwrap_ok (bar_index_try_from 1);
     assert_that (isr = expect);
     (r, cfg, data, isr) \<leftarrow> isr_handle_read vd cfg bar TEST_ISR_OFF data isr;
     r \<leftarrow> unwrap_ok r;
     assert_that (handled r);
     assert_that (data ! 0 = expect);
     assert_that (isr = 0)
   }"

definition test_isr_cfg_read_bar_used_notif :: "(u8, 'q) virtio_device \<Rightarrow> unit option" where
  "test_isr_cfg_read_bar_used_notif vd = do {
     cfg \<leftarrow> new_isr_cfg;
     let isr = INTERRUPT_STATUS_USED_BUFFER;
     check_handle_read vd cfg isr INTERRUPT_STATUS_USED_BUFFER
   }"

definition test_isr_cfg_read_bar_configuration_change_notif :: "(u8, 'q) virtio_device \<Rightarrow> unit option" where
  "test_isr_cfg_read_bar_configuration_change_notif vd = do {
     cfg \<leftarrow> new_isr_cfg;
     let isr = INTERRUPT_STATUS_CONFIGURATION_CHANGE;
     check_handle_read vd cfg isr INTERRUPT_STATUS_CONFIGURATION_CHANGE
   }"

definition test_isr_cfg_read_bar_both :: "(u8, 'q) virtio_device \<Rightarrow> unit option" where
  "test_isr_cfg_read_bar_both vd = do {
     cfg \<leftarrow> new_isr_cfg;
     let expect = INTERRUPT_STATUS_USED_BUFFER OR INTERRUPT_STATUS_CONFIGURATION_CHANGE;
     let isr = expect;
     check_handle_read vd cfg isr expect
   }"

definition test_isr_cfg_read_bar_no_interrupt :: "(u8, 'q) virtio_device \<Rightarrow> unit option" where
  "test_isr_cfg_read_bar_no_interrupt vd = do {
     cfg \<leftarrow> new_isr_cfg;
     let isr = 0;
     check_handle_read vd cfg isr 0
   }"

definition test_isr_cfg_write_bar_other_bars :: "unit option" where
  "test_isr_cfg_write_bar_other_bars = do {
     cfg \<leftarrow> new_isr_cfg;
     let isr = INTERRUPT_STATUS_USED_BUFFER;
     let data = replicate TEST_ISR_SIZE 0xFF;
     bar \<leftarrow> unwrap_ok (bar_index_try_from 0);
     (r, cfg, isr) \<leftarrow> isr_handle_write cfg bar TEST_ISR_OFF data isr;
     r \<leftarrow> unwrap_ok r;
     assert_that (\<not> handled r);
     assert_that (isr = INTERRUPT_STATUS_USED_BUFFER)
   }"

definition test_isr_cfg_write_bar_outside_region :: "unit option" where
  "test_isr_cfg_write_bar_outside_region = do {
     cfg \<leftarrow> new_isr_cfg;
     let isr = INTERRUPT_STATUS_USED_BUFFER;
     let data = replicate TEST_ISR_SIZE 0xFF;
     bar \<leftarrow> unwrap_ok (bar_index_try_from 1);
     (r, cfg, isr) \<leftarrow> isr_handle_write cfg bar 0 data isr;
     r \<leftarrow> unwrap_ok r;
     assert_that (\<not> handled r);
     assert_that (isr \<noteq> 0)
   }"

definition test_isr_cfg_write_bar :: "unit option" where
  "test_isr_cfg_write_bar = do {
     cfg \<leftarrow> new_isr_cfg;
     let isr = INTERRUPT_STATUS_USED_BUFFER;
     let data = replicate TEST_ISR_SIZE 0xFF;
     bar \<leftarrow> unwrap_ok (bar_index_try_from 1);
     (r, cfg, isr) \<leftarrow> isr_handle_write cfg bar TEST_ISR_OFF data isr;
     r \<leftarrow> unwrap_ok r;
     assert_that (handled r);
     assert_that (isr \<noteq> 0)
   }"

lemmas isr_run [run] = test_isr_def new_isr_cfg_def isr_handle_read_def isr_handle_write_def check_handle_read_def
  region_handle_read_bar_def region_handle_write_bar_def isr_read_bar_def isr_write_bar_def access_targets_region_def
  offset_within_region_def range_contains_def

lemma isr_tests_pass:
  "test_isr_cfg_read_bar_other_bars vd = Some ()" "test_isr_cfg_read_bar_outside_region vd = Some ()"
  "test_isr_cfg_read_bar_used_notif vd = Some ()" "test_isr_cfg_read_bar_configuration_change_notif vd = Some ()"
  "test_isr_cfg_read_bar_both vd = Some ()" "test_isr_cfg_read_bar_no_interrupt vd = Some ()"
  "test_isr_cfg_write_bar_other_bars = Some ()" "test_isr_cfg_write_bar_outside_region = Some ()" "test_isr_cfg_write_bar = Some ()"
  by (simp_all add: test_isr_cfg_read_bar_other_bars_def test_isr_cfg_read_bar_outside_region_def
    test_isr_cfg_read_bar_used_notif_def test_isr_cfg_read_bar_configuration_change_notif_def test_isr_cfg_read_bar_both_def
    test_isr_cfg_read_bar_no_interrupt_def test_isr_cfg_write_bar_other_bars_def test_isr_cfg_write_bar_outside_region_def
    test_isr_cfg_write_bar_def run del: run_del cong: run_cong)

section \<open>The device of the tests\<close>

text \<open>
  \<open>TestDevice\<close> keeps a \<open>VirtioConfig\<close>, a type \<open>'c\<close> of the crate \<open>virtio_device\<close>; the methods that crate
  gives a device with such a configuration are those of \<open>vc\<close>. What the tests leave as \<open>todo!()\<close> is not
  called by them: a notification panics, and the methods that cannot panic in the model come from \<open>base\<close>.
\<close>

record 'c TestDevice =
  td_cfg :: 'c
  td_config_msix_vector :: u16
  td_queue_msix_vector :: "u16 list"

definition td_set_queue_msix_vector :: "('c, 'q) virtio_device \<Rightarrow> 'c TestDevice \<Rightarrow> u16 \<Rightarrow> 'c TestDevice" where
  "td_set_queue_msix_vector vc d vector =
     (let index = unat (vd_queue_select vc (td_cfg d)) in
      if index < length (td_queue_msix_vector d)
      then d\<lparr>td_queue_msix_vector := (td_queue_msix_vector d)[index := vector]\<rparr> else d)"

definition td_get_queue_msix_vector :: "('c, 'q) virtio_device \<Rightarrow> 'c TestDevice \<Rightarrow> u16 option" where
  "td_get_queue_msix_vector vc d =
     (let index = unat (vd_queue_select vc (td_cfg d)) in
      if index < length (td_queue_msix_vector d) then Some (td_queue_msix_vector d ! index) else None)"

definition test_device ::
    "('c TestDevice, 'q) virtio_device \<Rightarrow> ('c, 'q) virtio_device \<Rightarrow> ('c TestDevice, 'q) virtio_device" where
  "test_device base vc = base\<lparr>
     vd_device_type := (\<lambda>_. 10),
     vd_queue_notify := (\<lambda>_ _. None),
     vd_config_msix_vector := td_config_msix_vector,
     vd_set_config_msix_vector := (\<lambda>d vector. d\<lparr>td_config_msix_vector := vector\<rparr>),
     vd_queue_msix_vector := td_get_queue_msix_vector vc,
     vd_set_queue_msix_vector := td_set_queue_msix_vector vc,
     vd_device_features := (\<lambda>d. vd_device_features vc (td_cfg d)),
     vd_driver_features := (\<lambda>d. vd_driver_features vc (td_cfg d)),
     vd_set_driver_features := (\<lambda>d page v. d\<lparr>td_cfg := vd_set_driver_features vc (td_cfg d) page v\<rparr>),
     vd_queue_select := (\<lambda>d. vd_queue_select vc (td_cfg d)),
     vd_set_queue_select := (\<lambda>d v. d\<lparr>td_cfg := vd_set_queue_select vc (td_cfg d) v\<rparr>),
     vd_read_config := (\<lambda>d. vd_read_config vc (td_cfg d)),
     vd_write_config := (\<lambda>d offset data. d\<lparr>td_cfg := vd_write_config vc (td_cfg d) offset data\<rparr>)\<rparr>"

text \<open>\<open>VirtioConfig::new(features, queues, config_space)\<close> is \<open>new\<close>; the queues are not used by the tests.\<close>

definition test_device_new :: "(u64 \<Rightarrow> bytes \<Rightarrow> 'c) \<Rightarrow> 'c TestDevice" where
  "test_device_new new =
     (let features = push_bit 32 0xBAAD OR 0xABBA;
          cfg_space = [0x11, 0x22, 0x33, 0x44, 0x55, 0x66, 0x77, 0x88]
      in \<lparr>td_cfg = new features cfg_space, td_config_msix_vector = 0, td_queue_msix_vector = [MSIX_VECTOR_UNMAPPED]\<rparr>)"

subsection \<open>Device configuration\<close>

definition test_dev :: "(u64 \<Rightarrow> bytes \<Rightarrow> 'c) \<Rightarrow> ('c \<Rightarrow> bytes) \<Rightarrow> VirtioPciDeviceCfg \<times> 'c TestDevice" where
  "test_dev new config_space =
     (let dev = test_device_new new;
          sz = of_nat (length (config_space (td_cfg dev)))
      in (\<lparr>vdc_info = \<lparr>region_bar = bar_index_default, region_offset = 0, region_length = sz\<rparr>\<rparr>, dev))"

definition test_dev_read ::
    "('t, 'q) virtio_device \<Rightarrow> VirtioPciDeviceCfg \<times> 't \<Rightarrow> u64 \<Rightarrow> bytes \<Rightarrow> ((VirtioPciDeviceCfg \<times> 't) \<times> bytes) option" where
  "test_dev_read vd cfgdev offset data = do {
     (r, cfg, data, dev) \<leftarrow> device_cfg_read_bar vd (fst cfgdev) offset data (snd cfgdev);
     unwrap_ok r;
     Some ((cfg, dev), data)
   }"

definition test_dev_write ::
    "('t, 'q) virtio_device \<Rightarrow> VirtioPciDeviceCfg \<times> 't \<Rightarrow> u64 \<Rightarrow> bytes \<Rightarrow> (VirtioPciDeviceCfg \<times> 't) option" where
  "test_dev_write vd cfgdev offset data = do {
     (r, cfg, dev) \<leftarrow> device_cfg_write_bar vd (fst cfgdev) offset data (snd cfgdev);
     unwrap_ok r;
     Some (cfg, dev)
   }"

definition test_device_cfg_read ::
    "('c TestDevice, 'q) virtio_device \<Rightarrow> ('c, 'q) virtio_device \<Rightarrow> (u64 \<Rightarrow> bytes \<Rightarrow> 'c) \<Rightarrow> ('c \<Rightarrow> bytes) \<Rightarrow> unit option" where
  "test_device_cfg_read base vc new config_space = do {
     let vd = test_device base vc;
     let cfgdev = test_dev new config_space;
     let d = [0, 0, 0, 0];
     let offs = 0;
     (cfgdev, d) \<leftarrow> test_dev_read vd cfgdev (of_nat offs) d;
     part \<leftarrow> slice_read (config_space (td_cfg (snd cfgdev))) offs (length d);
     assert_that (d = part);
     let offs = 4;
     (cfgdev, d) \<leftarrow> test_dev_read vd cfgdev (of_nat offs) d;
     part \<leftarrow> slice_read (config_space (td_cfg (snd cfgdev))) offs (length d);
     assert_that (d = part);
     let d = [0, 0, 0, 0, 0, 0, 0, 0];
     let offs = 0;
     (cfgdev, d) \<leftarrow> test_dev_read vd cfgdev (of_nat offs) d;
     part \<leftarrow> slice_read (config_space (td_cfg (snd cfgdev))) offs (length d);
     assert_that (d = part);
     let d = [0xFF, 0xFF];
     let offs = length (config_space (td_cfg (snd cfgdev)));
     (cfgdev, d) \<leftarrow> test_dev_read vd cfgdev (of_nat offs) d;
     assert_that (list_all (\<lambda>x. x = 0xFF) d)
   }"

definition test_device_cfg_write ::
    "('c TestDevice, 'q) virtio_device \<Rightarrow> ('c, 'q) virtio_device \<Rightarrow> (u64 \<Rightarrow> bytes \<Rightarrow> 'c) \<Rightarrow> ('c \<Rightarrow> bytes) \<Rightarrow> unit option" where
  "test_device_cfg_write base vc new config_space = do {
     let vd = test_device base vc;
     let cfgdev = test_dev new config_space;
     let d = [0, 0, 0, 0];
     let offs = 0;
     cfgdev \<leftarrow> test_dev_write vd cfgdev (of_nat offs) d;
     part \<leftarrow> slice_read (config_space (td_cfg (snd cfgdev))) offs (length d);
     assert_that (d = part);
     let cfgdev = test_dev new config_space;
     let offs = 4;
     cfgdev \<leftarrow> test_dev_write vd cfgdev (of_nat offs) d;
     part \<leftarrow> slice_read (config_space (td_cfg (snd cfgdev))) offs (length d);
     assert_that (d = part);
     let cfgdev = test_dev new config_space;
     let d = [0, 0, 0, 0, 0, 0, 0, 0];
     let offs = 0;
     cfgdev \<leftarrow> test_dev_write vd cfgdev (of_nat offs) d;
     part \<leftarrow> slice_read (config_space (td_cfg (snd cfgdev))) offs (length d);
     assert_that (d = part);
     let cfgdev = test_dev new config_space;
     let d = [0xFF, 0xFF];
     let expect = config_space (td_cfg (snd cfgdev));
     let offs = length (config_space (td_cfg (snd cfgdev)));
     cfgdev \<leftarrow> test_dev_write vd cfgdev (of_nat offs) d;
     assert_that (config_space (td_cfg (snd cfgdev)) = expect)
   }"

subsection \<open>The common configuration\<close>

datatype Foo = Bar | Baz | Qux | Quux | Corge

fun foo_value :: "Foo \<Rightarrow> usize" where
  "foo_value Bar = 0" | "foo_value Baz = 8" | "foo_value Qux = 10" | "foo_value Quux = 12" | "foo_value Corge = 13"

fun foo_size :: "Foo \<Rightarrow> usize" where
  "foo_size Bar = 8" | "foo_size Baz = 4" | "foo_size Qux = 2" | "foo_size Quux = 1" | "foo_size Corge = 1"

definition test_register :: "Foo \<Rightarrow> usize \<Rightarrow> usize \<Rightarrow> unit option" where
  "test_register variant offset sz = do {
     assert_that (foo_value variant = offset);
     assert_that (foo_size variant = sz)
   }"

definition test_register_macro :: "unit option" where
  "test_register_macro = do {
     test_register Bar 0 8;
     test_register Baz 8 4;
     test_register Qux 10 2;
     test_register Quux 12 1;
     test_register Corge 13 1
   }"

definition cfg_w ::
    "('t, 'q) virtio_device \<Rightarrow> 'q virtio_queue \<Rightarrow> VirtioPciCommonCfg \<times> 't \<Rightarrow> Config \<Rightarrow> bytes \<Rightarrow> (VirtioPciCommonCfg \<times> 't) option" where
  "cfg_w vd vq cfgdev offset data = do {
     (r, cfg, dev) \<leftarrow> common_write_bar vd vq (fst cfgdev) (of_nat (config_value offset)) data (snd cfgdev);
     unwrap_ok r;
     Some (cfg, dev)
   }"

definition cfg_r ::
    "('t, 'q) virtio_device \<Rightarrow> 'q virtio_queue \<Rightarrow> VirtioPciCommonCfg \<times> 't \<Rightarrow> Config \<Rightarrow> bytes \<Rightarrow> ((VirtioPciCommonCfg \<times> 't) \<times> bytes) option" where
  "cfg_r vd vq cfgdev offset data = do {
     (r, cfg, data, dev) \<leftarrow> common_read_bar vd vq (fst cfgdev) (of_nat (config_value offset)) data (snd cfgdev);
     unwrap_ok r;
     Some ((cfg, dev), data)
   }"

definition test_device_features ::
    "('c TestDevice, 'q) virtio_device \<Rightarrow> ('c, 'q) virtio_device \<Rightarrow> 'q virtio_queue \<Rightarrow> (u64 \<Rightarrow> bytes \<Rightarrow> 'c) \<Rightarrow> unit option" where
  "test_device_features base vc vq new = do {
     let vd = test_device base vc;
     let cfgdev = (common_cfg_new bar_index_default 0 (of_nat VIRTIO_COMMON_CFG_SIZE), test_device_new new);
     let data = [0, 0, 0, 0];
     cfgdev \<leftarrow> cfg_w vd vq cfgdev DevFeatureSel (to_le_bytes (0 :: u32));
     (cfgdev, data) \<leftarrow> cfg_r vd vq cfgdev DevFeature data;
     assert_that (from_le_bytes data = (0xABBA :: u32));
     cfgdev \<leftarrow> cfg_w vd vq cfgdev DevFeatureSel (to_le_bytes (1 :: u32));
     (cfgdev, data) \<leftarrow> cfg_r vd vq cfgdev DevFeature data;
     assert_that (from_le_bytes data = (0xBAAD :: u32))
   }"

lemma register_macro_test_passes: "test_register_macro = Some ()"
  by (simp add: test_register_macro_def test_register_def run)

text \<open>
  The tests pass whenever the configuration of the crate reports the features it was made with, and reads and
  writes its configuration space in place, with no effect on an access that does not fit.
\<close>

lemma device_cfg_tests_pass:
  assumes "\<And>f s. config_space (new f s) = s"
    and "\<And>c off d. vd_read_config vc c off d =
      (if off + length d \<le> length (config_space c) then take (length d) (drop off (config_space c)) else d)"
    and "\<And>c off d. config_space (vd_write_config vc c off d) =
      (if off + length d \<le> length (config_space c) then patch (config_space c) off d else config_space c)"
  shows "test_device_cfg_read base vc new config_space = Some ()" "test_device_cfg_write base vc new config_space = Some ()"
  by (simp_all add: test_device_cfg_read_def test_device_cfg_write_def test_device_def test_dev_def test_device_new_def
    test_dev_read_def test_dev_write_def device_cfg_read_bar_def device_cfg_write_bar_def assms run del: run_del cong: run_cong)

lemma device_features_test_passes:
  assumes "\<And>f s. vd_device_features vc (new f s) = f"
  shows "test_device_features base vc vq new = Some ()"
  by (simp add: test_device_features_def cfg_w_def cfg_r_def test_device_def test_device_new_def common_write_bar_def common_read_bar_def
    common_cfg_new_def common_writable_bits_def from_little_endian_def to_little_endian_def write_registers_def read_registers_def
    utils_write_def utils_read_def common_process_write_def common_prepare_read_def config_try_from_def config_registers_def
    process_write_register_def prepare_read_register_def config_dword_def set_config_dword_def set_config_def vc_config_def
    config_size_def paged_features_def swap_size_def to_ne_bytes_def from_ne_bytes_def assms run del: run_del cong: run_cong)

end
