(* ===== verification/Test_Window.thy ===== *)
theory Test_Window
  imports Test_Config Test_Virtio
begin

text \<open>
  The tests of the configuration window, run on the model: the window belongs to a small function of the tests,
  which keeps its BARs in an array, and not to the function of the crate.
\<close>

unbundle bit_operations_syntax

section \<open>The function of the tests\<close>

definition PCI_BAR1 :: usize where [simp]: "PCI_BAR1 = 0x14"

record TestFunction =
  tf_config :: config_space
  tf_bar :: bytes
  tf_cap :: usize

definition tf_get_bar :: "TestFunction bar_lookup" where
  "tf_get_bar self index = get_bar (tf_config self) index"

definition tf_read_bar :: "TestFunction bar_read" where
  "tf_read_bar self index offset data =
     (if into_inner index < 2
      then do {
        data \<leftarrow> slice_read (tf_bar self) (unat offset) (length data);
        Some (Inr (), (self, data))
      }
      else Some (Inl NotSupported, (self, data)))"

definition tf_write_bar :: "TestFunction bar_write" where
  "tf_write_bar self index offset data =
     (if into_inner index < 2
      then do {
        bar \<leftarrow> slice_set (tf_bar self) (unat offset) data;
        Some (Inr None, self\<lparr>tf_bar := bar\<rparr>)
      }
      else Some (Inl NotSupported, self))"

definition tf_set_config :: "config_space \<Rightarrow> TestFunction \<Rightarrow> TestFunction" where
  "tf_set_config c self = self\<lparr>tf_config := c\<rparr>"

definition tf_handler :: "TestFunction cfg_handler" where
  "tf_handler = \<lparr>ca_config = tf_config, ca_set_config = tf_set_config, ca_pci_cfg_cap = tf_cap,
     ch_get_bar = tf_get_bar, ch_read_bar = tf_read_bar, ch_write_bar = tf_write_bar\<rparr>"

definition tf_read_config :: "TestFunction \<Rightarrow> usize \<Rightarrow> bytes \<Rightarrow> (TestFunction \<times> bytes, unit) call" where
  "tf_read_config self offset data = do {
     (_, self) \<leftarrow> window_prepare_read tf_handler self offset (length data);
     (r, data) \<leftarrow> cs_read_checked (tf_config self) offset data;
     Some (r, (self, data))
   }"

definition tf_write_config :: "TestFunction \<Rightarrow> usize \<Rightarrow> bytes \<Rightarrow> (TestFunction, PciConfigurationUpdate option) call" where
  "tf_write_config self offset data = do {
     (r, c) \<leftarrow> cs_write_checked (tf_config self) offset data;
     let self = self\<lparr>tf_config := c\<rparr>;
     case r of
       Inl e \<Rightarrow> Some (Inl e, self)
     | Inr _ \<Rightarrow> do {
         (_, self) \<leftarrow> window_process_write tf_handler self offset (length data);
         Some (Inr None, self)
       }
   }"

definition tf_new :: "TestFunction option" where
  "tf_new = do {
     config \<leftarrow> config_new;
     (offset, config) \<leftarrow> add_capability config (pci_cfg_cap pci_cfg_cap_new);
     offset \<leftarrow> unwrap_ok offset;
     index \<leftarrow> unwrap_ok (bar_index_try_from 0);
     let mem = bar_new PCI_BAR_MEM_MIN_SIZE index (Memory32Bit NotPrefetchable);
     (r, config) \<leftarrow> add_bar config mem;
     unwrap_ok r;
     index \<leftarrow> unwrap_ok (bar_index_try_from 1);
     let pio = bar_new PCI_BAR_IO_MIN_SIZE index Io;
     (r, config) \<leftarrow> add_bar config pio;
     unwrap_ok r;
     config \<leftarrow> cs_set_word config PCI_COMMAND (PCI_COMMAND_MEM_SPACE_MASK OR PCI_COMMAND_IO_SPACE_MASK);
     config \<leftarrow> cs_write_dword config PCI_BAR0 0x00001000;
     config \<leftarrow> cs_write_dword config PCI_BAR1 0x00000101;
     let bar = replicate 20 0x00;
     bar \<leftarrow> slice_set bar 8 (to_le_bytes (0x1122334455667788 :: u64));
     let cap = offset;
     Some \<lparr>tf_config = config, tf_bar = bar, tf_cap = cap\<rparr>
   }"

definition tf_access :: "TestFunction \<Rightarrow> u8 \<Rightarrow> u32 \<Rightarrow> u32 \<Rightarrow> TestFunction option" where
  "tf_access fun bar offset len = do {
     last_cap \<leftarrow> capability_last (tf_config fun);
     (_, cap) \<leftarrow> last_cap;
     c \<leftarrow> cs_write_byte (tf_config fun) (cap + REG_BAR) bar;
     c \<leftarrow> cs_write_dword c (cap + REG_OFFSET) offset;
     c \<leftarrow> cs_write_dword c (cap + REG_LENGTH) len;
     Some (fun\<lparr>tf_config := c\<rparr>)
   }"

definition tf_read_data :: "TestFunction \<Rightarrow> bytes \<Rightarrow> (TestFunction \<times> bytes) option" where
  "tf_read_data fun data = do {
     last_cap \<leftarrow> capability_last (tf_config fun);
     (_, cap) \<leftarrow> last_cap;
     (r, fun, data) \<leftarrow> tf_read_config fun (cap + REG_PCI_CFG_DATA) data;
     unwrap_ok r;
     Some (fun, data)
   }"

definition tf_write_data :: "TestFunction \<Rightarrow> bytes \<Rightarrow> TestFunction option" where
  "tf_write_data fun data = do {
     last_cap \<leftarrow> capability_last (tf_config fun);
     (_, cap) \<leftarrow> last_cap;
     (r, fun) \<leftarrow> tf_write_config fun (cap + REG_PCI_CFG_DATA) data;
     unwrap_ok r;
     Some fun
   }"

section \<open>The tests\<close>

definition test_pci_cfg_read_invalid_bar :: "unit option" where
  "test_pci_cfg_read_invalid_bar = do {
     fun \<leftarrow> tf_new;
     fun \<leftarrow> tf_access fun 3 8 4;
     let data = [0, 0, 0, 0];
     (fun, data) \<leftarrow> tf_read_data fun data;
     assert_that (from_le_bytes data = (0xFFFFFFFF :: u32))
   }"

definition test_pci_cfg_read_invalid_length :: "unit option" where
  "test_pci_cfg_read_invalid_length = do {
     fun \<leftarrow> tf_new;
     fun \<leftarrow> tf_access fun 0 8 0;
     let data = [0, 0, 0, 0];
     (fun, data) \<leftarrow> tf_read_data fun data;
     assert_that (from_le_bytes data = (0xFFFFFFFF :: u32))
   }"

definition test_pci_cfg_read :: "unit option" where
  "test_pci_cfg_read = do {
     fun \<leftarrow> tf_new;
     fun \<leftarrow> tf_access fun 0 8 4;
     let data = [0, 0, 0, 0];
     (fun, data) \<leftarrow> tf_read_data fun data;
     assert_that (from_le_bytes data = (0x55667788 :: u32));
     fun \<leftarrow> tf_access fun 1 12 4;
     (fun, data) \<leftarrow> tf_read_data fun data;
     assert_that (from_le_bytes data = (0x11223344 :: u32))
   }"

definition test_pci_cfg_write_invalid_bar :: "unit option" where
  "test_pci_cfg_write_invalid_bar = do {
     fun \<leftarrow> tf_new;
     fun \<leftarrow> tf_access fun 3 4 4;
     let data = to_le_bytes (0x11223344 :: u32);
     fun \<leftarrow> tf_write_data fun data;
     part \<leftarrow> slice_read (tf_bar fun) 4 4;
     assert_that (part \<noteq> data)
   }"

definition test_pci_cfg_write_invalid_length :: "unit option" where
  "test_pci_cfg_write_invalid_length = do {
     fun \<leftarrow> tf_new;
     fun \<leftarrow> tf_access fun 0 4 0;
     let data = to_le_bytes (0x11223344 :: u32);
     fun \<leftarrow> tf_write_data fun data;
     part \<leftarrow> slice_read (tf_bar fun) 4 4;
     assert_that (part \<noteq> data)
   }"

definition test_pci_cfg_write :: "unit option" where
  "test_pci_cfg_write = do {
     fun \<leftarrow> tf_new;
     fun \<leftarrow> tf_access fun 0 4 4;
     let data = to_le_bytes (0x11223344 :: u32);
     fun \<leftarrow> tf_write_data fun data;
     part \<leftarrow> slice_read (tf_bar fun) 4 4;
     assert_that (part = data)
   }"

lemma tf_handler_fields [run]:
  "ca_config tf_handler = tf_config" "ca_set_config tf_handler = tf_set_config" "ca_pci_cfg_cap tf_handler = tf_cap"
  "ch_get_bar tf_handler = tf_get_bar" "ch_read_bar tf_handler = tf_read_bar" "ch_write_bar tf_handler = tf_write_bar"
  by (simp_all add: tf_handler_def)

lemmas tf_run [run] = tf_get_bar_def tf_read_bar_def tf_write_bar_def tf_set_config_def tf_read_config_def tf_write_config_def
  tf_access_def tf_read_data_def tf_write_data_def

lemmas cfg_window_run [run] = window_offset_def window_should_handle_def window_find_bar_def window_params_def window_get_data_def
  window_update_data_def window_set_invalid_def window_prepare_read_def window_process_write_def
  range_overlaps_def range_contains_def bar_is_mem_def read_mmio_def write_mmio_def read_pio_def write_pio_def
  find_mmio_region_def find_pio_region_def find_bar_and_offset_def find_bar_from.simps get_matching_bar_address_def

lemma cfg_window_tests_pass:
  "test_pci_cfg_read_invalid_bar = Some ()" "test_pci_cfg_read_invalid_length = Some ()" "test_pci_cfg_read = Some ()"
  "test_pci_cfg_write_invalid_bar = Some ()" "test_pci_cfg_write_invalid_length = Some ()" "test_pci_cfg_write = Some ()"
  by (simp_all add: test_pci_cfg_read_invalid_bar_def test_pci_cfg_read_invalid_length_def test_pci_cfg_read_def
    test_pci_cfg_write_invalid_bar_def test_pci_cfg_write_invalid_length_def test_pci_cfg_write_def tf_new_def
    run del: run_del cong: run_cong)

end
