(* ===== verification/Test_Program.thy ===== *)
theory Test_Program
  imports Test_Run Vhost_Cli Io_Config Sel4_Rpc
begin

text \<open>
  The tests of \<open>main.rs\<close>, \<open>io_interface_config.rs\<close>, \<open>rpc.rs\<close> and \<open>doorbell.rs\<close>, run on the model.
\<close>

section \<open>The command line\<close>

definition test_parse_mac :: "unit option" where
  "test_parse_mac = assert_that (parse_mac_address ''aa:bb:cc:dd:ee:ff'' = Inr [0xAA, 0xBB, 0xCC, 0xDD, 0xEE, 0xFF])"

definition test_parse_mac_invalid_length :: "unit option" where
  "test_parse_mac_invalid_length = do {
     assert_that (is_err (parse_mac_address ''aa:bb:cc:dd:ee''));
     assert_that (is_err (parse_mac_address ''aa:bb:cc:dd:ee:ff:00''))
   }"

definition test_parse_mac_invalid_octet :: "unit option" where
  "test_parse_mac_invalid_octet = do {
     assert_that (is_err (parse_mac_address ''bl:bb:cc:dd:ee:ff''));
     assert_that (is_err (parse_mac_address ''11:bb:101:dd:ee:ff''));
     assert_that (is_err (parse_mac_address ''11:bb:1:dd:ee:''))
   }"

definition test_parse_mac_malformed :: "unit option" where
  "test_parse_mac_malformed = assert_that (is_err (parse_mac_address ''blah''))"

definition test_parse_virtqueue_size :: "unit option" where
  "test_parse_virtqueue_size = for_each [1..<16] (\<lambda>i _. do {
     let s = (2 :: u16) ^ i;
     assert_that (parse_virtqueue_size (show_radix 10 (unat s)) = Inr s)
   }) ()"

definition test_parse_virtqueue_size_non_pot :: "unit option" where
  "test_parse_virtqueue_size_non_pot = do {
     assert_that (is_err (parse_virtqueue_size ''5''));
     assert_that (is_err (parse_virtqueue_size ''3''));
     assert_that (is_err (parse_virtqueue_size ''32767''))
   }"

definition test_parse_virtqueue_size_invalid :: "unit option" where
  "test_parse_virtqueue_size_invalid = do {
     assert_that (is_err (parse_virtqueue_size ''-1''));
     assert_that (is_err (parse_virtqueue_size ''0''))
   }"

definition test_parse_virtqueue_size_limits :: "unit option" where
  "test_parse_virtqueue_size_limits = do {
     assert_that (is_err (parse_virtqueue_size ''1''));
     assert_that (parse_virtqueue_size ''2'' = Inr 2);
     assert_that (is_err (parse_virtqueue_size ''65536''))
   }"

definition test_parse_virtqueue_size_nan :: "unit option" where
  "test_parse_virtqueue_size_nan = assert_that (is_err (parse_virtqueue_size ''blah''))"

lemma digit_run [run]:
  "digit_char 0 = CHR ''0''" "digit_char (Suc 0) = CHR ''1''" "digit_char 2 = CHR ''2''" "digit_char 3 = CHR ''3''"
  "digit_char 4 = CHR ''4''" "digit_char 5 = CHR ''5''" "digit_char 6 = CHR ''6''" "digit_char 7 = CHR ''7''"
  "digit_char 8 = CHR ''8''" "digit_char 9 = CHR ''9''"
  by code_simp+

lemmas text_run [run] = parse_mac_address_def parse_virtqueue_size_def from_str_radix_def to_digit_def show_radix.simps
  is_power_of_two_def count_ones_def parse_u64_def parse_arg_def config_try_from_str_def
  parse_io_interface_configs_def

lemma cli_tests_pass:
  "test_parse_mac = Some ()" "test_parse_mac_invalid_length = Some ()" "test_parse_mac_invalid_octet = Some ()"
  "test_parse_mac_malformed = Some ()" "test_parse_virtqueue_size = Some ()" "test_parse_virtqueue_size_non_pot = Some ()"
  "test_parse_virtqueue_size_invalid = Some ()" "test_parse_virtqueue_size_limits = Some ()"
  "test_parse_virtqueue_size_nan = Some ()"
  by (simp_all add: test_parse_mac_def test_parse_mac_invalid_length_def test_parse_mac_invalid_octet_def
    test_parse_mac_malformed_def test_parse_virtqueue_size_def test_parse_virtqueue_size_non_pot_def
    test_parse_virtqueue_size_invalid_def test_parse_virtqueue_size_limits_def test_parse_virtqueue_size_nan_def
    run del: run_del cong: run_cong)

section \<open>The configuration of a virtual machine\<close>

definition check_cfg :: "IoInterfaceConfig \<Rightarrow> u64 \<Rightarrow> u64 \<Rightarrow> u64 \<Rightarrow> u64 \<Rightarrow> unit option" where
  "check_cfg cfg ram ramsz pci pcisz = do {
     assert_that (ram_start cfg = ram);
     assert_that (ram_size cfg = ramsz);
     assert_that (pci_start cfg = pci);
     assert_that (pci_size cfg = pcisz)
   }"

text \<open>The error of reading the kernel command line plays no part: \<open>parse_configs\<close> fixes its type.\<close>

abbreviation parse_configs :: "string list \<Rightarrow> unit config_error + (u64 \<rightharpoonup> IoInterfaceConfig)" where
  "parse_configs \<equiv> parse_io_interface_configs"

definition test_parse_io_interfaces_one :: "unit option" where
  "test_parse_io_interfaces_one = do {
     let args = [''uservm=1,0x60000000,0x2000000,0xc0000000,0x80000''];
     configs \<leftarrow> unwrap_ok (parse_configs args);
     cfg \<leftarrow> configs 1;
     check_cfg cfg 0x60000000 0x2000000 0xc0000000 0x80000
   }"

definition test_parse_io_interfaces_many :: "unit option" where
  "test_parse_io_interfaces_many = do {
     let args = [''uservm=1,0x10000000,0x2000000,0x20000000,0x80000'',
                 ''uservm=2,0x30000000,0x2000000,0x40000000,0x80000'',
                 ''uservm=3,0x50000000,0x2000000,0x60000000,0x80000''];
     configs \<leftarrow> unwrap_ok (parse_configs args);
     cfg \<leftarrow> configs 1;
     check_cfg cfg 0x10000000 0x2000000 0x20000000 0x80000;
     cfg \<leftarrow> configs 2;
     check_cfg cfg 0x30000000 0x2000000 0x40000000 0x80000;
     cfg \<leftarrow> configs 3;
     check_cfg cfg 0x50000000 0x2000000 0x60000000 0x80000
   }"

definition test_parse_io_interfaces_empty :: "unit option" where
  "test_parse_io_interfaces_empty = do {
     let args = [];
     configs \<leftarrow> unwrap_ok (parse_configs args);
     assert_that (dom configs = {})
   }"

definition test_parse_io_interfaces_malformed :: "unit option" where
  "test_parse_io_interfaces_malformed = do {
     let args = [''uservm=1,0x10000000,0x2000000,0x20000000,x80000''];
     assert_that (is_err (parse_configs args));
     let args = [''uservm=,0x10000000,0x2000000,0x20000000,0x80000''];
     assert_that (is_err (parse_configs args));
     let args = [''uservm=1,0x10000000,0x20000000,0x80000''];
     assert_that (is_err (parse_configs args));
     let args = [''1,0x10000000,0x2000000,0x20000000,0x80000''];
     assert_that (is_err (parse_configs args))
   }"

lemma io_config_tests_pass:
  "test_parse_io_interfaces_one = Some ()" "test_parse_io_interfaces_many = Some ()" "test_parse_io_interfaces_malformed = Some ()"
  by (simp_all add: test_parse_io_interfaces_one_def test_parse_io_interfaces_many_def test_parse_io_interfaces_malformed_def
    check_cfg_def run del: run_del cong: run_cong)

lemma io_config_empty_test_passes: "test_parse_io_interfaces_empty = Some ()"
  by (simp add: test_parse_io_interfaces_empty_def parse_io_interface_configs_def run)

section \<open>Doorbells\<close>

text \<open>A fresh mapping is zeroed memory at some address; a test that should panic returns the error.\<close>

definition test_mapping_new :: "int \<Rightarrow> usize \<Rightarrow> MemoryMapping \<times> (int \<Rightarrow> u8)" where
  "test_mapping_new addr sz = (\<lparr>map_addr = addr, map_size = sz\<rparr>, \<lambda>_. 0)"

text \<open>The four bytes at an address as a number.\<close>

definition load_u32 :: "(int \<Rightarrow> u8) \<Rightarrow> int \<Rightarrow> u32" where
  "load_u32 mem addr = from_le_bytes [mem addr, mem (addr + 1), mem (addr + 2), mem (addr + 3)]"

definition test_doorbell :: "int \<Rightarrow> unit option" where
  "test_doorbell addr = do {
     let (mapping, mem) = test_mapping_new addr 4;
     doorbell \<leftarrow> unwrap_ok (doorbell_new mapping None);
     assert_that (load_u32 mem (doorbell_cookie doorbell) = 0);
     let mem = doorbell_ring Little mem (doorbell_cookie doorbell);
     assert_that (load_u32 mem (doorbell_cookie doorbell) = 1)
   }"

definition test_doorbell_offset :: "int \<Rightarrow> unit option" where
  "test_doorbell_offset addr = do {
     let offset = 4;
     let sz = 4;
     let (mapping, mem) = test_mapping_new addr (offset + sz);
     _ \<leftarrow> unwrap_ok (doorbell_new mapping (Some offset));
     Some ()
   }"

definition test_doorbell_invalid_offset :: "int \<Rightarrow> RpcError + MmioDoorbell" where
  "test_doorbell_invalid_offset addr =
     (let offset = 8;
          (mapping, mem) = test_mapping_new addr 4
      in doorbell_new mapping (Some offset))"

lemma doorbell_tests_pass:
  "test_doorbell addr = Some ()" "test_doorbell_offset addr = Some ()"
  "test_doorbell_invalid_offset addr = Inl (InvalidOffset 8 4)"
  by (simp_all add: test_doorbell_def test_doorbell_offset_def test_doorbell_invalid_offset_def test_mapping_new_def
    load_u32_def doorbell_new_def doorbell_cookie_def doorbell_ring_def to_ne_bytes_def run del: run_del cong: run_cong)

section \<open>Requests\<close>

text \<open>
  The items of the bindings and of the C functions that only the tests use: the request side of the queues and the
  replies, which the other end takes.
\<close>

record rpc_test_bindings = rpc_bindings +
  rpc_ioreq_slot :: "u64 \<Rightarrow> u32"
  RPC_MR0_MMIO_DIRECTION_READ :: u32
  IOBUF_NUM_PAGES :: nat

record ('r, 'p) rpc_test_ffi =
  t_ffi :: "('r, 'p) rpc_ffi"
  t_req_mmio_start :: "'r \<Rightarrow> u32 \<Rightarrow> u32 \<Rightarrow> u32 \<Rightarrow> u64 \<Rightarrow> u32 \<Rightarrow> u64 \<Rightarrow> int \<times> 'r"
  t_receive_response :: "'r \<Rightarrow> rpcmsg option \<times> 'r"

definition create_io_mapping :: "rpc_test_bindings \<Rightarrow> int \<Rightarrow> MemoryMapping" where
  "create_io_mapping b addr = fst (test_mapping_new addr (4096 * IOBUF_NUM_PAGES b))"

definition create_doorbell :: "int \<Rightarrow> MmioDoorbell option" where
  "create_doorbell addr = unwrap_ok (doorbell_new (fst (test_mapping_new addr 4)) None)"

definition create_rpc :: "rpc_test_bindings \<Rightarrow> ('r, 'p) rpc_test_ffi \<Rightarrow> int \<Rightarrow> int \<Rightarrow> 'r DriverRpc option" where
  "create_rpc b t a1 a2 = do {
     doorbell \<leftarrow> create_doorbell a2;
     unwrap_ok (driver_rpc_new (t_ffi t) (create_io_mapping b a1) doorbell)
   }"

definition enqueue_ioreq ::
    "('r, 'p) rpc_test_ffi \<Rightarrow> 'r DriverRpc \<Rightarrow> u32 \<Rightarrow> u32 \<Rightarrow> u32 \<Rightarrow> u64 \<Rightarrow> u8 \<Rightarrow> u64 \<Rightarrow> 'r DriverRpc option" where
  "enqueue_ioreq t rpc direction address_space slot address sz data = do {
     assert_that (\<not> rpc_poisoned rpc);
     let (r, vso_rpc) = t_req_mmio_start t (rpc_state rpc) direction address_space slot address (ucast sz) data;
     assert_that (r = 0);
     Some (rpc\<lparr>rpc_state := vso_rpc\<rparr>)
   }"

definition dequeue_ioreq_reply :: "('r, 'p) rpc_test_ffi \<Rightarrow> 'r DriverRpc \<Rightarrow> (rpcmsg \<times> 'r DriverRpc) option" where
  "dequeue_ioreq_reply t rpc = do {
     assert_that (\<not> rpc_poisoned rpc);
     let (ioreq, vso_rpc) = t_receive_response t (rpc_state rpc);
     ioreq \<leftarrow> ioreq;
     Some (ioreq, rpc\<lparr>rpc_state := vso_rpc\<rparr>)
   }"

definition assert_rpcmsg_eq ::
    "rpc_test_bindings \<Rightarrow> rpcmsg \<Rightarrow> u32 \<Rightarrow> u32 \<Rightarrow> u32 \<Rightarrow> u64 \<Rightarrow> u8 \<Rightarrow> u64 \<Rightarrow> unit option" where
  "assert_rpcmsg_eq b msg direction address_space slot address sz data = do {
     assert_that (direction = rpc_ioreq_direction b (mr0 msg));
     assert_that (address_space = rpc_ioreq_address_space b (mr0 msg));
     assert_that (slot = rpc_ioreq_slot b (mr0 msg));
     assert_that (address = mr1 msg);
     assert_that (ucast sz = rpc_ioreq_len b (mr0 msg));
     assert_that (data = mr2 msg)
   }"

definition expect_no_ioreqs :: "'w \<Rightarrow> IoRequest \<Rightarrow> (bytes option \<times> 'w) option" where
  "expect_no_ioreqs w ioreq = None"

definition test_no_ioreqs :: "endian \<Rightarrow> rpc_test_bindings \<Rightarrow> ('r, 'p) rpc_test_ffi \<Rightarrow> int \<Rightarrow> int \<Rightarrow> unit option" where
  "test_no_ioreqs e b t a1 a2 = do {
     rpc \<leftarrow> create_rpc b t a1 a2;
     (r, _, rpc) \<leftarrow> process_ioreq e b (t_ffi t) expect_no_ioreqs () rpc;
     assert_that (is_err r)
   }"

definition test_process_mmio_write :: "endian \<Rightarrow> rpc_test_bindings \<Rightarrow> ('r, 'p) rpc_test_ffi \<Rightarrow> int \<Rightarrow> int \<Rightarrow> unit option" where
  "test_process_mmio_write e b t a1 a2 = do {
     rpc \<leftarrow> create_rpc b t a1 a2;
     let direction = RPC_MR0_MMIO_DIRECTION_WRITE b;
     let address_space = RPC_ADDRESS_SPACE_GLOBAL b;
     let slot = 3;
     let address = 0xABBACAFE;
     let sz = 8;
     let data = (0x12345678 :: u64);
     rpc \<leftarrow> enqueue_ioreq t rpc direction address_space slot address sz data;
     let process_fn = (\<lambda>w ioreq. do {
       assert_that (req_address_space ioreq = MmioSpace);
       assert_that (req_address ioreq = address);
       assert_that (req_size ioreq = sz);
       assert_that (req_operation ioreq = IoWrite (to_ne_bytes e data));
       Some (None, w)
     });
     (r, _, rpc) \<leftarrow> process_ioreq e b (t_ffi t) process_fn () rpc;
     assert_that (is_ok r);
     (msg, rpc) \<leftarrow> dequeue_ioreq_reply t rpc;
     assert_rpcmsg_eq b msg direction address_space slot address sz data;
     (r, _, rpc) \<leftarrow> process_ioreq e b (t_ffi t) expect_no_ioreqs () rpc;
     assert_that (is_err r)
   }"

definition test_process_mmio_read :: "endian \<Rightarrow> rpc_test_bindings \<Rightarrow> ('r, 'p) rpc_test_ffi \<Rightarrow> int \<Rightarrow> int \<Rightarrow> unit option" where
  "test_process_mmio_read e b t a1 a2 = do {
     rpc \<leftarrow> create_rpc b t a1 a2;
     let direction = RPC_MR0_MMIO_DIRECTION_READ b;
     let address_space = RPC_ADDRESS_SPACE_GLOBAL b;
     let slot = 3;
     let address = 0xABBACAFE;
     let sz = 8;
     let data = (0x12345678 :: u64);
     let read_data = (0x1111222233334444 :: u64);
     rpc \<leftarrow> enqueue_ioreq t rpc direction address_space slot address sz data;
     let process_fn = (\<lambda>w ioreq. do {
       assert_that (req_address_space ioreq = MmioSpace);
       assert_that (req_address ioreq = address);
       assert_that (req_size ioreq = sz);
       assert_that (req_operation ioreq = IoRead);
       Some (Some (to_ne_bytes e read_data), w)
     });
     (r, _, rpc) \<leftarrow> process_ioreq e b (t_ffi t) process_fn () rpc;
     assert_that (is_ok r);
     (msg, rpc) \<leftarrow> dequeue_ioreq_reply t rpc;
     assert_rpcmsg_eq b msg direction address_space slot address sz read_data;
     (r, _, rpc) \<leftarrow> process_ioreq e b (t_ffi t) expect_no_ioreqs () rpc;
     assert_that (is_err r)
   }"

definition test_process_pci_config_write :: "endian \<Rightarrow> rpc_test_bindings \<Rightarrow> ('r, 'p) rpc_test_ffi \<Rightarrow> int \<Rightarrow> int \<Rightarrow> unit option" where
  "test_process_pci_config_write e b t a1 a2 = do {
     rpc \<leftarrow> create_rpc b t a1 a2;
     let direction = RPC_MR0_MMIO_DIRECTION_WRITE b;
     let device = 7;
     let slot = 3;
     let address = 0xABBACAFE;
     let sz = 4;
     let data = (0x12345678 :: u64);
     rpc \<leftarrow> enqueue_ioreq t rpc direction device slot address sz data;
     let process_fn = (\<lambda>w ioreq. do {
       assert_that (req_address_space ioreq = PciConfigSpace (ucast (device :: u32)));
       assert_that (req_address ioreq = address);
       assert_that (req_size ioreq = sz);
       assert_that (req_operation ioreq = IoWrite (to_ne_bytes e data));
       Some (None, w)
     });
     (r, _, rpc) \<leftarrow> process_ioreq e b (t_ffi t) process_fn () rpc;
     assert_that (is_ok r);
     (msg, rpc) \<leftarrow> dequeue_ioreq_reply t rpc;
     assert_rpcmsg_eq b msg direction device slot address sz data;
     (r, _, rpc) \<leftarrow> process_ioreq e b (t_ffi t) expect_no_ioreqs () rpc;
     assert_that (is_err r)
   }"

definition test_process_pci_config_read :: "endian \<Rightarrow> rpc_test_bindings \<Rightarrow> ('r, 'p) rpc_test_ffi \<Rightarrow> int \<Rightarrow> int \<Rightarrow> unit option" where
  "test_process_pci_config_read e b t a1 a2 = do {
     rpc \<leftarrow> create_rpc b t a1 a2;
     let direction = RPC_MR0_MMIO_DIRECTION_READ b;
     let device = 7;
     let slot = 3;
     let address = 0xABBACAFE;
     let sz = 4;
     let data = (0x12345678 :: u64);
     let read_data = (0x11112222 :: u64);
     rpc \<leftarrow> enqueue_ioreq t rpc direction device slot address sz data;
     let process_fn = (\<lambda>w ioreq. do {
       assert_that (req_address_space ioreq = PciConfigSpace (ucast (device :: u32)));
       assert_that (req_address ioreq = address);
       assert_that (req_size ioreq = sz);
       assert_that (req_operation ioreq = IoRead);
       Some (Some (to_ne_bytes e read_data), w)
     });
     (r, _, rpc) \<leftarrow> process_ioreq e b (t_ffi t) process_fn () rpc;
     assert_that (is_ok r);
     (msg, rpc) \<leftarrow> dequeue_ioreq_reply t rpc;
     assert_rpcmsg_eq b msg direction device slot address sz read_data;
     (r, _, rpc) \<leftarrow> process_ioreq e b (t_ffi t) expect_no_ioreqs () rpc;
     assert_that (is_err r)
   }"

text \<open>
  What the tests need of the C side, beyond \<open>rpc_queues\<close>: the start of a request appends a message from which the
  accessors read what was put in, acknowledging succeeds, and the reply is the message with the data.
\<close>

definition rpc_test_queues ::
    "rpc_test_bindings \<Rightarrow> ('r, 'p) rpc_test_ffi \<Rightarrow> ('r \<Rightarrow> rpcmsg list) \<Rightarrow> ('r \<Rightarrow> (rpcmsg \<times> u64) list) \<Rightarrow> bool" where
  "rpc_test_queues b t pending replies \<longleftrightarrow>
     rpc_queues (t_ffi t) pending replies \<and>
     (\<forall>a c. \<exists>r. vso_rpc_init (t_ffi t) a c = (0, r) \<and> pending r = [] \<and> replies r = []) \<and>
     (\<forall>r p d. fst (driver_rpc_ack_mmio_finish (t_ffi t) r p d) = 0) \<and>
     (\<forall>r d space address sz data.
        d \<in> {RPC_MR0_MMIO_DIRECTION_READ b, RPC_MR0_MMIO_DIRECTION_WRITE b} \<and> space \<in> {RPC_ADDRESS_SPACE_GLOBAL b, 7} \<and> sz \<in> {4, 8} \<longrightarrow>
        (\<exists>m r'. t_req_mmio_start t r d space 3 address sz data = (0, r') \<and> pending r' = pending r @ [m] \<and> replies r' = replies r \<and>
           rpc_ioreq_direction b (mr0 m) = d \<and> rpc_ioreq_address_space b (mr0 m) = space \<and> rpc_ioreq_slot b (mr0 m) = 3 \<and>
           rpc_ioreq_len b (mr0 m) = sz \<and> mr1 m = address \<and> mr2 m = data)) \<and>
     (\<forall>r m d rs. replies r = (m, d) # rs \<longrightarrow>
        (\<exists>r'. t_receive_response t r = (Some (m\<lparr>mr2 := d\<rparr>), r') \<and> pending r' = pending r)) \<and>
     RPC_MR0_MMIO_DIRECTION_READ b \<noteq> RPC_MR0_MMIO_DIRECTION_WRITE b \<and> RPC_ADDRESS_SPACE_GLOBAL b \<noteq> 7"

lemma rpc_round:
  assumes "rpc_test_queues b t pending replies" and "d \<in> {RPC_MR0_MMIO_DIRECTION_READ b, RPC_MR0_MMIO_DIRECTION_WRITE b}"
    and "space \<in> {RPC_ADDRESS_SPACE_GLOBAL b, 7}" and "sz \<in> {4, 8}"
  obtains r0 r1 m p r2 r3 r4 r5 where
    "vso_rpc_init (t_ffi t) a c = (0, r0)" "t_req_mmio_start t r0 d space 3 address sz data = (0, r1)"
    "rpc_ioreq_direction b (mr0 m) = d" "rpc_ioreq_address_space b (mr0 m) = space" "rpc_ioreq_slot b (mr0 m) = 3"
    "rpc_ioreq_len b (mr0 m) = sz" "mr1 m = address" "mr2 m = data"
    "rpcmsg_receive (t_ffi t) r1 = (Some p, r2)" "rpcmsg_read (t_ffi t) r2 p = m"
    "driver_rpc_ack_mmio_finish (t_ffi t) r2 p v = (0, r3)" "t_receive_response t r3 = (Some (m\<lparr>mr2 := v\<rparr>), r4)"
    "rpcmsg_receive (t_ffi t) r4 = (None, r5)"
proof -
  note laws = assms(1) [unfolded rpc_test_queues_def]
  note q = laws [THEN conjunct1]
  note init = laws [THEN conjunct2, THEN conjunct1, rule_format]
  note ack = laws [THEN conjunct2, THEN conjunct2, THEN conjunct1, rule_format]
  note start = laws [THEN conjunct2, THEN conjunct2, THEN conjunct2, THEN conjunct1, rule_format]
  note response = laws [THEN conjunct2, THEN conjunct2, THEN conjunct2, THEN conjunct2, THEN conjunct1, rule_format]
  from init obtain r0 where r0: "vso_rpc_init (t_ffi t) a c = (0, r0)" "pending r0 = []" "replies r0 = []" by metis
  from start [OF conjI [OF assms(2) conjI [OF assms(3,4)]], of r0 address data] obtain m r1 where
    r1: "t_req_mmio_start t r0 d space 3 address sz data = (0, r1)" "pending r1 = pending r0 @ [m]" "replies r1 = replies r0"
    and m: "rpc_ioreq_direction b (mr0 m) = d" "rpc_ioreq_address_space b (mr0 m) = space" "rpc_ioreq_slot b (mr0 m) = 3"
    "rpc_ioreq_len b (mr0 m) = sz" "mr1 m = address" "mr2 m = data" by blast
  from rpc_queuesD(2) [OF q, of r1 m "[]"] r1 r0 obtain p r2 where r2: "rpcmsg_receive (t_ffi t) r1 = (Some p, r2)"
    "pending r2 = []" "replies r2 = []" "rpcmsg_read (t_ffi t) r2 p = m" by auto
  from rpc_queuesD(3) [OF q, of r2 p v] ack [of r2 p v] r2 obtain r3 where
    r3: "driver_rpc_ack_mmio_finish (t_ffi t) r2 p v = (0, r3)" "pending r3 = []" "replies r3 = [(m, v)]" by auto
  from response [OF r3(3)] obtain r4 where r4: "t_receive_response t r3 = (Some (m\<lparr>mr2 := v\<rparr>), r4)" "pending r4 = pending r3" by blast
  from rpc_queuesD(1) [OF q, of r4] r4 r3 obtain r5 where "rpcmsg_receive (t_ffi t) r4 = (None, r5)" by auto
  then show thesis using that [OF r0(1) r1(1) m r2(1) r2(4) r3(1) r4(1)] by blast
qed

text \<open>Bindings and queues of this kind, with the fields of a request packed into the first word.\<close>

definition sample_bindings :: rpc_test_bindings where
  "sample_bindings =
     \<lparr>rpc_ioreq_address_space = (\<lambda>w. ucast (drop_bit 8 w AND 0xFF)), rpc_ioreq_direction = (\<lambda>w. ucast (w AND 1)),
      rpc_ioreq_len = (\<lambda>w. ucast (drop_bit 4 w AND 0xF)), RPC_ADDRESS_SPACE_GLOBAL = 0xFF, RPC_MR0_MMIO_DIRECTION_WRITE = 1,
      rpc_ioreq_slot = (\<lambda>w. ucast (drop_bit 16 w AND 0xFF)), RPC_MR0_MMIO_DIRECTION_READ = 0, IOBUF_NUM_PAGES = 2\<rparr>"

definition sample_queues :: "(rpcmsg list \<times> (rpcmsg \<times> u64) list, rpcmsg) rpc_test_ffi" where
  "sample_queues =
     \<lparr>t_ffi = list_ffi,
      t_req_mmio_start = (\<lambda>(ms, rs) d space slot address sz data.
        (0, (ms @ [\<lparr>mr0 = ucast d OR push_bit 4 (ucast sz) OR push_bit 8 (ucast space) OR push_bit 16 (ucast slot),
                    mr1 = address, mr2 = data\<rparr>], rs))),
      t_receive_response = (\<lambda>(ms, rs). case rs of [] \<Rightarrow> (None, (ms, rs)) | (m, d) # rs \<Rightarrow> (Some (m\<lparr>mr2 := d\<rparr>), (ms, rs)))\<rparr>"

lemma sample_test_queues: "rpc_test_queues sample_bindings sample_queues fst snd"
  by (auto simp: rpc_test_queues_def rpc_queues_def sample_bindings_def sample_queues_def list_ffi_def split: list.splits)

lemma from_ne_to_ne: "from_ne_bytes e (to_ne_bytes e (w :: u64)) = w"
  by (cases e) (simp_all add: from_ne_bytes_def to_ne_bytes_def from_to_le_bytes)

lemmas rpc_run = create_rpc_def create_doorbell_def create_io_mapping_def test_mapping_new_def doorbell_new_def driver_rpc_new_def
  enqueue_ioreq_def dequeue_ioreq_reply_def assert_rpcmsg_eq_def expect_no_ioreqs_def process_ioreq_def try_dequeue_ioreq_def
  try_complete_ioreq_def io_request_from_def from_ne_to_ne assert_that_def
  unwrap_ok_def is_ok_def is_err_def

lemma rpc_tests_pass:
  assumes "rpc_test_queues b t pending replies"
  shows "test_no_ioreqs e b t a1 a2 = Some ()" "test_process_mmio_write e b t a1 a2 = Some ()"
    "test_process_mmio_read e b t a1 a2 = Some ()" "test_process_pci_config_write e b t a1 a2 = Some ()"
    "test_process_pci_config_read e b t a1 a2 = Some ()"
proof -
  have ne: "RPC_MR0_MMIO_DIRECTION_READ b \<noteq> RPC_MR0_MMIO_DIRECTION_WRITE b" "RPC_ADDRESS_SPACE_GLOBAL b \<noteq> 7"
    using assms by (simp_all add: rpc_test_queues_def)
  note round = rpc_round [OF assms, where a = a1 and c = a2 and address = "0xABBACAFE" and data = "0x12345678"]
  show "test_process_mmio_write e b t a1 a2 = Some ()"
    by (rule round [where d = "RPC_MR0_MMIO_DIRECTION_WRITE b" and space = "RPC_ADDRESS_SPACE_GLOBAL b" and sz = 8 and v = "0x12345678"])
      (use ne in \<open>simp_all add: test_process_mmio_write_def rpc_run doorbell_cookie_def Let_def\<close>)
  show "test_process_mmio_read e b t a1 a2 = Some ()"
    by (rule round [where d = "RPC_MR0_MMIO_DIRECTION_READ b" and space = "RPC_ADDRESS_SPACE_GLOBAL b" and sz = 8 and v = "0x1111222233334444"])
      (use ne in \<open>simp_all add: test_process_mmio_read_def rpc_run doorbell_cookie_def Let_def\<close>)
  show "test_process_pci_config_write e b t a1 a2 = Some ()"
    by (rule round [where d = "RPC_MR0_MMIO_DIRECTION_WRITE b" and space = 7 and sz = 4 and v = "0x12345678"])
      (use ne in \<open>simp_all add: test_process_pci_config_write_def rpc_run doorbell_cookie_def Let_def\<close>)
  show "test_process_pci_config_read e b t a1 a2 = Some ()"
    by (rule round [where d = "RPC_MR0_MMIO_DIRECTION_READ b" and space = 7 and sz = 4 and v = "0x11112222"])
      (use ne in \<open>simp_all add: test_process_pci_config_read_def rpc_run doorbell_cookie_def Let_def\<close>)
  note laws = assms [unfolded rpc_test_queues_def]
  from laws [THEN conjunct2, THEN conjunct1, rule_format, of a1 a2] obtain r0 where
    r0: "vso_rpc_init (t_ffi t) a1 a2 = (0, r0)" "pending r0 = []" by metis
  moreover from rpc_queuesD(1) [OF laws [THEN conjunct1] r0(2)] obtain r1 where "rpcmsg_receive (t_ffi t) r0 = (None, r1)" by blast
  ultimately show "test_no_ioreqs e b t a1 a2 = Some ()"
    by (simp add: test_no_ioreqs_def rpc_run doorbell_cookie_def Let_def)
qed

end
