(* ===== verification/Spec2Isabelle.thy ===== *)
theory Spec2Isabelle
  imports Config_Steps Pci_Device Virtio_Build Io_Config Vhost_Cli Vhost_Safety
    Test_Config Test_Utils Test_Msix Test_Window Test_Program
begin

text \<open>
  Greens: PCI functions, virtio transport and a vhost-net device for seL4

  \<^bold>\<open>The program.\<close> Greens is a Rust toolkit for virtual PCI devices. The crate \<open>greens-pci\<close> keeps the
  configuration space of a function (registers, writable bits, BARs and the capability list), routes
  guest accesses to BAR regions, and implements the interrupt mechanisms INTx, MSI and MSI-X. The crate
  \<open>greens-pci-virtio\<close> builds the virtio PCI transport on it: the capabilities, the four structures in a BAR,
  and the window that reaches the BARs through the configuration space. The program
  \<open>greens-sel4-pci-vhost-net\<close> puts a vhost-net device behind that transport: its main loop takes the requests of
  the guest from the hypervisor through \<open>greens-sel4\<close>, serves each by a configuration or memory access to the
  device, and answers it; \<open>greens-sys-linux\<close> wraps the system calls and \<open>greens-core\<close> names the requests. A
  guest reaches the code by configuration accesses and BAR accesses; the host by interrupt signals.

  \<^bold>\<open>How the code is modelled.\<close> A \<open>u8\<close> to \<open>u64\<close> is a word of that width, and \<open>usize\<close> is a natural number with
  the overflow of 64 bits written out where the source checks it or panics. A \<open>Result\<close> is a sum, with
  \<open>Inl\<close> the error. A function that may panic returns an option, and \<open>None\<close> is the panic (or, for the loops
  written with \<open>partial_function\<close>, that it does not return). A function that changes state returns the
  result and the new state together, also with an error (\<open>('s, 'a) call\<close>). A trait is a record of
  functions or a group of arguments, and its provided methods are definitions over them. A type
  parameter that stands for state that a required method changes is passed and returned. The model is
  of a little-endian target of 64 bits without the feature \<open>pcie\<close>; only the byte order conversions
  and the messages of the hypervisor take the byte order as an argument.

  The kernel is a function from the calls made so far to the result of the next (\<open>kernel\<close>), and the
  history of calls with their results is threaded through everything that makes them, also the calls of
  implicit drops, in the order of the language. So a theorem for every kernel covers every sequence of
  successes and failures, and what is open after a run is a function of the history (\<open>live\<close>).

  \<^bold>\<open>Theories, in the order of the dependencies.\<close>

  \<^item> \<open>Greens_Prelude\<close>: bytes and words, slices, results, the lemmas and simplification sets all others share.
  \<^item> \<open>Pci_Types\<close>: \<open>lib.rs\<close>, \<open>registers.rs\<close>, \<open>bar.rs\<close>, \<open>capability.rs\<close>. Errors, register offsets, BARs, the trait
    \<open>PciCapability\<close> with its contract as the locale \<open>capability_contract\<close>.
  \<^item> \<open>Pci_Utils\<close>: \<open>utils/mod.rs\<close>. Ranges, windows, byte order.
  \<^item> \<open>Register_Block\<close>: \<open>utils/register_block.rs\<close>. The register traits; the locale \<open>writable_register_block\<close> states
    what an array of registers promises, and each register file interprets it.
  \<^item> \<open>Config_Space\<close>, \<open>Config_Bars\<close>, \<open>Config_Caps\<close>, \<open>Config_Steps\<close>: \<open>configuration_space.rs\<close>. The first holds the whole model
    and the guest accesses; the second the BAR slots, programming and size probes; the third the list
    of capabilities as an abstract list and its refinement; the fourth the step relation \<open>config_reach\<close> over
    all operations, with the invariants by rule induction.
  \<^item> \<open>Bar_Region\<close>: \<open>bar_region.rs\<close>, \<open>config_handler.rs\<close>.
  \<^item> \<open>Intx\<close>, \<open>Msi\<close>, \<open>Msix\<close>: \<open>intx.rs\<close>, \<open>msi.rs\<close>, \<open>msix.rs\<close>. Message generation is shared between MSI and MSI-X as in the
    source; the evaluation of pending vectors is a loop whose termination is proved.
  \<^item> \<open>Interrupt\<close>: \<open>interrupt.rs\<close>. The handler interface as a record, its laws as the locale \<open>interrupt_mechanism\<close>,
    interpreted for no interrupt, INTx, MSI, MSI-X and the context, which a sublocale derives from
    its three parts.
  \<^item> \<open>Pci_Function\<close>: \<open>function.rs\<close>. Routing by address, the function composed of a device and an interrupt
    mechanism, and the builder. The locales \<open>device_model\<close> and \<open>pci_function\<close> state what a device promises and
    what the function then guarantees.
  \<^item> \<open>Pci_Device\<close>: \<open>device.rs\<close>. Splitting of accesses over the functions of a device.
  \<^item> \<open>Virtio_Caps\<close>, \<open>Virtio_Common\<close>: \<open>pci_cap.rs\<close> and the capabilities of the other files; \<open>pci_common_cfg.rs\<close>.
  \<^item> \<open>Virtio_Pci\<close>: \<open>pci_notify_cfg.rs\<close>, \<open>pci_isr_cfg.rs\<close>, \<open>pci_device_cfg.rs\<close>, \<open>pci.rs\<close>, \<open>pci_cfg_cap.rs\<close>. The device handler interprets
    \<open>device_model\<close> and the virtio function \<open>pci_function\<close>.
  \<^item> \<open>Virtio_Build\<close>: the construction of the virtio function and the properties of the whole.
  \<^item> \<open>Virtio_Invariant\<close>: the locale \<open>device_invariant\<close>. A property of the device that each of its operations keeps
    holds after every access to the function, over any BAR and through the window.
  \<^item> \<open>Rust_Text\<close>: the string functions of the standard library the program uses, with their inverses.
  \<^item> \<open>Io_Config\<close>: \<open>io_interface_config.rs\<close>. \<open>Vhost_Cli\<close>: the parsers of \<open>main.rs\<close> and the names of \<open>tap.rs\<close>.
  \<^item> \<open>Sys_Linux\<close>: \<open>greens-sys-linux\<close>, the kernel and the history of calls.
  \<^item> \<open>Sel4_Rpc\<close>: \<open>greens-core\<close>, \<open>ioreq.rs\<close>, \<open>rpc.rs\<close>, \<open>doorbell.rs\<close>. The queues implement an abstract queue of requests and
    list of replies.
  \<^item> \<open>Sel4_Interface\<close>: \<open>io_interface.rs\<close>. The resources it owns, and the step relation \<open>sel4_reach\<close> over all its
    operations with the life of the machine as invariant.
  \<^item> \<open>Vhost_Net\<close>: \<open>vhost_net.rs\<close> and the rest of \<open>tap.rs\<close>. \<open>activation_outcome\<close> is what activation promises.
  \<^item> \<open>Vhost_Program\<close>: \<open>pci.rs\<close>, \<open>device_model.rs\<close>, \<open>guest_memory.rs\<close> and \<open>main.rs\<close>; it interprets \<open>device_invariant\<close> for the calls a
    device makes and for its shape.
  \<^item> \<open>Virtio_Reads\<close>, \<open>Virtio_Writes\<close>: accesses of a virtio function in full. What an access does to the configuration
    space is a step of \<open>space_steps\<close>, and only the unfinished registers keep a read from returning.
  \<^item> \<open>Vhost_Safety\<close>: the invariant of the function in every state of the main loop, the requests that are served,
    and what a driver reads of what it wrote.
  \<^item> \<open>Test_Run\<close>, \<open>Test_Config\<close>, \<open>Test_Utils\<close>, \<open>Test_Msi\<close>, \<open>Test_Msix\<close>, \<open>Test_Virtio\<close>, \<open>Test_Window\<close>, \<open>Test_Program\<close>: the unit tests of the
    repository as functions on the model, one for each \<open>#[test]\<close>, and the lemmas that they pass. They check the
    model against what the authors of the code expect of it. \<open>Test_Run\<close> holds the equations that execute the
    model inside the simplifier.

  \<^bold>\<open>What is proved.\<close> For the configuration space: guest accesses are refused exactly when they are
  misaligned or out of bounds and otherwise change exactly the writable bits; programming and probing of
  BARs; every reachable state keeps the BAR slots consistent and holds exactly the list of
  registered capabilities, so that walking the list ends. For interrupts: which messages are generated and
  which bits become pending, that evaluation ends and sends the pending unmasked vectors in order, over which
  runs the line of INTx follows its registers, what the context makes of each interrupt by the enable bits,
  and that a guest write is processed without a panic. For
  functions: routing finds the first BAR that contains the access, and a guest write keeps the
  invariant of the function whatever device and mechanism it is composed of. For virtio: the layout of the
  capabilities, the behaviour of the common configuration, that construction establishes the
  invariant, and exactly which configuration writes panic, also through the window: those with which
  the device itself panics. For the program: which command lines configure a machine; that requests are
  answered once and in order; that creating the interface leaks nothing whatever fails, and that the
  whole program closes what it opened, starts the machine at most once and waits only for a started
  one; the features offered and the order of the calls that activate the device; which requests end
  the program; and that its main loop ends only when the interface fails.

  Some theorems state behaviour that is not what the code means to do: the search for pending MSI-X
  vectors, the 64-bit size probe, the cached disable bit of INTx, MSI without masking, a cycle of
  capabilities, and in the common configuration the registers whose read panics, the queue select
  register that a wide store clears and the queue reset that is dropped; in the program the doorbell at the
  end of its region, activation without vectors, a second activation, and requests that are refused.

  \<^bold>\<open>Loops and bounds.\<close> Loops over arrays and ranges are structural recursion. The capability iterator and the
  evaluation of pending vectors are partial functions without fuel: that they return is a theorem on
  the states that registration can reach, and for the iterator a theorem shows a state on which it does
  not return. The main loop of the program is a partial function too; it returns exactly with the error
  of a failing interface. The bound \<open>offset + length data < 2 ^ 64\<close> on guest accesses holds for every slice in memory.
  The virtio theorems assume BARs of 32 bits, which construction establishes.

  \<^bold>\<open>Parameters.\<close> The virtio device and its queues (the crates \<open>virtio-device\<close> and \<open>virtio-queue\<close>, and the trait
  \<open>VirtioPciDevice\<close> that extends them) are the records \<open>virtio_device\<close> and \<open>virtio_queue\<close>; nothing is assumed of them. The
  interrupt controller is the list of the calls made to it; in the program these calls are made to the
  kernel when the access they belong to is over, while the calls that bind descriptors are made at once. The
  two methods of a device that act on the host, acknowledging the device status and taking a notification,
  return an option, with \<open>None\<close> the panic; it ends the access at once. The other methods only read and write
  the state of the device and are total.

  The bindings of the seL4 headers, which are generated, are \<open>rpc_bindings\<close>, \<open>sel4_bindings\<close> and \<open>rpc_ffi\<close>; the hypothesis
  \<open>rpc_queues\<close> states that the C functions are queues. The crates \<open>vhost\<close>, \<open>virtio-device\<close> and \<open>vm-memory\<close> and the constants
  of \<open>libc\<close> and \<open>virtio-bindings\<close> are the records of \<open>vhost_env\<close> and \<open>memory_crate\<close>. Of what they rely on, \<open>logs\<close> says that
  calls can be told apart afterwards, and \<open>backend_up\<close> that none fails. The acknowledgement of the device
  status belongs to \<open>virtio-device\<close>; it says what is called in between (\<open>ack_plan\<close>).

  \<^bold>\<open>Not modelled.\<close> The build script of \<open>greens-sel4\<close> runs a generator and a C compiler. Command line words are
  taken from the parsed structure, because \<open>argh\<close> is a library; the files \<open>/proc/cmdline\<close> and the output
  on the console are arguments or left out. Memory ordering and threads are not modelled: the program
  has one thread, and a poisoned lock is a field of the state. The derived \<open>Debug\<close> and \<open>Default\<close> instances
  are left out, and so is the test of the generated bindings.
\<close>

end
